(* ===== verification/Prelude.thy ===== *)
theory Prelude
  imports Main "HOL-Library.Multiset"
begin

text \<open>
  Shared vocabulary of the development: the exceptions of the modelled Python code and the
  result type that carries them, datetimes with and without a time zone, the string
  operations \<open>str.strip\<close> and \<open>str.upper\<close>, Python's stable \<open>sorted\<close>, and the generic
  lemmas on results and lists that the component theories use.

  Strings are ASCII strings: the identifiers, market labels, symbols and version names the
  modelled code normalises. Korean message texts are represented by datatypes that name the
  message and carry the values it interpolates.
\<close>

named_theorems result_simps \<open>rewriting of results bound in sequence\<close>
named_theorems wf_intros \<open>introduction rules for the well-formedness predicates\<close>

subsection \<open>Exceptions and results\<close>

datatype py_error =
    ValueError string
  | MarketSessionError string
  | LookupError string
  | KeyError string
  | AssertionError
  | DecimalException
  | ConcurrentUpdate string
  | IntegrityError string
  | DataError string

text \<open>A Python call either raises (\<open>Inl\<close>) or returns (\<open>Inr\<close>).\<close>

type_synonym 'a result = "py_error + 'a"

definition bindr :: "'a result \<Rightarrow> ('a \<Rightarrow> 'b result) \<Rightarrow> 'b result" where
  "bindr m f = (case m of Inl e \<Rightarrow> Inl e | Inr x \<Rightarrow> f x)"

lemma bindr_Inl [simp]: "bindr (Inl e) f = Inl e"
  and bindr_Inr [simp]: "bindr (Inr x) f = f x"
  by (simp_all add: bindr_def)

lemma bindr_eq_Inr [result_simps]:
  "bindr m f = Inr y \<longleftrightarrow> (\<exists>x. m = Inr x \<and> f x = Inr y)"
  by (cases m) auto

lemma bindr_eq_Inl [result_simps]:
  "bindr m f = Inl e \<longleftrightarrow> m = Inl e \<or> (\<exists>x. m = Inr x \<and> f x = Inl e)"
  by (cases m) auto

lemma bindr_cong [fundef_cong]:
  assumes "m = m'" and "\<And>x. m' = Inr x \<Longrightarrow> f x = g x"
  shows "bindr m f = bindr m' g"
  using assms by (cases m) auto

lemma bindrE:
  assumes "bindr m f = Inr y"
  obtains x where "m = Inr x" and "f x = Inr y"
  using assms by (auto simp: bindr_eq_Inr)

text \<open>A guard that raises: the shape of \<open>if c: raise e\<close> in front of the rest of a body.\<close>

definition raise_if :: "bool \<Rightarrow> py_error \<Rightarrow> 'a result \<Rightarrow> 'a result" where
  "raise_if c e m = (if c then Inl e else m)"

lemma raise_if_eq_Inr [simp]: "raise_if c e m = Inr y \<longleftrightarrow> \<not> c \<and> m = Inr y"
  by (simp add: raise_if_def)

lemma raise_if_True [simp]: "raise_if True e m = Inl e"
  and raise_if_False [simp]: "raise_if False e m = m"
  by (simp_all add: raise_if_def)

lemma raise_if_cong [fundef_cong]:
  "c = c' \<Longrightarrow> e = e' \<Longrightarrow> (\<not> c' \<Longrightarrow> m = m') \<Longrightarrow> raise_if c e m = raise_if c' e' m'"
  by (simp add: raise_if_def)

lemma raise_if_code [code]: "raise_if c e m = (if c then Inl e else m)"
  by (simp add: raise_if_def)

text \<open>A list comprehension whose element expression may raise: the first exception wins.\<close>

fun mapr :: "('a \<Rightarrow> 'b result) \<Rightarrow> 'a list \<Rightarrow> 'b list result" where
  "mapr f [] = Inr []"
| "mapr f (x # xs) = bindr (f x) (\<lambda>y. bindr (mapr f xs) (\<lambda>ys. Inr (y # ys)))"

lemma mapr_total: "(\<And>x. x \<in> set xs \<Longrightarrow> f x = Inr (g x)) \<Longrightarrow> mapr f xs = Inr (map g xs)"
  by (induction xs) auto

lemma mapr_Inr_length: "mapr f xs = Inr ys \<Longrightarrow> length ys = length xs"
  by (induction xs arbitrary: ys) (auto simp: bindr_eq_Inr)

subsection \<open>Datetimes\<close>

text \<open>
  An aware datetime is the instant it denotes, in microseconds since the Unix epoch (UTC);
  comparison and \<open>astimezone(UTC)\<close> depend on nothing else. A naive datetime has no instant;
  its payload is its local reading.
\<close>

type_synonym instant = int
type_synonym duration = int

datatype py_datetime = Aware instant | Naive int

fun is_aware :: "py_datetime \<Rightarrow> bool" where
  "is_aware (Aware _) = True"
| "is_aware (Naive _) = False"

fun utc_or_none :: "py_datetime \<Rightarrow> instant option" where
  "utc_or_none (Aware t) = Some t"
| "utc_or_none (Naive _) = None"

definition require_aware :: "string \<Rightarrow> py_datetime \<Rightarrow> instant result" where
  "require_aware msg d =
     (case utc_or_none d of None \<Rightarrow> Inl (ValueError msg) | Some t \<Rightarrow> Inr t)"

lemma require_aware_Inr [simp]: "require_aware msg d = Inr t \<longleftrightarrow> d = Aware t"
  by (cases d) (auto simp: require_aware_def)

lemma require_aware_Aware [simp]: "require_aware msg (Aware t) = Inr t"
  by simp

text \<open>The same check on an optional datetime that is only inspected when present.\<close>

definition require_aware_opt :: "string \<Rightarrow> py_datetime option \<Rightarrow> instant option result" where
  "require_aware_opt msg d =
     (case d of None \<Rightarrow> Inr None
      | Some v \<Rightarrow> bindr (require_aware msg v) (\<lambda>t. Inr (Some t)))"

lemma require_aware_opt_lift [simp]:
  "require_aware_opt msg (map_option Aware t) = Inr t"
  by (cases t) (auto simp: require_aware_opt_def)

subsection \<open>Strings\<close>

definition is_space :: "char \<Rightarrow> bool" where
  "is_space c \<longleftrightarrow> (let n = (of_char c :: nat) in (9 \<le> n \<and> n \<le> 13) \<or> (28 \<le> n \<and> n \<le> 32))"

definition upper_char :: "char \<Rightarrow> char" where
  "upper_char c =
     (let n = (of_char c :: nat) in if 97 \<le> n \<and> n \<le> 122 then char_of (n - 32) else c)"

definition py_upper :: "string \<Rightarrow> string" where
  "py_upper s = map upper_char s"

definition py_strip :: "string \<Rightarrow> string" where
  "py_strip s = rev (dropWhile is_space (rev (dropWhile is_space s)))"

definition strip_upper :: "string \<Rightarrow> string" where
  "strip_upper s = py_upper (py_strip s)"

lemma of_char_upper:
  "(of_char (upper_char c) :: nat) =
     (if 97 \<le> (of_char c :: nat) \<and> (of_char c :: nat) \<le> 122 then of_char c - 32 else of_char c)"
  by (auto simp: upper_char_def Let_def of_char_of)

lemma upper_char_idem [simp]: "upper_char (upper_char c) = upper_char c"
proof -
  have "\<not> (97 \<le> (of_char (upper_char c) :: nat) \<and> (of_char (upper_char c) :: nat) \<le> 122)"
    by (auto simp: of_char_upper)
  then show ?thesis by (subst upper_char_def) (auto simp: Let_def)
qed

lemma is_space_upper [simp]: "is_space (upper_char c) = is_space c"
  by (auto simp: is_space_def Let_def of_char_upper)

lemma py_upper_idem [simp]: "py_upper (py_upper s) = py_upper s"
  by (simp add: py_upper_def)

lemma dropWhile_upper:
  "dropWhile is_space (map upper_char s) = map upper_char (dropWhile is_space s)"
  by (induction s) auto

lemma py_strip_upper: "py_strip (py_upper s) = py_upper (py_strip s)"
  by (simp add: py_strip_def py_upper_def dropWhile_upper rev_map)

lemma dropWhile_id: "(xs \<noteq> [] \<Longrightarrow> \<not> P (hd xs)) \<Longrightarrow> dropWhile P xs = xs"
  by (cases xs) auto

lemma dropWhile_rev_dropWhile:
  assumes "dropWhile P xs = xs"
  shows "dropWhile P (rev (dropWhile P (rev xs))) = rev (dropWhile P (rev xs))"
proof (rule dropWhile_id)
  assume ne: "rev (dropWhile P (rev xs)) \<noteq> []"
  obtain zs where zs: "rev xs = zs @ dropWhile P (rev xs)"
    by (metis takeWhile_dropWhile_id)
  then have "xs = rev (dropWhile P (rev xs)) @ rev zs"
    by (metis rev_append rev_rev_ident)
  with ne have "hd xs = hd (rev (dropWhile P (rev xs)))" and "xs \<noteq> []"
    by (metis hd_append, auto)
  moreover from assms \<open>xs \<noteq> []\<close> have "\<not> P (hd xs)"
    by (metis hd_dropWhile)
  ultimately show "\<not> P (hd (rev (dropWhile P (rev xs))))" by simp
qed

lemma py_strip_idem [simp]: "py_strip (py_strip s) = py_strip s"
proof -
  have "dropWhile is_space (dropWhile is_space s) = dropWhile is_space s"
    by simp
  from dropWhile_rev_dropWhile [OF this] show ?thesis
    by (simp add: py_strip_def)
qed

lemma strip_upper_idem [simp]: "strip_upper (strip_upper s) = strip_upper s"
  by (simp add: strip_upper_def py_strip_upper)

subsection \<open>Python's sorted\<close>

text \<open>
  \<open>sorted(xs, key=f)\<close> and \<open>list.sort(key=f)\<close> are stable; so is \<^const>\<open>sort_key\<close>.
\<close>

lemma sort_key_filter_commute:
  "filter P (sort_key f xs) = sort_key f (filter P xs)"
  by (simp add: filter_sort)

lemma sorted_distinct_keys_unique:
  assumes "mset xs = mset ys" and "distinct (map f xs)"
  shows "sort_key f xs = sort_key f ys"
proof (rule map_sorted_distinct_set_unique [where f = f])
  have d: "distinct (map f ys)"
    using assms mset_eq_imp_distinct_iff [of "map f xs" "map f ys"] by simp
  from assms have s: "set xs = set ys" by (metis set_mset_mset)
  show "inj_on f (set (sort_key f xs) \<union> set (sort_key f ys))"
    using assms(2) s by (simp add: distinct_map)
  show "distinct (map f (sort_key f xs))" "distinct (map f (sort_key f ys))"
    using assms(2) d by (simp_all add: distinct_map)
  show "set (sort_key f xs) = set (sort_key f ys)" using s by simp
qed simp_all

end
