(* ===== verification/PyDecimal.thy ===== *)
theory PyDecimal
  imports Complex_Main Prelude
begin

text \<open>
  Arithmetic of Python's \<open>decimal.Decimal\<close> in the default context the program runs under:
  28 significant digits, \<open>ROUND_HALF_EVEN\<close>, exponents between \<open>Emin = -999999\<close> and
  \<open>Emax = 999999\<close>, traps on overflow, division by zero and invalid operations. A finite
  Decimal is its value, a rational; trailing zeros only matter for printing. Infinite and NaN
  values exist at the boundary, where the code tests \<open>is_finite()\<close> before it compares or
  computes.

  Every arithmetic operation computes the exact rational result and rounds it once
  (\<open>dec_fix\<close>), as the specification of the module says; \<open>dec_ctx\<close> adds the overflow trap.
  The lemmas show that this rounding is monotone, keeps zero and signs, is the identity on
  values that fit, and has relative error at most \<open>5 * 10^-28\<close>. They are stated once for a
  locale of monotone roundings and used through its interpretations.
\<close>

subsection \<open>Values\<close>

datatype decimal = DFinite rat | DInfinity bool | DNaN

fun dec_is_finite :: "decimal \<Rightarrow> bool" where
  "dec_is_finite (DFinite _) = True"
| "dec_is_finite _ = False"

fun finite_value :: "decimal \<Rightarrow> rat option" where
  "finite_value (DFinite q) = Some q"
| "finite_value _ = None"

text \<open>
  \<open>if not value.is_finite() or not ok(value): raise e\<close>, returning the value that passed.
\<close>

definition require_dec :: "py_error \<Rightarrow> (rat \<Rightarrow> bool) \<Rightarrow> decimal \<Rightarrow> rat result" where
  "require_dec e ok d =
     (case finite_value d of None \<Rightarrow> Inl e | Some q \<Rightarrow> if ok q then Inr q else Inl e)"

lemma require_dec_Inr [simp]: "require_dec e ok d = Inr q \<longleftrightarrow> d = DFinite q \<and> ok q"
  by (cases d) (auto simp: require_dec_def)

lemma require_dec_finite [simp]:
  "require_dec e ok (DFinite q) = (if ok q then Inr q else Inl e)"
  by (simp add: require_dec_def)

subsection \<open>The adjusted exponent\<close>

abbreviation pow10 :: "int \<Rightarrow> rat" where
  "pow10 k \<equiv> power_int 10 k"

text \<open>\<open>Decimal.adjusted()\<close>: the exponent of the leading digit of a positive value.\<close>

function adjusted :: "rat \<Rightarrow> int" where
  "adjusted q =
     (if 0 < q \<and> q < 1 then adjusted (q * 10) - 1
      else if 10 \<le> q then adjusted (q / 10) + 1 else 0)"
  by pat_completeness auto

termination
proof (relation "measures [\<lambda>q. if q < 1 then nat \<lceil>1 / q\<rceil> else 0, \<lambda>q::rat. nat \<lfloor>q\<rfloor>]")
  show "wf (measures [\<lambda>q. if q < 1 then nat \<lceil>1 / q\<rceil> else 0, \<lambda>q::rat. nat \<lfloor>q\<rfloor>])"
    by simp
next
  fix q :: rat
  assume q: "0 < q \<and> q < 1"
  have pos: "0 < nat \<lceil>1 / q\<rceil>" using q by simp
  have "nat \<lceil>1 / (q * 10)\<rceil> < nat \<lceil>1 / q\<rceil>" if "q * 10 < 1"
  proof -
    have big: "10 < 1 / q" using q that by (simp add: field_simps)
    have "of_int \<lceil>1 / (q * 10)\<rceil> < 1 / (q * 10) + 1"
      by linarith
    also have "\<dots> < 1 / q" using big by (simp add: field_simps)
    also have "\<dots> \<le> of_int \<lceil>1 / q\<rceil>" by (rule le_of_int_ceiling)
    finally have "\<lceil>1 / (q * 10)\<rceil> < \<lceil>1 / q\<rceil>" by (simp only: of_int_less_iff)
    with pos show ?thesis by linarith
  qed
  with q pos show "(q * 10, q) \<in> measures
      [\<lambda>q. if q < 1 then nat \<lceil>1 / q\<rceil> else 0, \<lambda>q::rat. nat \<lfloor>q\<rfloor>]"
    by auto
next
  fix q :: rat
  assume q: "10 \<le> q"
  have "\<lfloor>q / 10\<rfloor> < \<lfloor>q\<rfloor>" using q by linarith
  with q show "(q / 10, q) \<in> measures
      [\<lambda>q. if q < 1 then nat \<lceil>1 / q\<rceil> else 0, \<lambda>q::rat. nat \<lfloor>q\<rfloor>]"
    by auto
qed

declare adjusted.simps [simp del]

lemma pow10_pos [simp]: "0 < pow10 k"
  by simp

lemma pow10_Suc: "pow10 (k + 1) = 10 * pow10 k"
  by (simp add: power_int_add)

lemma pow10_less_iff [simp]: "pow10 a < pow10 b \<longleftrightarrow> a < b"
  by (metis linorder_not_less one_less_numeral_iff order_less_imp_le power_int_increasing
      power_int_strict_increasing semiring_norm(76))

lemma pow10_le_iff [simp]: "pow10 a \<le> pow10 b \<longleftrightarrow> a \<le> b"
  by (simp add: not_less [symmetric])

lemma adjusted_bounds:
  "0 < q \<Longrightarrow> pow10 (adjusted q) \<le> q \<and> q < pow10 (adjusted q + 1)"
proof (induction q rule: adjusted.induct)
  case (1 q)
  consider (small) "q < 1" | (big) "10 \<le> q" | (unit) "1 \<le> q" "q < 10" by linarith
  then show ?case
  proof cases
    case small
    with 1 have "pow10 (adjusted (q * 10)) \<le> q * 10 \<and> q * 10 < pow10 (adjusted (q * 10) + 1)"
      by simp
    moreover have "pow10 (adjusted (q * 10)) = 10 * pow10 (adjusted (q * 10) - 1)"
      using pow10_Suc [of "adjusted (q * 10) - 1"] by simp
    ultimately show ?thesis
      using small 1(3) by (simp add: adjusted.simps [of q] pow10_Suc)
  next
    case big
    with 1 have "pow10 (adjusted (q / 10)) \<le> q / 10 \<and> q / 10 < pow10 (adjusted (q / 10) + 1)"
      by simp
    moreover have "pow10 (adjusted (q / 10) + 1 + 1) = 10 * pow10 (adjusted (q / 10) + 1)"
      by (rule pow10_Suc)
    ultimately show ?thesis
      using big by (simp add: adjusted.simps [of q] pow10_Suc)
  next
    case unit
    then show ?thesis by (simp add: adjusted.simps [of q])
  qed
qed

lemma adjusted_unique:
  assumes "pow10 k \<le> q" and "q < pow10 (k + 1)"
  shows "adjusted q = k"
proof -
  have "0 < q" using assms(1) pow10_pos [of k] by linarith
  from adjusted_bounds [OF this] assms
  have "pow10 (adjusted q) < pow10 (k + 1)" and "pow10 k < pow10 (adjusted q + 1)"
    by linarith+
  then show ?thesis by simp
qed

lemma adjusted_mono:
  assumes "0 < a" and "a \<le> b"
  shows "adjusted a \<le> adjusted b"
proof -
  have "pow10 (adjusted a) < pow10 (adjusted b + 1)"
    using adjusted_bounds [of a] adjusted_bounds [of b] assms by linarith
  then show ?thesis by simp
qed

subsection \<open>Rounding to an integer\<close>

definition round_half_even :: "rat \<Rightarrow> int" where
  "round_half_even q =
     (let f = \<lfloor>q\<rfloor>; r = q - of_int f
      in if r < 1 / 2 then f
         else if 1 / 2 < r then f + 1
         else if even f then f else f + 1)"

text \<open>\<open>to_integral_value(rounding=ROUND_DOWN)\<close>: towards zero, whatever the precision.\<close>

definition round_down :: "rat \<Rightarrow> int" where
  "round_down q = (if 0 \<le> q then \<lfloor>q\<rfloor> else \<lceil>q\<rceil>)"

lemma round_half_even_of_int [simp]: "round_half_even (of_int n) = n"
  by (simp add: round_half_even_def)

lemma round_half_even_error: "\<bar>of_int (round_half_even q) - q\<bar> \<le> 1 / 2"
proof -
  have "0 \<le> q - of_int \<lfloor>q\<rfloor>" and "q - of_int \<lfloor>q\<rfloor> < 1" by linarith+
  then show ?thesis by (auto simp: round_half_even_def Let_def)
qed

lemma round_half_even_mono:
  assumes "a \<le> b"
  shows "round_half_even a \<le> round_half_even b"
proof (cases "\<lfloor>a\<rfloor> = \<lfloor>b\<rfloor>")
  case True
  with assms show ?thesis by (auto simp: round_half_even_def Let_def)
next
  case False
  with assms have "\<lfloor>a\<rfloor> + 1 \<le> \<lfloor>b\<rfloor>" by linarith
  moreover have "round_half_even a \<le> \<lfloor>a\<rfloor> + 1" and "\<lfloor>b\<rfloor> \<le> round_half_even b"
    by (auto simp: round_half_even_def Let_def)
  ultimately show ?thesis by linarith
qed

lemma round_down_of_int [simp]: "round_down (of_int n) = n"
  by (simp add: round_down_def)

lemma round_down_le: "0 \<le> q \<Longrightarrow> of_int (round_down q) \<le> q"
  by (simp add: round_down_def)

lemma round_down_nonneg: "0 \<le> q \<Longrightarrow> 0 \<le> round_down q"
  by (simp add: round_down_def)

lemma round_down_mono: "a \<le> b \<Longrightarrow> round_down a \<le> round_down b"
  by (auto simp: round_down_def floor_mono ceiling_mono
      intro: order_trans [of "\<lceil>a\<rceil>" 0 "\<lfloor>b\<rfloor>"])

subsection \<open>Rounding to the context\<close>

definition prec :: int where "prec = 28"
definition emax :: int where "emax = 999999"
definition emin :: int where "emin = -999999"
definition etiny :: int where "etiny = -1000026"

text \<open>The exponent of the last digit that the context keeps of a nonzero value.\<close>

definition quantum_exp :: "rat \<Rightarrow> int" where
  "quantum_exp q = max (adjusted \<bar>q\<bar> + 1 - prec) etiny"

definition dec_fix :: "rat \<Rightarrow> rat" where
  "dec_fix q =
     (if q = 0 then 0
      else let k = quantum_exp q in of_int (round_half_even (q / pow10 k)) * pow10 k)"

text \<open>Values that the context can hold without rounding.\<close>

definition representable :: "rat \<Rightarrow> bool" where
  "representable q \<longleftrightarrow>
     (\<exists>n k. q = of_int n * pow10 k \<and> \<bar>n\<bar> \<le> 10 ^ 28 \<and> etiny \<le> k)"

lemma round_half_even_abs_le:
  "\<bar>q\<bar> \<le> of_int m \<Longrightarrow> \<bar>round_half_even q\<bar> \<le> m"
  using round_half_even_mono [of q "of_int m"] round_half_even_mono [of "of_int (- m)" q]
  unfolding round_half_even_of_int by (simp add: abs_le_iff)

lemma dec_fix_representable: "representable (dec_fix q)"
proof (cases "q = 0")
  case True
  have "representable 0"
    unfolding representable_def etiny_def by (rule exI [of _ 0], rule exI [of _ 0]) simp
  with True show ?thesis by (simp add: dec_fix_def)
next
  case False
  let ?k = "quantum_exp q"
  have "\<bar>q\<bar> < pow10 (adjusted \<bar>q\<bar> + 1)" using adjusted_bounds [of "\<bar>q\<bar>"] False by simp
  also have "\<dots> \<le> pow10 (?k + 28)" by (simp add: quantum_exp_def prec_def)
  also have "\<dots> = 10 ^ 28 * pow10 ?k" by (simp add: power_int_add)
  finally have "\<bar>q / pow10 ?k\<bar> \<le> of_int (10 ^ 28)"
    by (simp add: abs_divide divide_le_eq)
  then have "\<bar>round_half_even (q / pow10 ?k)\<bar> \<le> 10 ^ 28"
    by (rule round_half_even_abs_le)
  moreover have "etiny \<le> ?k" by (simp add: quantum_exp_def)
  ultimately show ?thesis
    unfolding representable_def using False by (auto simp: dec_fix_def Let_def)
qed

lemma dec_fix_multiple:
  assumes "q = of_int n * pow10 k" and "quantum_exp q \<le> k"
  shows "dec_fix q = q"
proof (cases "q = 0")
  case False
  define d where "d = nat (k - quantum_exp q)"
  define e where "e = quantum_exp q"
  have "pow10 k = 10 ^ d * pow10 e"
    using assms(2)
    by (simp add: d_def e_def power_int_add [symmetric] power_int_of_nat [symmetric])
  then have "q / pow10 e = of_int (n * 10 ^ d)"
    by (simp add: assms(1) nonzero_divide_eq_eq)
  moreover from this have "of_int (n * 10 ^ d) * pow10 e = q"
    by (metis nonzero_eq_divide_eq less_irrefl pow10_pos)
  ultimately show ?thesis
    using False by (simp only: dec_fix_def Let_def e_def [symmetric] round_half_even_of_int if_False)
qed (simp add: dec_fix_def)

lemma representable_fix:
  assumes "representable q"
  shows "dec_fix q = q"
proof -
  obtain n k where q: "q = of_int n * pow10 k" and n: "\<bar>n\<bar> \<le> 10 ^ 28" and k: "etiny \<le> k"
    using assms by (auto simp: representable_def)
  have adj: "adjusted \<bar>q\<bar> \<le> j" if "q \<noteq> 0" "\<bar>q\<bar> < pow10 (j + 1)" for j
    using adjusted_bounds [of "\<bar>q\<bar>"] that by (metis add.commute add_le_cancel_left
        linorder_not_less order_le_less_trans pow10_less_iff zero_less_abs_iff zless_imp_add1_zle)
  consider "q = 0" | (small) "q \<noteq> 0" "\<bar>n\<bar> < 10 ^ 28" | (top) "q \<noteq> 0" "\<bar>n\<bar> = 10 ^ 28"
    using n by linarith
  then show ?thesis
  proof cases
    case small
    have "\<bar>of_int n :: rat\<bar> < 10 ^ 28"
      using small(2) by (metis of_int_abs of_int_less_iff of_int_numeral of_int_power)
    then have "\<bar>q\<bar> < pow10 (k + 27 + 1)"
      using q by (simp add: abs_mult power_int_add)
    from adj [OF small(1) this] k have "quantum_exp q \<le> k"
      by (simp add: quantum_exp_def prec_def)
    with q show ?thesis by (rule dec_fix_multiple)
  next
    case top
    have q': "q = of_int (sgn n) * pow10 (k + 28)"
    proof -
      have "n = sgn n * 10 ^ 28" using top(2) by (metis mult_sgn_abs)
      then have "of_int n = (of_int (sgn n) * 10 ^ 28 :: rat)"
        by (metis of_int_mult of_int_numeral of_int_power)
      then show ?thesis using q by (simp add: power_int_add)
    qed
    have "\<bar>of_int (sgn n) :: rat\<bar> \<le> 1" by (simp add: sgn_if)
    then have "\<bar>q\<bar> \<le> pow10 (k + 28)" using q' by (simp add: abs_mult mult_left_le_one_le)
    then have "\<bar>q\<bar> < pow10 (k + 28 + 1)"
      using pow10_less_iff [of "k + 28" "k + 28 + 1"] by linarith
    from adj [OF top(1) this] k have "quantum_exp q \<le> k + 28"
      by (simp add: quantum_exp_def prec_def)
    with q' show ?thesis by (rule dec_fix_multiple)
  qed (simp add: dec_fix_def)
qed

lemma round_half_even_minus: "round_half_even (- q) = - round_half_even q"
proof (cases "q = of_int \<lfloor>q\<rfloor>")
  case True
  then show ?thesis by (metis of_int_minus round_half_even_of_int)
next
  case False
  then have f: "\<lfloor>- q\<rfloor> = - \<lfloor>q\<rfloor> - 1"
    by (metis (no_types) ceiling_altdef ceiling_def minus_diff_eq uminus_add_conv_diff
        add.commute minus_minus of_int_1 minus_add_distrib)
  show ?thesis unfolding round_half_even_def f Let_def by auto
qed

lemma dec_fix_minus: "dec_fix (- q) = - dec_fix q"
  by (simp add: dec_fix_def quantum_exp_def round_half_even_minus Let_def)

lemma dec_fix_0 [simp]: "dec_fix 0 = 0"
  by (simp add: dec_fix_def)

lemma dec_fix_nonneg0:
  assumes "0 \<le> q"
  shows "0 \<le> dec_fix q"
proof -
  have "0 \<le> q / pow10 (quantum_exp q)" using assms by simp
  from round_half_even_mono [OF this] have "0 \<le> round_half_even (q / pow10 (quantum_exp q))"
    using round_half_even_of_int [of 0] by simp
  then show ?thesis by (simp add: dec_fix_def Let_def)
qed

lemma dec_fix_le_multiple:
  assumes "q \<noteq> 0" and "q \<le> pow10 j" and "quantum_exp q \<le> j"
  shows "dec_fix q \<le> pow10 j"
proof -
  let ?k = "quantum_exp q"
  have j: "pow10 j = of_int (10 ^ nat (j - ?k)) * pow10 ?k"
    using assms(3) by (simp add: power_int_add [symmetric] power_int_of_nat [symmetric])
  then have "q / pow10 ?k \<le> of_int (10 ^ nat (j - ?k))"
    using assms(2) by (simp add: divide_le_eq)
  from round_half_even_mono [OF this]
  have "of_int (round_half_even (q / pow10 ?k)) \<le> (of_int (10 ^ nat (j - ?k)) :: rat)"
    by (simp only: round_half_even_of_int of_int_le_iff)
  then show ?thesis
    using assms(1) j by (simp add: dec_fix_def Let_def mult_right_mono)
qed

lemma dec_fix_ge_multiple:
  assumes "pow10 j \<le> q" and "quantum_exp q \<le> j"
  shows "pow10 j \<le> dec_fix q"
proof -
  let ?k = "quantum_exp q"
  have q: "q \<noteq> 0" using assms(1) pow10_pos [of j] by (metis linorder_not_less)
  have j: "pow10 j = of_int (10 ^ nat (j - ?k)) * pow10 ?k"
    using assms(2) by (simp add: power_int_add [symmetric] power_int_of_nat [symmetric])
  then have "of_int (10 ^ nat (j - ?k)) \<le> q / pow10 ?k"
    using assms(1) by (simp add: le_divide_eq)
  from round_half_even_mono [OF this]
  have "(of_int (10 ^ nat (j - ?k)) :: rat) \<le> of_int (round_half_even (q / pow10 ?k))"
    by (simp only: round_half_even_of_int of_int_le_iff)
  then show ?thesis
    using q j by (simp add: dec_fix_def Let_def mult_right_mono)
qed

lemma dec_fix_mono_pos:
  assumes "0 < a" and "a \<le> b"
  shows "dec_fix a \<le> dec_fix b"
proof -
  have adj: "adjusted a \<le> adjusted b" using assms by (rule adjusted_mono)
  show ?thesis
  proof (cases "quantum_exp a = quantum_exp b")
    case True
    have "a / pow10 (quantum_exp a) \<le> b / pow10 (quantum_exp a)"
      using assms by (simp add: divide_right_mono)
    from round_half_even_mono [OF this] True assms show ?thesis
      by (simp add: dec_fix_def Let_def mult_right_mono)
  next
    case False
    with adj assms have lt: "quantum_exp a < quantum_exp b"
      by (auto simp: quantum_exp_def)
    with assms have j: "quantum_exp b = adjusted b - 27" "adjusted a < adjusted b"
      by (auto simp: quantum_exp_def prec_def)
    have "a \<le> pow10 (adjusted b)"
      using adjusted_bounds [of a] assms(1) j(2) pow10_le_iff [of "adjusted a + 1" "adjusted b"]
      by linarith
    with assms lt j have "dec_fix a \<le> pow10 (adjusted b)"
      by (intro dec_fix_le_multiple) auto
    also have "\<dots> \<le> dec_fix b"
      using adjusted_bounds [of b] assms j by (intro dec_fix_ge_multiple) auto
    finally show ?thesis .
  qed
qed

lemma dec_fix_mono:
  assumes "a \<le> b"
  shows "dec_fix a \<le> dec_fix b"
proof -
  consider "0 < a" | "b < 0" | (mixed) "a \<le> 0" "0 \<le> b" by linarith
  then show ?thesis
  proof cases
    case 2
    with assms dec_fix_mono_pos [of "- b" "- a"] show ?thesis by (simp add: dec_fix_minus)
  next
    case mixed
    have "dec_fix a \<le> 0" using mixed(1) dec_fix_nonneg0 [of "- a"] by (simp add: dec_fix_minus)
    also have "0 \<le> dec_fix b" using mixed(2) by (rule dec_fix_nonneg0)
    finally show ?thesis .
  qed (use assms in \<open>simp add: dec_fix_mono_pos\<close>)
qed

text \<open>
  The distance to the exact value is at most half a unit in the last place that is kept, so
  for values that are not subnormal at most five parts in \<open>10^28\<close>.
\<close>

lemma dec_fix_abs_error:
  assumes "q \<noteq> 0"
  shows "\<bar>dec_fix q - q\<bar> \<le> pow10 (quantum_exp q) / 2"
proof -
  let ?k = "quantum_exp q"
  have "dec_fix q - q = (of_int (round_half_even (q / pow10 ?k)) - q / pow10 ?k) * pow10 ?k"
    using assms by (simp add: dec_fix_def Let_def left_diff_distrib)
  then have "\<bar>dec_fix q - q\<bar> = \<bar>of_int (round_half_even (q / pow10 ?k)) - q / pow10 ?k\<bar> * pow10 ?k"
    by (simp add: abs_mult)
  also have "\<dots> \<le> 1 / 2 * pow10 ?k"
    by (intro mult_right_mono round_half_even_error) simp
  finally show ?thesis by simp
qed

definition unit_roundoff :: rat where
  "unit_roundoff = 5 / 10 ^ 28"

lemma dec_fix_rel_error:
  assumes "pow10 emin \<le> \<bar>q\<bar>"
  shows "\<bar>dec_fix q - q\<bar> \<le> unit_roundoff * \<bar>q\<bar>"
proof -
  have pos: "0 < \<bar>q\<bar>" using assms pow10_pos [of emin] by linarith
  have "pow10 emin < pow10 (adjusted \<bar>q\<bar> + 1)"
    using adjusted_bounds [OF pos] assms by linarith
  then have "quantum_exp q = adjusted \<bar>q\<bar> - 27"
    unfolding pow10_less_iff by (simp add: quantum_exp_def prec_def etiny_def emin_def)
  then have "pow10 (quantum_exp q) * 10 ^ 27 = pow10 (adjusted \<bar>q\<bar>)"
    by (simp add: power_int_diff)
  also have "\<dots> \<le> \<bar>q\<bar>" using adjusted_bounds [OF pos] by simp
  finally have "pow10 (quantum_exp q) / 2 \<le> unit_roundoff * \<bar>q\<bar>"
    by (simp add: unit_roundoff_def)
  moreover have "\<bar>dec_fix q - q\<bar> \<le> pow10 (quantum_exp q) / 2"
    using pos by (intro dec_fix_abs_error) simp
  ultimately show ?thesis by linarith
qed

subsection \<open>Monotone roundings\<close>

text \<open>
  What the components rely on: a rounding that is monotone, keeps zero and is idempotent
  never crosses a value it keeps, so comparisons against stored values survive it.
\<close>

locale monotone_rounding =
  fixes fx :: "rat \<Rightarrow> rat"
  assumes mono: "a \<le> b \<Longrightarrow> fx a \<le> fx b"
    and zero: "fx 0 = 0"
    and idem: "fx (fx a) = fx a"
begin

lemma nonneg: "0 \<le> a \<Longrightarrow> 0 \<le> fx a"
  using mono [of 0 a] zero by simp

lemma nonpos: "a \<le> 0 \<Longrightarrow> fx a \<le> 0"
  using mono [of a 0] zero by simp

lemma pos_imp: "0 < fx a \<Longrightarrow> 0 < a"
  using nonpos [of a] by linarith

lemma below_kept: "a \<le> b \<Longrightarrow> fx b = b \<Longrightarrow> fx a \<le> b"
  using mono [of a b] by simp

lemma above_kept: "b \<le> a \<Longrightarrow> fx b = b \<Longrightarrow> b \<le> fx a"
  using mono [of b a] by simp

lemma scaled_below_kept: "0 \<le> a \<Longrightarrow> 0 \<le> m \<Longrightarrow> m \<le> 1 \<Longrightarrow> fx a = a \<Longrightarrow> fx (a * m) \<le> a"
  by (intro below_kept) (simp_all add: mult_left_le)

end

interpretation dec: monotone_rounding dec_fix
  by unfold_locales
    (simp_all add: dec_fix_mono representable_fix dec_fix_representable)

interpretation trunc: monotone_rounding "\<lambda>q. of_int (round_down q)"
  by unfold_locales
    (simp_all add: round_down_mono, simp add: round_down_def)

subsection \<open>Operations in the context\<close>

definition dec_ctx :: "rat \<Rightarrow> rat result" where
  "dec_ctx q =
     (let r = dec_fix q
      in if r \<noteq> 0 \<and> emax < adjusted \<bar>r\<bar> then Inl DecimalException else Inr r)"

definition dadd :: "rat \<Rightarrow> rat \<Rightarrow> rat result" where "dadd a b = dec_ctx (a + b)"
definition dsub :: "rat \<Rightarrow> rat \<Rightarrow> rat result" where "dsub a b = dec_ctx (a - b)"
definition dmul :: "rat \<Rightarrow> rat \<Rightarrow> rat result" where "dmul a b = dec_ctx (a * b)"

definition ddiv :: "rat \<Rightarrow> rat \<Rightarrow> rat result" where
  "ddiv a b = (if b = 0 then Inl DecimalException else dec_ctx (a / b))"

definition dabs :: "rat \<Rightarrow> rat result" where "dabs a = dec_ctx \<bar>a\<bar>"

text \<open>\<open>sum(xs, start)\<close> over Decimals: one rounded addition per element, left to right.\<close>

fun dsum :: "rat \<Rightarrow> rat list \<Rightarrow> rat result" where
  "dsum acc [] = Inr acc"
| "dsum acc (x # xs) = bindr (dadd acc x) (\<lambda>s. dsum s xs)"

text \<open>
  \<open>quantize\<close> to the exponent \<open>k\<close> with \<open>ROUND_HALF_EVEN\<close>: an invalid operation when the
  result needs more digits than the context holds.
\<close>

definition quantize_half_even :: "int \<Rightarrow> rat \<Rightarrow> rat result" where
  "quantize_half_even k q =
     (let n = round_half_even (q / pow10 k)
      in if 10 ^ 28 \<le> \<bar>n\<bar> then Inl DecimalException else Inr (of_int n * pow10 k))"

lemma dec_ctx_Inr: "dec_ctx q = Inr r \<Longrightarrow> r = dec_fix q"
  by (auto simp: dec_ctx_def Let_def split: if_splits)

lemma dadd_Inr: "dadd a b = Inr r \<Longrightarrow> r = dec_fix (a + b)"
  and dsub_Inr: "dsub a b = Inr r \<Longrightarrow> r = dec_fix (a - b)"
  and dmul_Inr: "dmul a b = Inr r \<Longrightarrow> r = dec_fix (a * b)"
  and ddiv_Inr: "ddiv a b = Inr r \<Longrightarrow> b \<noteq> 0 \<and> r = dec_fix (a / b)"
  and dabs_Inr: "dabs a = Inr r \<Longrightarrow> r = dec_fix \<bar>a\<bar>"
  by (auto simp: dadd_def dsub_def dmul_def ddiv_def dabs_def dest: dec_ctx_Inr split: if_splits)

lemmas dec_op_Inr = dadd_Inr dsub_Inr dmul_Inr ddiv_Inr dabs_Inr

text \<open>
  Inside the exponent range no operation raises. \<open>mag_le E q\<close> bounds a magnitude by
  \<open>10^E\<close>; prices, quantities and budgets of the program are far below \<open>10^1000\<close>.
\<close>

definition mag_le :: "nat \<Rightarrow> rat \<Rightarrow> bool" where
  "mag_le E q \<longleftrightarrow> \<bar>q\<bar> \<le> pow10 (int E)"

lemma representable_pow10: "etiny \<le> k \<Longrightarrow> representable (pow10 k)"
  unfolding representable_def by (rule exI [of _ 1], rule exI [of _ k]) simp

lemma representable_int: "\<bar>n\<bar> \<le> 10 ^ 28 \<Longrightarrow> representable (of_int n)"
  unfolding representable_def by (rule exI [of _ n], rule exI [of _ 0]) (simp add: etiny_def)

lemma mag_fix:
  assumes "mag_le E q"
  shows "mag_le E (dec_fix q)"
proof -
  have rep: "dec_fix (pow10 (int E)) = pow10 (int E)"
    by (rule representable_fix [OF representable_pow10]) (simp add: etiny_def)
  have "dec_fix q \<le> pow10 (int E)" "dec_fix (- q) \<le> pow10 (int E)"
    using assms rep by (auto simp: mag_le_def abs_le_iff intro: dec.below_kept)
  then show ?thesis by (simp add: mag_le_def abs_le_iff dec_fix_minus)
qed

lemma mag_ctx:
  assumes "mag_le E q" and "int E \<le> emax"
  shows "dec_ctx q = Inr (dec_fix q)"
proof -
  let ?r = "dec_fix q"
  have "adjusted \<bar>?r\<bar> \<le> int E" if "?r \<noteq> 0"
  proof -
    have "pow10 (adjusted \<bar>?r\<bar>) \<le> pow10 (int E)"
      using adjusted_bounds [of "\<bar>?r\<bar>"] mag_fix [OF assms(1)] that
      by (simp add: mag_le_def)
    then show ?thesis unfolding pow10_le_iff .
  qed
  with assms(2) show ?thesis by (auto simp: dec_ctx_def Let_def)
qed

lemma mag_mult: "mag_le E a \<Longrightarrow> mag_le F b \<Longrightarrow> mag_le (E + F) (a * b)"
  unfolding mag_le_def abs_mult of_nat_add
  by (subst power_int_add) (auto intro: mult_mono)

lemma mag_add:
  assumes "mag_le E a" and "mag_le E b"
  shows "mag_le (E + 1) (a + b)" and "mag_le (E + 1) (a - b)"
proof -
  have "\<bar>a\<bar> + \<bar>b\<bar> \<le> 2 * pow10 (int E)" using assms by (simp add: mag_le_def)
  also have "\<dots> \<le> pow10 (int (E + 1))"
    using pow10_Suc [of "int E"] pow10_pos [of "int E"] by (simp add: add.commute)
  finally have *: "\<bar>a\<bar> + \<bar>b\<bar> \<le> pow10 (int (E + 1))" .
  show "mag_le (E + 1) (a + b)" "mag_le (E + 1) (a - b)"
    using * abs_triangle_ineq [of a b] abs_triangle_ineq4 [of a b]
    unfolding mag_le_def by linarith+
qed

lemma mag_le: "mag_le E q \<Longrightarrow> E \<le> F \<Longrightarrow> mag_le F q"
  unfolding mag_le_def by (meson of_nat_mono order_trans pow10_le_iff)

end
