(* ===== verification/IsoFormat.thy ===== *)
theory IsoFormat
  imports Prelude
begin

text \<open>
  \<open>datetime.isoformat()\<close> and \<open>date.isoformat()\<close> for UTC values, with the proleptic
  Gregorian calendar of the standard library's \<open>datetime\<close> module. The text of an instant is
  decodable, so two instants with the same text are the same instant; the idempotency keys of
  the position manager rest on this.
\<close>

subsection \<open>Padded decimal numerals\<close>

definition digit_char :: "int \<Rightarrow> char" where
  "digit_char n = char_of (48 + nat (n mod 10))"

fun pad_digits :: "nat \<Rightarrow> int \<Rightarrow> string" where
  "pad_digits 0 n = []"
| "pad_digits (Suc w) n = pad_digits w (n div 10) @ [digit_char n]"

definition digit_value :: "char \<Rightarrow> int" where
  "digit_value c = int (of_char c) - 48"

definition digits_value :: "string \<Rightarrow> int" where
  "digits_value s = foldl (\<lambda>a c. a * 10 + digit_value c) 0 s"

lemma digit_value_char: "digit_value (digit_char n) = n mod 10"
proof -
  have "48 + nat (n mod 10) < 256" by linarith
  then have "(of_char (digit_char n) :: nat) = 48 + nat (n mod 10)"
    by (simp add: digit_char_def of_char_of)
  then show ?thesis by (simp add: digit_value_def)
qed

lemma length_pad_digits [simp]: "length (pad_digits w n) = w"
  by (induction w arbitrary: n) auto

lemma digits_value_pad: "digits_value (pad_digits w n) = n mod 10 ^ w"
proof (induction w arbitrary: n)
  case 0
  show ?case by (simp add: digits_value_def)
next
  case (Suc w)
  have "digits_value (pad_digits (Suc w) n) = (n div 10) mod 10 ^ w * 10 + n mod 10"
    using Suc.IH [of "n div 10"] by (simp add: digits_value_def digit_value_char)
  also have "\<dots> = n mod (10 * 10 ^ w)"
    using zmod_zmult2_eq [of "10 ^ w" n 10] by simp
  finally show ?case by simp
qed

lemma digit_char_value: "int (of_char (digit_char n)) = 48 + n mod 10"
  using digit_value_char [of n] by (simp add: digit_value_def)

lemma pad_digits_chars:
  "c \<in> set (pad_digits w n) \<Longrightarrow> 48 \<le> (of_char c :: nat) \<and> (of_char c :: nat) \<le> 57"
proof (induction w arbitrary: n)
  case (Suc w)
  then show ?case
    using digit_char_value [of n] pos_mod_bound [of 10 n] pos_mod_sign [of 10 n] by auto
qed simp

text \<open>\<open>str(n)\<close> of a Python integer.\<close>

fun nat_digits :: "nat \<Rightarrow> string" where
  "nat_digits n =
     (if n < 10 then [digit_char (int n)] else nat_digits (n div 10) @ [digit_char (int (n mod 10))])"

declare nat_digits.simps [simp del]

definition py_str_int :: "int \<Rightarrow> string" where
  "py_str_int n = (if n < 0 then ''-'' @ nat_digits (nat (- n)) else nat_digits (nat n))"

lemma digits_value_snoc: "digits_value (s @ [c]) = digits_value s * 10 + digit_value c"
  by (simp add: digits_value_def)

lemma digits_value_nat_digits: "digits_value (nat_digits n) = int n"
proof (induction n rule: nat_digits.induct)
  case (1 n)
  show ?case
  proof (cases "n < 10")
    case True
    then show ?thesis
      by (simp add: nat_digits.simps [of n] digits_value_def digit_value_char)
  next
    case False
    with 1 have "digits_value (nat_digits n) = int (n div 10) * 10 + int (n mod 10)"
      by (simp add: nat_digits.simps [of n] digits_value_snoc digit_value_char zmod_int)
    then show ?thesis by (simp add: zdiv_int zmod_int)
  qed
qed

lemma digit_char_range: "48 \<le> (of_char (digit_char n) :: nat)" "(of_char (digit_char n) :: nat) \<le> 57"
  using digit_char_value [of n] pos_mod_bound [of 10 n] pos_mod_sign [of 10 n] by linarith+

lemma nat_digits_chars:
  "c \<in> set (nat_digits n) \<Longrightarrow> 48 \<le> (of_char c :: nat) \<and> (of_char c :: nat) \<le> 57"
proof (induction n rule: nat_digits.induct)
  case (1 n)
  then show ?case
    using digit_char_range by (auto simp: nat_digits.simps [of n] split: if_splits)
qed

lemma nat_digits_nonempty [simp]: "nat_digits n \<noteq> []"
  by (subst nat_digits.simps) simp

lemma py_str_int_pos_inject:
  "0 \<le> m \<Longrightarrow> 0 \<le> n \<Longrightarrow> py_str_int m = py_str_int n \<longleftrightarrow> m = n"
  by (metis digits_value_nat_digits int_nat_eq linorder_not_less py_str_int_def)

lemma py_str_int_pos_nonempty: "py_str_int n \<noteq> []"
  by (simp add: py_str_int_def)

lemma py_str_int_pos_chars: "0 \<le> n \<Longrightarrow> CHR ''|'' \<notin> set (py_str_int n)"
  using nat_digits_chars [of "CHR ''|''" "nat n"] by (auto simp: py_str_int_def)

subsection \<open>Dates\<close>

text \<open>A date is its proleptic Gregorian ordinal; day 1 is 1 January of year 1.\<close>

type_synonym date_ordinal = int

definition is_leap :: "int \<Rightarrow> bool" where
  "is_leap y \<longleftrightarrow> y mod 4 = 0 \<and> (y mod 100 \<noteq> 0 \<or> y mod 400 = 0)"

definition days_before_year :: "int \<Rightarrow> int" where
  "days_before_year y = (y - 1) * 365 + (y - 1) div 4 - (y - 1) div 100 + (y - 1) div 400"

definition days_in_month :: "int \<Rightarrow> int \<Rightarrow> int" where
  "days_in_month y m =
     (if m = 2 then if is_leap y then 29 else 28
      else if m \<in> {4, 6, 9, 11} then 30 else 31)"

text \<open>The month and day of a day-of-year counted from zero, scanning from month \<open>m\<close>.\<close>

fun scan_months :: "nat \<Rightarrow> int \<Rightarrow> int \<Rightarrow> int \<Rightarrow> int \<times> int" where
  "scan_months 0 y m n = (m, n + 1)"
| "scan_months (Suc k) y m n =
     (if n < days_in_month y m then (m, n + 1)
      else scan_months k y (m + 1) (n - days_in_month y m))"

fun days_between_months :: "nat \<Rightarrow> int \<Rightarrow> int \<Rightarrow> int" where
  "days_between_months 0 y m = 0"
| "days_between_months (Suc k) y m = days_in_month y m + days_between_months k y (m + 1)"

text \<open>The year arithmetic of \<open>_ord2ymd\<close>, with its two special cases at the end of a cycle.\<close>

definition ord2ymd :: "date_ordinal \<Rightarrow> int \<times> int \<times> int" where
  "ord2ymd ordinal =
     (let n = ordinal - 1;
          n400 = n div 146097; n = n mod 146097;
          n100 = n div 36524; n = n mod 36524;
          n4 = n div 1461; n = n mod 1461;
          n1 = n div 365; n = n mod 365;
          year = n400 * 400 + 1 + n100 * 100 + n4 * 4 + n1
      in if n1 = 4 \<or> n100 = 4 then (year - 1, 12, 31)
         else (year, scan_months 11 year 1 n))"

definition ymd2ord :: "int \<times> int \<times> int \<Rightarrow> date_ordinal" where
  "ymd2ord ymd =
     (case ymd of (y, m, d) \<Rightarrow> days_before_year y + days_between_months (nat (m - 1)) y 1 + d)"

lemma scan_months_sum:
  assumes "scan_months k y m n = (m', d)" and "1 \<le> m"
  shows "m \<le> m' \<and> m' \<le> m + int k \<and> days_between_months (nat (m' - m)) y m + d = n + 1"
  using assms
proof (induction k arbitrary: m n)
  case (Suc k)
  show ?case
  proof (cases "n < days_in_month y m")
    case False
    with Suc.prems have "scan_months k y (m + 1) (n - days_in_month y m) = (m', d)" by simp
    from Suc.IH [OF this] Suc.prems
    have *: "m + 1 \<le> m' \<and> m' \<le> m + 1 + int k
        \<and> days_between_months (nat (m' - (m + 1))) y (m + 1) + d = n - days_in_month y m + 1"
      by simp
    then have "nat (m' - m) = Suc (nat (m' - (m + 1)))" by linarith
    with * show ?thesis by simp
  qed (use Suc.prems in auto)
qed simp

lemma year_arith:
  fixes a b c d :: int
  assumes "0 \<le> b" "b \<le> 3" "0 \<le> c" "c \<le> 24" "0 \<le> d" "d \<le> 3"
  shows "days_before_year (a * 400 + 1 + b * 100 + c * 4 + d)
    = a * 146097 + b * 36524 + c * 1461 + d * 365"
proof -
  let ?z = "a * 400 + b * 100 + c * 4 + d"
  have "?z div 4 = a * 100 + b * 25 + c"
    using assms by (intro int_div_pos_eq [where r = d]) simp_all
  moreover have "?z div 100 = a * 4 + b"
    using assms by (intro int_div_pos_eq [where r = "c * 4 + d"]) simp_all
  moreover have "?z div 400 = a"
    using assms by (intro int_div_pos_eq [where r = "b * 100 + c * 4 + d"]) simp_all
  ultimately show ?thesis by (simp add: days_before_year_def algebra_simps)
qed

lemma days_between_11:
  "days_between_months 11 y 1 = (if is_leap y then 335 else 334)"
  by (simp add: eval_nat_numeral days_in_month_def)

lemma div_mod_range:
  fixes n m k :: int
  assumes "0 < m" and "0 < k"
  shows "0 \<le> n mod m div k" and "n mod m div k \<le> (m - 1) div k"
  using assms pos_mod_bound [of m n] by (auto intro: pos_imp_zdiv_nonneg_iff [THEN iffD2] zdiv_mono1)

lemma ord2ymd_regular:
  fixes n :: int
  assumes n: "n = ordinal - 1"
    and b: "n mod 146097 div 36524 \<noteq> 4"
    and d: "n mod 146097 mod 36524 mod 1461 div 365 \<noteq> 4"
  shows "ymd2ord (ord2ymd ordinal) = ordinal"
proof -
  define a b c d r where "a = n div 146097" and "b = n mod 146097 div 36524"
    and "c = n mod 146097 mod 36524 div 1461" and "d = n mod 146097 mod 36524 mod 1461 div 365"
    and "r = n mod 146097 mod 36524 mod 1461 mod 365"
  note defs = a_def b_def c_def d_def r_def
  have sum: "n = a * 146097 + b * 36524 + c * 1461 + d * 365 + r"
    unfolding defs by (metis (no_types) add.assoc div_mult_mod_eq)
  have bounds: "0 \<le> b" "b \<le> 3" "0 \<le> c" "c \<le> 24" "0 \<le> d" "d \<le> 3"
  proof -
    have "b \<le> 4" "c \<le> 24" "d \<le> 4" "0 \<le> b" "0 \<le> c" "0 \<le> d"
      unfolding b_def c_def d_def
      by (rule order_trans [OF div_mod_range(2)] div_mod_range(1), simp, simp, simp?)+
    moreover have "b \<noteq> 4" "d \<noteq> 4" using assms(2,3) unfolding b_def d_def .
    ultimately show "0 \<le> b" "b \<le> 3" "0 \<le> c" "c \<le> 24" "0 \<le> d" "d \<le> 3" by linarith+
  qed
  define y where "y = a * 400 + 1 + b * 100 + c * 4 + d"
  obtain m' d' where sc: "scan_months 11 y 1 r = (m', d')" by fastforce
  have "ord2ymd ordinal = (y, m', d')"
    using sc assms(2,3) unfolding ord2ymd_def Let_def n [symmetric]
    by (simp add: defs [symmetric] y_def [symmetric])
  moreover have "days_between_months (nat (m' - 1)) y 1 + d' = r + 1"
    using scan_months_sum [OF sc] by simp
  moreover have "days_before_year y = a * 146097 + b * 36524 + c * 1461 + d * 365"
    unfolding y_def using bounds by (rule year_arith)
  ultimately show ?thesis using sum n by (simp add: ymd2ord_def)
qed

lemma ord2ymd_cycle_end:
  fixes n :: int
  assumes n: "n = ordinal - 1"
    and e: "n mod 146097 div 36524 = 4 \<or> n mod 146097 mod 36524 mod 1461 div 365 = 4"
  shows "ymd2ord (ord2ymd ordinal) = ordinal"
proof -
  define a x where "a = n div 146097" and "x = n mod 146097"
  define b w where "b = x div 36524" and "w = x mod 36524"
  define c v where "c = w div 1461" and "v = w mod 1461"
  define d where "d = v div 365"
  have nx: "n = a * 146097 + x" by (simp add: a_def x_def)
  have xw: "x = b * 36524 + w" by (simp add: b_def w_def)
  have wv: "w = c * 1461 + v" by (simp add: c_def v_def)
  have r: "0 \<le> x" "x < 146097" "0 \<le> w" "w < 36524" "0 \<le> v" "v < 1461"
    by (simp_all add: x_def w_def v_def)
  have b: "0 \<le> b" using r(1) by (simp add: b_def pos_imp_zdiv_nonneg_iff)
  have c: "0 \<le> c" using r(3) by (simp add: c_def pos_imp_zdiv_nonneg_iff)
  define y where "y = a * 400 + b * 100 + c * 4 + d"
  have "ord2ymd ordinal = (y, 12, 31)"
    using e unfolding ord2ymd_def Let_def n [symmetric] y_def a_def b_def c_def d_def v_def w_def x_def
    by auto
  moreover have "is_leap y \<and> days_before_year y = a * 146097 + x - 365"
  proof (cases "b = 4")
    case True
    with xw r have "w = 0" "x = 146096" by linarith+
    then have "c = 0" "d = 0" by (simp_all add: c_def d_def v_def)
    with True have y: "y = a * 400 + 400" by (simp add: y_def)
    have "y = a * 400 + 1 + 3 * 100 + 24 * 4 + 3" using y by simp
    then have "days_before_year y = a * 146097 + 3 * 36524 + 24 * 1461 + 3 * 365"
      using year_arith [of 3 24 3 a] by simp
    moreover have "is_leap y"
    proof -
      have "y = (a + 1) * 400" "y = ((a + 1) * 100) * 4" using y by simp_all
      then show ?thesis unfolding is_leap_def by (metis mod_mult_self2_is_0)
    qed
    ultimately show ?thesis using \<open>x = 146096\<close> by simp
  next
    case False
    with e have d4: "d = 4" by (simp add: b_def d_def v_def w_def x_def)
    then have "1460 \<le> v" unfolding d_def by linarith
    with r have v: "v = 1460" by linarith
    have "b \<le> 3" using False xw r b by linarith
    moreover have "c \<le> 23" using wv v r by linarith
    moreover have y: "y = a * 400 + 1 + b * 100 + c * 4 + 3" using d4 by (simp add: y_def)
    ultimately have "days_before_year y = a * 146097 + b * 36524 + c * 1461 + 3 * 365"
      using year_arith [of b c 3 a] b c by simp
    moreover have "is_leap y"
    proof -
      have y4: "y = (a * 100 + b * 25 + c + 1) * 4" using y by simp
      have "y mod 100 = c * 4 + 4"
        using y c \<open>c \<le> 23\<close> by (intro int_mod_pos_eq [where q = "a * 4 + b"]) simp_all
      then show ?thesis using c unfolding is_leap_def by (subst y4) simp
    qed
    ultimately show ?thesis using xw wv v by simp
  qed
  ultimately show ?thesis
    using nx n by (simp add: ymd2ord_def days_between_11)
qed

lemma ymd2ord_ord2ymd: "ymd2ord (ord2ymd ordinal) = ordinal"
  using ord2ymd_regular [OF refl] ord2ymd_cycle_end [OF refl] by blast

lemma scan_months_day_pos:
  "0 \<le> n \<Longrightarrow> 1 \<le> snd (scan_months k y m n)"
  by (induction k arbitrary: m n) auto

lemma scan_months_day_le:
  "scan_months k y m n = (m', d) \<Longrightarrow> m' < m + int k \<Longrightarrow> d \<le> 31"
proof (induction k arbitrary: m n)
  case (Suc k)
  have "days_in_month y m \<le> 31" by (simp add: days_in_month_def)
  with Suc show ?case by (auto split: if_splits)
qed simp

lemma ord2ymd_ranges:
  assumes "ord2ymd ordinal = (y, m, d)"
  shows "1 \<le> m" and "m \<le> 12" and "1 \<le> d" and "d \<le> 31"
proof -
  define r where "r = (ordinal - 1) mod 146097 mod 36524 mod 1461 mod 365"
  have r: "0 \<le> r" "r \<le> 364" unfolding r_def by simp_all
  consider "m = 12" "d = 31" | "scan_months 11 y 1 r = (m, d)"
    using assms by (auto simp: ord2ymd_def Let_def r_def split: if_splits)
  then have "1 \<le> m \<and> m \<le> 12 \<and> 1 \<le> d \<and> d \<le> 31"
  proof cases
    case 2
    from scan_months_sum [OF 2]
    have sum: "1 \<le> m" "m \<le> 12" "days_between_months (nat (m - 1)) y 1 + d = r + 1" by simp_all
    have "d \<le> 31"
    proof (cases "m = 12")
      case True
      with sum(3) r show ?thesis using days_between_11 [of y] by (simp split: if_splits)
    next
      case False
      with sum 2 show ?thesis by (intro scan_months_day_le) auto
    qed
    moreover have "1 \<le> d" using scan_months_day_pos [OF r(1), of 11 y 1] 2 by simp
    ultimately show ?thesis using sum by simp
  qed simp
  then show "1 \<le> m" "m \<le> 12" "1 \<le> d" "d \<le> 31" by simp_all
qed

subsection \<open>The text of a date and of a UTC instant\<close>

definition iso_date :: "date_ordinal \<Rightarrow> string" where
  "iso_date ordinal =
     (case ord2ymd ordinal of (y, m, d) \<Rightarrow>
        pad_digits 4 y @ ''-'' @ pad_digits 2 m @ ''-'' @ pad_digits 2 d)"

definition day_us :: int where "day_us = 86400000000"
definition epoch_ordinal :: date_ordinal where "epoch_ordinal = 719163"

definition utc_date :: "instant \<Rightarrow> date_ordinal" where
  "utc_date t = t div day_us + epoch_ordinal"

definition iso_utc :: "instant \<Rightarrow> string" where
  "iso_utc t =
     (let us = t mod day_us; frac = us mod 1000000; sec = us div 1000000
      in iso_date (utc_date t) @ ''T'' @ pad_digits 2 (sec div 3600) @ '':''
         @ pad_digits 2 (sec div 60 mod 60) @ '':'' @ pad_digits 2 (sec mod 60)
         @ (if frac = 0 then [] else ''.'' @ pad_digits 6 frac) @ ''+00:00'')"

text \<open>Instants that a Python datetime can denote: years 1 to 9999.\<close>

definition datetime_range :: "instant \<Rightarrow> bool" where
  "datetime_range t \<longleftrightarrow>
     (case ord2ymd (utc_date t) of (y, m, d) \<Rightarrow> 1 \<le> y \<and> y \<le> 9999)"

definition field :: "nat \<Rightarrow> nat \<Rightarrow> string \<Rightarrow> int" where
  "field i w s = digits_value (take w (drop i s))"

definition parse_iso_utc :: "string \<Rightarrow> instant" where
  "parse_iso_utc s =
     (ymd2ord (field 0 4 s, field 5 2 s, field 8 2 s) - epoch_ordinal) * day_us
     + ((field 11 2 s * 60 + field 14 2 s) * 60 + field 17 2 s) * 1000000
     + (if length s = 25 then 0 else field 20 6 s)"

lemma field_append:
  "length p = i \<Longrightarrow> length q = w \<Longrightarrow> field i w (p @ q @ r) = digits_value q"
  by (simp add: field_def)

lemma pad_value: "0 \<le> n \<Longrightarrow> n < 10 ^ w \<Longrightarrow> digits_value (pad_digits w n) = n"
  by (simp add: digits_value_pad)

lemma parse_iso_shape:
  fixes Y M D h mi s :: string
  assumes "length Y = 4" "length M = 2" "length D = 2" "length h = 2" "length mi = 2" "length s = 2"
    and "length f = 0 \<or> (\<exists>g. f = ''.'' @ g \<and> length g = 6)"
  shows "parse_iso_utc ((Y @ ''-'' @ M @ ''-'' @ D) @ ''T'' @ h @ '':'' @ mi @ '':'' @ s @ f @ ''+00:00'') =
    (ymd2ord (digits_value Y, digits_value M, digits_value D) - epoch_ordinal) * day_us
     + ((digits_value h * 60 + digits_value mi) * 60 + digits_value s) * 1000000
     + (if f = [] then 0 else digits_value (tl f))"
  using assms by (auto simp: parse_iso_utc_def field_def)

lemma parse_iso_utc_iso_utc:
  assumes "datetime_range t"
  shows "parse_iso_utc (iso_utc t) = t"
proof -
  obtain y m d where ymd: "ord2ymd (utc_date t) = (y, m, d)" by (cases "ord2ymd (utc_date t)")
  define us where "us = t mod day_us"
  define sec where "sec = us div 1000000"
  define frac where "frac = us mod 1000000"
  have us: "0 \<le> us" "us < 86400000000" by (simp_all add: us_def day_us_def)
  then have sec: "0 \<le> sec" "sec < 86400" unfolding sec_def by linarith+
  have frac: "0 \<le> frac" "frac < 1000000" by (simp_all add: frac_def)
  have y: "digits_value (pad_digits 4 y) = y" "digits_value (pad_digits 2 m) = m"
      "digits_value (pad_digits 2 d) = d"
    using assms ord2ymd_ranges [OF ymd] ymd by (auto simp: datetime_range_def intro!: pad_value)
  have h: "digits_value (pad_digits 2 (sec div 3600)) = sec div 3600"
      "digits_value (pad_digits 2 (sec div 60 mod 60)) = sec div 60 mod 60"
      "digits_value (pad_digits 2 (sec mod 60)) = sec mod 60"
    using sec by (auto intro!: pad_value simp: pos_imp_zdiv_nonneg_iff)
  have f: "digits_value (pad_digits 6 frac) = frac" using frac by (intro pad_value) auto
  have hms: "(sec div 3600 * 60 + sec div 60 mod 60) * 60 + sec mod 60 = sec"
    using zdiv_zmult2_eq [of 60 sec 60] div_mult_mod_eq [of "sec div 60" 60] div_mult_mod_eq [of sec 60]
    by simp
  define fr where "fr = (if frac = 0 then [] else ''.'' @ pad_digits 6 frac)"
  have fr: "length fr = 0 \<or> (\<exists>g. fr = ''.'' @ g \<and> length g = 6)"
      "(if fr = [] then 0 else digits_value (tl fr)) = frac"
    by (auto simp: fr_def f)
  have "parse_iso_utc (iso_utc t) =
     (ymd2ord (y, m, d) - epoch_ordinal) * day_us + sec * 1000000 + frac"
    unfolding iso_utc_def Let_def iso_date_def ymd prod.case us_def [symmetric] sec_def [symmetric]
      frac_def [symmetric] fr_def [symmetric]
    by (subst parse_iso_shape [OF _ _ _ _ _ _ fr(1)]) (simp_all only: length_pad_digits y h hms fr(2))
  also have "ymd2ord (y, m, d) = utc_date t"
    using ymd2ord_ord2ymd [of "utc_date t"] ymd by simp
  also have "(utc_date t - epoch_ordinal) * day_us + sec * 1000000 + frac = t"
    using div_mult_mod_eq [of us 1000000] div_mult_mod_eq [of t day_us]
    by (simp add: utc_date_def sec_def frac_def us_def)
  finally show ?thesis .
qed

lemma iso_utc_inject:
  "datetime_range s \<Longrightarrow> datetime_range t \<Longrightarrow> iso_utc s = iso_utc t \<longleftrightarrow> s = t"
  by (metis parse_iso_utc_iso_utc)

lemma iso_utc_no_bar: "CHR ''|'' \<notin> set (iso_utc t)"
proof -
  have "CHR ''|'' \<notin> set (pad_digits w n)" for w n
    using pad_digits_chars [of "CHR ''|''" w n] by auto
  then show ?thesis
    by (auto simp: iso_utc_def iso_date_def Let_def split: prod.splits)
qed

end
