(* ===== verification/Position_Manager.thy ===== *)
theory Position_Manager
  imports PyDecimal IsoFormat Sha256
begin

text \<open>
  The PAPER position lifecycle of \<open>position_manager.py\<close>: the exit ladder of one managed
  position. A dataclass whose constructor validates is a record over the types of its raw
  Decimal and datetime fields; its \<open>__post_init__\<close> is a function from the raw record to the
  validated one (rational values, UTC instants). \<open>dataclasses.replace\<close> runs the validation
  again, so it is \<open>replace_state\<close>, never a bare record update.
\<close>

subsection \<open>Exit kinds and configuration\<close>

datatype exit_kind =
    STOP | STOP_GAP | PARTIAL_SELL | TRAILING_STOP | TRAILING_STOP_GAP | TIME_STOP | TREND_BROKEN

fun exit_kind_value :: "exit_kind \<Rightarrow> string" where
  "exit_kind_value STOP = ''STOP''"
| "exit_kind_value STOP_GAP = ''STOP_GAP''"
| "exit_kind_value PARTIAL_SELL = ''PARTIAL_SELL''"
| "exit_kind_value TRAILING_STOP = ''TRAILING_STOP''"
| "exit_kind_value TRAILING_STOP_GAP = ''TRAILING_STOP_GAP''"
| "exit_kind_value TIME_STOP = ''TIME_STOP''"
| "exit_kind_value TREND_BROKEN = ''TREND_BROKEN''"

record 'd position_manager_config =
  cfg_initial_stop_atr :: 'd
  cfg_partial_profit_atr :: 'd
  cfg_partial_fraction :: 'd
  cfg_trailing_stop_atr :: 'd
  cfg_early_trailing_activation_atr :: 'd
  cfg_early_trailing_stop_atr :: 'd
  cfg_post_partial_floor_atr :: 'd
  cfg_max_holding_bars :: int
  cfg_no_progress_atr :: 'd

type_synonym pm_config = "rat position_manager_config"

definition position_manager_config_post_init ::
    "decimal position_manager_config \<Rightarrow> pm_config result" where
  "position_manager_config_post_init c =
     (let e = ValueError ''position-manager ATR parameters must be positive'';
          pos = require_dec e (\<lambda>q. 0 < q)
      in bindr (pos (cfg_initial_stop_atr c)) (\<lambda>initial_stop.
         bindr (pos (cfg_partial_profit_atr c)) (\<lambda>partial_profit.
         bindr (pos (cfg_trailing_stop_atr c)) (\<lambda>trailing_stop.
         bindr (pos (cfg_early_trailing_activation_atr c)) (\<lambda>early_activation.
         bindr (pos (cfg_early_trailing_stop_atr c)) (\<lambda>early_stop.
         bindr (pos (cfg_no_progress_atr c)) (\<lambda>no_progress.
         bindr (require_dec (ValueError ''post_partial_floor_atr must be finite and non-negative'')
                  (\<lambda>q. 0 \<le> q) (cfg_post_partial_floor_atr c)) (\<lambda>floor_atr.
         bindr (require_dec (ValueError ''partial_fraction must be between zero and one'')
                  (\<lambda>q. 0 < q \<and> q < 1) (cfg_partial_fraction c)) (\<lambda>fraction.
         raise_if (cfg_max_holding_bars c < 1) (ValueError ''max_holding_bars must be positive'')
           (Inr \<lparr>cfg_initial_stop_atr = initial_stop,
                 cfg_partial_profit_atr = partial_profit,
                 cfg_partial_fraction = fraction,
                 cfg_trailing_stop_atr = trailing_stop,
                 cfg_early_trailing_activation_atr = early_activation,
                 cfg_early_trailing_stop_atr = early_stop,
                 cfg_post_partial_floor_atr = floor_atr,
                 cfg_max_holding_bars = cfg_max_holding_bars c,
                 cfg_no_progress_atr = no_progress\<rparr>))))))))))"

definition default_config :: pm_config where
  "default_config =
     \<lparr>cfg_initial_stop_atr = 2, cfg_partial_profit_atr = 1 / 2, cfg_partial_fraction = 3 / 10,
      cfg_trailing_stop_atr = 3, cfg_early_trailing_activation_atr = 1,
      cfg_early_trailing_stop_atr = 2, cfg_post_partial_floor_atr = 0,
      cfg_max_holding_bars = 2, cfg_no_progress_atr = 1 / 2\<rparr>"

subsection \<open>Exit-level versions\<close>

record ('d, 't) exit_level_version =
  elv_effective_at :: "'t option"
  elv_initial_atr :: 'd
  elv_initial_stop :: 'd
  elv_current_stop :: 'd

type_synonym exit_level = "(rat, instant) exit_level_version"

definition exit_level_version_post_init ::
    "(decimal, py_datetime) exit_level_version \<Rightarrow> exit_level result" where
  "exit_level_version_post_init v =
     bindr (require_aware_opt ''exit-level effective_at must be timezone-aware''
              (elv_effective_at v)) (\<lambda>effective_at.
     bindr (require_dec (ValueError ''exit-level initial_atr must be positive and finite'')
              (\<lambda>q. 0 < q) (elv_initial_atr v)) (\<lambda>initial_atr.
     bindr (require_dec (ValueError ''exit-level initial_stop must be positive and finite'')
              (\<lambda>q. 0 < q) (elv_initial_stop v)) (\<lambda>initial_stop.
     bindr (require_dec (ValueError ''exit-level current_stop must be positive and finite'')
              (\<lambda>q. 0 < q) (elv_current_stop v)) (\<lambda>current_stop.
     Inr \<lparr>elv_effective_at = effective_at, elv_initial_atr = initial_atr,
          elv_initial_stop = initial_stop, elv_current_stop = current_stop\<rparr>))))"

text \<open>Constructing or replacing a version from values that are finite and in UTC already.\<close>

definition new_exit_level :: "instant option \<Rightarrow> rat \<Rightarrow> rat \<Rightarrow> rat \<Rightarrow> exit_level result" where
  "new_exit_level effective_at initial_atr initial_stop current_stop =
     exit_level_version_post_init
       \<lparr>elv_effective_at = map_option Aware effective_at, elv_initial_atr = DFinite initial_atr,
        elv_initial_stop = DFinite initial_stop, elv_current_stop = DFinite current_stop\<rparr>"

subsection \<open>Managed position state\<close>

record ('d, 't) managed_position_state =
  ps_market :: string
  ps_symbol :: string
  ps_entry_price :: 'd
  ps_initial_atr :: 'd
  ps_initial_stop :: 'd
  ps_current_stop :: 'd
  ps_highest_close :: 'd
  ps_partial_exit_completed :: bool
  ps_entry_at :: 't
  ps_last_evaluated_at :: "'t option"
  ps_strategy_version :: string
  ps_position_cycle_id :: "int option"
  ps_exit_levels_effective_at :: "'t option"
  ps_exit_level_history :: "exit_level list"

type_synonym raw_position = "(decimal, py_datetime) managed_position_state"
type_synonym position = "(rat, instant) managed_position_state"

text \<open>The loop over \<open>exit_level_history\<close>; the result is the last known activation.\<close>

fun check_history :: "nat \<Rightarrow> instant option \<Rightarrow> exit_level list \<Rightarrow> instant option result" where
  "check_history index previous [] = Inr previous"
| "check_history index previous (v # vs) =
     raise_if (0 < index \<and> elv_effective_at v = None)
       (ValueError ''only the first exit-level version may be legacy'')
     (raise_if (case (previous, elv_effective_at v) of
                  (Some p, Some e) \<Rightarrow> e \<le> p | _ \<Rightarrow> False)
       (ValueError ''exit-level history must be strictly ordered'')
     (check_history (Suc index)
        (case elv_effective_at v of None \<Rightarrow> previous | Some e \<Rightarrow> Some e) vs))"

text \<open>The end of \<open>__post_init__\<close>: the history and the current version against each other.\<close>

definition check_exit_levels :: "exit_level list \<Rightarrow> instant option \<Rightarrow> unit result" where
  "check_exit_levels history effective_at =
     bindr (check_history 0 None history) (\<lambda>previous.
     raise_if (history \<noteq> [] \<and> effective_at = None)
       (ValueError ''current exit-level version needs an effective_at'')
    (raise_if (history \<noteq> []
               \<and> (case (previous, effective_at) of (Some p, Some e) \<Rightarrow> e \<le> p | _ \<Rightarrow> False))
       (ValueError ''current exit-level version must follow its history'')
    (Inr ())))"

definition managed_position_state_post_init :: "raw_position \<Rightarrow> position result" where
  "managed_position_state_post_init s =
     (let market = strip_upper (ps_market s); symbol = strip_upper (ps_symbol s);
          version = py_strip (ps_strategy_version s);
          pos = (\<lambda>msg. require_dec (ValueError msg) (\<lambda>q. 0 < q))
      in
      raise_if (market \<notin> {''KRX'', ''US''}) (ValueError ''market must be KRX or US'')
     (raise_if (symbol = [] \<or> version = [])
        (ValueError ''symbol and strategy_version are required'')
     (raise_if (case ps_position_cycle_id s of None \<Rightarrow> False | Some i \<Rightarrow> i < 1)
        (ValueError ''position_cycle_id must be positive'')
     (bindr (pos ''entry_price must be positive and finite'' (ps_entry_price s)) (\<lambda>entry_price.
      bindr (pos ''initial_stop must be positive and finite'' (ps_initial_stop s)) (\<lambda>initial_stop.
      bindr (pos ''current_stop must be positive and finite'' (ps_current_stop s)) (\<lambda>current_stop.
      bindr (pos ''highest_close must be positive and finite'' (ps_highest_close s)) (\<lambda>highest.
      bindr (pos ''initial_atr must be positive and finite'' (ps_initial_atr s)) (\<lambda>initial_atr.
      bindr (require_aware ''entry_at must be timezone-aware'' (ps_entry_at s)) (\<lambda>entry_at.
      bindr (require_aware_opt ''last_evaluated_at must be timezone-aware''
               (ps_last_evaluated_at s)) (\<lambda>last_evaluated.
      bindr (require_aware_opt ''exit_levels_effective_at must be timezone-aware''
               (ps_exit_levels_effective_at s)) (\<lambda>effective_at.
      bindr (check_exit_levels (ps_exit_level_history s) effective_at) (\<lambda>_.
      Inr \<lparr>ps_market = market, ps_symbol = symbol, ps_entry_price = entry_price,
           ps_initial_atr = initial_atr, ps_initial_stop = initial_stop,
           ps_current_stop = current_stop, ps_highest_close = highest,
           ps_partial_exit_completed = ps_partial_exit_completed s, ps_entry_at = entry_at,
           ps_last_evaluated_at = last_evaluated, ps_strategy_version = version,
           ps_position_cycle_id = ps_position_cycle_id s,
           ps_exit_levels_effective_at = effective_at,
           ps_exit_level_history = ps_exit_level_history s\<rparr>)))))))))))))"

definition raw_of_position :: "position \<Rightarrow> raw_position" where
  "raw_of_position s =
     \<lparr>ps_market = ps_market s, ps_symbol = ps_symbol s,
      ps_entry_price = DFinite (ps_entry_price s), ps_initial_atr = DFinite (ps_initial_atr s),
      ps_initial_stop = DFinite (ps_initial_stop s), ps_current_stop = DFinite (ps_current_stop s),
      ps_highest_close = DFinite (ps_highest_close s),
      ps_partial_exit_completed = ps_partial_exit_completed s,
      ps_entry_at = Aware (ps_entry_at s),
      ps_last_evaluated_at = map_option Aware (ps_last_evaluated_at s),
      ps_strategy_version = ps_strategy_version s,
      ps_position_cycle_id = ps_position_cycle_id s,
      ps_exit_levels_effective_at = map_option Aware (ps_exit_levels_effective_at s),
      ps_exit_level_history = ps_exit_level_history s\<rparr>"

definition replace_state :: "position \<Rightarrow> position result" where
  "replace_state s = managed_position_state_post_init (raw_of_position s)"

subsection \<open>Bars, signals and evaluations\<close>

record ('d, 't) position_bar_rec =
  pb_as_of :: 't
  pb_open :: 'd
  pb_high :: 'd
  pb_low :: 'd
  pb_close :: 'd
  pb_starts_at :: "'t option"
  pb_ends_at :: "'t option"

type_synonym raw_bar = "(decimal, py_datetime) position_bar_rec"
type_synonym position_bar = "(rat, instant) position_bar_rec"

definition position_bar_post_init :: "raw_bar \<Rightarrow> position_bar result" where
  "position_bar_post_init b =
     bindr (require_aware ''bar as_of must be timezone-aware'' (pb_as_of b)) (\<lambda>as_of.
     bindr (require_aware ''bar starts_at must be timezone-aware''
              (case pb_starts_at b of None \<Rightarrow> Aware as_of | Some t \<Rightarrow> t)) (\<lambda>starts_at.
     bindr (require_aware ''bar ends_at must be timezone-aware''
              (case pb_ends_at b of None \<Rightarrow> Aware as_of | Some t \<Rightarrow> t)) (\<lambda>ends_at.
     raise_if (ends_at < starts_at) (ValueError ''bar starts_at must not follow ends_at'')
    (let pos = require_dec (ValueError ''bar prices must be positive and finite'') (\<lambda>q. 0 < q)
     in bindr (pos (pb_open b)) (\<lambda>opn. bindr (pos (pb_high b)) (\<lambda>high.
        bindr (pos (pb_low b)) (\<lambda>low. bindr (pos (pb_close b)) (\<lambda>close.
        raise_if (high < max opn (max low close) \<or> min opn (min high close) < low)
          (ValueError ''bar OHLC is inconsistent'')
          (Inr \<lparr>pb_as_of = as_of, pb_open = opn, pb_high = high, pb_low = low,
                pb_close = close, pb_starts_at = Some starts_at,
                pb_ends_at = Some ends_at\<rparr>)))))))))"

text \<open>
  The message of a signal, named by its text, with the two values that the partial-sell
  messages interpolate: the ATR multiple and the percentage sold.
\<close>

datatype exit_reason =
    OpenBelowStop
  | LowTouchedStop
  | PartialTargetReached rat rat
  | TrendStructureBroken
  | NoProgressWithinHolding
  | IntradayOpenBelowStop
  | IntradayLowTouchedStop
  | IntradayPartialTargetReached rat rat

record position_exit_signal =
  sig_kind :: exit_kind
  sig_quantity_fraction :: rat
  sig_reference_price :: rat
  sig_signal_at :: instant
  sig_reason :: exit_reason
  sig_idempotency_key :: string
  sig_initial_atr :: rat
  sig_initial_stop :: rat
  sig_current_stop :: rat

record position_evaluation =
  ev_state :: position
  ev_signal :: "position_exit_signal option"

subsection \<open>Opening a position\<close>

definition initialize_position ::
    "string \<Rightarrow> string \<Rightarrow> decimal \<Rightarrow> decimal \<Rightarrow> py_datetime \<Rightarrow> string \<Rightarrow> int option
      \<Rightarrow> py_datetime option \<Rightarrow> decimal option \<Rightarrow> pm_config \<Rightarrow> position result" where
  "initialize_position market symbol entry_price initial_atr entry_at strategy_version
      position_cycle_id exit_levels_effective_at strategy_stop config =
     bindr (require_dec (ValueError ''entry_price must be positive and finite'')
              (\<lambda>q. 0 < q) entry_price) (\<lambda>entry.
     bindr (require_dec (ValueError ''initial_atr must be positive and finite'')
              (\<lambda>q. 0 < q) initial_atr) (\<lambda>atr.
     bindr (dmul (cfg_initial_stop_atr config) atr) (\<lambda>width.
     bindr (dsub entry width) (\<lambda>atr_stop.
     let initial_stop =
           (case Option.bind strategy_stop finite_value of
              None \<Rightarrow> atr_stop
            | Some stop \<Rightarrow> if 0 < stop \<and> stop < entry then max atr_stop stop else atr_stop)
     in raise_if (initial_stop \<le> 0) (ValueError ''initial stop must stay above zero'')
       (managed_position_state_post_init
          \<lparr>ps_market = market, ps_symbol = symbol, ps_entry_price = entry_price,
           ps_initial_atr = initial_atr, ps_initial_stop = DFinite initial_stop,
           ps_current_stop = DFinite initial_stop, ps_highest_close = entry_price,
           ps_partial_exit_completed = False, ps_entry_at = entry_at,
           ps_last_evaluated_at = None, ps_strategy_version = strategy_version,
           ps_position_cycle_id = position_cycle_id,
           ps_exit_levels_effective_at =
             Some (case exit_levels_effective_at of None \<Rightarrow> entry_at | Some t \<Rightarrow> t),
           ps_exit_level_history = []\<rparr>)))))"

subsection \<open>Changing exit levels\<close>

definition transition_exit_levels ::
    "position \<Rightarrow> rat \<Rightarrow> rat \<Rightarrow> rat \<Rightarrow> py_datetime \<Rightarrow> position result" where
  "transition_exit_levels s initial_atr initial_stop current_stop effective_at =
     bindr (require_aware ''exit-level effective_at must be timezone-aware'' effective_at)
       (\<lambda>activation.
     raise_if (activation < ps_entry_at s)
       (ValueError ''exit-level effective_at must not precede entry_at'')
    (if initial_atr = ps_initial_atr s \<and> initial_stop = ps_initial_stop s
        \<and> current_stop = ps_current_stop s then Inr s
     else raise_if (case ps_exit_levels_effective_at s of
                      None \<Rightarrow> False | Some t \<Rightarrow> activation < t)
       (ValueError ''exit-level activation must not precede current version'')
    (if ps_exit_levels_effective_at s = Some activation then
       replace_state (s\<lparr>ps_initial_atr := initial_atr,
                        ps_initial_stop := max (ps_initial_stop s) initial_stop,
                        ps_current_stop := max (ps_current_stop s) current_stop\<rparr>)
     else
       bindr (new_exit_level (ps_exit_levels_effective_at s) (ps_initial_atr s)
                (ps_initial_stop s) (ps_current_stop s)) (\<lambda>previous.
       replace_state (s\<lparr>ps_initial_atr := initial_atr, ps_initial_stop := initial_stop,
                        ps_current_stop := current_stop,
                        ps_exit_levels_effective_at := Some activation,
                        ps_exit_level_history := ps_exit_level_history s @ [previous]\<rparr>)))))"

text \<open>\<open>version.effective_at is not None and version.effective_at >= activation\<close>\<close>

definition active_from :: "instant \<Rightarrow> exit_level \<Rightarrow> bool" where
  "active_from activation v =
     (case elv_effective_at v of None \<Rightarrow> False | Some e \<Rightarrow> activation \<le> e)"

text \<open>
  The version list with a version that starts at the activation, and the index from which the
  stops are raised: the list itself when such a version exists, else a copy of the version in
  force with the raised stop is inserted.
\<close>

definition insert_activation ::
    "exit_level list \<Rightarrow> instant \<Rightarrow> rat \<Rightarrow> (nat \<times> exit_level list) result" where
  "insert_activation vs activation raised_stop =
     (let insertion = length (takeWhile (\<lambda>v. \<not> active_from activation v) vs)
      in if insertion < length vs \<and> elv_effective_at (vs ! insertion) = Some activation
         then Inr (insertion, vs)
         else if insertion = 0
         then Inl (ValueError ''exit-level history does not cover trailing activation'')
         else let source = vs ! (insertion - 1)
           in bindr (new_exit_level (Some activation) (elv_initial_atr source)
                       (elv_initial_stop source) (max (elv_current_stop source) raised_stop))
                (\<lambda>inserted.
                   Inr (insertion, take insertion vs @ [inserted] @ drop insertion vs)))"

text \<open>Storing a version list: the last version is the current one.\<close>

definition with_versions :: "position \<Rightarrow> exit_level list \<Rightarrow> position" where
  "with_versions s vs =
     s\<lparr>ps_initial_atr := elv_initial_atr (last vs), ps_initial_stop := elv_initial_stop (last vs),
       ps_current_stop := elv_current_stop (last vs),
       ps_exit_levels_effective_at := elv_effective_at (last vs),
       ps_exit_level_history := butlast vs\<rparr>"

definition raise_trailing_stop :: "position \<Rightarrow> rat \<Rightarrow> py_datetime \<Rightarrow> position result" where
  "raise_trailing_stop s raised_stop effective_at =
     raise_if (raised_stop \<le> 0) (ValueError ''trailing stop must be positive and finite'')
    (bindr (require_aware ''trailing stop effective_at must be timezone-aware'' effective_at)
       (\<lambda>activation.
     raise_if (activation < ps_entry_at s)
       (ValueError ''trailing stop effective_at must not precede entry_at'')
    (bindr (new_exit_level (ps_exit_levels_effective_at s) (ps_initial_atr s)
              (ps_initial_stop s) (ps_current_stop s)) (\<lambda>current.
     bindr (insert_activation (ps_exit_level_history s @ [current]) activation raised_stop)
       (\<lambda>(changed_from, vs).
     bindr (mapr (\<lambda>(index, v).
                    if changed_from \<le> index
                    then new_exit_level (elv_effective_at v) (elv_initial_atr v)
                           (elv_initial_stop v) (max (elv_current_stop v) raised_stop)
                    else Inr v)
              (zip [0..<length vs] vs)) (\<lambda>vs.
     replace_state (with_versions s vs)))))))"

subsection \<open>Signal identity\<close>

definition exit_signal_material ::
    "string \<Rightarrow> string \<Rightarrow> int option \<Rightarrow> exit_kind \<Rightarrow> instant \<Rightarrow> string" where
  "exit_signal_material market symbol cycle kind signal_at =
     market @ ''|'' @ symbol @ ''|''
     @ (case cycle of None \<Rightarrow> [] | Some i \<Rightarrow> py_str_int i) @ ''|''
     @ exit_kind_value kind @ ''|'' @ iso_utc signal_at"

definition exit_signal_key ::
    "string \<Rightarrow> string \<Rightarrow> exit_kind \<Rightarrow> py_datetime \<Rightarrow> int option \<Rightarrow> string result" where
  "exit_signal_key market symbol kind signal_at position_cycle_id =
     (let market = strip_upper market; symbol = strip_upper symbol
      in raise_if (market \<notin> {''KRX'', ''US''} \<or> symbol = [])
           (ValueError ''market and symbol must identify a PAPER position'')
        (bindr (require_aware ''signal_at must be timezone-aware'' signal_at) (\<lambda>utc.
         raise_if (case position_cycle_id of None \<Rightarrow> False | Some i \<Rightarrow> i < 1)
           (ValueError ''position_cycle_id must be positive'')
        (Inr (''position-exit:''
              @ take 24 (sha256_hex (exit_signal_material market symbol position_cycle_id kind utc)))))))"

subsection \<open>Levels in force for an observation\<close>

type_synonym levels = "rat \<times> rat \<times> rat"

definition exit_levels_cover_observation :: "position \<Rightarrow> instant \<Rightarrow> bool" where
  "exit_levels_cover_observation s starts_at =
     (case (case ps_exit_level_history s of
              [] \<Rightarrow> ps_exit_levels_effective_at s | v # _ \<Rightarrow> elv_effective_at v) of
        None \<Rightarrow> True | Some earliest \<Rightarrow> earliest \<le> starts_at)"

text \<open>The search of the history, newest version first.\<close>

fun find_version :: "instant \<Rightarrow> exit_level list \<Rightarrow> levels result" where
  "find_version starts_at [] =
     Inl (ValueError ''exit-level history does not cover the observation'')"
| "find_version starts_at (v # vs) =
     (if (case elv_effective_at v of None \<Rightarrow> True | Some e \<Rightarrow> e \<le> starts_at)
      then Inr (elv_initial_atr v, elv_initial_stop v, elv_current_stop v)
      else find_version starts_at vs)"

definition exit_levels_for_bar :: "position \<Rightarrow> position_bar \<Rightarrow> levels result" where
  "exit_levels_for_bar s bar =
     (case pb_starts_at bar of
        None \<Rightarrow> Inl (ValueError ''position bar starts_at is required'')
      | Some starts_at \<Rightarrow>
          if (case ps_exit_levels_effective_at s of None \<Rightarrow> True | Some e \<Rightarrow> e \<le> starts_at)
          then Inr (ps_initial_atr s, ps_initial_stop s, ps_current_stop s)
          else find_version starts_at (rev (ps_exit_level_history s)))"

definition exit_signal ::
    "position \<Rightarrow> position_bar \<Rightarrow> exit_kind \<Rightarrow> rat \<Rightarrow> rat \<Rightarrow> exit_reason \<Rightarrow> levels option
      \<Rightarrow> position_exit_signal result" where
  "exit_signal s bar kind fraction price reason exit_levels =
     (case (case exit_levels of
              None \<Rightarrow> (ps_initial_atr s, ps_initial_stop s, ps_current_stop s)
            | Some l \<Rightarrow> l) of
        (initial_atr, initial_stop, current_stop) \<Rightarrow>
          bindr (exit_signal_key (ps_market s) (ps_symbol s) kind (Aware (pb_as_of bar))
                   (ps_position_cycle_id s)) (\<lambda>key.
          Inr \<lparr>sig_kind = kind, sig_quantity_fraction = fraction, sig_reference_price = price,
               sig_signal_at = pb_as_of bar, sig_reason = reason, sig_idempotency_key = key,
               sig_initial_atr = initial_atr, sig_initial_stop = initial_stop,
               sig_current_stop = current_stop\<rparr>))"

subsection \<open>The protective stop\<close>

definition protective_stop :: "position \<Rightarrow> rat \<Rightarrow> rat \<Rightarrow> pm_config \<Rightarrow> rat option result" where
  "protective_stop s highest_close initial_atr config =
     (if ps_partial_exit_completed s then
        bindr (dmul (cfg_post_partial_floor_atr config) initial_atr) (\<lambda>floor_width.
        bindr (dadd (ps_entry_price s) floor_width) (\<lambda>floor_stop.
        bindr (dmul (cfg_trailing_stop_atr config) initial_atr) (\<lambda>width.
        bindr (dsub highest_close width) (\<lambda>trailing.
        Inr (Some (max floor_stop trailing))))))
      else
        bindr (dsub highest_close (ps_entry_price s)) (\<lambda>progress.
        bindr (dmul (cfg_early_trailing_activation_atr config) initial_atr) (\<lambda>activation.
        if progress < activation then Inr None
        else
          bindr (dmul (cfg_early_trailing_stop_atr config) initial_atr) (\<lambda>width.
          bindr (dsub highest_close width) (\<lambda>stop. Inr (Some stop))))))"

subsection \<open>Evaluating a completed daily bar\<close>

text \<open>
  The branch taken when nothing on the ladder fires: the highest close and the evaluation
  time move forward, and the stop is raised from the end of the bar on when the protective
  level exceeds the stop that was in force.
\<close>

definition hold_position ::
    "position \<Rightarrow> position_bar \<Rightarrow> rat \<Rightarrow> rat \<Rightarrow> pm_config \<Rightarrow> position_evaluation result" where
  "hold_position s bar initial_atr current_stop config =
     (let highest_close = max (ps_highest_close s) (pb_close bar)
      in bindr (protective_stop s highest_close initial_atr config) (\<lambda>protective.
         bindr (case protective of
                  None \<Rightarrow> Inr s
                | Some stop \<Rightarrow>
                    if current_stop < stop then
                      (case pb_ends_at bar of
                         None \<Rightarrow> Inl (ValueError ''position bar ends_at is required'')
                       | Some ends_at \<Rightarrow> raise_trailing_stop s stop (Aware ends_at))
                    else Inr s) (\<lambda>updated.
         bindr (replace_state (updated\<lparr>ps_highest_close := highest_close,
                                       ps_last_evaluated_at := Some (pb_as_of bar)\<rparr>)) (\<lambda>state.
         Inr \<lparr>ev_state = state, ev_signal = None\<rparr>))))"

text \<open>A full exit of the daily evaluation: the state only records that the bar was seen.\<close>

definition exit_all ::
    "position \<Rightarrow> position_bar \<Rightarrow> exit_kind \<Rightarrow> rat \<Rightarrow> exit_reason \<Rightarrow> levels
      \<Rightarrow> position_evaluation result" where
  "exit_all s bar kind price reason levels =
     bindr (replace_state (s\<lparr>ps_last_evaluated_at := Some (pb_as_of bar)\<rparr>)) (\<lambda>state.
     bindr (exit_signal s bar kind 1 price reason (Some levels)) (\<lambda>signal.
     Inr \<lparr>ev_state = state, ev_signal = Some signal\<rparr>))"

definition evaluate_position ::
    "position \<Rightarrow> position_bar \<Rightarrow> int \<Rightarrow> bool \<Rightarrow> pm_config \<Rightarrow> position_evaluation result" where
  "evaluate_position s bar bars_held trend_intact config =
     raise_if (pb_as_of bar \<le> ps_entry_at s) (ValueError ''position bar must be after entry_at'')
    (raise_if (case ps_last_evaluated_at s of None \<Rightarrow> False | Some t \<Rightarrow> pb_as_of bar \<le> t)
       (ValueError ''position bar must be newer than last_evaluated_at'')
    (raise_if (bars_held < 1) (ValueError ''bars_held must be positive'')
    (case pb_starts_at bar of
       None \<Rightarrow> Inl (ValueError ''position bar starts_at is required'')
     | Some starts_at \<Rightarrow>
     if \<not> exit_levels_cover_observation s starts_at then
       bindr (replace_state (s\<lparr>ps_last_evaluated_at := Some (pb_as_of bar)\<rparr>)) (\<lambda>state.
       Inr \<lparr>ev_state = state, ev_signal = None\<rparr>)
     else
     bindr (exit_levels_for_bar s bar) (\<lambda>levels.
     case levels of (initial_atr, initial_stop, current_stop) \<Rightarrow>
     let trailed = initial_stop < current_stop in
     if pb_open bar \<le> current_stop then
       exit_all s bar (if trailed then TRAILING_STOP_GAP else STOP_GAP)
         (pb_open bar) OpenBelowStop levels
     else if pb_low bar \<le> current_stop then
       exit_all s bar (if trailed then TRAILING_STOP else STOP)
         current_stop LowTouchedStop levels
     else
     bindr (dmul (cfg_partial_profit_atr config) initial_atr) (\<lambda>target_width.
     bindr (dadd (ps_entry_price s) target_width) (\<lambda>partial_target.
     if \<not> ps_partial_exit_completed s \<and> partial_target \<le> pb_high bar then
       bindr (replace_state
                (s\<lparr>ps_partial_exit_completed := True,
                   ps_highest_close := max (ps_highest_close s) (pb_close bar),
                   ps_last_evaluated_at := Some (pb_as_of bar)\<rparr>)) (\<lambda>updated.
       bindr (dmul (cfg_partial_fraction config) 100) (\<lambda>percent.
       bindr (exit_signal s bar PARTIAL_SELL (cfg_partial_fraction config)
                (if partial_target \<le> pb_open bar then pb_open bar else partial_target)
                (PartialTargetReached (cfg_partial_profit_atr config) percent)
                (Some levels)) (\<lambda>signal.
       Inr \<lparr>ev_state = updated, ev_signal = Some signal\<rparr>)))
     else if \<not> trend_intact then
       exit_all s bar TREND_BROKEN (pb_close bar) TrendStructureBroken levels
     else
     bindr (dsub (pb_close bar) (ps_entry_price s)) (\<lambda>progress.
     bindr (if cfg_max_holding_bars config \<le> bars_held
            then bindr (dmul (cfg_no_progress_atr config) initial_atr)
                   (\<lambda>minimum. Inr (progress < minimum))
            else Inr False) (\<lambda>time_stop.
     if time_stop then
       exit_all s bar TIME_STOP (pb_close bar) NoProgressWithinHolding levels
     else hold_position s bar initial_atr current_stop config))))))))"

subsection \<open>Evaluating completed intraday buckets\<close>

text \<open>The loop over the buckets in time order; the accumulator is the pending partial sell.\<close>

fun scan_intraday ::
    "position \<Rightarrow> duration \<Rightarrow> instant option \<Rightarrow> pm_config \<Rightarrow> position_exit_signal option
      \<Rightarrow> position_bar list \<Rightarrow> position_exit_signal option result" where
  "scan_intraday s interval after config partial [] = Inr partial"
| "scan_intraday s interval after config partial (bar # bars) =
     (if pb_as_of bar - interval < ps_entry_at s
      then scan_intraday s interval after config partial bars
      else if (case after of None \<Rightarrow> False | Some a \<Rightarrow> pb_as_of bar \<le> a)
      then scan_intraday s interval after config partial bars
      else case pb_starts_at bar of
        None \<Rightarrow> Inl (ValueError ''position bar starts_at is required'')
      | Some starts_at \<Rightarrow>
        if \<not> exit_levels_cover_observation s starts_at
        then scan_intraday s interval after config partial bars
        else
        bindr (exit_levels_for_bar s bar) (\<lambda>levels.
        case levels of (initial_atr, initial_stop, current_stop) \<Rightarrow>
        let trailed = initial_stop < current_stop in
        bindr (dmul (cfg_partial_profit_atr config) initial_atr) (\<lambda>target_width.
        bindr (dadd (ps_entry_price s) target_width) (\<lambda>partial_target.
        if pb_open bar \<le> current_stop then
          bindr (exit_signal s bar (if trailed then TRAILING_STOP_GAP else STOP_GAP) 1
                   (pb_open bar) IntradayOpenBelowStop (Some levels)) (\<lambda>signal. Inr (Some signal))
        else if pb_low bar \<le> current_stop then
          bindr (exit_signal s bar (if trailed then TRAILING_STOP else STOP) 1
                   current_stop IntradayLowTouchedStop (Some levels)) (\<lambda>signal. Inr (Some signal))
        else if partial = None \<and> \<not> ps_partial_exit_completed s
                \<and> partial_target \<le> pb_high bar then
          bindr (dmul (cfg_partial_fraction config) 100) (\<lambda>percent.
          bindr (exit_signal s bar PARTIAL_SELL (cfg_partial_fraction config)
                   (if partial_target \<le> pb_open bar then pb_open bar else partial_target)
                   (IntradayPartialTargetReached (cfg_partial_profit_atr config) percent)
                   (Some levels)) (\<lambda>signal.
          scan_intraday s interval after config (Some signal) bars))
        else scan_intraday s interval after config partial bars))))"

definition evaluate_position_intraday ::
    "position \<Rightarrow> position_bar list \<Rightarrow> duration \<Rightarrow> instant option \<Rightarrow> pm_config
      \<Rightarrow> position_exit_signal option result" where
  "evaluate_position_intraday s bars interval after config =
     raise_if (interval \<le> 0) (ValueError ''bar_interval must be positive'')
       (scan_intraday s interval after config None (sort_key pb_as_of bars))"

end
