(* ===== verification/Position_Timeline.thy ===== *)
theory Position_Timeline
  imports Position_Manager
begin

text \<open>
  Well-formed positions and the timeline of exit levels they stand for. A position stores its
  levels as a list of versions with activation times; what the rest of the program reads is
  the function from observation times to the levels in force. Looking levels up and raising
  the trailing stop are shown to implement the obvious operations on that function.
\<close>

subsection \<open>Well-formedness\<close>

definition level_wf :: "exit_level \<Rightarrow> bool" where
  "level_wf v \<longleftrightarrow> 0 < elv_initial_atr v \<and> 0 < elv_initial_stop v \<and> 0 < elv_current_stop v"

fun opt_less :: "instant option \<Rightarrow> instant option \<Rightarrow> bool" where
  "opt_less _ None = False"
| "opt_less None (Some _) = True"
| "opt_less (Some a) (Some b) = (a < b)"

definition current_level :: "position \<Rightarrow> exit_level" where
  "current_level s =
     \<lparr>elv_effective_at = ps_exit_levels_effective_at s, elv_initial_atr = ps_initial_atr s,
      elv_initial_stop = ps_initial_stop s, elv_current_stop = ps_current_stop s\<rparr>"

definition versions :: "position \<Rightarrow> exit_level list" where
  "versions s = ps_exit_level_history s @ [current_level s]"

definition position_wf :: "position \<Rightarrow> bool" where
  "position_wf s \<longleftrightarrow>
     ps_market s \<in> {''KRX'', ''US''} \<and> ps_symbol s \<noteq> [] \<and> ps_strategy_version s \<noteq> []
     \<and> strip_upper (ps_symbol s) = ps_symbol s
     \<and> py_strip (ps_strategy_version s) = ps_strategy_version s
     \<and> (\<forall>i. ps_position_cycle_id s = Some i \<longrightarrow> 1 \<le> i)
     \<and> 0 < ps_entry_price s \<and> 0 < ps_highest_close s
     \<and> (\<forall>v \<in> set (versions s). level_wf v)
     \<and> sorted_wrt opt_less (map elv_effective_at (versions s))"

lemma opt_less_trans: "opt_less a b \<Longrightarrow> opt_less b c \<Longrightarrow> opt_less a c"
  by (cases a; cases b; cases c) auto

lemma new_exit_level_Inr:
  "0 < atr \<Longrightarrow> 0 < i \<Longrightarrow> 0 < c \<Longrightarrow>
   new_exit_level e atr i c =
     Inr \<lparr>elv_effective_at = e, elv_initial_atr = atr, elv_initial_stop = i, elv_current_stop = c\<rparr>"
  by (simp add: new_exit_level_def exit_level_version_post_init_def)

lemma check_history_Suc:
  "check_history (Suc i) prev vs = Inr p \<longleftrightarrow>
     sorted_wrt opt_less (prev # map elv_effective_at vs) \<and> p = last (prev # map elv_effective_at vs)"
proof (induction vs arbitrary: i prev)
  case (Cons v vs)
  show ?case
  proof (cases "elv_effective_at v")
    case (Some e)
    have "check_history (Suc i) prev (v # vs) = Inr p \<longleftrightarrow>
        opt_less prev (Some e) \<and> check_history (Suc (Suc i)) (Some e) vs = Inr p"
      using Some by (cases prev) auto
    with Some show ?thesis
      unfolding Cons.IH by (auto intro: opt_less_trans)
  qed simp
qed auto

lemma check_history_0:
  "check_history 0 None vs = Inr p \<longleftrightarrow>
     sorted_wrt opt_less (map elv_effective_at vs)
     \<and> p = (if vs = [] then None else last (map elv_effective_at vs))"
proof (cases vs)
  case (Cons v vs')
  then have "check_history 0 None vs = check_history (Suc 0) (elv_effective_at v) vs'"
    by (auto split: option.split)
  then show ?thesis
    unfolding \<open>vs = v # vs'\<close> check_history_Suc by (simp add: check_history_Suc)
qed auto

lemma sorted_wrt_snoc_last:
  assumes "transp R"
  shows "sorted_wrt R (xs @ [x]) \<longleftrightarrow> sorted_wrt R xs \<and> (xs = [] \<or> R (last xs) x)"
proof (induction xs)
  case (Cons a xs)
  show ?case
  proof (cases "xs = []")
    case False
    have "sorted_wrt R (a # xs) \<Longrightarrow> R (last xs) x \<Longrightarrow> R a x"
      using False assms by (auto dest: transpD)
    with Cons False show ?thesis by auto
  qed auto
qed simp

lemma check_exit_levels_iff:
  "check_exit_levels vs c = Inr () \<longleftrightarrow> sorted_wrt opt_less (map elv_effective_at vs @ [c])"
proof -
  have t: "transp opt_less" by (auto intro: transpI opt_less_trans)
  have "opt_less p c \<longleftrightarrow> c \<noteq> None \<and> \<not> (case (p, c) of (Some a, Some b) \<Rightarrow> b \<le> a | _ \<Rightarrow> False)"
    for p by (cases p; cases c) auto
  then show ?thesis
    unfolding sorted_wrt_snoc_last [OF t] check_exit_levels_def bindr_eq_Inr check_history_0
    by auto
qed

lemma strip_upper_market: "m \<in> {''KRX'', ''US''} \<Longrightarrow> strip_upper m = m"
  by (auto simp: strip_upper_def py_strip_def py_upper_def upper_char_def is_space_def)

lemma replace_state_wf:
  assumes "position_wf s"
  shows "replace_state s = Inr s"
proof -
  have "check_exit_levels (ps_exit_level_history s) (ps_exit_levels_effective_at s) = Inr ()"
    using assms by (simp add: position_wf_def versions_def current_level_def check_exit_levels_iff)
  moreover have "strip_upper (ps_market s) = ps_market s"
    using assms by (intro strip_upper_market) (simp add: position_wf_def)
  ultimately show ?thesis
    using assms
    unfolding replace_state_def managed_position_state_post_init_def raw_of_position_def Let_def
    by (auto simp: position_wf_def versions_def current_level_def level_wf_def
        raise_if_def split: option.split)
qed

lemma post_init_wf:
  assumes "managed_position_state_post_init r = Inr s"
    and "\<forall>v \<in> set (ps_exit_level_history r). level_wf v"
  shows "position_wf s"
  using assms
  unfolding managed_position_state_post_init_def Let_def
  by (auto simp: result_simps check_exit_levels_iff position_wf_def versions_def
      current_level_def level_wf_def split: option.splits)

lemma replace_state_iff:
  assumes "\<forall>v \<in> set (ps_exit_level_history s). level_wf v"
    and "strip_upper (ps_market s) = ps_market s" "strip_upper (ps_symbol s) = ps_symbol s"
    and "py_strip (ps_strategy_version s) = ps_strategy_version s"
  shows "(\<exists>t. replace_state s = Inr t) \<longleftrightarrow> position_wf s"
proof
  assume "\<exists>t. replace_state s = Inr t"
  then obtain t where t: "replace_state s = Inr t" by blast
  have "position_wf t"
    using t assms(1) post_init_wf [of "raw_of_position s" t]
    by (simp add: replace_state_def raw_of_position_def)
  moreover have "t = s"
    using t assms(2-) unfolding replace_state_def managed_position_state_post_init_def
      raw_of_position_def Let_def by (cases s) (auto simp: result_simps split: if_splits)
  ultimately show "position_wf s" by simp
qed (auto simp: replace_state_wf)

subsection \<open>The timeline\<close>

definition started :: "instant \<Rightarrow> exit_level \<Rightarrow> bool" where
  "started t v = (case elv_effective_at v of None \<Rightarrow> True | Some e \<Rightarrow> e \<le> t)"

definition level_values :: "exit_level \<Rightarrow> levels" where
  "level_values v = (elv_initial_atr v, elv_initial_stop v, elv_current_stop v)"

definition levels_in :: "exit_level list \<Rightarrow> instant \<Rightarrow> levels option" where
  "levels_in vs t =
     (let xs = filter (started t) vs in if xs = [] then None else Some (level_values (last xs)))"

definition timeline :: "position \<Rightarrow> instant \<Rightarrow> levels option" where
  "timeline s = levels_in (versions s)"

lemma find_version_rev:
  "find_version t (rev vs) =
     (case levels_in vs t of
        None \<Rightarrow> Inl (ValueError ''exit-level history does not cover the observation'')
      | Some l \<Rightarrow> Inr l)"
proof (induction vs rule: rev_induct)
  case (snoc v vs)
  then show ?case
    by (auto simp: levels_in_def started_def level_values_def Let_def)
qed (simp add: levels_in_def)

lemma exit_levels_for_bar_timeline:
  assumes "pb_starts_at bar = Some t"
  shows "exit_levels_for_bar s bar =
    (case timeline s t of
       None \<Rightarrow> Inl (ValueError ''exit-level history does not cover the observation'')
     | Some l \<Rightarrow> Inr l)"
proof -
  have "timeline s t =
    (if started t (current_level s) then Some (level_values (current_level s))
     else levels_in (ps_exit_level_history s) t)"
    by (simp add: timeline_def versions_def levels_in_def Let_def)
  moreover have "started t (current_level s) \<longleftrightarrow>
      (case ps_exit_levels_effective_at s of None \<Rightarrow> True | Some e \<Rightarrow> e \<le> t)"
    by (simp add: started_def current_level_def)
  ultimately show ?thesis
    using assms
    by (simp add: exit_levels_for_bar_def find_version_rev level_values_def current_level_def)
qed

lemma started_mono:
  "opt_less (elv_effective_at v) (elv_effective_at w) \<Longrightarrow> started t w \<Longrightarrow> started t v"
  by (cases "elv_effective_at v"; cases "elv_effective_at w") (auto simp: started_def)

lemma cover_observation_timeline:
  assumes "sorted_wrt opt_less (map elv_effective_at (versions s))"
  shows "exit_levels_cover_observation s t \<longleftrightarrow> timeline s t \<noteq> None"
proof -
  obtain v vs where v: "versions s = v # vs" by (cases "versions s") (auto simp: versions_def)
  then have "exit_levels_cover_observation s t \<longleftrightarrow> started t v"
    by (cases "ps_exit_level_history s")
      (auto simp: exit_levels_cover_observation_def started_def versions_def current_level_def)
  also have "\<dots> \<longleftrightarrow> filter (started t) (versions s) \<noteq> []"
    using assms started_mono [of v _ t] unfolding v by (auto simp: filter_empty_conv)
  finally show ?thesis by (simp add: timeline_def levels_in_def Let_def level_values_def)
qed

subsection \<open>Raising the trailing stop\<close>

definition raised :: "rat \<Rightarrow> exit_level \<Rightarrow> exit_level" where
  "raised r v = v\<lparr>elv_current_stop := max (elv_current_stop v) r\<rparr>"

text \<open>What raising does to the list of versions: split at the activation, raise what follows.\<close>

definition raise_versions :: "rat \<Rightarrow> instant \<Rightarrow> exit_level list \<Rightarrow> exit_level list" where
  "raise_versions r a vs =
     (let pre = takeWhile (\<lambda>v. \<not> active_from a v) vs;
          post = dropWhile (\<lambda>v. \<not> active_from a v) vs
      in if post \<noteq> [] \<and> elv_effective_at (hd post) = Some a then pre @ map (raised r) post
         else pre @ raised r ((last pre)\<lparr>elv_effective_at := Some a\<rparr>) # map (raised r) post)"

lemma map_zip_from:
  "map (\<lambda>(i, v). if k \<le> i then f v else v) (zip [0..<length xs] xs)
   = take k xs @ map f (drop k xs)"
  by (rule nth_equalityI) (auto simp: nth_append min_def)

lemma raised_values [simp]:
  "elv_effective_at (raised r v) = elv_effective_at v"
  "level_values (raised r v) =
     (elv_initial_atr v, elv_initial_stop v, max (elv_current_stop v) r)"
  "raised r (raised r v) = raised r v"
  by (simp_all add: raised_def level_values_def)

lemma level_wf_raised: "level_wf v \<Longrightarrow> level_wf (raised r v)"
  by (auto simp: level_wf_def raised_def)

lemma mapr_raise:
  assumes "\<forall>v \<in> set xs. level_wf v"
  shows "mapr (\<lambda>(index, v).
       if k \<le> index
       then new_exit_level (elv_effective_at v) (elv_initial_atr v) (elv_initial_stop v)
              (max (elv_current_stop v) r)
       else Inr v) (zip [0..<length xs] xs) = Inr (take k xs @ map (raised r) (drop k xs))"
  unfolding map_zip_from [symmetric]
proof (rule mapr_total, clarify)
  fix i v assume "(i, v) \<in> set (zip [0..<length xs] xs)"
  then have "level_wf v" using assms by (auto dest: set_zip_rightD)
  then show "(if k \<le> i then new_exit_level (elv_effective_at v) (elv_initial_atr v)
        (elv_initial_stop v) (max (elv_current_stop v) r) else Inr v)
      = Inr (if k \<le> i then raised r v else v)"
    by (simp add: level_wf_def raised_def new_exit_level_Inr less_max_iff_disj)
qed

lemma versions_with_versions:
  assumes "vs \<noteq> []"
  shows "versions (with_versions s vs) = vs"
proof -
  have eta: "\<lparr>elv_effective_at = elv_effective_at v, elv_initial_atr = elv_initial_atr v,
         elv_initial_stop = elv_initial_stop v, elv_current_stop = elv_current_stop v\<rparr> = v"
    for v :: exit_level by (cases v) simp
  show ?thesis
    using assms by (simp add: versions_def current_level_def with_versions_def eta)
qed

text \<open>
  A version list split at the activation. \<open>pre\<close> started strictly before it, \<open>post\<close> at it or
  later, and something started by then unless \<open>post\<close> begins exactly there.
\<close>

definition split_at ::
    "instant \<Rightarrow> exit_level list \<Rightarrow> exit_level list \<Rightarrow> exit_level list \<Rightarrow> bool" where
  "split_at a vs pre post \<longleftrightarrow>
     pre = takeWhile (\<lambda>v. \<not> active_from a v) vs \<and> post = dropWhile (\<lambda>v. \<not> active_from a v) vs"

definition exact_at :: "instant \<Rightarrow> exit_level list \<Rightarrow> bool" where
  "exact_at a post \<longleftrightarrow> (case post of [] \<Rightarrow> False | v # _ \<Rightarrow> elv_effective_at v = Some a)"

lemma split_atD:
  assumes "split_at a vs pre post"
  shows "vs = pre @ post" "takeWhile (\<lambda>v. \<not> active_from a v) vs = pre"
    "dropWhile (\<lambda>v. \<not> active_from a v) vs = post"
  using assms by (simp_all add: split_at_def)

lemma split_at_pre:
  "split_at a vs pre post \<Longrightarrow> v \<in> set pre \<Longrightarrow> opt_less (elv_effective_at v) (Some a)"
  by (cases "elv_effective_at v") (auto simp: split_at_def active_from_def dest!: set_takeWhileD)

lemma split_at_post:
  assumes "split_at a vs pre post" and "sorted_wrt opt_less (map elv_effective_at vs)"
    and "v \<in> set post"
  shows "active_from a v"
proof -
  obtain p ps where ps: "post = p # ps" using assms(3) by (cases post) auto
  have p: "active_from a p"
    using assms(1) ps by (metis dropWhile_eq_Cons_conv split_atD(3))
  have "v = p \<or> opt_less (elv_effective_at p) (elv_effective_at v)"
    using assms(2,3) unfolding split_atD(1) [OF assms(1)] ps by (auto simp: sorted_wrt_append)
  with p show ?thesis
    by (cases "elv_effective_at p"; cases "elv_effective_at v") (auto simp: active_from_def)
qed

lemma split_at_post_after:
  assumes "split_at a vs pre post" and "sorted_wrt opt_less (map elv_effective_at vs)"
    and "v \<in> set post" and "\<not> exact_at a post"
  shows "opt_less (Some a) (elv_effective_at v)"
proof -
  obtain p ps where ps: "post = p # ps" using assms(3) by (cases post) auto
  have "opt_less (Some a) (elv_effective_at p)"
    using split_at_post [OF assms(1,2), of p] assms(4) unfolding ps
    by (cases "elv_effective_at p") (auto simp: active_from_def exact_at_def)
  moreover have "v = p \<or> opt_less (elv_effective_at p) (elv_effective_at v)"
    using assms(2,3) unfolding split_atD(1) [OF assms(1)] ps by (auto simp: sorted_wrt_append)
  ultimately show ?thesis using opt_less_trans by blast
qed

lemma split_at_covered:
  assumes "split_at a vs pre post" and "sorted_wrt opt_less (map elv_effective_at vs)"
    and "levels_in vs a \<noteq> None" and "\<not> exact_at a post"
  shows "pre \<noteq> []"
proof
  assume "pre = []"
  then have vs: "vs = post" using split_atD(1) [OF assms(1)] by simp
  have "\<not> started a v" if "v \<in> set vs" for v
    using split_at_post_after [OF assms(1,2) _ assms(4), of v] that vs
    by (cases "elv_effective_at v") (auto simp: started_def)
  then have "filter (started a) vs = []" by (simp add: filter_empty_conv)
  with assms(3) show False by (simp add: levels_in_def)
qed

lemma raise_versions_split:
  assumes "split_at a vs pre post"
  shows "raise_versions r a vs =
    (if exact_at a post then pre @ map (raised r) post
     else pre @ raised r ((last pre)\<lparr>elv_effective_at := Some a\<rparr>) # map (raised r) post)"
  unfolding raise_versions_def Let_def split_atD(2,3) [OF assms]
  by (cases post) (simp_all add: exact_at_def)

lemma insert_activation_split:
  assumes "split_at a vs pre post" and "pre \<noteq> [] \<or> exact_at a post"
    and "pre \<noteq> [] \<Longrightarrow> level_wf (last pre)"
  shows "insert_activation vs a r = Inr (length pre,
    if exact_at a post then vs
    else pre @ raised r ((last pre)\<lparr>elv_effective_at := Some a\<rparr>) # post)"
proof -
  have nth: "exact_at a post \<longleftrightarrow>
      length pre < length vs \<and> elv_effective_at (vs ! length pre) = Some a"
    unfolding split_atD(1) [OF assms(1)] by (cases post) (auto simp: exact_at_def)
  have src: "pre \<noteq> [] \<Longrightarrow> vs ! (length pre - 1) = last pre"
    unfolding split_atD(1) [OF assms(1)] by (simp add: nth_append last_conv_nth)
  have ins: "pre \<noteq> [] \<Longrightarrow> new_exit_level (Some a) (elv_initial_atr (last pre))
      (elv_initial_stop (last pre)) (max (elv_current_stop (last pre)) r)
      = Inr (raised r ((last pre)\<lparr>elv_effective_at := Some a\<rparr>))"
    using assms(3) by (simp add: raised_def level_wf_def new_exit_level_Inr less_max_iff_disj)
  have td: "take (length pre) vs = pre" "drop (length pre) vs = post"
    by (simp_all add: split_atD(1) [OF assms(1)])
  show ?thesis
  proof (cases "exact_at a post")
    case True
    then show ?thesis
      unfolding insert_activation_def Let_def split_atD(2) [OF assms(1)] nth [symmetric] by simp
  next
    case False
    with assms(2) have "pre \<noteq> []" by blast
    with False src ins show ?thesis
      unfolding insert_activation_def Let_def split_atD(2) [OF assms(1)] nth [symmetric] td by simp
  qed
qed

lemma insert_activation_covered:
  assumes lw: "\<forall>v \<in> set vs. level_wf v"
    and st: "sorted_wrt opt_less (map elv_effective_at vs)"
    and cov: "levels_in vs a \<noteq> None"
  obtains k ws where "insert_activation vs a r = Inr (k, ws)"
    and "\<forall>v \<in> set ws. level_wf v"
    and "take k ws @ map (raised r) (drop k ws) = raise_versions r a vs"
proof -
  obtain pre post where sp: "split_at a vs pre post" by (simp add: split_at_def)
  note vs = split_atD(1) [OF sp]
  have pre: "pre \<noteq> [] \<or> exact_at a post" using split_at_covered [OF sp st cov] by blast
  have last: "level_wf (last pre)" if "pre \<noteq> []" using lw that by (simp add: vs)
  let ?ws = "if exact_at a post then vs
    else pre @ raised r ((last pre)\<lparr>elv_effective_at := Some a\<rparr>) # post"
  show thesis
  proof (rule that)
    show "insert_activation vs a r = Inr (length pre, ?ws)"
      by (rule insert_activation_split [OF sp pre last])
    show "\<forall>v \<in> set ?ws. level_wf v"
      using lw last pre by (auto simp: vs level_wf_def raised_def less_max_iff_disj)
    show "take (length pre) ?ws @ map (raised r) (drop (length pre) ?ws) = raise_versions r a vs"
      by (simp add: raise_versions_split [OF sp]) (simp add: vs)
  qed
qed

lemma raise_trailing_stop_versions:
  assumes wf: "position_wf s" and r: "0 < r" and a: "ps_entry_at s \<le> a"
    and cov: "timeline s a \<noteq> None"
  shows "raise_trailing_stop s r (Aware a)
    = replace_state (with_versions s (raise_versions r a (versions s)))"
proof -
  have lw: "\<forall>v \<in> set (versions s). level_wf v"
    and st: "sorted_wrt opt_less (map elv_effective_at (versions s))"
    using wf by (simp_all add: position_wf_def)
  have cur: "new_exit_level (ps_exit_levels_effective_at s) (ps_initial_atr s)
      (ps_initial_stop s) (ps_current_stop s) = Inr (current_level s)"
    using lw by (simp add: versions_def level_wf_def current_level_def new_exit_level_Inr)
  obtain k ws where ws: "insert_activation (versions s) a r = Inr (k, ws)"
      "\<forall>v \<in> set ws. level_wf v" "take k ws @ map (raised r) (drop k ws) = raise_versions r a (versions s)"
    using insert_activation_covered [OF lw st] cov unfolding timeline_def by metis
  from ws(1) have "insert_activation (ps_exit_level_history s @ [current_level s]) a r = Inr (k, ws)"
    by (simp add: versions_def)
  then show ?thesis
    using r a mapr_raise [OF ws(2), of k r] ws(3)
    by (simp add: raise_trailing_stop_def cur raise_if_def)
qed

lemma raise_versions_sorted:
  assumes st: "sorted_wrt opt_less (map elv_effective_at vs)"
  shows "sorted_wrt opt_less (map elv_effective_at (raise_versions r a vs))"
proof -
  obtain pre post where sp: "split_at a vs pre post" by (simp add: split_at_def)
  have "elv_effective_at \<circ> raised r = elv_effective_at" by (simp add: fun_eq_iff)
  moreover have "sorted_wrt opt_less (map elv_effective_at (pre @ post))"
    using st split_atD(1) [OF sp] by simp
  ultimately show ?thesis
    using split_at_pre [OF sp] split_at_post_after [OF sp st]
    unfolding raise_versions_split [OF sp] by (auto simp: sorted_wrt_append)
qed

definition raise_from :: "rat \<Rightarrow> instant \<Rightarrow> instant \<Rightarrow> levels \<Rightarrow> levels" where
  "raise_from r a t l =
     (case l of (atr, i, c) \<Rightarrow> (atr, i, if a \<le> t then max c r else c))"

lemma started_before: "opt_less (elv_effective_at v) (Some a) \<Longrightarrow> a \<le> t \<Longrightarrow> started t v"
  by (cases "elv_effective_at v") (auto simp: started_def)

lemma not_started_from: "active_from a v \<Longrightarrow> t < a \<Longrightarrow> \<not> started t v"
  by (cases "elv_effective_at v") (auto simp: started_def active_from_def)

lemma started_raised [simp]: "started t (raised r v) = started t v"
  by (simp add: started_def)

lemma filter_started_raised:
  "filter (started t) (map (raised r) xs) = map (raised r) (filter (started t) xs)"
  by (induction xs) auto

lemma levels_in_append:
  "levels_in (xs @ ys) t = (case levels_in ys t of None \<Rightarrow> levels_in xs t | Some l \<Rightarrow> Some l)"
  by (simp add: levels_in_def Let_def)

lemma levels_in_raised:
  "levels_in (map (raised r) xs) t =
     map_option (\<lambda>(atr, i, c). (atr, i, max c r)) (levels_in xs t)"
  by (simp add: levels_in_def Let_def filter_started_raised last_map) (simp add: level_values_def)

lemma levels_in_Nil [simp]: "levels_in [] t = None"
  by (simp add: levels_in_def)

lemma levels_in_none: "(\<And>v. v \<in> set vs \<Longrightarrow> \<not> started t v) \<Longrightarrow> levels_in vs t = None"
  by (simp add: levels_in_def Let_def)

lemma levels_in_all:
  assumes "vs \<noteq> []" and "\<And>v. v \<in> set vs \<Longrightarrow> started t v"
  shows "levels_in vs t = Some (level_values (last vs))"
proof -
  have "filter (started t) vs = vs" using assms(2) by (simp add: filter_id_conv)
  with assms(1) show ?thesis by (simp add: levels_in_def)
qed

lemma levels_in_raise_versions:
  assumes st: "sorted_wrt opt_less (map elv_effective_at vs)" and cov: "levels_in vs a \<noteq> None"
  shows "levels_in (raise_versions r a vs) t = map_option (raise_from r a t) (levels_in vs t)"
proof -
  obtain pre post where sp: "split_at a vs pre post" by (simp add: split_at_def)
  note vs = split_atD(1) [OF sp]
  define ins where "ins = raised r ((last pre)\<lparr>elv_effective_at := Some a\<rparr>)"
  have rv: "raise_versions r a vs =
      pre @ (if exact_at a post then [] else [ins]) @ map (raised r) post"
    by (simp add: raise_versions_split [OF sp] ins_def)
  show ?thesis
  proof (cases "a \<le> t")
    case False
    have "levels_in post t = None"
      using split_at_post [OF sp st] not_started_from [of a _ t] False by (intro levels_in_none) auto
    moreover have "levels_in [ins] t = None"
      using False by (intro levels_in_none) (simp add: ins_def started_def)
    moreover have "raise_from r a t = id" using False by (auto simp: raise_from_def)
    ultimately show ?thesis
      unfolding rv by (simp add: vs levels_in_append levels_in_raised option.map_id)
  next
    case True
    have pre: "levels_in pre t = Some (level_values (last pre))" if "pre \<noteq> []"
      using that split_at_pre [OF sp] started_before [OF _ True] by (intro levels_in_all) auto
    have ins: "levels_in [ins] t = Some (raise_from r a t (level_values (last pre)))"
      using True by (subst levels_in_all)
        (auto simp: ins_def started_def raise_from_def level_values_def raised_def)
    have rf: "raise_from r a t = (\<lambda>(atr, i, c). (atr, i, max c r))"
      using True by (auto simp: raise_from_def)
    have ne: "levels_in post t \<noteq> None" if "exact_at a post"
      using that True by (cases post)
        (auto simp: exact_at_def levels_in_def started_def Let_def level_values_def)
    show ?thesis
    proof (cases "levels_in post t")
      case (Some l)
      then show ?thesis unfolding rv by (simp add: vs levels_in_append levels_in_raised rf)
    next
      case None
      with ne have "\<not> exact_at a post" by blast
      moreover from this have "pre \<noteq> []" by (rule split_at_covered [OF sp st cov])
      ultimately show ?thesis
        using None pre ins levels_in_append [of "[ins]" "map (raised r) post" t]
        unfolding rv by (simp add: vs levels_in_append levels_in_raised)
    qed
  qed
qed

lemma raise_versions_nonempty: "raise_versions r a vs \<noteq> [] \<or> vs = []"
  by (auto simp: raise_versions_def Let_def)

lemma raise_versions_level_wf:
  assumes "\<forall>v \<in> set vs. level_wf v" and "sorted_wrt opt_less (map elv_effective_at vs)"
    and "levels_in vs a \<noteq> None"
  shows "\<forall>v \<in> set (raise_versions r a vs). level_wf v"
proof -
  obtain k ws where ws: "\<forall>v \<in> set ws. level_wf v"
      "take k ws @ map (raised r) (drop k ws) = raise_versions r a vs"
    using insert_activation_covered [OF assms] by metis
  then show ?thesis
    unfolding ws(2) [symmetric]
    by (auto intro: level_wf_raised dest: in_set_takeD in_set_dropD)
qed

lemma with_versions_wf:
  assumes "position_wf s" and "vs \<noteq> []" and "\<forall>v \<in> set vs. level_wf v"
    and "sorted_wrt opt_less (map elv_effective_at vs)"
  shows "position_wf (with_versions s vs)"
  using assms
  by (simp add: position_wf_def versions_with_versions) (simp add: with_versions_def)

lemma raise_trailing_stop_refines:
  assumes wf: "position_wf s" and r: "0 < r" and a: "ps_entry_at s \<le> a"
    and cov: "timeline s a \<noteq> None"
  obtains s' where "raise_trailing_stop s r (Aware a) = Inr s'" and "position_wf s'"
    and "\<And>t. timeline s' t = map_option (raise_from r a t) (timeline s t)"
    and "s' = with_versions s (raise_versions r a (versions s))"
proof -
  let ?vs = "raise_versions r a (versions s)"
  have lw: "\<forall>v \<in> set (versions s). level_wf v"
    and st: "sorted_wrt opt_less (map elv_effective_at (versions s))"
    and cov': "levels_in (versions s) a \<noteq> None"
    using wf cov by (simp_all add: position_wf_def timeline_def)
  have ne: "?vs \<noteq> []" using raise_versions_nonempty [of r a "versions s"] by (simp add: versions_def)
  have wf': "position_wf (with_versions s ?vs)"
    using wf ne raise_versions_level_wf [OF lw st cov'] raise_versions_sorted [OF st]
    by (intro with_versions_wf) auto
  show thesis
  proof (rule that)
    show "raise_trailing_stop s r (Aware a) = Inr (with_versions s ?vs)"
      using raise_trailing_stop_versions [OF assms] replace_state_wf [OF wf'] by simp
    show "timeline (with_versions s ?vs) t = map_option (raise_from r a t) (timeline s t)" for t
      unfolding timeline_def versions_with_versions [OF ne]
      by (rule levels_in_raise_versions [OF st cov'])
  qed (use wf' in simp_all)
qed

text \<open>
  C3: Raising the trailing stop implements the pointwise operation on the timeline. For a
  well-formed position, a positive stop and an activation that is not before the entry and is
  covered by some version, the call returns a well-formed position in which every observation
  that starts at the activation or later sees the maximum of its old stop and the raised one,
  every earlier observation sees exactly what it saw before, and no observation gains or loses
  coverage.
\<close>

theorem raise_trailing_stop_pointwise:
  assumes "position_wf s" and "0 < raised_stop" and "ps_entry_at s \<le> activation"
    and "timeline s activation \<noteq> None"
  shows "\<exists>s'. raise_trailing_stop s raised_stop (Aware activation) = Inr s' \<and> position_wf s'
    \<and> (\<forall>t. timeline s' t = map_option (raise_from raised_stop activation t) (timeline s t))"
  using raise_trailing_stop_refines [OF assms] by metis

subsection \<open>An example position\<close>

definition demo_position :: position where
  "demo_position =
     \<lparr>ps_market = ''KRX'', ps_symbol = ''005930'', ps_entry_price = 70000, ps_initial_atr = 1500,
      ps_initial_stop = 67000, ps_current_stop = 68000, ps_highest_close = 71000,
      ps_partial_exit_completed = False, ps_entry_at = 1000, ps_last_evaluated_at = Some 2000,
      ps_strategy_version = ''v1'', ps_position_cycle_id = Some 7,
      ps_exit_levels_effective_at = Some 2000,
      ps_exit_level_history =
        [\<lparr>elv_effective_at = Some 1000, elv_initial_atr = 1500, elv_initial_stop = 67000,
          elv_current_stop = 67000\<rparr>]\<rparr>"

lemma demo_strings: "strip_upper ''005930'' = ''005930''" "py_strip ''v1'' = ''v1''"
  by code_simp+

lemma demo_position_wf: "position_wf demo_position"
  by (simp add: position_wf_def demo_position_def versions_def current_level_def level_wf_def
      demo_strings)

lemma demo_timeline:
  "timeline demo_position t =
     (if t < 1000 then None else Some (1500, 67000, if t < 2000 then 67000 else 68000))"
  by (simp add: timeline_def demo_position_def versions_def current_level_def levels_in_def
      started_def level_values_def)

theorem raise_trailing_stop_pointwise_witness:
  "\<exists>s'. raise_trailing_stop demo_position 69000 (Aware 1500) = Inr s' \<and> position_wf s'
     \<and> timeline s' 1400 = Some (1500, 67000, 67000) \<and> timeline s' 1500 = Some (1500, 67000, 69000)
     \<and> timeline s' 3000 = Some (1500, 67000, 69000)"
proof -
  have "ps_entry_at demo_position \<le> 1500" by (simp add: demo_position_def)
  from raise_trailing_stop_pointwise [OF demo_position_wf _ this, of 69000]
  obtain s' where "raise_trailing_stop demo_position 69000 (Aware 1500) = Inr s'" "position_wf s'"
    "\<forall>t. timeline s' t = map_option (raise_from 69000 1500 t) (timeline demo_position t)"
    by (auto simp: demo_timeline)
  then show ?thesis by (simp add: demo_timeline raise_from_def)
qed

end
