(* ===== verification/Position_Ladder.thy ===== *)
theory Position_Ladder
  imports Position_Timeline
begin

text \<open>
  The exit ladder: what one evaluation of a completed daily bar or of a window of intraday
  buckets may do to a well-formed position, and what follows for whole runs.
\<close>

subsection \<open>Signals and exits of well-formed positions\<close>

definition bar_wf :: "position_bar \<Rightarrow> bool" where
  "bar_wf b \<longleftrightarrow>
     0 < pb_low b \<and> pb_low b \<le> pb_open b \<and> pb_low b \<le> pb_close b
     \<and> pb_open b \<le> pb_high b \<and> pb_close b \<le> pb_high b
     \<and> (\<exists>t u. pb_starts_at b = Some t \<and> pb_ends_at b = Some u \<and> t \<le> u)"

lemma position_bar_post_init_wf: "position_bar_post_init r = Inr b \<Longrightarrow> bar_wf b"
  by (auto simp: position_bar_post_init_def result_simps bar_wf_def Let_def split: option.splits)

text \<open>The key of a signal of a well-formed position.\<close>

definition signal_key :: "position \<Rightarrow> position_bar \<Rightarrow> exit_kind \<Rightarrow> string" where
  "signal_key s bar kind =
     ''position-exit:'' @ take 24 (sha256_hex
       (exit_signal_material (ps_market s) (ps_symbol s) (ps_position_cycle_id s) kind (pb_as_of bar)))"

definition signal_of ::
    "position \<Rightarrow> position_bar \<Rightarrow> exit_kind \<Rightarrow> rat \<Rightarrow> rat \<Rightarrow> exit_reason \<Rightarrow> levels
      \<Rightarrow> position_exit_signal" where
  "signal_of s bar kind fraction price reason l =
     (case l of (atr, i, c) \<Rightarrow>
        \<lparr>sig_kind = kind, sig_quantity_fraction = fraction, sig_reference_price = price,
         sig_signal_at = pb_as_of bar, sig_reason = reason,
         sig_idempotency_key = signal_key s bar kind,
         sig_initial_atr = atr, sig_initial_stop = i, sig_current_stop = c\<rparr>)"

definition seen :: "position_bar \<Rightarrow> position \<Rightarrow> position" where
  "seen bar s = s\<lparr>ps_last_evaluated_at := Some (pb_as_of bar)\<rparr>"

lemma exit_signal_wf:
  assumes "position_wf s"
  shows "exit_signal s bar kind fraction price reason (Some l)
    = Inr (signal_of s bar kind fraction price reason l)"
proof -
  have "strip_upper (ps_market s) = ps_market s"
    using assms by (intro strip_upper_market) (simp add: position_wf_def)
  with assms have "exit_signal_key (ps_market s) (ps_symbol s) kind (Aware (pb_as_of bar))
      (ps_position_cycle_id s) = Inr (signal_key s bar kind)"
    by (auto simp: exit_signal_key_def signal_key_def Let_def position_wf_def raise_if_def
        split: option.splits)
  then show ?thesis
    by (cases l) (simp add: exit_signal_def signal_of_def)
qed

lemma versions_frame [simp]:
  "versions (s\<lparr>ps_last_evaluated_at := x\<rparr>) = versions s"
  "versions (s\<lparr>ps_highest_close := h\<rparr>) = versions s"
  "versions (s\<lparr>ps_partial_exit_completed := b\<rparr>) = versions s"
  by (simp_all add: versions_def current_level_def)

lemma timeline_frame [simp]:
  "timeline (s\<lparr>ps_last_evaluated_at := x\<rparr>) = timeline s"
  "timeline (s\<lparr>ps_highest_close := h\<rparr>) = timeline s"
  "timeline (s\<lparr>ps_partial_exit_completed := b\<rparr>) = timeline s"
  by (simp_all add: timeline_def)

lemma position_wf_seen: "position_wf s \<Longrightarrow> position_wf (seen bar s)"
  by (simp add: seen_def position_wf_def)

lemma exit_all_wf:
  assumes "position_wf s"
  shows "exit_all s bar kind price reason l
    = Inr \<lparr>ev_state = seen bar s, ev_signal = Some (signal_of s bar kind 1 price reason l)\<rparr>"
  using replace_state_wf [OF position_wf_seen [OF assms], of bar] exit_signal_wf [OF assms]
  by (simp add: exit_all_def seen_def)

definition stop_kind :: "exit_kind \<Rightarrow> bool" where
  "stop_kind k \<longleftrightarrow> k \<in> {STOP, STOP_GAP, TRAILING_STOP, TRAILING_STOP_GAP}"

subsection \<open>The outcomes of a daily evaluation\<close>

definition partially_sold :: "position_bar \<Rightarrow> position \<Rightarrow> position" where
  "partially_sold bar s =
     s\<lparr>ps_partial_exit_completed := True,
       ps_highest_close := max (ps_highest_close s) (pb_close bar),
       ps_last_evaluated_at := Some (pb_as_of bar)\<rparr>"

lemma partially_sold_wf: "position_wf s \<Longrightarrow> position_wf (partially_sold bar s)"
  by (simp add: partially_sold_def position_wf_def less_max_iff_disj)

lemma evaluate_position_cases:
  assumes wf: "position_wf s" and t: "pb_starts_at bar = Some t"
    and ev: "evaluate_position s bar n trend cfg = Inr e"
  obtains
    (uncovered) "timeline s t = None" "e = \<lparr>ev_state = seen bar s, ev_signal = None\<rparr>"
  | (stopped) atr i c kind price reason where "timeline s t = Some (atr, i, c)"
      "pb_open bar \<le> c \<or> pb_low bar \<le> c" "stop_kind kind"
      "price = (if pb_open bar \<le> c then pb_open bar else c)"
      "e = \<lparr>ev_state = seen bar s,
            ev_signal = Some (signal_of s bar kind 1 price reason (atr, i, c))\<rparr>"
  | (partial) atr i c width target percent where "timeline s t = Some (atr, i, c)"
      "c < pb_open bar" "c < pb_low bar" "\<not> ps_partial_exit_completed s"
      "dmul (cfg_partial_profit_atr cfg) atr = Inr width"
      "dadd (ps_entry_price s) width = Inr target" "target \<le> pb_high bar"
      "e = \<lparr>ev_state = partially_sold bar s,
            ev_signal = Some (signal_of s bar PARTIAL_SELL (cfg_partial_fraction cfg)
              (if target \<le> pb_open bar then pb_open bar else target)
              (PartialTargetReached (cfg_partial_profit_atr cfg) percent) (atr, i, c))\<rparr>"
  | (closed) atr i c kind reason where "timeline s t = Some (atr, i, c)"
      "c < pb_open bar" "c < pb_low bar" "kind = TREND_BROKEN \<or> kind = TIME_STOP"
      "e = \<lparr>ev_state = seen bar s,
            ev_signal = Some (signal_of s bar kind 1 (pb_close bar) reason (atr, i, c))\<rparr>"
  | (held) atr i c where "timeline s t = Some (atr, i, c)"
      "c < pb_open bar" "c < pb_low bar" "hold_position s bar atr c cfg = Inr e"
proof -
  have st: "sorted_wrt opt_less (map elv_effective_at (versions s))"
    using wf by (simp add: position_wf_def)
  note simps = evaluate_position_def t cover_observation_timeline [OF st]
    exit_levels_for_bar_timeline [OF t] exit_all_wf [OF wf] exit_signal_wf [OF wf]
  show thesis
  proof (cases "timeline s t")
    case None
    with ev have "e = \<lparr>ev_state = seen bar s, ev_signal = None\<rparr>"
      using replace_state_wf [OF position_wf_seen [OF wf], of bar]
      by (simp add: simps seen_def)
    with None show thesis by (rule uncovered)
  next
    case (Some l)
    obtain atr i c where l: "l = (atr, i, c)" by (cases l) auto
    note tl = Some [unfolded l]
    consider "pb_open bar \<le> c" | "c < pb_open bar" "pb_low bar \<le> c"
      | "c < pb_open bar" "c < pb_low bar" by linarith
    then show thesis
    proof cases
      case 1
      with ev tl show thesis
        by (intro stopped [OF tl, where reason = OpenBelowStop
              and kind = "if i < c then TRAILING_STOP_GAP else STOP_GAP"])
          (auto simp: simps stop_kind_def)
    next
      case 2
      with ev tl show thesis
        by (intro stopped [OF tl, where reason = LowTouchedStop
              and kind = "if i < c then TRAILING_STOP else STOP"])
          (auto simp: simps stop_kind_def)
    next
      case 3
      from ev tl 3 obtain width target where w:
          "dmul (cfg_partial_profit_atr cfg) atr = Inr width"
          "dadd (ps_entry_price s) width = Inr target"
        by (auto simp: simps result_simps)
      show thesis
      proof (cases "\<not> ps_partial_exit_completed s \<and> target \<le> pb_high bar")
        case True
        with ev tl 3 w obtain percent where
          "e = \<lparr>ev_state = partially_sold bar s,
            ev_signal = Some (signal_of s bar PARTIAL_SELL (cfg_partial_fraction cfg)
              (if target \<le> pb_open bar then pb_open bar else target)
              (PartialTargetReached (cfg_partial_profit_atr cfg) percent) (atr, i, c))\<rparr>"
          using replace_state_wf [OF partially_sold_wf [OF wf], of bar]
          by (auto simp: simps result_simps partially_sold_def)
        with True w show thesis by (intro partial [OF tl 3]) auto
      next
        case False
        note F = False
        show thesis
        proof (cases "trend")
          case False
          with F ev tl 3 w show thesis
            by (intro closed [OF tl 3, where kind = TREND_BROKEN and reason = TrendStructureBroken])
              (auto simp: simps)
        next
          case True
          with F ev tl 3 w consider
              "hold_position s bar atr c cfg = Inr e"
            | "exit_all s bar TIME_STOP (pb_close bar) NoProgressWithinHolding (atr, i, c) = Inr e"
            by (auto simp: simps result_simps split: if_splits)
          then show thesis
          proof cases
            case 1
            then show thesis by (rule held [OF tl 3])
          next
            case 2
            then show thesis
              by (intro closed [OF tl 3, where kind = TIME_STOP and reason = NoProgressWithinHolding])
                (auto simp: exit_all_wf [OF wf])
          qed
        qed
      qed
    qed
  qed
qed

subsection \<open>Holding\<close>

lemma levels_positive:
  assumes "position_wf s" and "timeline s t = Some (atr, i, c)"
  shows "0 < atr" and "0 < i" and "0 < c"
proof -
  from assms(2) obtain v where "v \<in> set (versions s)" "level_values v = (atr, i, c)"
    by (auto simp: timeline_def levels_in_def Let_def split: if_splits)
      (metis (no_types, lifting) filter_is_subset last_in_set subsetD)
  with assms(1) show "0 < atr" "0 < i" "0 < c"
    by (auto simp: position_wf_def level_values_def level_wf_def)
qed

lemma timeline_later:
  assumes "position_wf s" and "timeline s t \<noteq> None" and "t \<le> u"
  shows "timeline s u \<noteq> None"
proof -
  have "started u v" if "started t v" for v
    using that assms(3) by (cases "elv_effective_at v") (auto simp: started_def)
  with assms(2) show ?thesis
    by (auto simp: timeline_def levels_in_def Let_def level_values_def filter_empty_conv split: if_splits)
qed

text \<open>
  Holding either keeps the levels or raises the stop from the end of the bar on; everything
  else of the position keeps its value.
\<close>

lemma hold_position_cases:
  assumes wf: "position_wf s" and t: "pb_starts_at bar = Some t" and u: "pb_ends_at bar = Some u"
    and tu: "t \<le> u" and tl: "timeline s t = Some (atr, i, c)"
    and h: "hold_position s bar atr c cfg = Inr e"
  obtains p s1 where
      "protective_stop s (max (ps_highest_close s) (pb_close bar)) atr cfg = Inr p"
    and "e = \<lparr>ev_state = s1\<lparr>ps_highest_close := max (ps_highest_close s) (pb_close bar),
          ps_last_evaluated_at := Some (pb_as_of bar)\<rparr>, ev_signal = None\<rparr>"
    and "position_wf s1"
    and "(p = None \<or> the p \<le> c) \<and> s1 = s
      \<or> (\<exists>r. p = Some r \<and> c < r \<and> ps_entry_at s \<le> u
           \<and> s1 = with_versions s (raise_versions r u (versions s))
           \<and> (\<forall>x. timeline s1 x = map_option (raise_from r u x) (timeline s x)))"
proof -
  let ?h = "max (ps_highest_close s) (pb_close bar)"
  have finish: "position_wf s1 \<Longrightarrow> replace_state (s1\<lparr>ps_highest_close := ?h,
      ps_last_evaluated_at := Some (pb_as_of bar)\<rparr>)
      = Inr (s1\<lparr>ps_highest_close := ?h, ps_last_evaluated_at := Some (pb_as_of bar)\<rparr>)" for s1
    using wf by (intro replace_state_wf) (simp add: position_wf_def less_max_iff_disj)
  let ?close = "\<lambda>s1. bindr (replace_state (s1\<lparr>ps_highest_close := ?h,
        ps_last_evaluated_at := Some (pb_as_of bar)\<rparr>))
        (\<lambda>state. Inr \<lparr>ev_state = state, ev_signal = None\<rparr>)"
  let ?raise = "\<lambda>p. case p of None \<Rightarrow> Inr s
      | Some stop \<Rightarrow> if c < stop then raise_trailing_stop s stop (Aware u) else Inr s"
  have "bindr (protective_stop s ?h atr cfg) (\<lambda>p. bindr (?raise p) ?close) = Inr e"
    using h unfolding hold_position_def Let_def u option.case .
  then obtain p where p: "protective_stop s ?h atr cfg = Inr p" and h1: "bindr (?raise p) ?close = Inr e"
    by (rule bindrE)
  from h1 obtain s1 where s1: "?raise p = Inr s1" and e: "?close s1 = Inr e"
    by (rule bindrE)
  show thesis
  proof (cases "\<exists>r. p = Some r \<and> c < r")
    case False
    with s1 have "s1 = s" by (auto split: option.splits)
    with False p e finish [OF wf] wf show thesis by (intro that [of p s1]) auto
  next
    case True
    then obtain r where r: "p = Some r" "c < r" by blast
    with s1 have rt: "raise_trailing_stop s r (Aware u) = Inr s1" by simp
    then have a: "ps_entry_at s \<le> u" by (simp add: raise_trailing_stop_def)
    have "0 < r" using levels_positive(3) [OF wf tl] r(2) by simp
    moreover have "timeline s u \<noteq> None" using timeline_later [OF wf _ tu] tl by simp
    ultimately obtain s' where s': "raise_trailing_stop s r (Aware u) = Inr s'" "position_wf s'"
      "\<And>x. timeline s' x = map_option (raise_from r u x) (timeline s x)"
      "s' = with_versions s (raise_versions r u (versions s))"
      using raise_trailing_stop_refines [OF wf _ a] by blast
    with rt have "s1 = s'" by simp
    with p r a e s' finish [OF s'(2)] show thesis by (intro that [of p s1]) auto
  qed
qed

subsection \<open>Safety of one evaluation\<close>

text \<open>The order on levels in force: same ATR and initial stop, and a stop that is not lower.\<close>

definition levels_le :: "levels option \<Rightarrow> levels option \<Rightarrow> bool" where
  "levels_le l m =
     (case (l, m) of
        (None, None) \<Rightarrow> True
      | (Some (a, i, c), Some (a', i', c')) \<Rightarrow> a = a' \<and> i = i' \<and> c \<le> c'
      | _ \<Rightarrow> False)"

lemma levels_le_refl [simp]: "levels_le l l"
  by (auto simp: levels_le_def split: option.split)

lemma levels_le_trans: "levels_le l m \<Longrightarrow> levels_le m n \<Longrightarrow> levels_le l n"
  by (auto simp: levels_le_def split: option.splits)

lemma levels_le_raise: "levels_le l (map_option (raise_from r a t) l)"
  by (auto simp: levels_le_def raise_from_def split: option.split)

text \<open>The identity of a position: what no evaluation changes.\<close>

definition same_identity :: "position \<Rightarrow> position \<Rightarrow> bool" where
  "same_identity s s' \<longleftrightarrow>
     ps_market s' = ps_market s \<and> ps_symbol s' = ps_symbol s
     \<and> ps_entry_price s' = ps_entry_price s \<and> ps_entry_at s' = ps_entry_at s
     \<and> ps_strategy_version s' = ps_strategy_version s
     \<and> ps_position_cycle_id s' = ps_position_cycle_id s"

definition no_looser :: "position \<Rightarrow> position \<Rightarrow> bool" where
  "no_looser s s' \<longleftrightarrow>
     same_identity s s' \<and> ps_highest_close s \<le> ps_highest_close s'
     \<and> (ps_partial_exit_completed s \<longrightarrow> ps_partial_exit_completed s')
     \<and> (\<forall>t. levels_le (timeline s t) (timeline s' t))"

lemma no_looser_refl [simp]: "no_looser s s"
  by (simp add: no_looser_def same_identity_def)

lemma no_looser_trans: "no_looser r s \<Longrightarrow> no_looser s t \<Longrightarrow> no_looser r t"
  by (auto simp: no_looser_def same_identity_def intro: levels_le_trans)

lemma evaluate_position_step:
  assumes wf: "position_wf s" and bar: "bar_wf bar"
    and ev: "evaluate_position s bar n trend cfg = Inr e"
  shows "position_wf (ev_state e) \<and> no_looser s (ev_state e)
    \<and> ps_last_evaluated_at (ev_state e) = Some (pb_as_of bar)"
proof -
  from bar obtain t u where t: "pb_starts_at bar = Some t" and u: "pb_ends_at bar = Some u"
    and tu: "t \<le> u" by (auto simp: bar_wf_def)
  have seen: "position_wf (seen bar s) \<and> no_looser s (seen bar s)
      \<and> ps_last_evaluated_at (seen bar s) = Some (pb_as_of bar)"
    using position_wf_seen [OF wf] by (simp add: seen_def no_looser_def same_identity_def)
  from wf t ev show ?thesis
  proof (cases rule: evaluate_position_cases)
    case partial
    then show ?thesis
      using partially_sold_wf [OF wf, of bar]
      by (simp add: partially_sold_def no_looser_def same_identity_def)
  next
    case (held atr i c)
    from wf t u tu held(1,4) show ?thesis
    proof (cases rule: hold_position_cases)
      case (1 p s1)
      have "same_identity s s1 \<and> ps_partial_exit_completed s1 = ps_partial_exit_completed s
          \<and> (\<forall>x. levels_le (timeline s x) (timeline s1 x))"
        using 1(4) levels_le_raise by (auto simp: same_identity_def with_versions_def)
      with 1(2,3) wf show ?thesis
        by (auto simp: no_looser_def same_identity_def position_wf_def less_max_iff_disj)
    qed
  qed (use seen in auto)
qed

text \<open>
  An evaluation of a completed daily bar never loosens the protection of a well-formed
  position. Whatever it returns, the state is well formed again, remembers the bar as the last
  evaluated one and keeps the position's identity; and for every observation time, past or
  future, the stop in force is at least the one that was in force before, with the same ATR and
  initial stop.
\<close>

theorem evaluate_position_never_loosens:
  assumes "position_wf s" and "bar_wf bar"
    and "evaluate_position s bar bars_held trend_intact config = Inr e"
  shows "position_wf (ev_state e)
    \<and> same_identity s (ev_state e)
    \<and> ps_last_evaluated_at (ev_state e) = Some (pb_as_of bar)
    \<and> ps_highest_close s \<le> ps_highest_close (ev_state e)
    \<and> (\<forall>t. levels_le (timeline s t) (timeline (ev_state e) t))"
  using evaluate_position_step [OF assms] by (simp add: no_looser_def)

text \<open>
  C21: Stop breaches. When the levels in force at the start of the bar have stop \<open>c\<close>, the
  evaluation emits a stop signal exactly when the bar's low reached \<open>c\<close>; that signal sells the
  whole position at a price between the bar's low and \<open>c\<close>, whatever the trend, the holding
  time or the profit target say.
\<close>

theorem stop_breach_exits_all:
  assumes "position_wf s" and "bar_wf bar" and "pb_starts_at bar = Some t"
    and "timeline s t = Some (atr, i, c)"
    and "evaluate_position s bar bars_held trend_intact config = Inr e"
  shows "(pb_low bar \<le> c \<longleftrightarrow> (\<exists>x. ev_signal e = Some x \<and> stop_kind (sig_kind x)))
    \<and> (\<forall>x. ev_signal e = Some x \<longrightarrow> stop_kind (sig_kind x) \<longrightarrow>
         sig_quantity_fraction x = 1 \<and> pb_low bar \<le> sig_reference_price x
         \<and> sig_reference_price x \<le> c)"
  using assms(1,3,5)
proof (cases rule: evaluate_position_cases)
  case (stopped atr' i' c' kind price reason)
  with assms show ?thesis
    by (auto simp: signal_of_def bar_wf_def)
next
  case (held atr' i' c')
  from assms(2,3) obtain u where u: "pb_ends_at bar = Some u" "t \<le> u" by (auto simp: bar_wf_def)
  from assms(1,3) u held(1,4) show ?thesis
  proof (cases rule: hold_position_cases)
    case 1
    with held assms show ?thesis by simp
  qed
qed (use assms in \<open>auto simp: signal_of_def stop_kind_def\<close>)

end
