(* ===== verification/Position_Runs.thy ===== *)
theory Position_Runs
  imports Position_Ladder
begin

text \<open>
  Positions over time: opening a position, the runs of daily evaluations that follow, the
  intraday evaluation of a window of buckets, the identity of signals, and the conditions
  under which an evaluation is sure to return.
\<close>

subsection \<open>Opening a position\<close>

text \<open>
  Opening a position that is accepted yields a well-formed state whose stop is positive,
  not above the entry price and at least as tight as both the ATR stop and a usable strategy
  stop; the highest close starts at the entry price and no partial exit is recorded. The entry
  price must fit the 28 digits of the context, as a price read from the database does.
\<close>

theorem initialize_position_sound:
  assumes "initialize_position market symbol (DFinite entry) (DFinite atr) entry_at version cycle
      effective_at strategy_stop config = Inr s"
    and "representable entry" and "0 < cfg_initial_stop_atr config"
  shows "position_wf s \<and> ps_entry_price s = entry \<and> ps_highest_close s = entry
    \<and> \<not> ps_partial_exit_completed s \<and> ps_current_stop s = ps_initial_stop s
    \<and> 0 < ps_initial_stop s \<and> ps_initial_stop s \<le> entry
    \<and> dec_fix (entry - dec_fix (cfg_initial_stop_atr config * atr)) \<le> ps_initial_stop s
    \<and> (\<forall>x. strategy_stop = Some (DFinite x) \<longrightarrow> 0 < x \<longrightarrow> x < entry \<longrightarrow> x \<le> ps_initial_stop s)"
proof -
  obtain width atr_stop i where pos: "0 < entry" "0 < atr"
    and w: "dmul (cfg_initial_stop_atr config) atr = Inr width" "dsub entry width = Inr atr_stop"
    and i: "i = (case Option.bind strategy_stop finite_value of None \<Rightarrow> atr_stop
        | Some x \<Rightarrow> if 0 < x \<and> x < entry then max atr_stop x else atr_stop)" "0 < i"
    and s: "managed_position_state_post_init
        \<lparr>ps_market = market, ps_symbol = symbol, ps_entry_price = DFinite entry,
         ps_initial_atr = DFinite atr, ps_initial_stop = DFinite i, ps_current_stop = DFinite i,
         ps_highest_close = DFinite entry, ps_partial_exit_completed = False,
         ps_entry_at = entry_at, ps_last_evaluated_at = None, ps_strategy_version = version,
         ps_position_cycle_id = cycle,
         ps_exit_levels_effective_at =
           Some (case effective_at of None \<Rightarrow> entry_at | Some t \<Rightarrow> t),
         ps_exit_level_history = []\<rparr> = Inr s"
    using assms(1) unfolding initialize_position_def Let_def
    by (auto simp: result_simps not_le split: if_splits)
  have eqs: "width = dec_fix (cfg_initial_stop_atr config * atr)" "atr_stop = dec_fix (entry - width)"
    using w by (auto dest: dmul_Inr dsub_Inr)
  have "0 \<le> width" unfolding eqs using assms(3) pos by (intro dec.nonneg) simp
  then have "atr_stop \<le> entry"
    unfolding eqs(2) using representable_fix [OF assms(2)] by (intro dec.below_kept) simp_all
  then have "i \<le> entry" "atr_stop \<le> i"
      "\<forall>x. strategy_stop = Some (DFinite x) \<longrightarrow> 0 < x \<longrightarrow> x < entry \<longrightarrow> x \<le> i"
    unfolding i(1) by (auto split: option.split)
  moreover have "position_wf s" using s by (rule post_init_wf) simp
  moreover have "ps_entry_price s = entry" "ps_highest_close s = entry" "ps_initial_stop s = i"
      "ps_current_stop s = i" "\<not> ps_partial_exit_completed s"
    using s unfolding managed_position_state_post_init_def Let_def
    by (auto simp: result_simps split: if_splits)
  ultimately show ?thesis using i(2) eqs by simp
qed

theorem initialize_position_sound_witness:
  "\<exists>s. initialize_position '' krx '' ''005930'' (DFinite 70000) (DFinite 1500) (Aware 1000)
        ''v1'' (Some 7) None (Some (DFinite 68000)) default_config = Inr s
     \<and> ps_initial_stop s = 68000 \<and> position_wf s"
proof -
  define r where "r = initialize_position '' krx '' ''005930'' (DFinite 70000) (DFinite 1500)
    (Aware 1000) ''v1'' (Some 7) None (Some (DFinite 68000)) default_config"
  have "(case r of Inl _ \<Rightarrow> 0 | Inr s \<Rightarrow> ps_initial_stop s) = 68000"
    unfolding r_def by code_simp
  then obtain s where s: "r = Inr s" "ps_initial_stop s = 68000"
    by (cases r) auto
  have "representable 70000" using representable_int [of 70000] by simp
  then show ?thesis
    using initialize_position_sound [OF s(1) [unfolded r_def]] s
    by (auto simp: default_config_def r_def)
qed

subsection \<open>Runs of daily evaluations\<close>

definition emitted :: "position_evaluation \<Rightarrow> position_exit_signal list" where
  "emitted e = (case ev_signal e of None \<Rightarrow> [] | Some x \<Rightarrow> [x])"

text \<open>A run: the signals emitted by successive evaluations that returned, oldest first.\<close>

inductive daily_run ::
    "pm_config \<Rightarrow> position \<Rightarrow> position_exit_signal list \<Rightarrow> position \<Rightarrow> bool"
  for config :: pm_config and s0 :: position where
  run_start: "daily_run config s0 [] s0"
| run_step: "daily_run config s0 xs s \<Longrightarrow> bar_wf bar \<Longrightarrow>
     evaluate_position s bar bars_held trend_intact config = Inr e \<Longrightarrow>
     daily_run config s0 (xs @ emitted e) (ev_state e)"

inductive_cases daily_runE: "daily_run config s0 xs s"

lemma evaluate_position_guards:
  "evaluate_position s bar n trend cfg = Inr e \<Longrightarrow>
     ps_entry_at s < pb_as_of bar \<and> (\<forall>t. ps_last_evaluated_at s = Some t \<longrightarrow> t < pb_as_of bar)"
  by (auto simp: evaluate_position_def split: option.splits)

lemma evaluate_position_signal:
  assumes wf: "position_wf s" and bar: "bar_wf bar"
    and ev: "evaluate_position s bar n trend cfg = Inr e" and x: "ev_signal e = Some x"
  shows "sig_signal_at x = pb_as_of bar \<and> sig_idempotency_key x = signal_key s bar (sig_kind x)
    \<and> (sig_kind x = PARTIAL_SELL \<longrightarrow> \<not> ps_partial_exit_completed s
        \<and> ps_partial_exit_completed (ev_state e))"
proof -
  from bar obtain t u where t: "pb_starts_at bar = Some t" and u: "pb_ends_at bar = Some u"
    and tu: "t \<le> u" by (auto simp: bar_wf_def)
  from wf t ev show ?thesis
  proof (cases rule: evaluate_position_cases)
    case (held atr i c)
    from wf t u tu held(1,4) show ?thesis
      by (cases rule: hold_position_cases) (use x in simp)
  qed (use x in \<open>auto simp: signal_of_def stop_kind_def partially_sold_def\<close>)
qed

definition is_partial :: "position_exit_signal \<Rightarrow> bool" where
  "is_partial x \<longleftrightarrow> sig_kind x = PARTIAL_SELL"

lemma daily_run_invariant:
  assumes "daily_run config s0 xs s" and "position_wf s0"
  shows "position_wf s \<and> no_looser s0 s
    \<and> length (filter is_partial xs) + (if ps_partial_exit_completed s0 then 1 else 0) \<le> 1
    \<and> (filter is_partial xs \<noteq> [] \<longrightarrow> ps_partial_exit_completed s)
    \<and> sorted_wrt (<) (map sig_signal_at xs)
    \<and> (\<forall>x \<in> set xs. \<exists>t. ps_last_evaluated_at s = Some t \<and> sig_signal_at x \<le> t)"
  using assms
proof (induction rule: daily_run.induct)
  case (run_step xs s bar n trend e)
  note IH = run_step.IH [OF run_step.prems]
  then have wf: "position_wf s" by simp
  note st = evaluate_position_step [OF wf run_step.hyps(2,3)]
  note gd = evaluate_position_guards [OF run_step.hyps(3)]
  have old: "\<forall>x \<in> set xs. sig_signal_at x < pb_as_of bar"
    using IH gd by fastforce
  show ?case
  proof (cases "ev_signal e")
    case None
    with IH st old show ?thesis
      by (auto simp: emitted_def no_looser_def intro: no_looser_trans less_imp_le)
        (auto simp: no_looser_def same_identity_def intro: levels_le_trans less_imp_le)
  next
    case (Some x)
    note sg = evaluate_position_signal [OF wf run_step.hyps(2,3) Some]
    then have sp: "is_partial x \<Longrightarrow> \<not> ps_partial_exit_completed s \<and> ps_partial_exit_completed (ev_state e)"
      by (simp add: is_partial_def)
    then have part: "is_partial x \<Longrightarrow> filter is_partial xs = [] \<and> \<not> ps_partial_exit_completed s0"
      using IH by (auto simp: no_looser_def)
    have "no_looser s0 (ev_state e)" using IH st no_looser_trans by blast
    moreover have "filter is_partial xs \<noteq> [] \<Longrightarrow> ps_partial_exit_completed (ev_state e)"
      using IH st by (auto simp: no_looser_def)
    ultimately show ?thesis
      using Some IH st sg sp old part
      by (cases "is_partial x")
        (simp_all add: emitted_def sorted_wrt_append less_imp_le)
  qed
qed (simp add: no_looser_def same_identity_def)

text \<open>
  C2: Over any run of daily evaluations from a well-formed position, the position stays well
  formed, its stop in force never loosens at any observation time, it is partially sold at
  most once (never, if it was already), and its signals carry strictly increasing times, so no
  bar is ever acted on twice.
\<close>

theorem daily_run_safe:
  assumes "daily_run config s0 xs s" and "position_wf s0"
  shows "position_wf s
    \<and> (\<forall>t. levels_le (timeline s0 t) (timeline s t))
    \<and> length (filter is_partial xs) \<le> (if ps_partial_exit_completed s0 then 0 else 1)
    \<and> sorted_wrt (<) (map sig_signal_at xs)"
  using daily_run_invariant [OF assms] by (auto simp: no_looser_def split: if_splits)

subsection \<open>Identity of signals\<close>

lemma append_bar_inject:
  "CHR ''|'' \<notin> set a \<Longrightarrow> CHR ''|'' \<notin> set b \<Longrightarrow>
   a @ CHR ''|'' # x = b @ CHR ''|'' # y \<longleftrightarrow> a = b \<and> x = y"
proof (induction a arbitrary: b)
  case Nil
  then show ?case by (cases b) auto
next
  case (Cons c a)
  then show ?case by (cases b) auto
qed

lemma exit_kind_value_inject: "exit_kind_value k = exit_kind_value l \<longleftrightarrow> k = l"
  by (cases k; cases l) auto

lemma exit_kind_value_no_bar: "CHR ''|'' \<notin> set (exit_kind_value k)"
  by (cases k) auto

definition cycle_text :: "int option \<Rightarrow> string" where
  "cycle_text c = (case c of None \<Rightarrow> [] | Some i \<Rightarrow> py_str_int i)"

lemma cycle_text_inject:
  assumes "\<forall>i. c = Some i \<longrightarrow> 1 \<le> i" and "\<forall>i. d = Some i \<longrightarrow> 1 \<le> i"
  shows "cycle_text c = cycle_text d \<longleftrightarrow> c = d"
  using assms py_str_int_pos_inject
  by (cases c; cases d) (auto simp: cycle_text_def py_str_int_pos_nonempty py_str_int_pos_nonempty [symmetric])

lemma cycle_text_no_bar: "\<forall>i. c = Some i \<longrightarrow> 1 \<le> i \<Longrightarrow> CHR ''|'' \<notin> set (cycle_text c)"
  using py_str_int_pos_chars by (cases c) (auto simp: cycle_text_def)

text \<open>
  The text that an exit signal's idempotency key digests determines the signal. For two
  well-formed positions whose symbols contain no separator and two representable signal times,
  the digested texts are equal only when market, symbol, position cycle, exit kind and signal
  time are all equal; so distinct exits can only share a key by a collision of the truncated
  digest.
\<close>

theorem exit_signal_material_inject:
  assumes "position_wf s" and "position_wf s'"
    and "CHR ''|'' \<notin> set (ps_symbol s)" and "CHR ''|'' \<notin> set (ps_symbol s')"
    and "datetime_range u" and "datetime_range u'"
    and "exit_signal_material (ps_market s) (ps_symbol s) (ps_position_cycle_id s) kind u
       = exit_signal_material (ps_market s') (ps_symbol s') (ps_position_cycle_id s') kind' u'"
  shows "ps_market s = ps_market s' \<and> ps_symbol s = ps_symbol s'
    \<and> ps_position_cycle_id s = ps_position_cycle_id s' \<and> kind = kind' \<and> u = u'"
proof -
  have m: "CHR ''|'' \<notin> set (ps_market s)" "CHR ''|'' \<notin> set (ps_market s')"
    using assms(1,2) by (auto simp: position_wf_def)
  have c: "\<forall>i. ps_position_cycle_id s = Some i \<longrightarrow> 1 \<le> i" "\<forall>i. ps_position_cycle_id s' = Some i \<longrightarrow> 1 \<le> i"
    using assms(1,2) by (simp_all add: position_wf_def)
  show ?thesis
    using assms(7) m assms(3,4) cycle_text_no_bar [OF c(1)] cycle_text_no_bar [OF c(2)]
    unfolding exit_signal_material_def cycle_text_def [symmetric]
    by (simp add: append_bar_inject exit_kind_value_no_bar cycle_text_inject [OF c]
        exit_kind_value_inject iso_utc_inject [OF assms(5,6)])
qed

subsection \<open>Evaluations return\<close>

text \<open>
  Magnitudes far above anything the database can hold, and far below the exponent limit.
\<close>

definition ordinary :: "rat \<Rightarrow> bool" where
  "ordinary q \<longleftrightarrow> mag_le 100 q"

definition ordinary_config :: "pm_config \<Rightarrow> bool" where
  "ordinary_config c \<longleftrightarrow>
     (\<forall>q \<in> {cfg_initial_stop_atr c, cfg_partial_profit_atr c, cfg_partial_fraction c,
        cfg_trailing_stop_atr c, cfg_early_trailing_activation_atr c,
        cfg_early_trailing_stop_atr c, cfg_post_partial_floor_atr c, cfg_no_progress_atr c}.
      ordinary q)"

definition ordinary_position :: "position \<Rightarrow> bool" where
  "ordinary_position s \<longleftrightarrow>
     ordinary (ps_entry_price s) \<and> ordinary (ps_highest_close s)
     \<and> (\<forall>v \<in> set (versions s). ordinary (elv_initial_atr v))"

lemma dmul_ordinary:
  assumes "ordinary a" and "ordinary b"
  shows "dmul a b = Inr (dec_fix (a * b))" and "mag_le 200 (dec_fix (a * b))"
proof -
  have "mag_le 200 (a * b)" using mag_mult [of 100 a 100 b] assms by (simp add: ordinary_def)
  then show "dmul a b = Inr (dec_fix (a * b))" "mag_le 200 (dec_fix (a * b))"
    by (simp_all add: dmul_def mag_ctx emax_def mag_fix)
qed

lemma dadd_ordinary:
  assumes "mag_le 200 a" and "mag_le 200 b"
  shows "dadd a b = Inr (dec_fix (a + b))" and "dsub a b = Inr (dec_fix (a - b))"
  using mag_add [OF assms] by (simp_all add: dadd_def dsub_def mag_ctx [of 201] emax_def)

lemma ordinary_200: "ordinary q \<Longrightarrow> mag_le 200 q"
  by (auto simp: ordinary_def intro: mag_le)

lemma timeline_ordinary:
  assumes "ordinary_position s" and "timeline s t = Some (atr, i, c)"
  shows "ordinary atr"
proof -
  from assms(2) obtain v where "v \<in> set (versions s)" "level_values v = (atr, i, c)"
    by (auto simp: timeline_def levels_in_def Let_def split: if_splits)
      (metis (no_types, lifting) filter_is_subset last_in_set subsetD)
  with assms(1) show ?thesis by (auto simp: ordinary_position_def level_values_def)
qed

lemma ordinary_max: "ordinary a \<Longrightarrow> ordinary b \<Longrightarrow> ordinary (max a b)"
  by (simp add: max_def)

lemma protective_stop_returns:
  assumes "ordinary_position s" and "ordinary_config cfg" and "ordinary atr" and "ordinary h"
  shows "\<exists>p. protective_stop s h atr cfg = Inr p"
  using assms
  by (simp add: protective_stop_def ordinary_config_def ordinary_position_def dmul_ordinary
      dadd_ordinary ordinary_200)

lemma hold_position_returns:
  assumes wf: "position_wf s" and t: "pb_starts_at bar = Some t" and u: "pb_ends_at bar = Some u"
    and tu: "t \<le> u" and tl: "timeline s t = Some (atr, i, c)" and a: "ps_entry_at s \<le> u"
    and ord: "ordinary_position s" "ordinary_config cfg" "ordinary (pb_close bar)"
  shows "\<exists>e. hold_position s bar atr c cfg = Inr e"
proof -
  let ?h = "max (ps_highest_close s) (pb_close bar)"
  obtain p where p: "protective_stop s ?h atr cfg = Inr p"
    using protective_stop_returns [OF ord(1,2) timeline_ordinary [OF ord(1) tl]] ord
    by (auto simp: ordinary_position_def intro: ordinary_max)
  have finish: "\<exists>e. bindr (replace_state (s1\<lparr>ps_highest_close := ?h,
      ps_last_evaluated_at := Some (pb_as_of bar)\<rparr>))
      (\<lambda>state. Inr \<lparr>ev_state = state, ev_signal = None\<rparr>) = Inr e" if "position_wf s1" for s1
  proof -
    have "position_wf (s1\<lparr>ps_highest_close := ?h, ps_last_evaluated_at := Some (pb_as_of bar)\<rparr>)"
      using that wf by (simp add: position_wf_def less_max_iff_disj)
    from replace_state_wf [OF this] show ?thesis by simp
  qed
  show ?thesis
  proof (cases "\<exists>r. p = Some r \<and> c < r")
    case False
    with p finish [OF wf] show ?thesis
      by (auto simp: hold_position_def Let_def split: option.split)
  next
    case True
    then obtain r where r: "p = Some r" "c < r" by blast
    have "0 < r" using levels_positive(3) [OF wf tl] r(2) by simp
    moreover have "timeline s u \<noteq> None" using timeline_later [OF wf _ tu] tl by simp
    ultimately obtain s' where "raise_trailing_stop s r (Aware u) = Inr s'" "position_wf s'"
      using raise_trailing_stop_refines [OF wf _ a] by blast
    with p r finish show ?thesis by (simp add: hold_position_def Let_def u)
  qed
qed

lemma evaluate_position_total:
  assumes wf: "position_wf s" and bar: "bar_wf bar"
    and new: "ps_entry_at s < pb_as_of bar"
      "\<forall>t. ps_last_evaluated_at s = Some t \<longrightarrow> t < pb_as_of bar"
    and held: "1 \<le> bars_held" and u: "\<forall>u. pb_ends_at bar = Some u \<longrightarrow> ps_entry_at s \<le> u"
    and ord: "ordinary_position s" "ordinary_config config" "ordinary (pb_close bar)"
  shows "\<exists>e. evaluate_position s bar bars_held trend_intact config = Inr e"
proof -
  from bar obtain t u where t: "pb_starts_at bar = Some t" and ends: "pb_ends_at bar = Some u"
    and tu: "t \<le> u" by (auto simp: bar_wf_def)
  have st: "sorted_wrt opt_less (map elv_effective_at (versions s))"
    using wf by (simp add: position_wf_def)
  have g: "\<not> pb_as_of bar \<le> ps_entry_at s" "\<not> bars_held < 1"
      "\<not> (case ps_last_evaluated_at s of None \<Rightarrow> False | Some t \<Rightarrow> pb_as_of bar \<le> t)"
    using new held by (auto split: option.split)
  note rep = replace_state_wf [OF position_wf_seen [OF wf], of bar, unfolded seen_def]
    replace_state_wf [OF partially_sold_wf [OF wf], of bar, unfolded partially_sold_def]
  note simps = evaluate_position_def t g cover_observation_timeline [OF st]
    exit_levels_for_bar_timeline [OF t] exit_all_wf [OF wf] exit_signal_wf [OF wf] rep raise_if_def
  show ?thesis
  proof (cases "timeline s t")
    case None
    then show ?thesis by (simp add: simps)
  next
    case (Some l)
    obtain atr i c where tl: "timeline s t = Some (atr, i, c)" using Some by (cases l) auto
    have atr: "ordinary atr" by (rule timeline_ordinary [OF ord(1) tl])
    have fr: "ordinary (cfg_partial_fraction config)" "ordinary (cfg_partial_profit_atr config)"
        "ordinary (cfg_no_progress_atr config)" "ordinary (ps_entry_price s)"
      using ord by (simp_all add: ordinary_config_def ordinary_position_def)
    have hundred: "ordinary 100" by (simp add: ordinary_def mag_le_def)
    obtain e where "hold_position s bar atr c config = Inr e"
      using hold_position_returns [OF wf t ends tu tl _ ord] u ends by blast
    then show ?thesis
      by (simp add: simps tl Let_def dmul_ordinary dadd_ordinary ordinary_200 atr fr hundred ord(3))
  qed
qed

text \<open>
  The daily evaluation returns. For a well-formed position and bar of ordinary magnitude,
  a bar newer than the entry and the last evaluation that does not end before the entry, and a
  positive number of bars held, no exception is raised on any branch: not by the arithmetic,
  not by the re-validation of the state, not by the insertion of a raised stop.
\<close>

theorem evaluate_position_returns:
  assumes "position_wf s" and "bar_wf bar" and "ps_entry_at s < pb_as_of bar"
    and "\<forall>t. ps_last_evaluated_at s = Some t \<longrightarrow> t < pb_as_of bar"
    and "1 \<le> bars_held" and "\<forall>u. pb_ends_at bar = Some u \<longrightarrow> ps_entry_at s \<le> u"
    and "ordinary_position s" and "ordinary_config config" and "ordinary (pb_close bar)"
  shows "\<exists>e. evaluate_position s bar bars_held trend_intact config = Inr e"
  using assms by (rule evaluate_position_total)

subsection \<open>The floor after a partial sell\<close>

text \<open>Stops that only rise with the observation time; every opened position starts so.\<close>

definition rising :: "position \<Rightarrow> bool" where
  "rising s \<longleftrightarrow>
     (\<forall>t u a i c. t \<le> u \<longrightarrow> timeline s t = Some (a, i, c) \<longrightarrow>
        (\<exists>a' i' c'. timeline s u = Some (a', i', c') \<and> c \<le> c'))"

lemma rising_raise:
  assumes "rising s" and "\<And>x. timeline s' x = map_option (raise_from r a x) (timeline s x)"
  shows "rising s'"
  unfolding rising_def
proof (intro allI impI)
  fix t u atr i c
  assume tu: "t \<le> u" and "timeline s' t = Some (atr, i, c)"
  then obtain c0 where c0: "timeline s t = Some (atr, i, c0)" "c = (if a \<le> t then max c0 r else c0)"
    using assms(2) [of t] by (auto simp: raise_from_def)
  from assms(1) tu c0(1) obtain a' i' c' where "timeline s u = Some (a', i', c')" "c0 \<le> c'"
    unfolding rising_def by blast
  with c0(2) tu assms(2) [of u] show "\<exists>a' i' c'. timeline s' u = Some (a', i', c') \<and> c \<le> c'"
    by (auto simp: raise_from_def le_max_iff_disj max_def)
qed

lemma rising_frame [simp]:
  "rising (s\<lparr>ps_last_evaluated_at := x\<rparr>) = rising s"
  "rising (s\<lparr>ps_highest_close := h\<rparr>) = rising s"
  "rising (s\<lparr>ps_partial_exit_completed := b\<rparr>) = rising s"
  by (simp_all add: rising_def)

lemma protective_floor:
  assumes "protective_stop s h atr cfg = Inr p" and "ps_partial_exit_completed s"
    and "representable (ps_entry_price s)" and "0 \<le> cfg_post_partial_floor_atr cfg" and "0 < atr"
  shows "\<exists>r. p = Some r \<and> ps_entry_price s \<le> r"
proof -
  obtain w f where w: "dmul (cfg_post_partial_floor_atr cfg) atr = Inr w"
      "dadd (ps_entry_price s) w = Inr f" and f: "\<exists>r. p = Some r \<and> f \<le> r"
    using assms(1,2) by (auto simp: protective_stop_def result_simps)
  have "0 \<le> w" using dmul_Inr [OF w(1)] assms(4,5) by (simp add: dec.nonneg)
  then have "ps_entry_price s \<le> f"
    unfolding dadd_Inr [OF w(2)] using representable_fix [OF assms(3)]
    by (intro dec.above_kept) simp_all
  with f show ?thesis by auto
qed

text \<open>
  C22: Break-even after the first profit. For a partially sold position whose stops only rise,
  a covered bar that triggers no exit leaves, for every observation that starts at the end of
  that bar or later, a stop at or above the entry price; and the stops still only rise.
\<close>

theorem held_after_partial_breaks_even:
  assumes wf: "position_wf s" and ris: "rising s" and bar: "bar_wf bar"
    and part: "ps_partial_exit_completed s"
    and t: "pb_starts_at bar = Some t" and u: "pb_ends_at bar = Some u"
    and cov: "timeline s t \<noteq> None"
    and rep: "representable (ps_entry_price s)" and cfg: "0 \<le> cfg_post_partial_floor_atr config"
    and ev: "evaluate_position s bar bars_held trend_intact config = Inr e"
    and none: "ev_signal e = None"
  shows "rising (ev_state e)
    \<and> (\<forall>x \<ge> u. \<exists>a i c. timeline (ev_state e) x = Some (a, i, c) \<and> ps_entry_price s \<le> c)"
  using wf t ev
proof (cases rule: evaluate_position_cases)
  case (held atr i c)
  have tu: "t \<le> u" using bar t u by (auto simp: bar_wf_def)
  from wf t u tu held(1,4) show ?thesis
  proof (cases rule: hold_position_cases)
    case (1 p s1)
    have atr: "0 < atr" by (rule levels_positive(1) [OF wf held(1)])
    obtain r where r: "p = Some r" "ps_entry_price s \<le> r"
      using protective_floor [OF 1(1) part rep cfg atr] by blast
    have "rising s1 \<and> (\<forall>x \<ge> u. \<exists>a i c. timeline s1 x = Some (a, i, c) \<and> ps_entry_price s \<le> c)"
    proof (cases "s1 = s \<and> the p \<le> c")
      case True
      show ?thesis
      proof (intro conjI allI impI)
        fix x assume "u \<le> x"
        with tu ris held(1) obtain a' i' c' where "timeline s x = Some (a', i', c')" "c \<le> c'"
          unfolding rising_def by (meson order_trans)
        with True r show "\<exists>a i c. timeline s1 x = Some (a, i, c) \<and> ps_entry_price s \<le> c"
          by auto
      qed (use True ris in simp)
    next
      case False
      with 1(4) r have tl: "\<forall>x. timeline s1 x = map_option (raise_from r u x) (timeline s x)"
        by auto
      then have "rising s1" using rising_raise [OF ris] by blast
      moreover have "\<exists>a i c. timeline s1 x = Some (a, i, c) \<and> ps_entry_price s \<le> c" if "u \<le> x" for x
      proof -
        from that tu ris held(1) obtain a' i' c' where "timeline s x = Some (a', i', c')"
          unfolding rising_def by (meson order_trans)
        with tl that r show ?thesis by (auto simp: raise_from_def le_max_iff_disj)
      qed
      ultimately show ?thesis by blast
    qed
    with 1(2) show ?thesis by simp
  qed
qed (use cov none in auto)

subsection \<open>Witnesses\<close>

definition demo_bar :: "rat \<Rightarrow> position_bar" where
  "demo_bar low =
     \<lparr>pb_as_of = 3000, pb_open = 70500, pb_high = 70600, pb_low = low, pb_close = 70200,
      pb_starts_at = Some 2500, pb_ends_at = Some 3000\<rparr>"

definition demo_sold :: position where
  "demo_sold = demo_position\<lparr>ps_partial_exit_completed := True\<rparr>"

lemma demo_bar_wf: "0 < low \<Longrightarrow> low \<le> 70200 \<Longrightarrow> bar_wf (demo_bar low)"
  by (auto simp: bar_wf_def demo_bar_def)

lemma demo_sold_wf: "position_wf demo_sold"
  using demo_position_wf by (simp add: demo_sold_def position_wf_def)

lemma demo_ordinary:
  "ordinary_position demo_position" "ordinary_position demo_sold" "ordinary_config default_config"
  "ordinary (pb_close (demo_bar low))"
  by (simp_all add: ordinary_position_def ordinary_config_def ordinary_def mag_le_def default_config_def
      demo_sold_def demo_position_def demo_bar_def versions_def current_level_def)

lemma demo_evaluates:
  assumes "0 < low" and "low \<le> 70200"
  shows "\<exists>e. evaluate_position demo_position (demo_bar low) 1 True default_config = Inr e"
    and "\<exists>e. evaluate_position demo_sold (demo_bar low) 1 True default_config = Inr e"
  using assms
  by (intro evaluate_position_total demo_position_wf demo_sold_wf demo_bar_wf demo_ordinary;
      simp add: demo_sold_def demo_position_def demo_bar_def)+

theorem evaluate_position_never_loosens_witness:
  "\<exists>e. evaluate_position demo_position (demo_bar 69000) 1 True default_config = Inr e
     \<and> position_wf (ev_state e) \<and> ps_last_evaluated_at (ev_state e) = Some 3000"
proof -
  obtain e where e: "evaluate_position demo_position (demo_bar 69000) 1 True default_config = Inr e"
    using demo_evaluates(1) [of 69000] by auto
  have "bar_wf (demo_bar 69000)" by (rule demo_bar_wf) simp_all
  from evaluate_position_never_loosens [OF demo_position_wf this e] e show ?thesis
    by (auto simp: demo_bar_def)
qed

theorem stop_breach_exits_all_witness:
  "\<exists>e x. evaluate_position demo_position (demo_bar 67500) 1 True default_config = Inr e
     \<and> ev_signal e = Some x \<and> stop_kind (sig_kind x) \<and> sig_quantity_fraction x = 1
     \<and> sig_reference_price x \<le> 68000"
proof -
  obtain e where e: "evaluate_position demo_position (demo_bar 67500) 1 True default_config = Inr e"
    using demo_evaluates(1) [of 67500] by auto
  have w: "bar_wf (demo_bar 67500)" by (rule demo_bar_wf) simp_all
  have t: "pb_starts_at (demo_bar 67500) = Some 2500" by (simp add: demo_bar_def)
  have tl: "timeline demo_position 2500 = Some (1500, 67000, 68000)" by (simp add: demo_timeline)
  have "pb_low (demo_bar 67500) \<le> 68000" by (simp add: demo_bar_def)
  with stop_breach_exits_all [OF demo_position_wf w t tl e] e show ?thesis by blast
qed

theorem daily_run_safe_witness:
  "\<exists>xs s. daily_run default_config demo_position xs s \<and> position_wf s
     \<and> ps_last_evaluated_at s = Some 3000 \<and> length (filter is_partial xs) \<le> 1"
proof -
  obtain e where e: "evaluate_position demo_position (demo_bar 69000) 1 True default_config = Inr e"
    using demo_evaluates(1) [of 69000] by auto
  have w: "bar_wf (demo_bar 69000)" by (rule demo_bar_wf) simp_all
  have r: "daily_run default_config demo_position (emitted e) (ev_state e)"
    using run_step [OF run_start w e] by simp
  have "ps_last_evaluated_at (ev_state e) = Some 3000"
    using evaluate_position_step [OF demo_position_wf w e] by (simp add: demo_bar_def)
  with daily_run_safe [OF r demo_position_wf] r show ?thesis
    by (auto simp: demo_position_def)
qed

theorem exit_signal_material_inject_witness:
  "exit_signal_material (ps_market demo_position) (ps_symbol demo_position)
     (ps_position_cycle_id demo_position) STOP 3000
   \<noteq> exit_signal_material (ps_market demo_position) (ps_symbol demo_position)
     (ps_position_cycle_id demo_position) STOP 4000"
proof -
  have r: "datetime_range 3000" "datetime_range 4000" by code_simp+
  have b: "CHR ''|'' \<notin> set (ps_symbol demo_position)" by (simp add: demo_position_def)
  show ?thesis
    using exit_signal_material_inject [OF demo_position_wf demo_position_wf b b r, of STOP STOP]
    by auto
qed

theorem evaluate_position_returns_witness:
  "\<exists>e. evaluate_position demo_position (demo_bar 69000) 1 False default_config = Inr e"
  by (rule evaluate_position_returns [OF demo_position_wf demo_bar_wf])
    (simp_all add: demo_ordinary, simp_all add: demo_position_def demo_bar_def)

lemma demo_rising: "rising demo_sold"
proof -
  have "timeline demo_sold = timeline demo_position" by (simp add: demo_sold_def)
  then show ?thesis by (auto simp: rising_def demo_timeline)
qed

theorem held_after_partial_breaks_even_witness:
  "\<exists>e. evaluate_position demo_sold (demo_bar 69000) 1 True default_config = Inr e
     \<and> (\<exists>a i c. timeline (ev_state e) 3000 = Some (a, i, c) \<and> 70000 \<le> c)"
proof -
  obtain e where e: "evaluate_position demo_sold (demo_bar 69000) 1 True default_config = Inr e"
    using demo_evaluates(2) [of 69000] by auto
  have w: "bar_wf (demo_bar 69000)" by (rule demo_bar_wf) simp_all
  have t: "pb_starts_at (demo_bar 69000) = Some 2500" "pb_ends_at (demo_bar 69000) = Some 3000"
    by (simp_all add: demo_bar_def)
  have tl: "timeline demo_sold 2500 = Some (1500, 67000, 68000)"
    by (simp add: demo_sold_def demo_timeline)
  have p: "ps_partial_exit_completed demo_sold" "ps_entry_price demo_sold = 70000"
    by (simp_all add: demo_sold_def demo_position_def)
  have "map_sum id ev_signal (evaluate_position demo_sold (demo_bar 69000) 1 True default_config)
      = Inr None"
    by code_simp
  with e have none: "ev_signal e = None" by simp
  have "timeline demo_sold 2500 \<noteq> None" "representable (ps_entry_price demo_sold)"
      "0 \<le> cfg_post_partial_floor_atr default_config"
    using tl p representable_int [of 70000] by (simp_all add: default_config_def)
  from held_after_partial_breaks_even [OF demo_sold_wf demo_rising w p(1) t this e none]
  have "\<exists>a i c. timeline (ev_state e) 3000 = Some (a, i, c) \<and> 70000 \<le> c" using p(2) by simp
  with e show ?thesis by blast
qed

end
