(* ===== verification/Position_Intraday.thy ===== *)
theory Position_Intraday
  imports Position_Runs
begin

text \<open>
  The intraday evaluation: a window of completed buckets is read against the stored levels
  and yields at most one signal, without touching the position.
\<close>

subsection \<open>Buckets that count, and buckets that breach\<close>

definition eligible :: "position \<Rightarrow> duration \<Rightarrow> instant option \<Rightarrow> position_bar \<Rightarrow> bool" where
  "eligible s interval after bar \<longleftrightarrow>
     ps_entry_at s \<le> pb_as_of bar - interval
     \<and> (case after of None \<Rightarrow> True | Some a \<Rightarrow> a < pb_as_of bar)
     \<and> timeline s (the (pb_starts_at bar)) \<noteq> None"

definition breaches :: "position \<Rightarrow> position_bar \<Rightarrow> bool" where
  "breaches s bar \<longleftrightarrow>
     (case timeline s (the (pb_starts_at bar)) of
        None \<Rightarrow> False | Some (atr, i, c) \<Rightarrow> pb_low bar \<le> c)"

text \<open>A full-exit signal for a bucket: its kind, size, time and price bounds.\<close>

definition full_exit_at :: "position \<Rightarrow> position_bar \<Rightarrow> position_exit_signal \<Rightarrow> bool" where
  "full_exit_at s bar x \<longleftrightarrow>
     stop_kind (sig_kind x) \<and> sig_quantity_fraction x = 1 \<and> sig_signal_at x = pb_as_of bar
     \<and> sig_idempotency_key x = signal_key s bar (sig_kind x)
     \<and> pb_low bar \<le> sig_reference_price x \<and> sig_reference_price x \<le> sig_current_stop x"

text \<open>
  What one bucket contributes: nothing when it is skipped, the end of the scan with a full
  exit, or a partial sell that is remembered.
\<close>

lemma scan_step:
  assumes wf: "position_wf s" and bar: "bar_wf bar"
    and sc: "scan_intraday s interval after cfg partial (bar # bars) = Inr r"
  obtains
    (skip) "\<not> eligible s interval after bar \<or> \<not> breaches s bar"
      "scan_intraday s interval after cfg partial bars = Inr r"
  | (stop) x where "eligible s interval after bar" "breaches s bar" "r = Some x"
      "full_exit_at s bar x"
  | (partial) x where "eligible s interval after bar" "\<not> breaches s bar" "partial = None"
      "\<not> ps_partial_exit_completed s" "sig_kind x = PARTIAL_SELL"
      "sig_quantity_fraction x = cfg_partial_fraction cfg" "sig_signal_at x = pb_as_of bar"
      "scan_intraday s interval after cfg (Some x) bars = Inr r"
proof -
  from bar obtain t where t: "pb_starts_at bar = Some t" by (auto simp: bar_wf_def)
  have st: "sorted_wrt opt_less (map elv_effective_at (versions s))"
    using wf by (simp add: position_wf_def)
  note simps = t cover_observation_timeline [OF st] exit_levels_for_bar_timeline [OF t]
    exit_signal_wf [OF wf]
  show thesis
  proof (cases "eligible s interval after bar")
    case False
    with sc have "scan_intraday s interval after cfg partial bars = Inr r"
      by (auto simp: eligible_def simps not_less not_le split: option.splits if_splits)
    with False show thesis by (intro skip) auto
  next
    case True
    then obtain atr i c where tl: "timeline s t = Some (atr, i, c)"
      by (auto simp: eligible_def t)
    from True have g: "\<not> pb_as_of bar - interval < ps_entry_at s"
        "\<not> (case after of None \<Rightarrow> False | Some a \<Rightarrow> pb_as_of bar \<le> a)"
      by (auto simp: eligible_def split: option.splits)
    define body where "body target = (if pb_open bar \<le> c
         then Inr (Some (signal_of s bar (if i < c then TRAILING_STOP_GAP else STOP_GAP) 1
                (pb_open bar) IntradayOpenBelowStop (atr, i, c)))
         else if pb_low bar \<le> c
         then Inr (Some (signal_of s bar (if i < c then TRAILING_STOP else STOP) 1
                c IntradayLowTouchedStop (atr, i, c)))
         else if partial = None \<and> \<not> ps_partial_exit_completed s \<and> target \<le> pb_high bar
         then bindr (dmul (cfg_partial_fraction cfg) 100) (\<lambda>percent.
                scan_intraday s interval after cfg
                  (Some (signal_of s bar PARTIAL_SELL (cfg_partial_fraction cfg)
                     (if target \<le> pb_open bar then pb_open bar else target)
                     (IntradayPartialTargetReached (cfg_partial_profit_atr cfg) percent)
                     (atr, i, c))) bars)
         else scan_intraday s interval after cfg partial bars)" for target
    have "bindr (dmul (cfg_partial_profit_atr cfg) atr) (\<lambda>width.
        bindr (dadd (ps_entry_price s) width) body) = Inr r"
      using sc tl g by (simp add: simps Let_def body_def [abs_def] cong: if_cong split del: if_split)
    then obtain target where body: "body target = Inr r" by (elim bindrE)
    have br: "breaches s bar \<longleftrightarrow> pb_low bar \<le> c" by (simp add: breaches_def t tl)
    have low: "pb_low bar \<le> pb_open bar" using bar by (simp add: bar_wf_def)
    consider "pb_low bar \<le> c"
      | "\<not> pb_low bar \<le> c" "partial = None \<and> \<not> ps_partial_exit_completed s \<and> target \<le> pb_high bar"
      | "\<not> pb_low bar \<le> c" "\<not> (partial = None \<and> \<not> ps_partial_exit_completed s \<and> target \<le> pb_high bar)"
      by blast
    then show thesis
    proof cases
      case 1
      with body low body_def have "\<exists>x. r = Some x \<and> full_exit_at s bar x"
        by (auto simp: full_exit_at_def signal_of_def stop_kind_def split: if_splits)
      with True 1 br show thesis using stop by blast
    next
      case 2
      with body low True br body_def show thesis
        by (auto simp: bindr_eq_Inr intro!: partial) (auto simp: signal_of_def)
    next
      case 3
      with body low br body_def show thesis by (intro skip) auto
    qed
  qed
qed

definition intraday_hits ::
    "position \<Rightarrow> duration \<Rightarrow> instant option \<Rightarrow> position_bar list \<Rightarrow> position_bar list" where
  "intraday_hits s interval after bars =
     filter (\<lambda>b. eligible s interval after b \<and> breaches s b) bars"

lemma scan_intraday_spec:
  assumes "position_wf s" and "\<forall>b \<in> set bars. bar_wf b"
    and "scan_intraday s interval after cfg partial bars = Inr r"
  shows "case intraday_hits s interval after bars of
      b # _ \<Rightarrow> (\<exists>x. r = Some x \<and> full_exit_at s b x)
    | [] \<Rightarrow> r = partial \<or> (partial = None \<and> \<not> ps_partial_exit_completed s
        \<and> (\<exists>x b. r = Some x \<and> sig_kind x = PARTIAL_SELL
             \<and> sig_quantity_fraction x = cfg_partial_fraction cfg
             \<and> b \<in> set bars \<and> eligible s interval after b \<and> sig_signal_at x = pb_as_of b))"
  using assms
proof (induction bars arbitrary: partial)
  case Nil
  then show ?case by (simp add: intraday_hits_def)
next
  case (Cons b bars)
  from Cons.prems have b: "bar_wf b" and bs: "\<forall>b \<in> set bars. bar_wf b" by auto
  from Cons.prems(1) b Cons.prems(3) show ?case
  proof (cases rule: scan_step)
    case skip
    from skip(1) have "intraday_hits s interval after (b # bars) = intraday_hits s interval after bars"
      by (auto simp: intraday_hits_def)
    with Cons.IH [OF Cons.prems(1) bs skip(2)] show ?thesis
      by (auto split: list.splits)
  next
    case (stop x)
    then show ?thesis by (simp add: intraday_hits_def)
  next
    case (partial x)
    from partial(2) have "intraday_hits s interval after (b # bars) = intraday_hits s interval after bars"
      by (auto simp: intraday_hits_def)
    with Cons.IH [OF Cons.prems(1) bs partial(8)] partial show ?thesis
      by (auto split: list.splits)
  qed
qed

text \<open>
  C4: The intraday evaluation returns the earliest full stop of the window. If some eligible
  bucket's low reached the stop in force at its start, the signal is a full exit for the first
  such bucket in time order, even when an earlier bucket reached the profit target; otherwise
  there is no signal, or a partial sell for an eligible bucket of a position not yet partially
  sold.
\<close>

theorem intraday_earliest_stop_wins:
  assumes "position_wf s" and "\<forall>b \<in> set bars. bar_wf b"
    and "evaluate_position_intraday s bars interval after config = Inr r"
  shows "case intraday_hits s interval after (sort_key pb_as_of bars) of
      b # _ \<Rightarrow> (\<exists>x. r = Some x \<and> full_exit_at s b x)
    | [] \<Rightarrow> r = None \<or> (\<not> ps_partial_exit_completed s
        \<and> (\<exists>x b. r = Some x \<and> sig_kind x = PARTIAL_SELL
             \<and> sig_quantity_fraction x = cfg_partial_fraction config
             \<and> b \<in> set bars \<and> eligible s interval after b \<and> sig_signal_at x = pb_as_of b))"
  using scan_intraday_spec [of s "sort_key pb_as_of bars" interval after config None r] assms
  by (auto simp: evaluate_position_intraday_def split: list.splits)

text \<open>
  The intraday evaluation does not depend on the order in which the buckets arrive: two
  deliveries of the same buckets, with distinct bucket times, give the same result.
\<close>

theorem intraday_order_independent:
  assumes "mset bars = mset bars'" and "distinct (map pb_as_of bars)"
  shows "evaluate_position_intraday s bars interval after config
    = evaluate_position_intraday s bars' interval after config"
  using sorted_distinct_keys_unique [OF assms] by (simp add: evaluate_position_intraday_def)

subsection \<open>Witnesses\<close>

lemma demo_intraday_stop:
  "\<exists>x. evaluate_position_intraday demo_position [demo_bar 67500] 100 None default_config = Inr (Some x)"
proof -
  have t: "pb_starts_at (demo_bar 67500) = Some 2500" by (simp add: demo_bar_def)
  have st: "sorted_wrt opt_less (map elv_effective_at (versions demo_position))"
    using demo_position_wf by (simp add: position_wf_def)
  have d: "dmul (cfg_partial_profit_atr default_config) 1500 = Inr 750"
      "dadd (ps_entry_price demo_position) 750 = Inr 70750"
    by code_simp+
  have p: "pb_as_of (demo_bar 67500) = 3000" "pb_open (demo_bar 67500) = 70500"
      "pb_low (demo_bar 67500) = 67500" "ps_entry_at demo_position \<le> 2900"
    by (simp_all add: demo_bar_def demo_position_def)
  show ?thesis
    using p by (simp add: evaluate_position_intraday_def t cover_observation_timeline [OF st]
        exit_levels_for_bar_timeline [OF t] exit_signal_wf [OF demo_position_wf] demo_timeline d)
qed

theorem intraday_earliest_stop_wins_witness:
  "\<exists>x. evaluate_position_intraday demo_position [demo_bar 67500] 100 None default_config = Inr (Some x)
     \<and> full_exit_at demo_position (demo_bar 67500) x"
proof -
  obtain x where x: "evaluate_position_intraday demo_position [demo_bar 67500] 100 None default_config
      = Inr (Some x)"
    using demo_intraday_stop by blast
  have "\<forall>b \<in> set [demo_bar 67500]. bar_wf b" using demo_bar_wf [of 67500] by simp
  moreover have "intraday_hits demo_position 100 None [demo_bar 67500] = [demo_bar 67500]"
    by (simp add: intraday_hits_def eligible_def breaches_def demo_timeline)
      (simp add: demo_bar_def demo_position_def demo_timeline)
  ultimately show ?thesis
    using intraday_earliest_stop_wins [OF demo_position_wf _ x] x by simp
qed

definition demo_early_bar :: position_bar where
  "demo_early_bar = (demo_bar 69000)\<lparr>pb_as_of := 2500, pb_starts_at := Some 2000, pb_ends_at := Some 2500\<rparr>"

theorem intraday_order_independent_witness:
  "evaluate_position_intraday demo_position [demo_bar 67500, demo_early_bar] 100 None default_config
   = evaluate_position_intraday demo_position [demo_early_bar, demo_bar 67500] 100 None default_config"
  by (rule intraday_order_independent) (simp_all add: demo_early_bar_def demo_bar_def)

end
