(* ===== verification/Session_Calendar.thy ===== *)
theory Session_Calendar
  imports IsoFormat
begin

text \<open>
  The shared trading calendar, \<open>app/services/market_events/session_calendar.py\<close>.

  The package \<open>exchange_calendars\<close> is not part of the repository: it is the argument
  \<open>cal\<close>, a record of the four queries the module makes. Each query may raise; the module
  turns every exception into the fail-closed answer. \<open>calendar_ok\<close> states the documented
  behaviour the clients rely on.
\<close>

subsection \<open>The calendar package\<close>

datatype market = US | KR

datatype session_status = Open | Closed | Unknown

record xcal =
  xc_is_session :: "market \<Rightarrow> date_ordinal \<Rightarrow> bool result"
  xc_session_open :: "market \<Rightarrow> date_ordinal \<Rightarrow> instant result"
  xc_session_close :: "market \<Rightarrow> date_ordinal \<Rightarrow> instant result"
  xc_sessions_in_range :: "market \<Rightarrow> date_ordinal \<Rightarrow> date_ordinal \<Rightarrow> date_ordinal list result"

text \<open>
  Documented behaviour of \<open>exchange_calendars\<close>: the enumeration lists the sessions of the
  inclusive range in ascending order; a session has an opening before its closing, both
  within a day of the session's date in UTC; and sessions do not overlap.
\<close>

definition calendar_ok :: "xcal \<Rightarrow> market \<Rightarrow> bool" where
  "calendar_ok cal m \<longleftrightarrow>
     (\<forall>a b ds. xc_sessions_in_range cal m a b = Inr ds \<longrightarrow>
        sorted_wrt (<) ds \<and> (\<forall>d. d \<in> set ds \<longleftrightarrow> a \<le> d \<and> d \<le> b \<and> xc_is_session cal m d = Inr True))
     \<and> (\<forall>d. xc_is_session cal m d = Inr True \<longrightarrow>
          (\<exists>opens closes. xc_session_open cal m d = Inr opens \<and> xc_session_close cal m d = Inr closes
             \<and> opens < closes \<and> \<bar>utc_date opens - d\<bar> \<le> 1 \<and> \<bar>utc_date closes - d\<bar> \<le> 1))
     \<and> (\<forall>d d' closes opens. d < d' \<longrightarrow> xc_is_session cal m d = Inr True
          \<longrightarrow> xc_is_session cal m d' = Inr True \<longrightarrow> xc_session_close cal m d = Inr closes
          \<longrightarrow> xc_session_open cal m d' = Inr opens \<longrightarrow> closes \<le> opens)"

subsection \<open>The module\<close>

definition additional_closed_days :: "market \<Rightarrow> date_ordinal set" where
  "additional_closed_days m =
     (case m of
        KR \<Rightarrow> {ymd2ord (2025, 12, 31), ymd2ord (2026, 6, 3), ymd2ord (2026, 7, 17),
               ymd2ord (2026, 8, 17), ymd2ord (2026, 12, 31)}
      | US \<Rightarrow> {})"

definition is_additional_closed_day :: "market \<Rightarrow> date_ordinal \<Rightarrow> bool" where
  "is_additional_closed_day m day \<longleftrightarrow> day \<in> additional_closed_days m"

definition trading_session_status :: "xcal \<Rightarrow> market \<Rightarrow> date_ordinal \<Rightarrow> session_status" where
  "trading_session_status cal m day =
     (if is_additional_closed_day m day then Closed
      else case xc_is_session cal m day of
        Inl _ \<Rightarrow> Unknown
      | Inr session \<Rightarrow> if session then Open else Closed)"

definition is_trading_session :: "xcal \<Rightarrow> market \<Rightarrow> date_ordinal \<Rightarrow> bool" where
  "is_trading_session cal m day \<longleftrightarrow> trading_session_status cal m day = Open"

definition regular_session_bounds ::
    "xcal \<Rightarrow> market \<Rightarrow> date_ordinal \<Rightarrow> (instant \<times> instant) option" where
  "regular_session_bounds cal m day =
     (if is_additional_closed_day m day then None
      else case bindr (xc_is_session cal m day) (\<lambda>session.
                if \<not> session then Inr None
                else bindr (xc_session_open cal m day) (\<lambda>open_ts.
                     bindr (xc_session_close cal m day) (\<lambda>close_ts.
                     Inr (Some (open_ts, close_ts))))) of
             Inl _ \<Rightarrow> None
           | Inr bounds \<Rightarrow> bounds)"

definition session_search_days :: nat where "session_search_days = 32"

text \<open>The bounded searches: \<open>for offset in range(1, 33)\<close>, first confirmed session.\<close>

fun first_session :: "xcal \<Rightarrow> market \<Rightarrow> date_ordinal list \<Rightarrow> date_ordinal option" where
  "first_session cal m [] = None"
| "first_session cal m (d # ds) =
     (if is_trading_session cal m d then Some d else first_session cal m ds)"

definition next_trading_session :: "xcal \<Rightarrow> market \<Rightarrow> date_ordinal \<Rightarrow> date_ordinal option" where
  "next_trading_session cal m day =
     first_session cal m (map (\<lambda>offset. day + int offset) [1..<session_search_days + 1])"

definition previous_trading_session :: "xcal \<Rightarrow> market \<Rightarrow> date_ordinal \<Rightarrow> date_ordinal option" where
  "previous_trading_session cal m day =
     first_session cal m (map (\<lambda>offset. day - int offset) [1..<session_search_days + 1])"

definition trading_sessions_in_range ::
    "xcal \<Rightarrow> market \<Rightarrow> date_ordinal \<Rightarrow> date_ordinal \<Rightarrow> date_ordinal list" where
  "trading_sessions_in_range cal m start stop =
     (if stop < start then []
      else case xc_sessions_in_range cal m start stop of
        Inl _ \<Rightarrow> []
      | Inr sessions \<Rightarrow> filter (\<lambda>d. \<not> is_additional_closed_day m d) sessions)"

subsection \<open>Facts for the clients\<close>

lemma first_session_Some:
  "first_session cal m ds = Some d \<longleftrightarrow>
     (\<exists>i < length ds. ds ! i = d \<and> is_trading_session cal m d
        \<and> (\<forall>j < i. \<not> is_trading_session cal m (ds ! j)))"
proof (induction ds)
  case (Cons x ds)
  show ?case
  proof (cases "is_trading_session cal m x")
    case True
    have "i = 0" if "i < length (x # ds)" "\<forall>j < i. \<not> is_trading_session cal m ((x # ds) ! j)" for i
      using that True by (cases i) auto
    with True show ?thesis by fastforce
  next
    case False
    have "(\<exists>i < length (x # ds). (x # ds) ! i = d \<and> is_trading_session cal m d
        \<and> (\<forall>j < i. \<not> is_trading_session cal m ((x # ds) ! j)))
      \<longleftrightarrow> (\<exists>i < length ds. ds ! i = d \<and> is_trading_session cal m d
        \<and> (\<forall>j < i. \<not> is_trading_session cal m (ds ! j)))" (is "?l \<longleftrightarrow> ?r")
    proof
      assume ?l
      then obtain i where i: "i < length (x # ds)" "(x # ds) ! i = d" "is_trading_session cal m d"
        "\<forall>j < i. \<not> is_trading_session cal m ((x # ds) ! j)" by blast
      with False obtain k where "i = Suc k" by (cases i) auto
      with i show ?r by (intro exI [of _ k]) auto
    next
      assume ?r
      then obtain i where "i < length ds" "ds ! i = d" "is_trading_session cal m d"
        "\<forall>j < i. \<not> is_trading_session cal m (ds ! j)" by blast
      with False show ?l by (intro exI [of _ "Suc i"]) (auto simp: nth_Cons split: nat.splits)
    qed
    with False Cons show ?thesis by simp
  qed
qed simp

lemma first_session_None: "first_session cal m ds = None \<longleftrightarrow> (\<forall>d \<in> set ds. \<not> is_trading_session cal m d)"
  by (induction ds) auto

lemma bounds_confirmed:
  "regular_session_bounds cal m d = Some b \<Longrightarrow> is_trading_session cal m d"
  by (cases "xc_is_session cal m d")
    (auto simp: regular_session_bounds_def is_trading_session_def trading_session_status_def
      split: if_splits)

lemma bounds_of_session:
  assumes "calendar_ok cal m" and "is_trading_session cal m d"
  obtains opens closes where "regular_session_bounds cal m d = Some (opens, closes)"
    "opens < closes" "\<bar>utc_date opens - d\<bar> \<le> 1" "\<bar>utc_date closes - d\<bar> \<le> 1"
proof -
  from assms(2) have s: "xc_is_session cal m d = Inr True" "\<not> is_additional_closed_day m d"
    by (auto simp: is_trading_session_def trading_session_status_def split: if_splits sum.splits)
  with assms(1) obtain opens closes where "xc_session_open cal m d = Inr opens"
      "xc_session_close cal m d = Inr closes" "opens < closes" "\<bar>utc_date opens - d\<bar> \<le> 1"
      "\<bar>utc_date closes - d\<bar> \<le> 1"
    unfolding calendar_ok_def by blast
  with s that show thesis by (simp add: regular_session_bounds_def)
qed

lemma bounds_facts:
  assumes "calendar_ok cal m" and "regular_session_bounds cal m d = Some (opens, closes)"
  shows "opens < closes" "\<bar>utc_date opens - d\<bar> \<le> 1" "\<bar>utc_date closes - d\<bar> \<le> 1"
  using bounds_of_session [OF assms(1) bounds_confirmed [OF assms(2)]] assms(2) by auto

lemma bounds_disjoint:
  assumes ok: "calendar_ok cal m" and b: "regular_session_bounds cal m d = Some (opens, closes)"
    and b': "regular_session_bounds cal m d' = Some (opens', closes')" and "d < d'"
  shows "closes \<le> opens'"
proof -
  have "xc_is_session cal m x = Inr True \<and> xc_session_open cal m x = Inr u \<and> xc_session_close cal m x = Inr v"
    if "regular_session_bounds cal m x = Some (u, v)" for x u v
    using that by (cases "xc_is_session cal m x"; cases "xc_session_open cal m x"; cases "xc_session_close cal m x")
      (auto simp: regular_session_bounds_def split: if_splits)
  with b b' assms(4) ok show ?thesis unfolding calendar_ok_def by blast
qed

lemma sessions_in_range_spec:
  assumes "calendar_ok cal m"
  shows "sorted_wrt (<) (trading_sessions_in_range cal m a b)"
    and "d \<in> set (trading_sessions_in_range cal m a b) \<Longrightarrow> a \<le> d \<and> d \<le> b \<and> is_trading_session cal m d"
    and "xc_sessions_in_range cal m a b = Inr ds \<Longrightarrow>
      set (trading_sessions_in_range cal m a b) = {d. a \<le> d \<and> d \<le> b \<and> is_trading_session cal m d}"
proof -
  have sess: "is_trading_session cal m d \<longleftrightarrow> \<not> is_additional_closed_day m d \<and> xc_is_session cal m d = Inr True"
    for d by (auto simp: is_trading_session_def trading_session_status_def split: sum.splits)
  have ok: "sorted_wrt (<) ds \<and> (\<forall>d. d \<in> set ds \<longleftrightarrow> a \<le> d \<and> d \<le> b \<and> xc_is_session cal m d = Inr True)"
    if "xc_sessions_in_range cal m a b = Inr ds" for ds
    using assms that unfolding calendar_ok_def by blast
  show "sorted_wrt (<) (trading_sessions_in_range cal m a b)"
    using ok by (auto simp: trading_sessions_in_range_def sorted_wrt_filter split: sum.splits)
  show "d \<in> set (trading_sessions_in_range cal m a b) \<Longrightarrow> a \<le> d \<and> d \<le> b \<and> is_trading_session cal m d"
    using ok by (auto simp: trading_sessions_in_range_def sess split: sum.splits if_splits)
  show "xc_sessions_in_range cal m a b = Inr ds \<Longrightarrow>
      set (trading_sessions_in_range cal m a b) = {d. a \<le> d \<and> d \<le> b \<and> is_trading_session cal m d}"
    using ok [of ds] by (auto simp: trading_sessions_in_range_def sess)
qed

end
