(* ===== verification/Market_Session.thy ===== *)
theory Market_Session
  imports Session_Calendar PyDecimal
begin

text \<open>
  Regular-session boundaries, \<open>app/extensions/kasset/automation/market_session.py\<close>: which
  session closed last, which one is open, how many sessions have opened since a price was
  observed, and which daily bars belong to a closed session. The lemmas relate the searches,
  which look twelve days around a moment, to all sessions of the calendar.
\<close>

subsection \<open>The module\<close>

record regular_session =
  rs_market :: market
  rs_session_date :: date_ordinal
  rs_opens_at :: instant
  rs_closes_at :: instant

definition session_contains :: "regular_session \<Rightarrow> instant \<Rightarrow> bool" where
  "session_contains s moment \<longleftrightarrow> rs_opens_at s \<le> moment \<and> moment \<le> rs_closes_at s"

definition calendar_market :: "string \<Rightarrow> market result" where
  "calendar_market market =
     (let label = strip_upper market
      in if label = ''KRX'' \<or> label = ''KR'' then Inr KR
         else if label = ''US'' then Inr US
         else Inl (MarketSessionError (''unsupported market for the session calendar: ''
                     @ [CHR 0x27] @ market @ [CHR 0x27])))"

definition aware_utc :: "py_datetime \<Rightarrow> string \<Rightarrow> instant result" where
  "aware_utc value field_name =
     (case value of
        Aware t \<Rightarrow> Inr t
      | Naive _ \<Rightarrow> Inl (MarketSessionError (field_name @ '' must be timezone-aware'')))"

definition around_days :: int where "around_days = 12"

definition sessions_around :: "xcal \<Rightarrow> market \<Rightarrow> instant \<Rightarrow> regular_session list" where
  "sessions_around cal m moment =
     (let day = utc_date moment
      in sort_key rs_opens_at
           (List.map_filter (\<lambda>d.
              case regular_session_bounds cal m d of
                None \<Rightarrow> None
              | Some (opens_at, closes_at) \<Rightarrow>
                  Some \<lparr>rs_market = m, rs_session_date = d,
                        rs_opens_at = opens_at, rs_closes_at = closes_at\<rparr>)
             (trading_sessions_in_range cal m (day - around_days) (day + around_days))))"

definition latest_completed_session ::
    "xcal \<Rightarrow> string \<Rightarrow> py_datetime \<Rightarrow> regular_session option result" where
  "latest_completed_session cal market as_of =
     bindr (calendar_market market) (\<lambda>m.
     bindr (aware_utc as_of ''as_of'') (\<lambda>moment.
     let completed = filter (\<lambda>s. rs_closes_at s \<le> moment) (sessions_around cal m moment)
     in Inr (if completed \<noteq> [] then Some (last completed) else None)))"

definition current_regular_session ::
    "xcal \<Rightarrow> string \<Rightarrow> py_datetime \<Rightarrow> regular_session option result" where
  "current_regular_session cal market as_of =
     bindr (calendar_market market) (\<lambda>m.
     bindr (aware_utc as_of ''as_of'') (\<lambda>moment.
     Inr (find (\<lambda>s. session_contains s moment) (sessions_around cal m moment))))"

definition completed_bar_cutoff :: "xcal \<Rightarrow> string \<Rightarrow> py_datetime \<Rightarrow> instant option result" where
  "completed_bar_cutoff cal market as_of =
     bindr (latest_completed_session cal market as_of) (\<lambda>session.
     Inr (map_option rs_closes_at session))"

text \<open>\<open>next((index for index, s in enumerate(sessions) if s.closes_at > price), None)\<close>\<close>

fun owning_index :: "instant \<Rightarrow> regular_session list \<Rightarrow> nat option" where
  "owning_index price [] = None"
| "owning_index price (s # ss) =
     (if price < rs_closes_at s then Some 0 else map_option Suc (owning_index price ss))"

definition regular_sessions_opened_since ::
    "xcal \<Rightarrow> string \<Rightarrow> py_datetime \<Rightarrow> py_datetime \<Rightarrow> nat option result" where
  "regular_sessions_opened_since cal market price_at as_of =
     bindr (calendar_market market) (\<lambda>m.
     bindr (aware_utc price_at ''price_at'') (\<lambda>price.
     bindr (aware_utc as_of ''as_of'') (\<lambda>moment.
     if moment \<le> price then Inr (Some 0)
     else let sessions = sessions_around cal m moment
       in case owning_index price sessions of
            None \<Rightarrow> Inr None
          | Some owning \<Rightarrow>
              if owning = 0 then Inr None
              else Inr (Some (length (filter (\<lambda>s. rs_opens_at s \<le> moment)
                                (drop (owning + 1) sessions)))))))"

text \<open>A price bar of \<open>contracts.py\<close>, over the type of its numbers.\<close>

record 'd price_bar =
  bar_timestamp :: py_datetime
  bar_open :: 'd
  bar_high :: 'd
  bar_low :: 'd
  bar_close :: 'd
  bar_volume :: 'd

text \<open>
  The loop that keeps closed bars: a bar without a time zone is skipped, so the sort that
  follows compares instants.
\<close>

definition retained_bars :: "instant \<Rightarrow> 'd price_bar list \<Rightarrow> 'd price_bar list" where
  "retained_bars boundary bars =
     filter (\<lambda>bar. case aware_utc (bar_timestamp bar) ''bar timestamp'' of
                     Inl _ \<Rightarrow> False | Inr t \<Rightarrow> t < boundary) bars"

definition bar_instant :: "'d price_bar \<Rightarrow> instant" where
  "bar_instant bar = (case bar_timestamp bar of Aware t \<Rightarrow> t | Naive t \<Rightarrow> t)"

definition completed_daily_bars ::
    "xcal \<Rightarrow> 'd price_bar list \<Rightarrow> string \<Rightarrow> py_datetime \<Rightarrow> py_datetime option
      \<Rightarrow> 'd price_bar list result" where
  "completed_daily_bars cal bars market as_of cutoff =
     bindr (case cutoff of
              Some c \<Rightarrow> Inr (Some c)
            | None \<Rightarrow> bindr (completed_bar_cutoff cal market as_of)
                        (\<lambda>c. Inr (map_option Aware c))) (\<lambda>resolved.
     case resolved of
       None \<Rightarrow> Inr []
     | Some c \<Rightarrow> bindr (aware_utc c ''cutoff'') (\<lambda>boundary.
         Inr (sort_key bar_instant (retained_bars boundary bars))))"

subsection \<open>The sessions of the calendar\<close>

text \<open>A confirmed session of the calendar, with its bounds.\<close>

definition session_of :: "xcal \<Rightarrow> market \<Rightarrow> regular_session \<Rightarrow> bool" where
  "session_of cal m s \<longleftrightarrow> rs_market s = m
     \<and> regular_session_bounds cal m (rs_session_date s) = Some (rs_opens_at s, rs_closes_at s)"

definition before :: "regular_session \<Rightarrow> regular_session \<Rightarrow> bool" where
  "before s s' \<longleftrightarrow> rs_session_date s < rs_session_date s' \<and> rs_opens_at s < rs_opens_at s'
     \<and> rs_closes_at s < rs_closes_at s' \<and> rs_closes_at s \<le> rs_opens_at s'"

lemma session_before:
  assumes "calendar_ok cal m" and "session_of cal m s" and "session_of cal m s'"
    and "rs_session_date s < rs_session_date s'"
  shows "before s s'"
  using bounds_disjoint [OF assms(1) _ _ assms(4)] assms(2-4)
    bounds_facts(1) [OF assms(1), of "rs_session_date s" "rs_opens_at s" "rs_closes_at s"]
    bounds_facts(1) [OF assms(1), of "rs_session_date s'" "rs_opens_at s'" "rs_closes_at s'"]
  by (fastforce simp: session_of_def before_def)

lemma session_same_date:
  "session_of cal m s \<Longrightarrow> session_of cal m s' \<Longrightarrow> rs_session_date s = rs_session_date s' \<Longrightarrow> s = s'"
  by (cases s; cases s') (simp add: session_of_def)

lemma session_linear:
  assumes "calendar_ok cal m" and "session_of cal m s" and "session_of cal m s'"
  shows "s = s' \<or> before s s' \<or> before s' s"
  using session_before [OF assms] session_before [OF assms(1,3,2)] session_same_date [OF assms(2,3)]
  by linarith

lemma session_near:
  assumes "calendar_ok cal m" and "session_of cal m s"
  shows "\<bar>utc_date (rs_opens_at s) - rs_session_date s\<bar> \<le> 1"
    and "\<bar>utc_date (rs_closes_at s) - rs_session_date s\<bar> \<le> 1"
    and "rs_opens_at s < rs_closes_at s"
  using bounds_facts [OF assms(1), of "rs_session_date s" "rs_opens_at s" "rs_closes_at s"] assms(2)
  by (simp_all add: session_of_def)

lemma utc_date_mono: "s \<le> t \<Longrightarrow> utc_date s \<le> utc_date t"
  by (simp add: utc_date_def day_us_def zdiv_mono1)

subsection \<open>The window around a moment\<close>

definition in_window :: "instant \<Rightarrow> regular_session \<Rightarrow> bool" where
  "in_window t s \<longleftrightarrow> \<bar>rs_session_date s - utc_date t\<bar> \<le> around_days"

definition read_session :: "xcal \<Rightarrow> market \<Rightarrow> date_ordinal \<Rightarrow> regular_session option" where
  "read_session cal m d =
     map_option (\<lambda>(u, v). \<lparr>rs_market = m, rs_session_date = d, rs_opens_at = u, rs_closes_at = v\<rparr>)
       (regular_session_bounds cal m d)"

lemma read_session_iff: "read_session cal m d = Some s \<longleftrightarrow> session_of cal m s \<and> rs_session_date s = d"
  by (cases s) (auto simp: read_session_def session_of_def)

lemma set_map_filter: "set (List.map_filter f xs) = {y. \<exists>x \<in> set xs. f x = Some y}"
  by (induction xs) (auto simp: List.map_filter_simps split: option.splits)

lemma sorted_read_sessions:
  assumes ok: "calendar_ok cal m" and "sorted_wrt (<) ds"
  shows "sorted_wrt before (List.map_filter (read_session cal m) ds)"
  using assms(2)
proof (induction ds)
  case (Cons d ds)
  have "before s s'" if "read_session cal m d = Some s" "s' \<in> set (List.map_filter (read_session cal m) ds)" for s s'
    using that Cons.prems session_before [OF ok, of s s']
    by (auto simp: set_map_filter read_session_iff)
  with Cons show ?case by (auto simp: List.map_filter_simps split: option.splits)
qed (simp add: List.map_filter_simps)

lemma sessions_around_eq:
  assumes "calendar_ok cal m"
  shows "sessions_around cal m t = List.map_filter (read_session cal m)
      (trading_sessions_in_range cal m (utc_date t - around_days) (utc_date t + around_days))"
    (is "_ = ?ss")
proof -
  have "sorted_wrt before ?ss"
    by (rule sorted_read_sessions [OF assms sessions_in_range_spec(1) [OF assms]])
  then have "sorted (map rs_opens_at ?ss)"
    unfolding sorted_map by (rule sorted_wrt_mono_rel [rotated]) (simp add: before_def)
  moreover have "sessions_around cal m t = sort_key rs_opens_at ?ss"
    unfolding sessions_around_def Let_def read_session_def
    by (rule arg_cong [where f = "sort_key rs_opens_at"], rule arg_cong2 [where f = List.map_filter])
      (auto split: option.splits)
  ultimately show ?thesis by (simp add: sort_key_id_if_sorted)
qed

lemma sessions_around_spec:
  assumes ok: "calendar_ok cal m"
  shows "sorted_wrt before (sessions_around cal m t)"
    and "s \<in> set (sessions_around cal m t) \<Longrightarrow> session_of cal m s \<and> in_window t s"
    and "sessions_around cal m t \<noteq> [] \<Longrightarrow> session_of cal m s \<Longrightarrow> in_window t s
      \<Longrightarrow> s \<in> set (sessions_around cal m t)"
proof -
  let ?ds = "trading_sessions_in_range cal m (utc_date t - around_days) (utc_date t + around_days)"
  have set: "set (sessions_around cal m t) = {s. session_of cal m s \<and> rs_session_date s \<in> set ?ds}"
    by (auto simp: sessions_around_eq [OF ok] set_map_filter read_session_iff)
  show "sorted_wrt before (sessions_around cal m t)"
    unfolding sessions_around_eq [OF ok] by (rule sorted_read_sessions [OF ok sessions_in_range_spec(1) [OF ok]])
  show "session_of cal m s \<and> in_window t s" if "s \<in> set (sessions_around cal m t)"
    using that sessions_in_range_spec(2) [OF ok, of "rs_session_date s" "utc_date t - around_days"
        "utc_date t + around_days"] unfolding set
    by (auto simp: in_window_def abs_le_iff)
  show "s \<in> set (sessions_around cal m t)"
    if "sessions_around cal m t \<noteq> []" "session_of cal m s" "in_window t s"
  proof -
    have "?ds \<noteq> []" using that(1) set by auto
    then obtain ds where "xc_sessions_in_range cal m (utc_date t - around_days) (utc_date t + around_days) = Inr ds"
      by (auto simp: trading_sessions_in_range_def split: sum.splits if_splits)
    from sessions_in_range_spec(3) [OF ok this] that bounds_confirmed show ?thesis
      unfolding set by (auto simp: in_window_def abs_le_iff session_of_def)
  qed
qed

lemma sorted_wrt_last:
  assumes "sorted_wrt R xs" and "x \<in> set xs" and "x \<noteq> last xs"
  shows "R x (last xs)"
proof -
  obtain ys where xs: "xs = ys @ [last xs]" using assms(2) by (metis append_butlast_last_id empty_iff empty_set)
  with assms(2,3) have "x \<in> set ys" by (metis Un_iff empty_iff empty_set insert_iff list.simps(15) set_append)
  with assms(1) xs show ?thesis by (metis list.set_intros(1) sorted_wrt_append)
qed

subsection \<open>The latest completed session\<close>

lemma completed_in_window:
  assumes ok: "calendar_ok cal m" and s: "session_of cal m s" "in_window t s" "rs_closes_at s \<le> t"
    and s': "session_of cal m s'" "rs_closes_at s' \<le> t" "before s s'"
  shows "in_window t s'"
proof -
  have "utc_date (rs_closes_at s') \<le> utc_date t" using s'(2) by (rule utc_date_mono)
  with session_near(2) [OF ok s'(1)] s(2) s'(3) show ?thesis
    by (auto simp: in_window_def before_def around_days_def)
qed

text \<open>
  The latest completed session is the last session of the whole calendar that has closed:
  when the search returns a session, it is a confirmed session of the market, it closed no
  later than the moment, and no confirmed session closed after it and up to the moment. The
  search only reads twelve days around the moment.
\<close>

theorem latest_completed_session_is_last:
  assumes "calendar_ok cal m" and "calendar_market market = Inr m"
    and "latest_completed_session cal market (Aware t) = Inr (Some s)"
  shows "session_of cal m s \<and> rs_closes_at s \<le> t
    \<and> (\<forall>s'. session_of cal m s' \<longrightarrow> rs_closes_at s' \<le> t \<longrightarrow> rs_closes_at s' \<le> rs_closes_at s)"
proof -
  let ?c = "filter (\<lambda>s. rs_closes_at s \<le> t) (sessions_around cal m t)"
  have c: "?c \<noteq> []" "s = last ?c"
    using assms(2,3) by (auto simp: latest_completed_session_def aware_utc_def Let_def split: if_splits)
  then have mem: "s \<in> set ?c" by (metis last_in_set)
  then have s: "session_of cal m s" "in_window t s" "rs_closes_at s \<le> t"
    using sessions_around_spec(2) [OF assms(1)] by auto
  have "rs_closes_at s' \<le> rs_closes_at s" if s': "session_of cal m s'" "rs_closes_at s' \<le> t" for s'
  proof (rule ccontr)
    assume "\<not> ?thesis"
    with session_linear [OF assms(1) s(1) s'(1)] have b: "before s s'" by (auto simp: before_def)
    from completed_in_window [OF assms(1) s s' b] mem s' have "s' \<in> set ?c"
      using sessions_around_spec(3) [OF assms(1), of t s'] by (fastforce simp: filter_empty_conv)
    moreover have "s' \<noteq> s" using b by (auto simp: before_def)
    ultimately have "before s' s"
      using sorted_wrt_last [OF sorted_wrt_filter [OF sessions_around_spec(1) [OF assms(1)]]] c(2) by blast
    with b show False by (auto simp: before_def)
  qed
  with s show ?thesis by blast
qed

subsection \<open>Sessions opened since a price\<close>

lemma owning_index_Some:
  "owning_index p ss = Some i \<longleftrightarrow>
     i < length ss \<and> p < rs_closes_at (ss ! i) \<and> (\<forall>j < i. rs_closes_at (ss ! j) \<le> p)"
proof (induction ss arbitrary: i)
  case (Cons s ss)
  show ?case
  proof (cases i)
    case 0
    then show ?thesis by auto
  next
    case (Suc k)
    have "(\<forall>j < Suc k. rs_closes_at ((s # ss) ! j) \<le> p) \<longleftrightarrow>
        rs_closes_at s \<le> p \<and> (\<forall>j < k. rs_closes_at (ss ! j) \<le> p)"
      by (auto simp: less_Suc_eq_0_disj)
    with Suc Cons show ?thesis by auto
  qed
qed simp

lemma sorted_before_nth:
  assumes "sorted_wrt before ss" and "s \<in> set ss" and "i < length ss"
  shows "s \<in> set (drop (i + 1) ss) \<longleftrightarrow> before (ss ! i) s"
proof
  assume "s \<in> set (drop (i + 1) ss)"
  then obtain k where "k < length (drop (i + 1) ss)" "drop (i + 1) ss ! k = s"
    by (metis in_set_conv_nth)
  with assms(1) show "before (ss ! i) s"
    by (auto simp: sorted_wrt_iff_nth_less)
next
  assume b: "before (ss ! i) s"
  obtain k where k: "k < length ss" "ss ! k = s" using assms(2) by (metis in_set_conv_nth)
  have "\<not> k < i" "k \<noteq> i"
    using assms(1,3) k b sorted_wrt_nth_less [OF assms(1), of k i] by (auto simp: before_def)
  then have "i + 1 \<le> k" by simp
  with k show "s \<in> set (drop (i + 1) ss)"
    by (auto simp: in_set_conv_nth intro!: exI [of _ "k - (i + 1)"])
qed

lemma sorted_before_distinct: "sorted_wrt before ss \<Longrightarrow> distinct ss"
  by (induction ss) (auto simp: before_def)

text \<open>
  C38: The age of a price in sessions is exact. When the count is confirmed for a price before
  the moment, there is a session that owns the price (it closes after the price, and every
  session before it had closed by then), and the result is the number of sessions of the
  calendar after the owning one that have opened by the moment.
\<close>

theorem sessions_opened_since_counts:
  assumes "calendar_ok cal m" and "calendar_market market = Inr m" and "p < t"
    and "regular_sessions_opened_since cal market (Aware p) (Aware t) = Inr (Some n)"
  shows "\<exists>w. session_of cal m w \<and> p < rs_closes_at w
    \<and> (\<forall>s. session_of cal m s \<longrightarrow> before s w \<longrightarrow> rs_closes_at s \<le> p)
    \<and> n = card {s. session_of cal m s \<and> before w s \<and> rs_opens_at s \<le> t}"
proof -
  let ?ss = "sessions_around cal m t"
  note spec = sessions_around_spec [OF assms(1)]
  from assms(2-4) obtain i where own: "owning_index p ?ss = Some i" "i \<noteq> 0"
      and n: "n = length (filter (\<lambda>s. rs_opens_at s \<le> t) (drop (i + 1) ?ss))"
    by (auto simp: regular_sessions_opened_since_def aware_utc_def Let_def split: option.splits if_splits)
  then have i: "i < length ?ss" "p < rs_closes_at (?ss ! i)" "\<forall>j < i. rs_closes_at (?ss ! j) \<le> p"
    by (simp_all add: owning_index_Some)
  let ?w = "?ss ! i"
  have mem: "?ss ! j \<in> set ?ss" if "j \<le> i" for j using i(1) that by simp
  have w: "session_of cal m ?w" "in_window t ?w" using spec(2) [OF mem [of i]] by simp_all
  have ne: "?ss \<noteq> []" using i(1) by auto
  have prev: "before (?ss ! (i - 1)) ?w"
    using own(2) i(1) by (intro sorted_wrt_nth_less [OF spec(1)]) auto
  have "rs_closes_at s \<le> p" if s: "session_of cal m s" "before s ?w" for s
  proof -
    let ?v = "?ss ! (i - 1)"
    have v: "session_of cal m ?v" "in_window t ?v" "rs_closes_at ?v \<le> p"
      using spec(2) [OF mem [of "i - 1"]] i own(2) by auto
    show ?thesis
    proof (cases "before ?v s")
      case True
      with s v(2) w(2) have "in_window t s" by (auto simp: in_window_def before_def)
      with spec(3) ne s have "s \<in> set ?ss" by blast
      moreover have "s \<notin> set (drop (i - 1 + 1) ?ss)"
        using sorted_before_nth [OF spec(1) \<open>s \<in> set ?ss\<close> i(1)] s(2) own(2) i(1)
        by (auto simp: Cons_nth_drop_Suc [symmetric] before_def)
      ultimately show ?thesis
        using sorted_before_nth [OF spec(1) \<open>s \<in> set ?ss\<close>, of "i - 1"] True i(1) by simp
    next
      case False
      with session_linear [OF assms(1) s(1) v(1)] v(3) show ?thesis by (auto simp: before_def)
    qed
  qed
  moreover have "n = card {s. session_of cal m s \<and> before ?w s \<and> rs_opens_at s \<le> t}"
  proof -
    have "s \<in> set ?ss" if "session_of cal m s" "before ?w s" "rs_opens_at s \<le> t" for s
    proof -
      have "utc_date (rs_opens_at s) \<le> utc_date t" using that(3) by (rule utc_date_mono)
      with session_near(1) [OF assms(1) that(1)] w(2) that(2) have "in_window t s"
        by (auto simp: in_window_def before_def around_days_def)
      with spec(3) ne that(1) show ?thesis by blast
    qed
    then have "{s. session_of cal m s \<and> before ?w s \<and> rs_opens_at s \<le> t}
        = set (filter (\<lambda>s. rs_opens_at s \<le> t) (drop (i + 1) ?ss))"
      using sorted_before_nth [OF spec(1) _ i(1)] spec(2) in_set_dropD [of _ "i + 1" ?ss] by fastforce
    moreover have "distinct (filter (\<lambda>s. rs_opens_at s \<le> t) (drop (i + 1) ?ss))"
      using sorted_before_distinct [OF spec(1)] by simp
    ultimately show ?thesis using distinct_card n by metis
  qed
  ultimately show ?thesis using w i(2) by blast
qed

subsection \<open>Completed daily bars\<close>

text \<open>
  The daily setup only sees closed sessions. The bars that are kept are exactly the bars,
  with their multiplicity, that carry a time zone and lie before the close of the latest
  completed session, in ascending order of time; when the calendar confirms no completed
  session, no bar is kept.
\<close>

theorem completed_daily_bars_closed:
  assumes "completed_daily_bars cal bars market (Aware t) None = Inr kept"
  shows "sorted (map bar_instant kept)
    \<and> (\<exists>s. latest_completed_session cal market (Aware t) = Inr s
         \<and> mset kept = filter_mset (\<lambda>b. \<exists>u c. bar_timestamp b = Aware u
              \<and> map_option rs_closes_at s = Some c \<and> u < c) (mset bars))"
proof -
  from assms obtain s where s: "latest_completed_session cal market (Aware t) = Inr s"
    by (auto simp: completed_daily_bars_def completed_bar_cutoff_def bindr_eq_Inr)
  with assms have kept: "kept = (case s of None \<Rightarrow> []
      | Some x \<Rightarrow> sort_key bar_instant (retained_bars (rs_closes_at x) bars))"
    by (cases s) (simp_all add: completed_daily_bars_def completed_bar_cutoff_def aware_utc_def)
  have "mset (retained_bars c bars) = filter_mset (\<lambda>b. \<exists>u. bar_timestamp b = Aware u \<and> u < c) (mset bars)" for c
    unfolding retained_bars_def mset_filter
    by (rule filter_mset_cong) (auto simp: aware_utc_def split: py_datetime.splits)
  then have "mset kept = filter_mset (\<lambda>b. \<exists>u c. bar_timestamp b = Aware u
      \<and> map_option rs_closes_at s = Some c \<and> u < c) (mset bars)"
    by (cases s) (auto simp: kept)
  with s show ?thesis by (auto simp: kept split: option.splits)
qed

subsection \<open>Witnesses\<close>

text \<open>
  A calendar with a session every day from 00:00 to 06:30 UTC, the hours of the Korean
  exchange.
\<close>

definition daily_calendar :: xcal where
  "daily_calendar =
     \<lparr>xc_is_session = \<lambda>m d. Inr True,
      xc_session_open = \<lambda>m d. Inr ((d - epoch_ordinal) * day_us),
      xc_session_close = \<lambda>m d. Inr ((d - epoch_ordinal) * day_us + 23400000000),
      xc_sessions_in_range = \<lambda>m a b. Inr [a..b]\<rparr>"

lemma daily_calendar_date:
  "0 \<le> r \<Longrightarrow> r < day_us \<Longrightarrow> utc_date ((d - epoch_ordinal) * day_us + r) = d"
  by (simp add: utc_date_def day_us_def div_pos_pos_trivial)

lemma daily_calendar_ok: "calendar_ok daily_calendar m"
proof -
  have "(d - epoch_ordinal) * day_us + 23400000000 \<le> (d' - epoch_ordinal) * day_us" if "d < d'" for d d'
    using that by (simp add: day_us_def)
  moreover have "utc_date ((d - epoch_ordinal) * day_us) = d"
      "utc_date ((d - epoch_ordinal) * day_us + 23400000000) = d" for d
    using daily_calendar_date [of 0 d] daily_calendar_date [of 23400000000 d] by (simp_all add: day_us_def)
  ultimately show ?thesis by (auto simp: calendar_ok_def daily_calendar_def)
qed

text \<open>The moment 12:00 UTC on 5 October 2026, and the morning three days before it.\<close>

definition demo_moment :: instant where
  "demo_moment = (ymd2ord (2026, 10, 5) - epoch_ordinal) * day_us + 43200000000"

definition demo_price_time :: instant where
  "demo_price_time = demo_moment - 3 * day_us - 36000000000"

lemma demo_sessions:
  "latest_completed_session daily_calendar ''KRX'' (Aware demo_moment) =
     Inr (Some \<lparr>rs_market = KR, rs_session_date = ymd2ord (2026, 10, 5),
        rs_opens_at = demo_moment - 43200000000, rs_closes_at = demo_moment - 19800000000\<rparr>)"
  by code_simp

lemma demo_age:
  "regular_sessions_opened_since daily_calendar ''KRX'' (Aware demo_price_time) (Aware demo_moment)
     = Inr (Some 3)"
  by code_simp

lemma demo_krx: "calendar_market ''KRX'' = Inr KR"
  by code_simp

theorem latest_completed_session_is_last_witness:
  "\<not> (\<exists>s'. session_of daily_calendar KR s' \<and> rs_closes_at s' \<le> demo_moment
      \<and> demo_moment - 19800000000 < rs_closes_at s')"
  using latest_completed_session_is_last [OF daily_calendar_ok demo_krx demo_sessions] by fastforce

theorem sessions_opened_since_counts_witness:
  "\<exists>w. session_of daily_calendar KR w \<and> demo_price_time < rs_closes_at w
     \<and> card {s. session_of daily_calendar KR s \<and> before w s \<and> rs_opens_at s \<le> demo_moment} = 3"
proof -
  have "demo_price_time < demo_moment" by (simp add: demo_price_time_def day_us_def)
  from sessions_opened_since_counts [OF daily_calendar_ok demo_krx this demo_age]
  show ?thesis by metis
qed

definition demo_daily_bar :: "instant \<Rightarrow> rat \<Rightarrow> rat price_bar" where
  "demo_daily_bar t c =
     \<lparr>bar_timestamp = Aware t, bar_open = c, bar_high = c, bar_low = c, bar_close = c, bar_volume = 1000\<rparr>"

theorem completed_daily_bars_closed_witness:
  "\<exists>kept. completed_daily_bars daily_calendar
       [demo_daily_bar (demo_moment + day_us) 1, demo_daily_bar (demo_moment - day_us) 2] ''KRX''
       (Aware demo_moment) None = Inr kept
     \<and> sorted (map bar_instant kept)"
proof -
  obtain kept where k: "completed_daily_bars daily_calendar
       [demo_daily_bar (demo_moment + day_us) 1, demo_daily_bar (demo_moment - day_us) 2] ''KRX''
       (Aware demo_moment) None = Inr kept"
    by (simp add: completed_daily_bars_def completed_bar_cutoff_def demo_sessions aware_utc_def)
  with completed_daily_bars_closed [OF k] show ?thesis by blast
qed

end
