(* ===== verification/Regime.thy ===== *)
theory Regime
  imports Market_Session
begin

text \<open>
  Market-regime classification, \<open>app/extensions/kasset/automation/regime.py\<close>, over bars with
  finite prices. The mapping of bars by symbol is the list of its values in iteration order.
  The text \<open>detail\<close> is represented by the contributor count it prints beside the three
  published numbers.
\<close>

subsection \<open>The module\<close>

datatype market_regime = BULL | BEAR | SIDEWAYS | VOLATILE

datatype strategy_name = MOMENTUM | MEAN_REVERSION | BREAKOUT | VOLATILITY_TREND

record regime_assessment =
  ra_regime :: market_regime
  ra_contributors :: nat
  ra_breadth_above_sma20 :: rat
  ra_median_return20 :: rat
  ra_median_atr_ratio :: rat
  ra_weights :: "strategy_name \<Rightarrow> rat"

fun regime_weights :: "market_regime \<Rightarrow> strategy_name \<Rightarrow> rat" where
  "regime_weights BULL MOMENTUM = 35 / 100"
| "regime_weights BULL MEAN_REVERSION = 10 / 100"
| "regime_weights BULL BREAKOUT = 30 / 100"
| "regime_weights BULL VOLATILITY_TREND = 25 / 100"
| "regime_weights BEAR MOMENTUM = 20 / 100"
| "regime_weights BEAR MEAN_REVERSION = 35 / 100"
| "regime_weights BEAR BREAKOUT = 15 / 100"
| "regime_weights BEAR VOLATILITY_TREND = 30 / 100"
| "regime_weights SIDEWAYS MOMENTUM = 15 / 100"
| "regime_weights SIDEWAYS MEAN_REVERSION = 40 / 100"
| "regime_weights SIDEWAYS BREAKOUT = 20 / 100"
| "regime_weights SIDEWAYS VOLATILITY_TREND = 25 / 100"
| "regime_weights VOLATILE MOMENTUM = 15 / 100"
| "regime_weights VOLATILE MEAN_REVERSION = 20 / 100"
| "regime_weights VOLATILE BREAKOUT = 25 / 100"
| "regime_weights VOLATILE VOLATILITY_TREND = 40 / 100"

text \<open>\<open>MarketRegime(regime)\<close> on a string: the member with that value.\<close>

definition market_regime_of :: "string \<Rightarrow> market_regime result" where
  "market_regime_of v =
     (if v = ''TRENDING_UP'' then Inr BULL else if v = ''TRENDING_DOWN'' then Inr BEAR
      else if v = ''RANGING'' then Inr SIDEWAYS else if v = ''VOLATILE'' then Inr VOLATILE
      else Inl (ValueError ''not a valid MarketRegime''))"

definition weights_for_regime :: "string \<Rightarrow> (strategy_name \<Rightarrow> rat) result" where
  "weights_for_regime v = bindr (market_regime_of v) (\<lambda>r. Inr (regime_weights r))"

text \<open>The true ranges of the bars after the first one, with the running previous close.\<close>

fun true_ranges :: "rat \<Rightarrow> rat price_bar list \<Rightarrow> rat list result" where
  "true_ranges previous_close [] = Inr []"
| "true_ranges previous_close (bar # bars) =
     bindr (dsub (bar_high bar) (bar_low bar)) (\<lambda>span.
     bindr (dsub (bar_high bar) previous_close) (\<lambda>up.
     bindr (dabs up) (\<lambda>up.
     bindr (dsub (bar_low bar) previous_close) (\<lambda>down.
     bindr (dabs down) (\<lambda>down.
     bindr (true_ranges (bar_close bar) bars) (\<lambda>ranges.
     Inr (max span (max up down) # ranges)))))))"

text \<open>
  What one symbol contributes: nothing when it is sparse or has a nonpositive close, else
  whether it closed above its SMA20, its 20-bar return, and its ATR ratio.
\<close>

definition symbol_stats :: "rat price_bar list \<Rightarrow> (bool \<times> rat \<times> rat option) option result" where
  "symbol_stats bars =
     (if length bars < 20 then Inr None
      else let window = drop (length bars - 20) bars;
               close = bar_close (last window);
               first_close = bar_close (hd window)
        in if close \<le> 0 \<or> first_close \<le> 0 then Inr None
           else
             bindr (dsum 0 (map bar_close window)) (\<lambda>total.
             bindr (ddiv total 20) (\<lambda>sma20.
             bindr (ddiv close first_close) (\<lambda>growth.
             bindr (dsub growth 1) (\<lambda>return20.
             bindr (true_ranges first_close (tl window)) (\<lambda>ranges.
             if ranges \<noteq> [] then
               bindr (dsum 0 ranges) (\<lambda>range_total.
               bindr (ddiv range_total (of_nat (length ranges))) (\<lambda>atr.
               bindr (ddiv atr close) (\<lambda>ratio.
               Inr (Some (sma20 < close, return20, Some ratio)))))
             else Inr (Some (sma20 < close, return20, None))))))))"

text \<open>\<open>statistics.median\<close> of a non-empty list.\<close>

definition median :: "rat list \<Rightarrow> rat result" where
  "median xs =
     (let ys = sort xs; n = length ys
      in if odd n then Inr (ys ! (n div 2))
         else bindr (dadd (ys ! (n div 2 - 1)) (ys ! (n div 2))) (\<lambda>s. ddiv s 2))"

definition median_or_zero :: "rat list \<Rightarrow> rat result" where
  "median_or_zero xs = (if xs \<noteq> [] then median xs else Inr 0)"

definition classify_regime :: "rat \<Rightarrow> rat \<Rightarrow> rat \<Rightarrow> market_regime" where
  "classify_regime breadth return20 atr_ratio =
     (if breadth \<le> 40 / 100 \<and> return20 < - (2 / 100) then BEAR
      else if 35 / 1000 \<le> atr_ratio then VOLATILE
      else if 60 / 100 \<le> breadth \<and> 2 / 100 < return20 then BULL
      else SIDEWAYS)"

text \<open>The market evidence the classification reads: counts, breadth and the two medians.\<close>

definition market_evidence ::
    "rat price_bar list list \<Rightarrow> (nat \<times> market_regime \<times> rat \<times> rat \<times> rat) result" where
  "market_evidence bars_by_symbol =
     bindr (mapr symbol_stats bars_by_symbol) (\<lambda>stats.
     let kept = List.map_filter id stats;
         contributors = length kept;
         above_sma = length (filter fst kept);
         returns = map (fst \<circ> snd) kept;
         atr_ratios = List.map_filter (snd \<circ> snd) kept
     in if contributors = 0 then Inr (0, SIDEWAYS, 0, 0, 0)
        else
          bindr (ddiv (of_nat above_sma) (of_nat contributors)) (\<lambda>breadth.
          bindr (median_or_zero returns) (\<lambda>return20.
          bindr (median_or_zero atr_ratios) (\<lambda>atr_ratio.
          Inr (contributors, classify_regime breadth return20 atr_ratio,
               breadth, return20, atr_ratio)))))"

definition assess_market_regime :: "rat price_bar list list \<Rightarrow> regime_assessment result" where
  "assess_market_regime bars_by_symbol =
     bindr (market_evidence bars_by_symbol) (\<lambda>(contributors, regime, breadth, return20, atr_ratio).
     bindr (quantize_half_even (- 6) breadth) (\<lambda>breadth.
     bindr (quantize_half_even (- 6) return20) (\<lambda>return20.
     bindr (quantize_half_even (- 6) atr_ratio) (\<lambda>atr_ratio.
     Inr \<lparr>ra_regime = regime, ra_contributors = contributors, ra_breadth_above_sma20 = breadth,
          ra_median_return20 = return20, ra_median_atr_ratio = atr_ratio,
          ra_weights = regime_weights regime\<rparr>))))"

subsection \<open>Order of the symbols\<close>

text \<open>A computation whose only exception is a trapped arithmetic signal.\<close>

definition arithmetic_only :: "'a result \<Rightarrow> bool" where
  "arithmetic_only m \<longleftrightarrow> (\<forall>e. m = Inl e \<longrightarrow> e = DecimalException)"

lemma arithmetic_only_Inr [wf_intros]: "arithmetic_only (Inr x)"
  by (simp add: arithmetic_only_def)

lemma arithmetic_only_bindr [wf_intros]:
  "arithmetic_only m \<Longrightarrow> (\<And>x. arithmetic_only (f x)) \<Longrightarrow> arithmetic_only (bindr m f)"
  by (auto simp: arithmetic_only_def bindr_eq_Inl)

lemma arithmetic_only_if [wf_intros]:
  "(c \<Longrightarrow> arithmetic_only m) \<Longrightarrow> (\<not> c \<Longrightarrow> arithmetic_only n) \<Longrightarrow> arithmetic_only (if c then m else n)"
  by simp

lemma arithmetic_only_dec_ctx: "arithmetic_only (dec_ctx q)"
  by (simp add: arithmetic_only_def dec_ctx_def Let_def)

lemma arithmetic_only_ops [wf_intros]:
  "arithmetic_only (dadd a b)" "arithmetic_only (dsub a b)" "arithmetic_only (dmul a b)"
  "arithmetic_only (ddiv a b)" "arithmetic_only (dabs a)"
  using arithmetic_only_dec_ctx
  by (simp_all add: dadd_def dsub_def dmul_def ddiv_def dabs_def) (simp add: arithmetic_only_def)

lemma arithmetic_only_dsum [wf_intros]: "arithmetic_only (dsum a xs)"
  by (induction xs arbitrary: a) (auto intro!: wf_intros)

lemma arithmetic_only_true_ranges [wf_intros]: "arithmetic_only (true_ranges p bars)"
  by (induction bars arbitrary: p) (simp_all add: wf_intros)

lemma arithmetic_only_symbol_stats: "arithmetic_only (symbol_stats bars)"
  unfolding symbol_stats_def Let_def by (intro wf_intros)

lemma mapr_arithmetic_Inl:
  assumes "\<And>x. arithmetic_only (f x)"
  shows "mapr f xs = Inl e \<longleftrightarrow> e = DecimalException \<and> (\<exists>x \<in> set xs. \<exists>e. f x = Inl e)"
proof (induction xs)
  case (Cons x xs)
  then show ?case using assms [of x] by (cases "f x"; cases "mapr f xs") (auto simp: arithmetic_only_def)
qed simp

lemma mapr_Inr_map: "mapr f xs = Inr ys \<Longrightarrow> map f xs = map Inr ys"
  by (induction xs arbitrary: ys) (auto simp: bindr_eq_Inr)

lemma mapr_mset:
  assumes "mset xs = mset ys" and f: "\<And>x. arithmetic_only (f x)"
  obtains (raises) "mapr f xs = Inl DecimalException" "mapr f ys = Inl DecimalException"
  | (returns) us vs where "mapr f xs = Inr us" "mapr f ys = Inr vs" "mset us = mset vs"
proof (cases "mapr f xs")
  case (Inl e)
  have "set xs = set ys" using assms(1) by (metis set_mset_mset)
  with Inl mapr_arithmetic_Inl [where f = f, OF f, where xs = xs]
    mapr_arithmetic_Inl [where f = f, OF f, where xs = ys] raises show thesis by auto
next
  case (Inr us)
  have "set xs = set ys" using assms(1) by (metis set_mset_mset)
  with Inr mapr_arithmetic_Inl [where f = f, OF f, where xs = xs]
    mapr_arithmetic_Inl [where f = f, OF f, where xs = ys]
  obtain vs where vs: "mapr f ys = Inr vs" by (cases "mapr f ys") auto
  have "image_mset f (mset xs) = image_mset Inr (mset us)" "image_mset f (mset ys) = image_mset Inr (mset vs)"
    using mapr_Inr_map [OF Inr] mapr_Inr_map [OF vs] by (metis mset_map)+
  then have "image_mset (Inr :: _ \<Rightarrow> _ result) (mset us) = image_mset Inr (mset vs)"
    using assms(1) by metis
  from arg_cong [where f = "image_mset projr", OF this] have "mset us = mset vs"
    by (simp add: image_mset.compositionality comp_def)
  with Inr vs returns show thesis by blast
qed

lemma map_filter_mset: "mset (List.map_filter f xs) = mset (map (the \<circ> f) (filter (\<lambda>x. f x \<noteq> None) xs))"
  by (simp add: map_filter_def comp_def)

lemma map_filter_perm: "mset xs = mset ys \<Longrightarrow> mset (List.map_filter f xs) = mset (List.map_filter f ys)"
  unfolding map_filter_mset mset_map mset_filter by simp

lemma median_or_zero_perm: "mset xs = mset ys \<Longrightarrow> median_or_zero xs = median_or_zero ys"
proof -
  assume m: "mset xs = mset ys"
  then have "sort xs = sort ys" by (metis mset_sort properties_for_sort sorted_sort)
  moreover have "xs = [] \<longleftrightarrow> ys = []" using m by auto
  ultimately show ?thesis by (simp add: median_or_zero_def median_def)
qed

text \<open>
  The assessment does not depend on the order in which the symbols are iterated: two
  universes with the same bars per symbol in a different order give the same regime, the same
  published numbers and the same weights, or both raise.
\<close>

theorem regime_order_independent:
  assumes "mset universe = mset universe'"
  shows "assess_market_regime universe = assess_market_regime universe'"
proof (rule mapr_mset [OF assms arithmetic_only_symbol_stats])
  assume "mapr symbol_stats universe = Inl DecimalException"
    "mapr symbol_stats universe' = Inl DecimalException"
  then show ?thesis by (simp add: assess_market_regime_def market_evidence_def)
next
  fix us vs
  assume 2: "mapr symbol_stats universe = Inr us" "mapr symbol_stats universe' = Inr vs"
    "mset us = mset vs"
  let ?k = "\<lambda>s. List.map_filter id s"
  have k: "mset (?k us) = mset (?k vs)" by (rule map_filter_perm [OF 2(3)])
  then have "length (?k us) = length (?k vs)" "length (filter fst (?k us)) = length (filter fst (?k vs))"
    by (metis size_mset, metis mset_filter size_mset)
  moreover have "median_or_zero (map (fst \<circ> snd) (?k us)) = median_or_zero (map (fst \<circ> snd) (?k vs))"
    using k by (intro median_or_zero_perm) simp
  moreover have "median_or_zero (List.map_filter (snd \<circ> snd) (?k us))
      = median_or_zero (List.map_filter (snd \<circ> snd) (?k vs))"
    by (intro median_or_zero_perm map_filter_perm k)
  ultimately have "market_evidence universe = market_evidence universe'"
    unfolding market_evidence_def 2 bindr_Inr Let_def by simp
  then show ?thesis by (simp add: assess_market_regime_def)
qed

subsection \<open>The classification\<close>

lemma round_half_even_nonneg: "0 \<le> q \<Longrightarrow> 0 \<le> round_half_even q"
  using round_half_even_mono [of 0 q] round_half_even_of_int [of 0] by simp

lemma quantize_mono:
  assumes "quantize_half_even k a = Inr a'" and "quantize_half_even k b = Inr b'" and "a \<le> b"
  shows "a' \<le> b'"
proof -
  have "round_half_even (a / pow10 k) \<le> round_half_even (b / pow10 k)"
    using assms(3) by (intro round_half_even_mono divide_right_mono) auto
  then have "(of_int (round_half_even (a / pow10 k)) :: rat) \<le> of_int (round_half_even (b / pow10 k))"
    by (simp only: of_int_le_iff)
  then show ?thesis
    using assms(1,2) by (auto simp: quantize_half_even_def Let_def intro!: mult_right_mono split: if_splits)
qed

lemma regime_weights_sum:
  "regime_weights r MOMENTUM + regime_weights r MEAN_REVERSION + regime_weights r BREAKOUT
     + regime_weights r VOLATILITY_TREND = 1"
  by (cases r) simp_all

lemma regime_weights_pos: "0 < regime_weights r n"
  by (cases r; cases n) simp_all

text \<open>Symbols that contribute: at least twenty bars, positive first and last close.\<close>

definition contributes :: "rat price_bar list \<Rightarrow> bool" where
  "contributes bars \<longleftrightarrow> 20 \<le> length bars \<and> 0 < bar_close (last bars)
     \<and> 0 < bar_close (bars ! (length bars - 20))"

lemma symbol_stats_contributes:
  assumes "symbol_stats bars = Inr r"
  shows "r \<noteq> None \<longleftrightarrow> contributes bars"
proof -
  have "hd (drop (length bars - 20) bars) = bars ! (length bars - 20)" if "20 \<le> length bars"
    using that by (intro hd_drop_conv_nth) linarith
  then show ?thesis
    using assms by (auto simp: symbol_stats_def contributes_def Let_def bindr_eq_Inr not_less not_le
        split: if_splits)
qed

lemma kept_count:
  "mapr symbol_stats u = Inr stats \<Longrightarrow> length (List.map_filter id stats) = length (filter contributes u)"
proof (induction u arbitrary: stats)
  case (Cons bars u)
  then obtain r rs where "symbol_stats bars = Inr r" "mapr symbol_stats u = Inr rs" "stats = r # rs"
    by (auto simp: bindr_eq_Inr)
  with Cons.IH symbol_stats_contributes [of bars r] show ?case
    by (auto simp: List.map_filter_simps split: option.splits)
qed (simp add: List.map_filter_simps)

text \<open>
  What the published assessment means. The contributors are exactly the symbols with
  twenty bars and positive closes; with none of them the regime is SIDEWAYS and every number
  is zero; otherwise the regime is classified on the unrounded evidence, breadth being the
  rounded share of contributors above their SMA20, with BEAR decided before VOLATILE; the
  published numbers are that evidence to six places, and the weights are positive and add up
  to one.
\<close>

theorem assess_market_regime_sound:
  assumes "assess_market_regime universe = Inr a"
  shows "ra_contributors a = length (filter contributes universe)
    \<and> (ra_contributors a = 0 \<longrightarrow> ra_regime a = SIDEWAYS \<and> ra_breadth_above_sma20 a = 0
         \<and> ra_median_return20 a = 0 \<and> ra_median_atr_ratio a = 0)
    \<and> (0 < ra_contributors a \<longrightarrow> (\<exists>above breadth ret atr. above \<le> ra_contributors a
         \<and> breadth = dec_fix (of_nat above / of_nat (ra_contributors a)) \<and> 0 \<le> breadth \<and> breadth \<le> 1
         \<and> ra_regime a = classify_regime breadth ret atr
         \<and> (breadth \<le> 4 / 10 \<and> ret < - (2 / 100) \<longrightarrow> ra_regime a = BEAR)
         \<and> quantize_half_even (- 6) breadth = Inr (ra_breadth_above_sma20 a)
         \<and> quantize_half_even (- 6) ret = Inr (ra_median_return20 a)
         \<and> quantize_half_even (- 6) atr = Inr (ra_median_atr_ratio a)))
    \<and> (\<forall>n. 0 < ra_weights a n)
    \<and> ra_weights a MOMENTUM + ra_weights a MEAN_REVERSION + ra_weights a BREAKOUT
        + ra_weights a VOLATILITY_TREND = 1"
proof -
  from assms obtain stats where stats: "mapr symbol_stats universe = Inr stats"
    by (auto simp: assess_market_regime_def market_evidence_def bindr_eq_Inr)
  define kept where "kept = List.map_filter id stats"
  have n: "length kept = length (filter contributes universe)"
    unfolding kept_def by (rule kept_count [OF stats])
  have w: "ra_weights a = regime_weights (ra_regime a)"
    using assms by (auto simp: assess_market_regime_def bindr_eq_Inr)
  show ?thesis
  proof (cases "length kept = 0")
    case True
    then have "market_evidence universe = Inr (0, SIDEWAYS, 0, 0, 0)"
      by (simp add: market_evidence_def stats kept_def Let_def)
    moreover have "quantize_half_even (- 6) 0 = Inr 0"
      using round_half_even_of_int [of 0] by (simp add: quantize_half_even_def)
    ultimately have "a = \<lparr>ra_regime = SIDEWAYS, ra_contributors = 0, ra_breadth_above_sma20 = 0,
        ra_median_return20 = 0, ra_median_atr_ratio = 0, ra_weights = regime_weights SIDEWAYS\<rparr>"
      using assms by (simp add: assess_market_regime_def)
    with True n show ?thesis using regime_weights_sum regime_weights_pos by simp
  next
    case False
    let ?above = "length (filter fst kept)"
    have le: "?above \<le> length kept" by simp
    from assms False obtain breadth ret atr where ev:
        "ddiv (of_nat ?above) (of_nat (length kept)) = Inr breadth"
        "market_evidence universe = Inr (length kept, classify_regime breadth ret atr, breadth, ret, atr)"
      unfolding assess_market_regime_def market_evidence_def stats bindr_Inr kept_def [symmetric] Let_def
      by (auto simp: bindr_eq_Inr simp del: length_0_conv)
    have b: "breadth = dec_fix (of_nat ?above / of_nat (length kept))"
      using ev(1) by (auto dest: ddiv_Inr)
    have "dec_fix 1 = 1" using representable_fix [OF representable_int [of 1]] by simp
    then have "0 \<le> breadth" "breadth \<le> 1"
      unfolding b using le False by (auto intro!: dec.nonneg dec.below_kept simp: divide_le_eq)
    moreover from assms ev(2) have "ra_contributors a = length kept"
        "ra_regime a = classify_regime breadth ret atr"
        "quantize_half_even (- 6) breadth = Inr (ra_breadth_above_sma20 a)"
        "quantize_half_even (- 6) ret = Inr (ra_median_return20 a)"
        "quantize_half_even (- 6) atr = Inr (ra_median_atr_ratio a)"
      by (auto simp: assess_market_regime_def bindr_eq_Inr)
    moreover have "breadth \<le> 4 / 10 \<and> ret < - (2 / 100) \<longrightarrow> classify_regime breadth ret atr = BEAR"
      by (simp add: classify_regime_def)
    ultimately have "\<exists>above breadth ret atr. above \<le> ra_contributors a
         \<and> breadth = dec_fix (of_nat above / of_nat (ra_contributors a)) \<and> 0 \<le> breadth \<and> breadth \<le> 1
         \<and> ra_regime a = classify_regime breadth ret atr
         \<and> (breadth \<le> 4 / 10 \<and> ret < - (2 / 100) \<longrightarrow> ra_regime a = BEAR)
         \<and> quantize_half_even (- 6) breadth = Inr (ra_breadth_above_sma20 a)
         \<and> quantize_half_even (- 6) ret = Inr (ra_median_return20 a)
         \<and> quantize_half_even (- 6) atr = Inr (ra_median_atr_ratio a)"
        and "ra_contributors a = length kept"
      using b le
      by - (rule exI [of _ ?above], rule exI [of _ breadth], rule exI [of _ ret], rule exI [of _ atr], simp_all)
    then show ?thesis
      using n False regime_weights_sum regime_weights_pos w by simp
  qed
qed

subsection \<open>The assessment returns\<close>

lemma bounded_ctx:
  assumes "\<bar>q\<bar> \<le> of_int n" and "n \<le> 10 ^ 28"
  shows "dec_ctx q = Inr (dec_fix q)" and "\<bar>dec_fix q\<bar> \<le> of_int n"
proof -
  have "0 \<le> (of_int n :: rat)" using assms(1) by (rule order_trans [rotated]) simp
  then have "representable (of_int n :: rat)" using assms(2) by (intro representable_int) auto
  then have kept: "dec_fix (of_int n :: rat) = of_int n" by (rule representable_fix)
  have "dec_fix q \<le> of_int n" "dec_fix (- q) \<le> of_int n"
    using assms(1) kept by (auto simp: abs_le_iff intro!: dec.below_kept)
  then show "\<bar>dec_fix q\<bar> \<le> of_int n" by (simp add: dec_fix_minus abs_le_iff)
  have "of_int n \<le> (of_int (10 ^ 28) :: rat)" using assms(2) by (simp only: of_int_le_iff)
  with assms(1) have "mag_le 28 q" by (simp add: mag_le_def)
  then show "dec_ctx q = Inr (dec_fix q)" by (rule mag_ctx) (simp add: emax_def)
qed

text \<open>A result that is returned and bounded by an integer.\<close>

definition returns_within :: "int \<Rightarrow> rat result \<Rightarrow> bool" where
  "returns_within n m \<longleftrightarrow> (\<exists>r. m = Inr r \<and> \<bar>r\<bar> \<le> of_int n)"

lemma dadd_within:
  "\<bar>a\<bar> \<le> of_int m \<Longrightarrow> \<bar>b\<bar> \<le> of_int n \<Longrightarrow> m + n \<le> 10 ^ 28 \<Longrightarrow> returns_within (m + n) (dadd a b)"
  using bounded_ctx [of "a + b" "m + n"] by (simp add: returns_within_def dadd_def)

lemma dsub_within:
  "\<bar>a\<bar> \<le> of_int m \<Longrightarrow> \<bar>b\<bar> \<le> of_int n \<Longrightarrow> m + n \<le> 10 ^ 28 \<Longrightarrow> returns_within (m + n) (dsub a b)"
  using bounded_ctx [of "a - b" "m + n"] by (simp add: returns_within_def dsub_def)

lemma ddiv_within:
  assumes "\<bar>a\<bar> \<le> of_int m" and "1 / of_int k \<le> b" and "0 < k" and "m * k \<le> 10 ^ 28"
  shows "returns_within (m * k) (ddiv a b)"
proof -
  have b: "0 < b" by (rule less_le_trans [OF _ assms(2)]) (use assms(3) in simp)
  have "1 \<le> b * of_int k" using assms(2,3) by (simp add: divide_le_eq)
  then have "\<bar>a\<bar> * 1 \<le> of_int m * (b * of_int k)"
    using assms(1) by (intro mult_mono) auto
  then have "\<bar>a / b\<bar> \<le> of_int (m * k)" using b by (simp add: divide_le_eq ac_simps)
  with bounded_ctx [OF this assms(4)] b show ?thesis by (simp add: returns_within_def ddiv_def)
qed

lemma dabs_within: "\<bar>a\<bar> \<le> of_int n \<Longrightarrow> n \<le> 10 ^ 28 \<Longrightarrow> returns_within n (dabs a)"
  using bounded_ctx [of "\<bar>a\<bar>" n] by (simp add: returns_within_def dabs_def)

lemma dsum_within:
  assumes "\<bar>acc\<bar> \<le> of_int m" and "\<forall>x \<in> set xs. \<bar>x\<bar> \<le> of_int n" and "m + int (length xs) * n \<le> 10 ^ 28"
    and "0 \<le> n"
  shows "returns_within (m + int (length xs) * n) (dsum acc xs)"
  using assms
proof (induction xs arbitrary: acc m)
  case Nil
  then show ?case by (simp add: returns_within_def)
next
  case (Cons x xs)
  have "m + n \<le> m + int (length (x # xs)) * n"
    using Cons.prems(4) mult_right_mono [of 1 "int (length (x # xs))" n] by simp
  with Cons.prems have "returns_within (m + n) (dadd acc x)" by (intro dadd_within) auto
  then obtain r where "dadd acc x = Inr r" "\<bar>r\<bar> \<le> of_int (m + n)" by (auto simp: returns_within_def)
  with Cons.IH [of r "m + n"] Cons.prems show ?case by (simp add: algebra_simps)
qed

definition priced :: "rat price_bar \<Rightarrow> bool" where
  "priced bar \<longleftrightarrow> 1 / 10 ^ 6 \<le> bar_close bar \<and> bar_close bar \<le> 10 ^ 9
     \<and> \<bar>bar_high bar\<bar> \<le> 10 ^ 9 \<and> \<bar>bar_low bar\<bar> \<le> 10 ^ 9"

lemma true_ranges_within:
  assumes "\<forall>b \<in> set bars. priced b" and "\<bar>p\<bar> \<le> 10 ^ 9"
  shows "\<exists>rs. true_ranges p bars = Inr rs \<and> length rs = length bars \<and> (\<forall>r \<in> set rs. \<bar>r\<bar> \<le> 2 * 10 ^ 9)"
  using assms
proof (induction bars arbitrary: p)
  case (Cons b bars)
  then have b: "\<bar>bar_high b\<bar> \<le> of_int (10 ^ 9)" "\<bar>bar_low b\<bar> \<le> of_int (10 ^ 9)" "\<bar>p\<bar> \<le> of_int (10 ^ 9)"
      "\<bar>bar_close b\<bar> \<le> 10 ^ 9" by (auto simp: priced_def)
  from dsub_within [OF b(1,2)] dsub_within [OF b(1,3)] dsub_within [OF b(2,3)]
  obtain x y z where xyz: "dsub (bar_high b) (bar_low b) = Inr x" "dsub (bar_high b) p = Inr y"
      "dsub (bar_low b) p = Inr z"
    and le: "\<bar>x\<bar> \<le> of_int (10 ^ 9 + 10 ^ 9)" "\<bar>y\<bar> \<le> of_int (10 ^ 9 + 10 ^ 9)" "\<bar>z\<bar> \<le> of_int (10 ^ 9 + 10 ^ 9)"
    by (auto simp: returns_within_def)
  from dabs_within [OF le(2)] dabs_within [OF le(3)]
  obtain y' z' where yz: "dabs y = Inr y'" "dabs z = Inr z'" "\<bar>y'\<bar> \<le> 2 * 10 ^ 9" "\<bar>z'\<bar> \<le> 2 * 10 ^ 9"
    by (auto simp: returns_within_def)
  from Cons.IH [of "bar_close b"] Cons.prems b(4) obtain rs where rs: "true_ranges (bar_close b) bars = Inr rs"
      "length rs = length bars" "\<forall>r \<in> set rs. \<bar>r\<bar> \<le> 2 * 10 ^ 9" by auto
  have "\<bar>max x (max y' z')\<bar> \<le> 2 * 10 ^ 9" using le(1) yz(3,4) by (auto simp: max_def)
  with rs show ?case by (simp add: xyz yz)
qed simp

definition stats_within :: "(bool \<times> rat \<times> rat option) option \<Rightarrow> bool" where
  "stats_within r \<longleftrightarrow> (case r of None \<Rightarrow> True | Some (a, ret, ratio) \<Rightarrow>
     \<bar>ret\<bar> \<le> of_int (10 ^ 20) \<and> (case ratio of None \<Rightarrow> True | Some x \<Rightarrow> \<bar>x\<bar> \<le> of_int (10 ^ 20)))"

lemma symbol_stats_within:
  assumes "\<forall>b \<in> set bars. priced b"
  shows "\<exists>r. symbol_stats bars = Inr r \<and> stats_within r"
proof (cases "length bars < 20")
  case False
  define window where "window = drop (length bars - 20) bars"
  have len: "length window = 20" using False by (simp add: window_def)
  have pr: "\<forall>b \<in> set window. priced b" using assms by (auto simp: window_def dest: in_set_dropD)
  define close first where "close = bar_close (last window)" and "first = bar_close (hd window)"
  have "priced (last window)" "priced (hd window)" using pr len by (metis last_in_set hd_in_set list.size(3) zero_neq_numeral)+
  then have c: "1 / of_int (10 ^ 6) \<le> close" "\<bar>close\<bar> \<le> of_int (10 ^ 9)"
    and f: "1 / of_int (10 ^ 6) \<le> first" "\<bar>first\<bar> \<le> 10 ^ 9"
    by (auto simp: priced_def close_def first_def)
  have tl: "\<forall>b \<in> set (tl window). priced b" using pr by (cases window) auto
  have pos: "\<not> (close \<le> 0 \<or> first \<le> 0)" using c(1) f(1) by auto
  have "returns_within (0 + int (length (map bar_close window)) * 10 ^ 9) (dsum 0 (map bar_close window))"
    using pr len by (intro dsum_within) (auto simp: priced_def)
  then obtain total where total: "dsum 0 (map bar_close window) = Inr total" "\<bar>total\<bar> \<le> of_int (20 * 10 ^ 9)"
    using len by (auto simp: returns_within_def)
  from ddiv_within [OF total(2), of 1 20] obtain sma where sma: "ddiv total 20 = Inr sma"
    by (auto simp: returns_within_def)
  from ddiv_within [OF c(2) f(1)] obtain growth where growth: "ddiv close first = Inr growth"
      "\<bar>growth\<bar> \<le> of_int (10 ^ 15)" by (auto simp: returns_within_def)
  from dsub_within [OF growth(2), of 1 1] obtain ret where ret: "dsub growth 1 = Inr ret"
      "\<bar>ret\<bar> \<le> of_int (10 ^ 15 + 1)" by (auto simp: returns_within_def)
  obtain rs where rs: "true_ranges first (tl window) = Inr rs" "length rs = 19" "\<forall>r \<in> set rs. \<bar>r\<bar> \<le> 2 * 10 ^ 9"
    using true_ranges_within [OF tl f(2)] len by auto
  have "returns_within (0 + int (length rs) * (2 * 10 ^ 9)) (dsum 0 rs)"
    using rs(2,3) by (intro dsum_within) auto
  then obtain rt where rt: "dsum 0 rs = Inr rt" "\<bar>rt\<bar> \<le> of_int (38 * 10 ^ 9)"
    using rs(2) by (auto simp: returns_within_def)
  from ddiv_within [OF rt(2), of 1 19] obtain atr where atr: "ddiv rt 19 = Inr atr" "\<bar>atr\<bar> \<le> of_int (38 * 10 ^ 9)"
    by (auto simp: returns_within_def)
  from ddiv_within [OF atr(2) c(1)] obtain ratio where ratio: "ddiv atr close = Inr ratio" "\<bar>ratio\<bar> \<le> of_int (38 * 10 ^ 15)"
    by (auto simp: returns_within_def)
  have "rs \<noteq> []" using rs(2) by auto
  then have "symbol_stats bars = Inr (Some (sma < close, ret, Some ratio))"
    using False pos total(1) sma growth(1) ret(1) rs(1,2) rt(1) atr(1) ratio(1)
    unfolding symbol_stats_def window_def [symmetric] Let_def close_def [symmetric] first_def [symmetric]
    by simp
  moreover have "\<bar>ret\<bar> \<le> of_int (10 ^ 20)" "\<bar>ratio\<bar> \<le> of_int (10 ^ 20)"
    using ret(2) ratio(2) by simp_all
  ultimately show ?thesis by (simp add: stats_within_def)
qed (simp add: symbol_stats_def stats_within_def)

lemma median_within:
  assumes "\<forall>x \<in> set xs. \<bar>x\<bar> \<le> of_int (10 ^ 20)"
  shows "returns_within (2 * 10 ^ 20) (median_or_zero xs)"
proof (cases "xs = []")
  case False
  define ys where "ys = sort xs"
  have "set ys = set xs" "length ys = length xs" by (simp_all add: ys_def)
  then have ys: "ys \<noteq> []" "\<And>i. i < length ys \<Longrightarrow> \<bar>ys ! i\<bar> \<le> of_int (10 ^ 20)"
    using False assms nth_mem [of _ ys] by auto
  show ?thesis
  proof (cases "odd (length ys)")
    case True
    then have "\<bar>ys ! (length ys div 2)\<bar> \<le> of_int (10 ^ 20)" using ys by (intro ys(2)) simp
    with True False show ?thesis by (simp add: median_or_zero_def median_def ys_def [symmetric] returns_within_def)
  next
    case ev: False
    have "0 < length ys" using ys(1) by simp
    then have i: "length ys div 2 - 1 < length ys" "length ys div 2 < length ys" by linarith+
    from dadd_within [OF ys(2) [OF i(1)] ys(2) [OF i(2)]] obtain s where s:
        "dadd (ys ! (length ys div 2 - 1)) (ys ! (length ys div 2)) = Inr s" "\<bar>s\<bar> \<le> of_int (2 * 10 ^ 20)"
      by (auto simp: returns_within_def)
    from ddiv_within [OF s(2), of 1 2] ev False s(1) show ?thesis
      by (simp add: median_or_zero_def median_def ys_def [symmetric] returns_within_def)
  qed
qed (simp add: median_or_zero_def returns_within_def)

lemma quantize_within:
  assumes "\<bar>q\<bar> \<le> of_int (2 * 10 ^ 20)"
  shows "\<exists>r. quantize_half_even (- 6) q = Inr r"
proof -
  have "\<bar>q / pow10 (- 6)\<bar> \<le> of_int (2 * 10 ^ 26)"
    using assms by (simp add: power_int_minus abs_mult)
  then have "q / pow10 (- 6) \<le> of_int (2 * 10 ^ 26)" "of_int (- (2 * 10 ^ 26)) \<le> q / pow10 (- 6)"
    by (simp_all add: abs_le_iff)
  from round_half_even_mono [OF this(1)] round_half_even_mono [OF this(2)]
  have "\<bar>round_half_even (q / pow10 (- 6))\<bar> \<le> 2 * 10 ^ 26"
    unfolding round_half_even_of_int by linarith
  then have "\<not> 10 ^ 28 \<le> \<bar>round_half_even (q / pow10 (- 6))\<bar>"
    by (intro notI) (drule (1) order_trans, simp)
  then show ?thesis unfolding quantize_half_even_def Let_def by (simp only: if_False) blast
qed

lemma assess_ordinary:
  assumes "\<forall>bars \<in> set universe. \<forall>b \<in> set bars. priced b"
  shows "\<exists>a. assess_market_regime universe = Inr a"
proof -
  from assms(1) symbol_stats_within have "\<forall>bars \<in> set universe. \<exists>r. symbol_stats bars = Inr r \<and> stats_within r"
    by blast
  then obtain g where g: "\<forall>bars \<in> set universe. symbol_stats bars = Inr (g bars) \<and> stats_within (g bars)"
    by metis
  then have st: "mapr symbol_stats universe = Inr (map g universe)" by (intro mapr_total) auto
  define kept where "kept = List.map_filter id (map g universe)"
  have k: "stats_within (Some x)" if "x \<in> set kept" for x
    using that g by (auto simp: kept_def set_map_filter)
  have "returns_within (2 * 10 ^ 20) (median_or_zero (map (fst \<circ> snd) kept))"
      "returns_within (2 * 10 ^ 20) (median_or_zero (List.map_filter (snd \<circ> snd) kept))"
    using k by (force intro!: median_within simp: set_map_filter stats_within_def)+
  then obtain ret atr where m: "median_or_zero (map (fst \<circ> snd) kept) = Inr ret" "\<bar>ret\<bar> \<le> of_int (2 * 10 ^ 20)"
      "median_or_zero (List.map_filter (snd \<circ> snd) kept) = Inr atr" "\<bar>atr\<bar> \<le> of_int (2 * 10 ^ 20)"
    by (auto simp: returns_within_def)
  obtain n r b where ev: "market_evidence universe = Inr (n, r, b, ret, atr) \<or>
      market_evidence universe = Inr (0, SIDEWAYS, 0, 0, 0)" and b: "\<bar>b\<bar> \<le> 1"
  proof (cases "length kept = 0")
    case True
    then have "market_evidence universe = Inr (0, SIDEWAYS, 0, 0, 0)"
      by (simp add: market_evidence_def st kept_def Let_def)
    then show thesis using that [of 0 SIDEWAYS 0] by simp
  next
    case False
    let ?q = "of_nat (length (filter fst kept)) / of_nat (length kept) :: rat"
    have "\<bar>?q\<bar> \<le> of_int 1" using False by (simp add: divide_le_eq)
    from bounded_ctx [OF this] False have "ddiv (of_nat (length (filter fst kept))) (of_nat (length kept)) = Inr (dec_fix ?q)"
        "\<bar>dec_fix ?q\<bar> \<le> 1" by (simp_all add: ddiv_def)
    with False m have "market_evidence universe
        = Inr (length kept, classify_regime (dec_fix ?q) ret atr, dec_fix ?q, ret, atr)"
      unfolding market_evidence_def st bindr_Inr kept_def [symmetric] Let_def by simp
    then show thesis using that \<open>\<bar>dec_fix ?q\<bar> \<le> 1\<close> by blast
  qed
  have q: "\<exists>x. quantize_half_even (- 6) b = Inr x" "\<exists>x. quantize_half_even (- 6) ret = Inr x"
      "\<exists>x. quantize_half_even (- 6) atr = Inr x" "\<exists>x. quantize_half_even (- 6) 0 = Inr x"
    using b m(2,4) by (auto intro!: quantize_within)
  then show ?thesis using ev by (auto simp: assess_market_regime_def)
qed

text \<open>
  The assessment always returns on ordinary data: when every close lies between
  \<open>10^-6\<close> and \<open>10^9\<close> and no high or low exceeds \<open>10^9\<close>, no arithmetic trap fires, however
  many symbols and bars there are.
\<close>

theorem assess_market_regime_returns:
  assumes "\<forall>bars \<in> set universe. \<forall>b \<in> set bars. priced b"
  shows "\<exists>a. assess_market_regime universe = Inr a"
  using assms by (rule assess_ordinary)

subsection \<open>Witnesses\<close>

definition falling_symbol :: "rat price_bar list" where
  "falling_symbol = map (\<lambda>i. demo_daily_bar (int i * day_us) (1000 - 10 * of_nat i)) [0..<20]"

lemma falling_symbol_priced: "\<forall>bars \<in> set [falling_symbol]. \<forall>b \<in> set bars. priced b"
proof -
  have "(10 :: rat) * of_nat i \<le> 190" if "i < 20" for i :: nat
  proof -
    have "of_nat i \<le> (of_nat 19 :: rat)" using that by (simp only: of_nat_le_iff)
    then show ?thesis by simp
  qed
  then show ?thesis by (fastforce simp: falling_symbol_def priced_def demo_daily_bar_def)
qed

theorem assess_market_regime_returns_witness: "\<exists>a. assess_market_regime [falling_symbol] = Inr a"
  by (rule assess_market_regime_returns [OF falling_symbol_priced])

lemma falling_symbol_contributes: "filter contributes [falling_symbol] = [falling_symbol]"
  by (simp add: contributes_def falling_symbol_def demo_daily_bar_def last_map)

theorem assess_market_regime_sound_witness:
  "\<exists>a. assess_market_regime [falling_symbol] = Inr a \<and> ra_contributors a = 1"
proof -
  obtain a where a: "assess_market_regime [falling_symbol] = Inr a"
    using assess_ordinary [OF falling_symbol_priced] by blast
  from assess_market_regime_sound [OF a] a falling_symbol_contributes show ?thesis by simp
qed

theorem regime_order_independent_witness:
  "assess_market_regime [falling_symbol, []] = assess_market_regime [[], falling_symbol]"
  by (rule regime_order_independent) simp

end
