(* ===== verification/Position_Sizing.thy ===== *)
theory Position_Sizing
  imports Regime
begin

text \<open>
  ATR-risk position sizing, \<open>app/extensions/kasset/automation/position_sizing.py\<close>.

  Inputs arrive as Decimals that may be NaN or infinite, optional values and datetimes with or
  without a time zone; the sizer turns each defect into a reason and a zero quantity. Fields
  are Decimals as annotated. The arithmetic traps overflow and division by zero, so a computed
  quantity is finite and the later test \<open>unrounded.is_finite()\<close> never fires. The rendering of
  results as evidence dictionaries is in \<open>Sizing_Evidence\<close>.
\<close>

subsection \<open>Codes, configuration and input\<close>

datatype zero_code =
    UNSUPPORTED_ACTION | UNSUPPORTED_MARKET | INVALID_PRICE | INVALID_PRICE_TIMESTAMP
  | FUTURE_PRICE | STALE_PRICE | MISSING_STOP | INVALID_STOP | INVERTED_STOP | MISSING_ATR
  | NONPOSITIVE_ATR | INVALID_REGIME | REGIME_BLOCKED | INVALID_RISK_POLICY | ZERO_RISK_BUDGET
  | INVALID_BUDGET | ZERO_BUDGET | INVALID_PORTFOLIO_STATE | ZERO_SYMBOL_ALLOCATION
  | MISSING_LIQUIDITY | INVALID_LIQUIDITY | NONFINITE_QUANTITY | INVALID_SELL_QUANTITY
  | ZERO_HOLDING | BELOW_MARKET_LOT

datatype cap_code =
    RISK_BUDGET | SYMBOL_ALLOCATION | OWNER_BUDGET | AVERAGE_VOLUME | AVERAGE_TURNOVER
  | PAPER_HOLDING | STRATEGY_SELL

record 'd sizing_config_rec =
  sc_max_price_age_sessions :: int
  sc_krx_lot_size :: 'd
  sc_us_lot_size :: 'd
  sc_max_average_volume_participation :: 'd
  sc_max_average_turnover_participation :: 'd
  sc_bull_risk_multiplier :: 'd
  sc_bear_risk_multiplier :: 'd
  sc_sideways_risk_multiplier :: 'd
  sc_volatile_risk_multiplier :: 'd

type_synonym raw_sizing_config = "decimal sizing_config_rec"
type_synonym sizing_config = "rat sizing_config_rec"

definition sizing_config_post_init :: "raw_sizing_config \<Rightarrow> sizing_config result" where
  "sizing_config_post_init c =
     raise_if (sc_max_price_age_sessions c < 1)
       (ValueError ''max_price_age_sessions must be a positive integer'')
    (let pos = \<lambda>name. require_dec (ValueError (name @ '' must be a positive finite Decimal'')) (\<lambda>q. 0 < q);
         nonneg = \<lambda>name. require_dec (ValueError (name @ '' must be a nonnegative finite Decimal'')) (\<lambda>q. 0 \<le> q)
     in bindr (pos ''krx_lot_size'' (sc_krx_lot_size c)) (\<lambda>krx.
        bindr (pos ''us_lot_size'' (sc_us_lot_size c)) (\<lambda>us.
        bindr (pos ''max_average_volume_participation'' (sc_max_average_volume_participation c)) (\<lambda>volume.
        bindr (pos ''max_average_turnover_participation'' (sc_max_average_turnover_participation c)) (\<lambda>turnover.
        bindr (nonneg ''bull_risk_multiplier'' (sc_bull_risk_multiplier c)) (\<lambda>bull.
        bindr (nonneg ''bear_risk_multiplier'' (sc_bear_risk_multiplier c)) (\<lambda>bear.
        bindr (nonneg ''sideways_risk_multiplier'' (sc_sideways_risk_multiplier c)) (\<lambda>sideways.
        bindr (nonneg ''volatile_risk_multiplier'' (sc_volatile_risk_multiplier c)) (\<lambda>volatile.
        raise_if (1 < volume) (ValueError ''max_average_volume_participation must not exceed 1'')
       (raise_if (1 < turnover) (ValueError ''max_average_turnover_participation must not exceed 1'')
       (Inr \<lparr>sc_max_price_age_sessions = sc_max_price_age_sessions c, sc_krx_lot_size = krx,
             sc_us_lot_size = us, sc_max_average_volume_participation = volume,
             sc_max_average_turnover_participation = turnover, sc_bull_risk_multiplier = bull,
             sc_bear_risk_multiplier = bear, sc_sideways_risk_multiplier = sideways,
             sc_volatile_risk_multiplier = volatile\<rparr>)))))))))))"

definition default_sizing_config :: sizing_config where
  "default_sizing_config =
     \<lparr>sc_max_price_age_sessions = 3, sc_krx_lot_size = 1, sc_us_lot_size = 1 / 10000,
      sc_max_average_volume_participation = 1 / 100,
      sc_max_average_turnover_participation = 1 / 100, sc_bull_risk_multiplier = 1,
      sc_bear_risk_multiplier = 0, sc_sideways_risk_multiplier = 75 / 100,
      sc_volatile_risk_multiplier = 50 / 100\<rparr>"

definition lot_size_of :: "sizing_config \<Rightarrow> string \<Rightarrow> rat" where
  "lot_size_of c market = (if market = ''KRX'' then sc_krx_lot_size c else sc_us_lot_size c)"

fun regime_multiplier_of :: "sizing_config \<Rightarrow> market_regime \<Rightarrow> rat" where
  "regime_multiplier_of c BULL = sc_bull_risk_multiplier c"
| "regime_multiplier_of c BEAR = sc_bear_risk_multiplier c"
| "regime_multiplier_of c VOLATILE = sc_volatile_risk_multiplier c"
| "regime_multiplier_of c SIDEWAYS = sc_sideways_risk_multiplier c"

datatype regime_arg = RegimeMember market_regime | RegimeText string

record 'm sizing_input_rec =
  si_action :: string
  si_market :: string
  si_entry_price :: decimal
  si_price_as_of :: "py_datetime option"
  si_evaluated_at :: "py_datetime option"
  si_operating_budget :: decimal
  si_budget_used :: decimal
  si_max_symbol_allocation :: decimal
  si_current_symbol_invested :: decimal
  si_current_holding_quantity :: decimal
  si_risk_per_trade_rate :: decimal
  si_regime :: regime_arg
  si_strategy_stop :: "decimal option"
  si_strategy_atr :: "decimal option"
  si_strategy_quantity :: "decimal option"
  si_average_volume :: "decimal option"
  si_average_turnover :: "decimal option"
  si_account_state_multiplier :: 'm

type_synonym raw_sizing_input = "decimal sizing_input_rec"
type_synonym sizing_input = "rat sizing_input_rec"

text \<open>Constructing an input checks the account multiplier and nothing else.\<close>

definition sizing_input_post_init :: "raw_sizing_input \<Rightarrow> sizing_input result" where
  "sizing_input_post_init r =
     bindr (require_dec (ValueError ''account_state_multiplier must be a Decimal between 0 and 1'')
              (\<lambda>q. 0 \<le> q \<and> q \<le> 1) (si_account_state_multiplier r)) (\<lambda>multiplier.
       Inr \<lparr>si_action = si_action r, si_market = si_market r,
             si_entry_price = si_entry_price r, si_price_as_of = si_price_as_of r,
             si_evaluated_at = si_evaluated_at r, si_operating_budget = si_operating_budget r,
             si_budget_used = si_budget_used r, si_max_symbol_allocation = si_max_symbol_allocation r,
             si_current_symbol_invested = si_current_symbol_invested r, si_current_holding_quantity = si_current_holding_quantity r,
             si_risk_per_trade_rate = si_risk_per_trade_rate r, si_regime = si_regime r,
             si_strategy_stop = si_strategy_stop r, si_strategy_atr = si_strategy_atr r,
             si_strategy_quantity = si_strategy_quantity r, si_average_volume = si_average_volume r,
             si_average_turnover = si_average_turnover r,
             si_account_state_multiplier = multiplier\<rparr>)"

record sizing_reason =
  rn_code :: zero_code
  rn_field :: string
  rn_detail :: string

definition reason :: "zero_code \<Rightarrow> string \<Rightarrow> string \<Rightarrow> sizing_reason" where
  "reason code fld detail = \<lparr>rn_code = code, rn_field = fld, rn_detail = detail\<rparr>"

record size_cap =
  cap_code :: cap_code
  cap_quantity :: rat

definition new_cap :: "cap_code \<Rightarrow> rat \<Rightarrow> size_cap" where
  "new_cap code q = \<lparr>cap_code = code, cap_quantity = q\<rparr>"

record sizing_result =
  sr_action :: string
  sr_market :: string
  sr_quantity :: rat
  sr_unrounded_quantity :: rat
  sr_lot_size :: rat
  sr_risk_budget :: rat
  sr_risk_per_unit :: rat
  sr_risk_per_trade_rate :: rat
  sr_regime :: "string option"
  sr_regime_multiplier :: rat
  sr_caps :: "size_cap list"
  sr_limiting_caps :: "cap_code list"
  sr_zero_reasons :: "sizing_reason list"
  sr_entry_price :: "decimal option"
  sr_strategy_stop :: "decimal option"
  sr_strategy_atr :: "decimal option"
  sr_account_state_multiplier :: rat

definition actionable :: "sizing_result \<Rightarrow> bool" where
  "actionable r \<longleftrightarrow> 0 < sr_quantity r \<and> sr_zero_reasons r = []"

subsection \<open>Helpers\<close>

definition normalize_regime :: "regime_arg \<Rightarrow> market_regime option" where
  "normalize_regime value =
     (case value of
        RegimeMember r \<Rightarrow> Some r
      | RegimeText s \<Rightarrow>
          let normalized = strip_upper s
          in if normalized = ''BULL'' \<or> normalized = ''TRENDING_UP'' then Some BULL
             else if normalized = ''BEAR'' \<or> normalized = ''TRENDING_DOWN'' then Some BEAR
             else if normalized = ''SIDEWAYS'' \<or> normalized = ''RANGING'' then Some SIDEWAYS
             else if normalized = ''VOLATILE'' then Some VOLATILE
             else None)"

fun regime_name :: "market_regime \<Rightarrow> string" where
  "regime_name BULL = ''BULL''"
| "regime_name BEAR = ''BEAR''"
| "regime_name SIDEWAYS = ''SIDEWAYS''"
| "regime_name VOLATILE = ''VOLATILE''"

text \<open>\<open>_is_finite_decimal(value) and ok(value)\<close>\<close>

definition finite_ok :: "(rat \<Rightarrow> bool) \<Rightarrow> decimal \<Rightarrow> bool" where
  "finite_ok ok d = (case finite_value d of None \<Rightarrow> False | Some q \<Rightarrow> ok q)"

definition aware_datetime :: "py_datetime option \<Rightarrow> instant option" where
  "aware_datetime value = Option.bind value utc_or_none"

definition round_to_lot :: "rat \<Rightarrow> rat \<Rightarrow> rat option" where
  "round_to_lot quantity lot_size =
     (case bindr (ddiv quantity lot_size) (\<lambda>lots. dmul (of_int (round_down lots)) lot_size) of
        Inl _ \<Rightarrow> None
      | Inr rounded \<Rightarrow> Some rounded)"

definition limiting_caps :: "size_cap list \<Rightarrow> rat \<Rightarrow> cap_code list" where
  "limiting_caps caps q = map cap_code (filter (\<lambda>cap. cap_quantity cap = q) caps)"

text \<open>Keyword defaults of \<open>_zero_result\<close>: the caller overrides the fields it passes.\<close>

definition zero_result :: "string \<Rightarrow> string \<Rightarrow> rat \<Rightarrow> sizing_reason list \<Rightarrow> sizing_result" where
  "zero_result action market lot_size reasons =
     \<lparr>sr_action = action, sr_market = market, sr_quantity = 0, sr_unrounded_quantity = 0,
      sr_lot_size = lot_size, sr_risk_budget = 0, sr_risk_per_unit = 0,
      sr_risk_per_trade_rate = 0, sr_regime = None, sr_regime_multiplier = 0, sr_caps = [],
      sr_limiting_caps = [], sr_zero_reasons = reasons, sr_entry_price = None,
      sr_strategy_stop = None, sr_strategy_atr = None, sr_account_state_multiplier = 1\<rparr>"

subsection \<open>Reasons\<close>

definition stale_price_reason ::
    "xcal \<Rightarrow> string \<Rightarrow> instant \<Rightarrow> instant \<Rightarrow> sizing_config \<Rightarrow> sizing_reason option result" where
  "stale_price_reason cal market price_time evaluation_time config =
     (if market \<notin> {''KRX'', ''US''} then Inr None
      else
        bindr (case regular_sessions_opened_since cal market (Aware price_time) (Aware evaluation_time) of
                 Inl (MarketSessionError _) \<Rightarrow> Inr None
               | r \<Rightarrow> r) (\<lambda>elapsed.
        Inr (case elapsed of
               None \<Rightarrow> Some (reason STALE_PRICE ''price_as_of''
                         ''trading calendar could not confirm the price session'')
             | Some n \<Rightarrow>
                 if sc_max_price_age_sessions config < int n
                 then Some (reason STALE_PRICE ''price_as_of''
                        (''price is '' @ py_str_int (int n) @ '' regular sessions old; limit ''
                         @ py_str_int (sc_max_price_age_sessions config)))
                 else None)))"

definition base_reasons ::
    "xcal \<Rightarrow> sizing_input \<Rightarrow> string \<Rightarrow> string \<Rightarrow> sizing_config \<Rightarrow> sizing_reason list result" where
  "base_reasons cal request action market config =
     bindr (case (aware_datetime (si_price_as_of request), aware_datetime (si_evaluated_at request)) of
              (Some price_time, Some evaluation_time) \<Rightarrow>
                if evaluation_time < price_time
                then Inr [reason FUTURE_PRICE ''price_as_of''
                            ''price timestamp is later than evaluation time'']
                else bindr (stale_price_reason cal market price_time evaluation_time config)
                       (\<lambda>stale. Inr (case stale of None \<Rightarrow> [] | Some r \<Rightarrow> [r]))
            | _ \<Rightarrow> Inr [reason INVALID_PRICE_TIMESTAMP ''price_as_of''
                        ''price_as_of and evaluated_at must be timezone-aware datetimes'']) (\<lambda>timing.
     Inr ((if action \<notin> {''BUY'', ''SELL''}
           then [reason UNSUPPORTED_ACTION ''action'' ''action must be BUY or SELL''] else [])
          @ (if market \<notin> {''KRX'', ''US''}
             then [reason UNSUPPORTED_MARKET ''market'' ''market must be KRX or US''] else [])
          @ (if \<not> finite_ok (\<lambda>q. 0 < q) (si_entry_price request)
             then [reason INVALID_PRICE ''entry_price'' ''entry price must be a positive finite Decimal'']
             else [])
          @ timing))"

definition stop_reasons :: "sizing_input \<Rightarrow> sizing_reason list" where
  "stop_reasons request =
     (case si_strategy_stop request of
        None \<Rightarrow> [reason MISSING_STOP ''strategy_stop'' ''deterministic strategy stop is required for BUY'']
      | Some stop \<Rightarrow>
          if \<not> finite_ok (\<lambda>q. 0 < q) stop
          then [reason INVALID_STOP ''strategy_stop'' ''strategy stop must be a positive finite Decimal'']
          else if finite_ok (\<lambda>entry. finite_ok (\<lambda>s. entry \<le> s) stop) (si_entry_price request)
          then [reason INVERTED_STOP ''strategy_stop'' ''BUY stop must be below entry price'']
          else [])"

definition atr_reasons :: "sizing_input \<Rightarrow> sizing_reason list" where
  "atr_reasons request =
     (case si_strategy_atr request of
        None \<Rightarrow> [reason MISSING_ATR ''strategy_atr'' ''deterministic strategy ATR is required for BUY'']
      | Some atr \<Rightarrow>
          if \<not> finite_ok (\<lambda>q. 0 < q) atr
          then [reason NONPOSITIVE_ATR ''strategy_atr'' ''strategy ATR must be a positive finite Decimal'']
          else [])"

definition budget_reasons :: "sizing_input \<Rightarrow> sizing_reason list" where
  "budget_reasons request =
     (if \<not> finite_ok (\<lambda>_. True) (si_operating_budget request)
      then [reason INVALID_BUDGET ''operating_budget'' ''operating budget must be a finite Decimal'']
      else if finite_ok (\<lambda>q. q \<le> 0) (si_operating_budget request)
      then [reason ZERO_BUDGET ''operating_budget'' ''operating budget must be positive''] else [])
     @ (if \<not> finite_ok (\<lambda>q. 0 \<le> q) (si_budget_used request)
        then [reason INVALID_PORTFOLIO_STATE ''budget_used''
                ''budget used must be a nonnegative finite Decimal''] else [])
     @ (if \<not> finite_ok (\<lambda>q. 0 \<le> q \<and> q \<le> 1) (si_max_symbol_allocation request)
        then [reason INVALID_RISK_POLICY ''max_symbol_allocation''
                ''symbol allocation must be a finite Decimal between 0 and 1'']
        else if finite_ok (\<lambda>q. q = 0) (si_max_symbol_allocation request)
        then [reason ZERO_SYMBOL_ALLOCATION ''max_symbol_allocation'' ''symbol allocation is zero''] else [])
     @ (if \<not> finite_ok (\<lambda>q. 0 \<le> q) (si_current_symbol_invested request)
        then [reason INVALID_PORTFOLIO_STATE ''current_symbol_invested''
                ''current symbol investment must be a nonnegative finite Decimal''] else [])
     @ (if \<not> finite_ok (\<lambda>q. 0 < q \<and> q \<le> 1) (si_risk_per_trade_rate request)
        then [reason INVALID_RISK_POLICY ''risk_per_trade_rate''
                ''risk per trade rate must be a finite Decimal between 0 and 1''] else [])"

definition regime_reasons :: "sizing_input \<Rightarrow> sizing_config \<Rightarrow> sizing_reason list" where
  "regime_reasons request config =
     (case normalize_regime (si_regime request) of
        None \<Rightarrow> [reason INVALID_REGIME ''regime'' ''regime is not recognized'']
      | Some regime \<Rightarrow>
          if regime_multiplier_of config regime = 0
          then [reason REGIME_BLOCKED ''regime''
                  ''new BUY positions are blocked by the regime risk policy''] else [])"

definition liquidity_reasons :: "string \<Rightarrow> decimal option \<Rightarrow> sizing_reason list" where
  "liquidity_reasons field_name value =
     (case value of
        None \<Rightarrow> [reason MISSING_LIQUIDITY field_name
                  (field_name @ '' is required to enforce participation ceilings'')]
      | Some v \<Rightarrow>
          if \<not> finite_ok (\<lambda>q. 0 < q) v
          then [reason INVALID_LIQUIDITY field_name (field_name @ '' must be a positive finite Decimal'')]
          else [])"

definition buy_reasons :: "sizing_input \<Rightarrow> sizing_config \<Rightarrow> sizing_reason list" where
  "buy_reasons request config =
     stop_reasons request @ atr_reasons request @ budget_reasons request
     @ regime_reasons request config
     @ liquidity_reasons ''average_volume'' (si_average_volume request)
     @ liquidity_reasons ''average_turnover'' (si_average_turnover request)"

definition sell_reasons :: "sizing_input \<Rightarrow> sizing_reason list" where
  "sell_reasons request =
     (if \<not> finite_ok (\<lambda>_. True) (si_current_holding_quantity request)
      then [reason NONFINITE_QUANTITY ''current_holding_quantity'' ''PAPER holding quantity must be finite'']
      else if finite_ok (\<lambda>q. q \<le> 0) (si_current_holding_quantity request)
      then [reason ZERO_HOLDING ''current_holding_quantity'' ''there is no positive PAPER holding to sell'']
      else [])
     @ (case si_strategy_quantity request of
          None \<Rightarrow> []
        | Some requested \<Rightarrow>
            if \<not> finite_ok (\<lambda>_. True) requested
            then [reason NONFINITE_QUANTITY ''strategy_quantity'' ''strategy SELL quantity must be finite'']
            else if finite_ok (\<lambda>q. q \<le> 0) requested
            then [reason INVALID_SELL_QUANTITY ''strategy_quantity'' ''strategy SELL quantity must be positive'']
            else [])"

subsection \<open>Sizing a BUY\<close>

record buy_amounts =
  ba_risk_budget :: rat
  ba_remaining_symbol :: rat
  ba_remaining_owner :: rat
  ba_caps :: "size_cap list"
  ba_base_unrounded :: rat
  ba_unrounded :: rat

text \<open>
  The body of the \<open>try\<close> of \<open>_calculate_buy\<close>, over the finite values the reasons have
  confirmed.
\<close>

definition buy_amounts_of ::
    "rat \<Rightarrow> rat \<Rightarrow> rat \<Rightarrow> rat \<Rightarrow> rat \<Rightarrow> rat \<Rightarrow> rat \<Rightarrow> rat \<Rightarrow> decimal option \<Rightarrow> decimal option \<Rightarrow> rat
      \<Rightarrow> sizing_config \<Rightarrow> buy_amounts result" where
  "buy_amounts_of entry risk_per_unit budget used allocation invested rate regime_multiplier
      average_volume average_turnover account_multiplier config =
     bindr (dmul budget rate) (\<lambda>at_risk.
     bindr (dmul at_risk regime_multiplier) (\<lambda>risk_budget.
     bindr (dmul budget allocation) (\<lambda>allocated.
     bindr (dsub allocated invested) (\<lambda>symbol_left.
     bindr (dsub budget used) (\<lambda>owner_left.
     let remaining_symbol = max 0 symbol_left; remaining_owner = max 0 owner_left in
     bindr (ddiv risk_budget risk_per_unit) (\<lambda>by_risk.
     bindr (ddiv remaining_symbol entry) (\<lambda>by_symbol.
     bindr (ddiv remaining_owner entry) (\<lambda>by_owner.
     case (Option.bind average_volume finite_value, Option.bind average_turnover finite_value) of
       (Some volume, Some turnover) \<Rightarrow>
         bindr (dmul volume (sc_max_average_volume_participation config)) (\<lambda>by_volume.
         bindr (dmul turnover (sc_max_average_turnover_participation config)) (\<lambda>turnover_share.
         bindr (ddiv turnover_share entry) (\<lambda>by_turnover.
         let caps = [new_cap RISK_BUDGET by_risk, new_cap SYMBOL_ALLOCATION by_symbol,
                     new_cap OWNER_BUDGET by_owner, new_cap AVERAGE_VOLUME by_volume,
                     new_cap AVERAGE_TURNOVER by_turnover];
             base_unrounded = min_list (map cap_quantity caps)
         in bindr (dmul base_unrounded account_multiplier) (\<lambda>unrounded.
            Inr \<lparr>ba_risk_budget = risk_budget, ba_remaining_symbol = remaining_symbol,
                 ba_remaining_owner = remaining_owner, ba_caps = caps,
                 ba_base_unrounded = base_unrounded, ba_unrounded = unrounded\<rparr>))))
     | _ \<Rightarrow> Inl AssertionError))))))))"

text \<open>The result that carries the calculation, with a given quantity and reasons.\<close>

definition buy_result ::
    "sizing_input \<Rightarrow> string \<Rightarrow> rat \<Rightarrow> rat \<Rightarrow> rat \<Rightarrow> market_regime \<Rightarrow> rat \<Rightarrow> buy_amounts \<Rightarrow> rat
      \<Rightarrow> cap_code list \<Rightarrow> sizing_reason list \<Rightarrow> sizing_result" where
  "buy_result request market lot_size risk_per_unit rate regime multiplier amounts quantity
      limiting reasons =
     \<lparr>sr_action = ''BUY'', sr_market = market, sr_quantity = quantity,
      sr_unrounded_quantity = ba_unrounded amounts, sr_lot_size = lot_size,
      sr_risk_budget = ba_risk_budget amounts, sr_risk_per_unit = risk_per_unit,
      sr_risk_per_trade_rate = rate, sr_regime = Some (regime_name regime),
      sr_regime_multiplier = multiplier, sr_caps = ba_caps amounts,
      sr_limiting_caps = limiting, sr_zero_reasons = reasons,
      sr_entry_price = Some (si_entry_price request),
      sr_strategy_stop = si_strategy_stop request, sr_strategy_atr = si_strategy_atr request,
      sr_account_state_multiplier = si_account_state_multiplier request\<rparr>"

text \<open>\<open>_zero_with_calculation\<close>: the same evidence without the prices, quantity zero.\<close>

definition zero_with_calculation ::
    "sizing_input \<Rightarrow> string \<Rightarrow> rat \<Rightarrow> rat \<Rightarrow> rat \<Rightarrow> market_regime \<Rightarrow> rat \<Rightarrow> buy_amounts
      \<Rightarrow> sizing_reason \<Rightarrow> sizing_result" where
  "zero_with_calculation request market lot_size risk_per_unit rate regime multiplier amounts r =
     (buy_result request market lot_size risk_per_unit rate regime multiplier amounts 0
        (limiting_caps (ba_caps amounts) (ba_unrounded amounts)) [r])
       \<lparr>sr_entry_price := None, sr_strategy_stop := None, sr_strategy_atr := None\<rparr>"

definition finish_buy ::
    "sizing_input \<Rightarrow> string \<Rightarrow> rat \<Rightarrow> rat \<Rightarrow> rat \<Rightarrow> market_regime \<Rightarrow> rat \<Rightarrow> buy_amounts \<Rightarrow> sizing_result" where
  "finish_buy request market lot_size risk_per_unit rate regime multiplier amounts =
     (let zero = zero_with_calculation request market lot_size risk_per_unit rate regime multiplier amounts;
          limiting = limiting_caps (ba_caps amounts) (ba_base_unrounded amounts)
      in if ba_risk_budget amounts \<le> 0
         then zero (reason ZERO_RISK_BUDGET ''risk_budget'' ''risk budget is zero'')
         else if ba_remaining_owner amounts \<le> 0
         then zero (reason ZERO_BUDGET ''budget_used'' ''owner operating budget is fully used'')
         else if ba_remaining_symbol amounts \<le> 0
         then zero (reason ZERO_SYMBOL_ALLOCATION ''current_symbol_invested'' ''symbol allocation is fully used'')
         else case round_to_lot (ba_unrounded amounts) lot_size of
           None \<Rightarrow> zero (reason NONFINITE_QUANTITY ''quantity''
                     ''market lot rounding did not produce a finite quantity'')
         | Some quantity \<Rightarrow>
             if quantity \<le> 0
             then buy_result request market lot_size risk_per_unit rate regime multiplier amounts 0 limiting
                    [reason BELOW_MARKET_LOT ''quantity'' ''capped quantity is below the market lot size'']
             else buy_result request market lot_size risk_per_unit rate regime multiplier amounts
                    quantity limiting [])"

text \<open>
  \<open>entry - stop\<close> stands before the \<open>try\<close>: a signal it raises is not caught. The values that
  the reasons have confirmed finite are read with \<open>finite_value\<close>; were one missing, the code's
  assertion would fail.
\<close>

definition calculate_buy ::
    "sizing_input \<Rightarrow> string \<Rightarrow> rat \<Rightarrow> sizing_config \<Rightarrow> sizing_result result" where
  "calculate_buy request market lot_size config =
     (case (finite_value (si_entry_price request),
            Option.bind (si_strategy_stop request) finite_value,
            normalize_regime (si_regime request),
            finite_value (si_operating_budget request), finite_value (si_budget_used request),
            finite_value (si_max_symbol_allocation request),
            finite_value (si_current_symbol_invested request),
            finite_value (si_risk_per_trade_rate request)) of
        (Some entry, Some stop, Some regime, Some budget, Some used, Some allocation,
         Some invested, Some rate) \<Rightarrow>
          let multiplier = regime_multiplier_of config regime in
          bindr (dsub entry stop) (\<lambda>risk_per_unit.
          case buy_amounts_of entry risk_per_unit budget used allocation invested rate multiplier
                 (si_average_volume request) (si_average_turnover request)
                 (si_account_state_multiplier request) config of
            Inl DecimalException \<Rightarrow>
              Inr (zero_result ''BUY'' market lot_size
                [reason NONFINITE_QUANTITY ''quantity''
                   ''position sizing arithmetic did not produce a finite quantity''])
          | Inl e \<Rightarrow> Inl e
          | Inr amounts \<Rightarrow>
              Inr (finish_buy request market lot_size risk_per_unit rate regime multiplier amounts))
      | _ \<Rightarrow> Inl AssertionError)"

subsection \<open>Sizing a SELL\<close>

definition sell_result ::
    "sizing_input \<Rightarrow> string \<Rightarrow> rat \<Rightarrow> size_cap list \<Rightarrow> rat \<Rightarrow> rat \<Rightarrow> sizing_reason list \<Rightarrow> sizing_result" where
  "sell_result request market lot_size caps unrounded quantity reasons =
     (zero_result ''SELL'' market lot_size reasons)
       \<lparr>sr_quantity := quantity, sr_unrounded_quantity := unrounded, sr_caps := caps,
        sr_limiting_caps := limiting_caps caps unrounded,
        sr_entry_price := Some (si_entry_price request)\<rparr>"

definition calculate_sell :: "sizing_input \<Rightarrow> string \<Rightarrow> rat \<Rightarrow> sizing_result result" where
  "calculate_sell request market lot_size =
     (case finite_value (si_current_holding_quantity request) of
        None \<Rightarrow> Inl AssertionError
      | Some holding \<Rightarrow>
          let requested = (case Option.bind (si_strategy_quantity request) finite_value of
                             None \<Rightarrow> holding | Some q \<Rightarrow> if q = 0 then holding else q);
              caps = [new_cap PAPER_HOLDING holding, new_cap STRATEGY_SELL requested];
              unrounded = min_list (map cap_quantity caps)
          in Inr (case round_to_lot unrounded lot_size of
               None \<Rightarrow> zero_result ''SELL'' market lot_size
                 [reason NONFINITE_QUANTITY ''quantity''
                    ''market lot rounding did not produce a finite quantity'']
             | Some quantity \<Rightarrow>
                 if quantity \<le> 0
                 then sell_result request market lot_size caps unrounded 0
                        [reason BELOW_MARKET_LOT ''quantity'' ''capped quantity is below the market lot size'']
                 else sell_result request market lot_size caps unrounded quantity []))"

subsection \<open>The sizer\<close>

definition calculate_position_size ::
    "xcal \<Rightarrow> sizing_config \<Rightarrow> sizing_input \<Rightarrow> sizing_result result" where
  "calculate_position_size cal config request =
     (let action = py_upper (si_action request); market = py_upper (si_market request);
          lot_size = (if market \<in> {''KRX'', ''US''} then lot_size_of config market else 0);
          regime = normalize_regime (si_regime request)
      in bindr (base_reasons cal request action market config) (\<lambda>base.
         let reasons = base @ (if action = ''BUY'' then buy_reasons request config
                               else if action = ''SELL'' then sell_reasons request else [])
         in if reasons \<noteq> [] then
              Inr ((zero_result action market lot_size reasons)
                \<lparr>sr_risk_per_trade_rate :=
                   (case finite_value (si_risk_per_trade_rate request) of None \<Rightarrow> 0 | Some q \<Rightarrow> q),
                 sr_regime := map_option regime_name regime,
                 sr_regime_multiplier :=
                   (case regime of None \<Rightarrow> 0 | Some r \<Rightarrow> regime_multiplier_of config r),
                 sr_account_state_multiplier := si_account_state_multiplier request,
                 sr_entry_price := Some (si_entry_price request),
                 sr_strategy_stop := si_strategy_stop request,
                 sr_strategy_atr := si_strategy_atr request\<rparr>)
            else if action = ''BUY'' then calculate_buy request market lot_size config
            else calculate_sell request market lot_size))"

end
