(* ===== verification/Sizing_Safety.thy ===== *)
theory Sizing_Safety
  imports Position_Sizing
begin

text \<open>
  What the position sizer guarantees: rounding to market lots, the caps and budgets that bound
  a BUY, the sizes of SELLs, the inputs on which it refuses to size, and the effect of the
  account multiplier.
\<close>

subsection \<open>Rounding to lots\<close>

lemma finite_ok_iff [simp]: "finite_ok P d \<longleftrightarrow> (\<exists>q. d = DFinite q \<and> P q)"
  by (cases d) (auto simp: finite_ok_def)

lemma finite_value_Some [simp]: "finite_value d = Some q \<longleftrightarrow> d = DFinite q"
  by (cases d) auto

lemma dec_op_representable:
  "dadd a b = Inr r \<Longrightarrow> representable r" "dsub a b = Inr r \<Longrightarrow> representable r"
  "dmul a b = Inr r \<Longrightarrow> representable r" "ddiv a b = Inr r \<Longrightarrow> representable r"
  by (auto dest!: dec_op_Inr simp: dec_fix_representable)

lemma representable_shift:
  assumes "representable q" and "k \<le> 0"
  shows "representable (q / pow10 k)"
proof -
  obtain n e where q: "q = of_int n * pow10 e" "\<bar>n\<bar> \<le> 10 ^ 28" "etiny \<le> e"
    using assms(1) by (auto simp: representable_def)
  have "q / pow10 k = of_int n * pow10 (e - k)" by (simp add: q(1) power_int_diff)
  with q(2,3) assms(2) show ?thesis
    unfolding representable_def by (intro exI [of _ n] exI [of _ "e - k"]) simp
qed

lemma floor_representable:
  assumes "representable q" and "0 \<le> q" and "etiny \<le> k" and "k \<le> 0"
  shows "representable (of_int \<lfloor>q / pow10 k\<rfloor> * pow10 k)"
proof -
  obtain n e where q: "q = of_int n * pow10 e" "\<bar>n\<bar> \<le> 10 ^ 28" "etiny \<le> e"
    using assms(1) by (auto simp: representable_def)
  have shift: "q / pow10 k = of_int n * pow10 (e - k)" by (simp add: q(1) power_int_diff)
  show ?thesis
  proof (cases "k \<le> e")
    case True
    then have "q / pow10 k = of_int (n * 10 ^ nat (e - k))"
      unfolding shift by (simp add: power_int_of_nat [symmetric])
    then have "of_int \<lfloor>q / pow10 k\<rfloor> * pow10 k = q" by (metis floor_of_int nonzero_eq_divide_eq less_irrefl pow10_pos)
    with assms(1) show ?thesis by simp
  next
    case False
    have "pow10 (e - k) \<le> 1" using False pow10_le_iff [of "e - k" 0] by simp
    then have "q / pow10 k \<le> of_int \<bar>n\<bar>"
      unfolding shift by (simp add: mult_left_le order_trans [OF mult_right_mono [of "of_int n" "of_int \<bar>n\<bar>"]])
    also have "\<dots> \<le> of_int (10 ^ 28)" using q(2) by (simp only: of_int_le_iff)
    finally have "\<lfloor>q / pow10 k\<rfloor> \<le> 10 ^ 28" by (simp add: floor_le_iff)
    moreover have "0 \<le> \<lfloor>q / pow10 k\<rfloor>" using assms(2) by simp
    ultimately have "\<bar>\<lfloor>q / pow10 k\<rfloor>\<bar> \<le> 10 ^ 28" by simp
    with assms(3) show ?thesis unfolding representable_def by blast
  qed
qed

lemma round_to_lot_floor:
  assumes "representable q" and "0 \<le> q" and "etiny \<le> k" and "k \<le> 0"
    and "round_to_lot q (pow10 k) = Some r"
  shows "r = of_int \<lfloor>q / pow10 k\<rfloor> * pow10 k"
proof -
  from assms(5) obtain lots where "ddiv q (pow10 k) = Inr lots"
      and r: "dmul (of_int (round_down lots)) (pow10 k) = Inr r"
    by (auto simp: round_to_lot_def bindr_eq_Inr split: sum.splits)
  then have "lots = q / pow10 k"
    using representable_fix [OF representable_shift [OF assms(1,4)]] by (auto dest: ddiv_Inr)
  then have "round_down lots = \<lfloor>q / pow10 k\<rfloor>" using assms(2) by (simp add: round_down_def)
  with r representable_fix [OF floor_representable [OF assms(1-4)]] show ?thesis
    by (auto dest: dmul_Inr)
qed

lemma floor_lot_le:
  assumes "0 \<le> q"
  shows "of_int \<lfloor>q / pow10 k\<rfloor> * pow10 k \<le> q" and "q < of_int (\<lfloor>q / pow10 k\<rfloor> + 1) * pow10 k"
proof -
  have "of_int \<lfloor>q / pow10 k\<rfloor> \<le> q / pow10 k" by (rule of_int_floor_le)
  then show "of_int \<lfloor>q / pow10 k\<rfloor> * pow10 k \<le> q"
    by (simp only: pos_le_divide_eq [OF pow10_pos])
  have "q / pow10 k < of_int (\<lfloor>q / pow10 k\<rfloor> + 1)" by linarith
  then show "q < of_int (\<lfloor>q / pow10 k\<rfloor> + 1) * pow10 k"
    by (simp only: pos_divide_less_eq [OF pow10_pos])
qed

subsection \<open>The shape of an actionable result\<close>

lemma buy_amounts_spec:
  assumes "buy_amounts_of entry rpu budget used allocation invested rate m vol tov am config = Inr b"
  obtains volume turnover where "vol = Some (DFinite volume)" "tov = Some (DFinite turnover)"
    "ba_risk_budget b = dec_fix (dec_fix (budget * rate) * m)"
    "ba_remaining_symbol b = max 0 (dec_fix (dec_fix (budget * allocation) - invested))"
    "ba_remaining_owner b = max 0 (dec_fix (budget - used))"
    "ba_caps b =
       [new_cap RISK_BUDGET (dec_fix (ba_risk_budget b / rpu)),
        new_cap SYMBOL_ALLOCATION (dec_fix (ba_remaining_symbol b / entry)),
        new_cap OWNER_BUDGET (dec_fix (ba_remaining_owner b / entry)),
        new_cap AVERAGE_VOLUME (dec_fix (volume * sc_max_average_volume_participation config)),
        new_cap AVERAGE_TURNOVER
          (dec_fix (dec_fix (turnover * sc_max_average_turnover_participation config) / entry))]"
    "ba_base_unrounded b = min_list (map cap_quantity (ba_caps b))"
    "ba_unrounded b = dec_fix (ba_base_unrounded b * am)"
    "rpu \<noteq> 0" "entry \<noteq> 0"
proof -
  obtain x1 x2 x3 x4 x5 x6 x7 x8 where ops: "dmul budget rate = Inr x1" "dmul x1 m = Inr x2"
      "dmul budget allocation = Inr x3" "dsub x3 invested = Inr x4" "dsub budget used = Inr x5"
      "ddiv x2 rpu = Inr x6" "ddiv (max 0 x4) entry = Inr x7" "ddiv (max 0 x5) entry = Inr x8"
    using assms unfolding buy_amounts_of_def Let_def by (elim bindrE) (rule that)
  obtain volume turnover where v: "vol = Some (DFinite volume)" "tov = Some (DFinite turnover)"
    using assms unfolding buy_amounts_of_def Let_def
    by (elim bindrE) (auto simp: bind_eq_Some_conv split: option.splits)
  obtain y1 y2 y3 y4 where more: "dmul volume (sc_max_average_volume_participation config) = Inr y1"
      "dmul turnover (sc_max_average_turnover_participation config) = Inr y2" "ddiv y2 entry = Inr y3"
      "dmul (min_list (map cap_quantity [new_cap RISK_BUDGET x6, new_cap SYMBOL_ALLOCATION x7,
         new_cap OWNER_BUDGET x8, new_cap AVERAGE_VOLUME y1, new_cap AVERAGE_TURNOVER y3])) am = Inr y4"
    and b: "b = \<lparr>ba_risk_budget = x2, ba_remaining_symbol = max 0 x4, ba_remaining_owner = max 0 x5,
      ba_caps = [new_cap RISK_BUDGET x6, new_cap SYMBOL_ALLOCATION x7, new_cap OWNER_BUDGET x8,
        new_cap AVERAGE_VOLUME y1, new_cap AVERAGE_TURNOVER y3],
      ba_base_unrounded = min_list (map cap_quantity [new_cap RISK_BUDGET x6, new_cap SYMBOL_ALLOCATION x7,
         new_cap OWNER_BUDGET x8, new_cap AVERAGE_VOLUME y1, new_cap AVERAGE_TURNOVER y3]),
      ba_unrounded = y4\<rparr>"
    using assms unfolding buy_amounts_of_def Let_def ops bindr_Inr v bind.simps finite_value.simps option.case prod.case
    by (elim bindrE) (rule that, (assumption | simp)+)
  note ops' = dmul_Inr [OF ops(1)] dmul_Inr [OF ops(2)] dmul_Inr [OF ops(3)] dsub_Inr [OF ops(4)]
    dsub_Inr [OF ops(5)] ddiv_Inr [OF ops(6)] ddiv_Inr [OF ops(7)] ddiv_Inr [OF ops(8)]
    dmul_Inr [OF more(1)] dmul_Inr [OF more(2)] ddiv_Inr [OF more(3)] dmul_Inr [OF more(4)]
  show thesis
    by (rule that [OF v]) (simp_all only: b ops' buy_amounts.simps simp_thms)
qed

lemma min_list_le: "(x :: rat) \<in> set xs \<Longrightarrow> min_list xs \<le> x"
  by (subst min_list_Min) auto

lemma zero_codes_not_actionable [simp]:
  "\<not> actionable (zero_result a m l (r # rs))"
  "\<not> actionable (zero_with_calculation req mk l u rt rg mu am r)"
  by (simp_all add: actionable_def zero_result_def zero_with_calculation_def buy_result_def)

text \<open>An actionable BUY came out of the last branch of the calculation.\<close>

lemma actionable_finish_buy:
  assumes "actionable (finish_buy request market lot rpu rate regime m b)"
  shows "finish_buy request market lot rpu rate regime m b
      = buy_result request market lot rpu rate regime m b
          (the (round_to_lot (ba_unrounded b) lot)) (limiting_caps (ba_caps b) (ba_base_unrounded b)) []"
    and "\<exists>q. round_to_lot (ba_unrounded b) lot = Some q \<and> 0 < q"
    and "0 < ba_risk_budget b" "0 < ba_remaining_owner b" "0 < ba_remaining_symbol b"
  using assms
  by (auto simp: finish_buy_def Let_def actionable_def buy_result_def zero_with_calculation_def
      not_le split: if_splits option.splits)

subsection \<open>Admissible inputs\<close>

text \<open>
  The conditions under which a request is sized at all, stated without reference to the
  reason lists.
\<close>

definition base_admissible :: "xcal \<Rightarrow> sizing_config \<Rightarrow> sizing_input \<Rightarrow> bool" where
  "base_admissible cal config request \<longleftrightarrow>
     py_upper (si_action request) \<in> {''BUY'', ''SELL''} \<and> py_upper (si_market request) \<in> {''KRX'', ''US''}
     \<and> (\<exists>entry. si_entry_price request = DFinite entry \<and> 0 < entry)
     \<and> (\<exists>p t n. si_price_as_of request = Some (Aware p) \<and> si_evaluated_at request = Some (Aware t) \<and> p \<le> t
          \<and> regular_sessions_opened_since cal (py_upper (si_market request)) (Aware p) (Aware t) = Inr (Some n)
          \<and> int n \<le> sc_max_price_age_sessions config)"

definition buy_admissible :: "sizing_config \<Rightarrow> sizing_input \<Rightarrow> bool" where
  "buy_admissible config request \<longleftrightarrow>
     (\<exists>stop. si_strategy_stop request = Some (DFinite stop) \<and> 0 < stop
        \<and> (\<forall>entry. si_entry_price request = DFinite entry \<longrightarrow> stop < entry))
     \<and> (\<exists>atr. si_strategy_atr request = Some (DFinite atr) \<and> 0 < atr)
     \<and> (\<exists>budget. si_operating_budget request = DFinite budget \<and> 0 < budget)
     \<and> (\<exists>used. si_budget_used request = DFinite used \<and> 0 \<le> used)
     \<and> (\<exists>allocation. si_max_symbol_allocation request = DFinite allocation \<and> 0 < allocation \<and> allocation \<le> 1)
     \<and> (\<exists>invested. si_current_symbol_invested request = DFinite invested \<and> 0 \<le> invested)
     \<and> (\<exists>rate. si_risk_per_trade_rate request = DFinite rate \<and> 0 < rate \<and> rate \<le> 1)
     \<and> (\<exists>regime. normalize_regime (si_regime request) = Some regime \<and> regime_multiplier_of config regime \<noteq> 0)
     \<and> (\<exists>v. si_average_volume request = Some (DFinite v) \<and> 0 < v)
     \<and> (\<exists>v. si_average_turnover request = Some (DFinite v) \<and> 0 < v)"

definition sell_admissible :: "sizing_input \<Rightarrow> bool" where
  "sell_admissible request \<longleftrightarrow>
     (\<exists>holding. si_current_holding_quantity request = DFinite holding \<and> 0 < holding)
     \<and> (si_strategy_quantity request = None
        \<or> (\<exists>q. si_strategy_quantity request = Some (DFinite q) \<and> 0 < q))"

definition admissible :: "xcal \<Rightarrow> sizing_config \<Rightarrow> sizing_input \<Rightarrow> bool" where
  "admissible cal config request \<longleftrightarrow> base_admissible cal config request
     \<and> (if py_upper (si_action request) = ''BUY'' then buy_admissible config request else sell_admissible request)"

lemma stale_price_reason_None:
  "m \<in> {''KRX'', ''US''} \<Longrightarrow> stale_price_reason cal m p t config = Inr None \<longleftrightarrow>
     (\<exists>n. regular_sessions_opened_since cal m (Aware p) (Aware t) = Inr (Some n)
        \<and> int n \<le> sc_max_price_age_sessions config)"
  unfolding stale_price_reason_def
  by (cases "regular_sessions_opened_since cal m (Aware p) (Aware t)")
    (auto simp: bindr_def not_less split: py_error.splits option.splits if_splits)

lemma base_reasons_Nil:
  "base_reasons cal request (py_upper (si_action request)) (py_upper (si_market request)) config = Inr []
   \<longleftrightarrow> base_admissible cal config request"
proof -
  have aware: "aware_datetime v = Some t \<longleftrightarrow> v = Some (Aware t)" for v t
    by (cases v; cases "the v") (auto simp: aware_datetime_def)
  show ?thesis
  proof (cases "aware_datetime (si_price_as_of request)"; cases "aware_datetime (si_evaluated_at request)")
    fix p t
    assume pt: "aware_datetime (si_price_as_of request) = Some p" "aware_datetime (si_evaluated_at request) = Some t"
    have now: "aware_datetime (Some (Aware u)) = Some u" for u by (simp add: aware)
    show ?thesis
    proof (cases "py_upper (si_market request) \<in> {''KRX'', ''US''} \<and> p \<le> t")
      case True
      with stale_price_reason_None [of "py_upper (si_market request)" cal p t config] pt
      show ?thesis
        unfolding base_reasons_def base_admissible_def pt [unfolded aware] now
        by (auto simp: bindr_eq_Inr split: option.splits if_splits)
    next
      case False
      then show ?thesis
        unfolding base_reasons_def base_admissible_def pt [unfolded aware] now
        by (auto simp: bindr_eq_Inr split: if_splits)
    qed
  qed (auto simp: base_reasons_def base_admissible_def aware_datetime_def)
qed

lemma liquidity_reasons_Nil: "liquidity_reasons f v = [] \<longleftrightarrow> (\<exists>q. v = Some (DFinite q) \<and> 0 < q)"
  by (auto simp: liquidity_reasons_def split: option.splits)

lemma stop_reasons_Nil:
  "stop_reasons request = [] \<longleftrightarrow> (\<exists>stop. si_strategy_stop request = Some (DFinite stop) \<and> 0 < stop
     \<and> (\<forall>entry. si_entry_price request = DFinite entry \<longrightarrow> stop < entry))"
  by (auto simp: stop_reasons_def not_le split: option.splits if_splits)

lemma budget_reasons_Nil:
  "budget_reasons request = [] \<longleftrightarrow>
     (\<exists>budget. si_operating_budget request = DFinite budget \<and> 0 < budget)
     \<and> (\<exists>used. si_budget_used request = DFinite used \<and> 0 \<le> used)
     \<and> (\<exists>allocation. si_max_symbol_allocation request = DFinite allocation \<and> 0 < allocation \<and> allocation \<le> 1)
     \<and> (\<exists>invested. si_current_symbol_invested request = DFinite invested \<and> 0 \<le> invested)
     \<and> (\<exists>rate. si_risk_per_trade_rate request = DFinite rate \<and> 0 < rate \<and> rate \<le> 1)"
  unfolding budget_reasons_def append_is_Nil_conv
  by (intro conj_cong) (auto split: if_splits)

lemma buy_reasons_Nil: "buy_reasons request config = [] \<longleftrightarrow> buy_admissible config request"
proof -
  have "atr_reasons request = [] \<longleftrightarrow> (\<exists>atr. si_strategy_atr request = Some (DFinite atr) \<and> 0 < atr)"
    by (auto simp: atr_reasons_def split: option.splits)
  moreover have "regime_reasons request config = [] \<longleftrightarrow>
      (\<exists>regime. normalize_regime (si_regime request) = Some regime \<and> regime_multiplier_of config regime \<noteq> 0)"
    by (auto simp: regime_reasons_def split: option.splits)
  ultimately show ?thesis
    unfolding buy_reasons_def buy_admissible_def append_is_Nil_conv
      stop_reasons_Nil budget_reasons_Nil liquidity_reasons_Nil by blast
qed

lemma sell_reasons_Nil: "sell_reasons request = [] \<longleftrightarrow> sell_admissible request"
  unfolding sell_reasons_def sell_admissible_def append_is_Nil_conv
  by (intro conj_cong) (auto simp: not_le split: if_splits option.splits)

subsection \<open>Cases of the sizer\<close>

abbreviation sized_market :: "sizing_input \<Rightarrow> string" where
  "sized_market request \<equiv> py_upper (si_market request)"

lemma calculate_cases:
  assumes "calculate_position_size cal config request = Inr r"
  obtains (refused) "\<not> admissible cal config request" "sr_quantity r = 0" "sr_zero_reasons r \<noteq> []"
  | (buy) "admissible cal config request" "py_upper (si_action request) = ''BUY''"
      "calculate_buy request (sized_market request) (lot_size_of config (sized_market request)) config = Inr r"
  | (sell) "admissible cal config request" "py_upper (si_action request) = ''SELL''"
      "calculate_sell request (sized_market request) (lot_size_of config (sized_market request)) = Inr r"
proof -
  let ?a = "py_upper (si_action request)" and ?m = "sized_market request"
  from assms obtain base where base: "base_reasons cal request ?a ?m config = Inr base"
    by (auto simp: calculate_position_size_def Let_def bindr_eq_Inr)
  let ?extra = "if ?a = ''BUY'' then buy_reasons request config
     else if ?a = ''SELL'' then sell_reasons request else []"
  have adm: "admissible cal config request \<longleftrightarrow> base @ ?extra = []"
    using base base_reasons_Nil [of cal request config] buy_reasons_Nil sell_reasons_Nil
    by (auto simp: admissible_def base_admissible_def)
  show thesis
  proof (cases "base @ ?extra = []")
    case True
    then have "base_admissible cal config request" using adm by (simp add: admissible_def)
    then have "?a \<in> {''BUY'', ''SELL''}" "?m \<in> {''KRX'', ''US''}" by (simp_all add: base_admissible_def)
    with True assms base adm buy sell show thesis
      unfolding calculate_position_size_def Let_def base bindr_Inr by (auto split: if_splits)
  next
    case False
    with assms base have "sr_quantity r = 0" "sr_zero_reasons r = base @ ?extra"
      unfolding calculate_position_size_def Let_def base bindr_Inr
      by (auto simp: zero_result_def split: if_splits)
    with False adm refused show thesis by simp
  qed
qed

lemma admissible_finite:
  assumes "admissible cal config request" and "py_upper (si_action request) = ''BUY''"
  obtains entry stop regime budget used allocation invested rate volume turnover where
    "si_entry_price request = DFinite entry" "si_strategy_stop request = Some (DFinite stop)"
    "normalize_regime (si_regime request) = Some regime" "si_operating_budget request = DFinite budget"
    "si_budget_used request = DFinite used" "si_max_symbol_allocation request = DFinite allocation"
    "si_current_symbol_invested request = DFinite invested" "si_risk_per_trade_rate request = DFinite rate"
    "si_average_volume request = Some (DFinite volume)" "si_average_turnover request = Some (DFinite turnover)"
    "0 < stop" "stop < entry"
  using assms unfolding admissible_def base_admissible_def buy_admissible_def by force

text \<open>The values a sized BUY was computed from.\<close>

record buy_terms =
  bt_entry :: rat
  bt_stop :: rat
  bt_regime :: market_regime
  bt_budget :: rat
  bt_used :: rat
  bt_allocation :: rat
  bt_invested :: rat
  bt_rate :: rat
  bt_volume :: rat
  bt_turnover :: rat

definition buy_terms_of :: "sizing_input \<Rightarrow> buy_terms \<Rightarrow> bool" where
  "buy_terms_of request v \<longleftrightarrow>
     si_entry_price request = DFinite (bt_entry v) \<and> si_strategy_stop request = Some (DFinite (bt_stop v))
     \<and> normalize_regime (si_regime request) = Some (bt_regime v)
     \<and> si_operating_budget request = DFinite (bt_budget v) \<and> si_budget_used request = DFinite (bt_used v)
     \<and> si_max_symbol_allocation request = DFinite (bt_allocation v)
     \<and> si_current_symbol_invested request = DFinite (bt_invested v)
     \<and> si_risk_per_trade_rate request = DFinite (bt_rate v)
     \<and> si_average_volume request = Some (DFinite (bt_volume v))
     \<and> si_average_turnover request = Some (DFinite (bt_turnover v))
     \<and> 0 < bt_stop v \<and> bt_stop v < bt_entry v"

lemma buy_terms_unique: "buy_terms_of request v \<Longrightarrow> buy_terms_of request w \<Longrightarrow> v = w"
  by (auto simp: buy_terms_of_def intro!: buy_terms.equality)

lemma admissible_terms:
  assumes "admissible cal config request" and "py_upper (si_action request) = ''BUY''"
  obtains v where "buy_terms_of request v"
proof -
  from assms show thesis
  proof (rule admissible_finite)
    fix entry stop regime budget used allocation invested rate volume turnover
    assume "si_entry_price request = DFinite entry" "si_strategy_stop request = Some (DFinite stop)"
      "normalize_regime (si_regime request) = Some regime" "si_operating_budget request = DFinite budget"
      "si_budget_used request = DFinite used" "si_max_symbol_allocation request = DFinite allocation"
      "si_current_symbol_invested request = DFinite invested" "si_risk_per_trade_rate request = DFinite rate"
      "si_average_volume request = Some (DFinite volume)" "si_average_turnover request = Some (DFinite turnover)"
      "0 < stop" "stop < entry"
    then have "buy_terms_of request \<lparr>bt_entry = entry, bt_stop = stop, bt_regime = regime,
        bt_budget = budget, bt_used = used, bt_allocation = allocation, bt_invested = invested,
        bt_rate = rate, bt_volume = volume, bt_turnover = turnover\<rparr>"
      by (simp add: buy_terms_of_def)
    then show thesis by (rule that)
  qed
qed

text \<open>The amounts computed for given terms, and the BUY calculation in their terms.\<close>

abbreviation amounts_for :: "sizing_config \<Rightarrow> buy_terms \<Rightarrow> rat \<Rightarrow> rat \<Rightarrow> buy_amounts result" where
  "amounts_for config v rpu am \<equiv>
     buy_amounts_of (bt_entry v) rpu (bt_budget v) (bt_used v) (bt_allocation v) (bt_invested v) (bt_rate v)
       (regime_multiplier_of config (bt_regime v)) (Some (DFinite (bt_volume v)))
       (Some (DFinite (bt_turnover v))) am config"

lemma calculate_buy_terms:
  assumes "buy_terms_of request v"
  shows "calculate_buy request market lot config =
     bindr (dsub (bt_entry v) (bt_stop v)) (\<lambda>rpu.
       case amounts_for config v rpu (si_account_state_multiplier request) of
         Inl DecimalException \<Rightarrow>
           Inr (zero_result ''BUY'' market lot
             [reason NONFINITE_QUANTITY ''quantity''
                ''position sizing arithmetic did not produce a finite quantity''])
       | Inl e \<Rightarrow> Inl e
       | Inr b \<Rightarrow> Inr (finish_buy request market lot rpu (bt_rate v) (bt_regime v)
                        (regime_multiplier_of config (bt_regime v)) b))"
  using assms by (simp add: buy_terms_of_def calculate_buy_def Let_def)

lemma arithmetic_only_amounts: "arithmetic_only (amounts_for config v rpu am)"
  unfolding buy_amounts_of_def Let_def bind.simps finite_value.simps option.case prod.case
  by (intro wf_intros)

lemma actionable_buy:
  assumes "calculate_position_size cal config request = Inr r" and "actionable r"
    and "py_upper (si_action request) = ''BUY''"
  obtains v rpu b q where "admissible cal config request" "buy_terms_of request v"
    "dsub (bt_entry v) (bt_stop v) = Inr rpu"
    "amounts_for config v rpu (si_account_state_multiplier request) = Inr b"
    "round_to_lot (ba_unrounded b) (lot_size_of config (sized_market request)) = Some q" "0 < q"
    "0 < ba_risk_budget b" "0 < ba_remaining_owner b" "0 < ba_remaining_symbol b"
    "sr_quantity r = q" "sr_unrounded_quantity r = ba_unrounded b" "sr_caps r = ba_caps b"
    "sr_risk_budget r = ba_risk_budget b" "sr_risk_per_unit r = rpu"
    "sr_lot_size r = lot_size_of config (sized_market request)"
  using assms(1)
proof (cases rule: calculate_cases)
  case buy
  obtain v where v: "buy_terms_of request v" by (rule admissible_terms [OF buy(1,2)])
  let ?lot = "lot_size_of config (sized_market request)"
  from buy(3) obtain rpu where rpu: "dsub (bt_entry v) (bt_stop v) = Inr rpu"
    unfolding calculate_buy_terms [OF v] by (elim bindrE)
  from buy(3) assms(2) rpu obtain b where
      b: "amounts_for config v rpu (si_account_state_multiplier request) = Inr b"
      and r: "r = finish_buy request (sized_market request) ?lot rpu (bt_rate v) (bt_regime v)
                (regime_multiplier_of config (bt_regime v)) b"
    unfolding calculate_buy_terms [OF v]
    by (auto split: sum.splits py_error.splits)
  note act = actionable_finish_buy [OF assms(2) [unfolded r]]
  from act(2) obtain q where q: "round_to_lot (ba_unrounded b) ?lot = Some q" "0 < q" by blast
  show thesis
    by (rule that [OF buy(1) v rpu b q act(3-5)])
      (simp_all only: r act(1) q option.sel, simp_all add: buy_result_def)
qed (use assms in \<open>auto simp: actionable_def\<close>)

lemma actionable_buy_prices:
  assumes "calculate_position_size cal config request = Inr r" and "actionable r"
    and "py_upper (si_action request) = ''BUY''"
  shows "sr_entry_price r = Some (si_entry_price request)" and "sr_strategy_stop r = si_strategy_stop request"
proof -
  from assms(1) have "sr_entry_price r = Some (si_entry_price request) \<and> sr_strategy_stop r = si_strategy_stop request"
  proof (cases rule: calculate_cases)
    case buy
    obtain v where v: "buy_terms_of request v" by (rule admissible_terms [OF buy(1,2)])
    from buy(3) assms(2) obtain rpu rate regime m b where
      r: "r = finish_buy request (sized_market request) (lot_size_of config (sized_market request)) rpu rate regime m b"
      unfolding calculate_buy_terms [OF v]
      by (auto elim!: bindrE split: sum.splits py_error.splits)
    show ?thesis
      unfolding r actionable_finish_buy(1) [OF assms(2) [unfolded r]] by (simp add: buy_result_def)
  qed (use assms in \<open>auto simp: actionable_def\<close>)
  then show "sr_entry_price r = Some (si_entry_price request)" "sr_strategy_stop r = si_strategy_stop request"
    by simp_all
qed

subsection \<open>BUY sizes stay within every limit\<close>

lemma round_to_lot_pos:
  assumes "round_to_lot q lot = Some r" and "0 < r" and "0 < lot"
  shows "0 < q"
proof (rule ccontr)
  assume "\<not> 0 < q"
  from assms(1) obtain lots where "ddiv q lot = Inr lots"
      and r: "dmul (of_int (round_down lots)) lot = Inr r"
    by (auto simp: round_to_lot_def bindr_eq_Inr split: sum.splits)
  then have "lots \<le> 0"
    using \<open>\<not> 0 < q\<close> assms(3) by (auto dest!: ddiv_Inr intro!: dec.nonpos simp: divide_nonpos_pos)
  then have "(of_int (round_down lots) :: rat) \<le> 0" by (rule trunc.nonpos)
  then have "r \<le> 0"
    using r assms(3) by (auto dest!: dmul_Inr intro!: dec.nonpos simp: mult_nonpos_nonneg)
  with assms(2) show False by simp
qed

lemma min_list_in: "xs \<noteq> [] \<Longrightarrow> min_list xs \<in> set (xs :: rat list)"
  by (simp add: min_list_Min)

lemma dec_fix_upper:
  assumes "pow10 k \<le> dec_fix x" and "emin < k"
  shows "dec_fix x \<le> (1 + unit_roundoff) * x"
proof -
  have "pow10 emin \<le> x"
  proof (rule ccontr)
    assume "\<not> pow10 emin \<le> x"
    have "etiny \<le> emin" by (simp add: etiny_def emin_def)
    then have kept: "dec_fix (pow10 emin) = pow10 emin"
      by (rule representable_fix [OF representable_pow10])
    have "x < pow10 emin" using \<open>\<not> pow10 emin \<le> x\<close> by (simp only: not_le)
    then have "x \<le> pow10 emin" by (rule less_imp_le)
    then have "dec_fix x \<le> pow10 emin" using kept by (rule dec.below_kept)
    with assms(1) have "pow10 k \<le> pow10 emin" by (rule order_trans)
    with assms(2) show False unfolding pow10_le_iff by linarith
  qed
  then have x: "0 < x" "pow10 emin \<le> \<bar>x\<bar>" using pow10_pos [of emin] by linarith+
  from dec_fix_rel_error [OF x(2)] x(1) show ?thesis by (simp add: distrib_right abs_le_iff)
qed

lemma amounts_base:
  assumes "amounts_for config v rpu am = Inr b"
  shows "ba_base_unrounded b = min_list (map cap_quantity (ba_caps b))"
    and "ba_unrounded b = dec_fix (ba_base_unrounded b * am)"
    and "c \<in> set (ba_caps b) \<Longrightarrow> representable (cap_quantity c)" and "ba_caps b \<noteq> []"
  using assms
proof (atomize (full), elim buy_amounts_spec, intro conjI impI)
  fix volume turnover
  assume base: "ba_base_unrounded b = min_list (map cap_quantity (ba_caps b))"
    and unrounded: "ba_unrounded b = dec_fix (ba_base_unrounded b * am)"
    and caps: "ba_caps b =
       [new_cap RISK_BUDGET (dec_fix (ba_risk_budget b / rpu)),
        new_cap SYMBOL_ALLOCATION (dec_fix (ba_remaining_symbol b / bt_entry v)),
        new_cap OWNER_BUDGET (dec_fix (ba_remaining_owner b / bt_entry v)),
        new_cap AVERAGE_VOLUME (dec_fix (volume * sc_max_average_volume_participation config)),
        new_cap AVERAGE_TURNOVER
          (dec_fix (dec_fix (turnover * sc_max_average_turnover_participation config) / bt_entry v))]"
  from base show "ba_base_unrounded b = min_list (map cap_quantity (ba_caps b))" .
  from unrounded show "ba_unrounded b = dec_fix (ba_base_unrounded b * am)" .
  show "representable (cap_quantity c)" if "c \<in> set (ba_caps b)"
    using that unfolding caps by (auto simp: new_cap_def dec_fix_representable)
  show "ba_caps b \<noteq> []" unfolding caps by simp
qed

lemma buy_within_caps:
  assumes "calculate_position_size cal config request = Inr r" and "actionable r"
    and "py_upper (si_action request) = ''BUY''"
    and lot: "lot_size_of config (sized_market request) = pow10 k" "etiny \<le> k" "k \<le> 0"
    and am: "0 \<le> si_account_state_multiplier request" "si_account_state_multiplier request \<le> 1"
  shows "sr_quantity r = of_int \<lfloor>sr_unrounded_quantity r / pow10 k\<rfloor> * pow10 k
    \<and> (\<forall>cap \<in> set (sr_caps r). sr_quantity r \<le> cap_quantity cap) \<and> pow10 k \<le> sr_quantity r"
  using assms(1-3)
proof (rule actionable_buy)
  fix v rpu b q
  assume b: "amounts_for config v rpu (si_account_state_multiplier request) = Inr b"
    and q: "round_to_lot (ba_unrounded b) (lot_size_of config (sized_market request)) = Some q" "0 < q"
    and r: "sr_quantity r = q" "sr_unrounded_quantity r = ba_unrounded b" "sr_caps r = ba_caps b"
  let ?am = "si_account_state_multiplier request"
  note caps = amounts_base [OF b]
  have u: "0 < ba_unrounded b" by (rule round_to_lot_pos [OF q]) (simp add: lot(1))
  have rep: "representable (ba_unrounded b)" by (simp add: caps(2) dec_fix_representable)
  have floor: "q = of_int \<lfloor>ba_unrounded b / pow10 k\<rfloor> * pow10 k"
    using q(1) u unfolding lot(1) by (intro round_to_lot_floor [OF rep _ lot(2,3)]) auto
  then have qu: "q \<le> ba_unrounded b" using floor_lot_le(1) u by (simp add: less_imp_le)
  have "0 < ba_base_unrounded b * ?am" using u unfolding caps(2) by (rule dec.pos_imp)
  then have base: "0 < ba_base_unrounded b" using am(1) by (simp add: zero_less_mult_iff)
  have "ba_base_unrounded b \<in> set (map cap_quantity (ba_caps b))"
    unfolding caps(1) using caps(4) by (intro min_list_in) simp
  then have "representable (ba_base_unrounded b)" using caps(3) by auto
  then have "ba_unrounded b \<le> ba_base_unrounded b"
    unfolding caps(2) using base am by (intro dec.scaled_below_kept representable_fix) auto
  moreover have "ba_base_unrounded b \<le> cap_quantity c" if "c \<in> set (ba_caps b)" for c
    unfolding caps(1) using that by (intro min_list_le) simp
  ultimately have le: "\<forall>cap \<in> set (sr_caps r). sr_quantity r \<le> cap_quantity cap"
    using qu r by fastforce
  have "0 < \<lfloor>ba_unrounded b / pow10 k\<rfloor>"
    using q(2) floor zero_less_mult_pos2 [OF _ pow10_pos] by (metis of_int_0_less_iff)
  then have "1 * pow10 k \<le> of_int \<lfloor>ba_unrounded b / pow10 k\<rfloor> * pow10 k"
    by (intro mult_right_mono) simp_all
  with floor r le show ?thesis by simp
qed

text \<open>
  C1: A BUY that is sized stays within every limit. With a market lot that is a power of ten
  not above one (the lots of the default configuration are 1 and 0.0001) the quantity is a
  positive whole number of lots; the loss at the strategy stop is within the risk budget; the
  cost is within what is left of the owner's budget and of the symbol's allocation; and the
  quantity and its cost are within the volume and turnover ceilings. The money bounds hold up
  to one rounding of the decimal context, a relative \<open>5 * 10^-28\<close>.
\<close>

theorem buy_size_within_limits:
  assumes "calculate_position_size cal config request = Inr r" and "actionable r"
    and "py_upper (si_action request) = ''BUY''" and "buy_terms_of request v"
    and "lot_size_of config (py_upper (si_market request)) = pow10 k" and "emin < k" and "k \<le> 0"
    and "0 \<le> si_account_state_multiplier request" and "si_account_state_multiplier request \<le> 1"
    and "representable (bt_entry v - bt_stop v)"
  shows "(\<exists>n > 0. sr_quantity r = of_nat n * pow10 k)
    \<and> sr_quantity r * (bt_entry v - bt_stop v)
        \<le> (1 + unit_roundoff) * dec_fix (dec_fix (bt_budget v * bt_rate v) * regime_multiplier_of config (bt_regime v))
    \<and> sr_quantity r * bt_entry v \<le> (1 + unit_roundoff) * dec_fix (bt_budget v - bt_used v)
    \<and> sr_quantity r * bt_entry v
        \<le> (1 + unit_roundoff) * dec_fix (dec_fix (bt_budget v * bt_allocation v) - bt_invested v)
    \<and> sr_quantity r \<le> dec_fix (bt_volume v * sc_max_average_volume_participation config)
    \<and> sr_quantity r * bt_entry v
        \<le> (1 + unit_roundoff) * dec_fix (bt_turnover v * sc_max_average_turnover_participation config)"
  using assms(1-3)
proof (rule actionable_buy)
  fix v' rpu b q
  assume v': "buy_terms_of request v'" and rpu: "dsub (bt_entry v') (bt_stop v') = Inr rpu"
    and b: "amounts_for config v' rpu (si_account_state_multiplier request) = Inr b"
    and pos: "0 < ba_risk_budget b" "0 < ba_remaining_owner b" "0 < ba_remaining_symbol b"
    and r: "sr_caps r = ba_caps b"
  have "v' = v" by (rule buy_terms_unique [OF v' assms(4)])
  have v: "0 < bt_entry v" "0 < bt_entry v - bt_stop v" using assms(4) by (auto simp: buy_terms_of_def)
  have "rpu = bt_entry v - bt_stop v"
    using rpu assms(10) by (auto simp: \<open>v' = v\<close> representable_fix dest!: dsub_Inr)
  note b = b [unfolded \<open>v' = v\<close> this]
  have "etiny \<le> k" using assms(6) by (simp add: etiny_def emin_def)
  from buy_within_caps [OF assms(1-3,5) this assms(7-9)]
  have within: "sr_quantity r = of_int \<lfloor>sr_unrounded_quantity r / pow10 k\<rfloor> * pow10 k"
      "\<forall>cap \<in> set (sr_caps r). sr_quantity r \<le> cap_quantity cap" "pow10 k \<le> sr_quantity r" by blast+
  have money: "sr_quantity r * x \<le> (1 + unit_roundoff) * y" if "sr_quantity r \<le> dec_fix (y / x)" "0 < x" for x y
  proof -
    have "dec_fix (y / x) \<le> (1 + unit_roundoff) * (y / x)"
      using within(3) that(1) by (intro dec_fix_upper [OF _ assms(6)]) simp
    with that(1) have "sr_quantity r \<le> (1 + unit_roundoff) * (y / x)" by (rule order_trans)
    with that(2) show ?thesis by (simp add: le_divide_eq)
  qed
  have "0 < \<lfloor>sr_unrounded_quantity r / pow10 k\<rfloor>"
    using assms(2) within(1) zero_less_mult_pos2 [OF _ pow10_pos] by (metis actionable_def of_int_0_less_iff)
  then obtain n where n: "0 < n" "\<lfloor>sr_unrounded_quantity r / pow10 k\<rfloor> = int n" by (metis zero_less_imp_eq_int)
  with within(1) have lots: "\<exists>n > 0. sr_quantity r = of_nat n * pow10 k" by auto
  from b show ?thesis
  proof (rule buy_amounts_spec)
    fix volume turnover
    assume vt: "Some (DFinite (bt_volume v)) = Some (DFinite volume)"
        "Some (DFinite (bt_turnover v)) = Some (DFinite turnover)"
      and rb: "ba_risk_budget b = dec_fix (dec_fix (bt_budget v * bt_rate v) * regime_multiplier_of config (bt_regime v))"
      and rs: "ba_remaining_symbol b = max 0 (dec_fix (dec_fix (bt_budget v * bt_allocation v) - bt_invested v))"
      and ro: "ba_remaining_owner b = max 0 (dec_fix (bt_budget v - bt_used v))"
      and caps: "ba_caps b =
       [new_cap RISK_BUDGET (dec_fix (ba_risk_budget b / (bt_entry v - bt_stop v))),
        new_cap SYMBOL_ALLOCATION (dec_fix (ba_remaining_symbol b / bt_entry v)),
        new_cap OWNER_BUDGET (dec_fix (ba_remaining_owner b / bt_entry v)),
        new_cap AVERAGE_VOLUME (dec_fix (volume * sc_max_average_volume_participation config)),
        new_cap AVERAGE_TURNOVER
          (dec_fix (dec_fix (turnover * sc_max_average_turnover_participation config) / bt_entry v))]"
    have c: "sr_quantity r \<le> cap_quantity c" if "c \<in> set (ba_caps b)" for c
      using within(2) that r by simp
    have rem: "ba_remaining_symbol b = dec_fix (dec_fix (bt_budget v * bt_allocation v) - bt_invested v)"
        "ba_remaining_owner b = dec_fix (bt_budget v - bt_used v)"
      using pos(2,3) rs ro by (auto simp: max_def split: if_splits)
    show ?thesis
      using lots money [OF c [of "ba_caps b ! 0", unfolded caps, simplified new_cap_def, simplified] v(2)]
        money [OF c [of "ba_caps b ! 1", unfolded caps, simplified new_cap_def, simplified] v(1)]
        money [OF c [of "ba_caps b ! 2", unfolded caps, simplified new_cap_def, simplified] v(1)]
        c [of "ba_caps b ! 3", unfolded caps, simplified new_cap_def, simplified]
        money [OF c [of "ba_caps b ! 4", unfolded caps, simplified new_cap_def, simplified] v(1)]
        rb rem vt by simp
  qed
qed

subsection \<open>Refusals\<close>

lemma finish_buy_quantity:
  "sr_quantity (finish_buy request market lot rpu rate regime m b) =
     (if 0 < ba_risk_budget b \<and> 0 < ba_remaining_owner b \<and> 0 < ba_remaining_symbol b
      then (case round_to_lot (ba_unrounded b) lot of None \<Rightarrow> 0 | Some q \<Rightarrow> max 0 q) else 0)"
  by (auto simp: finish_buy_def Let_def buy_result_def zero_with_calculation_def not_le split: option.splits)

lemma finish_buy_reasons:
  "sr_zero_reasons (finish_buy request market lot rpu rate regime m b) = []
     \<longleftrightarrow> 0 < sr_quantity (finish_buy request market lot rpu rate regime m b)"
  by (auto simp: finish_buy_def Let_def buy_result_def zero_with_calculation_def not_le split: option.splits)

lemma calculate_buy_quantity:
  assumes "calculate_buy request market lot config = Inr r" and v: "buy_terms_of request v"
  shows "0 \<le> sr_quantity r \<and> (sr_zero_reasons r = [] \<longleftrightarrow> 0 < sr_quantity r)"
proof -
  have fin: "0 \<le> sr_quantity (finish_buy request market lot rpu rate regime m b)" for rpu rate regime m b
    by (auto simp: finish_buy_quantity split: option.splits)
  from assms(1) show ?thesis
    unfolding calculate_buy_terms [OF v] using fin finish_buy_reasons
    by (auto elim!: bindrE simp: zero_result_def split: sum.splits py_error.splits)
qed

lemma calculate_sell_quantity:
  assumes "calculate_sell request market lot = Inr r"
  shows "0 \<le> sr_quantity r \<and> (sr_zero_reasons r = [] \<longleftrightarrow> 0 < sr_quantity r)"
  using assms
  by (auto simp: calculate_sell_def Let_def sell_result_def zero_result_def not_le
      split: option.splits if_splits)

lemma calculate_quantity:
  assumes "calculate_position_size cal config request = Inr r"
  shows "0 \<le> sr_quantity r \<and> (sr_zero_reasons r = [] \<longleftrightarrow> 0 < sr_quantity r)"
  using assms
proof (cases rule: calculate_cases)
  case buy
  then show ?thesis using admissible_terms calculate_buy_quantity by metis
qed (auto dest: calculate_sell_quantity)

text \<open>
  C23: The sizer fails closed. Whenever it returns, the quantity is nonnegative, and it is
  positive exactly when no reason was recorded; and a request that violates one of the stated
  conditions (unsupported action or market, a price that is not positive and finite, a missing,
  naive, future or stale timestamp, and for a BUY a stop, ATR, budget, allocation, rate, regime
  or liquidity that is missing or out of range, for a SELL a missing holding or a bad quantity)
  gets quantity zero and a reason.
\<close>

theorem sizing_fails_closed:
  assumes "calculate_position_size cal config request = Inr r"
  shows "0 \<le> sr_quantity r \<and> (0 < sr_quantity r \<longleftrightarrow> sr_zero_reasons r = [])
    \<and> (\<not> admissible cal config request \<longrightarrow> sr_quantity r = 0 \<and> sr_zero_reasons r \<noteq> [])"
  using calculate_quantity [OF assms] assms by (auto elim: calculate_cases)

subsection \<open>SELL sizes\<close>

definition sell_amount :: "rat \<Rightarrow> decimal option \<Rightarrow> rat" where
  "sell_amount holding requested =
     (case requested of Some (DFinite q) \<Rightarrow> min holding q | _ \<Rightarrow> holding)"

text \<open>
  A SELL is sized exactly: for an admissible request the quantity is the largest whole
  number of lots not above the holding and the quantity the strategy asked for, and it is
  actionable exactly when that is at least one lot; no stop, regime or budget is involved.
\<close>

theorem sell_size_exact:
  assumes "calculate_position_size cal config request = Inr r"
    and "py_upper (si_action request) = ''SELL''" and "admissible cal config request"
    and "si_current_holding_quantity request = DFinite holding"
    and "u = sell_amount holding (si_strategy_quantity request)" and "representable u" and "mag_le 1000 u"
    and "lot_size_of config (py_upper (si_market request)) = pow10 k" and "- 1000 \<le> k" and "k \<le> 0"
  shows "sr_quantity r = of_int \<lfloor>u / pow10 k\<rfloor> * pow10 k \<and> sr_quantity r \<le> holding
    \<and> (actionable r \<longleftrightarrow> pow10 k \<le> u)"
  using assms(1)
proof (cases rule: calculate_cases)
  case sell
  from assms(2,3,4) have adm: "0 < holding" "si_strategy_quantity request = None
      \<or> (\<exists>q. si_strategy_quantity request = Some (DFinite q) \<and> 0 < q)"
    by (auto simp: admissible_def sell_admissible_def)
  then have u: "0 < u" "u \<le> holding" using assms(5) by (auto simp: sell_amount_def)
  have k: "etiny \<le> k" using assms(9) by (simp add: etiny_def)
  obtain q where q: "round_to_lot u (pow10 k) = Some q"
  proof -
    have shift: "u / pow10 k = u * pow10 (- k)" by (simp add: power_int_minus divide_inverse)
    have "mag_le 2000 (u / pow10 k)"
      using mag_mult [OF assms(7), of "nat (- k)" "pow10 (- k)"] assms(9,10)
      by (auto simp: shift mag_le_def [of "nat (- k)"] intro: mag_le)
    then have m: "mag_le 2000 (u / pow10 k)" .
    have d: "ddiv u (pow10 k) = Inr (u / pow10 k)"
      using mag_ctx [OF m] representable_fix [OF representable_shift [OF assms(6,10)]]
      by (simp add: ddiv_def emax_def)
    have "round_down (u / pow10 k) = \<lfloor>u / pow10 k\<rfloor>" using u by (simp add: round_down_def)
    moreover have "mag_le 1000 (of_int \<lfloor>u / pow10 k\<rfloor> * pow10 k)"
    proof -
      have "0 \<le> of_int \<lfloor>u / pow10 k\<rfloor> * pow10 k" using u by simp
      moreover have "u \<le> pow10 (int 1000)" using assms(7) u(1) by (simp only: mag_le_def abs_of_pos)
      ultimately show ?thesis
        unfolding mag_le_def using order_trans [OF floor_lot_le(1) [OF less_imp_le [OF u(1)]]]
        by (simp only: abs_of_nonneg)
    qed
    ultimately show thesis
      using that mag_ctx [of 1000] by (simp add: round_to_lot_def d dmul_def emax_def)
  qed
  from round_to_lot_floor [OF assms(6) less_imp_le [OF u(1)] k assms(10) q]
  have floor: "q = of_int \<lfloor>u / pow10 k\<rfloor> * pow10 k" .
  have q0: "0 \<le> q" using u by (simp add: floor)
  have one: "0 < q \<longleftrightarrow> pow10 k \<le> u"
  proof -
    have "0 < q \<longleftrightarrow> 0 < \<lfloor>u / pow10 k\<rfloor>"
      using zero_less_mult_pos2 [OF _ pow10_pos] unfolding floor
      by (metis mult_pos_pos of_int_0_less_iff pow10_pos)
    also have "\<dots> \<longleftrightarrow> 1 \<le> u / pow10 k" by (metis int_one_le_iff_zero_less le_floor_iff of_int_1)
    also have "\<dots> \<longleftrightarrow> pow10 k \<le> u" by (subst pos_le_divide_eq) simp_all
    finally show ?thesis .
  qed
  have min: "min_list [holding, x] = min holding x" for x :: rat by simp
  have "sr_quantity r = q" "sr_zero_reasons r = [] \<longleftrightarrow> 0 < q"
    using sell(3) adm q q0 assms(4,5,8)
    by (auto simp: calculate_sell_def Let_def new_cap_def sell_amount_def sell_result_def zero_result_def
        bind_eq_Some_conv split: if_splits)
  with floor one floor_lot_le(1) [of u k] u show ?thesis by (auto simp: actionable_def)
qed (use assms in auto)

subsection \<open>The account multiplier\<close>

lemma round_to_lot_mono:
  assumes "round_to_lot a lot = Some x" and "round_to_lot b lot = Some y" and "a \<le> b" and "0 < lot"
  shows "x \<le> y"
proof -
  from assms(1,2) obtain m n where d: "ddiv a lot = Inr m" "ddiv b lot = Inr n"
      "dmul (of_int (round_down m)) lot = Inr x" "dmul (of_int (round_down n)) lot = Inr y"
    by (auto simp: round_to_lot_def bindr_eq_Inr split: sum.splits)
  then have "m \<le> n" using assms(3,4) by (auto dest!: ddiv_Inr intro!: dec.mono divide_right_mono)
  then have "(of_int (round_down m) :: rat) \<le> of_int (round_down n)" by (rule trunc.mono)
  with d(3,4) assms(4) show ?thesis by (auto dest!: dmul_Inr intro!: dec.mono mult_right_mono)
qed

text \<open>Two multipliers over the same terms: only the unrounded quantity differs.\<close>

lemma amounts_same_terms:
  assumes "amounts_for config v rpu am = Inr b" and "amounts_for config v rpu am' = Inr b'"
  shows "ba_risk_budget b' = ba_risk_budget b \<and> ba_remaining_owner b' = ba_remaining_owner b
    \<and> ba_remaining_symbol b' = ba_remaining_symbol b
    \<and> ba_unrounded b = dec_fix (ba_base_unrounded b * am)
    \<and> ba_unrounded b' = dec_fix (ba_base_unrounded b * am')"
  by (rule buy_amounts_spec [OF assms(1)], rule buy_amounts_spec [OF assms(2)]) (simp only: decimal.inject option.inject)

definition with_account_multiplier :: "sizing_input \<Rightarrow> rat \<Rightarrow> sizing_input" where
  "with_account_multiplier request m = request\<lparr>si_account_state_multiplier := m\<rparr>"

lemma with_account_multiplier_simps [simp]:
  "admissible cal config (with_account_multiplier request m) = admissible cal config request"
  "buy_terms_of (with_account_multiplier request m) v = buy_terms_of request v"
  "si_action (with_account_multiplier request m) = si_action request"
  "si_market (with_account_multiplier request m) = si_market request"
  "si_account_state_multiplier (with_account_multiplier request m) = m"
  by (simp_all add: with_account_multiplier_def admissible_def base_admissible_def buy_admissible_def
      sell_admissible_def buy_terms_of_def)

text \<open>
  A smaller account multiplier never sizes a larger BUY. If the same request is sized with
  multipliers \<open>m' \<le> m\<close> and sizing with \<open>m\<close> did not fail for lack of a finite quantity, the
  quantity for \<open>m'\<close> is at most the quantity for \<open>m\<close>.
\<close>

theorem account_multiplier_monotone:
  assumes "calculate_position_size cal config (with_account_multiplier request m) = Inr r"
    and "calculate_position_size cal config (with_account_multiplier request m') = Inr r'"
    and "py_upper (si_action request) = ''BUY''" and "0 \<le> m'" and "m' \<le> m"
    and "NONFINITE_QUANTITY \<notin> rn_code ` set (sr_zero_reasons r)"
    and "0 < lot_size_of config (py_upper (si_market request))"
  shows "sr_quantity r' \<le> sr_quantity r"
proof -
  let ?lot = "lot_size_of config (py_upper (si_market request))"
  from assms(2) show ?thesis
  proof (cases rule: calculate_cases)
    case refused
    then show ?thesis using calculate_quantity [OF assms(1)] by simp
  next
    case buy
    then have adm: "admissible cal config request" by simp
    obtain v where v: "buy_terms_of request v" by (rule admissible_terms [OF adm assms(3)])
    then have v': "buy_terms_of (with_account_multiplier request x) v" for x by simp
    have c: "calculate_buy (with_account_multiplier request m) (py_upper (si_market request)) ?lot config = Inr r"
      using assms(1) adm assms(3) by (auto elim: calculate_cases)
    from c obtain rpu where rpu: "dsub (bt_entry v) (bt_stop v) = Inr rpu"
      unfolding calculate_buy_terms [OF v'] by (elim bindrE)
    from c assms(6) obtain b where b: "amounts_for config v rpu m = Inr b"
        "r = finish_buy (with_account_multiplier request m) (py_upper (si_market request)) ?lot rpu (bt_rate v)
              (bt_regime v) (regime_multiplier_of config (bt_regime v)) b"
      unfolding calculate_buy_terms [OF v'] rpu
      by (auto simp: zero_result_def reason_def split: sum.splits py_error.splits)
    show ?thesis
    proof (cases "0 < sr_quantity r'")
      case True
      then have "actionable r'" using calculate_quantity [OF assms(2)] by (simp add: actionable_def)
      from assms(2) this show ?thesis
      proof (rule actionable_buy)
        fix w rpu' b' q'
        assume w: "buy_terms_of (with_account_multiplier request m') w"
            "dsub (bt_entry w) (bt_stop w) = Inr rpu'"
            "amounts_for config w rpu' (si_account_state_multiplier (with_account_multiplier request m')) = Inr b'"
          and q': "round_to_lot (ba_unrounded b') (lot_size_of config (sized_market (with_account_multiplier request m'))) = Some q'"
            "0 < q'" "sr_quantity r' = q'"
          and pos: "0 < ba_risk_budget b'" "0 < ba_remaining_owner b'" "0 < ba_remaining_symbol b'"
        from w(1) have "buy_terms_of request w" by simp
        from buy_terms_unique [OF this v] have "w = v" .
        with w rpu have b': "amounts_for config v rpu m' = Inr b'" by simp
        note same = amounts_same_terms [OF b(1) b']
        have "0 < ba_unrounded b'" using round_to_lot_pos q' assms(7) by simp
        then have "0 < ba_base_unrounded b * m'" using same dec.pos_imp by metis
        then have "0 < ba_base_unrounded b" using assms(4) by (simp add: zero_less_mult_iff)
        then have le: "ba_unrounded b' \<le> ba_unrounded b"
          using same assms(5) by (auto intro!: dec.mono mult_left_mono)
        show ?thesis
        proof (cases "round_to_lot (ba_unrounded b) ?lot")
          case None
          then have "NONFINITE_QUANTITY \<in> rn_code ` set (sr_zero_reasons r)"
            using same pos unfolding b(2)
            by (simp add: finish_buy_def Let_def zero_with_calculation_def buy_result_def reason_def)
          with assms(6) show ?thesis by simp
        next
          case (Some q)
          with q' le assms(7) have "q' \<le> q" by (auto intro: round_to_lot_mono)
          moreover have "sr_quantity r = max 0 q"
            using Some same pos unfolding b(2) by (simp add: finish_buy_quantity)
          ultimately show ?thesis using q'(3) by simp
        qed
      qed (use assms(3) in simp)
    next
      case False
      then show ?thesis using calculate_quantity [OF assms(1)] by simp
    qed
  qed (use assms(3) in simp)
qed

subsection \<open>The sizer returns\<close>

lemma base_reasons_returns:
  "\<exists>base. base_reasons cal request action market config = Inr base"
proof -
  have "\<exists>x. stale_price_reason cal market p t config = Inr x" for p t
  proof (cases "market \<in> {''KRX'', ''US''}")
    case True
    moreover have "calendar_market ''KRX'' = Inr KR" "calendar_market ''US'' = Inr US" by code_simp+
    ultimately have "\<exists>m. calendar_market market = Inr m" by auto
    then have "\<exists>e. regular_sessions_opened_since cal market (Aware p) (Aware t) = Inr e"
      by (auto simp: regular_sessions_opened_since_def aware_utc_def Let_def split: option.splits)
    with True show ?thesis by (auto simp: stale_price_reason_def)
  qed (simp add: stale_price_reason_def)
  then show ?thesis by (auto simp: base_reasons_def bindr_eq_Inr split: option.splits)
qed

lemma sizer_returns:
  assumes "\<forall>e. si_entry_price request = DFinite e \<longrightarrow> e \<le> pow10 emax"
  shows "\<exists>r. calculate_position_size cal config request = Inr r"
proof -
  let ?a = "py_upper (si_action request)" and ?m = "py_upper (si_market request)"
  obtain base where base: "base_reasons cal request ?a ?m config = Inr base"
    using base_reasons_returns by blast
  let ?extra = "if ?a = ''BUY'' then buy_reasons request config
     else if ?a = ''SELL'' then sell_reasons request else []"
  show ?thesis
  proof (cases "base @ ?extra = []")
    case False
    then show ?thesis unfolding calculate_position_size_def Let_def base bindr_Inr by simp
  next
    case True
    then have "base_admissible cal config request" using base base_reasons_Nil by auto
    then have a: "?a \<in> {''BUY'', ''SELL''}" by (simp add: base_admissible_def)
    have adm: "admissible cal config request"
      using True a \<open>base_admissible cal config request\<close> buy_reasons_Nil sell_reasons_Nil
      by (auto simp: admissible_def)
    show ?thesis
    proof (cases "?a = ''BUY''")
      case buy: True
      obtain v where v: "buy_terms_of request v" by (rule admissible_terms [OF adm buy])
      have "\<exists>x. dsub (bt_entry v) (bt_stop v) = Inr x"
      proof -
        have "\<bar>bt_entry v - bt_stop v\<bar> \<le> pow10 emax"
          using assms v by (auto simp: buy_terms_of_def)
        moreover have n: "int (nat emax) = emax" by (simp add: emax_def)
        ultimately have "mag_le (nat emax) (bt_entry v - bt_stop v)" by (simp only: mag_le_def)
        from mag_ctx [OF this] n show ?thesis by (simp only: dsub_def) blast
      qed
      then obtain rpu where rpu: "dsub (bt_entry v) (bt_stop v) = Inr rpu" by blast
      have "\<exists>r. calculate_buy request market lot config = Inr r" for market lot
        unfolding calculate_buy_terms [OF v] rpu bindr_Inr
        using arithmetic_only_amounts [where am = "si_account_state_multiplier request" and rpu = rpu
            and v = v and config = config]
        by (auto simp: arithmetic_only_def split: sum.splits py_error.splits)
      with True buy show ?thesis unfolding calculate_position_size_def Let_def base bindr_Inr by simp
    next
      case sell: False
      then have "sell_admissible request" using adm by (simp add: admissible_def)
      then have "\<exists>r. calculate_sell request market lot = Inr r" for market lot
        by (auto simp: sell_admissible_def calculate_sell_def Let_def)
      with True sell a show ?thesis unfolding calculate_position_size_def Let_def base bindr_Inr by simp
    qed
  qed
qed

text \<open>
  C40: The sizer always returns a result, even for NaN, infinite or missing inputs, except when
  the entry price is finite but beyond the exponent range of the context. Every defect becomes
  a reason, never an exception.
\<close>

theorem sizing_returns:
  assumes "\<forall>e. si_entry_price request = DFinite e \<longrightarrow> e \<le> pow10 emax"
  shows "\<exists>r. calculate_position_size cal config request = Inr r"
  using assms by (rule sizer_returns)

subsection \<open>Witnesses\<close>

text \<open>
  A BUY on the Korean market: a budget of seven million, entry at 70000 with a stop at 69000,
  one percent at risk in a bull market. The risk budget of 70000 allows 70 shares.
\<close>

definition demo_request :: sizing_input where
  "demo_request =
     \<lparr>si_action = ''BUY'', si_market = ''KRX'', si_entry_price = DFinite 70000,
      si_price_as_of = Some (Aware demo_price_time), si_evaluated_at = Some (Aware demo_moment),
      si_operating_budget = DFinite 7000000, si_budget_used = DFinite 0,
      si_max_symbol_allocation = DFinite 1, si_current_symbol_invested = DFinite 0,
      si_current_holding_quantity = DFinite 30, si_risk_per_trade_rate = DFinite (1 / 100),
      si_regime = RegimeMember BULL, si_strategy_stop = Some (DFinite 69000),
      si_strategy_atr = Some (DFinite 1000), si_strategy_quantity = None,
      si_average_volume = Some (DFinite 1000000), si_average_turnover = Some (DFinite 70000000000),
      si_account_state_multiplier = 1\<rparr>"

definition demo_terms :: buy_terms where
  "demo_terms = \<lparr>bt_entry = 70000, bt_stop = 69000, bt_regime = BULL, bt_budget = 7000000, bt_used = 0,
     bt_allocation = 1, bt_invested = 0, bt_rate = 1 / 100, bt_volume = 1000000, bt_turnover = 70000000000\<rparr>"

lemma demo_upper: "py_upper ''BUY'' = ''BUY''" "py_upper ''KRX'' = ''KRX''" "py_upper ''SELL'' = ''SELL''"
  by code_simp+

lemma demo_terms: "buy_terms_of demo_request demo_terms"
  by (simp add: buy_terms_of_def demo_request_def demo_terms_def normalize_regime_def)

lemma demo_admissible:
  "admissible daily_calendar default_sizing_config demo_request"
  "admissible daily_calendar default_sizing_config (demo_request\<lparr>si_action := ''SELL''\<rparr>)"
proof -
  have t: "demo_price_time \<le> demo_moment" by (simp add: demo_price_time_def day_us_def)
  have rate: "\<exists>rate. rate * 100 = 1 \<and> 0 < rate \<and> rate \<le> (1 :: rat)" by (rule exI [of _ "1 / 100"]) simp
  show "admissible daily_calendar default_sizing_config demo_request"
      "admissible daily_calendar default_sizing_config (demo_request\<lparr>si_action := ''SELL''\<rparr>)"
    using demo_age t rate
    by (simp_all add: admissible_def base_admissible_def buy_admissible_def sell_admissible_def
        demo_request_def demo_upper default_sizing_config_def normalize_regime_def)
qed

lemma dec_ctx_numeral:
  "(numeral n :: int) \<le> 10 ^ 28 \<Longrightarrow> dec_ctx (numeral n) = Inr (numeral n)"
proof -
  assume n: "(numeral n :: int) \<le> 10 ^ 28"
  have "\<bar>numeral n :: rat\<bar> \<le> of_int (numeral n)" by simp
  from bounded_ctx(1) [OF this n] representable_fix [OF representable_int [of "numeral n"]] n
  show ?thesis by simp
qed

lemmas exact_arithmetic = dadd_def dsub_def dmul_def ddiv_def dec_ctx_numeral

lemma demo_rpu: "dsub (bt_entry demo_terms) (bt_stop demo_terms) = Inr 1000"
  by (simp add: demo_terms_def exact_arithmetic)

definition demo_amounts :: "rat \<Rightarrow> buy_amounts" where
  "demo_amounts u =
     \<lparr>ba_risk_budget = 70000, ba_remaining_symbol = 7000000, ba_remaining_owner = 7000000,
      ba_caps = [new_cap RISK_BUDGET 70, new_cap SYMBOL_ALLOCATION 100, new_cap OWNER_BUDGET 100,
        new_cap AVERAGE_VOLUME 10000, new_cap AVERAGE_TURNOVER 10000],
      ba_base_unrounded = 70, ba_unrounded = u\<rparr>"

lemma demo_buy_amounts:
  "amounts_for default_sizing_config demo_terms 1000 1 = Inr (demo_amounts 70)"
  "amounts_for default_sizing_config demo_terms 1000 (1 / 2) = Inr (demo_amounts 35)"
  by (simp_all add: buy_amounts_of_def demo_terms_def demo_amounts_def default_sizing_config_def
      exact_arithmetic new_cap_def)

lemma demo_round: "round_to_lot 70 1 = Some 70" "round_to_lot 35 1 = Some 35"
  by (simp_all add: round_to_lot_def exact_arithmetic round_down_def)

lemma demo_lot: "lot_size_of default_sizing_config ''KRX'' = 1"
  by (simp add: lot_size_of_def default_sizing_config_def)

lemma demo_buy:
  assumes "amounts_for default_sizing_config demo_terms 1000 m = Inr (demo_amounts u)"
    and "round_to_lot u 1 = Some u" and "0 < u"
  shows "\<exists>r. calculate_position_size daily_calendar default_sizing_config
      (with_account_multiplier demo_request m) = Inr r \<and> actionable r \<and> sr_quantity r = u"
proof -
  let ?q = "with_account_multiplier demo_request m"
  have m: "py_upper (si_action ?q) = ''BUY''" "sized_market ?q = ''KRX''"
    by (simp_all add: demo_request_def demo_upper)
  have v: "buy_terms_of ?q demo_terms" using demo_terms by simp
  have e: "\<forall>e. si_entry_price ?q = DFinite e \<longrightarrow> e \<le> pow10 emax"
  proof -
    have "(70000 :: rat) \<le> pow10 5" by simp
    also have "\<dots> \<le> pow10 emax" unfolding pow10_le_iff by (simp add: emax_def)
    finally show ?thesis by (simp add: with_account_multiplier_def demo_request_def)
  qed
  obtain r where r: "calculate_position_size daily_calendar default_sizing_config ?q = Inr r"
    using sizer_returns [OF e] by blast
  then have "calculate_buy ?q ''KRX'' 1 default_sizing_config = Inr r"
    using demo_admissible(1) m demo_lot by (auto elim: calculate_cases)
  then have r': "r = finish_buy ?q ''KRX'' 1 1000 (bt_rate demo_terms) (bt_regime demo_terms)
      (regime_multiplier_of default_sizing_config (bt_regime demo_terms)) (demo_amounts u)"
    unfolding calculate_buy_terms [OF v] demo_rpu bindr_Inr using assms(1) by simp
  have "sr_quantity r = u" using assms(2,3) by (simp add: r' finish_buy_quantity demo_amounts_def)
  with r assms(3) calculate_quantity [OF r] show ?thesis by (auto simp: actionable_def)
qed

lemma demo_buy_evidence:
  assumes "calculate_position_size daily_calendar default_sizing_config demo_request = Inr r" and "actionable r"
  shows "sr_risk_budget r = 70000" and "sr_lot_size r = 1"
proof -
  have a: "py_upper (si_action demo_request) = ''BUY''" "sized_market demo_request = ''KRX''"
    by (simp_all add: demo_request_def demo_upper)
  from assms a(1) have "sr_risk_budget r = 70000 \<and> sr_lot_size r = 1"
  proof (rule actionable_buy)
    fix v rpu b q
    assume v: "buy_terms_of demo_request v" and rpu: "dsub (bt_entry v) (bt_stop v) = Inr rpu"
      and b: "amounts_for default_sizing_config v rpu (si_account_state_multiplier demo_request) = Inr b"
      and r: "sr_risk_budget r = ba_risk_budget b" "sr_lot_size r = lot_size_of default_sizing_config (sized_market demo_request)"
    have "v = demo_terms" by (rule buy_terms_unique [OF v demo_terms])
    with rpu demo_rpu have "rpu = 1000" by simp
    with b \<open>v = demo_terms\<close> demo_buy_amounts(1) have "b = demo_amounts 70" by (simp add: demo_request_def)
    with r a(2) demo_lot show ?thesis by (simp add: demo_amounts_def)
  qed
  then show "sr_risk_budget r = 70000" "sr_lot_size r = 1" by simp_all
qed

lemma demo_same: "with_account_multiplier demo_request 1 = demo_request"
  by (simp add: with_account_multiplier_def demo_request_def)

theorem buy_size_within_limits_witness:
  "\<exists>r. calculate_position_size daily_calendar default_sizing_config demo_request = Inr r
     \<and> sr_quantity r = 70 \<and> sr_quantity r * 70000 \<le> (1 + unit_roundoff) * dec_fix 7000000"
proof -
  obtain r where r: "calculate_position_size daily_calendar default_sizing_config demo_request = Inr r"
      "actionable r" "sr_quantity r = 70"
    using demo_buy [OF demo_buy_amounts(1) demo_round(1)] unfolding demo_same by auto
  have a: "py_upper (si_action demo_request) = ''BUY''"
      "lot_size_of default_sizing_config (py_upper (si_market demo_request)) = pow10 0"
      "emin < 0" "0 \<le> si_account_state_multiplier demo_request" "si_account_state_multiplier demo_request \<le> 1"
    by (simp_all add: demo_request_def demo_upper demo_lot emin_def)
  have "representable (bt_entry demo_terms - bt_stop demo_terms)"
    using representable_int [of 1000] by (simp add: demo_terms_def)
  from buy_size_within_limits [OF r(1,2) a(1) demo_terms a(2,3) order_refl a(4,5) this] r
  show ?thesis by (simp add: demo_terms_def)
qed

theorem account_multiplier_monotone_witness:
  "\<exists>r r'. calculate_position_size daily_calendar default_sizing_config (with_account_multiplier demo_request 1) = Inr r
     \<and> calculate_position_size daily_calendar default_sizing_config (with_account_multiplier demo_request (1 / 2)) = Inr r'
     \<and> sr_quantity r' \<le> sr_quantity r"
proof -
  obtain r r' where r: "calculate_position_size daily_calendar default_sizing_config (with_account_multiplier demo_request 1) = Inr r"
      "actionable r"
      "calculate_position_size daily_calendar default_sizing_config (with_account_multiplier demo_request (1 / 2)) = Inr r'"
    using demo_buy [OF demo_buy_amounts(1) demo_round(1)] demo_buy [OF demo_buy_amounts(2) demo_round(2)] by auto
  have a: "py_upper (si_action demo_request) = ''BUY''"
      "0 < lot_size_of default_sizing_config (py_upper (si_market demo_request))"
    by (simp_all add: demo_request_def demo_upper demo_lot)
  have n: "NONFINITE_QUANTITY \<notin> rn_code ` set (sr_zero_reasons r)" using r(2) by (simp add: actionable_def)
  have "sr_quantity r' \<le> sr_quantity r"
    by (rule account_multiplier_monotone [OF r(1,3) a(1) _ _ n a(2)]) simp_all
  with r show ?thesis by blast
qed

theorem sizing_fails_closed_witness:
  "\<exists>r. calculate_position_size daily_calendar default_sizing_config (demo_request\<lparr>si_strategy_stop := None\<rparr>) = Inr r
     \<and> sr_quantity r = 0"
proof -
  let ?q = "demo_request\<lparr>si_strategy_stop := None\<rparr>"
  have "\<not> admissible daily_calendar default_sizing_config ?q"
    by (simp add: admissible_def buy_admissible_def demo_request_def demo_upper)
  moreover obtain r where r: "calculate_position_size daily_calendar default_sizing_config ?q = Inr r"
  proof -
    have "(70000 :: rat) \<le> pow10 5" by simp
    also have "\<dots> \<le> pow10 emax" unfolding pow10_le_iff by (simp add: emax_def)
    finally have "\<forall>e. si_entry_price ?q = DFinite e \<longrightarrow> e \<le> pow10 emax" by (simp add: demo_request_def)
    from sizer_returns [OF this] show thesis using that by blast
  qed
  ultimately show ?thesis using sizing_fails_closed [OF r] by blast
qed

theorem sell_size_exact_witness:
  "\<exists>r. calculate_position_size daily_calendar default_sizing_config (demo_request\<lparr>si_action := ''SELL''\<rparr>) = Inr r
     \<and> sr_quantity r = 30 \<and> actionable r"
proof -
  let ?q = "demo_request\<lparr>si_action := ''SELL''\<rparr>"
  obtain r where r: "calculate_position_size daily_calendar default_sizing_config ?q = Inr r"
  proof -
    have "(70000 :: rat) \<le> pow10 5" by simp
    also have "\<dots> \<le> pow10 emax" unfolding pow10_le_iff by (simp add: emax_def)
    finally have "\<forall>e. si_entry_price ?q = DFinite e \<longrightarrow> e \<le> pow10 emax" by (simp add: demo_request_def)
    from sizer_returns [OF this] show thesis using that by blast
  qed
  have a: "py_upper (si_action ?q) = ''SELL''" "si_current_holding_quantity ?q = DFinite 30"
      "30 = sell_amount 30 (si_strategy_quantity ?q)"
      "lot_size_of default_sizing_config (py_upper (si_market ?q)) = pow10 0"
    by (simp_all add: demo_request_def demo_upper demo_lot sell_amount_def)
  have m: "mag_le 1000 30"
  proof -
    have "(30 :: rat) \<le> pow10 2" by simp
    also have "\<dots> \<le> pow10 (int 1000)" unfolding pow10_le_iff by simp
    finally show ?thesis by (simp only: mag_le_def abs_numeral)
  qed
  have rep: "representable 30" using representable_int [of 30] by simp
  from sell_size_exact [OF r a(1) demo_admissible(2) a(2,3) rep m a(4)] r show ?thesis by auto
qed

theorem sizing_returns_witness:
  "\<exists>r. calculate_position_size daily_calendar default_sizing_config (demo_request\<lparr>si_entry_price := DNaN\<rparr>) = Inr r"
  by (rule sizing_returns) (simp add: demo_request_def)

end
