(* ===== verification/Json_Text.thy ===== *)
theory Json_Text
  imports IsoFormat "HOL-Library.Char_ord" "HOL-Library.List_Lexorder"
begin

text \<open>
  JSON values and their canonical text, \<open>json.dumps(value, ensure_ascii=True, sort_keys=True,
  separators=(",", ":"))\<close>: the text the program hashes into configuration fingerprints and
  idempotency keys. Numbers are integers; binary floating point is not modelled. The text
  determines the value up to the order of the keys of its objects.
\<close>

subsection \<open>Values\<close>

datatype json =
    JNull
  | JBool bool
  | JInt int
  | JStr string
  | JList "json list"
  | JObj "(string \<times> json) list"

type_synonym json_object = "(string \<times> json) list"

definition obj_get :: "string \<Rightarrow> (string \<times> json) list \<Rightarrow> json" where
  "obj_get key entries = (case map_of entries key of None \<Rightarrow> JNull | Some v \<Rightarrow> v)"

definition json_optional :: "('a \<Rightarrow> json) \<Rightarrow> 'a option \<Rightarrow> json" where
  "json_optional f v = (case v of None \<Rightarrow> JNull | Some x \<Rightarrow> f x)"

lemma json_optional_simps [simp]:
  "json_optional f None = JNull" "json_optional f (Some x) = f x"
  by (simp_all add: json_optional_def)

lemma json_optional_inject:
  assumes "json_optional f v = json_optional g w" and "\<And>x. f x \<noteq> JNull" and "\<And>x. g x \<noteq> JNull"
    and "\<And>x y. f x = g y \<Longrightarrow> x = y"
  shows "v = w"
  using assms by (cases v; cases w) (simp_all, metis+)

subsection \<open>String literals\<close>

definition hex_digit :: "nat \<Rightarrow> char" where
  "hex_digit n = (if n < 10 then char_of (48 + n) else char_of (87 + n))"

definition json_char :: "char \<Rightarrow> string" where
  "json_char c =
     (let n = (of_char c :: nat)
      in if n = 34 then [CHR 0x5C, CHR 0x22]
         else if n = 92 then [CHR 0x5C, CHR 0x5C]
         else if n = 10 then [CHR 0x5C, CHR ''n'']
         else if n = 13 then [CHR 0x5C, CHR ''r'']
         else if n = 9 then [CHR 0x5C, CHR ''t'']
         else if n = 12 then [CHR 0x5C, CHR ''f'']
         else if n = 8 then [CHR 0x5C, CHR ''b'']
         else if 32 \<le> n \<and> n \<le> 126 then [c]
         else [CHR 0x5C, CHR ''u'', CHR ''0'', CHR ''0'', hex_digit (n div 16), hex_digit (n mod 16)])"

definition json_quote :: "string \<Rightarrow> string" where
  "json_quote s = CHR 0x22 # concat (map json_char s) @ [CHR 0x22]"

text \<open>Reading one character of a literal back.\<close>

definition hex_value :: "char \<Rightarrow> nat" where
  "hex_value c = (let n = of_char c in if n < 58 then n - 48 else n - 87)"

fun read_char :: "string \<Rightarrow> char \<times> string" where
  "read_char (e # x # s) =
     (if e = CHR 0x5C then
        (if x = CHR ''n'' then (char_of (10::nat), s) else if x = CHR ''r'' then (char_of (13::nat), s)
         else if x = CHR ''t'' then (char_of (9::nat), s) else if x = CHR ''f'' then (char_of (12::nat), s)
         else if x = CHR ''b'' then (char_of (8::nat), s)
         else if x = CHR ''u'' then (char_of (hex_value (s ! 2) * 16 + hex_value (s ! 3)), drop 4 s)
         else (x, s))
      else (e, x # s))"
| "read_char s = (hd s, tl s)"

lemma hex_value_digit: "n < 16 \<Longrightarrow> hex_value (hex_digit n) = n"
  by (auto simp: hex_digit_def hex_value_def Let_def of_char_of)

lemma char_eqI: "(of_char c :: nat) = of_char d \<Longrightarrow> c = d"
  by (metis char_of_char)

lemma char_of_char_code: "(of_char c :: nat) = n \<Longrightarrow> char_of n = c"
  by (metis char_of_char)

lemma read_plain:
  assumes "c \<noteq> CHR 0x5C"
  shows "read_char (c # r) = (c, r)"
  using assms by (cases r) auto

lemma read_json_char: "read_char (json_char c @ r) = (c, r)"
proof -
  let ?n = "of_char c :: nat"
  have less: "?n < 256" by simp
  have hex: "char_of (hex_value (hex_digit (?n div 16)) * 16 + hex_value (hex_digit (?n mod 16))) = c"
    using less by (simp add: hex_value_digit less_mult_imp_div_less)
  consider "?n \<in> {34, 92, 10, 13, 9, 12, 8}" | "?n \<notin> {34, 92, 10, 13, 9, 12, 8}" "32 \<le> ?n \<and> ?n \<le> 126"
    | "?n \<notin> {34, 92, 10, 13, 9, 12, 8}" "\<not> (32 \<le> ?n \<and> ?n \<le> 126)" by blast
  then show ?thesis
  proof cases
    case 1
    then show ?thesis by (auto simp: json_char_def dest: char_of_char_code intro!: char_eqI)
  next
    case 2
    then have "c \<noteq> CHR 0x5C" by auto
    with 2 show ?thesis by (simp add: json_char_def read_plain)
  next
    case 3
    then show ?thesis using hex by (auto simp: json_char_def Let_def)
  qed
qed

lemma json_char_head: "\<exists>a s. json_char c = a # s \<and> a \<noteq> CHR 0x22"
  by (auto simp: json_char_def Let_def)

lemma json_chars_inject:
  "concat (map json_char s) @ CHR 0x22 # r = concat (map json_char t) @ CHR 0x22 # q \<Longrightarrow> s = t \<and> r = q"
proof (induction s arbitrary: t)
  case Nil
  then show ?case
    using json_char_head [of "hd t"] by (cases t) auto
next
  case (Cons c s)
  then obtain d t' where t: "t = d # t'"
    using json_char_head [of c] by (cases t) auto
  from Cons.prems t have "read_char (json_char c @ concat (map json_char s) @ CHR 0x22 # r)
      = read_char (json_char d @ concat (map json_char t') @ CHR 0x22 # q)" by simp
  with Cons.IH t show ?case by (simp add: read_json_char)
qed

lemma json_quote_inject: "json_quote s @ r = json_quote t @ q \<Longrightarrow> s = t \<and> r = q"
  using json_chars_inject [of s r t q] by (simp add: json_quote_def)

subsection \<open>The canonical text\<close>

fun json_join :: "string list \<Rightarrow> string" where
  "json_join [] = []"
| "json_join [x] = x"
| "json_join (x # y # xs) = x @ '','' @ json_join (y # xs)"

text \<open>The text of a value whose objects list their entries in the order of the text.\<close>

fun json_text :: "json \<Rightarrow> string" where
  "json_text JNull = ''null''"
| "json_text (JBool b) = (if b then ''true'' else ''false'')"
| "json_text (JInt i) = py_str_int i"
| "json_text (JStr s) = json_quote s"
| "json_text (JList xs) = ''['' @ json_join (map json_text xs) @ '']''"
| "json_text (JObj es) = ''{'' @ json_join (map (\<lambda>(k, v). json_quote k @ '':'' @ json_text v) es) @ ''}''"

fun sort_json_keys :: "json \<Rightarrow> json" where
  "sort_json_keys (JList xs) = JList (map sort_json_keys xs)"
| "sort_json_keys (JObj es) = JObj (sort_key fst (map (\<lambda>(k, v). (k, sort_json_keys v)) es))"
| "sort_json_keys v = v"

definition json_dumps :: "json \<Rightarrow> string" where
  "json_dumps v = json_text (sort_json_keys v)"

definition is_digit :: "char \<Rightarrow> bool" where
  "is_digit c \<longleftrightarrow> (let n = (of_char c :: nat) in 48 \<le> n \<and> n \<le> 57)"

lemma nat_digits_is_digit: "c \<in> set (nat_digits n) \<Longrightarrow> is_digit c"
  using nat_digits_chars [of c n] by (simp add: is_digit_def Let_def)

text \<open>
  The text is a prefix code: it ends where the next delimiter begins. Numerals are delimited
  by what follows them.
\<close>

definition delimited :: "string \<Rightarrow> bool" where
  "delimited r \<longleftrightarrow> (case r of [] \<Rightarrow> True | c # _ \<Rightarrow> \<not> is_digit c)"

lemma delimited_simps [simp]:
  "delimited []" "delimited (CHR '','' # r)" "delimited (CHR '']'' # r)" "delimited (CHR ''}'' # r)"
  by (simp_all add: delimited_def is_digit_def)

lemma nat_digits_prefix:
  assumes "nat_digits m @ r = nat_digits n @ q" and "delimited r" and "delimited q"
  shows "m = n \<and> r = q"
proof -
  have split: "takeWhile is_digit (nat_digits k @ s) = nat_digits k" "dropWhile is_digit (nat_digits k @ s) = s"
    if "delimited s" for k s
    using that nat_digits_is_digit [of _ k]
    by (cases s; simp add: takeWhile_append2 dropWhile_append2 delimited_def)+
  from split [OF assms(2), of m] split [OF assms(3), of n] assms(1)
  have "nat_digits m = nat_digits n" and r: "r = q" by simp_all
  then have "m = n" by (metis digits_value_nat_digits of_nat_eq_iff)
  with r show ?thesis by simp
qed

lemma nat_digits_head: "is_digit (hd (nat_digits n))"
  using nat_digits_is_digit [of "hd (nat_digits n)" n] by simp

lemma nat_digits_not_minus: "nat_digits k @ s \<noteq> CHR ''-'' # t"
  using nat_digits_head [of k] by (cases "nat_digits k") (auto simp: is_digit_def)

lemma py_str_int_prefix:
  assumes "py_str_int i @ r = py_str_int j @ q" and "delimited r" and "delimited q"
  shows "i = j \<and> r = q"
proof (cases "i < 0 \<longleftrightarrow> j < 0")
  case True
  then show ?thesis
    using assms nat_digits_prefix [of "nat (- i)" r "nat (- j)" q] nat_digits_prefix [of "nat i" r "nat j" q]
    by (cases "i < 0") (simp_all add: py_str_int_def, linarith+)
next
  case False
  then show ?thesis
    using assms(1) nat_digits_not_minus nat_digits_not_minus [symmetric]
    by (cases "i < 0") (simp_all add: py_str_int_def)
qed

text \<open>The first character tells the kind of value.\<close>

fun json_kind :: "json \<Rightarrow> nat" where
  "json_kind JNull = 0"
| "json_kind (JBool b) = (if b then 1 else 2)"
| "json_kind (JInt i) = 3"
| "json_kind (JStr s) = 4"
| "json_kind (JList xs) = 5"
| "json_kind (JObj es) = 6"

definition kind_of_char :: "char \<Rightarrow> nat" where
  "kind_of_char c =
     (if c = CHR ''n'' then 0 else if c = CHR ''t'' then 1 else if c = CHR ''f'' then 2
      else if c = CHR 0x22 then 4 else if c = CHR ''['' then 5 else if c = CHR ''{'' then 6
      else if c = CHR '']'' then 7 else 3)"

lemma json_text_kind: "json_text v \<noteq> [] \<and> kind_of_char (hd (json_text v)) = json_kind v"
proof (cases v)
  case (JInt i)
  have "kind_of_char (hd (nat_digits n)) = 3" for n
    using nat_digits_head [of n] by (auto simp: kind_of_char_def is_digit_def)
  moreover have "kind_of_char (CHR ''-'') = 3" by (simp add: kind_of_char_def)
  ultimately show ?thesis using JInt by (simp add: py_str_int_def)
qed (auto simp: kind_of_char_def json_quote_def)

lemma json_kind_not_close: "json_kind v \<noteq> kind_of_char (CHR '']'')"
  by (cases v) (auto simp: kind_of_char_def)

lemma json_text_same_kind:
  assumes "json_text v @ r = json_text w @ q"
  shows "json_kind v = json_kind w"
  using assms json_text_kind [of v] json_text_kind [of w] by (metis hd_append2)

text \<open>A comma-separated sequence with a closing delimiter, for entries that are a prefix code.\<close>

definition prefix_coded :: "('a \<Rightarrow> string) \<Rightarrow> 'a set \<Rightarrow> char \<Rightarrow> bool" where
  "prefix_coded f A close \<longleftrightarrow>
     (\<forall>x\<in>A. \<forall>y r q. delimited r \<longrightarrow> delimited q \<longrightarrow> f x @ r = f y @ q \<longrightarrow> x = y \<and> r = q)
     \<and> (\<forall>x. f x \<noteq> [] \<and> hd (f x) \<noteq> close)"

lemma json_join_Cons: "json_join (x # xs) = x @ (case xs of [] \<Rightarrow> [] | _ # _ \<Rightarrow> '','' @ json_join xs)"
  by (cases xs) auto

lemma json_join_head:
  assumes "prefix_coded f A close"
  shows "json_join (f x # xs) @ r \<noteq> close # q"
  using assms by (cases "f x") (auto simp: json_join_Cons prefix_coded_def, metis list.sel(1))

lemma json_join_inject:
  assumes "prefix_coded f (set xs) close" and "close \<in> {CHR '']'', CHR ''}''}"
    and "json_join (map f xs) @ close # r = json_join (map f ys) @ close # q"
  shows "xs = ys \<and> r = q"
  using assms(1,3)
proof (induction xs arbitrary: ys)
  case Nil
  then show ?case
    using json_join_head [OF Nil(1)] by (cases ys) (simp_all, metis)
next
  case (Cons x xs)
  let ?tail = "\<lambda>zs s. (case map f zs of [] \<Rightarrow> [] | _ # _ \<Rightarrow> '','' @ json_join (map f zs)) @ close # s"
  obtain y ys' where ys: "ys = y # ys'"
    using Cons.prems(2) json_join_head [OF Cons.prems(1)] by (cases ys) auto
  have del: "delimited (?tail zs s)" for zs s
    using assms(2) by (auto split: list.split)
  from Cons.prems(2) ys have "f x @ ?tail xs r = f y @ ?tail ys' q"
    by (simp add: json_join_Cons)
  with Cons.prems(1) del have xy: "x = y" and tails: "?tail xs r = ?tail ys' q"
    unfolding prefix_coded_def by (metis list.set_intros(1))+
  have coded: "prefix_coded f (set xs) close"
    using Cons.prems(1) by (simp add: prefix_coded_def)
  from tails assms(2) have "json_join (map f xs) @ close # r = json_join (map f ys') @ close # q"
    by (auto split: list.splits)
  with Cons.IH [OF coded] xy ys show ?case by blast
qed

lemma json_text_prefix:
  "delimited r \<Longrightarrow> delimited q \<Longrightarrow> json_text v @ r = json_text w @ q \<Longrightarrow> v = w \<and> r = q"
proof (induction v arbitrary: w r q)
  case JNull
  then show ?case using json_text_same_kind [OF JNull(3)] by (cases w) (auto split: if_splits)
next
  case (JBool b)
  then show ?case using json_text_same_kind [OF JBool(3)] by (cases w) (auto split: if_splits)
next
  case (JInt i)
  then show ?case
    using json_text_same_kind [OF JInt(3)] py_str_int_prefix [of i r _ q] by (cases w) (auto split: if_splits)
next
  case (JStr s)
  then show ?case
    using json_text_same_kind [OF JStr(3)] json_quote_inject [of s r _ q] by (cases w) (auto split: if_splits)
next
  case (JList xs)
  from json_text_same_kind [OF JList(4)] obtain ys where w: "w = JList ys"
    by (cases w) (auto split: if_splits)
  have head: "json_text x \<noteq> [] \<and> hd (json_text x) \<noteq> CHR '']''" for x
    using json_text_kind [of x] json_kind_not_close [of x] by metis
  have "prefix_coded json_text (set xs) (CHR '']'')"
    unfolding prefix_coded_def using JList(1) head by blast
  from json_join_inject [OF this, of r ys q] JList(4) w show ?case by simp
next
  case (JObj es)
  from json_text_same_kind [OF JObj(4)] obtain fs where w: "w = JObj fs"
    by (cases w) (auto split: if_splits)
  let ?f = "\<lambda>(k, v). json_quote k @ '':'' @ json_text v"
  have head: "?f e \<noteq> [] \<and> hd (?f e) \<noteq> CHR ''}''" for e
    by (cases e) (simp add: json_quote_def)
  have entry: "e = e' \<and> r = q"
    if "e \<in> set es" "delimited r" "delimited q" "?f e @ r = ?f e' @ q" for e e' r q
  proof -
    obtain k v k' v' where e: "e = (k, v)" "e' = (k', v')" by (cases e; cases e')
    with that(4) json_quote_inject [of k "'':'' @ json_text v @ r" k' "'':'' @ json_text v' @ q"]
    have k: "k = k'" and rest: "json_text v @ r = json_text v' @ q" by simp_all
    from that(1) e have "v \<in> Basic_BNFs.snds (k, v)" "(k, v) \<in> set es" by simp_all
    from JObj(1) [OF this(2,1) that(2,3) rest] k e show ?thesis by simp
  qed
  have "prefix_coded ?f (set es) (CHR ''}'')"
    unfolding prefix_coded_def using entry head by blast
  from json_join_inject [OF this, of r fs q] JObj(4) w show ?case by simp
qed

lemma json_dumps_inject: "json_dumps v = json_dumps w \<Longrightarrow> sort_json_keys v = sort_json_keys w"
  using json_text_prefix [of "[]" "[]"] by (simp add: json_dumps_def)

end
