(* ===== verification/Chase_Guard.thy ===== *)
theory Chase_Guard
  imports Sizing_Safety Json_Text
begin

text \<open>
  The sizing-evidence readers and the BUY chase guard,
  \<open>app/extensions/kasset/automation/chase_guard.py\<close>.

  Evidence is JSON as it comes back from the database. Numbers in it are integers or strings,
  the forms the writers of this evidence use; binary floating-point numbers are not modelled.
  \<open>Decimal(text)\<close> is the decimal constructor's grammar for ASCII text.
\<close>

subsection \<open>Decimal text\<close>

text \<open>An optional sign and the rest.\<close>

fun split_sign :: "string \<Rightarrow> int \<times> string" where
  "split_sign [] = (1, [])"
| "split_sign (c # s) =
     (if c = CHR ''-'' then (- 1, s) else if c = CHR ''+'' then (1, s) else (1, c # s))"

text \<open>The exponent part: nothing, or \<open>E\<close> with an optional sign and digits.\<close>

definition parse_exponent :: "string \<Rightarrow> int option" where
  "parse_exponent s =
     (case s of
        [] \<Rightarrow> Some 0
      | c # rest \<Rightarrow>
          if c = CHR ''E'' then
            (case split_sign rest of (sign, ds) \<Rightarrow>
               if ds \<noteq> [] \<and> list_all is_digit ds then Some (sign * digits_value ds) else None)
          else None)"

text \<open>
  An unsigned numeral: digits with an optional point and at least one digit, then the exponent
  part. The value is the digits as an integer times the power of ten.
\<close>

definition parse_unsigned :: "string \<Rightarrow> rat option" where
  "parse_unsigned s =
     (let whole = takeWhile is_digit s; rest = dropWhile is_digit s;
          (frac, tail) = (case rest of
             c # r \<Rightarrow> if c = CHR ''.'' then (takeWhile is_digit r, dropWhile is_digit r) else ([], rest)
           | [] \<Rightarrow> ([], []))
      in if whole @ frac = [] then None
         else map_option (\<lambda>e. of_int (digits_value (whole @ frac)) * pow10 (e - int (length frac)))
                (parse_exponent tail))"

definition parse_decimal :: "string \<Rightarrow> decimal option" where
  "parse_decimal text =
     (let s = py_upper (filter (\<lambda>c. c \<noteq> CHR ''_'') (py_strip text))
      in case split_sign s of (sign, body) \<Rightarrow>
           if body = ''INF'' \<or> body = ''INFINITY'' then Some (DInfinity (sign < 0))
           else if take 3 body = ''NAN'' \<and> list_all is_digit (drop 3 body) then Some DNaN
           else if take 4 body = ''SNAN'' \<and> list_all is_digit (drop 4 body) then Some DNaN
           else map_option (\<lambda>q. DFinite (of_int sign * q)) (parse_unsigned body))"

text \<open>
  \<open>_decimal\<close>: \<open>None\<close> and booleans give \<open>None\<close>; anything else is parsed from its \<open>str\<close>. The
  text of a list or an object is never a numeral.
\<close>

definition decimal_of_json :: "json \<Rightarrow> rat option" where
  "decimal_of_json value =
     (case value of
        JNull \<Rightarrow> None
      | JBool _ \<Rightarrow> None
      | JInt i \<Rightarrow> Option.bind (parse_decimal (py_str_int i)) finite_value
      | JStr s \<Rightarrow> Option.bind (parse_decimal (py_strip s)) finite_value
      | JList _ \<Rightarrow> None
      | JObj _ \<Rightarrow> None)"

subsection \<open>Reading the sizing evidence\<close>

fun find_sizing_block :: "json list \<Rightarrow> json_object \<times> json_object" where
  "find_sizing_block [] = ([], [])"
| "find_sizing_block (JObj item # items) =
     (case obj_get ''portfolio'' item of
        JObj portfolio \<Rightarrow>
          (case obj_get ''positionSizing'' portfolio of
             JObj sizing \<Rightarrow> (item, sizing)
           | _ \<Rightarrow> find_sizing_block items)
      | _ \<Rightarrow> find_sizing_block items)"
| "find_sizing_block (_ # items) = find_sizing_block items"

definition sizing_block :: "json \<Rightarrow> json_object \<times> json_object" where
  "sizing_block evidence = (case evidence of JList items \<Rightarrow> find_sizing_block items | _ \<Rightarrow> ([], []))"

definition positive_decimal :: "json \<Rightarrow> rat option" where
  "positive_decimal raw = (case decimal_of_json raw of Some q \<Rightarrow> if 0 < q then Some q else None | None \<Rightarrow> None)"

definition strategy_stop_from_evidence :: "json \<Rightarrow> rat option" where
  "strategy_stop_from_evidence evidence =
     (case sizing_block evidence of (item, sizing) \<Rightarrow>
        (case positive_decimal (obj_get ''strategyStop'' sizing) of
           Some stop \<Rightarrow> Some stop
         | None \<Rightarrow> positive_decimal (obj_get ''stopPrice'' item)))"

record entry_sizing =
  es_entry_price :: rat
  es_strategy_stop :: rat
  es_risk_budget :: rat
  es_lot_size :: rat

definition entry_sizing_from_evidence :: "json \<Rightarrow> entry_sizing option" where
  "entry_sizing_from_evidence evidence =
     (case sizing_block evidence of (item, sizing) \<Rightarrow>
        let entry = (case decimal_of_json (obj_get ''entryPrice'' sizing) of
                       Some q \<Rightarrow> Some q | None \<Rightarrow> decimal_of_json (obj_get ''entryPrice'' item))
        in case (entry, strategy_stop_from_evidence evidence,
                 decimal_of_json (obj_get ''riskBudget'' sizing), decimal_of_json (obj_get ''lotSize'' sizing)) of
             (Some entry, Some stop, Some budget, Some lot) \<Rightarrow>
               if entry \<le> 0 \<or> entry \<le> stop \<or> budget \<le> 0 \<or> lot \<le> 0 then None
               else Some \<lparr>es_entry_price = entry, es_strategy_stop = stop,
                          es_risk_budget = budget, es_lot_size = lot\<rparr>
           | _ \<Rightarrow> None)"

subsection \<open>The guard\<close>

datatype chase_reason = CHASE_LIMIT_EXCEEDED | CHASE_GUARD_UNAVAILABLE | BELOW_STRATEGY_STOP

record chase_guard_decision =
  cg_allowed :: bool
  cg_reason :: "chase_reason option"
  cg_quantity :: "rat option"

definition chase_limit_risk_fraction :: rat where "chase_limit_risk_fraction = 5 / 10"

definition blocked :: "chase_reason \<Rightarrow> chase_guard_decision" where
  "blocked why = \<lparr>cg_allowed = False, cg_reason = Some why, cg_quantity = None\<rparr>"

definition evaluate_chase_guard ::
    "entry_sizing option \<Rightarrow> decimal option \<Rightarrow> rat \<Rightarrow> chase_guard_decision result" where
  "evaluate_chase_guard sizing executable_price quantity =
     (case (sizing, Option.bind executable_price finite_value) of
        (Some sizing, Some price) \<Rightarrow>
          if price \<le> 0 then Inr (blocked CHASE_GUARD_UNAVAILABLE)
          else
            bindr (dsub (es_entry_price sizing) (es_strategy_stop sizing)) (\<lambda>planned_risk.
            bindr (dsub price (es_entry_price sizing)) (\<lambda>chase.
            bindr (dmul chase_limit_risk_fraction planned_risk) (\<lambda>limit.
            if limit < chase then Inr (blocked CHASE_LIMIT_EXCEEDED)
            else
              bindr (dsub price (es_strategy_stop sizing)) (\<lambda>risk_per_unit.
              if risk_per_unit \<le> 0 then Inr (blocked BELOW_STRATEGY_STOP)
              else
                bindr (ddiv (es_risk_budget sizing) risk_per_unit) (\<lambda>units.
                bindr (ddiv units (es_lot_size sizing)) (\<lambda>lots.
                bindr (dmul (of_int (round_down lots)) (es_lot_size sizing)) (\<lambda>affordable.
                let capped = min quantity affordable
                in if capped \<le> 0 then Inr (blocked CHASE_LIMIT_EXCEEDED)
                   else Inr \<lparr>cg_allowed = True, cg_reason = None, cg_quantity = Some capped\<rparr>)))))))
      | _ \<Rightarrow> Inr (blocked CHASE_GUARD_UNAVAILABLE))"

subsection \<open>What an allowed BUY satisfies\<close>

lemma entry_sizing_from_evidence_wf:
  assumes "entry_sizing_from_evidence evidence = Some s"
  shows "0 < es_strategy_stop s \<and> es_strategy_stop s < es_entry_price s \<and> 0 < es_risk_budget s \<and> 0 < es_lot_size s"
proof -
  have "0 < stop" if "strategy_stop_from_evidence evidence = Some stop" for stop
    using that by (auto simp: strategy_stop_from_evidence_def positive_decimal_def
        split: prod.splits option.splits if_splits)
  with assms show ?thesis
    by (auto simp: entry_sizing_from_evidence_def Let_def not_le split: prod.splits option.splits if_splits)
qed

lemma chase_guard_allowed:
  assumes "evaluate_chase_guard sizing price quantity = Inr d" and "cg_allowed d"
  obtains s p risk lots affordable q where "sizing = Some s" "price = Some (DFinite p)" "0 < p"
    "dec_fix (p - es_entry_price s)
       \<le> dec_fix (chase_limit_risk_fraction * dec_fix (es_entry_price s - es_strategy_stop s))"
    "risk = dec_fix (p - es_strategy_stop s)" "0 < risk"
    "lots = dec_fix (dec_fix (es_risk_budget s / risk) / es_lot_size s)"
    "affordable = dec_fix (of_int (round_down lots) * es_lot_size s)"
    "q = min quantity affordable" "0 < q" "cg_quantity d = Some q" "cg_reason d = None"
proof -
  obtain s p where sp: "sizing = Some s" "price = Some (DFinite p)"
    using assms by (cases sizing; cases "Option.bind price finite_value")
      (auto simp: evaluate_chase_guard_def blocked_def bind_eq_Some_conv)
  then have "0 < p" using assms by (auto simp: evaluate_chase_guard_def blocked_def not_le split: if_splits)
  note ev = assms(1) [unfolded evaluate_chase_guard_def sp bind.simps finite_value.simps option.case prod.case]
  show thesis
    using ev assms(2) \<open>0 < p\<close>
    by (auto simp: blocked_def Let_def not_le not_less split: if_splits elim!: bindrE
        dest!: dec_op_Inr intro!: that [OF sp])
qed

text \<open>
  C24: The chase guard only lets a BUY through at its planned risk. Whenever it allows a BUY, the
  sizing facts and a positive finite price were available; the quantity is positive and not
  above the requested one; the price is above the strategy stop and at most half the planned
  risk above the sized entry; and, for a lot that is a power of ten not above one, the loss
  from that price to the stop is within the risk budget, up to one rounding. The differences
  of the prices must fit the 28 digits of the context.
\<close>

theorem chase_guard_keeps_risk:
  assumes "evaluate_chase_guard (Some s) (Some (DFinite p)) quantity = Inr d" and "cg_allowed d"
    and "representable (es_entry_price s - es_strategy_stop s)" and "representable (p - es_entry_price s)"
    and "representable (p - es_strategy_stop s)"
    and "es_lot_size s = pow10 k" and "emin < k" and "k \<le> 0"
  shows "\<exists>q. cg_quantity d = Some q \<and> cg_reason d = None \<and> 0 < q \<and> q \<le> quantity \<and> es_strategy_stop s < p
    \<and> p - es_entry_price s \<le> dec_fix ((es_entry_price s - es_strategy_stop s) / 2)
    \<and> q * (p - es_strategy_stop s) \<le> (1 + unit_roundoff) * es_risk_budget s"
  using assms(1,2)
proof (rule chase_guard_allowed)
  fix s' p' risk lots affordable q
  assume eq: "Some s = Some s'" "Some (DFinite p) = Some (DFinite p')"
    and chase: "dec_fix (p' - es_entry_price s')
       \<le> dec_fix (chase_limit_risk_fraction * dec_fix (es_entry_price s' - es_strategy_stop s'))"
    and risk: "risk = dec_fix (p' - es_strategy_stop s')" "0 < risk"
    and lots: "lots = dec_fix (dec_fix (es_risk_budget s' / risk) / es_lot_size s')"
    and aff: "affordable = dec_fix (of_int (round_down lots) * es_lot_size s')"
    and q: "q = min quantity affordable" "0 < q" "cg_quantity d = Some q" "cg_reason d = None"
  from eq have [simp]: "s' = s" "p' = p" by simp_all
  let ?units = "dec_fix (es_risk_budget s / (p - es_strategy_stop s))"
  have r: "risk = p - es_strategy_stop s" using risk(1) assms(5) by (simp add: representable_fix)
  have k: "etiny \<le> k" using assms(7) by (simp add: etiny_def emin_def)
  have a: "0 < affordable" "q \<le> affordable" using q by simp_all
  have rep: "representable ?units" by (rule dec_fix_representable)
  have lots': "lots = ?units / pow10 k"
    using lots r assms(6) representable_fix [OF representable_shift [OF rep assms(8)]] by simp
  have u: "0 < ?units"
  proof (rule ccontr)
    assume "\<not> 0 < ?units"
    then have "lots \<le> 0" using lots' by (simp add: divide_nonpos_pos)
    then have "(of_int (round_down lots) :: rat) \<le> 0" by (rule trunc.nonpos)
    then have "affordable \<le> 0" using aff assms(6) by (auto intro!: dec.nonpos simp: mult_nonpos_nonneg)
    with a(1) show False by simp
  qed
  have rd: "round_down lots = \<lfloor>?units / pow10 k\<rfloor>" using u by (simp add: lots' round_down_def)
  have aff': "affordable = of_int \<lfloor>?units / pow10 k\<rfloor> * pow10 k"
    using representable_fix [OF floor_representable [OF rep less_imp_le [OF u] k assms(8)]] aff assms(6) rd by simp
  have "0 < \<lfloor>?units / pow10 k\<rfloor>"
    using a(1) aff' zero_less_mult_pos2 [OF _ pow10_pos] by (metis of_int_0_less_iff)
  then have "1 * pow10 k \<le> of_int \<lfloor>?units / pow10 k\<rfloor> * pow10 k" by (intro mult_right_mono) simp_all
  with aff' floor_lot_le(1) [OF less_imp_le [OF u], of k]
  have le: "pow10 k \<le> ?units" "affordable \<le> ?units" by simp_all
  from dec_fix_upper [OF le(1) assms(7)] a(2) le(2)
  have "q \<le> (1 + unit_roundoff) * (es_risk_budget s / (p - es_strategy_stop s))" by linarith
  then have money: "q * (p - es_strategy_stop s) \<le> (1 + unit_roundoff) * es_risk_budget s"
    using risk(2) r by (simp add: le_divide_eq)
  have "p - es_entry_price s \<le> dec_fix ((es_entry_price s - es_strategy_stop s) / 2)"
    using chase assms(3,4) by (simp add: representable_fix chase_limit_risk_fraction_def)
  with money q risk(2) r show ?thesis by simp
qed

text \<open>
  The chase guard fails closed: without sizing facts, or without a positive finite price, it
  blocks with the code for an unavailable guard; and a decision carries a quantity exactly when
  it allows the BUY, and a reason exactly when it blocks it.
\<close>

theorem chase_guard_fails_closed:
  assumes "evaluate_chase_guard sizing price quantity = Inr d"
  shows "(sizing = None \<or> \<not> (\<exists>p > 0. price = Some (DFinite p)) \<longrightarrow> d = blocked CHASE_GUARD_UNAVAILABLE)
    \<and> (cg_allowed d \<longleftrightarrow> cg_reason d = None) \<and> (cg_allowed d \<longleftrightarrow> cg_quantity d \<noteq> None)"
proof -
  show ?thesis
  proof (cases "\<exists>s p. sizing = Some s \<and> price = Some (DFinite p) \<and> 0 < p")
    case True
    then obtain s p where sp: "sizing = Some s" "price = Some (DFinite p)" "0 < p" by blast
    with assms have "(cg_allowed d \<longleftrightarrow> cg_reason d = None) \<and> (cg_allowed d \<longleftrightarrow> cg_quantity d \<noteq> None)"
      unfolding evaluate_chase_guard_def sp bind.simps finite_value.simps option.case prod.case
      by (auto simp: Let_def blocked_def split: if_splits elim!: bindrE)
    with sp show ?thesis by auto
  next
    case False
    then have "d = blocked CHASE_GUARD_UNAVAILABLE"
      using assms by (cases sizing; cases "Option.bind price finite_value")
        (auto simp: evaluate_chase_guard_def bind_eq_Some_conv not_less)
    then show ?thesis by (simp add: blocked_def)
  qed
qed

subsection \<open>Witnesses\<close>

definition demo_sizing :: entry_sizing where
  "demo_sizing = \<lparr>es_entry_price = 70000, es_strategy_stop = 69000, es_risk_budget = 70000, es_lot_size = 1\<rparr>"

text \<open>A fill 400 above the sized entry shrinks 70 shares to 50.\<close>

lemma demo_chase:
  "evaluate_chase_guard (Some demo_sizing) (Some (DFinite 70400)) 70
     = Inr \<lparr>cg_allowed = True, cg_reason = None, cg_quantity = Some 50\<rparr>"
  by (simp add: evaluate_chase_guard_def demo_sizing_def exact_arithmetic chase_limit_risk_fraction_def
      round_down_def)

theorem chase_guard_keeps_risk_witness:
  "\<exists>q. evaluate_chase_guard (Some demo_sizing) (Some (DFinite 70400)) 70
       = Inr \<lparr>cg_allowed = True, cg_reason = None, cg_quantity = Some q\<rparr>
     \<and> q * 1400 \<le> (1 + unit_roundoff) * 70000"
proof -
  have "representable (es_entry_price demo_sizing - es_strategy_stop demo_sizing)"
      "representable (70400 - es_entry_price demo_sizing)"
      "representable (70400 - es_strategy_stop demo_sizing)"
    using representable_int [of 1000] representable_int [of 400] representable_int [of 1400]
    by (simp_all add: demo_sizing_def)
  from chase_guard_keeps_risk [OF demo_chase _ this, of 0] demo_chase show ?thesis
    by (simp add: demo_sizing_def emin_def)
qed

theorem chase_guard_fails_closed_witness:
  "evaluate_chase_guard None (Some (DFinite 70400)) 70 = Inr (blocked CHASE_GUARD_UNAVAILABLE)"
proof -
  have e: "evaluate_chase_guard None (Some (DFinite 70400)) 70 = Inr (blocked CHASE_GUARD_UNAVAILABLE)"
    by (simp add: evaluate_chase_guard_def)
  from chase_guard_fails_closed [OF e] e show ?thesis by simp
qed

end
