(* ===== verification/Sizing_Evidence.thy ===== *)
theory Sizing_Evidence
  imports Chase_Guard
begin

text \<open>
  The evidence a sizing result is stored as (\<open>as_evidence\<close> of \<open>position_sizing.py\<close>), and the
  round trip to the facts the chase guard reads back.

  A Decimal carries an exponent besides its value, which decides how many zeros its plain text
  shows. The model keeps values only, so the exponent of each printed value is an argument
  \<open>ex\<close>; \<open>carries ex q\<close> says that it is an exponent the value can have.
\<close>

subsection \<open>Plain text of a Decimal\<close>

text \<open>\<open>format(value, "f")\<close> for the coefficient and exponent of a finite Decimal.\<close>

definition plain_text :: "int \<Rightarrow> int \<Rightarrow> string" where
  "plain_text coefficient exponent =
     (let n = \<bar>coefficient\<bar>; sign = (if coefficient < 0 then ''-'' else [])
      in if 0 \<le> exponent
         then sign @ nat_digits (nat (n * 10 ^ nat exponent))
         else let d = nat (- exponent)
           in sign @ nat_digits (nat (n div 10 ^ d)) @ ''.'' @ pad_digits d (n mod 10 ^ d))"

definition decimal_text :: "(rat \<Rightarrow> int) \<Rightarrow> rat \<Rightarrow> string" where
  "decimal_text ex q = plain_text (round_down (q / pow10 (ex q))) (ex q)"

definition carries :: "(rat \<Rightarrow> int) \<Rightarrow> rat \<Rightarrow> bool" where
  "carries ex q \<longleftrightarrow> (\<exists>n. q = of_int n * pow10 (ex q))"

fun dec_text :: "(rat \<Rightarrow> int) \<Rightarrow> decimal \<Rightarrow> string" where
  "dec_text ex (DFinite q) = decimal_text ex q"
| "dec_text ex (DInfinity negative) = (if negative then ''-Infinity'' else ''Infinity'')"
| "dec_text ex DNaN = ''NaN''"

fun zero_code_value :: "zero_code \<Rightarrow> string" where
  "zero_code_value UNSUPPORTED_ACTION = ''UNSUPPORTED_ACTION''"
| "zero_code_value UNSUPPORTED_MARKET = ''UNSUPPORTED_MARKET''"
| "zero_code_value INVALID_PRICE = ''INVALID_PRICE''"
| "zero_code_value INVALID_PRICE_TIMESTAMP = ''INVALID_PRICE_TIMESTAMP''"
| "zero_code_value FUTURE_PRICE = ''FUTURE_PRICE''"
| "zero_code_value STALE_PRICE = ''STALE_PRICE''"
| "zero_code_value MISSING_STOP = ''MISSING_STOP''"
| "zero_code_value INVALID_STOP = ''INVALID_STOP''"
| "zero_code_value INVERTED_STOP = ''INVERTED_STOP''"
| "zero_code_value MISSING_ATR = ''MISSING_ATR''"
| "zero_code_value NONPOSITIVE_ATR = ''NONPOSITIVE_ATR''"
| "zero_code_value INVALID_REGIME = ''INVALID_REGIME''"
| "zero_code_value REGIME_BLOCKED = ''REGIME_BLOCKED''"
| "zero_code_value INVALID_RISK_POLICY = ''INVALID_RISK_POLICY''"
| "zero_code_value ZERO_RISK_BUDGET = ''ZERO_RISK_BUDGET''"
| "zero_code_value INVALID_BUDGET = ''INVALID_BUDGET''"
| "zero_code_value ZERO_BUDGET = ''ZERO_BUDGET''"
| "zero_code_value INVALID_PORTFOLIO_STATE = ''INVALID_PORTFOLIO_STATE''"
| "zero_code_value ZERO_SYMBOL_ALLOCATION = ''ZERO_SYMBOL_ALLOCATION''"
| "zero_code_value MISSING_LIQUIDITY = ''MISSING_LIQUIDITY''"
| "zero_code_value INVALID_LIQUIDITY = ''INVALID_LIQUIDITY''"
| "zero_code_value NONFINITE_QUANTITY = ''NONFINITE_QUANTITY''"
| "zero_code_value INVALID_SELL_QUANTITY = ''INVALID_SELL_QUANTITY''"
| "zero_code_value ZERO_HOLDING = ''ZERO_HOLDING''"
| "zero_code_value BELOW_MARKET_LOT = ''BELOW_MARKET_LOT''"

fun cap_code_value :: "cap_code \<Rightarrow> string" where
  "cap_code_value RISK_BUDGET = ''RISK_BUDGET''"
| "cap_code_value SYMBOL_ALLOCATION = ''SYMBOL_ALLOCATION''"
| "cap_code_value OWNER_BUDGET = ''OWNER_BUDGET''"
| "cap_code_value AVERAGE_VOLUME = ''AVERAGE_VOLUME''"
| "cap_code_value AVERAGE_TURNOVER = ''AVERAGE_TURNOVER''"
| "cap_code_value PAPER_HOLDING = ''PAPER_HOLDING''"
| "cap_code_value STRATEGY_SELL = ''STRATEGY_SELL''"

definition optional_text :: "(rat \<Rightarrow> int) \<Rightarrow> decimal option \<Rightarrow> json" where
  "optional_text ex v = (case v of None \<Rightarrow> JNull | Some d \<Rightarrow> JStr (dec_text ex d))"

definition reason_evidence :: "sizing_reason \<Rightarrow> json" where
  "reason_evidence r =
     JObj [(''code'', JStr (zero_code_value (rn_code r))), (''field'', JStr (rn_field r)),
           (''detail'', JStr (rn_detail r))]"

definition cap_evidence :: "(rat \<Rightarrow> int) \<Rightarrow> size_cap \<Rightarrow> json" where
  "cap_evidence ex cap =
     JObj [(''code'', JStr (cap_code_value (cap_code cap))),
           (''quantity'', JStr (decimal_text ex (cap_quantity cap)))]"

definition as_evidence :: "(rat \<Rightarrow> int) \<Rightarrow> sizing_result \<Rightarrow> json" where
  "as_evidence ex r =
     (let text = \<lambda>q. JStr (decimal_text ex q)
      in JObj [(''action'', JStr (sr_action r)), (''market'', JStr (sr_market r)),
               (''quantity'', text (sr_quantity r)),
               (''unroundedQuantity'', text (sr_unrounded_quantity r)),
               (''lotSize'', text (sr_lot_size r)),
               (''entryPrice'', optional_text ex (sr_entry_price r)),
               (''strategyStop'', optional_text ex (sr_strategy_stop r)),
               (''strategyAtr'', optional_text ex (sr_strategy_atr r)),
               (''riskBudget'', text (sr_risk_budget r)),
               (''riskPerUnit'', text (sr_risk_per_unit r)),
               (''riskPerTradeRate'', text (sr_risk_per_trade_rate r)),
               (''regime'', (case sr_regime r of None \<Rightarrow> JNull | Some s \<Rightarrow> JStr s)),
               (''regimeMultiplier'', text (sr_regime_multiplier r)),
               (''accountStateMultiplier'', text (sr_account_state_multiplier r)),
               (''caps'', JList (map (cap_evidence ex) (sr_caps r))),
               (''limitingCaps'', JList (map (JStr \<circ> cap_code_value) (sr_limiting_caps r))),
               (''zeroReasons'', JList (map reason_evidence (sr_zero_reasons r)))])"

subsection \<open>Parsing what was printed\<close>

lemma is_digit_chars: "c \<in> set (nat_digits n) \<Longrightarrow> is_digit c" "c \<in> set (pad_digits w i) \<Longrightarrow> is_digit c"
  using nat_digits_chars [of c n] pad_digits_chars [of c w i] by (simp_all add: is_digit_def Let_def)

lemma digit_inert: "is_digit c \<Longrightarrow> \<not> is_space c \<and> upper_char c = c \<and> c \<noteq> CHR ''_'' \<and> c \<noteq> CHR ''.''
    \<and> c \<noteq> CHR ''-'' \<and> c \<noteq> CHR ''+'' \<and> c \<noteq> CHR ''I'' \<and> c \<noteq> CHR ''N'' \<and> c \<noteq> CHR ''S''"
  by (auto simp: is_digit_def is_space_def upper_char_def Let_def)

text \<open>Text made of digits, a point and a sign is left alone by the normalisation.\<close>

definition numeral_char :: "char \<Rightarrow> bool" where
  "numeral_char c \<longleftrightarrow> is_digit c \<or> c = CHR ''.'' \<or> c = CHR ''-''"

lemma numeral_char_inert: "numeral_char c \<Longrightarrow> \<not> is_space c \<and> upper_char c = c \<and> c \<noteq> CHR ''_''"
  by (auto simp: numeral_char_def dest: digit_inert) (auto simp: is_space_def upper_char_def)

lemma strip_inert:
  assumes "\<forall>c \<in> set s. \<not> is_space c"
  shows "py_strip s = s"
proof -
  have "dropWhile is_space xs = xs" if "\<forall>c \<in> set xs. \<not> is_space c" for xs
    using that by (cases xs) auto
  from this [of s] this [of "rev s"] assms show ?thesis by (simp add: py_strip_def)
qed

lemma normalise_numeral:
  assumes "\<forall>c \<in> set s. numeral_char c"
  shows "py_upper (filter (\<lambda>c. c \<noteq> CHR ''_'') (py_strip s)) = s" and "py_strip s = s"
proof -
  have inert: "\<forall>c \<in> set s. \<not> is_space c \<and> upper_char c = c \<and> c \<noteq> CHR ''_''"
    using assms numeral_char_inert by blast
  then show st: "py_strip s = s" by (intro strip_inert) auto
  have "filter (\<lambda>c. c \<noteq> CHR ''_'') s = s" using inert by (auto simp: filter_id_conv)
  moreover have "py_upper s = s" using inert by (auto simp: py_upper_def intro: map_idI)
  ultimately show "py_upper (filter (\<lambda>c. c \<noteq> CHR ''_'') (py_strip s)) = s" by (simp add: st)
qed

lemma digits_value_append: "digits_value (x @ y) = digits_value x * 10 ^ length y + digits_value y"
proof (induction y rule: rev_induct)
  case (snoc c y)
  have "digits_value (x @ y @ [c]) = digits_value ((x @ y) @ [c])" by simp
  then show ?case using snoc by (simp only: digits_value_snoc) (simp add: algebra_simps)
qed (simp add: digits_value_def)

lemma span_digits_stop:
  assumes "\<forall>c \<in> set s. is_digit c" and "\<not> is_digit d"
  shows "takeWhile is_digit (s @ d # r) = s" and "dropWhile is_digit (s @ d # r) = d # r"
  using assms by (induction s) auto

lemma span_digits_all:
  assumes "\<forall>c \<in> set s. is_digit c"
  shows "takeWhile is_digit s = s" and "dropWhile is_digit s = []"
  using assms by (induction s) auto

lemma parse_unsigned_point:
  assumes "\<forall>c \<in> set w. is_digit c" and "\<forall>c \<in> set f. is_digit c" and "w \<noteq> []"
  shows "parse_unsigned (w @ ''.'' @ f) = Some (of_int (digits_value (w @ f)) * pow10 (- int (length f)))"
proof -
  have d: "\<not> is_digit CHR ''.''" by (simp add: is_digit_def)
  have a: "w @ ''.'' @ f = w @ CHR ''.'' # f" by simp
  show ?thesis
    unfolding a parse_unsigned_def Let_def span_digits_stop [OF assms(1) d] list.case
    by (simp only: refl if_True prod.case span_digits_all [OF assms(2)])
      (simp add: assms(3) parse_exponent_def)
qed

lemma parse_unsigned_whole:
  assumes "\<forall>c \<in> set w. is_digit c" and "w \<noteq> []"
  shows "parse_unsigned w = Some (of_int (digits_value w))"
  unfolding parse_unsigned_def Let_def span_digits_all [OF assms(1)] list.case
  by (simp add: assms(2) parse_exponent_def)

text \<open>The unsigned text of a coefficient and an exponent, and its value.\<close>

definition unsigned_text :: "int \<Rightarrow> int \<Rightarrow> string" where
  "unsigned_text n e =
     (if 0 \<le> e then nat_digits (nat (n * 10 ^ nat e))
      else nat_digits (nat (n div 10 ^ nat (- e))) @ ''.'' @ pad_digits (nat (- e)) (n mod 10 ^ nat (- e)))"

lemma unsigned_text_head:
  obtains c s where "unsigned_text n e = c # s" "is_digit c" "\<forall>c \<in> set (unsigned_text n e). numeral_char c"
proof -
  have all: "\<forall>c \<in> set (unsigned_text n e). numeral_char c"
    using is_digit_chars by (auto simp: unsigned_text_def numeral_char_def)
  obtain m r where m: "unsigned_text n e = nat_digits m @ r"
    unfolding unsigned_text_def by (cases "0 \<le> e") (metis append_Nil2, metis)
  obtain c s where cs: "nat_digits m = c # s" by (metis nat_digits_nonempty neq_Nil_conv)
  then have "is_digit c" using is_digit_chars(1) [of c m] by simp
  with m cs all that show thesis by simp
qed

lemma parse_unsigned_text:
  assumes "0 \<le> n"
  shows "parse_unsigned (unsigned_text n e) = Some (of_int n * pow10 e)"
proof (cases "0 \<le> e")
  case True
  have "parse_unsigned (unsigned_text n e) = Some (of_int (n * 10 ^ nat e))"
    using True parse_unsigned_whole [of "nat_digits (nat (n * 10 ^ nat e))"] is_digit_chars(1) assms
    by (simp add: unsigned_text_def digits_value_nat_digits)
  also have "(of_int (n * 10 ^ nat e) :: rat) = of_int n * pow10 e"
    using True by (simp add: power_int_of_nat [symmetric])
  finally show ?thesis .
next
  case False
  define d where "d = nat (- e)"
  have "digits_value (nat_digits (nat (n div 10 ^ d)) @ pad_digits d (n mod 10 ^ d)) = n"
    using assms by (simp add: digits_value_append digits_value_nat_digits digits_value_pad
        pos_imp_zdiv_nonneg_iff div_mult_mod_eq [of n "10 ^ d"])
  then show ?thesis
    using False parse_unsigned_point [of "nat_digits (nat (n div 10 ^ d))" "pad_digits d (n mod 10 ^ d)"]
      is_digit_chars
    by (simp add: unsigned_text_def d_def [symmetric]) (simp add: d_def)
qed

lemma plain_text_unsigned:
  "plain_text n e = (if n < 0 then ''-'' else []) @ unsigned_text \<bar>n\<bar> e"
  by (simp add: plain_text_def unsigned_text_def Let_def)

lemma parse_plain_text: "parse_decimal (py_strip (plain_text n e)) = Some (DFinite (of_int n * pow10 e))"
proof (rule unsigned_text_head [of "\<bar>n\<bar>" e])
  fix c s
  assume cs: "unsigned_text \<bar>n\<bar> e = c # s" "is_digit c" "\<forall>c \<in> set (unsigned_text \<bar>n\<bar> e). numeral_char c"
  have all: "\<forall>c \<in> set (plain_text n e). numeral_char c"
    using cs(3) by (auto simp: plain_text_unsigned numeral_char_def)
  have split: "split_sign (plain_text n e) = (if n < 0 then - 1 else 1, c # s)"
    using cs(1) digit_inert [OF cs(2)] by (simp add: plain_text_unsigned)
  have no: "c # s \<noteq> ''INF''" "c # s \<noteq> ''INFINITY''" "take 3 (c # s) \<noteq> ''NAN''" "take 4 (c # s) \<noteq> ''SNAN''"
    using digit_inert [OF cs(2)] by auto
  have "parse_unsigned (c # s) = Some (of_int \<bar>n\<bar> * pow10 e)"
    using parse_unsigned_text [of "\<bar>n\<bar>" e] cs(1) by simp
  then show ?thesis
    unfolding parse_decimal_def Let_def normalise_numeral(2) [OF all]
      normalise_numeral(1) [OF all, unfolded normalise_numeral(2) [OF all]] split prod.case
    using no by (auto simp: abs_if)
qed

lemma read_decimal_text:
  assumes "carries ex q"
  shows "decimal_of_json (JStr (decimal_text ex q)) = Some q"
proof -
  from assms obtain n where n: "q = of_int n * pow10 (ex q)" by (auto simp: carries_def)
  have "q / pow10 (ex q) = of_int n" by (subst n) simp
  then have "decimal_text ex q = plain_text n (ex q)" by (simp add: decimal_text_def)
  with parse_plain_text [of n "ex q"] n [symmetric] show ?thesis by (simp add: decimal_of_json_def)
qed

text \<open>
  Printing a Decimal in plain notation and reading it back is the identity, for every value
  and every exponent the value can carry, so amounts stored as evidence text lose nothing.
\<close>

theorem decimal_text_round_trip:
  assumes "carries ex q"
  shows "decimal_of_json (JStr (decimal_text ex q)) = Some q"
  using assms by (rule read_decimal_text)

text \<open>The evidence item that carries the sizing block, as the chase guard finds it.\<close>

definition evidence_with_sizing :: "(rat \<Rightarrow> int) \<Rightarrow> sizing_result \<Rightarrow> json" where
  "evidence_with_sizing ex r = JList [JObj [(''portfolio'', JObj [(''positionSizing'', as_evidence ex r)])]]"

text \<open>
  C25: What the sizer writes, the chase guard reads: from the evidence of an actionable BUY the
  guard recovers exactly the entry price, the strategy stop, the risk budget and the lot size
  the quantity was computed with.
\<close>

theorem sizing_evidence_round_trip:
  assumes "calculate_position_size cal config request = Inr r" and "actionable r"
    and "py_upper (si_action request) = ''BUY''" and "buy_terms_of request v"
    and "0 < lot_size_of config (py_upper (si_market request))"
    and "carries ex (bt_entry v)" and "carries ex (bt_stop v)" and "carries ex (sr_risk_budget r)"
    and "carries ex (sr_lot_size r)"
  shows "entry_sizing_from_evidence (evidence_with_sizing ex r) =
    Some \<lparr>es_entry_price = bt_entry v, es_strategy_stop = bt_stop v, es_risk_budget = sr_risk_budget r,
          es_lot_size = lot_size_of config (py_upper (si_market request))\<rparr>"
  using assms(1-3)
proof (rule actionable_buy)
  fix v' rpu b q
  assume b: "0 < ba_risk_budget b" "sr_risk_budget r = ba_risk_budget b"
    and lot: "sr_lot_size r = lot_size_of config (sized_market request)"
  have prices: "sr_entry_price r = Some (DFinite (bt_entry v))" "sr_strategy_stop r = Some (DFinite (bt_stop v))"
    using actionable_buy_prices [OF assms(1-3)] assms(4) by (simp_all add: buy_terms_of_def)
  have v: "0 < bt_stop v" "bt_stop v < bt_entry v" using assms(4) by (simp_all add: buy_terms_of_def)
  have block: "sizing_block (evidence_with_sizing ex r)
      = ([(''portfolio'', JObj [(''positionSizing'', as_evidence ex r)])],
         case as_evidence ex r of JObj s \<Rightarrow> s)"
    by (simp add: sizing_block_def evidence_with_sizing_def obj_get_def as_evidence_def Let_def)
  have get: "obj_get ''strategyStop'' (case as_evidence ex r of JObj s \<Rightarrow> s) = JStr (decimal_text ex (bt_stop v))"
      "obj_get ''entryPrice'' (case as_evidence ex r of JObj s \<Rightarrow> s) = JStr (decimal_text ex (bt_entry v))"
      "obj_get ''riskBudget'' (case as_evidence ex r of JObj s \<Rightarrow> s) = JStr (decimal_text ex (sr_risk_budget r))"
      "obj_get ''lotSize'' (case as_evidence ex r of JObj s \<Rightarrow> s) = JStr (decimal_text ex (sr_lot_size r))"
    by (simp_all add: obj_get_def as_evidence_def Let_def optional_text_def prices)
  have "strategy_stop_from_evidence (evidence_with_sizing ex r) = Some (bt_stop v)"
    using v by (simp add: strategy_stop_from_evidence_def block get positive_decimal_def read_decimal_text assms(7))
  then show ?thesis
    using v b lot assms(5) read_decimal_text [OF assms(8)] read_decimal_text [OF assms(9)]
    by (simp add: entry_sizing_from_evidence_def block get read_decimal_text [OF assms(6)] Let_def)
qed

subsection \<open>Witnesses\<close>

text \<open>The exponents of integral amounts printed without a point.\<close>

theorem decimal_text_round_trip_witness:
  "decimal_of_json (JStr (decimal_text (\<lambda>q. - 2) (5 / 4))) = Some (5 / 4)"
proof -
  have "carries (\<lambda>q. - 2) (5 / 4)"
    unfolding carries_def by (rule exI [of _ 125]) (simp add: power_int_minus)
  then show ?thesis by (rule decimal_text_round_trip)
qed

theorem sizing_evidence_round_trip_witness:
  "\<exists>r. calculate_position_size daily_calendar default_sizing_config demo_request = Inr r
     \<and> entry_sizing_from_evidence (evidence_with_sizing (\<lambda>q. 0) r) =
         Some \<lparr>es_entry_price = 70000, es_strategy_stop = 69000, es_risk_budget = sr_risk_budget r, es_lot_size = 1\<rparr>"
proof -
  obtain r where r: "calculate_position_size daily_calendar default_sizing_config demo_request = Inr r"
      "actionable r" "sr_risk_budget r = 70000" "sr_lot_size r = 1"
    using demo_buy [OF demo_buy_amounts(1) demo_round(1)] demo_buy_evidence unfolding demo_same by auto
  have a: "py_upper (si_action demo_request) = ''BUY''"
      "lot_size_of default_sizing_config (py_upper (si_market demo_request)) = 1"
    by (simp_all add: demo_request_def demo_upper demo_lot)
  have c: "carries (\<lambda>q. 0) (of_int n)" for n unfolding carries_def by (rule exI [of _ n]) simp
  have "carries (\<lambda>q. 0) (bt_entry demo_terms)" "carries (\<lambda>q. 0) (bt_stop demo_terms)"
      "carries (\<lambda>q. 0) (sr_risk_budget r)" "carries (\<lambda>q. 0) (sr_lot_size r)"
    using c [of 70000] c [of 69000] c [of 1] r by (simp_all add: demo_terms_def)
  from sizing_evidence_round_trip [OF r(1,2) a(1) demo_terms _ this] a(2) r(1) show ?thesis
    by (simp add: demo_terms_def)
qed

end
