(* ===== verification/Loss_Streak.thy ===== *)
theory Loss_Streak
  imports PyDecimal Json_Text Sha256 "HOL-Library.Product_Lexorder"
begin

text \<open>
  The loss-streak observation, \<open>app/extensions/kasset/automation/shadow_loss_streak.py\<close>: from
  closed PAPER sells it derives, for the whole account and for one symbol, the run of stop
  losses that ends now and the BUY lock it implies. Fields have the types they are annotated
  with, so the schema tests on foreign types never fire. Persistence is in \<open>Loss_Streak_Store\<close>.
\<close>

subsection \<open>Codes and configuration\<close>

definition loss_schema_version :: string where
  "loss_schema_version = ''kasset.shadow-loss-streak.v1''"

definition loss_evidence_version :: string where
  "loss_evidence_version = ''kasset.shadow-loss-streak-evidence.v1''"

definition shadow_mode :: string where
  "shadow_mode = ''SHADOW''"

datatype shadow_loss_status = VALID | INSUFFICIENT | FAIL_CLOSED

datatype shadow_lock_scope = GLOBAL | SYMBOL

datatype shadow_loss_reason =
    LIMIT_REACHED | BELOW_LIMIT | EXPIRED | INSUFFICIENT_FACTS | INVALID_SCOPE
  | INVALID_TIMESTAMP | INVALID_FACT_SCHEMA | ORDERING_COLLISION

fun loss_status_value :: "shadow_loss_status \<Rightarrow> string" where
  "loss_status_value VALID = ''valid''"
| "loss_status_value INSUFFICIENT = ''insufficient''"
| "loss_status_value FAIL_CLOSED = ''fail-closed''"

fun lock_scope_value :: "shadow_lock_scope \<Rightarrow> string" where
  "lock_scope_value GLOBAL = ''GLOBAL''"
| "lock_scope_value SYMBOL = ''SYMBOL''"

fun loss_reason_value :: "shadow_loss_reason \<Rightarrow> string" where
  "loss_reason_value LIMIT_REACHED = ''LOSS_STREAK_LIMIT_REACHED''"
| "loss_reason_value BELOW_LIMIT = ''LOSS_STREAK_BELOW_LIMIT''"
| "loss_reason_value EXPIRED = ''LOSS_STREAK_EXPIRED''"
| "loss_reason_value INSUFFICIENT_FACTS = ''INSUFFICIENT_CLOSED_PAPER_FACTS''"
| "loss_reason_value INVALID_SCOPE = ''INVALID_EVALUATION_SCOPE''"
| "loss_reason_value INVALID_TIMESTAMP = ''INVALID_FACT_TIMESTAMP''"
| "loss_reason_value INVALID_FACT_SCHEMA = ''INVALID_FACT_SCHEMA''"
| "loss_reason_value ORDERING_COLLISION = ''FACT_ORDERING_COLLISION''"

record shadow_loss_streak_config =
  lc_stop_loss_reasons :: "string list"
  lc_loss_limit :: int
  lc_lookback :: duration
  lc_lock_duration :: duration
  lc_emit_global_evidence :: bool
  lc_emit_symbol_evidence :: bool

definition normalize_reason :: "string \<Rightarrow> string" where
  "normalize_reason value = strip_upper value"

definition loss_config_post_init :: "shadow_loss_streak_config \<Rightarrow> shadow_loss_streak_config result" where
  "loss_config_post_init c =
     (let normalized = sort (remdups (map normalize_reason (lc_stop_loss_reasons c)))
      in raise_if (normalized = [] \<or> list_ex (\<lambda>r. r = []) normalized)
           (ValueError ''stop_loss_reasons must contain nonempty values'')
        (raise_if (lc_loss_limit c < 1) (ValueError ''loss_limit must be a positive integer'')
        (raise_if (lc_lookback c \<le> 0) (ValueError ''lookback must be positive'')
        (raise_if (lc_lock_duration c \<le> 0) (ValueError ''lock_duration must be positive'')
        (Inr (c\<lparr>lc_stop_loss_reasons := normalized\<rparr>))))))"

subsection \<open>The configuration fingerprint\<close>

definition loss_config_serializable :: "shadow_loss_streak_config \<Rightarrow> json" where
  "loss_config_serializable c = JObj
     [(''configSchemaVersion'', JStr ''kasset.shadow-loss-streak-config.v1''),
      (''stopLossReasons'', JList (map JStr (lc_stop_loss_reasons c))),
      (''lossLimit'', JInt (lc_loss_limit c)),
      (''lookbackMicroseconds'', JInt (lc_lookback c)),
      (''lockDurationMicroseconds'', JInt (lc_lock_duration c)),
      (''emission'', JObj [(''globalEvidenceEnabled'', JBool (lc_emit_global_evidence c)),
                           (''symbolEvidenceEnabled'', JBool (lc_emit_symbol_evidence c))])]"

definition loss_config_fingerprint :: "shadow_loss_streak_config \<Rightarrow> string" where
  "loss_config_fingerprint c = sha256_hex (json_dumps (loss_config_serializable c))"

subsection \<open>Facts, observations and results\<close>

record 't trade_fact =
  tf_id :: int
  tf_transaction_id :: string
  tf_trade_id :: string
  tf_owner_user_id :: int
  tf_account_key :: string
  tf_market :: string
  tf_symbol :: string
  tf_side :: string
  tf_lifecycle_status :: string
  tf_realized_pnl :: "decimal option"
  tf_exit_reason :: "string option"
  tf_executed_at :: 't
  tf_account_mode :: string

type_synonym raw_fact = "py_datetime trade_fact"
type_synonym fact = "instant trade_fact"

record shadow_loss_lock_observation =
  ob_schema_version :: string
  ob_evidence_version :: string
  ob_mode :: string
  ob_status :: shadow_loss_status
  ob_scope :: shadow_lock_scope
  ob_symbol :: "string option"
  ob_owner_user_id :: int
  ob_account_key :: string
  ob_market :: string
  ob_evaluated_at :: py_datetime
  ob_source_timestamps :: "instant list"
  ob_config_fingerprint :: string
  ob_streak_count :: nat
  ob_loss_limit :: int
  ob_newest_loss_id :: "int option"
  ob_newest_loss_transaction_id :: "string option"
  ob_newest_loss_trade_id :: "string option"
  ob_newest_loss_at :: "instant option"
  ob_expires_at :: "instant option"
  ob_buy_locked :: bool
  ob_reason :: shadow_loss_reason
  ob_sell_allowed :: bool
  ob_position_manager_risk_reduction_allowed :: bool

record shadow_loss_streak_result =
  lr_schema_version :: string
  lr_evidence_version :: string
  lr_mode :: string
  lr_status :: shadow_loss_status
  lr_owner_user_id :: int
  lr_account_key :: string
  lr_market :: string
  lr_symbol :: string
  lr_evaluated_at :: py_datetime
  lr_source_timestamps :: "instant list"
  lr_config :: shadow_loss_streak_config
  lr_config_fingerprint :: string
  lr_global_lock :: shadow_loss_lock_observation
  lr_symbol_lock :: shadow_loss_lock_observation

definition effective_buy_locked :: "shadow_loss_streak_result \<Rightarrow> bool" where
  "effective_buy_locked r \<longleftrightarrow> ob_buy_locked (lr_global_lock r) \<or> ob_buy_locked (lr_symbol_lock r)"

subsection \<open>Evidence\<close>

definition instant_text :: "instant \<Rightarrow> json" where
  "instant_text t = JStr (iso_utc t)"

definition timestamp_text :: "py_datetime \<Rightarrow> json" where
  "timestamp_text d = json_optional instant_text (utc_or_none d)"

definition observation_evidence :: "shadow_loss_lock_observation \<Rightarrow> json" where
  "observation_evidence ob = JObj
     [(''schemaVersion'', JStr (ob_schema_version ob)),
      (''evidenceVersion'', JStr (ob_evidence_version ob)),
      (''mode'', JStr (ob_mode ob)),
      (''status'', JStr (loss_status_value (ob_status ob))),
      (''scope'', JObj
        [(''kind'', JStr (lock_scope_value (ob_scope ob))),
         (''symbol'', json_optional JStr (ob_symbol ob)),
         (''ownerUserId'', JInt (ob_owner_user_id ob)),
         (''accountKey'', JStr (ob_account_key ob)),
         (''market'', JStr (ob_market ob))]),
      (''sourceTimestamps'', JList (map instant_text (ob_source_timestamps ob))),
      (''evaluatedAt'', timestamp_text (ob_evaluated_at ob)),
      (''shadowConfigFingerprint'', JStr (ob_config_fingerprint ob)),
      (''streak'', JObj
        [(''count'', JInt (int (ob_streak_count ob))),
         (''limit'', JInt (ob_loss_limit ob)),
         (''newestLossId'', json_optional JInt (ob_newest_loss_id ob)),
         (''newestLossTransactionId'', json_optional JStr (ob_newest_loss_transaction_id ob)),
         (''newestLossTradeId'', json_optional JStr (ob_newest_loss_trade_id ob)),
         (''newestLossAt'', json_optional instant_text (ob_newest_loss_at ob))]),
      (''hypotheticalLock'', JObj
        [(''buyLocked'', JBool (ob_buy_locked ob)),
         (''expiresAt'', json_optional instant_text (ob_expires_at ob)),
         (''reason'', JStr (loss_reason_value (ob_reason ob))),
         (''sellAllowed'', JBool (ob_sell_allowed ob)),
         (''positionManagerRiskReductionAllowed'',
            JBool (ob_position_manager_risk_reduction_allowed ob))])]"

definition loss_result_evidence :: "shadow_loss_streak_result \<Rightarrow> json" where
  "loss_result_evidence r =
     (let emitted = (if lc_emit_global_evidence (lr_config r) then [observation_evidence (lr_global_lock r)] else [])
                  @ (if lc_emit_symbol_evidence (lr_config r) then [observation_evidence (lr_symbol_lock r)] else [])
      in JObj
       [(''schemaVersion'', JStr (lr_schema_version r)),
        (''evidenceVersion'', JStr (lr_evidence_version r)),
        (''mode'', JStr (lr_mode r)),
        (''status'', JStr (loss_status_value (lr_status r))),
        (''scope'', JObj
          [(''ownerUserId'', JInt (lr_owner_user_id r)),
           (''accountKey'', JStr (lr_account_key r)),
           (''market'', JStr (lr_market r)),
           (''symbol'', JStr (lr_symbol r))]),
        (''sourceTimestamps'', JList (map instant_text (lr_source_timestamps r))),
        (''evaluatedAt'', timestamp_text (lr_evaluated_at r)),
        (''ordering'', JObj
          [(''fields'', JList [JStr ''executedAt'', JStr ''id'']),
           (''direction'', JStr ''ascending''),
           (''deduplicateBy'', JList [JStr ''transactionId'', JStr ''tradeId''])]),
        (''shadowConfig'', JObj
          [(''fingerprint'', JStr (lr_config_fingerprint r)),
           (''config'', loss_config_serializable (lr_config r))]),
        (''hypothetical'', JObj
          [(''globalBuyLocked'', JBool (ob_buy_locked (lr_global_lock r))),
           (''symbolBuyLocked'', JBool (ob_buy_locked (lr_symbol_lock r))),
           (''effectiveBuyLocked'', JBool (effective_buy_locked r)),
           (''sellAllowed'', JBool True),
           (''positionManagerRiskReductionAllowed'', JBool True)]),
        (''lockEvidence'', JList emitted)])"

subsection \<open>Preparing the facts\<close>

text \<open>The filter at the top of the loop: facts of another scope are skipped.\<close>

definition fact_in_scope :: "int \<Rightarrow> string \<Rightarrow> string \<Rightarrow> raw_fact \<Rightarrow> bool" where
  "fact_in_scope owner_user_id account_key market f \<longleftrightarrow>
     tf_owner_user_id f = owner_user_id \<and> tf_account_key f = account_key
     \<and> strip_upper (tf_market f) = market \<and> strip_upper (tf_account_mode f) = ''PAPER''
     \<and> strip_upper (tf_lifecycle_status f) = ''CLOSED'' \<and> strip_upper (tf_side f) = ''SELL''
     \<and> py_strip (tf_symbol f) \<noteq> []"

definition normalized_fact :: "string \<Rightarrow> raw_fact \<Rightarrow> instant \<Rightarrow> fact" where
  "normalized_fact market f executed_at =
     \<lparr>tf_id = tf_id f, tf_transaction_id = py_strip (tf_transaction_id f),
      tf_trade_id = py_strip (tf_trade_id f), tf_owner_user_id = tf_owner_user_id f,
      tf_account_key = tf_account_key f, tf_market = market, tf_symbol = strip_upper (tf_symbol f),
      tf_side = ''SELL'', tf_lifecycle_status = ''CLOSED'', tf_realized_pnl = tf_realized_pnl f,
      tf_exit_reason = map_option py_strip (tf_exit_reason f), tf_executed_at = executed_at,
      tf_account_mode = ''PAPER''\<rparr>"

text \<open>The loop, with its early returns.\<close>

fun retain_facts ::
    "int \<Rightarrow> string \<Rightarrow> string \<Rightarrow> instant \<Rightarrow> duration \<Rightarrow> raw_fact list \<Rightarrow> shadow_loss_reason + fact list" where
  "retain_facts owner account market evaluated_at lookback [] = Inr []"
| "retain_facts owner account market evaluated_at lookback (f # fs) =
     (if \<not> fact_in_scope owner account market f
      then retain_facts owner account market evaluated_at lookback fs
      else case utc_or_none (tf_executed_at f) of
        None \<Rightarrow> Inl INVALID_TIMESTAMP
      | Some executed_at \<Rightarrow>
          if executed_at < evaluated_at - lookback \<or> evaluated_at < executed_at
          then retain_facts owner account market evaluated_at lookback fs
          else if Option.bind (tf_realized_pnl f) finite_value = None
          then retain_facts owner account market evaluated_at lookback fs
          else if tf_id f \<le> 0 \<or> py_strip (tf_transaction_id f) = [] \<or> py_strip (tf_trade_id f) = []
          then Inl ORDERING_COLLISION
          else map_sum id (\<lambda>rest. normalized_fact market f executed_at # rest)
                 (retain_facts owner account market evaluated_at lookback fs))"

definition fact_key :: "fact \<Rightarrow> instant \<times> int" where
  "fact_key f = (tf_executed_at f, tf_id f)"

definition prepare_facts ::
    "raw_fact list \<Rightarrow> int \<Rightarrow> string \<Rightarrow> string \<Rightarrow> instant \<Rightarrow> duration \<Rightarrow> shadow_loss_reason + fact list" where
  "prepare_facts facts owner account market evaluated_at lookback =
     map_sum id (sort_key fact_key) (retain_facts owner account market evaluated_at lookback facts)"

fun dedup_loop ::
    "string set \<Rightarrow> string set \<Rightarrow> (instant \<times> int) option \<Rightarrow> fact list \<Rightarrow> shadow_loss_reason + fact list" where
  "dedup_loop txs trades prev [] = Inr []"
| "dedup_loop txs trades prev (f # fs) =
     (if tf_transaction_id f \<in> txs \<or> tf_trade_id f \<in> trades then dedup_loop txs trades prev fs
      else if Some (fact_key f) = prev then Inl ORDERING_COLLISION
      else map_sum id (\<lambda>rest. f # rest)
             (dedup_loop (insert (tf_transaction_id f) txs) (insert (tf_trade_id f) trades)
                (Some (fact_key f)) fs))"

definition deduplicate_facts :: "fact list \<Rightarrow> shadow_loss_reason + fact list" where
  "deduplicate_facts facts = dedup_loop {} {} None facts"

subsection \<open>Observing one scope\<close>

definition is_stop_loss :: "shadow_loss_streak_config \<Rightarrow> fact \<Rightarrow> bool" where
  "is_stop_loss config f \<longleftrightarrow>
     (case Option.bind (tf_realized_pnl f) finite_value of None \<Rightarrow> False | Some pnl \<Rightarrow> pnl < 0)
     \<and> normalize_reason (case tf_exit_reason f of None \<Rightarrow> [] | Some r \<Rightarrow> r) \<in> set (lc_stop_loss_reasons config)"

definition streak_step ::
    "shadow_loss_streak_config \<Rightarrow> fact \<Rightarrow> nat \<times> fact option \<Rightarrow> nat \<times> fact option" where
  "streak_step config f acc = (if is_stop_loss config f then (Suc (fst acc), Some f) else (0, None))"

definition streak_of :: "shadow_loss_streak_config \<Rightarrow> fact list \<Rightarrow> nat \<times> fact option" where
  "streak_of config facts = fold (streak_step config) facts (0, None)"

definition observe_scope ::
    "fact list \<Rightarrow> shadow_lock_scope \<Rightarrow> string option \<Rightarrow> int \<Rightarrow> string \<Rightarrow> string \<Rightarrow> instant
      \<Rightarrow> shadow_loss_streak_config \<Rightarrow> string \<Rightarrow> shadow_loss_lock_observation" where
  "observe_scope facts scope symbol owner_user_id account_key market evaluated_at config fingerprint =
     (case streak_of config facts of (streak_count, newest) \<Rightarrow>
        let expires_at = map_option (\<lambda>f. tf_executed_at f + lc_lock_duration config) newest;
            (buy_locked, reason) =
              (case expires_at of
                 Some expires \<Rightarrow>
                   if lc_loss_limit config \<le> int streak_count
                   then if evaluated_at < expires then (True, LIMIT_REACHED) else (False, EXPIRED)
                   else (False, BELOW_LIMIT)
               | None \<Rightarrow> (False, BELOW_LIMIT))
        in \<lparr>ob_schema_version = loss_schema_version, ob_evidence_version = loss_evidence_version,
            ob_mode = shadow_mode, ob_status = VALID, ob_scope = scope, ob_symbol = symbol, ob_owner_user_id = owner_user_id,
            ob_account_key = account_key, ob_market = market, ob_evaluated_at = Aware evaluated_at,
            ob_source_timestamps = map tf_executed_at facts, ob_config_fingerprint = fingerprint,
            ob_streak_count = streak_count, ob_loss_limit = lc_loss_limit config,
            ob_newest_loss_id = map_option tf_id newest,
            ob_newest_loss_transaction_id = map_option tf_transaction_id newest,
            ob_newest_loss_trade_id = map_option tf_trade_id newest,
            ob_newest_loss_at = map_option tf_executed_at newest, ob_expires_at = expires_at,
            ob_buy_locked = buy_locked, ob_reason = reason, ob_sell_allowed = True,
            ob_position_manager_risk_reduction_allowed = True\<rparr>)"

definition non_valid_observation ::
    "int \<Rightarrow> string \<Rightarrow> string \<Rightarrow> string \<Rightarrow> py_datetime \<Rightarrow> shadow_loss_streak_config
      \<Rightarrow> shadow_loss_status \<Rightarrow> shadow_loss_reason \<Rightarrow> shadow_lock_scope \<Rightarrow> shadow_loss_lock_observation" where
  "non_valid_observation owner_user_id account_key market symbol evaluated_at config status why scope =
     \<lparr>ob_schema_version = loss_schema_version, ob_evidence_version = loss_evidence_version,
      ob_mode = shadow_mode, ob_status = status, ob_scope = scope,
      ob_symbol = (case scope of SYMBOL \<Rightarrow> Some symbol | GLOBAL \<Rightarrow> None),
      ob_owner_user_id = owner_user_id, ob_account_key = account_key, ob_market = market,
      ob_evaluated_at = evaluated_at, ob_source_timestamps = [],
      ob_config_fingerprint = loss_config_fingerprint config, ob_streak_count = 0,
      ob_loss_limit = lc_loss_limit config, ob_newest_loss_id = None,
      ob_newest_loss_transaction_id = None, ob_newest_loss_trade_id = None,
      ob_newest_loss_at = None, ob_expires_at = None, ob_buy_locked = True, ob_reason = why,
      ob_sell_allowed = True, ob_position_manager_risk_reduction_allowed = True\<rparr>"

definition non_valid_result ::
    "int \<Rightarrow> string \<Rightarrow> string \<Rightarrow> string \<Rightarrow> py_datetime \<Rightarrow> shadow_loss_streak_config
      \<Rightarrow> shadow_loss_status \<Rightarrow> shadow_loss_reason \<Rightarrow> shadow_loss_streak_result" where
  "non_valid_result owner_user_id account_key market symbol evaluated_at config status why =
     (let observation = non_valid_observation owner_user_id account_key market symbol evaluated_at
                          config status why
      in \<lparr>lr_schema_version = loss_schema_version, lr_evidence_version = loss_evidence_version,
          lr_mode = shadow_mode, lr_status = status, lr_owner_user_id = owner_user_id, lr_account_key = account_key,
          lr_market = market, lr_symbol = symbol, lr_evaluated_at = evaluated_at,
          lr_source_timestamps = [], lr_config = config,
          lr_config_fingerprint = loss_config_fingerprint config,
          lr_global_lock = observation GLOBAL, lr_symbol_lock = observation SYMBOL\<rparr>)"

subsection \<open>The evaluation\<close>

definition loss_scope_valid :: "int \<Rightarrow> string \<Rightarrow> string \<Rightarrow> string \<Rightarrow> py_datetime \<Rightarrow> bool" where
  "loss_scope_valid owner_user_id account_key market symbol evaluated_at \<longleftrightarrow>
     0 < owner_user_id \<and> py_strip account_key \<noteq> [] \<and> market \<in> {''KRX'', ''US''} \<and> symbol \<noteq> []
     \<and> utc_or_none evaluated_at \<noteq> None"

definition evaluate_shadow_loss_streak ::
    "raw_fact list \<Rightarrow> int \<Rightarrow> string \<Rightarrow> string \<Rightarrow> string \<Rightarrow> py_datetime \<Rightarrow> shadow_loss_streak_config
      \<Rightarrow> shadow_loss_streak_result" where
  "evaluate_shadow_loss_streak facts owner_user_id account_key market symbol evaluated_at config =
     (let market = strip_upper market; symbol = strip_upper symbol;
          fingerprint = loss_config_fingerprint config;
          fail = non_valid_result owner_user_id account_key market symbol
      in if \<not> loss_scope_valid owner_user_id account_key market symbol evaluated_at
         then fail evaluated_at config FAIL_CLOSED INVALID_SCOPE
         else case utc_or_none evaluated_at of
           None \<Rightarrow> fail evaluated_at config FAIL_CLOSED INVALID_SCOPE
         | Some now \<Rightarrow>
           (case prepare_facts facts owner_user_id account_key market now (lc_lookback config) of
              Inl failure \<Rightarrow> fail (Aware now) config FAIL_CLOSED failure
            | Inr prepared \<Rightarrow>
                if prepared = [] then fail (Aware now) config INSUFFICIENT INSUFFICIENT_FACTS
                else
                  (case (deduplicate_facts prepared,
                         deduplicate_facts (filter (\<lambda>f. tf_symbol f = symbol) prepared)) of
                     (Inr global_facts, Inr symbol_facts) \<Rightarrow>
                       \<lparr>lr_schema_version = loss_schema_version, lr_evidence_version = loss_evidence_version,
                        lr_mode = shadow_mode, lr_status = VALID, lr_owner_user_id = owner_user_id, lr_account_key = account_key,
                        lr_market = market, lr_symbol = symbol, lr_evaluated_at = Aware now,
                        lr_source_timestamps = map tf_executed_at global_facts, lr_config = config,
                        lr_config_fingerprint = fingerprint,
                        lr_global_lock = observe_scope global_facts GLOBAL None owner_user_id account_key
                          market now config fingerprint,
                        lr_symbol_lock = observe_scope symbol_facts SYMBOL (Some symbol) owner_user_id
                          account_key market now config fingerprint\<rparr>
                   | (Inl failure, _) \<Rightarrow> fail (Aware now) config FAIL_CLOSED failure
                   | (_, Inl failure) \<Rightarrow> fail (Aware now) config FAIL_CLOSED failure)))"

end
