(* ===== verification/Loss_Streak_Rules.thy ===== *)
theory Loss_Streak_Rules
  imports Loss_Streak "HOL-Library.Sublist"
begin

text \<open>
  What the loss-streak observation promises: which facts it looks at, that the streak is the
  run of stop losses at the end of them, when that run locks BUY, that anything doubtful locks
  BUY while selling stays allowed, and that the order in which facts are supplied is irrelevant.
\<close>

subsection \<open>The facts that count\<close>

text \<open>
  A reference definition of the preparation: the facts in scope whose time lies in the
  look-back window and whose result is a finite number, normalised and ordered.
\<close>

definition fact_time :: "raw_fact \<Rightarrow> instant" where
  "fact_time f = (case tf_executed_at f of Aware t \<Rightarrow> t | Naive n \<Rightarrow> n)"

definition in_lookback :: "instant \<Rightarrow> duration \<Rightarrow> raw_fact \<Rightarrow> bool" where
  "in_lookback now lookback f \<longleftrightarrow> now - lookback \<le> fact_time f \<and> fact_time f \<le> now
     \<and> Option.bind (tf_realized_pnl f) finite_value \<noteq> None"

definition counted :: "int \<Rightarrow> string \<Rightarrow> string \<Rightarrow> instant \<Rightarrow> duration \<Rightarrow> raw_fact \<Rightarrow> bool" where
  "counted owner account market now lookback f \<longleftrightarrow>
     fact_in_scope owner account market f \<and> in_lookback now lookback f"

text \<open>Facts in scope that make the evaluation give up.\<close>

definition doubtful :: "int \<Rightarrow> string \<Rightarrow> string \<Rightarrow> instant \<Rightarrow> duration \<Rightarrow> raw_fact \<Rightarrow> bool" where
  "doubtful owner account market now lookback f \<longleftrightarrow> fact_in_scope owner account market f
     \<and> (\<not> is_aware (tf_executed_at f)
        \<or> in_lookback now lookback f
          \<and> (tf_id f \<le> 0 \<or> py_strip (tf_transaction_id f) = [] \<or> py_strip (tf_trade_id f) = []))"

definition window_facts ::
    "int \<Rightarrow> string \<Rightarrow> string \<Rightarrow> instant \<Rightarrow> duration \<Rightarrow> raw_fact list \<Rightarrow> fact list" where
  "window_facts owner account market now lookback facts =
     sort_key fact_key (map (\<lambda>f. normalized_fact market f (fact_time f))
       (filter (counted owner account market now lookback) facts))"

lemma retain_facts_cases:
  "retain_facts owner account market now lookback facts =
     (case filter (doubtful owner account market now lookback) facts of
        [] \<Rightarrow> Inr (map (\<lambda>f. normalized_fact market f (fact_time f))
               (filter (counted owner account market now lookback) facts))
      | f # _ \<Rightarrow> Inl (if is_aware (tf_executed_at f) then ORDERING_COLLISION else INVALID_TIMESTAMP))"
proof (induction facts)
  case (Cons f fs)
  note defs = counted_def doubtful_def in_lookback_def fact_time_def
  show ?case
  proof (cases "fact_in_scope owner account market f")
    case False
    then have "\<not> doubtful owner account market now lookback f" "\<not> counted owner account market now lookback f"
      by (simp_all add: doubtful_def counted_def)
    then show ?thesis using Cons False by (simp split: list.split)
  next
    case scope: True
    show ?thesis
    proof (cases "tf_executed_at f")
      case (Aware t)
      define window where "window = in_lookback now lookback f"
      have t: "fact_time f = t" using Aware by (simp add: fact_time_def)
      have w: "window \<longleftrightarrow> now - lookback \<le> t \<and> t \<le> now \<and> Option.bind (tf_realized_pnl f) finite_value \<noteq> None"
        by (simp add: window_def in_lookback_def t)
      have "counted owner account market now lookback f \<longleftrightarrow> window"
        and "doubtful owner account market now lookback f \<longleftrightarrow>
          window \<and> (tf_id f \<le> 0 \<or> py_strip (tf_transaction_id f) = [] \<or> py_strip (tf_trade_id f) = [])"
        by (simp_all add: counted_def doubtful_def window_def scope Aware)
      with scope Aware t w Cons show ?thesis by (auto split: list.split)
    next
      case (Naive n)
      with scope show ?thesis by (simp add: doubtful_def)
    qed
  qed
qed simp

lemma prepare_facts_Inr:
  "prepare_facts facts owner account market now lookback = Inr prepared \<longleftrightarrow>
     filter (doubtful owner account market now lookback) facts = []
     \<and> prepared = window_facts owner account market now lookback facts"
  by (auto simp: prepare_facts_def retain_facts_cases window_facts_def split: list.splits)

lemma window_facts_sound:
  assumes "g \<in> set (window_facts owner account market now lookback facts)"
  shows "now - lookback \<le> tf_executed_at g \<and> tf_executed_at g \<le> now \<and> tf_market g = market
     \<and> tf_owner_user_id g = owner \<and> tf_account_key g = account
     \<and> Option.bind (tf_realized_pnl g) finite_value \<noteq> None"
  using assms by (auto simp: window_facts_def counted_def in_lookback_def normalized_fact_def fact_in_scope_def)

lemma distinct_map_sort: "distinct (map k (sort_key k xs)) \<longleftrightarrow> distinct (map k xs)"
  by (rule mset_eq_imp_distinct_iff) simp

lemma window_facts_perm:
  assumes "mset facts = mset facts'"
    and "distinct (map fact_key (window_facts owner account market now lookback facts))"
  shows "window_facts owner account market now lookback facts = window_facts owner account market now lookback facts'"
  unfolding window_facts_def
proof (rule sorted_distinct_keys_unique)
  let ?g = "\<lambda>fs. map (\<lambda>f. normalized_fact market f (fact_time f)) (filter (counted owner account market now lookback) fs)"
  show "mset (?g facts) = mset (?g facts')" using assms(1) by simp
  from assms(2) show "distinct (map fact_key (?g facts))"
    unfolding window_facts_def by (simp only: distinct_map_sort)
qed

subsection \<open>Removing duplicates\<close>

lemma dedup_loop_spec:
  assumes "dedup_loop txs trades prev facts = Inr kept"
  shows "subseq kept facts"
    and "distinct (map tf_transaction_id kept)" and "distinct (map tf_trade_id kept)"
    and "\<forall>f\<in>set kept. tf_transaction_id f \<notin> txs \<and> tf_trade_id f \<notin> trades"
    and "\<forall>f\<in>set facts. tf_transaction_id f \<in> txs \<union> tf_transaction_id ` set kept
                          \<or> tf_trade_id f \<in> trades \<union> tf_trade_id ` set kept"
proof (atomize (full), use assms in \<open>induction txs trades prev facts arbitrary: kept rule: dedup_loop.induct\<close>)
  case (2 txs trades prev f fs)
  show ?case
  proof (cases "tf_transaction_id f \<in> txs \<or> tf_trade_id f \<in> trades")
    case True
    with 2 show ?thesis by (auto split: if_splits)
  next
    case False
    let ?loop = "dedup_loop (insert (tf_transaction_id f) txs) (insert (tf_trade_id f) trades) (Some (fact_key f)) fs"
    from False 2(3) obtain rest where ne: "Some (fact_key f) \<noteq> prev" and kept: "kept = f # rest"
      and loop: "?loop = Inr rest"
      by (cases ?loop) (auto split: if_splits)
    from 2(2) [OF False ne loop] False kept show ?thesis by auto
  qed
qed auto

text \<open>A list with no duplicated identifier and no repeated key is kept as it is.\<close>

lemma dedup_loop_clean:
  assumes "distinct (map tf_transaction_id facts)" and "distinct (map tf_trade_id facts)"
    and "distinct (map fact_key facts)" and "prev \<notin> Some ` fact_key ` set facts"
    and "txs \<inter> tf_transaction_id ` set facts = {}" and "trades \<inter> tf_trade_id ` set facts = {}"
  shows "dedup_loop txs trades prev facts = Inr facts"
  using assms
proof (induction facts arbitrary: txs trades prev)
  case (Cons f fs)
  have "dedup_loop (insert (tf_transaction_id f) txs) (insert (tf_trade_id f) trades) (Some (fact_key f)) fs = Inr fs"
    using Cons.prems by (intro Cons.IH) auto
  then show ?case using Cons.prems by auto
qed simp

lemma deduplicate_facts_clean:
  assumes "distinct (map tf_transaction_id facts)" and "distinct (map tf_trade_id facts)"
    and "distinct (map fact_key facts)"
  shows "deduplicate_facts facts = Inr facts"
  unfolding deduplicate_facts_def using assms by (intro dedup_loop_clean) auto

subsection \<open>The streak\<close>

definition trailing_losses :: "shadow_loss_streak_config \<Rightarrow> fact list \<Rightarrow> fact list" where
  "trailing_losses config facts = takeWhile (is_stop_loss config) (rev facts)"

lemma streak_of_trailing:
  "streak_of config facts =
     (length (trailing_losses config facts),
      (case trailing_losses config facts of [] \<Rightarrow> None | f # _ \<Rightarrow> Some f))"
  by (induction facts rule: rev_induct) (simp_all add: streak_of_def trailing_losses_def streak_step_def)

text \<open>The lock as a rule: enough losses in a row, the newest not yet expired.\<close>

definition locks :: "shadow_loss_streak_config \<Rightarrow> instant \<Rightarrow> fact list \<Rightarrow> bool" where
  "locks config now facts \<longleftrightarrow>
     (case trailing_losses config facts of
        [] \<Rightarrow> False
      | newest # older \<Rightarrow> lc_loss_limit config \<le> int (Suc (length older))
                       \<and> now < tf_executed_at newest + lc_lock_duration config)"

lemma observe_scope_locks:
  "ob_buy_locked (observe_scope facts scope symbol owner account market now config fp) \<longleftrightarrow> locks config now facts"
  "ob_streak_count (observe_scope facts scope symbol owner account market now config fp)
     = length (trailing_losses config facts)"
  "ob_status (observe_scope facts scope symbol owner account market now config fp) = VALID"
  by (auto simp: observe_scope_def streak_of_trailing locks_def Let_def split: list.splits)

subsection \<open>The evaluation\<close>

lemma non_valid_status [simp]:
  "lr_status (non_valid_result owner account market symbol moment config status why) = status"
  by (simp add: non_valid_result_def Let_def)

text \<open>The result for a valid scope, with the preparation replaced by its reference definition.\<close>

definition observed ::
    "int \<Rightarrow> string \<Rightarrow> string \<Rightarrow> string \<Rightarrow> instant \<Rightarrow> shadow_loss_streak_config \<Rightarrow> fact list \<Rightarrow> fact list
      \<Rightarrow> shadow_loss_streak_result" where
  "observed owner account market symbol now config global_facts symbol_facts =
     \<lparr>lr_schema_version = loss_schema_version, lr_evidence_version = loss_evidence_version,
      lr_mode = shadow_mode, lr_status = VALID, lr_owner_user_id = owner, lr_account_key = account,
      lr_market = market, lr_symbol = symbol, lr_evaluated_at = Aware now,
      lr_source_timestamps = map tf_executed_at global_facts, lr_config = config,
      lr_config_fingerprint = loss_config_fingerprint config,
      lr_global_lock = observe_scope global_facts GLOBAL None owner account market now config
        (loss_config_fingerprint config),
      lr_symbol_lock = observe_scope symbol_facts SYMBOL (Some symbol) owner account market now config
        (loss_config_fingerprint config)\<rparr>"

lemma evaluate_invalid_scope:
  assumes "\<not> loss_scope_valid owner account (strip_upper market) (strip_upper symbol) evaluated_at"
  shows "evaluate_shadow_loss_streak facts owner account market symbol evaluated_at config =
    non_valid_result owner account (strip_upper market) (strip_upper symbol) evaluated_at config
      FAIL_CLOSED INVALID_SCOPE"
  using assms by (simp add: evaluate_shadow_loss_streak_def Let_def)

lemma evaluate_valid_scope:
  assumes "loss_scope_valid owner account (strip_upper market) (strip_upper symbol) (Aware now)"
  shows "evaluate_shadow_loss_streak facts owner account market symbol (Aware now) config =
    (let fail = non_valid_result owner account (strip_upper market) (strip_upper symbol) (Aware now) config in
     case prepare_facts facts owner account (strip_upper market) now (lc_lookback config) of
       Inl failure \<Rightarrow> fail FAIL_CLOSED failure
     | Inr prepared \<Rightarrow>
         if prepared = [] then fail INSUFFICIENT INSUFFICIENT_FACTS
         else (case (deduplicate_facts prepared,
                     deduplicate_facts (filter (\<lambda>f. tf_symbol f = strip_upper symbol) prepared)) of
            (Inr global_facts, Inr symbol_facts) \<Rightarrow>
              observed owner account (strip_upper market) (strip_upper symbol) now config global_facts symbol_facts
          | (Inl failure, _) \<Rightarrow> fail FAIL_CLOSED failure
          | (_, Inl failure) \<Rightarrow> fail FAIL_CLOSED failure))"
  using assms by (simp add: evaluate_shadow_loss_streak_def observed_def Let_def split: sum.split)

lemma evaluate_VALID:
  assumes "lr_status (evaluate_shadow_loss_streak facts owner account market symbol evaluated_at config) = VALID"
  obtains now global_facts symbol_facts where "evaluated_at = Aware now"
    and "loss_scope_valid owner account (strip_upper market) (strip_upper symbol) (Aware now)"
    and "filter (doubtful owner account (strip_upper market) now (lc_lookback config)) facts = []"
    and "deduplicate_facts (window_facts owner account (strip_upper market) now (lc_lookback config) facts)
           = Inr global_facts"
    and "deduplicate_facts (filter (\<lambda>f. tf_symbol f = strip_upper symbol)
           (window_facts owner account (strip_upper market) now (lc_lookback config) facts)) = Inr symbol_facts"
    and "evaluate_shadow_loss_streak facts owner account market symbol evaluated_at config =
           observed owner account (strip_upper market) (strip_upper symbol) now config global_facts symbol_facts"
proof -
  have valid: "loss_scope_valid owner account (strip_upper market) (strip_upper symbol) evaluated_at"
  proof (rule ccontr)
    assume "\<not> ?thesis"
    from evaluate_invalid_scope [OF this] assms show False by simp
  qed
  then obtain now where now: "evaluated_at = Aware now"
    by (cases evaluated_at) (auto simp: loss_scope_valid_def)
  note ev = evaluate_valid_scope [OF valid [unfolded now], of facts config]
  from assms ev now obtain prepared where
    prep: "prepare_facts facts owner account (strip_upper market) now (lc_lookback config) = Inr prepared"
    and ne: "prepared \<noteq> []"
    by (simp add: Let_def split: sum.splits if_splits)
  from assms ev now prep ne obtain gs ss where dedup: "deduplicate_facts prepared = Inr gs"
    "deduplicate_facts (filter (\<lambda>f. tf_symbol f = strip_upper symbol) prepared) = Inr ss"
    by (simp add: Let_def split: sum.splits)
  have "evaluate_shadow_loss_streak facts owner account market symbol evaluated_at config =
      observed owner account (strip_upper market) (strip_upper symbol) now config gs ss"
    using ev prep ne dedup now by (simp add: Let_def)
  with prep dedup valid now show thesis
    by (intro that [OF now]) (simp_all add: prepare_facts_Inr)
qed

lemma observe_scope_sells:
  "ob_sell_allowed (observe_scope facts scope symbol owner account market now config fp)"
  "ob_position_manager_risk_reduction_allowed (observe_scope facts scope symbol owner account market now config fp)"
  by (simp_all add: observe_scope_def Let_def split: prod.splits)

lemma non_valid_locks:
  "ob_buy_locked (lr_global_lock (non_valid_result owner account market symbol moment config status why))"
  "ob_buy_locked (lr_symbol_lock (non_valid_result owner account market symbol moment config status why))"
  "ob_sell_allowed (lr_global_lock (non_valid_result owner account market symbol moment config status why))"
  "ob_sell_allowed (lr_symbol_lock (non_valid_result owner account market symbol moment config status why))"
  by (simp_all add: non_valid_result_def non_valid_observation_def Let_def)

lemma evaluate_shape:
  "(\<exists>moment status why. status \<noteq> VALID
      \<and> evaluate_shadow_loss_streak facts owner account market symbol evaluated_at config =
        non_valid_result owner account (strip_upper market) (strip_upper symbol) moment config status why)
   \<or> lr_status (evaluate_shadow_loss_streak facts owner account market symbol evaluated_at config) = VALID"
proof (cases "loss_scope_valid owner account (strip_upper market) (strip_upper symbol) evaluated_at")
  case False
  from evaluate_invalid_scope [OF this] show ?thesis by (metis shadow_loss_status.distinct(3))
next
  case True
  then obtain now where now: "evaluated_at = Aware now"
    by (cases evaluated_at) (auto simp: loss_scope_valid_def)
  show ?thesis
    unfolding now evaluate_valid_scope [OF True [unfolded now]] Let_def
    by (auto simp: observed_def split: sum.split)
qed

subsection \<open>A concrete account\<close>

definition demo_loss_config :: shadow_loss_streak_config where
  "demo_loss_config = \<lparr>lc_stop_loss_reasons = [''STOP'', ''STOP_GAP''], lc_loss_limit = 2,
     lc_lookback = 1000, lc_lock_duration = 500, lc_emit_global_evidence = True,
     lc_emit_symbol_evidence = True\<rparr>"

definition demo_fact :: "int \<Rightarrow> string \<Rightarrow> rat \<Rightarrow> instant \<Rightarrow> raw_fact" where
  "demo_fact i name pnl t = \<lparr>tf_id = i, tf_transaction_id = name, tf_trade_id = name,
     tf_owner_user_id = 7, tf_account_key = ''paper:1'', tf_market = ''krx'', tf_symbol = ''005930'',
     tf_side = ''sell'', tf_lifecycle_status = ''closed'', tf_realized_pnl = Some (DFinite pnl),
     tf_exit_reason = Some ''stop'', tf_executed_at = Aware t, tf_account_mode = ''paper''\<rparr>"

text \<open>A win, then two stop losses, supplied out of order.\<close>

definition demo_facts :: "raw_fact list" where
  "demo_facts = [demo_fact 3 ''c'' (- 2) 900, demo_fact 1 ''a'' 5 300, demo_fact 2 ''b'' (- 1) 600]"

definition demo_window :: "fact list" where
  "demo_window = map (\<lambda>f. normalized_fact ''KRX'' f (fact_time f))
     [demo_fact 1 ''a'' 5 300, demo_fact 2 ''b'' (- 1) 600, demo_fact 3 ''c'' (- 2) 900]"

lemma loss_strings:
  "strip_upper ''krx'' = ''KRX''" "strip_upper ''KRX'' = ''KRX''" "strip_upper ''005930'' = ''005930''"
  "strip_upper ''paper'' = ''PAPER''" "strip_upper ''closed'' = ''CLOSED''" "strip_upper ''sell'' = ''SELL''"
  "py_strip ''005930'' = ''005930''" "py_strip ''paper:1'' = ''paper:1''" "py_strip ''a'' = ''a''"
  "py_strip ''b'' = ''b''" "py_strip ''c'' = ''c''" "py_strip ''stop'' = ''stop''" "strip_upper ''stop'' = ''STOP''"
  by code_simp+

lemma demo_scope: "loss_scope_valid 7 ''paper:1'' ''KRX'' ''005930'' (Aware 1000)"
  by (simp add: loss_scope_valid_def loss_strings)

lemma demo_doubtful:
  "filter (doubtful 7 ''paper:1'' ''KRX'' 1000 1000) demo_facts = []"
  by (simp add: demo_facts_def demo_fact_def doubtful_def loss_strings)

lemma demo_window_facts: "window_facts 7 ''paper:1'' ''KRX'' 1000 1000 demo_facts = demo_window"
  by (simp add: window_facts_def demo_window_def demo_facts_def demo_fact_def counted_def in_lookback_def
      fact_in_scope_def fact_time_def normalized_fact_def fact_key_def loss_strings sort_key_def
      less_eq_prod_def less_prod_def)

lemma demo_dedup:
  "deduplicate_facts demo_window = Inr demo_window"
  "filter (\<lambda>f. tf_symbol f = ''005930'') demo_window = demo_window"
  by (rule deduplicate_facts_clean)
    (simp_all add: demo_window_def demo_fact_def normalized_fact_def fact_time_def fact_key_def loss_strings)

lemma demo_locks: "locks demo_loss_config 1000 demo_window"
  by (simp add: locks_def trailing_losses_def demo_window_def demo_fact_def normalized_fact_def fact_time_def
      is_stop_loss_def normalize_reason_def demo_loss_config_def loss_strings)

lemma demo_evaluation:
  "evaluate_shadow_loss_streak demo_facts 7 ''paper:1'' ''KRX'' ''005930'' (Aware 1000) demo_loss_config
    = observed 7 ''paper:1'' ''KRX'' ''005930'' 1000 demo_loss_config demo_window demo_window"
proof -
  have "prepare_facts demo_facts 7 ''paper:1'' ''KRX'' 1000 1000 = Inr demo_window"
    by (simp add: prepare_facts_Inr demo_doubtful demo_window_facts)
  moreover have "lc_lookback demo_loss_config = 1000" by (simp add: demo_loss_config_def)
  moreover have "demo_window \<noteq> []" by (simp add: demo_window_def)
  ultimately show ?thesis
    using evaluate_valid_scope [of 7 "''paper:1''" "''KRX''" "''005930''" 1000 demo_facts demo_loss_config]
    by (simp add: loss_strings demo_scope demo_dedup Let_def)
qed

subsection \<open>Properties\<close>

text \<open>
  C26: For a valid result the account-wide lock holds exactly when the facts of the look-back
  window, in order of execution and without repeated transactions, end in at least
  \<open>loss_limit\<close> consecutive stop losses whose newest one is younger than the lock duration; the
  symbol lock is the same statement about the symbol's facts, and BUY is locked exactly when one
  of the two holds.
\<close>

theorem loss_lock_iff_trailing_losses:
  assumes "r = evaluate_shadow_loss_streak facts owner account market symbol (Aware now) config"
    and "lr_status r = VALID"
    and "window = window_facts owner account (strip_upper market) now (lc_lookback config) facts"
  shows "\<exists>global_facts symbol_facts.
      deduplicate_facts window = Inr global_facts
    \<and> deduplicate_facts (filter (\<lambda>f. tf_symbol f = strip_upper symbol) window) = Inr symbol_facts
    \<and> (ob_buy_locked (lr_global_lock r) \<longleftrightarrow> locks config now global_facts)
    \<and> (ob_buy_locked (lr_symbol_lock r) \<longleftrightarrow> locks config now symbol_facts)
    \<and> (effective_buy_locked r \<longleftrightarrow> locks config now global_facts \<or> locks config now symbol_facts)
    \<and> subseq global_facts window \<and> distinct (map tf_transaction_id global_facts)
    \<and> distinct (map tf_trade_id global_facts)
    \<and> (\<forall>f\<in>set window. tf_transaction_id f \<in> tf_transaction_id ` set global_facts
                         \<or> tf_trade_id f \<in> tf_trade_id ` set global_facts)"
  using assms(2) unfolding assms(1)
proof (rule evaluate_VALID, goal_cases)
  case (1 now' gs ss)
  then have now: "now' = now" by simp
  have dedup: "deduplicate_facts window = Inr gs" using 1 now assms(3) by simp
  note spec = dedup_loop_spec [OF dedup [unfolded deduplicate_facts_def]]
  have "ob_buy_locked (lr_global_lock r) \<longleftrightarrow> locks config now gs"
    and "ob_buy_locked (lr_symbol_lock r) \<longleftrightarrow> locks config now ss"
    using 1 now assms(1) by (simp_all add: observed_def observe_scope_locks)
  then show ?case
    using dedup 1(5) now assms(1,3) spec unfolding effective_buy_locked_def by auto
qed

theorem loss_lock_iff_trailing_losses_witness:
  "lr_status (evaluate_shadow_loss_streak demo_facts 7 ''paper:1'' ''KRX'' ''005930'' (Aware 1000) demo_loss_config) = VALID
   \<and> effective_buy_locked
        (evaluate_shadow_loss_streak demo_facts 7 ''paper:1'' ''KRX'' ''005930'' (Aware 1000) demo_loss_config)"
proof -
  let ?r = "evaluate_shadow_loss_streak demo_facts 7 ''paper:1'' ''KRX'' ''005930'' (Aware 1000) demo_loss_config"
  have valid: "lr_status ?r = VALID" by (simp add: demo_evaluation observed_def)
  have window: "demo_window
      = window_facts 7 ''paper:1'' (strip_upper ''KRX'') 1000 (lc_lookback demo_loss_config) demo_facts"
    using demo_window_facts by (simp add: loss_strings demo_loss_config_def)
  from loss_lock_iff_trailing_losses [OF refl valid window] demo_dedup(1) demo_locks valid
  show ?thesis by auto
qed

text \<open>
  The evaluation fails closed on the buying side only: whatever is not a valid result locks
  both scopes; a naive evaluation time, or a fact in scope with a naive time or without usable
  identifiers, never gives a valid result; and selling and risk reduction stay allowed in every
  result.
\<close>

theorem loss_streak_fails_closed:
  assumes "r = evaluate_shadow_loss_streak facts owner account market symbol evaluated_at config"
  shows "(lr_status r \<noteq> VALID \<longrightarrow> ob_buy_locked (lr_global_lock r) \<and> ob_buy_locked (lr_symbol_lock r))
    \<and> (utc_or_none evaluated_at = None \<longrightarrow> lr_status r = FAIL_CLOSED)
    \<and> (\<forall>f\<in>set facts. \<forall>now. evaluated_at = Aware now
         \<longrightarrow> doubtful owner account (strip_upper market) now (lc_lookback config) f \<longrightarrow> lr_status r \<noteq> VALID)
    \<and> ob_sell_allowed (lr_global_lock r) \<and> ob_sell_allowed (lr_symbol_lock r)"
proof (intro conjI impI ballI allI)
  show "lr_status r = FAIL_CLOSED" if "utc_or_none evaluated_at = None"
  proof -
    from that have "\<not> loss_scope_valid owner account (strip_upper market) (strip_upper symbol) evaluated_at"
      by (simp add: loss_scope_valid_def)
    from evaluate_invalid_scope [OF this] assms show ?thesis by simp
  qed
  show "lr_status r \<noteq> VALID"
    if "f \<in> set facts" "evaluated_at = Aware now"
      "doubtful owner account (strip_upper market) now (lc_lookback config) f" for f now
    using that assms by (auto simp: filter_empty_conv elim: evaluate_VALID)
  from evaluate_shape [of facts owner account market symbol evaluated_at config]
  show "ob_sell_allowed (lr_global_lock r)" "ob_sell_allowed (lr_symbol_lock r)"
    unfolding assms by (auto simp: non_valid_locks observed_def observe_scope_sells elim: evaluate_VALID)
  from evaluate_shape [of facts owner account market symbol evaluated_at config]
  show "ob_buy_locked (lr_global_lock r)" "ob_buy_locked (lr_symbol_lock r)" if "lr_status r \<noteq> VALID"
    using that unfolding assms by (auto simp: non_valid_locks)
qed

theorem loss_streak_fails_closed_witness:
  "lr_status (evaluate_shadow_loss_streak demo_facts 7 ''paper:1'' ''KRX'' ''005930'' (Naive 1000) demo_loss_config)
     = FAIL_CLOSED
   \<and> ob_buy_locked (lr_global_lock
        (evaluate_shadow_loss_streak demo_facts 7 ''paper:1'' ''KRX'' ''005930'' (Naive 1000) demo_loss_config))
   \<and> ob_sell_allowed (lr_global_lock
        (evaluate_shadow_loss_streak demo_facts 7 ''paper:1'' ''KRX'' ''005930'' (Naive 1000) demo_loss_config))"
  using loss_streak_fails_closed [OF refl, of demo_facts 7 "''paper:1''" "''KRX''" "''005930''" "Naive 1000"
      demo_loss_config]
  by simp

text \<open>
  The order in which the facts are supplied does not matter: two lists with the same facts,
  none of them doubtful and no two with the same time and id, give the same result.
\<close>

theorem loss_streak_order_independent:
  assumes "mset facts = mset facts'"
    and "\<forall>f\<in>set facts. \<not> doubtful owner account (strip_upper market) now (lc_lookback config) f"
    and "distinct (map fact_key (window_facts owner account (strip_upper market) now (lc_lookback config) facts))"
  shows "evaluate_shadow_loss_streak facts owner account market symbol (Aware now) config
    = evaluate_shadow_loss_streak facts' owner account market symbol (Aware now) config"
proof -
  have "set facts = set facts'" using assms(1) by (metis set_mset_mset)
  with assms(2) have clean: "filter (doubtful owner account (strip_upper market) now (lc_lookback config)) fs = []"
    if "fs = facts \<or> fs = facts'" for fs
    using that by (auto simp: filter_empty_conv)
  have "prepare_facts facts owner account (strip_upper market) now (lc_lookback config)
      = prepare_facts facts' owner account (strip_upper market) now (lc_lookback config)"
    using clean window_facts_perm [OF assms(1,3)] by (simp add: prepare_facts_Inr [THEN iffD2])
  then show ?thesis
    by (cases "loss_scope_valid owner account (strip_upper market) (strip_upper symbol) (Aware now)")
      (simp_all add: evaluate_valid_scope evaluate_invalid_scope)
qed

theorem loss_streak_order_independent_witness:
  "evaluate_shadow_loss_streak demo_facts 7 ''paper:1'' ''KRX'' ''005930'' (Aware 1000) demo_loss_config
   = evaluate_shadow_loss_streak (rev demo_facts) 7 ''paper:1'' ''KRX'' ''005930'' (Aware 1000) demo_loss_config"
proof (rule loss_streak_order_independent)
  have look: "lc_lookback demo_loss_config = 1000" by (simp add: demo_loss_config_def)
  show "\<forall>f\<in>set demo_facts.
      \<not> doubtful 7 ''paper:1'' (strip_upper ''KRX'') 1000 (lc_lookback demo_loss_config) f"
    using demo_doubtful by (simp add: loss_strings look filter_empty_conv)
  show "distinct (map fact_key
      (window_facts 7 ''paper:1'' (strip_upper ''KRX'') 1000 (lc_lookback demo_loss_config) demo_facts))"
    by (simp add: loss_strings look demo_window_facts)
      (simp add: demo_window_def demo_fact_def normalized_fact_def fact_time_def fact_key_def)
qed simp

text \<open>
  The canonical JSON text that is hashed into the configuration fingerprint is the same for
  two configurations exactly when they are the same configuration.
\<close>

theorem loss_config_text_inject:
  fixes c c' :: shadow_loss_streak_config
  shows "json_dumps (loss_config_serializable c) = json_dumps (loss_config_serializable c') \<longleftrightarrow> c = c'"
proof
  assume "json_dumps (loss_config_serializable c) = json_dumps (loss_config_serializable c')"
  from json_dumps_inject [OF this] show "c = c'"
    by (auto simp: loss_config_serializable_def inj_map_eq_map inj_def intro!: shadow_loss_streak_config.equality)
qed simp

end
