(* ===== verification/Versioned_Store.thy ===== *)
theory Versioned_Store
  imports Json_Text
begin

text \<open>
  The contract of a table whose rows carry a version and are only ever replaced by newer ones.
  A command (one call of a persistence function, successful or not) takes the table to the
  table it leaves behind. Also the vocabulary of check constraints. Interpreted for the loss-lock table and for the high-watermark table.
\<close>

subsection \<open>Column checks\<close>

text \<open>\<open>btrim\<close> removes spaces only.\<close>

definition btrim :: "string \<Rightarrow> string" where
  "btrim s = rev (dropWhile (\<lambda>c. c = CHR '' '') (rev (dropWhile (\<lambda>c. c = CHR '' '') s)))"

definition is_json_object :: "json \<Rightarrow> bool" where
  "is_json_object v = (case v of JObj _ \<Rightarrow> True | _ \<Rightarrow> False)"

lemma dropWhile_any: "(\<exists>c\<in>set (dropWhile P s). \<not> P c) \<longleftrightarrow> (\<exists>c\<in>set s. \<not> P c)"
  by (induction s) auto

lemma btrim_nonempty: "btrim s \<noteq> [] \<longleftrightarrow> (\<exists>c\<in>set s. c \<noteq> CHR '' '')"
  using dropWhile_any [of "\<lambda>c. c = CHR '' ''" s] by (simp add: btrim_def)

lemma py_strip_nonempty: "py_strip s \<noteq> [] \<longleftrightarrow> (\<exists>c\<in>set s. \<not> is_space c)"
  using dropWhile_any [of is_space s] by (simp add: py_strip_def)

lemma py_strip_btrim:
  assumes "py_strip s \<noteq> []"
  shows "btrim s \<noteq> []"
proof -
  have "is_space (CHR '' '')" by (simp add: is_space_def)
  with assms show ?thesis unfolding btrim_nonempty py_strip_nonempty by metis
qed

lemma strip_upper_nonempty: "strip_upper s \<noteq> [] \<longleftrightarrow> py_strip s \<noteq> []"
  by (simp add: strip_upper_def py_upper_def)

subsection \<open>Runs of commands\<close>

definition run_commands :: "(('k \<rightharpoonup> 'v) \<Rightarrow> 'c \<Rightarrow> ('k \<rightharpoonup> 'v)) \<Rightarrow> ('k \<rightharpoonup> 'v) \<Rightarrow> 'c list \<Rightarrow> ('k \<rightharpoonup> 'v)" where
  "run_commands step t cs = fold (\<lambda>c u. step u c) cs t"

lemma run_commands_simps [simp]:
  "run_commands step t [] = t"
  "run_commands step t (c # cs) = run_commands step (step t c) cs"
  by (simp_all add: run_commands_def)

locale versioned_store =
  fixes step :: "('k \<rightharpoonup> 'v) \<Rightarrow> 'c \<Rightarrow> ('k \<rightharpoonup> 'v)"
    and version :: "'v \<Rightarrow> 'n::linorder"
    and row_ok :: "'k \<Rightarrow> 'v \<Rightarrow> bool"
  assumes step_keeps: "t k = Some v \<Longrightarrow> \<exists>w. step t c k = Some w \<and> (w = v \<or> version v < version w)"
    and step_ok: "step t c k = Some w \<Longrightarrow> t k = Some w \<or> row_ok k w"
begin

lemma run_keeps:
  assumes "t k = Some v"
  shows "\<exists>w. run_commands step t cs k = Some w \<and> (w = v \<or> version v < version w)"
  using assms
proof (induction cs arbitrary: t v)
  case (Cons c cs)
  from step_keeps [of t k v c, OF Cons.prems] obtain u where u: "step t c k = Some u" "u = v \<or> version v < version u"
    by blast
  from Cons.IH [of "step t c", OF u(1)] obtain w where "run_commands step (step t c) cs k = Some w" "w = u \<or> version u < version w"
    by blast
  with u(2) show ?case by auto
qed simp

text \<open>A row that still has its version was never rewritten.\<close>

lemma run_same_version:
  assumes "t k = Some v" and "run_commands step t cs k = Some w" and "version w \<le> version v"
  shows "w = v"
  using run_keeps [of t k v cs] assms by auto

lemma run_ok:
  assumes "\<And>k v. t k = Some v \<Longrightarrow> row_ok k v" and "run_commands step t cs k = Some w"
  shows "row_ok k w"
  using assms
proof (induction cs arbitrary: t)
  case (Cons c cs)
  have "row_ok k' v" if "step t c k' = Some v" for k' v
    using step_ok [of t c k' v, OF that] Cons.prems(1) by blast
  from Cons.IH [of "step t c", OF this] Cons.prems(2) show ?case by simp
qed simp

end

end
