(* ===== verification/Loss_Streak_Store.thy ===== *)
theory Loss_Streak_Store
  imports Loss_Streak_Rules Versioned_Store
begin

text \<open>
  Persistence of the loss locks: the lower half of \<open>shadow_loss_streak.py\<close> over the table
  \<open>kasset_shadow_loss_locks\<close> of \<open>app/extensions/kasset/models.py\<close>.

  The table is a map from its primary key to rows; a statement has the meaning PostgreSQL
  documents for it. The check constraints of the table are part of the model: a row that breaks
  one raises \<open>IntegrityError\<close>. The reference to \<open>users\<close>, integer widths and the bookkeeping
  columns \<open>created_at\<close> and \<open>updated_at\<close> are left out.
\<close>

subsection \<open>States\<close>

record shadow_loss_lock_state =
  st_owner_user_id :: int
  st_account_key :: string
  st_market :: string
  st_scope :: shadow_lock_scope
  st_symbol :: "string option"
  st_evaluated_at :: py_datetime
  st_streak_count :: nat
  st_loss_limit :: int
  st_newest_loss_id :: "int option"
  st_newest_loss_transaction_id :: "string option"
  st_newest_loss_trade_id :: "string option"
  st_newest_loss_at :: "instant option"
  st_expires_at :: "instant option"
  st_buy_locked :: bool
  st_reason :: shadow_loss_reason
  st_config_fingerprint :: string
  st_schema_version :: string
  st_evidence_version :: string
  st_mode :: string
  st_status :: shadow_loss_status

definition from_observation :: "shadow_loss_lock_observation \<Rightarrow> shadow_loss_lock_state" where
  "from_observation ob =
     \<lparr>st_owner_user_id = ob_owner_user_id ob, st_account_key = ob_account_key ob, st_market = ob_market ob,
      st_scope = ob_scope ob, st_symbol = ob_symbol ob, st_evaluated_at = ob_evaluated_at ob,
      st_streak_count = ob_streak_count ob, st_loss_limit = ob_loss_limit ob,
      st_newest_loss_id = ob_newest_loss_id ob,
      st_newest_loss_transaction_id = ob_newest_loss_transaction_id ob,
      st_newest_loss_trade_id = ob_newest_loss_trade_id ob, st_newest_loss_at = ob_newest_loss_at ob,
      st_expires_at = ob_expires_at ob, st_buy_locked = ob_buy_locked ob, st_reason = ob_reason ob,
      st_config_fingerprint = ob_config_fingerprint ob, st_schema_version = ob_schema_version ob,
      st_evidence_version = ob_evidence_version ob, st_mode = shadow_mode, st_status = VALID\<rparr>"

definition persistent_states :: "shadow_loss_streak_result \<Rightarrow> shadow_loss_lock_state list" where
  "persistent_states r =
     (if lr_status r \<noteq> VALID then []
      else [from_observation (lr_global_lock r), from_observation (lr_symbol_lock r)])"

definition lock_state_evidence :: "shadow_loss_lock_state \<Rightarrow> json" where
  "lock_state_evidence st = JObj
     [(''schemaVersion'', JStr (st_schema_version st)),
      (''evidenceVersion'', JStr (st_evidence_version st)),
      (''mode'', JStr (st_mode st)),
      (''status'', JStr (loss_status_value (st_status st))),
      (''scope'', JObj
        [(''kind'', JStr (lock_scope_value (st_scope st))),
         (''symbol'', json_optional JStr (st_symbol st)),
         (''ownerUserId'', JInt (st_owner_user_id st)),
         (''accountKey'', JStr (st_account_key st)),
         (''market'', JStr (st_market st))]),
      (''sourceTimestamps'', JObj
        [(''evaluatedAt'', timestamp_text (st_evaluated_at st)),
         (''newestLossAt'', json_optional instant_text (st_newest_loss_at st)),
         (''expiresAt'', json_optional instant_text (st_expires_at st))]),
      (''shadowConfigFingerprint'', JStr (st_config_fingerprint st)),
      (''streakCount'', JInt (int (st_streak_count st))),
      (''lossLimit'', JInt (st_loss_limit st)),
      (''newestLossId'', json_optional JInt (st_newest_loss_id st)),
      (''newestLossTransactionId'', json_optional JStr (st_newest_loss_transaction_id st)),
      (''newestLossTradeId'', json_optional JStr (st_newest_loss_trade_id st)),
      (''reason'', JStr (loss_reason_value (st_reason st))),
      (''hypotheticalBuyLocked'', JBool (st_buy_locked st)),
      (''sellAllowed'', JBool True),
      (''positionManagerRiskReductionAllowed'', JBool True)]"

subsection \<open>Rows and the table\<close>

type_synonym lock_key = "int \<times> string \<times> string \<times> string \<times> string"

record shadow_loss_row =
  row_owner_user_id :: int
  row_account_key :: string
  row_market :: string
  row_lock_scope :: string
  row_symbol :: string
  row_evaluated_at :: instant
  row_streak_count :: int
  row_loss_limit :: int
  row_newest_loss_id :: "int option"
  row_newest_loss_transaction_id :: "string option"
  row_newest_loss_trade_id :: "string option"
  row_newest_loss_at :: "instant option"
  row_expires_at :: "instant option"
  row_buy_locked :: bool
  row_lock_reason :: string
  row_config_fingerprint :: string
  row_schema_version :: string
  row_evidence_version :: string
  row_status :: string
  row_mode :: string
  row_evidence :: json

type_synonym lock_table = "lock_key \<rightharpoonup> shadow_loss_row"

definition row_key :: "shadow_loss_row \<Rightarrow> lock_key" where
  "row_key row = (row_owner_user_id row, row_account_key row, row_market row, row_lock_scope row, row_symbol row)"

definition newest_consistent :: "shadow_loss_row \<Rightarrow> bool" where
  "newest_consistent row \<longleftrightarrow>
     (row_streak_count row = 0 \<and> row_newest_loss_id row = None \<and> row_newest_loss_transaction_id row = None
        \<and> row_newest_loss_trade_id row = None \<and> row_newest_loss_at row = None \<and> row_expires_at row = None)
     \<or> (0 < row_streak_count row \<and> row_newest_loss_id row \<noteq> None \<and> row_newest_loss_transaction_id row \<noteq> None
        \<and> row_newest_loss_trade_id row \<noteq> None \<and> row_newest_loss_at row \<noteq> None \<and> row_expires_at row \<noteq> None)"

definition loss_row_constraints :: "shadow_loss_row \<Rightarrow> bool" where
  "loss_row_constraints row \<longleftrightarrow>
     btrim (row_account_key row) \<noteq> []
     \<and> row_market row \<in> {''KRX'', ''US''}
     \<and> row_lock_scope row \<in> {''GLOBAL'', ''SYMBOL''}
     \<and> (row_lock_scope row = ''GLOBAL'' \<and> row_symbol row = []
        \<or> row_lock_scope row = ''SYMBOL'' \<and> btrim (row_symbol row) \<noteq> [])
     \<and> row_mode row = ''SHADOW''
     \<and> row_status row = ''valid''
     \<and> 0 \<le> row_streak_count row \<and> 0 < row_loss_limit row
     \<and> newest_consistent row
     \<and> (case (row_expires_at row, row_newest_loss_at row) of
          (Some expires, Some newest) \<Rightarrow> newest < expires | _ \<Rightarrow> True)
     \<and> row_buy_locked row =
         (row_loss_limit row \<le> row_streak_count row
          \<and> (case row_expires_at row of None \<Rightarrow> False | Some expires \<Rightarrow> row_evaluated_at row < expires))
     \<and> btrim (row_lock_reason row) \<noteq> [] \<and> btrim (row_config_fingerprint row) \<noteq> []
     \<and> btrim (row_schema_version row) \<noteq> [] \<and> btrim (row_evidence_version row) \<noteq> []
     \<and> is_json_object (row_evidence row)"

subsection \<open>From observations to rows and back\<close>

definition scope_symbol_key :: "shadow_lock_scope \<Rightarrow> string option \<Rightarrow> string result" where
  "scope_symbol_key scope symbol =
     (case scope of
        GLOBAL \<Rightarrow> if symbol \<noteq> None then Inl (ValueError ''GLOBAL lock scope cannot have a symbol'') else Inr []
      | SYMBOL \<Rightarrow>
          let normalized = strip_upper (case symbol of None \<Rightarrow> [] | Some s \<Rightarrow> s)
          in if normalized = [] then Inl (ValueError ''SYMBOL lock scope requires a symbol'') else Inr normalized)"

text \<open>The dictionary of column values.\<close>

definition observation_row :: "shadow_loss_lock_observation \<Rightarrow> instant \<Rightarrow> string \<Rightarrow> shadow_loss_row" where
  "observation_row ob evaluated_at symbol =
     \<lparr>row_owner_user_id = ob_owner_user_id ob, row_account_key = ob_account_key ob,
      row_market = ob_market ob, row_lock_scope = lock_scope_value (ob_scope ob), row_symbol = symbol,
      row_evaluated_at = evaluated_at, row_streak_count = int (ob_streak_count ob),
      row_loss_limit = ob_loss_limit ob, row_newest_loss_id = ob_newest_loss_id ob,
      row_newest_loss_transaction_id = ob_newest_loss_transaction_id ob,
      row_newest_loss_trade_id = ob_newest_loss_trade_id ob, row_newest_loss_at = ob_newest_loss_at ob,
      row_expires_at = ob_expires_at ob, row_buy_locked = ob_buy_locked ob,
      row_lock_reason = loss_reason_value (ob_reason ob), row_config_fingerprint = ob_config_fingerprint ob,
      row_schema_version = ob_schema_version ob, row_evidence_version = ob_evidence_version ob,
      row_status = loss_status_value (ob_status ob), row_mode = ob_mode ob,
      row_evidence = observation_evidence ob\<rparr>"

definition persistence_values :: "shadow_loss_lock_observation \<Rightarrow> shadow_loss_row result" where
  "persistence_values ob =
     bindr (require_aware ''evaluated_at must be timezone-aware'' (ob_evaluated_at ob)) (\<lambda>evaluated_at.
     bindr (scope_symbol_key (ob_scope ob) (ob_symbol ob)) (\<lambda>symbol.
     Inr (observation_row ob evaluated_at symbol)))"

text \<open>\<open>Enum(value)\<close>: the member with that value, or a \<open>ValueError\<close>.\<close>

definition enum_of :: "('a \<Rightarrow> string) \<Rightarrow> 'a list \<Rightarrow> string \<Rightarrow> 'a result" where
  "enum_of val members text =
     (case find (\<lambda>m. val m = text) members of None \<Rightarrow> Inl (ValueError text) | Some m \<Rightarrow> Inr m)"

definition loss_row_to_state :: "shadow_loss_row \<Rightarrow> shadow_loss_lock_state result" where
  "loss_row_to_state row =
     bindr (enum_of lock_scope_value [GLOBAL, SYMBOL] (row_lock_scope row)) (\<lambda>scope.
     bindr (enum_of loss_reason_value [LIMIT_REACHED, BELOW_LIMIT, EXPIRED, INSUFFICIENT_FACTS, INVALID_SCOPE,
              INVALID_TIMESTAMP, INVALID_FACT_SCHEMA, ORDERING_COLLISION] (row_lock_reason row)) (\<lambda>why.
     bindr (enum_of loss_status_value [VALID, INSUFFICIENT, FAIL_CLOSED] (row_status row)) (\<lambda>status.
     Inr \<lparr>st_owner_user_id = row_owner_user_id row, st_account_key = row_account_key row,
          st_market = row_market row, st_scope = scope,
          st_symbol = (case scope of GLOBAL \<Rightarrow> None | SYMBOL \<Rightarrow> Some (row_symbol row)),
          st_evaluated_at = Aware (row_evaluated_at row), st_streak_count = nat (row_streak_count row),
          st_loss_limit = row_loss_limit row, st_newest_loss_id = row_newest_loss_id row,
          st_newest_loss_transaction_id = row_newest_loss_transaction_id row,
          st_newest_loss_trade_id = row_newest_loss_trade_id row, st_newest_loss_at = row_newest_loss_at row,
          st_expires_at = row_expires_at row, st_buy_locked = row_buy_locked row, st_reason = why,
          st_config_fingerprint = row_config_fingerprint row, st_schema_version = row_schema_version row,
          st_evidence_version = row_evidence_version row, st_mode = row_mode row, st_status = status\<rparr>)))"

subsection \<open>Loading and persisting\<close>

definition load_shadow_loss_lock_state ::
    "lock_table \<Rightarrow> int \<Rightarrow> string \<Rightarrow> string \<Rightarrow> shadow_lock_scope \<Rightarrow> string option \<Rightarrow> py_datetime option
      \<Rightarrow> shadow_loss_lock_state option result" where
  "load_shadow_loss_lock_state t owner_user_id account_key market scope symbol active_at =
     bindr (scope_symbol_key scope symbol) (\<lambda>symbol_key.
     bindr (require_aware_opt ''active_at must be timezone-aware'' active_at) (\<lambda>active.
     case t (owner_user_id, account_key, strip_upper market, lock_scope_value scope, symbol_key) of
       None \<Rightarrow> Inr None
     | Some row \<Rightarrow>
         (case active of
            None \<Rightarrow> bindr (loss_row_to_state row) (\<lambda>st. Inr (Some st))
          | Some moment \<Rightarrow>
              if row_buy_locked row
                 \<and> (case row_expires_at row of None \<Rightarrow> False | Some expires \<Rightarrow> moment < expires)
              then bindr (loss_row_to_state row) (\<lambda>st. Inr (Some st)) else Inr None)))"

text \<open>
  \<open>insert ... on conflict do update ... where evaluated_at < excluded.evaluated_at returning\<close>.
\<close>

definition upsert_loss_lock :: "lock_table \<Rightarrow> shadow_loss_row \<Rightarrow> (lock_table \<times> shadow_loss_row option) result" where
  "upsert_loss_lock t row =
     (if \<not> loss_row_constraints row then Inl (IntegrityError ''kasset_shadow_loss_locks'')
      else case t (row_key row) of
        None \<Rightarrow> Inr (t(row_key row \<mapsto> row), Some row)
      | Some old \<Rightarrow>
          if row_evaluated_at old < row_evaluated_at row then Inr (t(row_key row \<mapsto> row), Some row)
          else Inr (t, None))"

text \<open>One turn of the loop: the table it leaves and what it appends or raises.\<close>

definition persist_observation ::
    "lock_table \<Rightarrow> shadow_loss_lock_observation \<Rightarrow> lock_table \<times> shadow_loss_lock_state result" where
  "persist_observation t ob =
     (let expected = from_observation ob in
      case bindr (persistence_values ob) (upsert_loss_lock t) of
        Inl e \<Rightarrow> (t, Inl e)
      | Inr (t', Some row) \<Rightarrow> (t', loss_row_to_state row)
      | Inr (t', None) \<Rightarrow>
          (t', bindr (load_shadow_loss_lock_state t' (ob_owner_user_id ob) (ob_account_key ob) (ob_market ob)
                        (ob_scope ob) (ob_symbol ob) None) (\<lambda>existing.
               if existing = Some expected then Inr expected
               else Inl (ConcurrentUpdate
                 ''persisted SHADOW loss-lock state is newer or differs at the same timestamp''))))"

definition persist_shadow_loss_locks ::
    "lock_table \<Rightarrow> shadow_loss_streak_result \<Rightarrow> lock_table \<times> shadow_loss_lock_state list result" where
  "persist_shadow_loss_locks t r =
     (if lr_status r \<noteq> VALID
      then (t, Inl (ValueError ''only valid SHADOW loss-streak results may be persisted''))
      else case persist_observation t (lr_global_lock r) of
        (t1, Inl e) \<Rightarrow> (t1, Inl e)
      | (t1, Inr global_state) \<Rightarrow>
          (case persist_observation t1 (lr_symbol_lock r) of
             (t2, Inl e) \<Rightarrow> (t2, Inl e)
           | (t2, Inr symbol_state) \<Rightarrow> (t2, Inr [global_state, symbol_state])))"

subsection \<open>Rows carry the observation\<close>

lemma enum_of_scope [simp]: "enum_of lock_scope_value [GLOBAL, SYMBOL] (lock_scope_value x) = Inr x"
  by (cases x) (simp_all add: enum_of_def)

lemma enum_of_reason [simp]:
  "enum_of loss_reason_value [LIMIT_REACHED, BELOW_LIMIT, EXPIRED, INSUFFICIENT_FACTS, INVALID_SCOPE,
     INVALID_TIMESTAMP, INVALID_FACT_SCHEMA, ORDERING_COLLISION] (loss_reason_value x) = Inr x"
  by (cases x) (simp_all add: enum_of_def)

lemma enum_of_status [simp]:
  "enum_of loss_status_value [VALID, INSUFFICIENT, FAIL_CLOSED] (loss_status_value x) = Inr x"
  by (cases x) (simp_all add: enum_of_def)

text \<open>An observation in the form the evaluation produces it.\<close>

definition normal_observation :: "shadow_loss_lock_observation \<Rightarrow> bool" where
  "normal_observation ob \<longleftrightarrow> ob_status ob = VALID \<and> ob_mode ob = shadow_mode \<and> is_aware (ob_evaluated_at ob)
     \<and> strip_upper (ob_market ob) = ob_market ob
     \<and> (case ob_scope ob of GLOBAL \<Rightarrow> ob_symbol ob = None
        | SYMBOL \<Rightarrow> (\<exists>s. ob_symbol ob = Some s \<and> s \<noteq> [] \<and> strip_upper s = s))"

definition observation_key :: "shadow_loss_lock_observation \<Rightarrow> lock_key" where
  "observation_key ob = (ob_owner_user_id ob, ob_account_key ob, ob_market ob, lock_scope_value (ob_scope ob),
     (case ob_symbol ob of None \<Rightarrow> [] | Some s \<Rightarrow> s))"

lemma observation_row_state:
  "loss_row_to_state (observation_row ob now symbol) =
     Inr ((from_observation ob)\<lparr>st_symbol := (case ob_scope ob of GLOBAL \<Rightarrow> None | SYMBOL \<Rightarrow> Some symbol),
            st_evaluated_at := Aware now, st_mode := ob_mode ob, st_status := ob_status ob\<rparr>)"
  by (simp add: loss_row_to_state_def observation_row_def from_observation_def split: shadow_lock_scope.split)

lemma normal_observation_row:
  assumes "normal_observation ob"
  obtains now where "ob_evaluated_at ob = Aware now"
    and "persistence_values ob = Inr (observation_row ob now (case ob_symbol ob of None \<Rightarrow> [] | Some s \<Rightarrow> s))"
    and "(case ob_scope ob of GLOBAL \<Rightarrow> None | SYMBOL \<Rightarrow> Some (case ob_symbol ob of None \<Rightarrow> [] | Some s \<Rightarrow> s)) = ob_symbol ob"
  using assms
  by (cases "ob_evaluated_at ob"; cases "ob_scope ob")
    (auto simp: normal_observation_def persistence_values_def scope_symbol_key_def Let_def)

lemma persistence_values_normal:
  assumes "normal_observation ob"
  obtains row where "persistence_values ob = Inr row" and "loss_row_to_state row = Inr (from_observation ob)"
    and "row_key row = observation_key ob" and "Aware (row_evaluated_at row) = ob_evaluated_at ob"
proof (rule normal_observation_row [OF assms])
  fix now
  let ?row = "observation_row ob now (case ob_symbol ob of None \<Rightarrow> [] | Some s \<Rightarrow> s)"
  assume now: "ob_evaluated_at ob = Aware now" and row: "persistence_values ob = Inr ?row"
    and symbol: "(case ob_scope ob of GLOBAL \<Rightarrow> None | SYMBOL \<Rightarrow> Some (case ob_symbol ob of None \<Rightarrow> [] | Some s \<Rightarrow> s)) = ob_symbol ob"
  show thesis
  proof (rule that [OF row])
    show "loss_row_to_state ?row = Inr (from_observation ob)"
      using assms unfolding observation_row_state symbol
      by (simp add: from_observation_def now normal_observation_def)
    show "row_key ?row = observation_key ob"
      by (simp add: row_key_def observation_key_def observation_row_def)
    show "Aware (row_evaluated_at ?row) = ob_evaluated_at ob" by (simp add: observation_row_def now)
  qed
qed

lemma load_normal:
  assumes "normal_observation ob"
  shows "load_shadow_loss_lock_state t (ob_owner_user_id ob) (ob_account_key ob) (ob_market ob) (ob_scope ob)
      (ob_symbol ob) None
    = (case t (observation_key ob) of None \<Rightarrow> Inr None
       | Some row \<Rightarrow> bindr (loss_row_to_state row) (\<lambda>st. Inr (Some st)))"
  using assms
  by (cases "ob_scope ob") (auto simp: normal_observation_def load_shadow_loss_lock_state_def scope_symbol_key_def
      observation_key_def require_aware_opt_def Let_def split: option.split)

subsection \<open>The table only moves forward\<close>

lemma upsert_cases:
  assumes "upsert_loss_lock t row = Inr (t', out)"
  shows "loss_row_constraints row
    \<and> (t' = t \<and> out = None \<and> (\<exists>old. t (row_key row) = Some old \<and> row_evaluated_at row \<le> row_evaluated_at old)
       \<or> t' = t(row_key row \<mapsto> row) \<and> out = Some row
         \<and> (\<forall>old. t (row_key row) = Some old \<longrightarrow> row_evaluated_at old < row_evaluated_at row))"
  using assms by (auto simp: upsert_loss_lock_def split: if_splits option.splits)

lemma persist_observation_table:
  "fst (persist_observation t ob) = t
   \<or> (\<exists>row. persistence_values ob = Inr row \<and> loss_row_constraints row
        \<and> fst (persist_observation t ob) = t(row_key row \<mapsto> row)
        \<and> (\<forall>old. t (row_key row) = Some old \<longrightarrow> row_evaluated_at old < row_evaluated_at row))"
proof (cases "bindr (persistence_values ob) (upsert_loss_lock t)")
  case (Inl e)
  then show ?thesis by (simp add: persist_observation_def Let_def)
next
  case (Inr res)
  then obtain row t' out where vals: "persistence_values ob = Inr row" and up: "upsert_loss_lock t row = Inr (t', out)"
    and res: "res = (t', out)" by (cases res) (auto elim!: bindrE)
  have "fst (persist_observation t ob) = t'"
    using Inr res by (cases out) (simp_all add: persist_observation_def Let_def)
  with upsert_cases [OF up] vals show ?thesis by auto
qed

lemma persist_observation_keeps:
  assumes "t k = Some v"
  shows "\<exists>w. fst (persist_observation t ob) k = Some w \<and> (w = v \<or> row_evaluated_at v < row_evaluated_at w)"
  using persist_observation_table [of t ob] assms by (auto split: if_splits)

lemma persist_observation_ok:
  assumes "fst (persist_observation t ob) k = Some w"
  shows "t k = Some w \<or> row_key w = k \<and> loss_row_constraints w"
  using persist_observation_table [of t ob] assms by (auto split: if_splits)

lemma persist_table_cases:
  "fst (persist_shadow_loss_locks t r) = t
   \<or> fst (persist_shadow_loss_locks t r) = fst (persist_observation t (lr_global_lock r))
   \<or> fst (persist_shadow_loss_locks t r)
       = fst (persist_observation (fst (persist_observation t (lr_global_lock r))) (lr_symbol_lock r))"
  by (auto simp: persist_shadow_loss_locks_def split: prod.split sum.split)

definition persist_step :: "lock_table \<Rightarrow> shadow_loss_streak_result \<Rightarrow> lock_table" where
  "persist_step t r = fst (persist_shadow_loss_locks t r)"

interpretation loss_locks: versioned_store persist_step row_evaluated_at
    "\<lambda>k row. row_key row = k \<and> loss_row_constraints row"
proof
  fix t :: lock_table and r :: shadow_loss_streak_result and k v
  assume v: "t k = Some v"
  from persist_observation_keeps [of t k v, OF v, of "lr_global_lock r"] obtain u where
    u: "fst (persist_observation t (lr_global_lock r)) k = Some u" "u = v \<or> row_evaluated_at v < row_evaluated_at u"
    by blast
  from persist_observation_keeps [of "fst (persist_observation t (lr_global_lock r))" k u, OF u(1), of "lr_symbol_lock r"] u v persist_table_cases [of t r]
  show "\<exists>w. persist_step t r k = Some w \<and> (w = v \<or> row_evaluated_at v < row_evaluated_at w)"
    unfolding persist_step_def by (elim disjE exE conjE) auto
next
  fix t :: lock_table and r :: shadow_loss_streak_result and k w
  assume "persist_step t r k = Some w"
  with persist_table_cases [of t r] show "t k = Some w \<or> row_key w = k \<and> loss_row_constraints w"
    unfolding persist_step_def by (elim disjE) (auto dest!: persist_observation_ok)
qed

subsection \<open>Observations satisfy the constraints of the table\<close>

lemma btrim_strip_upper: "strip_upper s \<noteq> [] \<Longrightarrow> btrim (strip_upper s) \<noteq> []"
  by (metis py_strip_btrim strip_upper_idem strip_upper_nonempty)

lemma fingerprint_btrim: "btrim (loss_config_fingerprint config) \<noteq> []"
  using sha256_hex_no_space length_sha256_hex
  by (metis btrim_nonempty list.set_sel(1) list.size(3) loss_config_fingerprint_def zero_neq_numeral)

lemma reason_btrim: "btrim (loss_reason_value x) \<noteq> []"
  by (cases x) (simp_all add: btrim_nonempty)

lemma observe_scope_newest:
  "ob_streak_count (observe_scope facts scope symbol owner account market now config fp) = 0
     \<and> trailing_losses config facts = []
     \<and> ob_newest_loss_id (observe_scope facts scope symbol owner account market now config fp) = None
     \<and> ob_newest_loss_transaction_id (observe_scope facts scope symbol owner account market now config fp) = None
     \<and> ob_newest_loss_trade_id (observe_scope facts scope symbol owner account market now config fp) = None
     \<and> ob_newest_loss_at (observe_scope facts scope symbol owner account market now config fp) = None
     \<and> ob_expires_at (observe_scope facts scope symbol owner account market now config fp) = None
   \<or> (\<exists>f older. trailing_losses config facts = f # older
     \<and> ob_streak_count (observe_scope facts scope symbol owner account market now config fp) = Suc (length older)
     \<and> ob_newest_loss_id (observe_scope facts scope symbol owner account market now config fp) = Some (tf_id f)
     \<and> ob_newest_loss_transaction_id (observe_scope facts scope symbol owner account market now config fp)
         = Some (tf_transaction_id f)
     \<and> ob_newest_loss_trade_id (observe_scope facts scope symbol owner account market now config fp)
         = Some (tf_trade_id f)
     \<and> ob_newest_loss_at (observe_scope facts scope symbol owner account market now config fp)
         = Some (tf_executed_at f)
     \<and> ob_expires_at (observe_scope facts scope symbol owner account market now config fp)
         = Some (tf_executed_at f + lc_lock_duration config))"
  by (cases "trailing_losses config facts") (simp_all add: observe_scope_def streak_of_trailing Let_def split: prod.split)

lemma observe_scope_fixed:
  "ob_owner_user_id (observe_scope facts scope symbol owner account market now config fp) = owner"
  "ob_account_key (observe_scope facts scope symbol owner account market now config fp) = account"
  "ob_market (observe_scope facts scope symbol owner account market now config fp) = market"
  "ob_scope (observe_scope facts scope symbol owner account market now config fp) = scope"
  "ob_symbol (observe_scope facts scope symbol owner account market now config fp) = symbol"
  "ob_evaluated_at (observe_scope facts scope symbol owner account market now config fp) = Aware now"
  "ob_loss_limit (observe_scope facts scope symbol owner account market now config fp) = lc_loss_limit config"
  "ob_config_fingerprint (observe_scope facts scope symbol owner account market now config fp) = fp"
  "ob_schema_version (observe_scope facts scope symbol owner account market now config fp) = loss_schema_version"
  "ob_evidence_version (observe_scope facts scope symbol owner account market now config fp) = loss_evidence_version"
  "ob_mode (observe_scope facts scope symbol owner account market now config fp) = shadow_mode"
  by (simp_all add: observe_scope_def Let_def split: prod.split)

text \<open>What the check constraints ask of an observation.\<close>

definition storable :: "shadow_loss_lock_observation \<Rightarrow> bool" where
  "storable ob \<longleftrightarrow> normal_observation ob \<and> py_strip (ob_account_key ob) \<noteq> [] \<and> ob_market ob \<in> {''KRX'', ''US''}
     \<and> 0 < ob_loss_limit ob
     \<and> (ob_streak_count ob = 0 \<and> ob_newest_loss_id ob = None \<and> ob_newest_loss_transaction_id ob = None
          \<and> ob_newest_loss_trade_id ob = None \<and> ob_newest_loss_at ob = None \<and> ob_expires_at ob = None
          \<and> \<not> ob_buy_locked ob
        \<or> (\<exists>i tx tr newest expires. 0 < ob_streak_count ob \<and> ob_newest_loss_id ob = Some i
          \<and> ob_newest_loss_transaction_id ob = Some tx \<and> ob_newest_loss_trade_id ob = Some tr
          \<and> ob_newest_loss_at ob = Some newest \<and> ob_expires_at ob = Some expires \<and> newest < expires
          \<and> (\<forall>now. ob_evaluated_at ob = Aware now \<longrightarrow>
               ob_buy_locked ob = (ob_loss_limit ob \<le> int (ob_streak_count ob) \<and> now < expires))))
     \<and> btrim (ob_config_fingerprint ob) \<noteq> [] \<and> btrim (ob_schema_version ob) \<noteq> []
     \<and> btrim (ob_evidence_version ob) \<noteq> []"

lemma storable_row:
  assumes "storable ob" and "persistence_values ob = Inr row"
  shows "loss_row_constraints row"
proof -
  from assms(2) obtain now symbol where now: "ob_evaluated_at ob = Aware now"
    and symbol: "scope_symbol_key (ob_scope ob) (ob_symbol ob) = Inr symbol"
    and row: "row = observation_row ob now symbol"
    by (auto simp: persistence_values_def elim!: bindrE)
  have key: "lock_scope_value (ob_scope ob) \<in> {''GLOBAL'', ''SYMBOL''}"
      "lock_scope_value (ob_scope ob) = ''GLOBAL'' \<and> symbol = []
      \<or> lock_scope_value (ob_scope ob) = ''SYMBOL'' \<and> btrim symbol \<noteq> []"
    using symbol btrim_strip_upper
    by (cases "ob_scope ob"; auto simp: scope_symbol_key_def Let_def split: if_splits)+
  have newest: "newest_consistent row
      \<and> (case (row_expires_at row, row_newest_loss_at row) of
          (Some expires, Some newest) \<Rightarrow> newest < expires | _ \<Rightarrow> True)
      \<and> row_buy_locked row =
         (row_loss_limit row \<le> row_streak_count row
          \<and> (case row_expires_at row of None \<Rightarrow> False | Some expires \<Rightarrow> row_evaluated_at row < expires))"
    using assms(1) unfolding storable_def now row
    by (elim conjE disjE exE) (simp_all add: newest_consistent_def observation_row_def)
  have base: "normal_observation ob" "py_strip (ob_account_key ob) \<noteq> []" "ob_market ob \<in> {''KRX'', ''US''}"
      "0 < ob_loss_limit ob" "btrim (ob_config_fingerprint ob) \<noteq> []" "btrim (ob_schema_version ob) \<noteq> []"
      "btrim (ob_evidence_version ob) \<noteq> []"
    using assms(1) unfolding storable_def by blast+
  have columns: "row_account_key row = ob_account_key ob" "row_market row = ob_market ob"
      "row_lock_scope row = lock_scope_value (ob_scope ob)" "row_symbol row = symbol" "row_mode row = ob_mode ob"
      "row_status row = loss_status_value (ob_status ob)" "row_streak_count row = int (ob_streak_count ob)"
      "row_loss_limit row = ob_loss_limit ob" "row_lock_reason row = loss_reason_value (ob_reason ob)"
      "row_config_fingerprint row = ob_config_fingerprint ob" "row_schema_version row = ob_schema_version ob"
      "row_evidence_version row = ob_evidence_version ob" "is_json_object (row_evidence row)"
    by (simp_all add: row observation_row_def is_json_object_def observation_evidence_def)
  have fixed: "ob_mode ob = ''SHADOW''" "ob_status ob = VALID"
    using base(1) by (simp_all add: normal_observation_def shadow_mode_def)
  show ?thesis
    unfolding loss_row_constraints_def
    using newest key base columns fixed reason_btrim [of "ob_reason ob"] py_strip_btrim [of "ob_account_key ob"]
    by (intro conjI) simp_all
qed

lemma listed_market: "market \<in> {''KRX'', ''US''} \<Longrightarrow> strip_upper market = market"
  by (auto simp: strip_upper_def py_strip_def is_space_def py_upper_def upper_char_def)

lemma observe_scope_storable:
  assumes "1 \<le> lc_loss_limit config" and "0 < lc_lock_duration config"
    and "py_strip account \<noteq> []" and "market \<in> {''KRX'', ''US''}"
    and "scope = GLOBAL \<and> symbol = None \<or> scope = SYMBOL \<and> symbol = Some s \<and> s \<noteq> [] \<and> strip_upper s = s"
  shows "storable (observe_scope facts scope symbol owner account market now config (loss_config_fingerprint config))"
    (is "storable ?ob")
proof -
  have market: "strip_upper market = market"
    using assms(4) by (rule listed_market)
  have normal: "normal_observation ?ob"
    using assms(5) market by (auto simp: normal_observation_def observe_scope_fixed observe_scope_locks)
  have versions: "btrim loss_schema_version \<noteq> []" "btrim loss_evidence_version \<noteq> []"
    by (simp_all add: btrim_nonempty loss_schema_version_def loss_evidence_version_def)
  show ?thesis
    using observe_scope_newest [of facts scope symbol owner account market now config "loss_config_fingerprint config"]
  proof (elim disjE exE conjE)
    assume "trailing_losses config facts = []"
      "ob_streak_count ?ob = 0" "ob_newest_loss_id ?ob = None" "ob_newest_loss_transaction_id ?ob = None"
      "ob_newest_loss_trade_id ?ob = None" "ob_newest_loss_at ?ob = None" "ob_expires_at ?ob = None"
    then show ?thesis
      unfolding storable_def using normal versions assms(1,3,4) fingerprint_btrim
      by (simp add: observe_scope_fixed observe_scope_locks(1) locks_def)
  next
    fix f older
    assume "trailing_losses config facts = f # older" "ob_streak_count ?ob = Suc (length older)"
      "ob_newest_loss_id ?ob = Some (tf_id f)" "ob_newest_loss_transaction_id ?ob = Some (tf_transaction_id f)"
      "ob_newest_loss_trade_id ?ob = Some (tf_trade_id f)" "ob_newest_loss_at ?ob = Some (tf_executed_at f)"
      "ob_expires_at ?ob = Some (tf_executed_at f + lc_lock_duration config)"
    then show ?thesis
      unfolding storable_def using normal versions assms(1-4) fingerprint_btrim
      by (simp add: observe_scope_fixed observe_scope_locks(1) locks_def)
  qed
qed

subsection \<open>One observation meets the table\<close>

lemma persist_newer:
  assumes "storable ob" and "ob_evaluated_at ob = Aware now"
    and "\<forall>old. t (observation_key ob) = Some old \<longrightarrow> row_evaluated_at old < now"
  shows "\<exists>row. persist_observation t ob = (t(observation_key ob \<mapsto> row), Inr (from_observation ob))
     \<and> loss_row_to_state row = Inr (from_observation ob) \<and> row_evaluated_at row = now"
proof -
  from assms(1) have "normal_observation ob" by (simp add: storable_def)
  then obtain row where row: "persistence_values ob = Inr row" "loss_row_to_state row = Inr (from_observation ob)"
      "row_key row = observation_key ob" "row_evaluated_at row = now"
    by (rule persistence_values_normal) (use assms(2) in simp)
  have "upsert_loss_lock t row = Inr (t(observation_key ob \<mapsto> row), Some row)"
    using storable_row [OF assms(1) row(1)] assms(3) row(3,4)
    by (auto simp: upsert_loss_lock_def split: option.split)
  with row have "persist_observation t ob = (t(observation_key ob \<mapsto> row), Inr (from_observation ob))"
    by (simp add: persist_observation_def Let_def)
  with row(2,4) show ?thesis by blast
qed

lemma persist_not_newer:
  assumes "storable ob" and "ob_evaluated_at ob = Aware now"
    and "t (observation_key ob) = Some old" and "now \<le> row_evaluated_at old"
  shows "persist_observation t ob = (t, bindr (loss_row_to_state old) (\<lambda>st.
     if st = from_observation ob then Inr (from_observation ob)
     else Inl (ConcurrentUpdate ''persisted SHADOW loss-lock state is newer or differs at the same timestamp'')))"
proof -
  from assms(1) have normal: "normal_observation ob" by (simp add: storable_def)
  then obtain row where row: "persistence_values ob = Inr row" "row_key row = observation_key ob"
      "row_evaluated_at row = now"
    by (rule persistence_values_normal) (use assms(2) in simp)
  have "upsert_loss_lock t row = Inr (t, None)"
    using storable_row [OF assms(1) row(1)] assms(3,4) row(2,3) by (simp add: upsert_loss_lock_def)
  with row(1) assms(3) load_normal [OF normal, of t] show ?thesis
    by (cases "loss_row_to_state old") (simp_all add: persist_observation_def Let_def)
qed

lemma stored_evaluated_at:
  "loss_row_to_state row = Inr st \<Longrightarrow> st_evaluated_at st = Aware (row_evaluated_at row)"
  by (auto simp: loss_row_to_state_def elim!: bindrE)

lemma persist_older_rejected:
  assumes "storable ob" and "ob_evaluated_at ob = Aware now"
    and "t (observation_key ob) = Some old" and "now < row_evaluated_at old"
  shows "\<exists>e. persist_observation t ob = (t, Inl e)"
proof -
  have "st \<noteq> from_observation ob" if "loss_row_to_state old = Inr st" for st
    using stored_evaluated_at [OF that] assms(2,4) by (auto simp: from_observation_def)
  then show ?thesis
    using persist_not_newer [of ob now t old, OF assms(1-3)] assms(4) by (cases "loss_row_to_state old") auto
qed

text \<open>The observations of a valid result of a constructed configuration can be stored.\<close>

lemma loss_config_post_init_ok:
  "loss_config_post_init c = Inr config \<Longrightarrow> 1 \<le> lc_loss_limit config \<and> 0 < lc_lock_duration config"
  by (auto simp: loss_config_post_init_def Let_def)

lemma evaluate_storable:
  assumes "loss_config_post_init c = Inr config"
    and "r = evaluate_shadow_loss_streak facts owner account market symbol (Aware now) config"
    and "lr_status r = VALID"
  shows "storable (lr_global_lock r) \<and> storable (lr_symbol_lock r)
    \<and> ob_evaluated_at (lr_global_lock r) = Aware now \<and> ob_evaluated_at (lr_symbol_lock r) = Aware now
    \<and> observation_key (lr_global_lock r) = (owner, account, strip_upper market, ''GLOBAL'', [])
    \<and> observation_key (lr_symbol_lock r) = (owner, account, strip_upper market, ''SYMBOL'', strip_upper symbol)"
  using assms(3) unfolding assms(2)
proof (rule evaluate_VALID, goal_cases)
  case (1 now' gs ss)
  then have now: "now' = now" by simp
  from 1(2) have scope: "py_strip account \<noteq> []" "strip_upper market \<in> {''KRX'', ''US''}" "strip_upper symbol \<noteq> []"
    by (simp_all add: loss_scope_valid_def)
  note config = loss_config_post_init_ok [OF assms(1)]
  have "storable (observe_scope gs GLOBAL None owner account (strip_upper market) now config
      (loss_config_fingerprint config))"
    using config scope by (intro observe_scope_storable) auto
  moreover have "storable (observe_scope ss SYMBOL (Some (strip_upper symbol)) owner account (strip_upper market)
      now config (loss_config_fingerprint config))"
    using config scope by (intro observe_scope_storable [where s = "strip_upper symbol"]) auto
  ultimately show ?case
    using 1 now by (simp add: observed_def observation_key_def observe_scope_fixed)
qed

subsection \<open>A concrete table\<close>

definition demo_result :: shadow_loss_streak_result where
  "demo_result =
     evaluate_shadow_loss_streak demo_facts 7 ''paper:1'' ''KRX'' ''005930'' (Aware 1000) demo_loss_config"

text \<open>The same account evaluated later, and a table that holds that later account-wide lock.\<close>

definition demo_later :: shadow_loss_lock_observation where
  "demo_later = observe_scope demo_window GLOBAL None 7 ''paper:1'' ''KRX'' 1200 demo_loss_config
     (loss_config_fingerprint demo_loss_config)"

definition demo_table :: lock_table where
  "demo_table = [observation_key demo_later \<mapsto> observation_row demo_later 1200 []]"

lemma demo_config_ok: "loss_config_post_init demo_loss_config = Inr demo_loss_config"
proof -
  have "sort (remdups (map normalize_reason [''STOP'', ''STOP_GAP''])) = [''STOP'', ''STOP_GAP'']" by code_simp
  then show ?thesis by (simp add: loss_config_post_init_def demo_loss_config_def)
qed

lemma demo_result_valid: "lr_status demo_result = VALID"
  by (simp add: demo_result_def demo_evaluation observed_def)

lemma demo_keys:
  "observation_key (lr_global_lock demo_result) = (7, ''paper:1'', ''KRX'', ''GLOBAL'', [])"
  "observation_key demo_later = (7, ''paper:1'', ''KRX'', ''GLOBAL'', [])"
  by (simp_all add: demo_result_def demo_evaluation observed_def demo_later_def observation_key_def observe_scope_fixed)

lemma demo_table_ok:
  assumes "demo_table k = Some v"
  shows "row_key v = k \<and> loss_row_constraints v"
proof -
  have "storable demo_later"
    unfolding demo_later_def
    by (rule observe_scope_storable) (simp_all add: demo_loss_config_def loss_strings)
  moreover have "persistence_values demo_later = Inr (observation_row demo_later 1200 [])"
    by (simp add: persistence_values_def demo_later_def observe_scope_fixed scope_symbol_key_def)
  ultimately have "loss_row_constraints (observation_row demo_later 1200 [])" by (rule storable_row)
  with assms show ?thesis
    by (auto simp: demo_table_def row_key_def observation_key_def observation_row_def demo_later_def
        observe_scope_fixed split: if_splits)
qed

subsection \<open>Properties\<close>

text \<open>
  C28: Whatever sequence of results is persisted, successfully or not, a stored lock is never
  rewound: its row stays in the table, its evaluation time never decreases, and a row whose
  evaluation time is unchanged is unchanged. A table that satisfies the check constraints
  keeps satisfying them.
\<close>

theorem loss_locks_never_rewound:
  assumes "\<forall>k v. t k = Some v \<longrightarrow> row_key v = k \<and> loss_row_constraints v"
    and "final = run_commands (\<lambda>u r. fst (persist_shadow_loss_locks u r)) t results"
  shows "(\<forall>k v. t k = Some v \<longrightarrow> (\<exists>w. final k = Some w \<and> row_evaluated_at v \<le> row_evaluated_at w
           \<and> (row_evaluated_at w = row_evaluated_at v \<longrightarrow> w = v)))
    \<and> (\<forall>k w. final k = Some w \<longrightarrow> row_key w = k \<and> loss_row_constraints w)"
proof -
  have final: "final = run_commands persist_step t results"
    unfolding assms(2) by (simp add: run_commands_def persist_step_def)
  have "\<exists>w. final k = Some w \<and> row_evaluated_at v \<le> row_evaluated_at w
      \<and> (row_evaluated_at w = row_evaluated_at v \<longrightarrow> w = v)" if "t k = Some v" for k v
    using loss_locks.run_keeps [of t k v results, OF that] final by auto
  moreover have "row_key w = k \<and> loss_row_constraints w" if "final k = Some w" for k w
    using loss_locks.run_ok [of t results k w] assms(1) that final by blast
  ultimately show ?thesis by blast
qed

theorem loss_locks_never_rewound_witness:
  "\<exists>w. run_commands (\<lambda>u r. fst (persist_shadow_loss_locks u r)) demo_table [demo_result, demo_result]
         (observation_key demo_later) = Some w \<and> 1200 \<le> row_evaluated_at w \<and> loss_row_constraints w"
proof -
  let ?final = "run_commands (\<lambda>u r. fst (persist_shadow_loss_locks u r)) demo_table [demo_result, demo_result]"
  let ?row = "observation_row demo_later 1200 []"
  have row: "demo_table (observation_key demo_later) = Some ?row" "row_evaluated_at ?row = 1200"
    by (simp_all add: demo_table_def observation_row_def)
  have "\<forall>k v. demo_table k = Some v \<longrightarrow> row_key v = k \<and> loss_row_constraints v"
    using demo_table_ok by blast
  note rule = loss_locks_never_rewound [OF this refl, of "[demo_result, demo_result]"]
  from rule [THEN conjunct1, rule_format, OF row(1)] row(2) obtain w where
    w: "?final (observation_key demo_later) = Some w" "1200 \<le> row_evaluated_at w" by auto
  from rule [THEN conjunct2, rule_format, OF w(1)] w show ?thesis by blast
qed

text \<open>
  C29: A valid result computed with a constructed configuration can always be stored when the
  table holds nothing newer for its two locks: no check constraint fires, persisting returns
  the two states of the result, loading either scope gives the state back, and persisting the
  same result again succeeds and leaves the table alone.
\<close>

theorem loss_locks_round_trip:
  assumes "loss_config_post_init c = Inr config"
    and "r = evaluate_shadow_loss_streak facts owner account market symbol (Aware now) config"
    and "lr_status r = VALID"
    and "\<And>k row. k \<in> {observation_key (lr_global_lock r), observation_key (lr_symbol_lock r)}
           \<Longrightarrow> t k = Some row \<Longrightarrow> row_evaluated_at row < now"
  shows "\<exists>t'. persist_shadow_loss_locks t r = (t', Inr (persistent_states r))
    \<and> load_shadow_loss_lock_state t' owner account market GLOBAL None None
        = Inr (Some (from_observation (lr_global_lock r)))
    \<and> load_shadow_loss_lock_state t' owner account market SYMBOL (Some symbol) None
        = Inr (Some (from_observation (lr_symbol_lock r)))
    \<and> persist_shadow_loss_locks t' r = (t', Inr (persistent_states r))"
proof -
  let ?g = "lr_global_lock r" and ?s = "lr_symbol_lock r"
  have ok: "storable ?g" "storable ?s" and moment: "ob_evaluated_at ?g = Aware now" "ob_evaluated_at ?s = Aware now"
    and keys: "observation_key ?g = (owner, account, strip_upper market, ''GLOBAL'', [])"
      "observation_key ?s = (owner, account, strip_upper market, ''SYMBOL'', strip_upper symbol)"
    using evaluate_storable [OF assms(1-3)] by simp_all
  have differ: "observation_key ?g \<noteq> observation_key ?s" by (simp add: keys)
  have older: "row_evaluated_at row < now"
    if "t (observation_key ?g) = Some row \<or> t (observation_key ?s) = Some row" for row
    using assms(4) that by blast
  from persist_newer [OF ok(1) moment(1), of t] older obtain g where
    g: "persist_observation t ?g = (t(observation_key ?g \<mapsto> g), Inr (from_observation ?g))"
      "loss_row_to_state g = Inr (from_observation ?g)" "row_evaluated_at g = now" by blast
  from persist_newer [OF ok(2) moment(2), of "t(observation_key ?g \<mapsto> g)"] older differ obtain u where
    u: "persist_observation (t(observation_key ?g \<mapsto> g)) ?s
          = (t(observation_key ?g \<mapsto> g, observation_key ?s \<mapsto> u), Inr (from_observation ?s))"
      "loss_row_to_state u = Inr (from_observation ?s)" "row_evaluated_at u = now" by auto
  define t' where "t' = t(observation_key ?g \<mapsto> g, observation_key ?s \<mapsto> u)"
  have at: "t' (observation_key ?g) = Some g" "t' (observation_key ?s) = Some u"
    using differ by (simp_all add: t'_def)
  have again: "persist_observation t' ?g = (t', Inr (from_observation ?g))"
      "persist_observation t' ?s = (t', Inr (from_observation ?s))"
    using persist_not_newer [of ?g now t' g, OF ok(1) moment(1) at(1)]
      persist_not_newer [of ?s now t' u, OF ok(2) moment(2) at(2)] g(2,3) u(2,3) by simp_all
  have symbol: "strip_upper symbol \<noteq> []"
  proof -
    have "normal_observation ?s" using ok(2) by (simp add: storable_def)
    with keys(2) show ?thesis by (auto simp: normal_observation_def observation_key_def split: shadow_lock_scope.splits)
  qed
  have "persist_shadow_loss_locks t r = (t', Inr (persistent_states r))"
    using g(1) u(1) assms(3) by (simp add: persist_shadow_loss_locks_def persistent_states_def t'_def)
  moreover have "persist_shadow_loss_locks t' r = (t', Inr (persistent_states r))"
    using again assms(3) by (simp add: persist_shadow_loss_locks_def persistent_states_def)
  ultimately show ?thesis
    using at g(2) u(2) symbol unfolding keys
    by (intro exI [of _ t']) (simp add: load_shadow_loss_lock_state_def scope_symbol_key_def require_aware_opt_def)
qed

theorem loss_locks_round_trip_witness:
  "\<exists>t'. persist_shadow_loss_locks Map.empty demo_result = (t', Inr (persistent_states demo_result))
    \<and> load_shadow_loss_lock_state t' 7 ''paper:1'' ''KRX'' GLOBAL None None
        = Inr (Some (from_observation (lr_global_lock demo_result)))
    \<and> load_shadow_loss_lock_state t' 7 ''paper:1'' ''KRX'' SYMBOL (Some ''005930'') None
        = Inr (Some (from_observation (lr_symbol_lock demo_result)))
    \<and> persist_shadow_loss_locks t' demo_result = (t', Inr (persistent_states demo_result))"
  by (rule loss_locks_round_trip [OF demo_config_ok demo_result_def demo_result_valid]) simp

text \<open>
  A result that is older than the stored account-wide lock is rejected with an exception and
  changes nothing.
\<close>

theorem stale_loss_locks_rejected:
  assumes "loss_config_post_init c = Inr config"
    and "r = evaluate_shadow_loss_streak facts owner account market symbol (Aware now) config"
    and "lr_status r = VALID"
    and "t (observation_key (lr_global_lock r)) = Some newer" and "now < row_evaluated_at newer"
  shows "\<exists>e. persist_shadow_loss_locks t r = (t, Inl e)"
  using persist_older_rejected [of "lr_global_lock r" now t newer] evaluate_storable [OF assms(1-3)] assms(3-5)
  by (auto simp: persist_shadow_loss_locks_def)

theorem stale_loss_locks_rejected_witness:
  "\<exists>e. persist_shadow_loss_locks demo_table demo_result = (demo_table, Inl e)"
proof (rule stale_loss_locks_rejected [OF demo_config_ok demo_result_def demo_result_valid])
  show "demo_table (observation_key (lr_global_lock demo_result)) = Some (observation_row demo_later 1200 [])"
    by (simp add: demo_table_def demo_keys)
qed (simp add: observation_row_def)

end
