(* ===== verification/Loss_Streak_Gate.thy ===== *)
theory Loss_Streak_Gate
  imports Loss_Streak_Store Market_Session Position_Manager
begin

text \<open>
  The loss-streak gate, \<open>app/extensions/kasset/automation/loss_streak_gate.py\<close>: it reads the
  closed PAPER sells of an owner, evaluates the account-wide streak and the symbol's streak of
  the current session, records both locks and reports whether BUY would be locked.

  The database the gate reads is a record of the tables it queries; a query is the list it
  selects. Exceptions caught by the gate are kept as values instead of their text.
\<close>

subsection \<open>Configuration\<close>

definition stop_loss_reasons :: "string list" where
  "stop_loss_reasons = map exit_kind_value [STOP, STOP_GAP, TRAILING_STOP, TRAILING_STOP_GAP]"

record loss_streak_config =
  gc_global_loss_limit :: int
  gc_global_lookback :: duration
  gc_global_lock_duration :: duration
  gc_symbol_loss_limit :: int

definition gate_config_post_init :: "loss_streak_config \<Rightarrow> loss_streak_config result" where
  "gate_config_post_init c =
     raise_if (gc_global_loss_limit c < 1 \<or> gc_symbol_loss_limit c < 1) (ValueError ''loss limits must be positive'')
     (raise_if (gc_global_lookback c \<le> 0) (ValueError ''global lookback must be positive'')
     (raise_if (gc_global_lock_duration c \<le> 0) (ValueError ''global lock duration must be positive'')
     (Inr c)))"

definition default_loss_streak_config :: loss_streak_config where
  "default_loss_streak_config = \<lparr>gc_global_loss_limit = 3, gc_global_lookback = 5400000000,
     gc_global_lock_duration = 3600000000, gc_symbol_loss_limit = 2\<rparr>"

subsection \<open>Reading the PAPER trades\<close>

record paper_order =
  po_id :: string
  po_owner_user_id :: int
  po_client_order_id :: string
  po_paper_account_id :: int
  po_market :: string
  po_side :: string
  po_paper_trade_id :: "int option"

record paper_trade =
  pt_id :: int
  pt_symbol :: string
  pt_realized_pnl :: "decimal option"
  pt_reason :: "string option"
  pt_executed_at :: instant

record ai_recommendation =
  rec_id :: string
  rec_owner_user_id :: int
  rec_evidence :: json

record paper_db =
  db_accounts :: "(int \<times> int) list"
  db_orders :: "paper_order list"
  db_trades :: "paper_trade list"
  db_recommendations :: "ai_recommendation list"

definition recommendation_id :: "string \<Rightarrow> string option" where
  "recommendation_id client_order_id =
     (if take 7 client_order_id \<noteq> ''ai-rec:'' then None
      else let rid = py_strip (drop 7 client_order_id) in if rid = [] then None else Some rid)"

text \<open>The newest position-exit entry of the evidence with a usable kind.\<close>

fun exit_kind_of_items :: "json list \<Rightarrow> string option" where
  "exit_kind_of_items [] = None"
| "exit_kind_of_items (JObj item # items) =
     (if obj_get ''source'' item = JStr ''position_manager'' \<and> obj_get ''kind'' item = JStr ''position_exit''
      then (case obj_get ''exitKind'' item of
              JStr s \<Rightarrow> if py_strip s \<noteq> [] then Some (py_strip s) else exit_kind_of_items items
            | _ \<Rightarrow> exit_kind_of_items items)
      else exit_kind_of_items items)"
| "exit_kind_of_items (_ # items) = exit_kind_of_items items"

definition gate_exit_reason :: "ai_recommendation option \<Rightarrow> string option \<Rightarrow> string option" where
  "gate_exit_reason recommendation fallback =
     (let items = (case map_option rec_evidence recommendation of Some (JList xs) \<Rightarrow> xs | _ \<Rightarrow> [])
      in case exit_kind_of_items (rev items) of
           Some kind \<Rightarrow> Some kind
         | None \<Rightarrow> map_option py_strip fallback)"

definition account_key_of :: "int \<Rightarrow> string" where
  "account_key_of account_id = ''paper:'' @ py_str_int account_id"

definition selected_rows :: "paper_db \<Rightarrow> int \<Rightarrow> int \<Rightarrow> string \<Rightarrow> instant \<Rightarrow> (paper_order \<times> paper_trade) list" where
  "selected_rows db owner_user_id account_id market earliest =
     sort_key (\<lambda>(order, trade). (pt_executed_at trade, pt_id trade))
       (filter (\<lambda>(order, trade). po_paper_trade_id order = Some (pt_id trade)
            \<and> po_owner_user_id order = owner_user_id \<and> po_paper_account_id order = account_id
            \<and> po_market order = market \<and> po_side order = ''SELL'' \<and> earliest \<le> pt_executed_at trade)
         (List.product (db_orders db) (db_trades db)))"

definition load_paper_trade_facts ::
    "paper_db \<Rightarrow> int \<Rightarrow> string \<Rightarrow> instant \<Rightarrow> (string \<times> fact list) result" where
  "load_paper_trade_facts db owner_user_id market earliest =
     (case sort (map snd (filter (\<lambda>(owner, _). owner = owner_user_id) (db_accounts db))) of
        [] \<Rightarrow> Inl (LookupError ''paper_account_unavailable'')
      | account_id # _ \<Rightarrow>
          let rows = selected_rows db owner_user_id account_id market earliest;
              recommendation_ids = List.map_filter (\<lambda>(order, _). recommendation_id (po_client_order_id order)) rows;
              loaded = filter (\<lambda>r. rec_owner_user_id r = owner_user_id \<and> rec_id r \<in> set recommendation_ids)
                         (db_recommendations db);
              recommendations = map_of (rev (map (\<lambda>r. (rec_id r, r)) loaded));
              lookup = (\<lambda>order. recommendations
                 (case recommendation_id (po_client_order_id order) of None \<Rightarrow> [] | Some rid \<Rightarrow> rid))
          in Inr (account_key_of account_id,
               map (\<lambda>(order, trade).
                 \<lparr>tf_id = pt_id trade, tf_transaction_id = po_id order, tf_trade_id = py_str_int (pt_id trade),
                  tf_owner_user_id = owner_user_id, tf_account_key = account_key_of account_id,
                  tf_market = market, tf_symbol = pt_symbol trade, tf_side = ''SELL'',
                  tf_lifecycle_status = ''CLOSED'', tf_realized_pnl = pt_realized_pnl trade,
                  tf_exit_reason = gate_exit_reason (lookup order) (pt_reason trade),
                  tf_executed_at = pt_executed_at trade, tf_account_mode = ''PAPER''\<rparr>) rows))"

subsection \<open>The two streaks\<close>

text \<open>Facts read from the database carry aware times.\<close>

definition aware_fact :: "fact \<Rightarrow> raw_fact" where
  "aware_fact f = \<lparr>tf_id = tf_id f, tf_transaction_id = tf_transaction_id f, tf_trade_id = tf_trade_id f,
     tf_owner_user_id = tf_owner_user_id f, tf_account_key = tf_account_key f, tf_market = tf_market f,
     tf_symbol = tf_symbol f, tf_side = tf_side f, tf_lifecycle_status = tf_lifecycle_status f,
     tf_realized_pnl = tf_realized_pnl f, tf_exit_reason = tf_exit_reason f,
     tf_executed_at = Aware (tf_executed_at f), tf_account_mode = tf_account_mode f\<rparr>"

text \<open>\<open>replace(observation, streak_count=0, newest_*=None, expires_at=None, buy_locked=False, reason=...)\<close>\<close>

definition cleared :: "shadow_loss_reason \<Rightarrow> shadow_loss_lock_observation \<Rightarrow> shadow_loss_lock_observation" where
  "cleared why ob = ob\<lparr>ob_streak_count := 0, ob_newest_loss_id := None, ob_newest_loss_transaction_id := None,
     ob_newest_loss_trade_id := None, ob_newest_loss_at := None, ob_expires_at := None,
     ob_buy_locked := False, ob_reason := why\<rparr>"

definition valid_result :: "shadow_loss_streak_result \<Rightarrow> shadow_loss_streak_result result" where
  "valid_result r =
     (case lr_status r of
        VALID \<Rightarrow> Inr r
      | FAIL_CLOSED \<Rightarrow>
          Inl (ValueError (''shadow_evaluation_fail-closed:'' @ loss_reason_value (ob_reason (lr_global_lock r))))
      | INSUFFICIENT \<Rightarrow>
          let unlocked = (\<lambda>ob. (cleared BELOW_LIMIT ob)\<lparr>ob_status := VALID\<rparr>)
          in Inr (r\<lparr>lr_status := VALID, lr_global_lock := unlocked (lr_global_lock r),
                     lr_symbol_lock := unlocked (lr_symbol_lock r)\<rparr>))"

definition streak_config :: "int \<Rightarrow> duration \<Rightarrow> duration \<Rightarrow> shadow_loss_streak_config result" where
  "streak_config loss_limit lookback lock_duration =
     loss_config_post_init \<lparr>lc_stop_loss_reasons = stop_loss_reasons, lc_loss_limit = loss_limit,
       lc_lookback = lookback, lc_lock_duration = lock_duration, lc_emit_global_evidence = True,
       lc_emit_symbol_evidence = True\<rparr>"

definition evaluate_active_streaks ::
    "fact list \<Rightarrow> int \<Rightarrow> string \<Rightarrow> string \<Rightarrow> string \<Rightarrow> instant \<Rightarrow> instant \<Rightarrow> instant \<Rightarrow> loss_streak_config
      \<Rightarrow> shadow_loss_streak_result result" where
  "evaluate_active_streaks facts owner_user_id account_key market symbol now session_opens_at session_closes_at config =
     (let evaluate = (\<lambda>fs c. valid_result
            (evaluate_shadow_loss_streak (map aware_fact fs) owner_user_id account_key market symbol (Aware now) c))
      in bindr (streak_config (gc_global_loss_limit config) (gc_global_lookback config)
                  (gc_global_lock_duration config)) (\<lambda>global_config.
         bindr (evaluate facts global_config) (\<lambda>global_result.
         let session_facts = filter (\<lambda>f. session_opens_at \<le> tf_executed_at f \<and> tf_executed_at f \<le> now) facts;
             session_duration = session_closes_at - session_opens_at
         in bindr (streak_config (gc_symbol_loss_limit config) session_duration session_duration)
              (\<lambda>preliminary_config.
            bindr (evaluate session_facts preliminary_config) (\<lambda>preliminary.
            bindr (case ob_newest_loss_at (lr_symbol_lock preliminary) of
                     None \<Rightarrow> Inr (lr_symbol_lock preliminary)
                   | Some newest_loss_at \<Rightarrow>
                       if session_closes_at \<le> newest_loss_at
                       then Inr (cleared EXPIRED (lr_symbol_lock preliminary))
                       else bindr (streak_config (gc_symbol_loss_limit config) session_duration
                                     (session_closes_at - newest_loss_at)) (\<lambda>symbol_config.
                            bindr (evaluate session_facts symbol_config) (\<lambda>symbol_result.
                            Inr (lr_symbol_lock symbol_result)))) (\<lambda>symbol_lock.
            Inr (global_result\<lparr>lr_symbol_lock := symbol_lock\<rparr>)))))))"

subsection \<open>The gate\<close>

datatype gate_reason = global_lock | symbol_lock | sell_bypass | unavailable

datatype gate_detail =
    BypassDetail string
  | UnavailableDetail py_error
  | StreakDetail "gate_reason option" nat int nat int "py_error option"

definition lock_evidence :: "shadow_loss_lock_observation option \<Rightarrow> json" where
  "lock_evidence observation = json_optional (\<lambda>ob. JObj
     [(''scope'', JStr (lock_scope_value (ob_scope ob))),
      (''symbol'', json_optional JStr (ob_symbol ob)),
      (''streakCount'', JInt (int (ob_streak_count ob))),
      (''lossLimit'', JInt (ob_loss_limit ob)),
      (''newestLossAt'', json_optional instant_text (ob_newest_loss_at ob)),
      (''expiresAt'', json_optional instant_text (ob_expires_at ob)),
      (''reason'', JStr (loss_reason_value (ob_reason ob)))]) observation"

record gate_evidence =
  ge_schema_version :: string
  ge_global_lock :: json
  ge_symbol_lock :: json
  ge_streak_global :: nat
  ge_streak_symbol :: nat
  ge_unavailable :: "py_error option"
  ge_persist_failed :: "py_error option"

record loss_streak_gate_result =
  gr_code :: string
  gr_buy_locked :: bool
  gr_reason :: "gate_reason option"
  gr_detail :: gate_detail
  gr_evidence :: gate_evidence

definition gate_result ::
    "bool \<Rightarrow> gate_reason option \<Rightarrow> gate_detail \<Rightarrow> shadow_loss_lock_observation option
      \<Rightarrow> shadow_loss_lock_observation option \<Rightarrow> nat \<Rightarrow> nat \<Rightarrow> py_error option \<Rightarrow> py_error option
      \<Rightarrow> loss_streak_gate_result" where
  "gate_result locked why detail global symbol streak_global streak_symbol unavail persist_failed =
     \<lparr>gr_code = ''LOSS_STREAK'', gr_buy_locked = locked, gr_reason = why, gr_detail = detail,
      gr_evidence = \<lparr>ge_schema_version = ''kasset.loss-streak-gate.v1'', ge_global_lock = lock_evidence global,
        ge_symbol_lock = lock_evidence symbol, ge_streak_global = streak_global, ge_streak_symbol = streak_symbol,
        ge_unavailable = unavail, ge_persist_failed = persist_failed\<rparr>\<rparr>"

text \<open>The first \<open>try\<close> block: everything up to the combined result.\<close>

definition gate_combined ::
    "xcal \<Rightarrow> paper_db \<Rightarrow> int \<Rightarrow> string \<Rightarrow> string \<Rightarrow> py_datetime \<Rightarrow> loss_streak_config
      \<Rightarrow> shadow_loss_streak_result result" where
  "gate_combined cal db owner_user_id market symbol now config =
     bindr (require_aware ''now must be timezone-aware'' now) (\<lambda>current.
     let normalized_market = strip_upper market; normalized_symbol = strip_upper symbol
     in bindr (current_regular_session cal normalized_market (Aware current)) (\<lambda>session_opt.
        case session_opt of
          None \<Rightarrow> Inl (ValueError ''regular_session_unavailable'')
        | Some session \<Rightarrow>
            let earliest = min (current - gc_global_lookback config) (rs_opens_at session)
            in bindr (load_paper_trade_facts db owner_user_id normalized_market earliest) (\<lambda>(account_key, facts).
               evaluate_active_streaks facts owner_user_id account_key normalized_market normalized_symbol
                 current (rs_opens_at session) (rs_closes_at session) config)))"

text \<open>The second: persisting in a savepoint, which a failure rolls back.\<close>

definition persist_nested :: "lock_table \<Rightarrow> shadow_loss_streak_result \<Rightarrow> lock_table \<times> py_error option" where
  "persist_nested t combined =
     (case persist_shadow_loss_locks t combined of
        (_, Inl e) \<Rightarrow> (t, Some e)
      | (t', Inr _) \<Rightarrow> (t', None))"

definition gate_evaluate ::
    "xcal \<Rightarrow> paper_db \<Rightarrow> lock_table \<Rightarrow> int \<Rightarrow> string \<Rightarrow> string \<Rightarrow> string \<Rightarrow> py_datetime \<Rightarrow> loss_streak_config
      \<Rightarrow> lock_table \<times> loss_streak_gate_result" where
  "gate_evaluate cal db t owner_user_id market symbol side now config =
     (let normalized_side = strip_upper side in
      if normalized_side \<noteq> ''BUY''
      then (t, gate_result False (Some sell_bypass)
                 (BypassDetail (if normalized_side = [] then ''UNKNOWN'' else normalized_side)) None None 0 0 None None)
      else case gate_combined cal db owner_user_id market symbol now config of
        Inl e \<Rightarrow> (t, gate_result False (Some unavailable) (UnavailableDetail e) None None 0 0 (Some e) None)
      | Inr combined \<Rightarrow>
          (case persist_nested t combined of
             (t', persist_failed) \<Rightarrow>
               let global = lr_global_lock combined; symb = lr_symbol_lock combined;
                   (why, locked) = (if ob_buy_locked global then (Some global_lock, True)
                                    else if ob_buy_locked symb then (Some symbol_lock, True)
                                    else (None, False))
               in (t', gate_result locked why
                     (StreakDetail why (ob_streak_count global) (ob_loss_limit global)
                        (ob_streak_count symb) (ob_loss_limit symb) persist_failed)
                     (if ob_buy_locked global then Some global else None)
                     (if ob_buy_locked symb then Some symb else None)
                     (ob_streak_count global) (ob_streak_count symb) None persist_failed)))"

end
