(* ===== verification/Loss_Gate_Rules.thy ===== *)
theory Loss_Gate_Rules
  imports Loss_Streak_Gate
begin

text \<open>
  What the loss-streak gate reports and records: when it locks, that selling is never touched,
  that its verdict does not depend on the lock table, and what it leaves in that table.
\<close>

subsection \<open>What a valid observation says\<close>

definition reads :: "shadow_loss_streak_config \<Rightarrow> instant \<Rightarrow> fact list \<Rightarrow> shadow_loss_lock_observation \<Rightarrow> bool" where
  "reads c now fs ob \<longleftrightarrow>
     ob_buy_locked ob = locks c now fs \<and> ob_streak_count ob = length (trailing_losses c fs)
     \<and> ob_newest_loss_at ob = (case trailing_losses c fs of [] \<Rightarrow> None | f # _ \<Rightarrow> Some (tf_executed_at f))
     \<and> ob_expires_at ob =
         (case trailing_losses c fs of [] \<Rightarrow> None | f # _ \<Rightarrow> Some (tf_executed_at f + lc_lock_duration c))"

lemma observe_scope_reads: "reads c now fs (observe_scope fs scope symbol owner account market now c fp)"
  using observe_scope_newest [of fs scope symbol owner account market now c fp]
  by (auto simp: reads_def observe_scope_locks)

definition unlocked_observation :: "shadow_loss_lock_observation \<Rightarrow> shadow_loss_lock_observation" where
  "unlocked_observation ob = (cleared BELOW_LIMIT ob)\<lparr>ob_status := VALID\<rparr>"

lemma unlocked_reads: "reads c now [] (unlocked_observation ob)"
  by (simp add: reads_def unlocked_observation_def cleared_def trailing_losses_def locks_def)

lemma unlocked_place:
  "ob_evaluated_at (unlocked_observation ob) = ob_evaluated_at ob"
  "observation_key (unlocked_observation ob) = observation_key ob"
  by (simp_all add: unlocked_observation_def cleared_def observation_key_def)

lemma non_valid_place:
  "ob_evaluated_at (non_valid_observation owner account market symbol moment c status why scope) = moment"
  "observation_key (non_valid_observation owner account market symbol moment c status why scope)
     = (owner, account, market, lock_scope_value scope, (case scope of SYMBOL \<Rightarrow> symbol | GLOBAL \<Rightarrow> []))"
  by (simp_all add: non_valid_observation_def observation_key_def split: shadow_lock_scope.split)

text \<open>A lock of a scope that was read from facts of the window and can be stored.\<close>

definition sound_lock ::
    "shadow_loss_streak_config \<Rightarrow> instant \<Rightarrow> fact list \<Rightarrow> lock_key \<Rightarrow> shadow_loss_lock_observation \<Rightarrow> bool" where
  "sound_lock c now fs key ob \<longleftrightarrow>
     reads c now fs ob \<and> storable ob \<and> ob_evaluated_at ob = Aware now \<and> observation_key ob = key"

lemma cleared_storable:
  assumes "normal_observation ob" and "py_strip (ob_account_key ob) \<noteq> []" and "ob_market ob \<in> {''KRX'', ''US''}"
    and "0 < ob_loss_limit ob" and "btrim (ob_config_fingerprint ob) \<noteq> []" and "btrim (ob_schema_version ob) \<noteq> []"
    and "btrim (ob_evidence_version ob) \<noteq> []"
  shows "storable (cleared why ob)"
  using assms unfolding storable_def normal_observation_def cleared_def by (cases "ob_scope ob") simp_all

lemma unlocked_storable:
  assumes "0 < lc_loss_limit c" and "py_strip account \<noteq> []" and "market \<in> {''KRX'', ''US''}"
    and "symbol \<noteq> []" and "strip_upper symbol = symbol"
  shows "storable (unlocked_observation (non_valid_observation owner account market symbol (Aware now) c status why scope))"
proof -
  let ?ob = "(non_valid_observation owner account market symbol (Aware now) c status why scope)\<lparr>ob_status := VALID\<rparr>"
  have market: "strip_upper market = market"
    using assms(3) by (rule listed_market)
  have "unlocked_observation (non_valid_observation owner account market symbol (Aware now) c status why scope)
      = cleared BELOW_LIMIT ?ob"
    by (simp add: unlocked_observation_def cleared_def)
  moreover have "storable (cleared BELOW_LIMIT ?ob)"
  proof (rule cleared_storable)
    show "normal_observation ?ob"
      using assms(4,5) market
      by (cases scope) (simp_all add: normal_observation_def non_valid_observation_def)
    show "btrim (ob_config_fingerprint ?ob) \<noteq> []" by (simp add: non_valid_observation_def fingerprint_btrim)
    show "btrim (ob_schema_version ?ob) \<noteq> []" "btrim (ob_evidence_version ?ob) \<noteq> []"
      by (simp_all add: non_valid_observation_def btrim_nonempty loss_schema_version_def loss_evidence_version_def)
  qed (use assms in \<open>simp_all add: non_valid_observation_def\<close>)
  ultimately show ?thesis by simp
qed

lemma valid_result_reads:
  assumes "loss_config_post_init c0 = Inr c"
    and "valid_result (evaluate_shadow_loss_streak facts owner account market symbol (Aware now) c) = Inr r"
    and "window = window_facts owner account (strip_upper market) now (lc_lookback c) facts"
  shows "\<exists>gs ss. deduplicate_facts window = Inr gs
    \<and> deduplicate_facts (filter (\<lambda>f. tf_symbol f = strip_upper symbol) window) = Inr ss \<and> lr_status r = VALID
    \<and> sound_lock c now gs (owner, account, strip_upper market, ''GLOBAL'', []) (lr_global_lock r)
    \<and> sound_lock c now ss (owner, account, strip_upper market, ''SYMBOL'', strip_upper symbol) (lr_symbol_lock r)"
proof -
  let ?e = "evaluate_shadow_loss_streak facts owner account market symbol (Aware now) c"
  show ?thesis
  proof (cases "lr_status ?e")
    case VALID
    then have r: "r = ?e" using assms(2) by (simp add: valid_result_def)
    from VALID show ?thesis
    proof (rule evaluate_VALID, goal_cases)
      case (1 now' gs ss)
      then have "now' = now" by simp
      with 1 r assms(3) evaluate_storable [OF assms(1) refl VALID] VALID show ?case
        by (intro exI [of _ gs] exI [of _ ss])
          (simp add: sound_lock_def observed_def observe_scope_reads)
    qed
  next
    case FAIL_CLOSED
    then show ?thesis using assms(2) by (simp add: valid_result_def)
  next
    case INSUFFICIENT
    have scope: "loss_scope_valid owner account (strip_upper market) (strip_upper symbol) (Aware now)"
    proof (rule ccontr)
      assume "\<not> ?thesis"
      from evaluate_invalid_scope [OF this] INSUFFICIENT show False by simp
    qed
    note e = evaluate_valid_scope [OF scope, of facts c]
    from INSUFFICIENT e have prep: "prepare_facts facts owner account (strip_upper market) now (lc_lookback c) = Inr []"
      by (simp add: Let_def observed_def split: sum.splits if_splits)
    have window: "window = []" using prep assms(3) by (simp add: prepare_facts_Inr)
    have e': "?e = non_valid_result owner account (strip_upper market) (strip_upper symbol) (Aware now) c
        INSUFFICIENT INSUFFICIENT_FACTS" using e prep by (simp add: Let_def)
    have locks: "lr_global_lock r = unlocked_observation (lr_global_lock ?e)"
        "lr_symbol_lock r = unlocked_observation (lr_symbol_lock ?e)" "lr_status r = VALID"
      using assms(2) INSUFFICIENT by (auto simp: valid_result_def unlocked_observation_def Let_def)
    have obs: "lr_global_lock ?e = non_valid_observation owner account (strip_upper market) (strip_upper symbol)
          (Aware now) c INSUFFICIENT INSUFFICIENT_FACTS GLOBAL"
        "lr_symbol_lock ?e = non_valid_observation owner account (strip_upper market) (strip_upper symbol)
          (Aware now) c INSUFFICIENT INSUFFICIENT_FACTS SYMBOL"
      by (simp_all add: e' non_valid_result_def Let_def)
    have "storable (lr_global_lock r)" "storable (lr_symbol_lock r)"
      unfolding locks obs using scope loss_config_post_init_ok [OF assms(1)]
      by (simp_all add: unlocked_storable loss_scope_valid_def)
    then show ?thesis
      using window locks unlocked_reads
      by (simp add: sound_lock_def deduplicate_facts_def unlocked_place obs non_valid_place)
  qed
qed

subsection \<open>The session rule for one symbol\<close>

text \<open>A losing sell whose exit was one of the stop exits.\<close>

definition is_stop_exit :: "fact \<Rightarrow> bool" where
  "is_stop_exit f \<longleftrightarrow>
     (case Option.bind (tf_realized_pnl f) finite_value of None \<Rightarrow> False | Some pnl \<Rightarrow> pnl < 0)
     \<and> strip_upper (case tf_exit_reason f of None \<Rightarrow> [] | Some why \<Rightarrow> why) \<in> set stop_loss_reasons"

definition stop_run :: "fact list \<Rightarrow> fact list" where
  "stop_run fs = takeWhile is_stop_exit (rev fs)"

lemma stop_loss_reasons_normal: "map normalize_reason stop_loss_reasons = stop_loss_reasons"
  by code_simp

lemma streak_configD:
  assumes "streak_config limit lookback duration = Inr c"
  shows "lc_loss_limit c = limit" "lc_lookback c = lookback" "lc_lock_duration c = duration"
    "1 \<le> limit" "0 < lookback" "0 < duration" "trailing_losses c fs = stop_run fs"
    "\<exists>c0. loss_config_post_init c0 = Inr c"
proof -
  have set: "set (lc_stop_loss_reasons c) = set stop_loss_reasons"
    using assms stop_loss_reasons_normal by (auto simp: streak_config_def loss_config_post_init_def Let_def)
  then have "is_stop_loss c f = is_stop_exit f" for f
    by (simp add: is_stop_loss_def is_stop_exit_def normalize_reason_def)
  then have "is_stop_loss c = is_stop_exit" by blast
  then show "trailing_losses c fs = stop_run fs" by (simp add: trailing_losses_def stop_run_def)
  show "\<exists>c0. loss_config_post_init c0 = Inr c" using assms unfolding streak_config_def by blast
qed (use assms in \<open>auto simp: streak_config_def loss_config_post_init_def Let_def\<close>)

text \<open>The facts a streak is counted on.\<close>

definition counted_facts ::
    "int \<Rightarrow> string \<Rightarrow> string \<Rightarrow> instant \<Rightarrow> duration \<Rightarrow> fact list \<Rightarrow> fact list" where
  "counted_facts owner account market now lookback facts =
     window_facts owner account (strip_upper market) now lookback (map aware_fact facts)"

lemma stop_run_time:
  assumes "stop_run fs = f # older" and "subseq fs (counted_facts owner account market now lookback facts)"
  shows "tf_executed_at f \<le> now"
proof -
  have "f \<in> set fs" using assms(1) by (metis list.set_intros(1) set_rev set_takeWhileD stop_run_def)
  with assms(2) have "f \<in> set (counted_facts owner account market now lookback facts)"
    using subseq_order.order_trans [of "[f]"] by (metis subseq_singleton_left)
  from window_facts_sound [OF this [unfolded counted_facts_def]] show ?thesis by simp
qed

lemma storable_cleared:
  assumes "storable ob"
  shows "storable (cleared why ob)"
  by (rule cleared_storable) (use assms in \<open>unfold storable_def, blast\<close>)+

lemma cleared_place:
  "ob_evaluated_at (cleared why ob) = ob_evaluated_at ob" "observation_key (cleared why ob) = observation_key ob"
  "\<not> ob_buy_locked (cleared why ob)" "ob_expires_at (cleared why ob) = None"
  by (simp_all add: cleared_def observation_key_def)

text \<open>The preliminary evaluation and the one that lets the lock end with the session agree on the run.\<close>

lemma session_lock_rule:
  assumes p: "streak_config limit (closes - opens) (closes - opens) = Inr p"
    and pre: "valid_result (evaluate_shadow_loss_streak (map aware_fact fs) owner account market symbol (Aware now) p)
                = Inr pre"
    and lock: "(case ob_newest_loss_at (lr_symbol_lock pre) of
                  None \<Rightarrow> Inr (lr_symbol_lock pre)
                | Some newest \<Rightarrow>
                    if closes \<le> newest then Inr (cleared EXPIRED (lr_symbol_lock pre))
                    else bindr (streak_config limit (closes - opens) (closes - newest)) (\<lambda>q.
                         bindr (valid_result (evaluate_shadow_loss_streak (map aware_fact fs) owner account market
                                  symbol (Aware now) q)) (\<lambda>res. Inr (lr_symbol_lock res)))) = Inr lock"
    and "now \<le> closes"
    and session: "session = filter (\<lambda>f. tf_symbol f = strip_upper symbol)
                    (counted_facts owner account market now (closes - opens) fs)"
  shows "\<exists>ss. deduplicate_facts session = Inr ss \<and> storable lock \<and> ob_evaluated_at lock = Aware now
    \<and> observation_key lock = (owner, account, strip_upper market, ''SYMBOL'', strip_upper symbol)
    \<and> (ob_buy_locked lock \<longleftrightarrow> limit \<le> int (length (stop_run ss)) \<and> now < closes)
    \<and> (ob_expires_at lock = None \<or> ob_expires_at lock = Some closes)"
proof -
  note pD = streak_configD [OF p]
  from pD(8) obtain p0 where p0: "loss_config_post_init p0 = Inr p" by blast
  from valid_result_reads [OF p0 pre refl] obtain ss where ss: "deduplicate_facts session = Inr ss"
    and sl: "sound_lock p now ss (owner, account, strip_upper market, ''SYMBOL'', strip_upper symbol) (lr_symbol_lock pre)"
    unfolding session counted_facts_def pD(2) by blast
  have subseq: "subseq ss (counted_facts owner account market now (closes - opens) fs)"
    using dedup_loop_spec(1) [OF ss [unfolded deduplicate_facts_def]] unfolding session
    by (meson subseq_filter_left subseq_order.order_trans)
  show ?thesis
  proof (cases "stop_run ss")
    case Nil
    with sl pD(7) have "ob_newest_loss_at (lr_symbol_lock pre) = None" by (simp add: sound_lock_def reads_def)
    with lock have "lock = lr_symbol_lock pre" by simp
    with ss sl Nil pD(4,7) show ?thesis by (simp add: sound_lock_def reads_def locks_def)
  next
    case (Cons f older)
    with sl pD(7) have newest: "ob_newest_loss_at (lr_symbol_lock pre) = Some (tf_executed_at f)"
      by (simp add: sound_lock_def reads_def)
    have le: "tf_executed_at f \<le> now" by (rule stop_run_time [OF Cons subseq])
    show ?thesis
    proof (cases "closes \<le> tf_executed_at f")
      case True
      with lock newest have "lock = cleared EXPIRED (lr_symbol_lock pre)" by simp
      with ss sl le True assms(4) show ?thesis by (simp add: sound_lock_def storable_cleared cleared_place)
    next
      case False
      with lock newest obtain q res where q: "streak_config limit (closes - opens) (closes - tf_executed_at f) = Inr q"
        and res: "valid_result (evaluate_shadow_loss_streak (map aware_fact fs) owner account market symbol (Aware now) q)
                    = Inr res" and lock': "lock = lr_symbol_lock res"
        by (auto elim!: bindrE)
      note qD = streak_configD [OF q]
      from qD(8) obtain q0 where q0: "loss_config_post_init q0 = Inr q" by blast
      from valid_result_reads [OF q0 res refl] ss
      have "sound_lock q now ss (owner, account, strip_upper market, ''SYMBOL'', strip_upper symbol) lock"
        unfolding session counted_facts_def qD(2) lock' by auto
      with ss Cons qD(1,3,7) show ?thesis by (simp add: sound_lock_def reads_def locks_def)
    qed
  qed
qed

lemma evaluate_active_streaks_sound:
  assumes "evaluate_active_streaks facts owner account market symbol now opens closes config = Inr r"
    and "opens \<le> now" and "now \<le> closes"
    and "session = counted_facts owner account market now (closes - opens)
           (filter (\<lambda>f. opens \<le> tf_executed_at f \<and> tf_executed_at f \<le> now) facts)"
    and "recent = counted_facts owner account market now (gc_global_lookback config) facts"
  shows "\<exists>gs ss c. deduplicate_facts recent = Inr gs
    \<and> deduplicate_facts (filter (\<lambda>f. tf_symbol f = strip_upper symbol) session) = Inr ss
    \<and> streak_config (gc_global_loss_limit config) (gc_global_lookback config) (gc_global_lock_duration config) = Inr c
    \<and> sound_lock c now gs (owner, account, strip_upper market, ''GLOBAL'', []) (lr_global_lock r)
    \<and> storable (lr_symbol_lock r) \<and> ob_evaluated_at (lr_symbol_lock r) = Aware now
    \<and> observation_key (lr_symbol_lock r) = (owner, account, strip_upper market, ''SYMBOL'', strip_upper symbol)
    \<and> (ob_buy_locked (lr_symbol_lock r) \<longleftrightarrow>
         gc_symbol_loss_limit config \<le> int (length (stop_run ss)) \<and> now < closes)
    \<and> (ob_expires_at (lr_symbol_lock r) = None \<or> ob_expires_at (lr_symbol_lock r) = Some closes)
    \<and> lr_status r = VALID"
proof -
  let ?ev = "\<lambda>fs c. valid_result
      (evaluate_shadow_loss_streak (map aware_fact fs) owner account market symbol (Aware now) c)"
  let ?fs = "filter (\<lambda>f. opens \<le> tf_executed_at f \<and> tf_executed_at f \<le> now) facts"
  let ?key = "(owner, account, strip_upper market, ''SYMBOL'', strip_upper symbol)"
  from assms(1) obtain c global p pre lock where
    c: "streak_config (gc_global_loss_limit config) (gc_global_lookback config) (gc_global_lock_duration config) = Inr c"
    and global: "?ev facts c = Inr global"
    and p: "streak_config (gc_symbol_loss_limit config) (closes - opens) (closes - opens) = Inr p"
    and pre: "?ev ?fs p = Inr pre"
    and lock: "(case ob_newest_loss_at (lr_symbol_lock pre) of
                  None \<Rightarrow> Inr (lr_symbol_lock pre)
                | Some newest \<Rightarrow>
                    if closes \<le> newest then Inr (cleared EXPIRED (lr_symbol_lock pre))
                    else bindr (streak_config (gc_symbol_loss_limit config) (closes - opens) (closes - newest)) (\<lambda>q.
                         bindr (?ev ?fs q) (\<lambda>res. Inr (lr_symbol_lock res)))) = Inr lock"
    and r: "r = global\<lparr>lr_symbol_lock := lock\<rparr>"
    unfolding evaluate_active_streaks_def Let_def by (elim bindrE) auto
  from streak_configD(8) [OF c] obtain c0 where "loss_config_post_init c0 = Inr c" by blast
  from valid_result_reads [OF this global refl] obtain gs where "deduplicate_facts recent = Inr gs"
    "lr_status global = VALID"
    "sound_lock c now gs (owner, account, strip_upper market, ''GLOBAL'', []) (lr_global_lock global)"
    unfolding assms(5) counted_facts_def streak_configD(2) [OF c] by blast
  with session_lock_rule [OF p pre lock assms(3) refl] c r show ?thesis
    unfolding assms(4) by auto
qed

subsection \<open>The evaluation of loaded facts never gives up\<close>

text \<open>
  The trade identifier of a loaded fact is the text of its id, so two facts with the same time
  and id are duplicates of each other and are dropped before they can collide.
\<close>

lemma dedup_loop_total:
  assumes "\<forall>f\<in>set fs. tf_trade_id f = g (tf_id f)" and "\<forall>k. prev = Some k \<longrightarrow> g (snd k) \<in> trades"
  shows "\<exists>kept. dedup_loop txs trades prev fs = Inr kept"
  using assms
proof (induction txs trades prev fs rule: dedup_loop.induct)
  case (2 txs trades prev f fs)
  show ?case
  proof (cases "tf_transaction_id f \<in> txs \<or> tf_trade_id f \<in> trades")
    case True
    then show ?thesis using 2 by simp
  next
    case False
    then have ne: "Some (fact_key f) \<noteq> prev" using 2(3,4) by (auto simp: fact_key_def)
    have "\<exists>kept. dedup_loop (insert (tf_transaction_id f) txs) (insert (tf_trade_id f) trades) (Some (fact_key f)) fs
        = Inr kept"
      using 2(3) by (intro 2(2) [OF False ne]) (simp_all add: fact_key_def)
    with False ne show ?thesis by auto
  qed
qed simp

definition loadable_fact :: "fact \<Rightarrow> bool" where
  "loadable_fact f \<longleftrightarrow> 0 < tf_id f \<and> py_strip (tf_transaction_id f) \<noteq> [] \<and> tf_trade_id f = py_str_int (tf_id f)"

lemma py_strip_str_int: "py_strip (py_str_int i) \<noteq> []"
proof -
  have "\<not> is_space (hd (nat_digits n))" "hd (nat_digits n) \<in> set (nat_digits n)" for n
    using nat_digits_head [of n] by (auto simp: is_digit_def is_space_def Let_def)
  then have "\<exists>c\<in>set (nat_digits n). \<not> is_space c" for n by blast
  then show ?thesis unfolding py_strip_nonempty py_str_int_def by auto
qed

lemma loadable_not_doubtful:
  assumes "\<forall>f\<in>set fs. loadable_fact f"
  shows "filter (doubtful owner account market now lookback) (map aware_fact fs) = []"
  using assms py_strip_str_int by (auto simp: filter_empty_conv doubtful_def loadable_fact_def aware_fact_def)

lemma window_trade_id:
  assumes "\<forall>f\<in>set fs. loadable_fact f"
  shows "\<forall>f\<in>set (window_facts owner account market now lookback (map aware_fact fs)).
           tf_trade_id f = py_strip (py_str_int (tf_id f))"
  using assms by (auto simp: window_facts_def normalized_fact_def aware_fact_def loadable_fact_def)

lemma valid_result_total:
  assumes "\<forall>f\<in>set fs. loadable_fact f"
    and "loss_scope_valid owner account (strip_upper market) (strip_upper symbol) (Aware now)"
  shows "\<exists>r. valid_result (evaluate_shadow_loss_streak (map aware_fact fs) owner account market symbol (Aware now) c)
    = Inr r"
proof -
  let ?w = "window_facts owner account (strip_upper market) now (lc_lookback c) (map aware_fact fs)"
  have prep: "prepare_facts (map aware_fact fs) owner account (strip_upper market) now (lc_lookback c) = Inr ?w"
    by (simp add: prepare_facts_Inr loadable_not_doubtful [OF assms(1)])
  have "\<exists>kept. deduplicate_facts ?w = Inr kept"
      "\<exists>kept. deduplicate_facts (filter (\<lambda>f. tf_symbol f = strip_upper symbol) ?w) = Inr kept"
    unfolding deduplicate_facts_def
    using window_trade_id [OF assms(1)]
    by (intro dedup_loop_total [where g = "\<lambda>i. py_strip (py_str_int i)"]; auto)+
  then obtain gs ss where "deduplicate_facts ?w = Inr gs"
      "deduplicate_facts (filter (\<lambda>f. tf_symbol f = strip_upper symbol) ?w) = Inr ss" by blast
  with prep show ?thesis
    unfolding evaluate_valid_scope [OF assms(2)] by (simp add: Let_def valid_result_def observed_def)
qed

lemma streak_config_total:
  assumes "1 \<le> limit" and "0 < lookback" and "0 < duration"
  shows "\<exists>c. streak_config limit lookback duration = Inr c"
proof -
  have "set (map normalize_reason stop_loss_reasons) = {''STOP'', ''STOP_GAP'', ''TRAILING_STOP'', ''TRAILING_STOP_GAP''}"
    unfolding stop_loss_reasons_normal by (simp add: stop_loss_reasons_def)
  then have "sort (remdups (map normalize_reason stop_loss_reasons)) \<noteq> []"
      "\<not> list_ex (\<lambda>r. r = []) (sort (remdups (map normalize_reason stop_loss_reasons)))"
    by (auto simp: list_ex_iff simp flip: set_empty)
  with assms show ?thesis by (simp add: streak_config_def loss_config_post_init_def Let_def raise_if_def)
qed

lemma evaluate_active_streaks_total:
  assumes "\<forall>f\<in>set facts. loadable_fact f"
    and "loss_scope_valid owner account (strip_upper market) (strip_upper symbol) (Aware now)"
    and "gate_config_post_init c0 = Inr config" and "opens < closes"
  shows "\<exists>r. evaluate_active_streaks facts owner account market symbol now opens closes config = Inr r"
proof -
  let ?fs = "filter (\<lambda>f. opens \<le> tf_executed_at f \<and> tf_executed_at f \<le> now) facts"
  let ?ev = "\<lambda>fs c. valid_result
      (evaluate_shadow_loss_streak (map aware_fact fs) owner account market symbol (Aware now) c)"
  have config: "1 \<le> gc_global_loss_limit config" "1 \<le> gc_symbol_loss_limit config"
      "0 < gc_global_lookback config" "0 < gc_global_lock_duration config"
    using assms(3) by (auto simp: gate_config_post_init_def)
  have total: "\<exists>r. ?ev facts c = Inr r" "\<exists>r. ?ev ?fs c = Inr r" for c
    using valid_result_total [OF _ assms(2)] assms(1) by auto
  obtain c where c: "streak_config (gc_global_loss_limit config) (gc_global_lookback config)
      (gc_global_lock_duration config) = Inr c" using streak_config_total config by blast
  obtain g where g: "?ev facts c = Inr g" using total by blast
  obtain p where p: "streak_config (gc_symbol_loss_limit config) (closes - opens) (closes - opens) = Inr p"
    using streak_config_total config assms(4) by (metis diff_gt_0_iff_gt)
  obtain pre where pre: "?ev ?fs p = Inr pre" using total by blast
  have "\<exists>l. (case ob_newest_loss_at (lr_symbol_lock pre) of
                  None \<Rightarrow> Inr (lr_symbol_lock pre)
                | Some newest \<Rightarrow>
                    if closes \<le> newest then Inr (cleared EXPIRED (lr_symbol_lock pre))
                    else bindr (streak_config (gc_symbol_loss_limit config) (closes - opens) (closes - newest)) (\<lambda>q.
                         bindr (?ev ?fs q) (\<lambda>res. Inr (lr_symbol_lock res)))) = Inr l"
  proof (cases "ob_newest_loss_at (lr_symbol_lock pre)")
    case (Some newest)
    show ?thesis
    proof (cases "closes \<le> newest")
      case False
      then obtain q where q: "streak_config (gc_symbol_loss_limit config) (closes - opens) (closes - newest) = Inr q"
        using streak_config_total [of "gc_symbol_loss_limit config" "closes - opens" "closes - newest"]
          config assms(4) by auto
      obtain res where "?ev ?fs q = Inr res" using total by blast
      with q False Some show ?thesis by simp
    qed (simp add: Some)
  qed simp
  with c g p pre show ?thesis by (auto simp: evaluate_active_streaks_def Let_def)
qed

subsection \<open>Properties\<close>

text \<open>
  C27: In an open session the symbol lock of the gate is the session rule: BUY of the symbol is
  locked exactly when the symbol's sells of this session end in at least \<open>symbol_loss_limit\<close>
  losing stop exits in a row and the session has not closed, and a lock never outlives the
  session. The account-wide lock is the rule of the observation with the configured look-back
  and duration.
\<close>

theorem session_streak_locks:
  assumes "evaluate_active_streaks facts owner account market symbol now opens closes config = Inr r"
    and "opens \<le> now" and "now \<le> closes"
  shows "\<exists>global_facts session_facts c.
      deduplicate_facts (counted_facts owner account market now (gc_global_lookback config) facts) = Inr global_facts
    \<and> deduplicate_facts (filter (\<lambda>f. tf_symbol f = strip_upper symbol)
        (counted_facts owner account market now (closes - opens)
          (filter (\<lambda>f. opens \<le> tf_executed_at f \<and> tf_executed_at f \<le> now) facts))) = Inr session_facts
    \<and> (ob_buy_locked (lr_symbol_lock r) \<longleftrightarrow>
         gc_symbol_loss_limit config \<le> int (length (stop_run session_facts)) \<and> now < closes)
    \<and> (ob_expires_at (lr_symbol_lock r) = None \<or> ob_expires_at (lr_symbol_lock r) = Some closes)
    \<and> streak_config (gc_global_loss_limit config) (gc_global_lookback config) (gc_global_lock_duration config) = Inr c
    \<and> (ob_buy_locked (lr_global_lock r) \<longleftrightarrow> locks c now global_facts)"
  using evaluate_active_streaks_sound [OF assms refl refl] unfolding sound_lock_def reads_def by blast

lemma find_SomeD: "find P xs = Some x \<Longrightarrow> P x"
  by (auto simp: find_Some_iff)

lemma gate_combined_sound:
  assumes "gate_combined cal db owner market symbol now config = Inr r"
  shows "\<exists>current. now = Aware current \<and> lr_status r = VALID \<and> storable (lr_global_lock r) \<and> storable (lr_symbol_lock r)
    \<and> ob_evaluated_at (lr_global_lock r) = Aware current \<and> ob_evaluated_at (lr_symbol_lock r) = Aware current
    \<and> observation_key (lr_global_lock r) \<noteq> observation_key (lr_symbol_lock r)"
proof -
  from assms obtain current session_opt where now: "now = Aware current"
    and session: "current_regular_session cal (strip_upper market) (Aware current) = Inr session_opt"
    and rest: "(case session_opt of None \<Rightarrow> Inl (ValueError ''regular_session_unavailable'')
        | Some session \<Rightarrow>
            bindr (load_paper_trade_facts db owner (strip_upper market)
                     (min (current - gc_global_lookback config) (rs_opens_at session))) (\<lambda>(account_key, facts).
               evaluate_active_streaks facts owner account_key (strip_upper market) (strip_upper symbol)
                 current (rs_opens_at session) (rs_closes_at session) config)) = Inr r"
    unfolding gate_combined_def Let_def by (elim bindrE) simp
  from rest obtain s account facts where s: "session_opt = Some s"
    and ev: "evaluate_active_streaks facts owner account (strip_upper market) (strip_upper symbol)
               current (rs_opens_at s) (rs_closes_at s) config = Inr r"
    by (cases session_opt) (auto elim!: bindrE)
  have "session_contains s current"
    using session s by (auto simp: current_regular_session_def aware_utc_def elim!: bindrE dest: find_SomeD)
  then have "rs_opens_at s \<le> current" "current \<le> rs_closes_at s" by (simp_all add: session_contains_def)
  from evaluate_active_streaks_sound [OF ev this refl refl] now show ?thesis
    unfolding sound_lock_def by auto
qed

text \<open>
  The gate only ever observes buying. Any other side is bypassed without touching the lock
  table, an evaluation that fails reports no lock and leaves the table alone, and otherwise the
  verdict is the disjunction of the two locks; neither the contents of the table nor a failure
  to store them changes it.
\<close>

theorem gate_verdict:
  shows "(strip_upper side \<noteq> ''BUY'' \<longrightarrow>
           fst (gate_evaluate cal db t owner market symbol side now config) = t
         \<and> \<not> gr_buy_locked (snd (gate_evaluate cal db t owner market symbol side now config))
         \<and> gr_reason (snd (gate_evaluate cal db t owner market symbol side now config)) = Some sell_bypass)
    \<and> (strip_upper side = ''BUY'' \<longrightarrow>
         (case gate_combined cal db owner market symbol now config of
            Inl e \<Rightarrow> fst (gate_evaluate cal db t owner market symbol side now config) = t
              \<and> \<not> gr_buy_locked (snd (gate_evaluate cal db t owner market symbol side now config))
              \<and> gr_reason (snd (gate_evaluate cal db t owner market symbol side now config)) = Some unavailable
          | Inr r \<Rightarrow> gr_buy_locked (snd (gate_evaluate cal db t owner market symbol side now config))
                = effective_buy_locked r))
    \<and> gr_buy_locked (snd (gate_evaluate cal db t owner market symbol side now config))
        = gr_buy_locked (snd (gate_evaluate cal db t' owner market symbol side now config))"
  by (simp add: gate_evaluate_def gate_result_def effective_buy_locked_def Let_def split: sum.split prod.split)

text \<open>
  When the gate evaluates a BUY and the table holds nothing as new for its two locks, both
  locks are stored: nothing is reported as failed and the two rows carry the evaluation time.
\<close>

theorem gate_records_locks:
  assumes "strip_upper side = ''BUY''" and "gate_combined cal db owner market symbol (Aware now) config = Inr r"
    and "\<forall>row. t (observation_key (lr_global_lock r)) = Some row \<longrightarrow> row_evaluated_at row < now"
    and "\<forall>row. t (observation_key (lr_symbol_lock r)) = Some row \<longrightarrow> row_evaluated_at row < now"
    and "gate_evaluate cal db t owner market symbol side (Aware now) config = (t', res)"
  shows "ge_persist_failed (gr_evidence res) = None
    \<and> (\<exists>g s. t' = t(observation_key (lr_global_lock r) \<mapsto> g, observation_key (lr_symbol_lock r) \<mapsto> s)
         \<and> loss_row_to_state g = Inr (from_observation (lr_global_lock r))
         \<and> loss_row_to_state s = Inr (from_observation (lr_symbol_lock r)))"
proof -
  let ?g = "lr_global_lock r" and ?s = "lr_symbol_lock r"
  have ok: "storable ?g" "storable ?s" "ob_evaluated_at ?g = Aware now" "ob_evaluated_at ?s = Aware now"
    "observation_key ?g \<noteq> observation_key ?s" "lr_status r = VALID"
    using gate_combined_sound [OF assms(2)] by auto
  from persist_newer [of ?g now t, OF ok(1,3) assms(3)] obtain g where
    g: "persist_observation t ?g = (t(observation_key ?g \<mapsto> g), Inr (from_observation ?g))"
      "loss_row_to_state g = Inr (from_observation ?g)" by blast
  from persist_newer [OF ok(2,4), of "t(observation_key ?g \<mapsto> g)"] assms(4) ok(5) obtain s where
    s: "persist_observation (t(observation_key ?g \<mapsto> g)) ?s
          = (t(observation_key ?g \<mapsto> g, observation_key ?s \<mapsto> s), Inr (from_observation ?s))"
      "loss_row_to_state s = Inr (from_observation ?s)" by auto
  have "persist_nested t r = (t(observation_key ?g \<mapsto> g, observation_key ?s \<mapsto> s), None)"
    using g(1) s(1) ok(6) by (simp add: persist_nested_def persist_shadow_loss_locks_def)
  then have "ge_persist_failed (gr_evidence res) = None"
      "t' = t(observation_key ?g \<mapsto> g, observation_key ?s \<mapsto> s)"
    using assms(1,2,5) by (auto simp: gate_evaluate_def gate_result_def Let_def split: prod.splits)
  with g(2) s(2) show ?thesis by blast
qed

lemma load_facts_total:
  assumes "owner \<in> fst ` set (db_accounts db)"
  shows "\<exists>account facts. load_paper_trade_facts db owner market earliest = Inr (account, facts)"
proof -
  have "sort (map snd (filter (\<lambda>(u, _). u = owner) (db_accounts db))) \<noteq> []"
    using assms by (auto simp: filter_empty_conv simp flip: set_empty)
  then obtain i ids where "sort (map snd (filter (\<lambda>(u, _). u = owner) (db_accounts db))) = i # ids"
    by (meson neq_Nil_conv)
  then show ?thesis by (simp add: load_paper_trade_facts_def Let_def)
qed

lemma load_facts_loadable:
  assumes "load_paper_trade_facts db owner market earliest = Inr (account, facts)"
    and "\<forall>tr\<in>set (db_trades db). 0 < pt_id tr" and "\<forall>po\<in>set (db_orders db). py_strip (po_id po) \<noteq> []"
  shows "\<forall>f\<in>set facts. loadable_fact f" and "py_strip account \<noteq> []"
proof -
  from assms(1) obtain i where account: "account = account_key_of i"
    and facts: "\<forall>f\<in>set facts. \<exists>po tr. (po, tr) \<in> set (selected_rows db owner i market earliest)
      \<and> tf_id f = pt_id tr \<and> tf_transaction_id f = po_id po \<and> tf_trade_id f = py_str_int (pt_id tr)"
    by (fastforce simp: load_paper_trade_facts_def Let_def split: list.splits)
  have "po \<in> set (db_orders db) \<and> tr \<in> set (db_trades db)"
    if "(po, tr) \<in> set (selected_rows db owner i market earliest)" for po tr
    using that by (auto simp: selected_rows_def)
  with facts assms(2,3) show "\<forall>f\<in>set facts. loadable_fact f" by (fastforce simp: loadable_fact_def)
  show "py_strip account \<noteq> []"
    unfolding account account_key_of_def py_strip_nonempty by (simp add: is_space_def)
qed

text \<open>
  C36: The gate gives a verdict on a BUY whenever it can be asked one: in an open regular session of
  a supported market, for an owner with a PAPER account whose trades and orders carry usable
  identifiers, the evaluation succeeds and the report is never \<open>unavailable\<close>.
\<close>

theorem gate_gives_verdict:
  assumes "gate_config_post_init c0 = Inr config" and "0 < owner"
    and "strip_upper market \<in> {''KRX'', ''US''}" and "strip_upper symbol \<noteq> []"
    and "calendar_ok cal m" and "calendar_market (strip_upper market) = Inr m"
    and "current_regular_session cal (strip_upper market) (Aware now) = Inr (Some s)"
    and "owner \<in> fst ` set (db_accounts db)"
    and "\<forall>tr\<in>set (db_trades db). 0 < pt_id tr" and "\<forall>po\<in>set (db_orders db). py_strip (po_id po) \<noteq> []"
  shows "(\<exists>r. gate_combined cal db owner market symbol (Aware now) config = Inr r)
    \<and> gr_reason (snd (gate_evaluate cal db t owner market symbol ''BUY'' (Aware now) config)) \<noteq> Some unavailable"
proof -
  have "s \<in> set (sessions_around cal m now)"
    using assms(6,7) by (auto simp: current_regular_session_def aware_utc_def find_Some_iff)
  then have session: "rs_opens_at s < rs_closes_at s"
    using sessions_around_spec(2) [OF assms(5)] session_near(3) [OF assms(5)] by blast
  let ?earliest = "min (now - gc_global_lookback config) (rs_opens_at s)"
  from load_facts_total [OF assms(8)] obtain account facts where
    load: "load_paper_trade_facts db owner (strip_upper market) ?earliest = Inr (account, facts)" by blast
  note loadable = load_facts_loadable [OF load assms(9,10)]
  have "loss_scope_valid owner account (strip_upper (strip_upper market)) (strip_upper (strip_upper symbol)) (Aware now)"
    using assms(2,3,4) loadable(2) by (simp add: loss_scope_valid_def)
  from evaluate_active_streaks_total [OF loadable(1) this assms(1) session] load assms(7) obtain r where
    r: "gate_combined cal db owner market symbol (Aware now) config = Inr r"
    by (auto simp: gate_combined_def Let_def)
  moreover have "strip_upper ''BUY'' = ''BUY''" by code_simp
  ultimately show ?thesis
    by (auto simp: gate_evaluate_def gate_result_def Let_def split: prod.split)
qed

subsection \<open>A concrete gate\<close>

text \<open>Two losing stop exits of one symbol in a session that is still open.\<close>

definition demo_sell :: "int \<Rightarrow> instant \<Rightarrow> fact" where
  "demo_sell i t = \<lparr>tf_id = i, tf_transaction_id = ''order'' @ py_str_int i, tf_trade_id = py_str_int i,
     tf_owner_user_id = 7, tf_account_key = ''paper:1'', tf_market = ''KRX'', tf_symbol = ''005930'',
     tf_side = ''SELL'', tf_lifecycle_status = ''CLOSED'', tf_realized_pnl = Some (DFinite (- 1)),
     tf_exit_reason = Some ''STOP'', tf_executed_at = t, tf_account_mode = ''PAPER''\<rparr>"

definition demo_sells :: "fact list" where
  "demo_sells = [demo_sell 1 600, demo_sell 2 900]"

text \<open>An open session of the demonstration calendar, and an account with one losing sell.\<close>

definition demo_session_time :: instant where
  "demo_session_time = demo_moment - 36000000000"

definition demo_session :: regular_session where
  "demo_session = \<lparr>rs_market = KR, rs_session_date = ymd2ord (2026, 10, 5),
     rs_opens_at = demo_moment - 43200000000, rs_closes_at = demo_moment - 19800000000\<rparr>"

definition demo_db :: paper_db where
  "demo_db = \<lparr>db_accounts = [(7, 1)],
     db_orders = [\<lparr>po_id = ''order1'', po_owner_user_id = 7, po_client_order_id = ''ai-rec:9'',
       po_paper_account_id = 1, po_market = ''KRX'', po_side = ''SELL'', po_paper_trade_id = Some 5\<rparr>],
     db_trades = [\<lparr>pt_id = 5, pt_symbol = ''005930'', pt_realized_pnl = Some (DFinite (- 1)),
       pt_reason = Some ''STOP'', pt_executed_at = demo_session_time - 1000\<rparr>],
     db_recommendations = []\<rparr>"

lemma demo_gate_config: "gate_config_post_init default_loss_streak_config = Inr default_loss_streak_config"
  by (simp add: gate_config_post_init_def default_loss_streak_config_def)

lemma demo_open_session:
  "current_regular_session daily_calendar ''KRX'' (Aware demo_session_time) = Inr (Some demo_session)"
  by code_simp

lemma demo_sells_loadable: "\<forall>f\<in>set demo_sells. loadable_fact f"
  by (auto simp: demo_sells_def demo_sell_def loadable_fact_def py_strip_nonempty is_space_def)

lemma demo_symbol: "strip_upper ''005930'' = ''005930''" "strip_upper ''KRX'' = ''KRX''"
  by (fact loss_strings)+

lemma demo_gate_verdict_facts:
  "0 < (7::int)" "strip_upper ''KRX'' \<in> {''KRX'', ''US''}" "strip_upper ''005930'' \<noteq> []"
  "\<forall>tr\<in>set (db_trades demo_db). 0 < pt_id tr" "\<forall>po\<in>set (db_orders demo_db). py_strip (po_id po) \<noteq> []"
  "7 \<in> fst ` set (db_accounts demo_db)"
  by (auto simp: demo_symbol demo_db_def py_strip_nonempty is_space_def)

theorem gate_gives_verdict_witness:
  "(\<exists>r. gate_combined daily_calendar demo_db 7 ''KRX'' ''005930'' (Aware demo_session_time)
          default_loss_streak_config = Inr r)
   \<and> gr_reason (snd (gate_evaluate daily_calendar demo_db Map.empty 7 ''KRX'' ''005930'' ''BUY''
       (Aware demo_session_time) default_loss_streak_config)) \<noteq> Some unavailable"
  by (rule gate_gives_verdict [OF demo_gate_config demo_gate_verdict_facts(1,2,3) daily_calendar_ok _ _
        demo_gate_verdict_facts(6,4,5)])
    (simp_all add: demo_symbol demo_krx demo_open_session)

theorem session_streak_locks_witness:
  "\<exists>r. evaluate_active_streaks demo_sells 7 ''paper:1'' ''KRX'' ''005930'' 1000 0 2000 default_loss_streak_config = Inr r
     \<and> ob_buy_locked (lr_symbol_lock r)"
proof -
  let ?w = "map (\<lambda>f. normalized_fact ''KRX'' (aware_fact f) (tf_executed_at f)) demo_sells"
  have scope: "loss_scope_valid 7 ''paper:1'' (strip_upper ''KRX'') (strip_upper ''005930'') (Aware 1000)"
    using demo_scope by (simp add: demo_symbol)
  obtain r where r: "evaluate_active_streaks demo_sells 7 ''paper:1'' ''KRX'' ''005930'' 1000 0 2000
      default_loss_streak_config = Inr r"
    using evaluate_active_streaks_total [OF demo_sells_loadable scope demo_gate_config, of 0 2000] by auto
  have strings: "strip_upper ''PAPER'' = ''PAPER''" "strip_upper ''CLOSED'' = ''CLOSED''"
      "strip_upper ''SELL'' = ''SELL''" "strip_upper ''STOP'' = ''STOP''" "py_strip ''STOP'' = ''STOP''"
      "py_strip ''005930'' = ''005930''" "py_str_int 1 = ''1''" "py_str_int 2 = ''2''"
      "py_strip ''1'' = ''1''" "py_strip ''2'' = ''2''" "py_strip ''order1'' = ''order1''"
      "py_strip ''order2'' = ''order2''"
    by code_simp+
  note sells = demo_sells_def demo_sell_def aware_fact_def normalized_fact_def strings demo_symbol
  have "filter (\<lambda>f. 0 \<le> tf_executed_at f \<and> tf_executed_at f \<le> 1000) demo_sells = demo_sells"
    by (simp add: demo_sells_def demo_sell_def)
  moreover have "counted_facts 7 ''paper:1'' ''KRX'' 1000 2000 demo_sells = ?w"
    by (simp add: counted_facts_def window_facts_def counted_def in_lookback_def fact_in_scope_def fact_time_def
        sells sort_key_def fact_key_def less_eq_prod_def less_prod_def)
  moreover have "filter (\<lambda>f. tf_symbol f = strip_upper ''005930'') ?w = ?w" by (simp add: sells)
  moreover have "deduplicate_facts ?w = Inr ?w"
    by (rule deduplicate_facts_clean) (simp_all add: sells fact_key_def)
  moreover have "length (stop_run ?w) = 2"
    by (simp add: stop_run_def is_stop_exit_def sells stop_loss_reasons_def)
  ultimately have "ob_buy_locked (lr_symbol_lock r)"
    using session_streak_locks [OF r] by (auto simp: default_loss_streak_config_def)
  with r show ?thesis by blast
qed

theorem gate_verdict_witness:
  "\<not> gr_buy_locked (snd (gate_evaluate daily_calendar demo_db Map.empty 7 ''KRX'' ''005930'' ''sell''
       (Aware demo_session_time) default_loss_streak_config))
   \<and> gr_reason (snd (gate_evaluate daily_calendar demo_db Map.empty 7 ''KRX'' ''005930'' ''sell''
       (Aware demo_session_time) default_loss_streak_config)) = Some sell_bypass"
  using gate_verdict [of "''sell''" daily_calendar demo_db Map.empty 7 "''KRX''" "''005930''" "Aware demo_session_time"
      default_loss_streak_config Map.empty]
  by (simp add: loss_strings)

theorem gate_records_locks_witness:
  "\<exists>t' res. gate_evaluate daily_calendar demo_db Map.empty 7 ''KRX'' ''005930'' ''BUY'' (Aware demo_session_time)
      default_loss_streak_config = (t', res) \<and> ge_persist_failed (gr_evidence res) = None"
proof -
  have buy: "strip_upper ''BUY'' = ''BUY''" by code_simp
  obtain account facts where load: "load_paper_trade_facts demo_db 7 ''KRX'' (min (demo_session_time
      - gc_global_lookback default_loss_streak_config) (rs_opens_at demo_session)) = Inr (account, facts)"
    using load_facts_total [OF demo_gate_verdict_facts(6)] by blast
  note loadable = load_facts_loadable [OF load demo_gate_verdict_facts(4,5)]
  have "loss_scope_valid 7 account (strip_upper ''KRX'') (strip_upper ''005930'') (Aware demo_session_time)"
    using loadable(2) by (simp add: loss_scope_valid_def demo_symbol)
  moreover have "rs_opens_at demo_session < rs_closes_at demo_session" by (simp add: demo_session_def)
  ultimately obtain r where "gate_combined daily_calendar demo_db 7 ''KRX'' ''005930'' (Aware demo_session_time)
      default_loss_streak_config = Inr r"
    using evaluate_active_streaks_total [OF loadable(1) _ demo_gate_config] load
    by (fastforce simp: gate_combined_def Let_def demo_symbol demo_open_session)
  from gate_records_locks [OF buy this, of Map.empty] show ?thesis by (metis empty_iff option.distinct(1) surj_pair)
qed

end
