(* ===== verification/High_Watermark.thy ===== *)
theory High_Watermark
  imports PyDecimal Json_Text Sha256
begin

text \<open>
  The daily high-watermark observation, the evaluation half of
  \<open>app/extensions/kasset/automation/shadow_high_watermark.py\<close>: the equity of an account on one
  trading day, its peak, and the reduction of buying that profits, drawdowns and losses imply.

  The time-zone database is the argument \<open>tz\<close>, the UTC offset of a market's zone at an instant.
  \<open>str\<close> of a \<open>Decimal\<close>, which depends on the exponent it carries, is the argument \<open>dtext\<close>; the
  Korean texts of the reasons are the argument \<open>ktext\<close>. Persistence is in
  \<open>High_Watermark_Store\<close>.
\<close>

subsection \<open>Codes\<close>

datatype evidence_status = EV_VALID | EV_INSUFFICIENT | EV_FAIL_CLOSED

datatype shadow_buy_state = NORMAL | STAGED_REDUCTION | EXIT_ONLY

datatype shadow_reason_code =
    VALUATION_APPLIED | TRADING_DAY_ROLLOVER | IDEMPOTENT_REPLAY | MISSING_VALUATION_SOURCE
  | UNSUPPORTED_MARKET | INVALID_HWM_SCOPE | SCOPE_MISMATCH | INVALID_HWM_TIMESTAMP | FUTURE_VALUATION
  | STALE_VALUATION | INVALID_EQUITY | INVALID_REFERENCE_EQUITY | OUT_OF_ORDER_VALUATION
  | VALUATION_TIMESTAMP_COLLISION | MAXIMUM_LOSS_REACHED

text \<open>The text of a reason: one per code, and a second one for an applied valuation.\<close>

datatype reason_detail = DetailOf shadow_reason_code | FirstValuation

fun evidence_status_value :: "evidence_status \<Rightarrow> string" where
  "evidence_status_value EV_VALID = ''valid''"
| "evidence_status_value EV_INSUFFICIENT = ''insufficient''"
| "evidence_status_value EV_FAIL_CLOSED = ''fail-closed''"

fun buy_state_value :: "shadow_buy_state \<Rightarrow> string" where
  "buy_state_value NORMAL = ''NORMAL''"
| "buy_state_value STAGED_REDUCTION = ''STAGED_REDUCTION''"
| "buy_state_value EXIT_ONLY = ''EXIT_ONLY''"

fun reason_code_value :: "shadow_reason_code \<Rightarrow> string" where
  "reason_code_value VALUATION_APPLIED = ''VALUATION_APPLIED''"
| "reason_code_value TRADING_DAY_ROLLOVER = ''TRADING_DAY_ROLLOVER''"
| "reason_code_value IDEMPOTENT_REPLAY = ''IDEMPOTENT_REPLAY''"
| "reason_code_value MISSING_VALUATION_SOURCE = ''MISSING_VALUATION_SOURCE''"
| "reason_code_value UNSUPPORTED_MARKET = ''UNSUPPORTED_MARKET''"
| "reason_code_value INVALID_HWM_SCOPE = ''INVALID_SCOPE''"
| "reason_code_value SCOPE_MISMATCH = ''SCOPE_MISMATCH''"
| "reason_code_value INVALID_HWM_TIMESTAMP = ''INVALID_TIMESTAMP''"
| "reason_code_value FUTURE_VALUATION = ''FUTURE_VALUATION''"
| "reason_code_value STALE_VALUATION = ''STALE_VALUATION''"
| "reason_code_value INVALID_EQUITY = ''INVALID_EQUITY''"
| "reason_code_value INVALID_REFERENCE_EQUITY = ''INVALID_REFERENCE_EQUITY''"
| "reason_code_value OUT_OF_ORDER_VALUATION = ''OUT_OF_ORDER_VALUATION''"
| "reason_code_value VALUATION_TIMESTAMP_COLLISION = ''VALUATION_TIMESTAMP_COLLISION''"
| "reason_code_value MAXIMUM_LOSS_REACHED = ''MAXIMUM_LOSS_REACHED''"

subsection \<open>Thresholds\<close>

record 'd reduction_stage =
  stage_name :: string
  stage_trigger_ratio :: 'd
  stage_buy_multiplier :: 'd

definition reduction_stage_post_init :: "decimal reduction_stage \<Rightarrow> rat reduction_stage result" where
  "reduction_stage_post_init s =
     raise_if (py_strip (stage_name s) = []) (ValueError ''stage name must be nonempty'')
    (bindr (require_dec (ValueError ''trigger_ratio must be a positive finite Decimal'') (\<lambda>q. 0 < q)
              (stage_trigger_ratio s)) (\<lambda>trigger.
     bindr (require_dec (ValueError ''buy_multiplier must be between 0 and 1'') (\<lambda>q. 0 < q \<and> q < 1)
              (stage_buy_multiplier s)) (\<lambda>multiplier.
     Inr \<lparr>stage_name = stage_name s, stage_trigger_ratio = trigger, stage_buy_multiplier = multiplier\<rparr>)))"

fun stages_steps_ok :: "rat reduction_stage list \<Rightarrow> string \<Rightarrow> unit result" where
  "stages_steps_ok (previous # current # rest) field_name =
     raise_if (stage_trigger_ratio current \<le> stage_trigger_ratio previous)
       (ValueError (field_name @ '' triggers must be strictly increasing''))
    (raise_if (stage_buy_multiplier previous < stage_buy_multiplier current)
       (ValueError (field_name @ '' multipliers must not increase''))
    (stages_steps_ok (current # rest) field_name))"
| "stages_steps_ok _ field_name = Inr ()"

definition validate_stages :: "rat reduction_stage list \<Rightarrow> string \<Rightarrow> unit result" where
  "validate_stages stages field_name =
     raise_if (\<not> distinct (map stage_name stages)) (ValueError (field_name @ '' names must be unique''))
       (stages_steps_ok stages field_name)"

record 'd hwm_thresholds =
  th_profit_target_stages :: "rat reduction_stage list"
  th_peak_drawdown_stages :: "rat reduction_stage list"
  th_maximum_loss_ratio :: 'd
  th_max_valuation_age :: duration

type_synonym thresholds = "rat hwm_thresholds"

definition hwm_thresholds_post_init :: "decimal hwm_thresholds \<Rightarrow> thresholds result" where
  "hwm_thresholds_post_init t =
     bindr (require_dec (ValueError ''maximum_loss_ratio must be in (0, 1]'') (\<lambda>q. 0 < q \<and> q \<le> 1)
              (th_maximum_loss_ratio t)) (\<lambda>maximum_loss.
     raise_if (th_max_valuation_age t \<le> 0) (ValueError ''max_valuation_age must be positive'')
    (bindr (validate_stages (th_profit_target_stages t) ''profit_target_stages'') (\<lambda>_.
     bindr (validate_stages (th_peak_drawdown_stages t) ''peak_drawdown_stages'') (\<lambda>_.
     Inr \<lparr>th_profit_target_stages = th_profit_target_stages t,
          th_peak_drawdown_stages = th_peak_drawdown_stages t,
          th_maximum_loss_ratio = maximum_loss, th_max_valuation_age = th_max_valuation_age t\<rparr>))))"

definition stage_serializable :: "(rat \<Rightarrow> string) \<Rightarrow> rat reduction_stage \<Rightarrow> json" where
  "stage_serializable dtext s = JObj
     [(''name'', JStr (stage_name s)),
      (''triggerRatio'', JStr (dtext (stage_trigger_ratio s))),
      (''buyMultiplier'', JStr (dtext (stage_buy_multiplier s)))]"

definition thresholds_serializable :: "(rat \<Rightarrow> string) \<Rightarrow> thresholds \<Rightarrow> json" where
  "thresholds_serializable dtext t = JObj
     [(''configSchemaVersion'', JStr ''kasset.shadow-high-watermark-config.v1''),
      (''profitTargetStages'', JList (map (stage_serializable dtext) (th_profit_target_stages t))),
      (''peakDrawdownStages'', JList (map (stage_serializable dtext) (th_peak_drawdown_stages t))),
      (''maximumLossRatio'', JStr (dtext (th_maximum_loss_ratio t))),
      (''maxValuationAgeMicroseconds'', JInt (th_max_valuation_age t))]"

definition thresholds_fingerprint :: "(rat \<Rightarrow> string) \<Rightarrow> thresholds \<Rightarrow> string" where
  "thresholds_fingerprint dtext t = sha256_hex (json_dumps (thresholds_serializable dtext t))"

subsection \<open>Valuations, states and evaluations\<close>

record equity_valuation =
  va_owner_user_id :: int
  va_account_key :: string
  va_market :: string
  va_equity :: decimal
  va_valuation_at :: py_datetime
  va_evaluated_at :: py_datetime
  va_valuation_source :: string
  va_reference_equity :: "decimal option"

record hwm_state =
  hw_owner_user_id :: int
  hw_account_key :: string
  hw_market :: string
  hw_trading_date :: date_ordinal
  hw_session_opening_equity :: rat
  hw_reference_equity :: rat
  hw_peak_equity :: rat
  hw_current_equity :: rat
  hw_valuation_at :: instant
  hw_valuation_source :: string
  hw_state_version :: int

definition hwm_markets :: "string list" where
  "hwm_markets = [''KRX'', ''US'']"

definition hwm_state_post_init :: "hwm_state \<Rightarrow> hwm_state result" where
  "hwm_state_post_init s =
     raise_if (hw_owner_user_id s \<le> 0 \<or> py_strip (hw_account_key s) = []) (ValueError ''state scope is invalid'')
    (raise_if (hw_market s \<notin> set hwm_markets) (ValueError ''state market is unsupported'')
    (raise_if (hw_session_opening_equity s \<le> 0)
       (ValueError ''session_opening_equity must be a positive finite Decimal'')
    (raise_if (hw_reference_equity s \<le> 0) (ValueError ''reference_equity must be a positive finite Decimal'')
    (raise_if (hw_peak_equity s \<le> 0) (ValueError ''peak_equity must be a positive finite Decimal'')
    (raise_if (hw_current_equity s \<le> 0) (ValueError ''current_equity must be a positive finite Decimal'')
    (raise_if (hw_peak_equity s < hw_session_opening_equity s)
       (ValueError ''peak_equity must cover session_opening_equity'')
    (raise_if (hw_peak_equity s < hw_current_equity s) (ValueError ''peak_equity must cover current_equity'')
    (raise_if (py_strip (hw_valuation_source s) = []) (ValueError ''valuation_source must be nonempty'')
    (raise_if (hw_state_version s \<le> 0) (ValueError ''state_version must be positive'')
    (Inr s))))))))))"

datatype stage_kind = PROFIT_TARGET | PEAK_DRAWDOWN

record triggered_stage =
  tr_kind :: stage_kind
  tr_name :: string
  tr_trigger_ratio :: rat
  tr_observed_ratio :: rat
  tr_buy_multiplier :: rat

type_synonym hwm_reason = "shadow_reason_code \<times> reason_detail"

record hwm_evaluation =
  he_status :: evidence_status
  he_trading_date :: "date_ordinal option"
  he_buy_state :: shadow_buy_state
  he_buy_multiplier :: rat
  he_sell_risk_reduction_allowed :: bool
  he_state :: "hwm_state option"
  he_expected_state_version :: "int option"
  he_threshold_fingerprint :: string
  he_thresholds :: thresholds
  he_valuation :: equity_valuation
  he_profit_ratio :: "rat option"
  he_peak_drawdown_ratio :: "rat option"
  he_session_loss_ratio :: "rat option"
  he_reference_loss_ratio :: "rat option"
  he_triggered_stages :: "triggered_stage list"
  he_reasons :: "hwm_reason list"

definition persistence_required :: "hwm_evaluation \<Rightarrow> bool" where
  "persistence_required e \<longleftrightarrow>
     he_status e = EV_VALID
     \<and> (case he_state e of
          None \<Rightarrow> False
        | Some state \<Rightarrow>
            (case he_expected_state_version e of
               None \<Rightarrow> True
             | Some expected \<Rightarrow> expected < hw_state_version state))"

subsection \<open>The evaluation\<close>

definition market_trading_date :: "(string \<Rightarrow> instant \<Rightarrow> duration) \<Rightarrow> string \<Rightarrow> py_datetime \<Rightarrow> date_ordinal result" where
  "market_trading_date tz market moment =
     raise_if (py_upper market \<notin> set hwm_markets) (ValueError ''unsupported market'')
    (bindr (require_aware ''at must be timezone-aware'' moment) (\<lambda>t.
     Inr (utc_date (t + tz (py_upper market) t))))"

definition non_actionable ::
    "equity_valuation \<Rightarrow> thresholds \<Rightarrow> string \<Rightarrow> hwm_state option \<Rightarrow> date_ordinal option \<Rightarrow> evidence_status
      \<Rightarrow> shadow_reason_code \<Rightarrow> hwm_evaluation" where
  "non_actionable valuation th fingerprint previous trading_date status code =
     \<lparr>he_status = status, he_trading_date = trading_date, he_buy_state = EXIT_ONLY, he_buy_multiplier = 0,
      he_sell_risk_reduction_allowed = True, he_state = previous,
      he_expected_state_version = map_option hw_state_version previous,
      he_threshold_fingerprint = fingerprint, he_thresholds = th, he_valuation = valuation,
      he_profit_ratio = None, he_peak_drawdown_ratio = None, he_session_loss_ratio = None,
      he_reference_loss_ratio = None, he_triggered_stages = [], he_reasons = [(code, DetailOf code)]\<rparr>"

definition triggered_of :: "stage_kind \<Rightarrow> rat \<Rightarrow> rat reduction_stage list \<Rightarrow> triggered_stage list" where
  "triggered_of kind observed stages =
     map (\<lambda>s. \<lparr>tr_kind = kind, tr_name = stage_name s, tr_trigger_ratio = stage_trigger_ratio s,
               tr_observed_ratio = observed, tr_buy_multiplier = stage_buy_multiplier s\<rparr>)
       (filter (\<lambda>s. stage_trigger_ratio s \<le> observed) stages)"

text \<open>\<open>min(item.buy_multiplier for item in triggered)\<close> of a nonempty list.\<close>

fun min_multiplier :: "triggered_stage list \<Rightarrow> rat" where
  "min_multiplier [] = 1"
| "min_multiplier [x] = tr_buy_multiplier x"
| "min_multiplier (x # y # xs) = min (tr_buy_multiplier x) (min_multiplier (y # xs))"

definition valid_evaluation ::
    "equity_valuation \<Rightarrow> thresholds \<Rightarrow> string \<Rightarrow> hwm_state \<Rightarrow> int option \<Rightarrow> hwm_reason \<Rightarrow> hwm_evaluation result" where
  "valid_evaluation valuation th fingerprint state expected why =
     bindr (dsub (hw_current_equity state) (hw_reference_equity state)) (\<lambda>gain.
     bindr (ddiv gain (hw_reference_equity state)) (\<lambda>profit_ratio.
     bindr (dsub (hw_peak_equity state) (hw_current_equity state)) (\<lambda>fall.
     bindr (ddiv fall (hw_peak_equity state)) (\<lambda>fall_ratio.
     bindr (dsub (hw_session_opening_equity state) (hw_current_equity state)) (\<lambda>loss.
     bindr (ddiv loss (hw_session_opening_equity state)) (\<lambda>loss_ratio.
     bindr (dec_ctx (- profit_ratio)) (\<lambda>reverse_profit.
     let peak_drawdown_ratio = max 0 fall_ratio;
         session_loss_ratio = max 0 loss_ratio;
         reference_loss_ratio = max 0 reverse_profit;
         triggered = triggered_of PROFIT_TARGET profit_ratio (th_profit_target_stages th)
                   @ triggered_of PEAK_DRAWDOWN peak_drawdown_ratio (th_peak_drawdown_stages th);
         maximum_loss_reached = th_maximum_loss_ratio th \<le> max session_loss_ratio reference_loss_ratio;
         (buy_state, buy_multiplier, reasons) =
           (if maximum_loss_reached
            then (EXIT_ONLY, 0, [why, (MAXIMUM_LOSS_REACHED, DetailOf MAXIMUM_LOSS_REACHED)])
            else if triggered \<noteq> [] then (STAGED_REDUCTION, min_multiplier triggered, [why])
            else (NORMAL, 1, [why]))
     in Inr \<lparr>he_status = EV_VALID, he_trading_date = Some (hw_trading_date state), he_buy_state = buy_state,
             he_buy_multiplier = buy_multiplier, he_sell_risk_reduction_allowed = True, he_state = Some state,
             he_expected_state_version = expected, he_threshold_fingerprint = fingerprint, he_thresholds = th,
             he_valuation = valuation, he_profit_ratio = Some profit_ratio,
             he_peak_drawdown_ratio = Some peak_drawdown_ratio, he_session_loss_ratio = Some session_loss_ratio,
             he_reference_loss_ratio = Some reference_loss_ratio, he_triggered_stages = triggered,
             he_reasons = reasons\<rparr>)))))))"

text \<open>A valuation that passed the checks of its own fields: market, time, day, equity, reference.\<close>

record checked_valuation =
  cv_market :: string
  cv_at :: instant
  cv_date :: date_ordinal
  cv_equity :: rat
  cv_reference :: "rat option"

text \<open>The checks, in order; \<open>Inl\<close> carries the day, status and code of the refusal.\<close>

definition check_valuation ::
    "(string \<Rightarrow> instant \<Rightarrow> duration) \<Rightarrow> equity_valuation \<Rightarrow> thresholds
      \<Rightarrow> (date_ordinal option \<times> evidence_status \<times> shadow_reason_code) + checked_valuation" where
  "check_valuation tz v th =
     (let market = py_upper (va_market v)
      in if va_owner_user_id v \<le> 0 \<or> py_strip (va_account_key v) = []
         then Inl (None, EV_FAIL_CLOSED, INVALID_HWM_SCOPE)
         else if market \<notin> set hwm_markets then Inl (None, EV_FAIL_CLOSED, UNSUPPORTED_MARKET)
         else case (utc_or_none (va_evaluated_at v), utc_or_none (va_valuation_at v)) of
           (Some evaluated_at, Some valuation_at) \<Rightarrow>
             let trading_date = utc_date (valuation_at + tz market valuation_at)
             in if py_strip (va_valuation_source v) = []
                then Inl (Some trading_date, EV_INSUFFICIENT, MISSING_VALUATION_SOURCE)
                else if evaluated_at < valuation_at
                then Inl (Some trading_date, EV_FAIL_CLOSED, FUTURE_VALUATION)
                else if th_max_valuation_age th < evaluated_at - valuation_at
                then Inl (Some trading_date, EV_FAIL_CLOSED, STALE_VALUATION)
                else (case finite_value (va_equity v) of
                  None \<Rightarrow> Inl (Some trading_date, EV_FAIL_CLOSED, INVALID_EQUITY)
                | Some equity \<Rightarrow>
                    if equity \<le> 0 then Inl (Some trading_date, EV_FAIL_CLOSED, INVALID_EQUITY)
                    else (case va_reference_equity v of
                      None \<Rightarrow> Inr \<lparr>cv_market = market, cv_at = valuation_at, cv_date = trading_date,
                                   cv_equity = equity, cv_reference = None\<rparr>
                    | Some reference \<Rightarrow>
                        (case finite_value reference of
                           None \<Rightarrow> Inl (Some trading_date, EV_FAIL_CLOSED, INVALID_REFERENCE_EQUITY)
                         | Some r \<Rightarrow>
                             if r \<le> 0 then Inl (Some trading_date, EV_FAIL_CLOSED, INVALID_REFERENCE_EQUITY)
                             else Inr \<lparr>cv_market = market, cv_at = valuation_at, cv_date = trading_date,
                                       cv_equity = equity, cv_reference = Some r\<rparr>)))
         | _ \<Rightarrow> Inl (None, EV_FAIL_CLOSED, INVALID_HWM_TIMESTAMP))"

text \<open>The state of a day that starts with this valuation, and the next state of a running day.\<close>

definition opening_state :: "equity_valuation \<Rightarrow> checked_valuation \<Rightarrow> hwm_state result" where
  "opening_state v cv = hwm_state_post_init
     \<lparr>hw_owner_user_id = va_owner_user_id v, hw_account_key = va_account_key v, hw_market = cv_market cv,
      hw_trading_date = cv_date cv, hw_session_opening_equity = cv_equity cv,
      hw_reference_equity = (case cv_reference cv of None \<Rightarrow> cv_equity cv | Some r \<Rightarrow> r),
      hw_peak_equity = cv_equity cv, hw_current_equity = cv_equity cv, hw_valuation_at = cv_at cv,
      hw_valuation_source = va_valuation_source v, hw_state_version = 1\<rparr>"

definition next_state :: "hwm_state \<Rightarrow> equity_valuation \<Rightarrow> checked_valuation \<Rightarrow> hwm_state result" where
  "next_state p v cv = hwm_state_post_init
     (p\<lparr>hw_peak_equity := max (hw_peak_equity p) (cv_equity cv), hw_current_equity := cv_equity cv,
        hw_valuation_at := cv_at cv, hw_valuation_source := va_valuation_source v,
        hw_state_version := hw_state_version p + 1\<rparr>)"

definition evaluate_shadow_high_watermark ::
    "(string \<Rightarrow> instant \<Rightarrow> duration) \<Rightarrow> (rat \<Rightarrow> string) \<Rightarrow> equity_valuation \<Rightarrow> thresholds \<Rightarrow> hwm_state option
      \<Rightarrow> hwm_evaluation result" where
  "evaluate_shadow_high_watermark tz dtext v th previous =
     (let fingerprint = thresholds_fingerprint dtext th;
          refuse = (\<lambda>day status code. Inr (non_actionable v th fingerprint previous day status code))
      in case check_valuation tz v th of
        Inl (day, status, code) \<Rightarrow> refuse day status code
      | Inr cv \<Rightarrow>
          (case previous of
             None \<Rightarrow>
               bindr (opening_state v cv) (\<lambda>state.
               valid_evaluation v th fingerprint state None (VALUATION_APPLIED, FirstValuation))
           | Some p \<Rightarrow>
               if hw_owner_user_id p \<noteq> va_owner_user_id v \<or> hw_account_key p \<noteq> va_account_key v
                  \<or> hw_market p \<noteq> cv_market cv
               then refuse (Some (cv_date cv)) EV_FAIL_CLOSED SCOPE_MISMATCH
               else if cv_date cv < hw_trading_date p \<or> cv_at cv < hw_valuation_at p
               then refuse (Some (cv_date cv)) EV_INSUFFICIENT OUT_OF_ORDER_VALUATION
               else if cv_date cv = hw_trading_date p \<and> cv_at cv = hw_valuation_at p
               then if cv_equity cv = hw_current_equity p \<and> va_valuation_source v = hw_valuation_source p
                    then valid_evaluation v th fingerprint p (Some (hw_state_version p))
                           (IDEMPOTENT_REPLAY, DetailOf IDEMPOTENT_REPLAY)
                    else refuse (Some (cv_date cv)) EV_FAIL_CLOSED VALUATION_TIMESTAMP_COLLISION
               else if hw_trading_date p < cv_date cv
               then bindr (opening_state v cv) (\<lambda>state.
                    valid_evaluation v th fingerprint state None
                      (TRADING_DAY_ROLLOVER, DetailOf TRADING_DAY_ROLLOVER))
               else bindr (next_state p v cv) (\<lambda>state.
                    valid_evaluation v th fingerprint state (Some (hw_state_version p))
                      (VALUATION_APPLIED, DetailOf VALUATION_APPLIED))))"

subsection \<open>Evidence\<close>

definition hwm_timestamp_text :: "py_datetime \<Rightarrow> json" where
  "hwm_timestamp_text d =
     (case d of
        Aware t \<Rightarrow> JStr (iso_utc t)
      | Naive n \<Rightarrow> JStr (take (length (iso_utc n) - 6) (iso_utc n)))"

definition hwm_state_evidence :: "(rat \<Rightarrow> string) \<Rightarrow> hwm_state \<Rightarrow> json" where
  "hwm_state_evidence dtext s = JObj
     [(''ownerUserId'', JInt (hw_owner_user_id s)),
      (''accountKey'', JStr (hw_account_key s)),
      (''market'', JStr (hw_market s)),
      (''tradingDate'', JStr (iso_date (hw_trading_date s))),
      (''sessionOpeningEquity'', JStr (dtext (hw_session_opening_equity s))),
      (''referenceEquity'', JStr (dtext (hw_reference_equity s))),
      (''peakEquity'', JStr (dtext (hw_peak_equity s))),
      (''currentEquity'', JStr (dtext (hw_current_equity s))),
      (''valuationAt'', JStr (iso_utc (hw_valuation_at s))),
      (''valuationSource'', JStr (hw_valuation_source s)),
      (''stateVersion'', JInt (hw_state_version s))]"

definition triggered_evidence :: "(rat \<Rightarrow> string) \<Rightarrow> triggered_stage \<Rightarrow> json" where
  "triggered_evidence dtext s = JObj
     [(''kind'', JStr (case tr_kind s of PROFIT_TARGET \<Rightarrow> ''PROFIT_TARGET'' | PEAK_DRAWDOWN \<Rightarrow> ''PEAK_DRAWDOWN'')),
      (''name'', JStr (tr_name s)),
      (''triggerRatio'', JStr (dtext (tr_trigger_ratio s))),
      (''observedRatio'', JStr (dtext (tr_observed_ratio s))),
      (''buyMultiplier'', JStr (dtext (tr_buy_multiplier s)))]"

definition hwm_reason_evidence :: "(reason_detail \<Rightarrow> string) \<Rightarrow> hwm_reason \<Rightarrow> json" where
  "hwm_reason_evidence ktext r = JObj
     [(''code'', JStr (reason_code_value (fst r))), (''detail'', JStr (ktext (snd r)))]"

definition hwm_evidence :: "(rat \<Rightarrow> string) \<Rightarrow> (reason_detail \<Rightarrow> string) \<Rightarrow> hwm_evaluation \<Rightarrow> json" where
  "hwm_evidence dtext ktext e =
     (let number = json_optional (\<lambda>q. JStr (dtext q)) in JObj
       [(''schemaVersion'', JStr ''kasset.shadow-high-watermark.v1''),
        (''mode'', JStr ''SHADOW''),
        (''status'', JStr (evidence_status_value (he_status e))),
        (''scope'', JObj
          [(''ownerUserId'', JInt (va_owner_user_id (he_valuation e))),
           (''accountKey'', JStr (va_account_key (he_valuation e))),
           (''market'', JStr (py_upper (va_market (he_valuation e)))),
           (''tradingDate'', json_optional (\<lambda>d. JStr (iso_date d)) (he_trading_date e))]),
        (''sourceTimestamps'', JObj
          [(''valuationAt'', hwm_timestamp_text (va_valuation_at (he_valuation e))),
           (''evaluatedAt'', hwm_timestamp_text (va_evaluated_at (he_valuation e))),
           (''stateValuationAt'', json_optional (\<lambda>s. JStr (iso_utc (hw_valuation_at s))) (he_state e))]),
        (''valuationSource'', JStr (va_valuation_source (he_valuation e))),
        (''thresholdConfig'', JObj
          [(''fingerprint'', JStr (he_threshold_fingerprint e)),
           (''config'', thresholds_serializable dtext (he_thresholds e))]),
        (''hypothetical'', JObj
          [(''buyState'', JStr (buy_state_value (he_buy_state e))),
           (''buyMultiplier'', JStr (dtext (he_buy_multiplier e))),
           (''buyActionable'', JBool (he_status e = EV_VALID \<and> he_buy_state e \<noteq> EXIT_ONLY)),
           (''sellRiskReductionAllowed'', JBool (he_sell_risk_reduction_allowed e))]),
        (''metrics'', JObj
          [(''profitRatio'', number (he_profit_ratio e)),
           (''peakDrawdownRatio'', number (he_peak_drawdown_ratio e)),
           (''sessionLossRatio'', number (he_session_loss_ratio e)),
           (''referenceLossRatio'', number (he_reference_loss_ratio e))]),
        (''triggeredStages'', JList (map (triggered_evidence dtext) (he_triggered_stages e))),
        (''reasons'', JList (map (hwm_reason_evidence ktext) (he_reasons e))),
        (''state'', json_optional (hwm_state_evidence dtext) (he_state e))])"

end
