(* ===== verification/Money.thy ===== *)
theory Money
  imports PyDecimal
begin

text \<open>
  Monetary amounts: the quantization helpers of \<open>app/core/money.py\<close> and the \<open>numeric(p, s)\<close>
  columns of the tables. The lemmas show that bookkeeping on amounts with a fixed number of
  decimal places is exact: a sum or difference that is quantized and fits its column is the
  mathematical one.
\<close>

subsection \<open>Rounding to decimal places\<close>

text \<open>Ties go away from zero: \<open>ROUND_HALF_UP\<close> of the decimal module and PostgreSQL's rounding.\<close>

definition round_half_away :: "rat \<Rightarrow> int" where
  "round_half_away q = (if 0 \<le> q then \<lfloor>q + 1 / 2\<rfloor> else - \<lfloor>1 / 2 - q\<rfloor>)"

text \<open>
  \<open>quantize\<close> to \<open>s\<close> places with \<open>ROUND_HALF_UP\<close>: an invalid operation when the result needs more
  than 28 digits.
\<close>

definition quantize_half_up :: "nat \<Rightarrow> rat \<Rightarrow> rat result" where
  "quantize_half_up s q =
     (let n = round_half_away (q * 10 ^ s)
      in if 10 ^ 28 \<le> \<bar>n\<bar> then Inl DecimalException else Inr (of_int n / 10 ^ s))"

definition quantize_money :: "rat \<Rightarrow> rat result" where
  "quantize_money q = quantize_half_up 4 q"

definition quantize_crypto_qty :: "rat \<Rightarrow> rat result" where
  "quantize_crypto_qty q = quantize_half_up 8 q"

definition quantize_pct :: "rat \<Rightarrow> rat result" where
  "quantize_pct q = quantize_half_up 2 q"

text \<open>A column \<open>numeric(p, s)\<close>: \<open>s\<close> digits after the point, \<open>p - s\<close> before it.\<close>

definition numeric_column :: "nat \<Rightarrow> nat \<Rightarrow> rat \<Rightarrow> rat result" where
  "numeric_column p s q =
     (let r = of_int (round_half_away (q * 10 ^ s)) / 10 ^ s
      in if \<bar>r\<bar> < 10 ^ (p - s) then Inr r else Inl (DataError ''numeric field overflow''))"

subsection \<open>Amounts with a fixed number of places\<close>

definition places :: "nat \<Rightarrow> rat \<Rightarrow> bool" where
  "places s q \<longleftrightarrow> q * 10 ^ s \<in> \<int>"

lemma placesE:
  assumes "places s q"
  obtains n :: int where "q = of_int n / 10 ^ s"
proof -
  from assms obtain n :: int where "q * 10 ^ s = of_int n" by (auto simp: places_def elim: Ints_cases)
  then have "q = of_int n / 10 ^ s" by (simp add: eq_divide_eq)
  then show thesis by (rule that)
qed

lemma places_of_int_div [simp]: "places s (of_int n / 10 ^ s)"
  by (simp add: places_def)

lemma places_0 [simp]: "places s 0"
  by (simp add: places_def)

lemma places_of_int [simp]: "places s (of_int n)"
  by (simp add: places_def)

lemma places_add [intro]: "places s a \<Longrightarrow> places s b \<Longrightarrow> places s (a + b)"
  by (simp add: places_def distrib_right)

lemma places_diff [intro]: "places s a \<Longrightarrow> places s b \<Longrightarrow> places s (a - b)"
  by (simp add: places_def left_diff_distrib)

lemma places_uminus [intro]: "places s a \<Longrightarrow> places s (- a)"
  by (simp add: places_def)

lemma places_mono:
  assumes "places s q" and "s \<le> s'"
  shows "places s' q"
proof -
  have "q * 10 ^ s' = (q * 10 ^ s) * of_int (10 ^ (s' - s))"
    using assms(2) by (simp add: power_add [symmetric])
  with assms(1) show ?thesis unfolding places_def by (metis Ints_mult Ints_of_int)
qed

lemma round_half_away_of_int [simp]: "round_half_away (of_int n) = n"
  by (auto simp: round_half_away_def) linarith+

lemma round_half_away_mono: "a \<le> b \<Longrightarrow> round_half_away a \<le> round_half_away b"
  unfolding round_half_away_def
  by (cases "0 \<le> a"; cases "0 \<le> b") (auto intro: floor_mono, linarith)

lemma round_half_away_error: "\<bar>of_int (round_half_away q) - q\<bar> \<le> 1 / 2"
proof -
  have "of_int \<lfloor>x\<rfloor> \<le> x" "x < of_int \<lfloor>x\<rfloor> + 1" for x :: rat
    using floor_correct [of x] by simp_all
  note floor = this [of "q + 1 / 2"] this [of "1 / 2 - q"]
  have "round_half_away q = \<lfloor>q + 1 / 2\<rfloor> \<or> of_int (round_half_away q) = (- of_int \<lfloor>1 / 2 - q\<rfloor> :: rat)"
    by (simp add: round_half_away_def)
  then show ?thesis using floor by (elim disjE) linarith+
qed

lemma scaled_difference: "\<bar>x / 10 ^ s - q\<bar> = \<bar>x - q * 10 ^ s\<bar> / 10 ^ s" for x q :: rat
proof -
  have "x / 10 ^ s - q = (x - q * 10 ^ s) / 10 ^ s" by (simp add: diff_divide_distrib)
  then show ?thesis by (simp add: abs_divide)
qed

lemma round_half_away_places: "places s q \<Longrightarrow> of_int (round_half_away (q * 10 ^ s)) / 10 ^ s = q"
  by (erule placesE) simp

lemma quantize_half_up_Inr:
  assumes "quantize_half_up s q = Inr r"
  shows "places s r" and "\<bar>r\<bar> < 10 ^ 28 / 10 ^ s" and "\<bar>r - q\<bar> \<le> 1 / (2 * 10 ^ s)"
proof -
  let ?n = "round_half_away (q * 10 ^ s)"
  have r: "r = of_int ?n / 10 ^ s" and n: "\<bar>?n\<bar> < 10 ^ 28"
    using assms by (auto simp: quantize_half_up_def Let_def split: if_splits)
  show "places s r" by (simp add: r)
  have "of_int \<bar>?n\<bar> < (of_int (10 ^ 28) :: rat)" using n by (simp only: of_int_less_iff)
  then show "\<bar>r\<bar> < 10 ^ 28 / 10 ^ s" by (simp add: r abs_divide divide_strict_right_mono)
  have "\<bar>of_int ?n - q * 10 ^ s\<bar> / 10 ^ s \<le> (1 / 2) / 10 ^ s"
    using round_half_away_error by (intro divide_right_mono) simp_all
  moreover have "\<bar>r - q\<bar> = \<bar>of_int ?n - q * 10 ^ s\<bar> / 10 ^ s"
    unfolding r by (rule scaled_difference)
  ultimately show "\<bar>r - q\<bar> \<le> 1 / (2 * 10 ^ s)" by simp
qed

lemma numeric_column_Inr:
  assumes "numeric_column p s q = Inr r"
  shows "places s r" and "\<bar>r\<bar> < 10 ^ (p - s)" and "\<bar>r - q\<bar> \<le> 1 / 2" and "places s q \<Longrightarrow> r = q"
proof -
  have r: "r = of_int (round_half_away (q * 10 ^ s)) / 10 ^ s" and "\<bar>r\<bar> < 10 ^ (p - s)"
    using assms by (auto simp: numeric_column_def Let_def split: if_splits)
  then show "places s r" and "\<bar>r\<bar> < 10 ^ (p - s)" by simp_all
  show "places s q \<Longrightarrow> r = q" using r round_half_away_places by simp
  have "\<bar>r - q\<bar> = \<bar>of_int (round_half_away (q * 10 ^ s)) - q * 10 ^ s\<bar> / 10 ^ s"
    unfolding r by (rule scaled_difference)
  also have "\<dots> \<le> (1 / 2) / 10 ^ s" using round_half_away_error by (intro divide_right_mono) simp_all
  also have "\<dots> \<le> 1 / 2" by (simp add: divide_le_eq)
  finally show "\<bar>r - q\<bar> \<le> 1 / 2" .
qed

subsection \<open>Exact sums\<close>

lemma dec_fix_small:
  assumes "\<bar>dec_fix q\<bar> < 10 ^ E"
  shows "\<bar>q\<bar> < 10 ^ E"
proof (rule ccontr)
  assume "\<not> \<bar>q\<bar> < 10 ^ E"
  have rep: "dec_fix (10 ^ E) = 10 ^ E"
    using representable_fix [OF representable_pow10, of "int E"] by (simp add: etiny_def)
  from \<open>\<not> \<bar>q\<bar> < 10 ^ E\<close> have "10 ^ E \<le> q \<or> 10 ^ E \<le> - q" by (simp add: abs_if split: if_splits)
  then have "10 ^ E \<le> dec_fix q \<or> 10 ^ E \<le> dec_fix (- q)" using dec.above_kept [OF _ rep] by blast
  with assms show False by (auto simp: dec_fix_minus)
qed

lemma dec_fix_places:
  assumes "places s q" and "\<bar>q\<bar> * 10 ^ s \<le> 10 ^ 28" and "s \<le> 1000"
  shows "dec_fix q = q"
proof -
  from assms(1) obtain n where q: "q = of_int n / 10 ^ s" by (rule placesE)
  have "\<bar>of_int n :: rat\<bar> \<le> of_int (10 ^ 28)" using assms(2) by (simp add: q abs_divide)
  then have "\<bar>n\<bar> \<le> 10 ^ 28" by (metis of_int_abs of_int_le_iff)
  moreover have "q = of_int n * pow10 (- int s)" by (simp add: q power_int_minus divide_inverse)
  ultimately have "representable q"
    unfolding representable_def etiny_def using assms(3) by (intro exI [of _ n] exI [of _ "- int s"]) simp
  then show ?thesis by (rule representable_fix)
qed

text \<open>A sum of amounts that fits a column after rounding was exact.\<close>

lemma fitting_sum_exact:
  assumes "places s q" and "dec_ctx q = Inr r" and "numeric_column p s r = Inr v"
    and "Suc p \<le> 28" and "s \<le> p"
  shows "v = q" and "r = q"
proof -
  have r: "r = dec_fix q" using dec_ctx_Inr [OF assms(2)] .
  have "\<bar>r\<bar> < 10 ^ (p - s) + 1 / 2" using numeric_column_Inr(2,3) [OF assms(3)] by linarith
  also have "\<dots> \<le> 10 ^ (Suc (p - s))"
  proof -
    have "(1 :: rat) \<le> 10 ^ (p - s)" by (rule one_le_power) simp
    then show ?thesis unfolding power_Suc by linarith
  qed
  finally have "\<bar>q\<bar> < 10 ^ Suc (p - s)" using dec_fix_small r by blast
  then have "\<bar>q\<bar> * 10 ^ s \<le> 10 ^ Suc (p - s) * 10 ^ s" by (intro mult_right_mono) simp_all
  also have "\<dots> = 10 ^ Suc p" using assms(5) by (simp add: power_add [symmetric])
  also have "\<dots> \<le> (10 ^ 28 :: rat)" using assms(4) by (intro power_increasing) simp_all
  finally have "dec_fix q = q" using dec_fix_places [OF assms(1)] assms(4,5) by simp
  then show "r = q" using r by simp
  with numeric_column_Inr(4) [OF assms(3)] assms(1) show "v = q" by simp
qed

text \<open>A sum of amounts that quantizes to the same places was exact.\<close>

lemma quantized_sum_exact:
  assumes "places s q" and "dec_ctx q = Inr r" and "quantize_half_up s r = Inr v" and "s \<le> 28"
  shows "v = q"
proof -
  have r: "r = dec_fix q" using dec_ctx_Inr [OF assms(2)] .
  let ?n = "round_half_away (r * 10 ^ s)"
  have n: "\<bar>?n\<bar> < 10 ^ 28" and v: "v = of_int ?n / 10 ^ s"
    using assms(3) by (auto simp: quantize_half_up_def Let_def split: if_splits)
  have "\<bar>r\<bar> < 10 ^ (28 - s)"
  proof (rule ccontr)
    assume "\<not> \<bar>r\<bar> < 10 ^ (28 - s)"
    then have "10 ^ (28 - s) * 10 ^ s \<le> \<bar>r\<bar> * 10 ^ s" by (intro mult_right_mono) simp_all
    then have "of_int (10 ^ 28) \<le> r * 10 ^ s \<or> r * 10 ^ s \<le> of_int (- (10 ^ 28))"
      using assms(4) by (auto simp: power_add [symmetric] abs_if split: if_splits)
    then have "10 ^ 28 \<le> ?n \<or> ?n \<le> - (10 ^ 28)"
      using round_half_away_mono round_half_away_of_int by metis
    with n show False by linarith
  qed
  then have "\<bar>q\<bar> < 10 ^ (28 - s)" using dec_fix_small r by blast
  then have "\<bar>q\<bar> * 10 ^ s \<le> 10 ^ (28 - s) * 10 ^ s" by (intro mult_right_mono) simp_all
  then have "\<bar>q\<bar> * 10 ^ s \<le> 10 ^ 28" using assms(4) by (simp add: power_add [symmetric])
  then have "dec_fix q = q" using dec_fix_places [OF assms(1)] assms(4) by simp
  then show "v = q" using v r round_half_away_places [OF assms(1)] by simp
qed

text \<open>Amounts that are exact in every operation: the form in which examples are evaluated.\<close>

lemma dec_ctx_exact:
  assumes "places 8 q" and "\<bar>q\<bar> \<le> 10 ^ 15"
  shows "dec_ctx q = Inr q"
proof -
  have "mag_le 15 q" using assms(2) by (simp add: mag_le_def)
  then have "dec_ctx q = Inr (dec_fix q)" by (rule mag_ctx) (simp add: emax_def)
  moreover have "dec_fix q = q" using assms by (intro dec_fix_places [of 8]) simp_all
  ultimately show ?thesis by simp
qed

lemma quantize_exact:
  assumes "places s q" and "\<bar>q\<bar> \<le> 10 ^ 15" and "s \<le> 8"
  shows "quantize_half_up s q = Inr q"
proof -
  have "\<bar>q * 10 ^ s\<bar> = \<bar>q\<bar> * 10 ^ s" by (simp add: abs_mult)
  also have "\<dots> \<le> 10 ^ 15 * 10 ^ 8" using assms(2,3) by (intro mult_mono power_increasing) simp_all
  finally have "\<bar>q * 10 ^ s\<bar> \<le> of_int (10 ^ 23)" by simp
  then have "\<bar>round_half_away (q * 10 ^ s)\<bar> \<le> 10 ^ 23"
    using round_half_away_mono [of "q * 10 ^ s" "of_int (10 ^ 23)"] round_half_away_mono [of "of_int (- (10 ^ 23))" "q * 10 ^ s"]
    unfolding round_half_away_of_int by (simp add: abs_le_iff)
  then show ?thesis
    using round_half_away_places [OF assms(1)] by (simp add: quantize_half_up_def Let_def)
qed

lemma numeric_column_exact:
  assumes "places s q" and "\<bar>q\<bar> < 10 ^ (p - s)"
  shows "numeric_column p s q = Inr q"
  using round_half_away_places [OF assms(1)] assms(2) by (simp add: numeric_column_def Let_def)

end
