(* ===== verification/High_Watermark_Store.thy ===== *)
theory High_Watermark_Store
  imports High_Watermark Versioned_Store Money
begin

text \<open>
  Persistence of the daily high watermark: the lower half of \<open>shadow_high_watermark.py\<close> over the
  table \<open>kasset_shadow_daily_high_watermarks\<close> of \<open>app/extensions/kasset/models.py\<close>, with its check
  constraints and the precision of its \<open>Numeric(24, 8)\<close> columns. The reference to \<open>users\<close> and the
  bookkeeping columns are left out.
\<close>

subsection \<open>Rows\<close>

type_synonym hwm_key = "int \<times> string \<times> string \<times> date_ordinal"

record hwm_row =
  hr_owner_user_id :: int
  hr_account_key :: string
  hr_market :: string
  hr_trading_date :: date_ordinal
  hr_session_opening_equity :: rat
  hr_reference_equity :: rat
  hr_peak_equity :: rat
  hr_current_equity :: rat
  hr_valuation_at :: instant
  hr_valuation_source :: string
  hr_state_version :: int
  hr_evidence_schema_version :: string
  hr_mode :: string
  hr_evidence :: json

type_synonym hwm_table = "hwm_key \<rightharpoonup> hwm_row"

definition hwm_row_key :: "hwm_row \<Rightarrow> hwm_key" where
  "hwm_row_key row = (hr_owner_user_id row, hr_account_key row, hr_market row, hr_trading_date row)"

definition hwm_state_key :: "hwm_state \<Rightarrow> hwm_key" where
  "hwm_state_key s = (hw_owner_user_id s, hw_account_key s, hw_market s, hw_trading_date s)"

definition hwm_row_constraints :: "hwm_row \<Rightarrow> bool" where
  "hwm_row_constraints row \<longleftrightarrow>
     btrim (hr_account_key row) \<noteq> []
     \<and> hr_market row \<in> {''KRX'', ''US''}
     \<and> hr_mode row = ''SHADOW''
     \<and> 0 < hr_session_opening_equity row \<and> 0 < hr_reference_equity row
     \<and> 0 < hr_peak_equity row \<and> 0 < hr_current_equity row
     \<and> hr_session_opening_equity row \<le> hr_peak_equity row \<and> hr_current_equity row \<le> hr_peak_equity row
     \<and> 0 < hr_state_version row
     \<and> btrim (hr_valuation_source row) \<noteq> []
     \<and> btrim (hr_evidence_schema_version row) \<noteq> []
     \<and> is_json_object (hr_evidence row)"

text \<open>The equity columns.\<close>

definition numeric_24_8 :: "rat \<Rightarrow> rat result" where
  "numeric_24_8 q = numeric_column 24 8 q"

text \<open>What the table stores of a row, or the error of the statement.\<close>

definition stored_row :: "hwm_row \<Rightarrow> hwm_row result" where
  "stored_row row =
     bindr (numeric_24_8 (hr_session_opening_equity row)) (\<lambda>opening.
     bindr (numeric_24_8 (hr_reference_equity row)) (\<lambda>reference.
     bindr (numeric_24_8 (hr_peak_equity row)) (\<lambda>peak.
     bindr (numeric_24_8 (hr_current_equity row)) (\<lambda>current.
     let stored = row\<lparr>hr_session_opening_equity := opening, hr_reference_equity := reference,
                      hr_peak_equity := peak, hr_current_equity := current\<rparr>
     in if hwm_row_constraints stored then Inr stored
        else Inl (IntegrityError ''kasset_shadow_daily_high_watermarks'')))))"

definition hwm_persistence_values :: "hwm_state \<Rightarrow> json \<Rightarrow> hwm_row" where
  "hwm_persistence_values s evidence =
     \<lparr>hr_owner_user_id = hw_owner_user_id s, hr_account_key = hw_account_key s, hr_market = hw_market s,
      hr_trading_date = hw_trading_date s, hr_session_opening_equity = hw_session_opening_equity s,
      hr_reference_equity = hw_reference_equity s, hr_peak_equity = hw_peak_equity s,
      hr_current_equity = hw_current_equity s, hr_valuation_at = hw_valuation_at s,
      hr_valuation_source = hw_valuation_source s, hr_state_version = hw_state_version s,
      hr_evidence_schema_version = ''kasset.shadow-high-watermark.v1'', hr_mode = ''SHADOW'',
      hr_evidence = evidence\<rparr>"

definition hwm_row_to_state :: "hwm_row \<Rightarrow> hwm_state result" where
  "hwm_row_to_state row = hwm_state_post_init
     \<lparr>hw_owner_user_id = hr_owner_user_id row, hw_account_key = hr_account_key row, hw_market = hr_market row,
      hw_trading_date = hr_trading_date row, hw_session_opening_equity = hr_session_opening_equity row,
      hw_reference_equity = hr_reference_equity row, hw_peak_equity = hr_peak_equity row,
      hw_current_equity = hr_current_equity row, hw_valuation_at = hr_valuation_at row,
      hw_valuation_source = hr_valuation_source row, hw_state_version = hr_state_version row\<rparr>"

subsection \<open>Loading and persisting\<close>

definition load_shadow_high_watermark ::
    "hwm_table \<Rightarrow> int \<Rightarrow> string \<Rightarrow> string \<Rightarrow> date_ordinal \<Rightarrow> hwm_state option result" where
  "load_shadow_high_watermark t owner_user_id account_key market trading_date =
     (case t (owner_user_id, account_key, py_upper market, trading_date) of
        None \<Rightarrow> Inr None
      | Some row \<Rightarrow> bindr (hwm_row_to_state row) (\<lambda>s. Inr (Some s)))"

definition load_exact_state :: "hwm_table \<Rightarrow> hwm_state \<Rightarrow> hwm_state option result" where
  "load_exact_state t s =
     load_shadow_high_watermark t (hw_owner_user_id s) (hw_account_key s) (hw_market s) (hw_trading_date s)"

text \<open>\<open>insert ... on conflict do nothing returning\<close>\<close>

definition insert_hwm :: "hwm_table \<Rightarrow> hwm_row \<Rightarrow> (hwm_table \<times> hwm_row option) result" where
  "insert_hwm t row =
     bindr (stored_row row) (\<lambda>stored.
     if t (hwm_row_key row) = None then Inr (t(hwm_row_key row \<mapsto> stored), Some stored) else Inr (t, None))"

text \<open>\<open>update ... where state_version = expected returning\<close>\<close>

definition update_hwm :: "hwm_table \<Rightarrow> hwm_row \<Rightarrow> int \<Rightarrow> (hwm_table \<times> hwm_row option) result" where
  "update_hwm t row expected =
     (case t (hwm_row_key row) of
        None \<Rightarrow> Inr (t, None)
      | Some old \<Rightarrow>
          if hr_state_version old \<noteq> expected then Inr (t, None)
          else bindr (stored_row row) (\<lambda>stored. Inr (t(hwm_row_key row \<mapsto> stored), Some stored)))"

text \<open>The comparison with what is stored, when the statement wrote nothing.\<close>

definition accept_existing :: "hwm_table \<Rightarrow> hwm_state \<Rightarrow> string \<Rightarrow> hwm_state result" where
  "accept_existing t s msg =
     bindr (load_exact_state t s) (\<lambda>existing.
     if existing = Some s then Inr s else Inl (ConcurrentUpdate msg))"

definition written :: "hwm_table \<Rightarrow> hwm_state \<Rightarrow> (hwm_table \<times> hwm_row option) result \<Rightarrow> hwm_table \<times> hwm_state result" where
  "written t s outcome =
     (case outcome of
        Inl e \<Rightarrow> (t, Inl e)
      | Inr (t', Some row) \<Rightarrow> (t', hwm_row_to_state row)
      | Inr (t', None) \<Rightarrow> (t', accept_existing t' s ''persisted SHADOW state changed since evaluation''))"

definition persist_shadow_high_watermark ::
    "(rat \<Rightarrow> string) \<Rightarrow> (reason_detail \<Rightarrow> string) \<Rightarrow> hwm_table \<Rightarrow> hwm_evaluation \<Rightarrow> hwm_table \<times> hwm_state result" where
  "persist_shadow_high_watermark dtext ktext t e =
     (case (he_status e, he_state e) of
        (EV_VALID, Some s) \<Rightarrow>
          let row = hwm_persistence_values s (hwm_evidence dtext ktext e)
          in (case he_expected_state_version e of
                None \<Rightarrow> written t s (insert_hwm t row)
              | Some expected \<Rightarrow>
                  if hw_state_version s = expected
                  then (t, accept_existing t s ''idempotent replay does not match persisted SHADOW state'')
                  else if hw_state_version s = expected + 1 then written t s (update_hwm t row expected)
                  else (t, Inl (ValueError ''evaluation state_version is not an optimistic successor'')))
      | _ \<Rightarrow> (t, Inl (ValueError ''only valid SHADOW evaluations may be persisted'')))"

definition evaluate_and_persist ::
    "(string \<Rightarrow> instant \<Rightarrow> duration) \<Rightarrow> (rat \<Rightarrow> string) \<Rightarrow> (reason_detail \<Rightarrow> string) \<Rightarrow> hwm_table \<Rightarrow> equity_valuation
      \<Rightarrow> thresholds \<Rightarrow> hwm_table \<times> hwm_evaluation result" where
  "evaluate_and_persist tz dtext ktext t v th =
     (case market_trading_date tz (va_market v) (va_valuation_at v) of
        Inl _ \<Rightarrow> (t, evaluate_shadow_high_watermark tz dtext v th None)
      | Inr trading_date \<Rightarrow>
          (case bindr (load_shadow_high_watermark t (va_owner_user_id v) (va_account_key v) (va_market v) trading_date)
                  (evaluate_shadow_high_watermark tz dtext v th) of
             Inl e \<Rightarrow> (t, Inl e)
           | Inr evaluation \<Rightarrow>
               if persistence_required evaluation
               then (case persist_shadow_high_watermark dtext ktext t evaluation of
                       (t', Inl e) \<Rightarrow> (t', Inl e)
                     | (t', Inr _) \<Rightarrow> (t', Inr evaluation))
               else (t, Inr evaluation)))"

subsection \<open>The table only moves forward\<close>

lemma stored_row_ok:
  assumes "stored_row row = Inr stored"
  shows "hwm_row_constraints stored" and "hwm_row_key stored = hwm_row_key row"
    and "hr_state_version stored = hr_state_version row"
  using assms by (auto simp: stored_row_def hwm_row_key_def Let_def elim!: bindrE split: if_splits)

text \<open>One statement leaves the table alone or puts a newer, valid row in place.\<close>

definition moves_forward :: "hwm_table \<Rightarrow> hwm_table \<Rightarrow> bool" where
  "moves_forward t t' \<longleftrightarrow> t' = t \<or> (\<exists>k row. t' = t(k \<mapsto> row) \<and> hwm_row_key row = k \<and> hwm_row_constraints row
     \<and> (\<forall>old. t k = Some old \<longrightarrow> hr_state_version old < hr_state_version row))"

lemma moves_forwardI:
  assumes "stored_row row = Inr stored"
    and "\<forall>old. t (hwm_row_key row) = Some old \<longrightarrow> hr_state_version old < hr_state_version row"
  shows "moves_forward t (t(hwm_row_key row \<mapsto> stored))"
  unfolding moves_forward_def using stored_row_ok [OF assms(1)] assms(2) by metis

lemma moves_forward_stay: "moves_forward t t"
  by (simp add: moves_forward_def)

lemma insert_hwm_cases:
  assumes "insert_hwm t row = Inr (t', out)"
  shows "t' = t \<and> out = None \<and> t (hwm_row_key row) \<noteq> None
    \<or> (\<exists>stored. stored_row row = Inr stored \<and> t (hwm_row_key row) = None
        \<and> t' = t(hwm_row_key row \<mapsto> stored) \<and> out = Some stored)"
  using assms by (auto simp: insert_hwm_def elim!: bindrE split: if_splits)

lemma update_hwm_cases:
  assumes "update_hwm t row expected = Inr (t', out)"
  shows "t' = t \<and> out = None
    \<or> (\<exists>stored old. stored_row row = Inr stored \<and> t (hwm_row_key row) = Some old \<and> hr_state_version old = expected
        \<and> t' = t(hwm_row_key row \<mapsto> stored) \<and> out = Some stored)"
  using assms by (auto simp: update_hwm_def elim!: bindrE split: if_splits option.splits)

lemma written_table: "fst (written t s outcome) = (case outcome of Inl _ \<Rightarrow> t | Inr (t', _) \<Rightarrow> t')"
  by (auto simp: written_def split: sum.split option.split)

lemma insert_moves_forward: "moves_forward t (fst (written t s (insert_hwm t row)))"
proof (cases "insert_hwm t row")
  case (Inr r)
  obtain t' out where r: "r = (t', out)" by (cases r)
  from insert_hwm_cases [OF Inr [unfolded r]] show ?thesis
    unfolding written_table Inr r by (auto simp: moves_forward_stay intro: moves_forwardI)
qed (simp add: written_table moves_forward_stay)

lemma update_moves_forward:
  assumes "hr_state_version row = expected + 1"
  shows "moves_forward t (fst (written t s (update_hwm t row expected)))"
proof (cases "update_hwm t row expected")
  case (Inr r)
  obtain t' out where r: "r = (t', out)" by (cases r)
  from update_hwm_cases [OF Inr [unfolded r]] assms show ?thesis
    unfolding written_table Inr r by (auto simp: moves_forward_stay intro: moves_forwardI)
qed (simp add: written_table moves_forward_stay)

lemma persist_moves_forward: "moves_forward t (fst (persist_shadow_high_watermark dtext ktext t e))"
proof -
  have version: "hr_state_version (hwm_persistence_values s j) = hw_state_version s" for s j
    by (simp add: hwm_persistence_values_def)
  show ?thesis
    by (simp add: persist_shadow_high_watermark_def Let_def moves_forward_stay insert_moves_forward update_moves_forward version
        split: evidence_status.split option.split)
qed

definition hwm_step ::
    "(rat \<Rightarrow> string) \<Rightarrow> (reason_detail \<Rightarrow> string) \<Rightarrow> hwm_table \<Rightarrow> hwm_evaluation \<Rightarrow> hwm_table" where
  "hwm_step dtext ktext t e = fst (persist_shadow_high_watermark dtext ktext t e)"

interpretation hwm_rows: versioned_store "hwm_step dtext ktext" hr_state_version
    "\<lambda>k row. hwm_row_key row = k \<and> hwm_row_constraints row" for dtext ktext
proof
  fix t :: hwm_table and e k v
  assume "t k = Some v"
  with persist_moves_forward [of t dtext ktext e]
  show "\<exists>w. hwm_step dtext ktext t e k = Some w \<and> (w = v \<or> hr_state_version v < hr_state_version w)"
    by (auto simp: moves_forward_def hwm_step_def split: if_splits)
next
  fix t :: hwm_table and e k w
  assume "hwm_step dtext ktext t e k = Some w"
  with persist_moves_forward [of t dtext ktext e]
  show "t k = Some w \<or> hwm_row_key w = k \<and> hwm_row_constraints w"
    by (auto simp: moves_forward_def hwm_step_def split: if_splits)
qed

end
