(* ===== verification/High_Watermark_Rules.thy ===== *)
theory High_Watermark_Rules
  imports High_Watermark_Store
begin

text \<open>
  What the daily high watermark promises: how the three ratios decide the reduction of buying,
  that refusals close buying and change nothing, and that the stored row of a day is the summary
  of the valuations accepted that day.
\<close>

subsection \<open>Amounts the table holds exactly\<close>

definition money :: "rat \<Rightarrow> bool" where
  "money q \<longleftrightarrow> 0 < q \<and> numeric_24_8 q = Inr q"

lemma money_bounds:
  assumes "money q"
  shows "1 / 10 ^ 8 \<le> q" and "q < 10 ^ 16"
proof -
  from assms have pos: "0 < q" and col: "numeric_column 24 8 q = Inr q" by (simp_all add: money_def numeric_24_8_def)
  show "q < 10 ^ 16" using numeric_column_Inr(2) [OF col] by simp
  have q: "q = of_int (round_half_away (q * 10 ^ 8)) / 10 ^ 8"
    using round_half_away_places [OF numeric_column_Inr(1) [OF col]] by simp
  have "0 < (of_int (round_half_away (q * 10 ^ 8)) :: rat)" using q pos by (simp add: zero_less_divide_iff)
  then have "1 \<le> round_half_away (q * 10 ^ 8)" by simp
  then have "1 \<le> (of_int (round_half_away (q * 10 ^ 8)) :: rat)" by simp
  then have "1 / 10 ^ 8 \<le> (of_int (round_half_away (q * 10 ^ 8)) / 10 ^ 8 :: rat)" by (intro divide_right_mono) simp_all
  with q show "1 / 10 ^ 8 \<le> q" by simp
qed

lemma money_max: "money a \<Longrightarrow> money b \<Longrightarrow> money (max a b)"
  by (simp add: max_def)

lemma mag_money: "money q \<Longrightarrow> mag_le 16 q"
  using money_bounds(2) [of q] by (auto simp: mag_le_def money_def)

lemma money_dsub:
  assumes "money a" and "money b"
  shows "dsub a b = Inr (dec_fix (a - b)) \<and> mag_le 17 (dec_fix (a - b))"
proof -
  have "mag_le 17 (a - b)" using mag_add(2) [OF mag_money [OF assms(1)] mag_money [OF assms(2)]] by simp
  then show ?thesis using mag_fix mag_ctx by (simp add: dsub_def emax_def)
qed

lemma money_ddiv:
  assumes "mag_le 17 x" and "money b"
  shows "ddiv x b = Inr (dec_fix (x / b)) \<and> mag_le 25 (dec_fix (x / b))"
proof -
  have b: "0 < b" "1 / b \<le> 10 ^ 8"
    using money_bounds(1) [OF assms(2)] assms(2) by (auto simp: money_def divide_simps)
  have "mag_le 8 (1 / b)" using b by (simp add: mag_le_def)
  then have "mag_le 25 (x / b)" using mag_mult [OF assms(1), of 8 "1 / b"] by simp
  then show ?thesis using b mag_fix mag_ctx by (simp add: ddiv_def emax_def)
qed

subsection \<open>The decision\<close>

definition stage_ok :: "rat reduction_stage \<Rightarrow> bool" where
  "stage_ok s \<longleftrightarrow> 0 < stage_trigger_ratio s \<and> 0 < stage_buy_multiplier s \<and> stage_buy_multiplier s < 1"

text \<open>Thresholds built from constructed stages.\<close>

definition thresholds_ok :: "thresholds \<Rightarrow> bool" where
  "thresholds_ok th \<longleftrightarrow> (\<exists>raw. hwm_thresholds_post_init raw = Inr th)
     \<and> (\<forall>s\<in>set (th_profit_target_stages th) \<union> set (th_peak_drawdown_stages th). stage_ok s)"

lemma reduction_stage_ok: "reduction_stage_post_init raw = Inr s \<Longrightarrow> stage_ok s"
  by (auto simp: reduction_stage_post_init_def stage_ok_def elim!: bindrE)

text \<open>The multiplier of the deepest stage that is reached: 1 when none is.\<close>

definition deepest :: "rat \<Rightarrow> rat reduction_stage list \<Rightarrow> rat" where
  "deepest observed stages =
     (case filter (\<lambda>s. stage_trigger_ratio s \<le> observed) stages of
        [] \<Rightarrow> 1
      | reached \<Rightarrow> stage_buy_multiplier (last reached))"

lemma min_multiplier_Cons: "xs \<noteq> [] \<Longrightarrow> min_multiplier (x # xs) = min (tr_buy_multiplier x) (min_multiplier xs)"
  by (cases xs) auto

lemma min_multiplier_append:
  assumes "\<forall>x\<in>set (xs @ ys). tr_buy_multiplier x < 1"
  shows "min_multiplier (xs @ ys) = min (min_multiplier xs) (min_multiplier ys)"
proof -
  have le: "min_multiplier zs \<le> 1" if "\<forall>x\<in>set zs. tr_buy_multiplier x < 1" for zs
    using that by (induction zs rule: min_multiplier.induct) auto
  show ?thesis
    using assms
  proof (induction xs)
    case Nil
    then show ?case using le [of ys] by (simp add: min_def)
  next
    case (Cons x xs)
    show ?case
    proof (cases "xs @ ys = []")
      case False
      then have "min_multiplier ((x # xs) @ ys) = min (tr_buy_multiplier x) (min (min_multiplier xs) (min_multiplier ys))"
        using Cons min_multiplier_Cons [of "xs @ ys" x] by simp
      moreover have "min (tr_buy_multiplier x) (min_multiplier xs) = min_multiplier (x # xs)"
        using Cons.prems by (cases xs) (auto simp: min_def)
      ultimately show ?thesis by (metis min.assoc)
    qed (use Cons.prems in auto)
  qed
qed

lemma stages_steps_sorted:
  assumes "stages_steps_ok stages name = Inr ()"
  shows "sorted_wrt (\<lambda>a b. stage_buy_multiplier b \<le> stage_buy_multiplier a) stages"
  using assms
proof (induction stages name rule: stages_steps_ok.induct)
  case (1 previous current rest name)
  then have step: "stage_buy_multiplier current \<le> stage_buy_multiplier previous"
    and rest: "sorted_wrt (\<lambda>a b. stage_buy_multiplier b \<le> stage_buy_multiplier a) (current # rest)" by auto
  then show ?case by (auto intro: order_trans)
qed auto

lemma min_multiplier_triggered:
  assumes "sorted_wrt (\<lambda>a b. stage_buy_multiplier b \<le> stage_buy_multiplier a) stages"
  shows "min_multiplier (triggered_of kind observed stages) = deepest observed stages"
proof -
  let ?reached = "filter (\<lambda>s. stage_trigger_ratio s \<le> observed) stages"
  let ?f = "\<lambda>s. \<lparr>tr_kind = kind, tr_name = stage_name s, tr_trigger_ratio = stage_trigger_ratio s,
               tr_observed_ratio = observed, tr_buy_multiplier = stage_buy_multiplier s\<rparr>"
  have run: "min_multiplier (map ?f xs) = stage_buy_multiplier (last xs)"
    if "sorted_wrt (\<lambda>a b. stage_buy_multiplier b \<le> stage_buy_multiplier a) xs" "xs \<noteq> []" for xs
    using that
  proof (induction xs)
    case (Cons x xs)
    show ?case
    proof (cases "xs = []")
      case False
      then have "stage_buy_multiplier (last xs) \<le> stage_buy_multiplier x" using Cons.prems by simp
      with False Cons show ?thesis by (simp add: min_multiplier_Cons)
    qed simp
  qed simp
  show ?thesis
  proof (cases "?reached = []")
    case False
    from run [OF sorted_wrt_filter [OF assms] False] False show ?thesis
      by (simp add: triggered_of_def deepest_def split: list.split)
  qed (simp add: triggered_of_def deepest_def)
qed

lemma hwm_post_init_sorted:
  assumes "hwm_thresholds_post_init raw = Inr th"
  shows "sorted_wrt (\<lambda>a b. stage_buy_multiplier b \<le> stage_buy_multiplier a) (th_profit_target_stages th)"
    and "sorted_wrt (\<lambda>a b. stage_buy_multiplier b \<le> stage_buy_multiplier a) (th_peak_drawdown_stages th)"
    and "0 < th_maximum_loss_ratio th"
  using assms stages_steps_sorted
  by (auto simp: hwm_thresholds_post_init_def validate_stages_def elim!: bindrE)

lemma triggered_multipliers:
  assumes "\<forall>s\<in>set stages. stage_ok s" and "x \<in> set (triggered_of kind observed stages)"
  shows "0 < tr_buy_multiplier x \<and> tr_buy_multiplier x < 1"
  using assms by (auto simp: triggered_of_def stage_ok_def)

lemma deepest_cases:
  "triggered_of kind observed stages = [] \<and> deepest observed stages = 1
   \<or> triggered_of kind observed stages \<noteq> [] \<and> (\<exists>s\<in>set stages. deepest observed stages = stage_buy_multiplier s)"
proof (cases "filter (\<lambda>s. stage_trigger_ratio s \<le> observed) stages = []")
  case False
  then have "last (filter (\<lambda>s. stage_trigger_ratio s \<le> observed) stages) \<in> set stages"
    using last_in_set by fastforce
  with False show ?thesis by (auto simp: triggered_of_def deepest_def split: list.split)
qed (simp add: triggered_of_def deepest_def)

lemma deepest_range:
  assumes "\<forall>s\<in>set stages. stage_ok s"
  shows "0 < deepest observed stages \<and> deepest observed stages \<le> 1"
    and "triggered_of kind observed stages = [] \<longleftrightarrow> deepest observed stages = 1"
  using deepest_cases [of kind observed stages] deepest_cases [of PROFIT_TARGET observed stages] assms
  by (auto simp: stage_ok_def less_imp_le)

text \<open>
  The decision of a valid evaluation in terms of its ratios: the maximum loss closes buying,
  otherwise the smaller of the two deepest multipliers applies.
\<close>

lemma valid_evaluation_decision:
  assumes "valid_evaluation v th fp st expected why = Inr e" and "thresholds_ok th"
  obtains profit drawdown session_loss reference_loss where
    "he_profit_ratio e = Some profit" "he_peak_drawdown_ratio e = Some drawdown"
    "he_session_loss_ratio e = Some session_loss" "he_reference_loss_ratio e = Some reference_loss"
    "he_status e = EV_VALID" "he_state e = Some st" "he_expected_state_version e = expected"
    "he_sell_risk_reduction_allowed e"
    "he_buy_multiplier e =
       (if th_maximum_loss_ratio th \<le> max session_loss reference_loss then 0
        else min (deepest profit (th_profit_target_stages th)) (deepest drawdown (th_peak_drawdown_stages th)))"
    "he_buy_state e =
       (if th_maximum_loss_ratio th \<le> max session_loss reference_loss then EXIT_ONLY
        else if deepest profit (th_profit_target_stages th) = 1 \<and> deepest drawdown (th_peak_drawdown_stages th) = 1
        then NORMAL else STAGED_REDUCTION)"
    "0 \<le> drawdown" "0 \<le> session_loss" "0 \<le> reference_loss"
proof -
  from assms(2) obtain raw where raw: "hwm_thresholds_post_init raw = Inr th"
    and ok: "\<forall>s\<in>set (th_profit_target_stages th). stage_ok s" "\<forall>s\<in>set (th_peak_drawdown_stages th). stage_ok s"
    by (auto simp: thresholds_ok_def)
  note sorted = hwm_post_init_sorted [OF raw]
  have both: "min_multiplier (triggered_of PROFIT_TARGET p (th_profit_target_stages th)
        @ triggered_of PEAK_DRAWDOWN d (th_peak_drawdown_stages th))
      = min (deepest p (th_profit_target_stages th)) (deepest d (th_peak_drawdown_stages th))" for p d
    using triggered_multipliers [OF ok(1)] triggered_multipliers [OF ok(2)]
    by (subst min_multiplier_append) (auto simp: min_multiplier_triggered sorted)
  from assms(1) show thesis
    unfolding valid_evaluation_def Let_def
    apply (elim bindrE)
    subgoal
      by (rule that) (auto simp: both deepest_range(2) [OF ok(1)] deepest_range(2) [OF ok(2)] split: if_splits)
    done
qed

lemma evaluate_hwm_cases:
  assumes "evaluate_shadow_high_watermark tz dtext v th previous = Inr e"
  shows "(\<exists>day status code. status \<noteq> EV_VALID
      \<and> e = non_actionable v th (thresholds_fingerprint dtext th) previous day status code)
    \<or> (\<exists>st expected why. valid_evaluation v th (thresholds_fingerprint dtext th) st expected why = Inr e)"
proof (cases "check_valuation tz v th")
  case (Inl refusal)
  have "fst (snd refusal) \<noteq> EV_VALID"
    using Inl by (auto simp: check_valuation_def Let_def split: if_splits option.splits)
  with assms Inl show ?thesis
    by (cases refusal) (auto simp: evaluate_shadow_high_watermark_def Let_def)
next
  case (Inr cv)
  with assms show ?thesis
    by (cases previous) (auto simp: evaluate_shadow_high_watermark_def Let_def elim!: bindrE split: if_splits)
qed

subsection \<open>Summary of a day\<close>

text \<open>
  The abstract state of a day is the list of valuations accepted so far (time, equity and
  source); a later valuation is appended, anything else is ignored.
\<close>

type_synonym valuation_log = "(instant \<times> rat \<times> string) list"

definition accept :: "valuation_log \<Rightarrow> instant \<times> rat \<times> string \<Rightarrow> valuation_log" where
  "accept vs x = (if vs = [] \<or> fst (last vs) < fst x then vs @ [x] else vs)"

definition equities :: "valuation_log \<Rightarrow> rat list" where
  "equities vs = map (\<lambda>x. fst (snd x)) vs"

definition day_summary :: "hwm_key \<Rightarrow> rat \<Rightarrow> valuation_log \<Rightarrow> hwm_state" where
  "day_summary k reference vs =
     (case k of (owner, account, market, day) \<Rightarrow>
       \<lparr>hw_owner_user_id = owner, hw_account_key = account, hw_market = market, hw_trading_date = day,
        hw_session_opening_equity = hd (equities vs), hw_reference_equity = reference,
        hw_peak_equity = Max (set (equities vs)), hw_current_equity = last (equities vs),
        hw_valuation_at = fst (last vs), hw_valuation_source = snd (snd (last vs)),
        hw_state_version = int (length vs)\<rparr>)"

text \<open>The table agrees with the log of a day.\<close>

definition tracks :: "hwm_table \<Rightarrow> hwm_key \<Rightarrow> rat \<Rightarrow> valuation_log \<Rightarrow> bool" where
  "tracks t k reference vs \<longleftrightarrow> money reference \<and> (\<forall>q\<in>set (equities vs). money q)
     \<and> (case t k of
          None \<Rightarrow> vs = []
        | Some row \<Rightarrow> vs \<noteq> [] \<and> hwm_row_to_state row = Inr (day_summary k reference vs))"

definition scope_ok :: "hwm_key \<Rightarrow> bool" where
  "scope_ok k = (case k of (owner, account, market, day) \<Rightarrow>
     0 < owner \<and> py_strip account \<noteq> [] \<and> market \<in> set hwm_markets)"

lemma equities_snoc [simp]: "equities (vs @ [(t, q, src)]) = equities vs @ [q]"
  by (simp add: equities_def)

lemma equities_Nil [simp]: "equities vs = [] \<longleftrightarrow> vs = []"
  by (simp add: equities_def)

lemma hwm_state_post_initI:
  assumes "scope_ok (hw_owner_user_id s, hw_account_key s, hw_market s, day)"
    and "0 < hw_session_opening_equity s" "0 < hw_reference_equity s" "0 < hw_peak_equity s" "0 < hw_current_equity s"
    and "hw_session_opening_equity s \<le> hw_peak_equity s" "hw_current_equity s \<le> hw_peak_equity s"
    and "py_strip (hw_valuation_source s) \<noteq> []" "0 < hw_state_version s"
  shows "hwm_state_post_init s = Inr s"
  using assms by (simp add: hwm_state_post_init_def scope_ok_def)

lemma summary_wf:
  assumes "scope_ok k" and "vs \<noteq> []" and "money reference" and "\<forall>q\<in>set (equities vs). money q"
    and "py_strip (snd (snd (last vs))) \<noteq> []"
  shows "hwm_state_post_init (day_summary k reference vs) = Inr (day_summary k reference vs)"
proof -
  obtain owner account market day where k: "k = (owner, account, market, day)" by (cases k)
  have in_set: "hd (equities vs) \<in> set (equities vs)" "last (equities vs) \<in> set (equities vs)"
      "Max (set (equities vs)) \<in> set (equities vs)"
    using assms(2) by simp_all
  then have pos: "0 < hd (equities vs)" "0 < last (equities vs)" "0 < Max (set (equities vs))" "0 < reference"
    using assms(3,4) unfolding money_def by blast+
  have le: "hd (equities vs) \<le> Max (set (equities vs))" "last (equities vs) \<le> Max (set (equities vs))"
    using in_set by simp_all
  show ?thesis
    unfolding k
  proof (rule hwm_state_post_initI [where day = day])
    show "0 < hw_state_version (day_summary (owner, account, market, day) reference vs)"
      using assms(2) by (simp add: day_summary_def)
  qed (simp_all only: day_summary_def prod.case hwm_state.simps pos le assms(5) assms(1) [unfolded k] not_False_eq_True)
qed

text \<open>The key and the log entry of a valuation that passed its checks.\<close>

definition valuation_key :: "equity_valuation \<Rightarrow> checked_valuation \<Rightarrow> hwm_key" where
  "valuation_key v cv = (va_owner_user_id v, va_account_key v, cv_market cv, cv_date cv)"

definition valuation_entry :: "equity_valuation \<Rightarrow> checked_valuation \<Rightarrow> instant \<times> rat \<times> string" where
  "valuation_entry v cv = (cv_at cv, cv_equity cv, va_valuation_source v)"

lemma check_valuation_Inr:
  assumes "check_valuation tz v th = Inr cv"
  shows "scope_ok (valuation_key v cv)" and "py_strip (va_valuation_source v) \<noteq> []"
    and "va_valuation_at v = Aware (cv_at cv)" and "cv_market cv = py_upper (va_market v)"
    and "market_trading_date tz (va_market v) (va_valuation_at v) = Inr (cv_date cv)"
proof -
  obtain n where "va_valuation_at v = Aware n" "cv_at cv = n" "cv_market cv = py_upper (va_market v)"
      "cv_date cv = utc_date (n + tz (py_upper (va_market v)) n)" "0 < va_owner_user_id v"
      "py_strip (va_account_key v) \<noteq> []" "py_upper (va_market v) \<in> set hwm_markets"
      "py_strip (va_valuation_source v) \<noteq> []"
    using assms
    by (cases "va_valuation_at v"; cases "va_evaluated_at v")
      (auto simp: check_valuation_def Let_def split: if_splits option.splits)
  then show "scope_ok (valuation_key v cv)" and "py_strip (va_valuation_source v) \<noteq> []"
    and "va_valuation_at v = Aware (cv_at cv)" and "cv_market cv = py_upper (va_market v)"
    and "market_trading_date tz (va_market v) (va_valuation_at v) = Inr (cv_date cv)"
    by (simp_all add: scope_ok_def valuation_key_def market_trading_date_def)
qed

lemma day_summary_simps:
  "hw_state_version (day_summary k reference vs) = int (length vs)"
  "hw_valuation_at (day_summary k reference vs) = fst (last vs)"
  "hw_current_equity (day_summary k reference vs) = last (equities vs)"
  "hw_valuation_source (day_summary k reference vs) = snd (snd (last vs))"
  "hw_peak_equity (day_summary k reference vs) = Max (set (equities vs))"
  "hw_reference_equity (day_summary k reference vs) = reference"
  "hw_session_opening_equity (day_summary k reference vs) = hd (equities vs)"
  "(hw_owner_user_id (day_summary k reference vs), hw_account_key (day_summary k reference vs),
    hw_market (day_summary k reference vs), hw_trading_date (day_summary k reference vs)) = k"
  by (cases k; simp add: day_summary_def)+

lemma opening_state_summary:
  assumes "check_valuation tz v th = Inr cv" and "money (cv_equity cv)"
    and "reference = (case cv_reference cv of None \<Rightarrow> cv_equity cv | Some r \<Rightarrow> r)" and "money reference"
  shows "opening_state v cv = Inr (day_summary (valuation_key v cv) reference [valuation_entry v cv])"
proof -
  note cv = check_valuation_Inr [OF assms(1)]
  have "hwm_state_post_init (day_summary (valuation_key v cv) reference [valuation_entry v cv])
      = Inr (day_summary (valuation_key v cv) reference [valuation_entry v cv])"
    using assms(2,4) cv(1,2) by (intro summary_wf) (simp_all add: valuation_entry_def equities_def)
  then show ?thesis
    using assms(3) by (simp add: opening_state_def day_summary_def valuation_key_def valuation_entry_def equities_def)
qed

lemma next_state_summary:
  assumes "check_valuation tz v th = Inr cv" and "money (cv_equity cv)" and "vs \<noteq> []" and "money reference"
    and "\<forall>q\<in>set (equities vs). money q"
  shows "next_state (day_summary (valuation_key v cv) reference vs) v cv
    = Inr (day_summary (valuation_key v cv) reference (vs @ [valuation_entry v cv]))"
proof -
  note cv = check_valuation_Inr [OF assms(1)]
  have "hwm_state_post_init (day_summary (valuation_key v cv) reference (vs @ [valuation_entry v cv]))
      = Inr (day_summary (valuation_key v cv) reference (vs @ [valuation_entry v cv]))"
    using assms cv(1,2) by (intro summary_wf) (auto simp: valuation_entry_def)
  moreover have "Max (insert (cv_equity cv) (set (equities vs))) = max (Max (set (equities vs))) (cv_equity cv)"
    using assms(3) by (simp add: max.commute)
  moreover have "hd (equities vs @ [q]) = hd (equities vs)" for q using assms(3) by simp
  ultimately show ?thesis
    by (simp add: next_state_def day_summary_def valuation_key_def valuation_entry_def add.commute)
qed

text \<open>The profit against the reference and the fall from the peak, as the evaluation computes them.\<close>

definition profit_of :: "hwm_state \<Rightarrow> rat" where
  "profit_of st = dec_fix (dec_fix (hw_current_equity st - hw_reference_equity st) / hw_reference_equity st)"

definition drawdown_of :: "hwm_state \<Rightarrow> rat" where
  "drawdown_of st = max 0 (dec_fix (dec_fix (hw_peak_equity st - hw_current_equity st) / hw_peak_equity st))"

lemma valid_evaluation_returns:
  assumes "money (hw_current_equity st)" "money (hw_reference_equity st)" "money (hw_peak_equity st)"
    "money (hw_session_opening_equity st)"
  shows "\<exists>e. valid_evaluation v th fp st expected why = Inr e \<and> he_status e = EV_VALID \<and> he_state e = Some st
    \<and> he_expected_state_version e = expected \<and> he_profit_ratio e = Some (profit_of st)
    \<and> he_peak_drawdown_ratio e = Some (drawdown_of st)"
proof -
  have sub: "dsub a b = Inr (dec_fix (a - b))" "mag_le 17 (dec_fix (a - b))" if "money a" "money b" for a b
    using money_dsub [OF that] by simp_all
  have quot: "ddiv (dec_fix (a - b)) b' = Inr (dec_fix (dec_fix (a - b) / b'))"
      "mag_le 25 (dec_fix (dec_fix (a - b) / b'))" if "money a" "money b" "money b'" for a b b'
    using money_ddiv [OF sub(2) that(3)] that by simp_all
  have neg: "dec_ctx (- q) = Inr (dec_fix (- q))" if "mag_le 25 q" for q
    using that by (intro mag_ctx [where E = 25]) (simp_all add: mag_le_def emax_def)
  show ?thesis
    using assms
    by (simp add: valid_evaluation_def sub(1) quot neg Let_def profit_of_def drawdown_of_def split: prod.split)
qed

lemma summary_money:
  assumes "vs \<noteq> []" and "money reference" and "\<forall>q\<in>set (equities vs). money q"
  shows "money (hw_current_equity (day_summary k reference vs))" "money (hw_reference_equity (day_summary k reference vs))"
    "money (hw_peak_equity (day_summary k reference vs))" "money (hw_session_opening_equity (day_summary k reference vs))"
  using assms Max_in [of "set (equities vs)"] by (auto simp: day_summary_simps)

text \<open>The columns of a summary keep their values in the table.\<close>

lemma stored_row_exact:
  assumes "hwm_row_constraints row"
    and "numeric_24_8 (hr_session_opening_equity row) = Inr (hr_session_opening_equity row)"
    and "numeric_24_8 (hr_reference_equity row) = Inr (hr_reference_equity row)"
    and "numeric_24_8 (hr_peak_equity row) = Inr (hr_peak_equity row)"
    and "numeric_24_8 (hr_current_equity row) = Inr (hr_current_equity row)"
  shows "stored_row row = Inr row"
  using assms by (cases row) (simp add: stored_row_def)

lemma row_of_state: "hwm_row_to_state (hwm_persistence_values s evidence) = hwm_state_post_init s"
  by (cases s) (simp add: hwm_row_to_state_def hwm_persistence_values_def)

lemma stored_summary:
  assumes "scope_ok k" and "vs \<noteq> []" and "money reference" and "\<forall>q\<in>set (equities vs). money q"
    and "py_strip (snd (snd (last vs))) \<noteq> []" and "is_json_object evidence"
  defines "row \<equiv> hwm_persistence_values (day_summary k reference vs) evidence"
  shows "stored_row row = Inr row" and "hwm_row_to_state row = Inr (day_summary k reference vs)" and "hwm_row_key row = k"
proof -
  let ?s = "day_summary k reference vs"
  have columns: "hr_session_opening_equity row = hw_session_opening_equity ?s" "hr_reference_equity row = hw_reference_equity ?s"
      "hr_peak_equity row = hw_peak_equity ?s" "hr_current_equity row = hw_current_equity ?s"
      "hr_state_version row = hw_state_version ?s" "hr_valuation_source row = hw_valuation_source ?s"
      "hr_mode row = ''SHADOW''" "hr_evidence row = evidence"
      "hr_evidence_schema_version row = ''kasset.shadow-high-watermark.v1''"
    by (simp_all add: row_def hwm_persistence_values_def)
  note post = summary_wf [OF assms(1-5)]
  show key: "hwm_row_key row = k"
    using day_summary_simps(8) [of k reference vs] by (simp add: row_def hwm_persistence_values_def hwm_row_key_def)
  show "hwm_row_to_state row = Inr ?s"
    using post by (simp add: row_def row_of_state)
  have money: "numeric_24_8 (hw_session_opening_equity ?s) = Inr (hw_session_opening_equity ?s)"
      "numeric_24_8 (hw_reference_equity ?s) = Inr (hw_reference_equity ?s)"
      "numeric_24_8 (hw_peak_equity ?s) = Inr (hw_peak_equity ?s)"
      "numeric_24_8 (hw_current_equity ?s) = Inr (hw_current_equity ?s)"
    using summary_money [OF assms(2-4), of k] by (simp_all add: money_def)
  have state: "hw_session_opening_equity ?s > 0" "hw_reference_equity ?s > 0" "hw_peak_equity ?s > 0"
      "hw_current_equity ?s > 0" "hw_session_opening_equity ?s \<le> hw_peak_equity ?s"
      "hw_current_equity ?s \<le> hw_peak_equity ?s" "hw_state_version ?s > 0"
      "py_strip (hw_valuation_source ?s) \<noteq> []" "py_strip (hw_account_key ?s) \<noteq> []" "hw_market ?s \<in> set hwm_markets"
    using post by (auto simp: hwm_state_post_init_def not_le not_less)
  have "hwm_row_constraints row"
    unfolding hwm_row_constraints_def columns
    using state assms(6) py_strip_btrim
    by (simp add: row_def hwm_persistence_values_def hwm_markets_def btrim_nonempty)
  then show "stored_row row = Inr row" by (intro stored_row_exact) (simp_all add: columns money)
qed

lemma hwm_row_to_state_version: "hwm_row_to_state row = Inr s \<Longrightarrow> hr_state_version row = hw_state_version s"
  by (auto simp: hwm_row_to_state_def hwm_state_post_init_def)

lemma evidence_object: "is_json_object (hwm_evidence dtext ktext e)"
  by (simp add: is_json_object_def hwm_evidence_def Let_def)

text \<open>A valid evaluation whose state is a summary with the right expectation is written.\<close>

lemma persist_summary:
  assumes "he_status e = EV_VALID" and "he_state e = Some (day_summary k reference vs)"
    and "scope_ok k" and "vs \<noteq> []" and "money reference" and "\<forall>q\<in>set (equities vs). money q"
    and "py_strip (snd (snd (last vs))) \<noteq> []"
    and "he_expected_state_version e = None \<and> t k = None
      \<or> (\<exists>old. t k = Some old \<and> he_expected_state_version e = Some (hr_state_version old)
           \<and> int (length vs) = hr_state_version old + 1)"
  shows "\<exists>row. persist_shadow_high_watermark dtext ktext t e = (t(k \<mapsto> row), Inr (day_summary k reference vs))
    \<and> hwm_row_to_state row = Inr (day_summary k reference vs) \<and> persistence_required e"
proof -
  let ?row = "hwm_persistence_values (day_summary k reference vs) (hwm_evidence dtext ktext e)"
  note row = stored_summary [OF assms(3-7) evidence_object, of dtext ktext e]
  from assms(8) have "persist_shadow_high_watermark dtext ktext t e = (t(k \<mapsto> ?row), Inr (day_summary k reference vs))"
    using assms(1,2) row
    by (auto simp: persist_shadow_high_watermark_def Let_def written_def insert_hwm_def update_hwm_def day_summary_simps)
  moreover have "persistence_required e"
    using assms(1,2,8) by (auto simp: persistence_required_def day_summary_simps)
  ultimately show ?thesis using row(2) by blast
qed

text \<open>What the evaluation does with a valuation of a day whose log is known.\<close>

lemma evaluate_against_log:
  assumes "check_valuation tz v th = Inr cv" and "money (cv_equity cv)" and "k = valuation_key v cv"
    and "x = valuation_entry v cv" and "money reference" and "\<forall>q\<in>set (equities vs). money q"
    and "vs = [] \<longrightarrow> reference = (case cv_reference cv of None \<Rightarrow> cv_equity cv | Some r \<Rightarrow> r)"
    and "previous = (if vs = [] then None else Some (day_summary k reference vs))"
  shows "\<exists>e. evaluate_shadow_high_watermark tz dtext v th previous = Inr e
    \<and> (if accept vs x = vs then \<not> persistence_required e
       else he_status e = EV_VALID \<and> he_state e = Some (day_summary k reference (accept vs x))
         \<and> he_expected_state_version e = map_option hw_state_version previous
         \<and> he_profit_ratio e = Some (profit_of (day_summary k reference (accept vs x)))
         \<and> he_peak_drawdown_ratio e = Some (drawdown_of (day_summary k reference (accept vs x))))"
proof (cases "vs = []")
  case True
  let ?s = "day_summary k reference [x]"
  have first: "opening_state v cv = Inr ?s"
    using opening_state_summary [OF assms(1,2)] assms(3,4,5,7) True by simp
  have "money (hw_current_equity ?s)" "money (hw_reference_equity ?s)" "money (hw_peak_equity ?s)"
      "money (hw_session_opening_equity ?s)"
    using assms(2,4,5) by (intro summary_money; simp add: valuation_entry_def equities_def)+
  from valid_evaluation_returns [OF this, of v th "thresholds_fingerprint dtext th" None
      "(VALUATION_APPLIED, FirstValuation)"] assms(1,8) first True
  show ?thesis by (auto simp: evaluate_shadow_high_watermark_def accept_def)
next
  case False
  let ?p = "day_summary k reference vs" and ?fp = "thresholds_fingerprint dtext th"
  have scope: "hw_owner_user_id ?p = va_owner_user_id v" "hw_account_key ?p = va_account_key v"
      "hw_market ?p = cv_market cv" "hw_trading_date ?p = cv_date cv"
    by (simp_all add: assms(3) valuation_key_def day_summary_def)
  have times: "fst x = cv_at cv" "hw_valuation_at ?p = fst (last vs)"
    by (simp_all add: assms(4) valuation_entry_def day_summary_simps)
  consider (older) "cv_at cv < fst (last vs)" | (same) "cv_at cv = fst (last vs)" | (newer) "fst (last vs) < cv_at cv"
    by linarith
  then show ?thesis
  proof cases
    case older
    then show ?thesis
      using assms(1,8) False scope times
      by (simp add: evaluate_shadow_high_watermark_def accept_def non_actionable_def persistence_required_def)
  next
    case same
    from valid_evaluation_returns [of ?p v th ?fp "Some (hw_state_version ?p)"
        "(IDEMPOTENT_REPLAY, DetailOf IDEMPOTENT_REPLAY)"] summary_money [OF False assms(5,6), of k]
    obtain e where "valid_evaluation v th ?fp ?p (Some (hw_state_version ?p)) (IDEMPOTENT_REPLAY, DetailOf IDEMPOTENT_REPLAY) = Inr e"
      "he_state e = Some ?p" "he_expected_state_version e = Some (hw_state_version ?p)" by auto
    then show ?thesis
      using assms(1,8) False scope times same
      by (auto simp: evaluate_shadow_high_watermark_def accept_def non_actionable_def persistence_required_def Let_def)
  next
    case newer
    let ?s = "day_summary k reference (vs @ [x])"
    have next_state: "next_state ?p v cv = Inr ?s"
      using next_state_summary [OF assms(1,2) False assms(5,6)] by (simp add: assms(3,4))
    have all: "\<forall>q\<in>set (equities (vs @ [x])). money q"
      using assms(2,4,6) by (auto simp: valuation_entry_def)
    from valid_evaluation_returns [of ?s v th ?fp "Some (hw_state_version ?p)"
        "(VALUATION_APPLIED, DetailOf VALUATION_APPLIED)"] summary_money [OF _ assms(5) all, of k]
    show ?thesis
      using assms(1,8) False scope times newer next_state
      by (auto simp: evaluate_shadow_high_watermark_def accept_def)
  qed
qed

text \<open>A valuation of a day whose log is known is either ignored or appended and written.\<close>

definition log_written ::
    "(rat \<Rightarrow> string) \<Rightarrow> (reason_detail \<Rightarrow> string) \<Rightarrow> hwm_table \<Rightarrow> hwm_key \<Rightarrow> rat \<Rightarrow> valuation_log
      \<Rightarrow> instant \<times> rat \<times> string \<Rightarrow> hwm_evaluation \<Rightarrow> bool" where
  "log_written dtext ktext t k reference vs x e \<longleftrightarrow>
     (if accept vs x = vs then \<not> persistence_required e
      else persistence_required e \<and> he_status e = EV_VALID
        \<and> he_profit_ratio e = Some (profit_of (day_summary k reference (accept vs x)))
        \<and> he_peak_drawdown_ratio e = Some (drawdown_of (day_summary k reference (accept vs x)))
        \<and> (\<exists>r. persist_shadow_high_watermark dtext ktext t e = (t(k \<mapsto> r), Inr (day_summary k reference (accept vs x)))
             \<and> tracks (t(k \<mapsto> r)) k reference (accept vs x)))"

lemma log_step:
  assumes "check_valuation tz v th = Inr cv" and "money (cv_equity cv)" and "k = valuation_key v cv"
    and "tracks t k reference vs"
    and "vs = [] \<longrightarrow> reference = (case cv_reference cv of None \<Rightarrow> cv_equity cv | Some r \<Rightarrow> r)"
  shows "\<exists>previous e. load_shadow_high_watermark t (va_owner_user_id v) (va_account_key v) (va_market v) (cv_date cv) = Inr previous
    \<and> evaluate_shadow_high_watermark tz dtext v th previous = Inr e
    \<and> log_written dtext ktext t k reference vs (valuation_entry v cv) e"
proof -
  let ?x = "valuation_entry v cv"
  define previous where "previous = (if vs = [] then None else Some (day_summary k reference vs))"
  note cv = check_valuation_Inr [OF assms(1)]
  have ref: "money reference" and eqs: "\<forall>q\<in>set (equities vs). money q"
    and row: "t k = None \<and> vs = [] \<or> (\<exists>row. t k = Some row \<and> vs \<noteq> [] \<and> hwm_row_to_state row = Inr (day_summary k reference vs))"
    using assms(4) by (auto simp: tracks_def split: option.splits)
  have load: "load_shadow_high_watermark t (va_owner_user_id v) (va_account_key v) (va_market v) (cv_date cv) = Inr previous"
    using row cv(4) assms(3)
    by (auto simp: load_shadow_high_watermark_def valuation_key_def previous_def split: option.split)
  from evaluate_against_log [OF assms(1,2,3) refl ref eqs assms(5) previous_def, of dtext] obtain e where
    e: "evaluate_shadow_high_watermark tz dtext v th previous = Inr e"
      "if accept vs ?x = vs then \<not> persistence_required e
       else he_status e = EV_VALID \<and> he_state e = Some (day_summary k reference (accept vs ?x))
         \<and> he_expected_state_version e = map_option hw_state_version previous
         \<and> he_profit_ratio e = Some (profit_of (day_summary k reference (accept vs ?x)))
         \<and> he_peak_drawdown_ratio e = Some (drawdown_of (day_summary k reference (accept vs ?x)))" by blast
  have "log_written dtext ktext t k reference vs ?x e"
  proof (cases "accept vs ?x = vs")
    case True
    with e(2) show ?thesis by (simp add: log_written_def)
  next
    case False
    then have app: "accept vs ?x = vs @ [?x]" by (auto simp: accept_def split: if_splits)
    have all: "\<forall>q\<in>set (equities (vs @ [?x])). money q" "py_strip (snd (snd (last (vs @ [?x])))) \<noteq> []"
      using eqs assms(2) cv(2) by (auto simp: valuation_entry_def)
    have "he_expected_state_version e = None \<and> t k = None
        \<or> (\<exists>old. t k = Some old \<and> he_expected_state_version e = Some (hr_state_version old)
             \<and> int (length (vs @ [?x])) = hr_state_version old + 1)"
      using row e(2) False hwm_row_to_state_version
      by (auto simp: previous_def day_summary_simps)
    with persist_summary [of e k reference "vs @ [?x]" t dtext ktext] e(2) False app cv(1) assms(3) ref all
    obtain r where r: "persist_shadow_high_watermark dtext ktext t e = (t(k \<mapsto> r), Inr (day_summary k reference (vs @ [?x])))"
      "hwm_row_to_state r = Inr (day_summary k reference (vs @ [?x]))" "persistence_required e" by auto
    moreover have "tracks (t(k \<mapsto> r)) k reference (vs @ [?x])"
      using r(2) ref all(1) by (simp add: tracks_def)
    ultimately show ?thesis using app False e(2) by (auto simp: log_written_def)
  qed
  with load e(1) show ?thesis by blast
qed

subsection \<open>Examples\<close>

definition demo_thresholds :: thresholds where
  "demo_thresholds =
     \<lparr>th_profit_target_stages = [\<lparr>stage_name = ''target'', stage_trigger_ratio = 1 / 20, stage_buy_multiplier = 1 / 2\<rparr>],
      th_peak_drawdown_stages = [], th_maximum_loss_ratio = 1 / 10, th_max_valuation_age = 60\<rparr>"

definition demo_equity :: "instant \<Rightarrow> int \<Rightarrow> equity_valuation" where
  "demo_equity n q =
     \<lparr>va_owner_user_id = 1, va_account_key = ''main'', va_market = ''krx'', va_equity = DFinite (of_int q),
      va_valuation_at = Aware n, va_evaluated_at = Aware n, va_valuation_source = ''ledger'',
      va_reference_equity = None\<rparr>"

lemma demo_checked:
  "check_valuation (\<lambda>_ _. 0) (demo_equity n 1000) demo_thresholds
    = Inr \<lparr>cv_market = ''KRX'', cv_at = n, cv_date = utc_date n, cv_equity = 1000, cv_reference = None\<rparr>"
proof -
  have "py_upper ''krx'' = ''KRX''" "py_strip ''main'' \<noteq> []" "py_strip ''ledger'' \<noteq> []" by code_simp+
  then show ?thesis
    by (simp add: check_valuation_def demo_equity_def demo_thresholds_def hwm_markets_def)
qed

lemma demo_money: "money 1000"
  by code_simp

lemma demo_thresholds_ok: "thresholds_ok demo_thresholds"
proof -
  have "hwm_thresholds_post_init (hwm_thresholds.make (th_profit_target_stages demo_thresholds) []
      (DFinite (1 / 10)) 60) = Inr demo_thresholds"
    by (simp add: hwm_thresholds_post_init_def hwm_thresholds.make_def demo_thresholds_def validate_stages_def)
  then show ?thesis unfolding thresholds_ok_def by (auto simp: demo_thresholds_def stage_ok_def)
qed

definition demo_row :: hwm_row where
  "demo_row = hwm_persistence_values (day_summary (1, ''main'', ''KRX'', 0) 1000 [(0, 1000, ''ledger'')]) (JObj [])"

lemma demo_row_ok: "hwm_row_key demo_row = (1, ''main'', ''KRX'', 0)" "hwm_row_constraints demo_row" "hr_state_version demo_row = 1"
proof -
  have "py_strip ''main'' \<noteq> []" "py_strip ''ledger'' \<noteq> []" by code_simp+
  then have row: "stored_row demo_row = Inr demo_row" "hwm_row_key demo_row = (1, ''main'', ''KRX'', 0)"
    using stored_summary [of "(1, ''main'', ''KRX'', 0)" "[(0, 1000, ''ledger'')]" 1000 "JObj []"] demo_money
    by (simp_all add: demo_row_def scope_ok_def equities_def is_json_object_def hwm_markets_def)
  then show "hwm_row_key demo_row = (1, ''main'', ''KRX'', 0)" "hwm_row_constraints demo_row"
    using stored_row_ok by blast+
  show "hr_state_version demo_row = 1" by (simp add: demo_row_def hwm_persistence_values_def day_summary_def)
qed

subsection \<open>Properties\<close>

text \<open>
  C33: The stored row of a day is the summary of the valuations accepted that day. If it is the
  summary of a log, then evaluating and persisting a further valuation of that day that passes
  its checks succeeds, and afterwards the row is the summary of the log with the valuation
  appended when it is newer than the last one, and of the unchanged log otherwise; no other row
  changes. The summary has the first equity as opening, the last as current, the maximum as peak
  and the number of accepted valuations as version.
\<close>

theorem hwm_day_refines:
  assumes "check_valuation tz v th = Inr cv" and "money (cv_equity cv)" and "k = valuation_key v cv"
    and "tracks t k reference vs"
    and "vs = [] \<longrightarrow> reference = (case cv_reference cv of None \<Rightarrow> cv_equity cv | Some r \<Rightarrow> r)"
  shows "\<exists>t' e. evaluate_and_persist tz dtext ktext t v th = (t', Inr e)
    \<and> tracks t' k reference (accept vs (valuation_entry v cv)) \<and> (\<forall>k'. k' \<noteq> k \<longrightarrow> t' k' = t k')"
proof -
  from log_step [OF assms, of dtext ktext] obtain previous e where
    e: "load_shadow_high_watermark t (va_owner_user_id v) (va_account_key v) (va_market v) (cv_date cv) = Inr previous"
      "evaluate_shadow_high_watermark tz dtext v th previous = Inr e"
      "log_written dtext ktext t k reference vs (valuation_entry v cv) e" by blast
  show ?thesis
    using e check_valuation_Inr(5) [OF assms(1)] assms(4)
    by (cases "persistence_required e") (auto simp: log_written_def evaluate_and_persist_def split: if_splits)
qed

theorem hwm_day_refines_witness:
  "\<exists>t' e. evaluate_and_persist (\<lambda>_ _. 0) (\<lambda>_. ''0'') (\<lambda>_. []) Map.empty (demo_equity 0 1000) demo_thresholds = (t', Inr e)
    \<and> tracks t' (1, ''main'', ''KRX'', utc_date 0) 1000 [(0, 1000, ''ledger'')]"
proof -
  have "tracks Map.empty k 1000 []" for k using demo_money by (simp add: tracks_def equities_def)
  moreover have "valuation_key (demo_equity 0 1000)
      \<lparr>cv_market = ''KRX'', cv_at = 0, cv_date = utc_date 0, cv_equity = 1000, cv_reference = None\<rparr>
      = (1, ''main'', ''KRX'', utc_date 0)"
    by (simp add: valuation_key_def demo_equity_def)
  ultimately show ?thesis
    using hwm_day_refines [OF demo_checked [of 0] _ refl, of Map.empty 1000 "[]" "\<lambda>_. ''0''" "\<lambda>_. []"] demo_money
    by (auto simp: accept_def valuation_entry_def demo_equity_def)
qed

text \<open>
  C34: Every evaluation either refuses or decides. A refusal closes buying, keeps the previous
  state and asks for no persistence. A decision closes buying when the session or reference loss
  reaches the maximum; otherwise the buying multiplier is the smaller of those of the deepest
  profit stage and the deepest drawdown stage reached. The multiplier always lies between 0 and 1,
  is 1 exactly in the normal state and 0 exactly in the exit-only state, and risk-reducing sells
  stay allowed.
\<close>

theorem hwm_decision:
  assumes "evaluate_shadow_high_watermark tz dtext v th previous = Inr e" and "thresholds_ok th"
  shows "0 \<le> he_buy_multiplier e \<and> he_buy_multiplier e \<le> 1
    \<and> (he_buy_multiplier e = 1 \<longleftrightarrow> he_buy_state e = NORMAL)
    \<and> (he_buy_multiplier e = 0 \<longleftrightarrow> he_buy_state e = EXIT_ONLY)
    \<and> he_sell_risk_reduction_allowed e
    \<and> (he_status e \<noteq> EV_VALID \<longrightarrow>
         he_buy_state e = EXIT_ONLY \<and> he_state e = previous \<and> \<not> persistence_required e)
    \<and> (he_status e = EV_VALID \<longrightarrow>
         (\<exists>profit drawdown session_loss reference_loss.
            he_profit_ratio e = Some profit \<and> he_peak_drawdown_ratio e = Some drawdown
          \<and> he_session_loss_ratio e = Some session_loss \<and> he_reference_loss_ratio e = Some reference_loss
          \<and> he_buy_multiplier e =
              (if th_maximum_loss_ratio th \<le> max session_loss reference_loss then 0
               else min (deepest profit (th_profit_target_stages th))
                        (deepest drawdown (th_peak_drawdown_stages th)))))"
  using evaluate_hwm_cases [OF assms(1)]
proof (elim disjE exE conjE)
  fix day status code
  assume "status \<noteq> EV_VALID" "e = non_actionable v th (thresholds_fingerprint dtext th) previous day status code"
  then show ?thesis by (simp add: non_actionable_def persistence_required_def)
next
  fix st expected why
  assume "valid_evaluation v th (thresholds_fingerprint dtext th) st expected why = Inr e"
  then show ?thesis
  proof (rule valid_evaluation_decision [OF _ assms(2)], goal_cases)
    case (1 profit drawdown session_loss reference_loss)
    have "0 < deepest profit (th_profit_target_stages th)" "deepest profit (th_profit_target_stages th) \<le> 1"
        "0 < deepest drawdown (th_peak_drawdown_stages th)" "deepest drawdown (th_peak_drawdown_stages th) \<le> 1"
      using assms(2) deepest_range(1) [of "th_profit_target_stages th"]
        deepest_range(1) [of "th_peak_drawdown_stages th"] unfolding thresholds_ok_def by auto
    with 1 show ?case by (auto simp: min_def)
  qed
qed

theorem hwm_decision_witness:
  "\<exists>e. evaluate_shadow_high_watermark (\<lambda>_ _. 0) (\<lambda>_. ''0'') (demo_equity 0 0) demo_thresholds None = Inr e
    \<and> he_buy_multiplier e = 0 \<and> he_buy_state e = EXIT_ONLY \<and> he_sell_risk_reduction_allowed e"
proof -
  have "py_upper ''krx'' = ''KRX''" "py_strip ''main'' \<noteq> []" "py_strip ''ledger'' \<noteq> []" by code_simp+
  then have "check_valuation (\<lambda>_ _. 0) (demo_equity 0 0) demo_thresholds = Inl (Some (utc_date 0), EV_FAIL_CLOSED, INVALID_EQUITY)"
    by (simp add: check_valuation_def demo_equity_def demo_thresholds_def hwm_markets_def)
  then have "evaluate_shadow_high_watermark (\<lambda>_ _. 0) (\<lambda>_. ''0'') (demo_equity 0 0) demo_thresholds None
      = Inr (non_actionable (demo_equity 0 0) demo_thresholds (thresholds_fingerprint (\<lambda>_. ''0'') demo_thresholds) None
          (Some (utc_date 0)) EV_FAIL_CLOSED INVALID_EQUITY)" (is "_ = Inr ?e")
    by (simp add: evaluate_shadow_high_watermark_def)
  with hwm_decision [OF this demo_thresholds_ok] show ?thesis by (auto simp: non_actionable_def)
qed

text \<open>
  C35: Whatever evaluations are persisted, in whatever order and whether or not the calls succeed,
  a stored day is never rewound: its row stays, its version never decreases, a row with the same
  version is the same row, and the table keeps its check constraints.
\<close>

theorem hwm_rows_never_rewound:
  assumes "\<forall>k v. t k = Some v \<longrightarrow> hwm_row_key v = k \<and> hwm_row_constraints v"
    and "final = run_commands (\<lambda>u e. fst (persist_shadow_high_watermark dtext ktext u e)) t evaluations"
  shows "(\<forall>k v. t k = Some v \<longrightarrow> (\<exists>w. final k = Some w \<and> hr_state_version v \<le> hr_state_version w
           \<and> (hr_state_version w = hr_state_version v \<longrightarrow> w = v)))
    \<and> (\<forall>k w. final k = Some w \<longrightarrow> hwm_row_key w = k \<and> hwm_row_constraints w)"
proof -
  have final: "final = run_commands (hwm_step dtext ktext) t evaluations"
    unfolding assms(2) by (simp add: run_commands_def hwm_step_def)
  have "\<exists>w. final k = Some w \<and> hr_state_version v \<le> hr_state_version w
      \<and> (hr_state_version w = hr_state_version v \<longrightarrow> w = v)" if "t k = Some v" for k v
    using hwm_rows.run_keeps [of t k v dtext ktext evaluations, OF that] final by auto
  moreover have "hwm_row_key w = k \<and> hwm_row_constraints w" if "final k = Some w" for k w
    using hwm_rows.run_ok [of t dtext ktext evaluations k w] assms(1) that final by blast
  ultimately show ?thesis by blast
qed

theorem hwm_rows_never_rewound_witness:
  "\<exists>w. run_commands (\<lambda>u e. fst (persist_shadow_high_watermark (\<lambda>_. ''0'') (\<lambda>_. []) u e))
      [(1, ''main'', ''KRX'', 0) \<mapsto> demo_row]
      [non_actionable (demo_equity 0 0) demo_thresholds [] None None EV_FAIL_CLOSED INVALID_EQUITY]
      (1, ''main'', ''KRX'', 0) = Some w \<and> hr_state_version demo_row \<le> hr_state_version w"
proof -
  let ?k = "(1, ''main'', ''KRX'', 0) :: hwm_key" let ?t = "[?k \<mapsto> demo_row] :: hwm_table"
  have "\<forall>k v. ?t k = Some v \<longrightarrow> hwm_row_key v = k \<and> hwm_row_constraints v" using demo_row_ok by simp
  note kept = hwm_rows_never_rewound [OF this refl, THEN conjunct1, THEN spec, THEN spec, THEN mp, of ?k demo_row]
  have "?t ?k = Some demo_row" by simp
  from kept [OF this, of "\<lambda>_. ''0''" "\<lambda>_. []"
      "[non_actionable (demo_equity 0 0) demo_thresholds [] None None EV_FAIL_CLOSED INVALID_EQUITY]"]
  show ?thesis by (elim exE conjE) (intro exI conjI)
qed

end
