(* ===== verification/Market_Type.thy ===== *)
theory Market_Type
  imports Prelude
begin

text \<open>
  Symbol and market detection of \<open>app/mcp_server/tooling/shared.py\<close>: which ledger and lot rules a
  symbol belongs to. Strings are ASCII, so \<open>isdigit\<close> and \<open>isalnum\<close> test ASCII classes.
\<close>

subsection \<open>Character classes\<close>

definition lower_char :: "char \<Rightarrow> char" where
  "lower_char c =
     (let n = (of_char c :: nat) in if 65 \<le> n \<and> n \<le> 90 then char_of (n + 32) else c)"

definition py_lower :: "string \<Rightarrow> string" where
  "py_lower s = map lower_char s"

definition digit_c :: "char \<Rightarrow> bool" where
  "digit_c c \<longleftrightarrow> (let n = (of_char c :: nat) in 48 \<le> n \<and> n \<le> 57)"

definition upper_c :: "char \<Rightarrow> bool" where
  "upper_c c \<longleftrightarrow> (let n = (of_char c :: nat) in 65 \<le> n \<and> n \<le> 90)"

definition lower_c :: "char \<Rightarrow> bool" where
  "lower_c c \<longleftrightarrow> (let n = (of_char c :: nat) in 97 \<le> n \<and> n \<le> 122)"

definition py_isdigit :: "string \<Rightarrow> bool" where
  "py_isdigit s \<longleftrightarrow> s \<noteq> [] \<and> list_all digit_c s"

definition py_isalnum :: "string \<Rightarrow> bool" where
  "py_isalnum s \<longleftrightarrow> s \<noteq> [] \<and> list_all (\<lambda>c. digit_c c \<or> upper_c c \<or> lower_c c) s"

definition starts_with :: "string \<Rightarrow> string \<Rightarrow> bool" where
  "starts_with p s \<longleftrightarrow> take (length p) s = p"

subsection \<open>Detection\<close>

text \<open>An \<open>A\<close> followed by six digits.\<close>

definition a_prefixed :: "string \<Rightarrow> bool" where
  "a_prefixed s \<longleftrightarrow> length s = 7 \<and> hd s = CHR ''A'' \<and> py_isdigit (tl s)"

definition is_korean_equity_code :: "string \<Rightarrow> bool" where
  "is_korean_equity_code symbol =
     (let s = strip_upper symbol
      in if a_prefixed s then True
         else if length s = 6 \<and> py_isalnum s then \<not> (hd s = CHR ''A'' \<and> py_isdigit (tl s))
         else False)"

definition is_crypto_market :: "string \<Rightarrow> bool" where
  "is_crypto_market symbol =
     (let s = strip_upper symbol in starts_with ''KRW-'' s \<or> starts_with ''USDT-'' s)"

definition us_equity_pattern :: "string \<Rightarrow> bool" where
  "us_equity_pattern s \<longleftrightarrow>
     s \<noteq> [] \<and> upper_c (hd s) \<and> length s \<le> 20 \<and> list_all (\<lambda>c. upper_c c \<or> digit_c c \<or> c = CHR ''.'') (tl s)"

definition is_us_equity_symbol :: "string \<Rightarrow> bool" where
  "is_us_equity_symbol symbol =
     (let s = strip_upper symbol
      in if s = [] then False else if is_crypto_market s then False else us_equity_pattern s)"

definition zfill6 :: "string \<Rightarrow> string" where
  "zfill6 s = replicate (6 - length s) (CHR ''0'') @ s"

definition normalize_symbol_input :: "string \<Rightarrow> string option \<Rightarrow> string" where
  "normalize_symbol_input symbol market =
     (let s = py_strip symbol
      in case market of
           None \<Rightarrow> if py_isdigit s \<and> length s \<le> 6 then zfill6 s else s
         | Some m \<Rightarrow>
             if py_lower m \<in> set [''kr'', ''krx'', ''korea'', ''kospi'', ''kosdaq'', ''equity_kr'', ''naver'']
             then if py_isdigit s then zfill6 s else s
             else s)"

definition market_names :: "(string \<times> string) list" where
  "market_names =
     [(''crypto'', ''crypto''), (''upbit'', ''crypto''), (''krw'', ''crypto''), (''usdt'', ''crypto''),
      (''kr'', ''equity_kr''), (''krx'', ''equity_kr''), (''korea'', ''equity_kr''), (''kospi'', ''equity_kr''),
      (''kosdaq'', ''equity_kr''), (''equity_kr'', ''equity_kr''), (''us'', ''equity_us''), (''usa'', ''equity_us''),
      (''nyse'', ''equity_us''), (''nasdaq'', ''equity_us''), (''yahoo'', ''equity_us''), (''equity_us'', ''equity_us'')]"

definition shared_normalize_market :: "string option \<Rightarrow> string option" where
  "shared_normalize_market market =
     (case market of
        None \<Rightarrow> None
      | Some m \<Rightarrow>
          let normalized = py_lower (py_strip m)
          in if normalized = [] then None else map_of market_names normalized)"

definition strip_kr_a_prefix :: "string \<Rightarrow> string" where
  "strip_kr_a_prefix symbol = (let s = strip_upper symbol in if a_prefixed s then tl s else symbol)"

definition resolve_market_type :: "string \<Rightarrow> string option \<Rightarrow> (string \<times> string) result" where
  "resolve_market_type symbol market =
     (let market_type = shared_normalize_market market;
          stripped = strip_kr_a_prefix symbol
      in if (case market of None \<Rightarrow> False | Some m \<Rightarrow> py_strip m \<noteq> []) \<and> market_type = None
         then Inl (ValueError ''Unsupported market'')
         else if market_type = Some ''crypto'' then
           raise_if (\<not> is_crypto_market (py_upper symbol)) (ValueError ''crypto symbols must include KRW-/USDT- prefix'')
             (Inr (''crypto'', py_upper symbol))
         else if market_type = Some ''equity_kr'' then
           raise_if (\<not> is_korean_equity_code stripped)
             (ValueError ''korean equity symbols must be 6 alphanumeric characters'')
             (Inr (''equity_kr'', stripped))
         else if market_type = Some ''equity_us'' then
           raise_if (is_crypto_market (py_upper symbol)) (ValueError ''us equity symbols must not include KRW-/USDT- prefix'')
          (raise_if (\<not> is_us_equity_symbol (py_upper symbol)) (ValueError ''invalid US equity symbol'')
             (Inr (''equity_us'', py_upper symbol)))
         else if is_crypto_market symbol then Inr (''crypto'', py_upper symbol)
         else if stripped \<noteq> symbol \<and> is_korean_equity_code stripped then Inr (''equity_kr'', stripped)
         else if is_korean_equity_code symbol then Inr (''equity_kr'', symbol)
         else if is_us_equity_symbol symbol then Inr (''equity_us'', symbol)
         else Inl (ValueError ''Unsupported symbol format''))"

subsection \<open>Facts\<close>

lemma resolve_market_type_types:
  assumes "resolve_market_type symbol market = Inr (kind, s)"
  shows "kind \<in> {''equity_kr'', ''equity_us'', ''crypto''}"
  using assms by (auto simp: resolve_market_type_def Let_def split: if_splits)

text \<open>Detection without a market keeps the spelling of a US symbol; naming the market upper-cases it.\<close>

lemma detection_keeps_spelling:
  "resolve_market_type ''aapl'' None = Inr (''equity_us'', ''aapl'')"
  "resolve_market_type ''aapl'' (Some ''us'') = Inr (''equity_us'', ''AAPL'')"
  by code_simp+

end
