(* ===== verification/Paper_Ledger.thy ===== *)
theory Paper_Ledger
  imports Money Market_Type "HOL-Library.AList"
begin

text \<open>
  The PAPER account book, the account and order half of \<open>app/services/paper_trading_service.py\<close>
  over the tables of \<open>app/models/paper_trading.py\<close>: accounts with a KRW and a USD balance,
  positions, executed trades, and the managed position cycles that an account reset or a full
  sell closes. Amounts pass through the numeric columns they are stored in; a committed
  transaction replaces the book, a raised exception commits nothing.

  Order arguments are finite decimals. The price provider is the argument \<open>fetch\<close>, the clock the
  argument \<open>now\<close>. Row numbers come from one sequence.
\<close>

subsection \<open>Tables\<close>

record paper_account =
  pa_name :: string
  pa_initial_capital :: rat
  pa_initial_capital_usd :: rat
  pa_cash_krw :: rat
  pa_cash_usd :: rat
  pa_description :: "string option"
  pa_strategy_name :: "string option"
  pa_is_active :: bool

record paper_position =
  pp_id :: int
  pp_instrument_type :: string
  pp_quantity :: rat
  pp_avg_price :: rat
  pp_total_invested :: rat

record ledger_trade =
  pt_id :: int
  pt_account_id :: int
  pt_symbol :: string
  pt_instrument_type :: string
  pt_side :: string
  pt_order_type :: string
  pt_quantity :: rat
  pt_price :: rat
  pt_total_amount :: rat
  pt_fee :: rat
  pt_currency :: string
  pt_reason :: string
  pt_realized_pnl :: "rat option"
  pt_correlation_id :: "string option"
  pt_executed_at :: instant

record managed_cycle =
  mc_paper_account_id :: int
  mc_paper_position_id :: "int option"
  mc_closed_at :: "instant option"

record ledger =
  ld_accounts :: "(int \<times> paper_account) list"
  ld_positions :: "((int \<times> string) \<times> paper_position) list"
  ld_trades :: "ledger_trade list"
  ld_managed :: "managed_cycle list"
  ld_next_id :: int

subsection \<open>Accounts\<close>

definition get_account :: "ledger \<Rightarrow> int \<Rightarrow> paper_account option" where
  "get_account l account_id = map_of (ld_accounts l) account_id"

definition account_not_found :: "'a result" where
  "account_not_found = Inl (ValueError ''Account not found'')"

definition create_account ::
    "ledger \<Rightarrow> string \<Rightarrow> rat \<Rightarrow> rat \<Rightarrow> string option \<Rightarrow> string option \<Rightarrow> (ledger \<times> int) result" where
  "create_account l name initial_capital_krw initial_capital_usd description strategy_name =
     bindr (numeric_column 20 4 initial_capital_krw) (\<lambda>krw.
     bindr (numeric_column 20 4 initial_capital_usd) (\<lambda>usd.
     raise_if (name \<in> set (map (\<lambda>a. pa_name (snd a)) (ld_accounts l))) (IntegrityError ''uq_paper_accounts_name'')
    (let account = \<lparr>pa_name = name, pa_initial_capital = krw, pa_initial_capital_usd = usd, pa_cash_krw = krw,
                    pa_cash_usd = usd, pa_description = description, pa_strategy_name = strategy_name,
                    pa_is_active = True\<rparr>
     in Inr (l\<lparr>ld_accounts := AList.update (ld_next_id l) account (ld_accounts l), ld_next_id := ld_next_id l + 1\<rparr>,
             ld_next_id l))))"

definition get_account_by_name :: "ledger \<Rightarrow> string \<Rightarrow> (int \<times> paper_account) option" where
  "get_account_by_name l name = find (\<lambda>a. pa_name (snd a) = name) (ld_accounts l)"

definition close_cycles :: "(managed_cycle \<Rightarrow> bool) \<Rightarrow> instant \<Rightarrow> managed_cycle list \<Rightarrow> managed_cycle list" where
  "close_cycles which now cycles =
     map (\<lambda>c. if which c \<and> mc_closed_at c = None
              then c\<lparr>mc_paper_position_id := None, mc_closed_at := Some now\<rparr> else c) cycles"

definition reset_account :: "instant \<Rightarrow> ledger \<Rightarrow> int \<Rightarrow> (ledger \<times> paper_account) result" where
  "reset_account now l account_id =
     (case get_account l account_id of
        None \<Rightarrow> account_not_found
      | Some account \<Rightarrow>
          let restored = account\<lparr>pa_cash_krw := pa_initial_capital account,
                                 pa_cash_usd := pa_initial_capital_usd account\<rparr>
          in Inr (l\<lparr>ld_accounts := AList.update account_id restored (ld_accounts l),
                    ld_positions := filter (\<lambda>p. fst (fst p) \<noteq> account_id) (ld_positions l),
                    ld_managed := close_cycles (\<lambda>c. mc_paper_account_id c = account_id) now (ld_managed l)\<rparr>,
                  restored))"

definition delete_account :: "ledger \<Rightarrow> int \<Rightarrow> ledger \<times> bool" where
  "delete_account l account_id =
     (case get_account l account_id of
        None \<Rightarrow> (l, False)
      | Some _ \<Rightarrow>
          (l\<lparr>ld_accounts := AList.delete account_id (ld_accounts l),
             ld_positions := filter (\<lambda>p. fst (fst p) \<noteq> account_id) (ld_positions l),
             ld_trades := filter (\<lambda>t. pt_account_id t \<noteq> account_id) (ld_trades l)\<rparr>, True))"

subsection \<open>Lots, currencies and fees\<close>

definition execution_quantity_lot :: "string \<Rightarrow> rat" where
  "execution_quantity_lot instrument_type = (if instrument_type = ''equity_us'' then 1 / 10000 else 1)"

definition quantize_execution_quantity :: "rat \<Rightarrow> string \<Rightarrow> rat result" where
  "quantize_execution_quantity quantity instrument_type =
     bindr (ddiv quantity (execution_quantity_lot instrument_type)) (\<lambda>lots.
     dmul (of_int (round_down lots)) (execution_quantity_lot instrument_type))"

definition position_currency :: "string \<Rightarrow> string" where
  "position_currency instrument_type = (if instrument_type = ''equity_us'' then ''USD'' else ''KRW'')"

definition calculate_fee :: "string \<Rightarrow> string \<Rightarrow> rat \<Rightarrow> rat result" where
  "calculate_fee instrument_type side amount =
     (if instrument_type = ''equity_kr'' then
        bindr (dmul amount (15 / 100000)) (\<lambda>fee.
        if side = ''sell''
        then bindr (dmul amount (18 / 10000)) (\<lambda>tax. bindr (dadd fee tax) quantize_money)
        else quantize_money fee)
      else if instrument_type = ''equity_us'' then
        bindr (dmul amount (7 / 10000)) (\<lambda>fee. quantize_money (max fee 1))
      else if instrument_type = ''crypto'' then bindr (dmul amount (5 / 10000)) quantize_money
      else Inl (ValueError ''Unsupported instrument_type''))"

subsection \<open>Orders\<close>

record position_quote =
  pq_price :: decimal
  pq_source :: string
  pq_as_of :: "instant option"
  pq_session :: "string option"

type_synonym quote_source = "string \<Rightarrow> string \<Rightarrow> position_quote result"

definition quote_stale_after :: duration where
  "quote_stale_after = 15 * 60 * 1000000"

definition quote_is_stale :: "position_quote \<Rightarrow> instant \<Rightarrow> bool option" where
  "quote_is_stale q now = map_option (\<lambda>as_of. quote_stale_after < now - as_of) (pq_as_of q)"

record order_request =
  or_account_id :: int
  or_symbol :: string
  or_side :: string
  or_order_type :: string
  or_quantity :: "rat option"
  or_price :: "rat option"
  or_amount :: "rat option"
  or_resolved_market_price :: "decimal option"
  or_reason :: string
  or_correlation_id :: "string option"

record order_preview =
  ov_symbol :: string
  ov_instrument_type :: string
  ov_side :: string
  ov_order_type :: string
  ov_quantity :: rat
  ov_price :: rat
  ov_gross :: rat
  ov_fee :: rat
  ov_total_cost :: rat
  ov_currency :: string

definition validate_resolved_market_price :: "decimal \<Rightarrow> rat result" where
  "validate_resolved_market_price value =
     (case finite_value value of
        None \<Rightarrow> Inl (ValueError ''resolved_market_price must be finite'')
      | Some q \<Rightarrow> if q \<le> 0 then Inl (ValueError ''resolved_market_price must be positive'') else Inr q)"

text \<open>A fetched price that is not finite fails the arithmetic on it.\<close>

definition fetch_current_price :: "quote_source \<Rightarrow> string \<Rightarrow> string \<Rightarrow> rat result" where
  "fetch_current_price fetch symbol instrument_type =
     bindr (fetch symbol instrument_type) (\<lambda>quote.
     case finite_value (pq_price quote) of None \<Rightarrow> Inl DecimalException | Some q \<Rightarrow> Inr q)"

definition order_fill_price :: "quote_source \<Rightarrow> order_request \<Rightarrow> string \<Rightarrow> string \<Rightarrow> string \<Rightarrow> rat result" where
  "order_fill_price fetch req order_type symbol instrument_type =
     (if order_type = ''limit''
      then (case or_price req of
              None \<Rightarrow> Inl (ValueError ''price is required for limit orders'')
            | Some price \<Rightarrow> Inr price)
      else case or_resolved_market_price req of
             Some value \<Rightarrow> validate_resolved_market_price value
           | None \<Rightarrow> fetch_current_price fetch symbol instrument_type)"

definition order_quantity :: "order_request \<Rightarrow> rat \<Rightarrow> string \<Rightarrow> rat result" where
  "order_quantity req fill_price instrument_type =
     bindr (case or_quantity req of
              Some quantity \<Rightarrow> Inr quantity
            | None \<Rightarrow>
                (case or_amount req of
                   Some amount \<Rightarrow> ddiv amount fill_price
                 | None \<Rightarrow> Inl (ValueError ''Either quantity or amount must be provided''))) (\<lambda>qty.
     bindr (if instrument_type = ''crypto'' then quantize_crypto_qty qty
            else quantize_execution_quantity qty instrument_type) (\<lambda>qty.
     raise_if (qty \<le> 0) (ValueError ''Computed quantity is not positive'') (Inr qty)))"

definition priced_order :: "order_request \<Rightarrow> string \<Rightarrow> string \<Rightarrow> string \<Rightarrow> string \<Rightarrow> rat \<Rightarrow> order_preview result" where
  "priced_order req side order_type instrument_type symbol fill_price =
     bindr (order_quantity req fill_price instrument_type) (\<lambda>qty.
     bindr (bindr (dmul qty fill_price) quantize_money) (\<lambda>gross.
     bindr (calculate_fee instrument_type side gross) (\<lambda>fee.
     bindr (bindr (if side = ''buy'' then dadd gross fee else dsub gross fee) quantize_money) (\<lambda>total_cost.
     Inr \<lparr>ov_symbol = symbol, ov_instrument_type = instrument_type, ov_side = side, ov_order_type = order_type,
          ov_quantity = qty, ov_price = fill_price, ov_gross = gross, ov_fee = fee, ov_total_cost = total_cost,
          ov_currency = position_currency instrument_type\<rparr>))))"

definition preview_order :: "quote_source \<Rightarrow> ledger \<Rightarrow> order_request \<Rightarrow> order_preview result" where
  "preview_order fetch l req =
     (let side = py_lower (or_side req); order_type = py_lower (or_order_type req)
      in raise_if (side \<noteq> ''buy'' \<and> side \<noteq> ''sell'') (ValueError ''side must be buy or sell'')
        (raise_if (order_type \<noteq> ''limit'' \<and> order_type \<noteq> ''market'')
           (ValueError ''order_type must be limit or market'')
        (raise_if (order_type = ''limit'' \<and> or_resolved_market_price req \<noteq> None)
           (ValueError ''resolved_market_price is only valid for market orders'')
        (case get_account l (or_account_id req) of
           None \<Rightarrow> account_not_found
         | Some account \<Rightarrow>
             raise_if (\<not> pa_is_active account) (ValueError ''Account is inactive'')
            (bindr (resolve_market_type (or_symbol req) None) (\<lambda>(instrument_type, symbol).
             bindr (order_fill_price fetch req order_type symbol instrument_type)
               (priced_order req side order_type instrument_type symbol)))))))"

subsection \<open>Execution\<close>

text \<open>The two balances of an account.\<close>

definition cash :: "string \<Rightarrow> paper_account \<Rightarrow> rat" where
  "cash currency account = (if currency = ''USD'' then pa_cash_usd account else pa_cash_krw account)"

definition set_cash :: "string \<Rightarrow> rat \<Rightarrow> paper_account \<Rightarrow> paper_account" where
  "set_cash currency amount account =
     (if currency = ''USD'' then account\<lparr>pa_cash_usd := amount\<rparr> else account\<lparr>pa_cash_krw := amount\<rparr>)"

text \<open>What a flush stores of a position.\<close>

definition stored_position :: "paper_position \<Rightarrow> paper_position result" where
  "stored_position p =
     bindr (numeric_column 20 8 (pp_quantity p)) (\<lambda>quantity.
     bindr (numeric_column 20 8 (pp_avg_price p)) (\<lambda>avg_price.
     bindr (numeric_column 20 4 (pp_total_invested p)) (\<lambda>total_invested.
     Inr (p\<lparr>pp_quantity := quantity, pp_avg_price := avg_price, pp_total_invested := total_invested\<rparr>))))"

text \<open>Buying: the balance check, the debit and the weighted average.\<close>

definition debit_cash :: "paper_account \<Rightarrow> order_preview \<Rightarrow> paper_account result" where
  "debit_cash account p =
     raise_if (cash (ov_currency p) account < ov_total_cost p) (ValueError ''Insufficient balance'')
    (bindr (bindr (dsub (cash (ov_currency p) account) (ov_total_cost p)) quantize_money) (\<lambda>rest.
     bindr (numeric_column 20 4 rest) (\<lambda>rest. Inr (set_cash (ov_currency p) rest account))))"

definition bought_position :: "int \<Rightarrow> paper_position option \<Rightarrow> order_preview \<Rightarrow> paper_position result" where
  "bought_position new_id position p =
     (case position of
        Some old \<Rightarrow>
          bindr (dadd (pp_total_invested old) (ov_gross p)) (\<lambda>new_total.
          bindr (dadd (pp_quantity old) (ov_quantity p)) (\<lambda>new_qty.
          bindr (bindr (ddiv new_total new_qty) quantize_money) (\<lambda>avg_price.
          stored_position (old\<lparr>pp_avg_price := avg_price, pp_quantity := new_qty, pp_total_invested := new_total\<rparr>))))
      | None \<Rightarrow>
          stored_position \<lparr>pp_id = new_id, pp_instrument_type = ov_instrument_type p, pp_quantity = ov_quantity p,
                           pp_avg_price = ov_price p, pp_total_invested = ov_gross p\<rparr>)"

text \<open>Selling: the checks, the proceeds and the realized result.\<close>

definition credit_cash :: "paper_account \<Rightarrow> order_preview \<Rightarrow> paper_account result" where
  "credit_cash account p =
     bindr (bindr (dadd (cash (ov_currency p) account) (ov_total_cost p)) quantize_money) (\<lambda>rest.
     bindr (numeric_column 20 4 rest) (\<lambda>rest. Inr (set_cash (ov_currency p) rest account)))"

definition realized_pnl_of :: "order_preview \<Rightarrow> rat \<Rightarrow> rat result" where
  "realized_pnl_of p cost_basis =
     bindr (dsub (ov_gross p) cost_basis) (\<lambda>gain. bindr (dsub gain (ov_fee p)) quantize_money)"

definition sold_position :: "paper_position \<Rightarrow> order_preview \<Rightarrow> rat \<Rightarrow> paper_position result" where
  "sold_position position p cost_basis =
     bindr (dsub (pp_quantity position) (ov_quantity p)) (\<lambda>quantity.
     bindr (bindr (dsub (pp_total_invested position) cost_basis) quantize_money) (\<lambda>total_invested.
     stored_position (position\<lparr>pp_quantity := quantity, pp_total_invested := total_invested\<rparr>)))"

text \<open>The trade row with its check constraints and the unique correlation of an account.\<close>

definition insert_trade :: "ledger \<Rightarrow> ledger_trade \<Rightarrow> ledger result" where
  "insert_trade l t =
     bindr (numeric_column 20 8 (pt_quantity t)) (\<lambda>quantity.
     bindr (numeric_column 20 8 (pt_price t)) (\<lambda>price.
     bindr (numeric_column 20 4 (pt_total_amount t)) (\<lambda>total_amount.
     bindr (numeric_column 20 4 (pt_fee t)) (\<lambda>fee.
     bindr (case pt_realized_pnl t of
              None \<Rightarrow> Inr None
            | Some q \<Rightarrow> bindr (numeric_column 20 4 q) (\<lambda>q. Inr (Some q))) (\<lambda>realized_pnl.
     raise_if (pt_side t \<noteq> ''buy'' \<and> pt_side t \<noteq> ''sell'') (IntegrityError ''paper_trades_side'')
    (raise_if (pt_order_type t \<noteq> ''limit'' \<and> pt_order_type t \<noteq> ''market'') (IntegrityError ''paper_trades_order_type'')
    (raise_if (pt_currency t \<noteq> ''KRW'' \<and> pt_currency t \<noteq> ''USD'') (IntegrityError ''paper_trades_currency'')
    (raise_if (pt_correlation_id t \<noteq> None
               \<and> (pt_account_id t, pt_correlation_id t) \<in> set (map (\<lambda>u. (pt_account_id u, pt_correlation_id u)) (ld_trades l)))
       (IntegrityError ''uq_paper_trades_account_correlation'')
    (Inr (l\<lparr>ld_trades := ld_trades l @ [t\<lparr>pt_quantity := quantity, pt_price := price,
            pt_total_amount := total_amount, pt_fee := fee, pt_realized_pnl := realized_pnl\<rparr>]\<rparr>))))))))))"

record order_execution =
  ox_preview :: order_preview
  ox_realized_pnl :: "rat option"
  ox_executed_at :: instant

text \<open>Both branches return the changed book and the realized result.\<close>

definition execute_buy ::
    "instant \<Rightarrow> ledger \<Rightarrow> int \<Rightarrow> paper_account \<Rightarrow> order_preview \<Rightarrow> (ledger \<times> rat option) result" where
  "execute_buy now l account_id account p =
     bindr (debit_cash account p) (\<lambda>account'.
     let key = (account_id, ov_symbol p); position = map_of (ld_positions l) key
     in bindr (bought_position (ld_next_id l) position p) (\<lambda>position'.
        Inr (l\<lparr>ld_accounts := AList.update account_id account' (ld_accounts l),
               ld_positions := AList.update key position' (ld_positions l),
               ld_next_id := (if position = None then ld_next_id l + 1 else ld_next_id l)\<rparr>, None)))"

definition execute_sell ::
    "instant \<Rightarrow> ledger \<Rightarrow> int \<Rightarrow> paper_account \<Rightarrow> order_preview \<Rightarrow> (ledger \<times> rat option) result" where
  "execute_sell now l account_id account p =
     (let key = (account_id, ov_symbol p)
      in case map_of (ld_positions l) key of
           None \<Rightarrow> Inl (ValueError ''No position to sell'')
         | Some position \<Rightarrow>
             raise_if (pp_quantity position < ov_quantity p) (ValueError ''Insufficient quantity to sell'')
            (bindr (credit_cash account p) (\<lambda>account'.
             bindr (dmul (pp_avg_price position) (ov_quantity p)) (\<lambda>cost_basis.
             bindr (realized_pnl_of p cost_basis) (\<lambda>realized_pnl.
             let l' = l\<lparr>ld_accounts := AList.update account_id account' (ld_accounts l)\<rparr>
             in if pp_quantity position = ov_quantity p
                then Inr (l'\<lparr>ld_positions := AList.delete key (ld_positions l),
                             ld_managed := close_cycles (\<lambda>c. mc_paper_position_id c = Some (pp_id position)) now
                                             (ld_managed l)\<rparr>, Some realized_pnl)
                else bindr (sold_position position p cost_basis) (\<lambda>position'.
                     Inr (l'\<lparr>ld_positions := AList.update key position' (ld_positions l)\<rparr>, Some realized_pnl)))))))"

definition execute_order ::
    "quote_source \<Rightarrow> instant \<Rightarrow> ledger \<Rightarrow> order_request \<Rightarrow> (ledger \<times> order_execution) result" where
  "execute_order fetch now l req =
     bindr (preview_order fetch l req) (\<lambda>p.
     case get_account l (or_account_id req) of
       None \<Rightarrow> Inl AssertionError
     | Some account \<Rightarrow>
         bindr (if py_lower (or_side req) = ''buy'' then execute_buy now l (or_account_id req) account p
                else execute_sell now l (or_account_id req) account p) (\<lambda>(l', realized_pnl).
         bindr (insert_trade (l'\<lparr>ld_next_id := ld_next_id l' + 1\<rparr>)
                  \<lparr>pt_id = ld_next_id l', pt_account_id = or_account_id req, pt_symbol = ov_symbol p,
                   pt_instrument_type = ov_instrument_type p, pt_side = or_side req,
                   pt_order_type = or_order_type req, pt_quantity = ov_quantity p, pt_price = ov_price p,
                   pt_total_amount = ov_gross p, pt_fee = ov_fee p, pt_currency = ov_currency p,
                   pt_reason = or_reason req, pt_realized_pnl = realized_pnl,
                   pt_correlation_id = or_correlation_id req, pt_executed_at = now\<rparr>) (\<lambda>l''.
         Inr (l'', \<lparr>ox_preview = p, ox_realized_pnl = realized_pnl, ox_executed_at = now\<rparr>))))"

end
