(* ===== verification/Paper_Ledger_Rules.thy ===== *)
theory Paper_Ledger_Rules
  imports Paper_Ledger
begin

text \<open>
  What the PAPER book promises: every executed order changes cash and holdings by exactly what
  its trade row says, a position never becomes empty or negative, a correlation is executed at
  most once, and a rejected order changes nothing.
\<close>

subsection \<open>Previews\<close>

lemma quantize_money_places: "quantize_money q = Inr r \<Longrightarrow> places 4 r"
  unfolding quantize_money_def by (rule quantize_half_up_Inr(1))

lemma calculate_fee_places: "calculate_fee kind side amount = Inr fee \<Longrightarrow> places 4 fee"
  by (auto simp: calculate_fee_def elim!: bindrE dest: quantize_money_places split: if_splits)

text \<open>Rounding to the context keeps a quantity on its decimal places.\<close>

lemma dec_fix_on_places:
  assumes "places s q" and "s \<le> 1000"
  shows "places s (dec_fix q)"
proof (cases "q = 0")
  case False
  show ?thesis
  proof (cases "quantum_exp q \<le> - int s")
    case True
    from assms(1) obtain n where n: "q = of_int n / 10 ^ s" by (rule placesE)
    have "q = of_int n * pow10 (- int s)" by (simp add: n power_int_minus divide_inverse)
    from dec_fix_multiple [OF this True] assms(1) show ?thesis by simp
  next
    case large: False
    let ?k = "quantum_exp q" and ?m = "round_half_even (q / pow10 (quantum_exp q))"
    have "pow10 ?k * 10 ^ s = pow10 (?k + int s)" by (simp add: power_int_add)
    also have "\<dots> = of_int (10 ^ nat (?k + int s))" using large by (simp add: power_int_def)
    finally have scaled: "pow10 ?k * 10 ^ s = of_int (10 ^ nat (?k + int s))" .
    have "dec_fix q * 10 ^ s = of_int (?m * 10 ^ nat (?k + int s))"
      using False scaled by (simp add: dec_fix_def Let_def mult.assoc)
    then show ?thesis unfolding places_def by (metis Ints_of_int)
  qed
qed (simp add: dec_fix_def)

lemma execution_quantity_places:
  assumes "quantize_execution_quantity q kind = Inr r"
  shows "places 4 r"
proof -
  obtain lots where "dmul (of_int (round_down lots)) (execution_quantity_lot kind) = Inr r"
    using assms by (auto simp: quantize_execution_quantity_def elim!: bindrE)
  then have r: "r = dec_fix (of_int (round_down lots) * execution_quantity_lot kind)" by (rule dmul_Inr)
  have "places 4 (of_int (round_down lots) * execution_quantity_lot kind)"
    using places_of_int_div [of 4 "round_down lots"] by (simp add: execution_quantity_lot_def)
  then show ?thesis unfolding r by (rule dec_fix_on_places) simp
qed

definition preview_ok :: "order_preview \<Rightarrow> bool" where
  "preview_ok p \<longleftrightarrow> 0 < ov_quantity p \<and> places 8 (ov_quantity p) \<and> places 4 (ov_gross p) \<and> places 4 (ov_fee p)
     \<and> ov_currency p \<in> {''KRW'', ''USD''}
     \<and> ov_total_cost p = (if ov_side p = ''buy'' then ov_gross p + ov_fee p else ov_gross p - ov_fee p)"

lemma order_quantity_ok:
  assumes "order_quantity req price kind = Inr qty"
  shows "0 < qty" and "places 8 qty"
  using assms execution_quantity_places [THEN places_mono, of _ kind qty 8]
  by (auto simp: order_quantity_def quantize_crypto_qty_def elim!: bindrE
      dest: quantize_half_up_Inr(1) split: if_splits)

lemma priced_order_ok:
  assumes "priced_order req side order_type kind symbol price = Inr p"
  shows "preview_ok p" and "ov_symbol p = symbol" and "ov_side p = side"
proof -
  obtain qty gross fee total r where p: "p = \<lparr>ov_symbol = symbol, ov_instrument_type = kind, ov_side = side,
      ov_order_type = order_type, ov_quantity = qty, ov_price = price, ov_gross = gross, ov_fee = fee,
      ov_total_cost = total, ov_currency = position_currency kind\<rparr>"
    and qty: "order_quantity req price kind = Inr qty"
    and gross: "places 4 gross" and fee: "places 4 fee"
    and total: "(if side = ''buy'' then dadd gross fee else dsub gross fee) = Inr r" "quantize_money r = Inr total"
    using assms unfolding priced_order_def
    by (elim bindrE) (rule that, auto intro: quantize_money_places calculate_fee_places)
  have "total = (if side = ''buy'' then gross + fee else gross - fee)"
    using total quantized_sum_exact [of 4 _ r total] gross fee
    by (auto simp: dadd_def dsub_def quantize_money_def split: if_splits)
  with p order_quantity_ok [OF qty] gross fee
  show "preview_ok p" and "ov_symbol p = symbol" and "ov_side p = side"
    by (auto simp: preview_ok_def position_currency_def)
qed

lemma preview_order_ok:
  assumes "preview_order fetch l req = Inr p"
  shows "preview_ok p" and "ov_side p = py_lower (or_side req)" and "py_lower (or_side req) \<in> {''buy'', ''sell''}"
proof -
  obtain order_type kind symbol price where
    "priced_order req (py_lower (or_side req)) order_type kind symbol price = Inr p"
    and "py_lower (or_side req) \<in> {''buy'', ''sell''}"
    using assms
    by (auto simp: preview_order_def Let_def account_not_found_def elim!: bindrE split: option.splits prod.splits)
  with priced_order_ok [OF this(1)]
  show "preview_ok p" and "ov_side p = py_lower (or_side req)" and "py_lower (or_side req) \<in> {''buy'', ''sell''}"
    by simp_all
qed

subsection \<open>The book\<close>

definition held :: "ledger \<Rightarrow> int \<times> string \<Rightarrow> rat" where
  "held l key = (case map_of (ld_positions l) key of None \<Rightarrow> 0 | Some p \<Rightarrow> pp_quantity p)"

definition balance :: "ledger \<Rightarrow> int \<Rightarrow> string \<Rightarrow> rat" where
  "balance l account_id currency =
     (case get_account l account_id of None \<Rightarrow> 0 | Some account \<Rightarrow> cash currency account)"

text \<open>What a trade row says about cash and shares.\<close>

definition trade_flow :: "ledger_trade \<Rightarrow> rat" where
  "trade_flow t = (if pt_side t = ''buy'' then - (pt_total_amount t + pt_fee t) else pt_total_amount t - pt_fee t)"

definition trade_shares :: "ledger_trade \<Rightarrow> rat" where
  "trade_shares t = (if pt_side t = ''buy'' then pt_quantity t else - pt_quantity t)"

definition currencies :: "string set" where
  "currencies = {''KRW'', ''USD''}"

definition account_ok :: "paper_account \<Rightarrow> bool" where
  "account_ok a \<longleftrightarrow> places 4 (pa_cash_krw a) \<and> places 4 (pa_cash_usd a)
     \<and> places 4 (pa_initial_capital a) \<and> places 4 (pa_initial_capital_usd a)"

definition position_ok :: "paper_position \<Rightarrow> bool" where
  "position_ok p \<longleftrightarrow> 0 < pp_quantity p \<and> pp_quantity p < 10 ^ 12 \<and> places 8 (pp_quantity p)"

text \<open>A stored trade row.\<close>

definition trade_ok :: "ledger_trade \<Rightarrow> bool" where
  "trade_ok t \<longleftrightarrow> pt_side t \<in> {''buy'', ''sell''} \<and> 0 < pt_quantity t \<and> places 8 (pt_quantity t)
     \<and> places 4 (pt_fee t) \<and> \<bar>pt_fee t\<bar> < 10 ^ 16
     \<and> (\<forall>q. pt_realized_pnl t = Some q \<longrightarrow> places 4 q \<and> \<bar>q\<bar> < 10 ^ 16)"

definition correlations :: "ledger \<Rightarrow> (int \<times> string option) list" where
  "correlations l = map (\<lambda>t. (pt_account_id t, pt_correlation_id t)) (filter (\<lambda>t. pt_correlation_id t \<noteq> None) (ld_trades l))"

definition ledger_ok :: "ledger \<Rightarrow> bool" where
  "ledger_ok l \<longleftrightarrow> (\<forall>i a. get_account l i = Some a \<longrightarrow> account_ok a \<and> i < ld_next_id l)
     \<and> (\<forall>k p. map_of (ld_positions l) k = Some p \<longrightarrow> position_ok p) \<and> distinct (correlations l)"

lemma cash_set_cash [simp]:
  "c \<in> currencies \<Longrightarrow> d \<in> currencies \<Longrightarrow> cash c (set_cash d x a) = (if c = d then x else cash c a)"
  by (auto simp: currencies_def cash_def set_cash_def)

lemma account_ok_cash: "account_ok a \<Longrightarrow> places 4 (cash c a)"
  by (simp add: account_ok_def cash_def)

lemma account_ok_set_cash: "account_ok a \<Longrightarrow> places 4 x \<Longrightarrow> account_ok (set_cash c x a)"
  by (simp add: account_ok_def set_cash_def)

lemma booked_amount_exact:
  assumes "bindr (dec_ctx q) quantize_money = Inr r" and "numeric_column 20 4 r = Inr v" and "places 4 q"
  shows "v = q"
proof -
  obtain x where x: "dec_ctx q = Inr x" "quantize_money x = Inr r" using assms(1) by (rule bindrE)
  have "r = q" using quantized_sum_exact [OF assms(3) x(1) _, of r] x(2) by (simp add: quantize_money_def)
  with numeric_column_Inr(4) [OF assms(2)] assms(3) show ?thesis by simp
qed

lemma preview_total_places: "preview_ok p \<Longrightarrow> places 4 (ov_total_cost p)"
  by (auto simp: preview_ok_def)

lemma debit_cash_exact:
  assumes "debit_cash account p = Inr account'" and "preview_ok p" and "account_ok account"
  shows "account' = set_cash (ov_currency p) (cash (ov_currency p) account - ov_total_cost p) account"
    and "ov_total_cost p \<le> cash (ov_currency p) account"
proof -
  obtain r v where "bindr (dec_ctx (cash (ov_currency p) account - ov_total_cost p)) quantize_money = Inr r"
      "numeric_column 20 4 r = Inr v" "account' = set_cash (ov_currency p) v account"
      and le: "ov_total_cost p \<le> cash (ov_currency p) account"
    using assms(1) unfolding debit_cash_def dsub_def raise_if_eq_Inr
    by (elim bindrE conjE) (auto simp: bindr_def split: sum.splits)
  with booked_amount_exact places_diff [OF account_ok_cash [OF assms(3)] preview_total_places [OF assms(2)]]
  show "account' = set_cash (ov_currency p) (cash (ov_currency p) account - ov_total_cost p) account"
    by blast
  show "ov_total_cost p \<le> cash (ov_currency p) account" by (rule le)
qed

lemma credit_cash_exact:
  assumes "credit_cash account p = Inr account'" and "preview_ok p" and "account_ok account"
  shows "account' = set_cash (ov_currency p) (cash (ov_currency p) account + ov_total_cost p) account"
proof -
  obtain r v where "bindr (dec_ctx (cash (ov_currency p) account + ov_total_cost p)) quantize_money = Inr r"
      "numeric_column 20 4 r = Inr v" "account' = set_cash (ov_currency p) v account"
    using assms(1) unfolding credit_cash_def dadd_def
    by (elim bindrE) (auto simp: bindr_def split: sum.splits)
  with booked_amount_exact places_add [OF account_ok_cash [OF assms(3)] preview_total_places [OF assms(2)]]
  show ?thesis by blast
qed

lemma stored_position_Inr:
  assumes "stored_position p = Inr p'"
  shows "numeric_column 20 8 (pp_quantity p) = Inr (pp_quantity p')" and "pp_quantity p' < 10 ^ 12"
proof -
  show col: "numeric_column 20 8 (pp_quantity p) = Inr (pp_quantity p')"
    using assms by (auto simp: stored_position_def elim!: bindrE)
  show "pp_quantity p' < 10 ^ 12" using numeric_column_Inr(2) [OF col] by simp
qed

lemma stored_sum_exact:
  assumes "dec_ctx q = Inr r" and "numeric_column 20 8 r = Inr v" and "places 8 q"
  shows "v = q"
  using fitting_sum_exact(1) [OF assms(3,1,2)] by simp

lemma bought_position_exact:
  assumes "bought_position n position p = Inr p'" and "preview_ok p"
    and "\<And>old. position = Some old \<Longrightarrow> position_ok old"
  shows "pp_quantity p' = (case position of None \<Rightarrow> 0 | Some old \<Rightarrow> pp_quantity old) + ov_quantity p"
    and "position_ok p'"
proof -
  show q: "pp_quantity p' = (case position of None \<Rightarrow> 0 | Some old \<Rightarrow> pp_quantity old) + ov_quantity p"
  proof (cases position)
    case None
    with assms(1) have "numeric_column 20 8 (ov_quantity p) = Inr (pp_quantity p')"
      by (auto simp: bought_position_def dest: stored_position_Inr(1))
    with numeric_column_Inr(4) assms(2) None show ?thesis by (simp add: preview_ok_def)
  next
    case (Some old)
    with assms(1) obtain r where "dec_ctx (pp_quantity old + ov_quantity p) = Inr r"
        "numeric_column 20 8 r = Inr (pp_quantity p')"
      by (auto simp: bought_position_def dadd_def elim!: bindrE dest: stored_position_Inr(1))
    moreover have "places 8 (pp_quantity old + ov_quantity p)"
      using assms(2) assms(3) [OF Some] by (auto simp: preview_ok_def position_ok_def)
    ultimately show ?thesis using stored_sum_exact Some by auto
  qed
  have "pp_quantity p' < 10 ^ 12"
    using assms(1) stored_position_Inr(2) by (auto simp: bought_position_def elim!: bindrE split: option.splits)
  then show "position_ok p'"
    using q assms(2,3) by (auto simp: preview_ok_def position_ok_def add_pos_pos split: option.splits)
qed

lemma sold_position_exact:
  assumes "sold_position position p cost_basis = Inr p'" and "preview_ok p" and "position_ok position"
    and "ov_quantity p < pp_quantity position"
  shows "pp_quantity p' = pp_quantity position - ov_quantity p" and "position_ok p'"
proof -
  obtain r where "dec_ctx (pp_quantity position - ov_quantity p) = Inr r" "numeric_column 20 8 r = Inr (pp_quantity p')"
    using assms(1) by (auto simp: sold_position_def dsub_def elim!: bindrE dest: stored_position_Inr(1))
  moreover have pl: "places 8 (pp_quantity position - ov_quantity p)"
    using assms(2,3) by (auto simp: preview_ok_def position_ok_def)
  ultimately show "pp_quantity p' = pp_quantity position - ov_quantity p" using stored_sum_exact by blast
  moreover have "pp_quantity p' < 10 ^ 12"
    using assms(1) stored_position_Inr(2) by (auto simp: sold_position_def elim!: bindrE)
  ultimately show "position_ok p'" using pl assms(4) by (simp add: position_ok_def)
qed

subsection \<open>Orders move what their trade row says\<close>

text \<open>One account's cash in one currency and one holding move; everything else stays.\<close>

definition moved :: "ledger \<Rightarrow> ledger \<Rightarrow> int \<Rightarrow> string \<Rightarrow> string \<Rightarrow> rat \<Rightarrow> rat \<Rightarrow> bool" where
  "moved l l' a symbol c flow shares \<longleftrightarrow>
     (\<forall>a' c'. c' \<in> currencies \<longrightarrow> balance l' a' c' = balance l a' c' + (if a' = a \<and> c' = c then flow else 0))
   \<and> (\<forall>k. held l' k = held l k + (if k = (a, symbol) then shares else 0))"

lemma ledger_ok_account: "ledger_ok l \<Longrightarrow> get_account l i = Some a \<Longrightarrow> account_ok a"
  by (simp add: ledger_ok_def)

lemma ledger_ok_position: "ledger_ok l \<Longrightarrow> map_of (ld_positions l) k = Some p \<Longrightarrow> position_ok p"
  unfolding ledger_ok_def by blast

lemma preview_currency: "preview_ok p \<Longrightarrow> ov_currency p \<in> currencies"
  by (simp add: preview_ok_def currencies_def)

lemma execute_buy_effect:
  assumes "execute_buy now l i account p = Inr (l', r)" and "ledger_ok l" and "preview_ok p"
    and "get_account l i = Some account"
  shows "moved l l' i (ov_symbol p) (ov_currency p) (- ov_total_cost p) (ov_quantity p)"
    and "ledger_ok l'" and "ld_trades l' = ld_trades l" and "ov_total_cost p \<le> balance l i (ov_currency p)"
proof -
  let ?position = "map_of (ld_positions l) (i, ov_symbol p)"
  obtain account' position' where acc: "debit_cash account p = Inr account'"
    and pos: "bought_position (ld_next_id l) ?position p = Inr position'"
    and l': "l' = l\<lparr>ld_accounts := AList.update i account' (ld_accounts l),
               ld_positions := AList.update (i, ov_symbol p) position' (ld_positions l),
               ld_next_id := (if ?position = None then ld_next_id l + 1 else ld_next_id l)\<rparr>"
    using assms(1) by (auto simp: execute_buy_def Let_def elim!: bindrE)
  note ok = ledger_ok_account [OF assms(2,4)]
  note exact = debit_cash_exact [OF acc assms(3) ok]
  note q = bought_position_exact [OF pos assms(3) ledger_ok_position [OF assms(2)]]
  have account_ok': "account_ok account'"
    unfolding exact(1) using ok assms(3)
    by (intro account_ok_set_cash places_diff account_ok_cash preview_total_places)
  have "balance l' a c = balance l a c + (if a = i \<and> c = ov_currency p then - ov_total_cost p else 0)"
    if "c \<in> currencies" for a c
    using that assms(4) preview_currency [OF assms(3)]
    by (auto simp: l' balance_def get_account_def AList.update_conv' exact(1))
  moreover have "held l' k = held l k + (if k = (i, ov_symbol p) then ov_quantity p else 0)" for k
    by (auto simp: l' held_def AList.update_conv' q(1))
  ultimately show "moved l l' i (ov_symbol p) (ov_currency p) (- ov_total_cost p) (ov_quantity p)"
    by (simp add: moved_def)
  show "ledger_ok l'"
    using assms(2,4) account_ok' q(2)
    by (fastforce simp: l' ledger_ok_def get_account_def correlations_def AList.update_conv' split: if_splits)
  show "ld_trades l' = ld_trades l" by (simp add: l')
  show "ov_total_cost p \<le> balance l i (ov_currency p)" using exact(2) assms(4) by (simp add: balance_def)
qed

lemma execute_sell_effect:
  assumes "execute_sell now l i account p = Inr (l', r)" and "ledger_ok l" and "preview_ok p"
    and "get_account l i = Some account"
  shows "moved l l' i (ov_symbol p) (ov_currency p) (ov_total_cost p) (- ov_quantity p)"
    and "ledger_ok l'" and "ld_trades l' = ld_trades l" and "ov_quantity p \<le> held l (i, ov_symbol p)"
proof -
  let ?k = "(i, ov_symbol p)"
  obtain position where pos: "map_of (ld_positions l) ?k = Some position"
    using assms(1) by (auto simp: execute_sell_def Let_def split: option.splits)
  obtain account' where enough: "ov_quantity p \<le> pp_quantity position"
    and acc: "credit_cash account p = Inr account'"
    and l': "ld_accounts l' = AList.update i account' (ld_accounts l)" "ld_trades l' = ld_trades l"
      "ld_next_id l' = ld_next_id l"
      "pp_quantity position = ov_quantity p \<and> ld_positions l' = AList.delete ?k (ld_positions l)
       \<or> pp_quantity position \<noteq> ov_quantity p
         \<and> (\<exists>position' cost_basis. sold_position position p cost_basis = Inr position'
              \<and> ld_positions l' = AList.update ?k position' (ld_positions l))"
    using assms(1) unfolding execute_sell_def Let_def pos option.case raise_if_eq_Inr
    by (elim bindrE conjE) (rule that, auto simp: not_less elim!: bindrE split: if_splits)
  note ok = ledger_ok_account [OF assms(2,4)] and pok = ledger_ok_position [OF assms(2) pos]
  note exact = credit_cash_exact [OF acc assms(3) ok]
  have account_ok': "account_ok account'"
    unfolding exact using ok assms(3)
    by (intro account_ok_set_cash places_add account_ok_cash preview_total_places)
  have "balance l' a c = balance l a c + (if a = i \<and> c = ov_currency p then ov_total_cost p else 0)"
    if "c \<in> currencies" for a c
    using that assms(4) preview_currency [OF assms(3)]
    by (auto simp: l'(1) balance_def get_account_def AList.update_conv' exact)
  moreover have pos': "held l' k = held l k + (if k = ?k then - ov_quantity p else 0)"
      "\<And>x. map_of (ld_positions l') k = Some x \<Longrightarrow> position_ok x" for k
    using l'(4) pos enough sold_position_exact [OF _ assms(3) pok] ledger_ok_position [OF assms(2), of k]
    by (auto simp: held_def AList.update_conv' AList.delete_conv' split: if_splits)
  ultimately show "moved l l' i (ov_symbol p) (ov_currency p) (ov_total_cost p) (- ov_quantity p)"
    by (simp add: moved_def)
  show "ledger_ok l'"
    using assms(2,4) account_ok' pos'(2)
    by (auto simp: l' ledger_ok_def get_account_def correlations_def AList.update_conv' split: if_splits)
  show "ld_trades l' = ld_trades l" by (rule l'(2))
  show "ov_quantity p \<le> held l ?k" using pos enough by (simp add: held_def)
qed

lemma insert_trade_effect:
  assumes "insert_trade l t = Inr l'" and "ledger_ok l"
    and "0 < pt_quantity t" and "places 8 (pt_quantity t)" and "places 4 (pt_total_amount t)" and "places 4 (pt_fee t)"
  shows "\<exists>t'. l' = l\<lparr>ld_trades := ld_trades l @ [t']\<rparr> \<and> trade_flow t' = trade_flow t \<and> trade_shares t' = trade_shares t
    \<and> pt_account_id t' = pt_account_id t \<and> pt_symbol t' = pt_symbol t \<and> pt_currency t' = pt_currency t
    \<and> pt_side t' = pt_side t \<and> pt_executed_at t' = pt_executed_at t \<and> pt_side t \<in> {''buy'', ''sell''} \<and> trade_ok t' \<and> ledger_ok l'"
proof -
  obtain quantity price total fee pnl where
      cols: "numeric_column 20 8 (pt_quantity t) = Inr quantity" "numeric_column 20 4 (pt_total_amount t) = Inr total"
        "numeric_column 20 4 (pt_fee t) = Inr fee"
      and pnl: "\<And>q. pnl = Some q \<Longrightarrow> places 4 q \<and> \<bar>q\<bar> < 10 ^ 16"
      and side: "pt_side t \<in> {''buy'', ''sell''}"
      and fresh: "pt_correlation_id t = None \<or> (pt_account_id t, pt_correlation_id t) \<notin> set (map (\<lambda>u. (pt_account_id u, pt_correlation_id u)) (ld_trades l))"
      and l': "l' = l\<lparr>ld_trades := ld_trades l @ [t\<lparr>pt_quantity := quantity, pt_price := price,
            pt_total_amount := total, pt_fee := fee, pt_realized_pnl := pnl\<rparr>]\<rparr>" (is "_ = l\<lparr>ld_trades := _ @ [?t]\<rparr>")
    using assms(1) unfolding insert_trade_def
    by (elim bindrE) (rule that, auto elim!: bindrE dest: numeric_column_Inr split: option.splits)
  have same: "quantity = pt_quantity t" "total = pt_total_amount t" "fee = pt_fee t"
    using numeric_column_Inr(4) [OF cols(1)] numeric_column_Inr(4) [OF cols(2)] numeric_column_Inr(4) [OF cols(3)]
      assms(4-6) by simp_all
  have trade: "trade_ok ?t"
    using side pnl assms(3,4,6) numeric_column_Inr(2) [OF cols(3)] by (auto simp: trade_ok_def same)
  have "distinct (correlations l')"
    using assms(2) fresh by (auto simp: l' ledger_ok_def correlations_def)
  then have "ledger_ok l'"
    using assms(2) by (simp add: l' ledger_ok_def get_account_def)
  then show ?thesis
    using side trade by (intro exI [of _ ?t]) (simp add: l' same trade_flow_def trade_shares_def)
qed

lemma execute_order_effect:
  assumes "execute_order fetch now l req = Inr (l', x)" and "ledger_ok l"
  shows "\<exists>t. ld_trades l' = ld_trades l @ [t] \<and> ledger_ok l' \<and> trade_ok t \<and> pt_executed_at t = now
    \<and> moved l l' (pt_account_id t) (pt_symbol t) (pt_currency t) (trade_flow t) (trade_shares t)
    \<and> pt_currency t \<in> currencies \<and> pt_side t \<in> {''buy'', ''sell''}
    \<and> (pt_side t = ''buy'' \<longrightarrow> 0 \<le> balance l' (pt_account_id t) (pt_currency t))
    \<and> (pt_side t = ''sell'' \<longrightarrow> 0 \<le> held l' (pt_account_id t, pt_symbol t))"
proof -
  let ?i = "or_account_id req" and ?buy = "py_lower (or_side req) = ''buy''"
  obtain p account l1 pnl n where p: "preview_order fetch l req = Inr p"
    and account: "get_account l ?i = Some account"
    and l1: "(if ?buy then execute_buy now l ?i account p else execute_sell now l ?i account p) = Inr (l1, pnl)"
    and ins: "insert_trade (l1\<lparr>ld_next_id := ld_next_id l1 + 1\<rparr>)
      \<lparr>pt_id = n, pt_account_id = ?i, pt_symbol = ov_symbol p,
       pt_instrument_type = ov_instrument_type p, pt_side = or_side req,
       pt_order_type = or_order_type req, pt_quantity = ov_quantity p, pt_price = ov_price p,
       pt_total_amount = ov_gross p, pt_fee = ov_fee p, pt_currency = ov_currency p,
       pt_reason = or_reason req, pt_realized_pnl = pnl,
       pt_correlation_id = or_correlation_id req, pt_executed_at = now\<rparr> = Inr l'" (is "insert_trade ?l2 ?t = _")
    using assms(1) unfolding execute_order_def
    by (elim bindrE) (auto elim!: bindrE split: option.splits prod.splits)
  note preview = preview_order_ok [OF p]
  have ok: "preview_ok p" by (rule preview(1))
  have step: "moved l l1 ?i (ov_symbol p) (ov_currency p) (if ?buy then - ov_total_cost p else ov_total_cost p)
        (if ?buy then ov_quantity p else - ov_quantity p)" "ledger_ok l1" "ld_trades l1 = ld_trades l"
      "if ?buy then ov_total_cost p \<le> balance l ?i (ov_currency p) else ov_quantity p \<le> held l (?i, ov_symbol p)"
    using l1 execute_buy_effect [of now l ?i account p l1 pnl] execute_sell_effect [of now l ?i account p l1 pnl]
      ok assms(2) account by (auto split: if_splits)
  have ok2: "ledger_ok ?l2" using step(2) by (fastforce simp: ledger_ok_def get_account_def correlations_def)
  from insert_trade_effect [OF ins ok2] ok obtain t where
    t: "l' = ?l2\<lparr>ld_trades := ld_trades ?l2 @ [t]\<rparr>" "trade_flow t = trade_flow ?t" "trade_shares t = trade_shares ?t"
      "pt_account_id t = ?i" "pt_symbol t = ov_symbol p" "pt_currency t = ov_currency p" "pt_side t = or_side req"
      "or_side req \<in> {''buy'', ''sell''}" "ledger_ok l'" "trade_ok t" "pt_executed_at t = now"
    by (auto simp: preview_ok_def)
  have side: "py_lower (or_side req) = or_side req"
    using t(8) by (auto simp: py_lower_def lower_char_def)
  have same: "balance l' a c = balance l1 a c" "held l' k = held l1 k" for a c k
    by (simp_all add: t(1) balance_def get_account_def held_def)
  have flow: "trade_flow t = (if ?buy then - ov_total_cost p else ov_total_cost p)"
      "trade_shares t = (if ?buy then ov_quantity p else - ov_quantity p)"
    using ok preview(2) side t(2,3) by (simp_all add: trade_flow_def trade_shares_def preview_ok_def)
  have "moved l l' (pt_account_id t) (pt_symbol t) (pt_currency t) (trade_flow t) (trade_shares t)"
    using step(1) by (simp add: moved_def same flow t(4-6))
  moreover have "?buy \<Longrightarrow> 0 \<le> balance l' ?i (ov_currency p)" "\<not> ?buy \<Longrightarrow> 0 \<le> held l' (?i, ov_symbol p)"
    using step(1,4) preview_currency [OF ok] by (auto simp: moved_def same)
  ultimately show ?thesis
    using t step(3) preview_currency [OF ok] side by auto
qed

end
