(* ===== verification/Paper_Book.thy ===== *)
theory Paper_Book
  imports Paper_Ledger_Rules
begin

text \<open>
  Histories of the PAPER book: every state the account operations and orders can reach, and the
  properties that hold over whole histories.
\<close>

subsection \<open>Commands and reachable books\<close>

datatype ledger_command =
    Create string rat rat "string option" "string option"
  | Reset instant int
  | Delete int
  | Order instant order_request

text \<open>A failing call leaves the committed book as it was.\<close>

definition committed :: "ledger \<Rightarrow> (ledger \<times> 'a) result \<Rightarrow> ledger" where
  "committed l outcome = (case outcome of Inl _ \<Rightarrow> l | Inr (l', _) \<Rightarrow> l')"

fun apply_command :: "quote_source \<Rightarrow> ledger \<Rightarrow> ledger_command \<Rightarrow> ledger" where
  "apply_command fetch l (Create name krw usd description strategy) =
     committed l (create_account l name krw usd description strategy)"
| "apply_command fetch l (Reset now account_id) = committed l (reset_account now l account_id)"
| "apply_command fetch l (Delete account_id) = fst (delete_account l account_id)"
| "apply_command fetch l (Order now req) = committed l (execute_order fetch now l req)"

definition empty_ledger :: ledger where
  "empty_ledger = \<lparr>ld_accounts = [], ld_positions = [], ld_trades = [], ld_managed = [], ld_next_id = 1\<rparr>"

inductive reachable :: "quote_source \<Rightarrow> ledger \<Rightarrow> bool" for fetch where
  start: "reachable fetch empty_ledger"
| step: "reachable fetch l \<Longrightarrow> reachable fetch (apply_command fetch l c)"

definition run_orders :: "quote_source \<Rightarrow> ledger \<Rightarrow> (instant \<times> order_request) list \<Rightarrow> ledger" where
  "run_orders fetch l orders = foldl (\<lambda>l (now, req). apply_command fetch l (Order now req)) l orders"

lemma run_orders_simps [simp]:
  "run_orders fetch l [] = l"
  "run_orders fetch l ((now, req) # orders) = run_orders fetch (apply_command fetch l (Order now req)) orders"
  by (simp_all add: run_orders_def)

subsection \<open>The invariant\<close>

lemma map_of_filter_account:
  "map_of (filter (\<lambda>p. fst (fst p) \<noteq> i) xs) k = (if fst k = i then None else map_of xs k)"
  by (induction xs) auto

lemma create_account_ok:
  assumes "create_account l name krw usd description strategy = Inr (l', i)" and "ledger_ok l"
  shows "ledger_ok l'"
proof -
  obtain krw' usd' where cols: "numeric_column 20 4 krw = Inr krw'" "numeric_column 20 4 usd = Inr usd'"
    and l': "l' = l\<lparr>ld_accounts := AList.update (ld_next_id l)
        \<lparr>pa_name = name, pa_initial_capital = krw', pa_initial_capital_usd = usd', pa_cash_krw = krw',
         pa_cash_usd = usd', pa_description = description, pa_strategy_name = strategy, pa_is_active = True\<rparr>
        (ld_accounts l), ld_next_id := ld_next_id l + 1\<rparr>"
    using assms(1) unfolding create_account_def Let_def by (elim bindrE) (rule that, auto)
  show ?thesis
    using assms(2) numeric_column_Inr(1) [OF cols(1)] numeric_column_Inr(1) [OF cols(2)]
    by (fastforce simp: l' ledger_ok_def get_account_def correlations_def account_ok_def AList.update_conv'
        split: if_splits)
qed

lemma reset_account_ok:
  assumes "reset_account now l i = Inr (l', a)" and "ledger_ok l"
  shows "ledger_ok l'"
proof -
  obtain account where account: "get_account l i = Some account"
    and l': "l' = l\<lparr>ld_accounts := AList.update i (account\<lparr>pa_cash_krw := pa_initial_capital account,
        pa_cash_usd := pa_initial_capital_usd account\<rparr>) (ld_accounts l),
      ld_positions := filter (\<lambda>p. fst (fst p) \<noteq> i) (ld_positions l),
      ld_managed := close_cycles (\<lambda>c. mc_paper_account_id c = i) now (ld_managed l)\<rparr>"
    using assms(1) by (auto simp: reset_account_def account_not_found_def Let_def split: option.splits)
  have "account_ok account" "i < ld_next_id l" using assms(2) account by (auto simp: ledger_ok_def)
  moreover have "position_ok p" if "map_of (ld_positions l') k = Some p" for k p
    using ledger_ok_position [OF assms(2), of k p] that by (auto simp: l' map_of_filter_account split: if_splits)
  ultimately show ?thesis
    using assms(2) unfolding ledger_ok_def
    by (auto simp: l' get_account_def correlations_def account_ok_def AList.update_conv' split: if_splits)
qed

lemma delete_account_ok:
  assumes "ledger_ok l"
  shows "ledger_ok (fst (delete_account l i))"
proof (cases "get_account l i")
  case (Some a)
  let ?l = "fst (delete_account l i)"
  have "position_ok p" if "map_of (ld_positions ?l) k = Some p" for k p
    using ledger_ok_position [OF assms, of k p] that Some
    by (auto simp: delete_account_def map_of_filter_account split: if_splits)
  moreover have "correlations ?l = filter (\<lambda>k. fst k \<noteq> i) (correlations l)"
    using Some by (simp add: delete_account_def correlations_def filter_map comp_def conj_commute)
  ultimately show ?thesis
    using assms Some unfolding ledger_ok_def
    by (auto simp: delete_account_def get_account_def AList.delete_conv' split: if_splits)
qed (simp add: delete_account_def assms)

lemma apply_command_ok: "ledger_ok l \<Longrightarrow> ledger_ok (apply_command fetch l c)"
  using create_account_ok reset_account_ok delete_account_ok execute_order_effect
  by (cases c) (fastforce simp: committed_def split: sum.split prod.split)+

lemma empty_ledger_ok: "ledger_ok empty_ledger"
  by (simp add: empty_ledger_def ledger_ok_def get_account_def correlations_def)

lemma reachable_ok: "reachable fetch l \<Longrightarrow> ledger_ok l"
  by (induction rule: reachable.induct) (simp_all only: empty_ledger_ok apply_command_ok)

lemma order_effect:
  assumes "ledger_ok l"
  shows "apply_command fetch l (Order now req) = l
    \<or> (\<exists>t l'. apply_command fetch l (Order now req) = l' \<and> ld_trades l' = ld_trades l @ [t] \<and> ledger_ok l'
      \<and> trade_ok t \<and> pt_executed_at t = now \<and> moved l l' (pt_account_id t) (pt_symbol t) (pt_currency t) (trade_flow t) (trade_shares t)
      \<and> pt_currency t \<in> currencies \<and> pt_side t \<in> {''buy'', ''sell''}
      \<and> (pt_side t = ''buy'' \<longrightarrow> 0 \<le> balance l' (pt_account_id t) (pt_currency t))
      \<and> (pt_side t = ''sell'' \<longrightarrow> 0 \<le> held l' (pt_account_id t, pt_symbol t)))"
  using execute_order_effect [OF _ assms, of fetch now req]
  by (cases "execute_order fetch now l req") (auto simp: committed_def)

subsection \<open>Sums over trades\<close>

definition cash_flow :: "ledger_trade list \<Rightarrow> int \<Rightarrow> string \<Rightarrow> rat" where
  "cash_flow ts account_id currency =
     sum_list (map trade_flow (filter (\<lambda>t. pt_account_id t = account_id \<and> pt_currency t = currency) ts))"

definition share_flow :: "ledger_trade list \<Rightarrow> int \<times> string \<Rightarrow> rat" where
  "share_flow ts key = sum_list (map trade_shares (filter (\<lambda>t. (pt_account_id t, pt_symbol t) = key) ts))"

lemma run_orders_flow:
  assumes "ledger_ok l"
  shows "\<exists>new. ld_trades (run_orders fetch l orders) = ld_trades l @ new \<and> ledger_ok (run_orders fetch l orders)
    \<and> (\<forall>a c. c \<in> currencies \<longrightarrow> balance (run_orders fetch l orders) a c = balance l a c + cash_flow new a c)
    \<and> (\<forall>k. held (run_orders fetch l orders) k = held l k + share_flow new k)"
  using assms
proof (induction orders arbitrary: l)
  case Nil
  then show ?case by (simp add: cash_flow_def share_flow_def)
next
  case (Cons x os)
  obtain now req where x: "x = (now, req)" by (cases x)
  let ?l = "apply_command fetch l (Order now req)"
  from order_effect [OF Cons.prems, of fetch now req] consider "?l = l"
    | (traded) t where "ld_trades ?l = ld_trades l @ [t]" "ledger_ok ?l"
      "moved l ?l (pt_account_id t) (pt_symbol t) (pt_currency t) (trade_flow t) (trade_shares t)" by blast
  then show ?case
  proof cases
    case 1
    with Cons show ?thesis unfolding x run_orders_simps by simp
  next
    case traded
    from Cons.IH [OF traded(2)] obtain new where
      new: "ld_trades (run_orders fetch ?l os) = ld_trades ?l @ new" "ledger_ok (run_orders fetch ?l os)"
        "\<And>a c. c \<in> currencies \<Longrightarrow> balance (run_orders fetch ?l os) a c = balance ?l a c + cash_flow new a c"
        "\<And>k. held (run_orders fetch ?l os) k = held ?l k + share_flow new k" by blast
    show ?thesis unfolding x run_orders_simps
      by (rule exI [of _ "t # new"])
        (use new traded in \<open>auto simp: moved_def cash_flow_def share_flow_def\<close>)
  qed
qed

lemma run_orders_nonnegative:
  assumes "ledger_ok l" and "\<forall>a c. c \<in> currencies \<longrightarrow> 0 \<le> balance l a c"
    and "\<forall>t\<in>set (drop (length (ld_trades l)) (ld_trades (run_orders fetch l orders))).
           pt_side t = ''sell'' \<longrightarrow> pt_fee t \<le> pt_total_amount t"
  shows "\<forall>a c. c \<in> currencies \<longrightarrow> 0 \<le> balance (run_orders fetch l orders) a c"
  using assms
proof (induction orders arbitrary: l)
  case (Cons x os)
  obtain now req where x: "x = (now, req)" by (cases x)
  let ?l = "apply_command fetch l (Order now req)"
  from order_effect [OF Cons.prems(1), of fetch now req] consider "?l = l"
    | (traded) t where "ld_trades ?l = ld_trades l @ [t]" "ledger_ok ?l"
      "moved l ?l (pt_account_id t) (pt_symbol t) (pt_currency t) (trade_flow t) (trade_shares t)"
      "pt_side t \<in> {''buy'', ''sell''}" "pt_side t = ''buy'' \<longrightarrow> 0 \<le> balance ?l (pt_account_id t) (pt_currency t)"
    by blast
  then show ?case
  proof cases
    case 1
    with Cons show ?thesis unfolding x run_orders_simps by simp
  next
    case traded
    from run_orders_flow [OF traded(2), of fetch os] obtain new where
      new: "ld_trades (run_orders fetch ?l os) = ld_trades ?l @ new" by blast
    have sells: "\<forall>u\<in>set (t # new). pt_side u = ''sell'' \<longrightarrow> pt_fee u \<le> pt_total_amount u"
      using Cons.prems(3) new traded(1) unfolding x run_orders_simps by simp
    have "0 \<le> balance ?l a c" if "c \<in> currencies" for a c
    proof (cases "a = pt_account_id t \<and> c = pt_currency t \<and> pt_side t = ''buy''")
      case True
      with traded(5) show ?thesis by simp
    next
      case False
      have "balance ?l a c = balance l a c + (if a = pt_account_id t \<and> c = pt_currency t then trade_flow t else 0)"
        using traded(3) that unfolding moved_def by blast
      moreover have "0 \<le> balance l a c" using Cons.prems(2) that by blast
      ultimately show ?thesis using False traded(4) sells by (auto simp: trade_flow_def)
    qed
    with Cons.IH [OF traded(2)] sells new show ?thesis unfolding x run_orders_simps by simp
  qed
qed simp

lemma distinct_keys_unique:
  assumes "distinct (map f (filter P xs))" and "x \<in> set xs" and "P x" and "\<And>y. f y = f x \<Longrightarrow> P y"
  shows "length (filter (\<lambda>y. f y = f x) xs) = 1"
  using assms
proof (induction xs)
  case (Cons y ys)
  show ?case
  proof (cases "f y = f x")
    case True
    with Cons.prems have "filter (\<lambda>z. f z = f x) ys = []"
      by (auto simp: filter_empty_conv rev_image_eqI split: if_splits) (metis imageI mem_Collect_eq)
    with True show ?thesis by simp
  next
    case False
    with Cons show ?thesis by (auto split: if_splits)
  qed
qed simp

lemma replay_refused:
  assumes "t \<in> set (ld_trades l)" and "pt_correlation_id t \<noteq> None"
    and "or_account_id req = pt_account_id t" and "or_correlation_id req = pt_correlation_id t" and "ledger_ok l"
  shows "\<exists>e. execute_order fetch now l req = Inl e"
proof (cases "execute_order fetch now l req")
  case (Inr r)
  obtain l' x where r: "r = (l', x)" by (cases r)
  from execute_order_effect [OF Inr [unfolded r] assms(5)] obtain u where
    u: "ld_trades l' = ld_trades l @ [u]" "ledger_ok l'" by blast
  have "pt_account_id u = or_account_id req \<and> pt_correlation_id u = or_correlation_id req"
    using Inr u(1) unfolding r execute_order_def insert_trade_def
    by (auto elim!: bindrE simp: execute_buy_def execute_sell_def Let_def split: option.splits if_splits)
  then have "(pt_account_id u, pt_correlation_id u) = (pt_account_id t, pt_correlation_id t)" using assms(3,4) by simp
  with u assms(1,2) have "\<not> distinct (correlations l')" by (auto simp: correlations_def rev_image_eqI)
  with u(2) show ?thesis by (simp add: ledger_ok_def)
qed blast

subsection \<open>Examples\<close>

definition no_quotes :: quote_source where
  "no_quotes = (\<lambda>_ _. Inl (LookupError ''quote''))"

definition limit_order :: "string \<Rightarrow> string \<Rightarrow> rat \<Rightarrow> rat \<Rightarrow> string option \<Rightarrow> order_request" where
  "limit_order symbol side quantity price correlation =
     \<lparr>or_account_id = 1, or_symbol = symbol, or_side = side, or_order_type = ''limit'', or_quantity = Some quantity,
      or_price = Some price, or_amount = None, or_resolved_market_price = None, or_reason = ''example'',
      or_correlation_id = correlation\<rparr>"

definition funded_book :: ledger where
  "funded_book = apply_command no_quotes empty_ledger (Create ''main'' 1000000 11 None None)"

definition us_buy :: "instant \<times> order_request" where
  "us_buy = (0, limit_order ''AAPL'' ''buy'' 1 10 (Some ''A''))"

definition us_sell :: "instant \<times> order_request" where
  "us_sell = (1, limit_order ''AAPL'' ''sell'' 1 (1 / 2) None)"

lemma funded_book_eq:
  "funded_book = \<lparr>ld_accounts = [(1, \<lparr>pa_name = ''main'', pa_initial_capital = 1000000, pa_initial_capital_usd = 11,
      pa_cash_krw = 1000000, pa_cash_usd = 11, pa_description = None, pa_strategy_name = None, pa_is_active = True\<rparr>)],
      ld_positions = [], ld_trades = [], ld_managed = [], ld_next_id = 2\<rparr>"
  by (simp add: funded_book_def empty_ledger_def create_account_def committed_def numeric_column_exact places_def)

lemma example_texts:
  "resolve_market_type ''AAPL'' None = Inr (''equity_us'', ''AAPL'')"
  "resolve_market_type ''005930'' None = Inr (''equity_kr'', ''005930'')"
  "py_lower ''buy'' = ''buy''" "py_lower ''sell'' = ''sell''" "py_lower ''BUY'' = ''buy''" "py_lower ''limit'' = ''limit''"
  by code_simp+

lemma round_down_numeral [simp]: "round_down (numeral n) = numeral n" "round_down 1 = 1"
  using round_down_of_int [of "numeral n"] round_down_of_int [of 1] by simp_all

lemmas example_money = dec_ctx_exact quantize_exact numeric_column_exact places_def dmul_def dadd_def dsub_def ddiv_def
  quantize_money_def

lemma us_buy_preview:
  "preview_order no_quotes funded_book (snd us_buy) =
     Inr \<lparr>ov_symbol = ''AAPL'', ov_instrument_type = ''equity_us'', ov_side = ''buy'', ov_order_type = ''limit'',
          ov_quantity = 1, ov_price = 10, ov_gross = 10, ov_fee = 1, ov_total_cost = 11, ov_currency = ''USD''\<rparr>"
  by (simp add: preview_order_def us_buy_def limit_order_def example_texts get_account_def funded_book_eq
      order_fill_price_def priced_order_def order_quantity_def quantize_execution_quantity_def execution_quantity_lot_def
      calculate_fee_def position_currency_def example_money)

lemma funded_book_reachable: "reachable no_quotes funded_book"
  unfolding funded_book_def by (intro reachable.intros)

lemma run_orders_reachable: "reachable fetch l \<Longrightarrow> reachable fetch (run_orders fetch l orders)"
proof (induction orders arbitrary: l)
  case (Cons x orders)
  then show ?case by (cases x) (simp only: run_orders_simps reachable.step)
qed simp


definition bought_book :: ledger where
  "bought_book = funded_book\<lparr>
     ld_accounts := [(1, \<lparr>pa_name = ''main'', pa_initial_capital = 1000000, pa_initial_capital_usd = 11,
       pa_cash_krw = 1000000, pa_cash_usd = 0, pa_description = None, pa_strategy_name = None, pa_is_active = True\<rparr>)],
     ld_positions := [((1, ''AAPL''), \<lparr>pp_id = 2, pp_instrument_type = ''equity_us'', pp_quantity = 1,
       pp_avg_price = 10, pp_total_invested = 10\<rparr>)],
     ld_trades := [\<lparr>pt_id = 3, pt_account_id = 1, pt_symbol = ''AAPL'', pt_instrument_type = ''equity_us'', pt_side = ''buy'',
       pt_order_type = ''limit'', pt_quantity = 1, pt_price = 10, pt_total_amount = 10, pt_fee = 1, pt_currency = ''USD'',
       pt_reason = ''example'', pt_realized_pnl = None, pt_correlation_id = Some ''A'', pt_executed_at = 0\<rparr>],
     ld_next_id := 4\<rparr>"

lemma us_buy_run: "run_orders no_quotes funded_book [us_buy] = bought_book"
proof -
  have "execute_order no_quotes 0 funded_book (snd us_buy)
      = Inr (bought_book, \<lparr>ox_preview = \<lparr>ov_symbol = ''AAPL'', ov_instrument_type = ''equity_us'', ov_side = ''buy'',
          ov_order_type = ''limit'', ov_quantity = 1, ov_price = 10, ov_gross = 10, ov_fee = 1, ov_total_cost = 11,
          ov_currency = ''USD''\<rparr>, ox_realized_pnl = None, ox_executed_at = 0\<rparr>)"
    unfolding execute_order_def us_buy_preview
    by (simp add: us_buy_def limit_order_def example_texts get_account_def funded_book_eq bought_book_def
      execute_buy_def debit_cash_def bought_position_def stored_position_def insert_trade_def cash_def set_cash_def
      example_money)
  then show ?thesis by (simp add: us_buy_def committed_def)
qed

lemma us_sell_preview:
  "preview_order no_quotes bought_book (snd us_sell) =
     Inr \<lparr>ov_symbol = ''AAPL'', ov_instrument_type = ''equity_us'', ov_side = ''sell'', ov_order_type = ''limit'',
          ov_quantity = 1, ov_price = 1 / 2, ov_gross = 1 / 2, ov_fee = 1, ov_total_cost = - (1 / 2), ov_currency = ''USD''\<rparr>"
  by (simp add: preview_order_def us_sell_def limit_order_def example_texts get_account_def bought_book_def
      order_fill_price_def priced_order_def order_quantity_def quantize_execution_quantity_def execution_quantity_lot_def
      calculate_fee_def position_currency_def example_money)

lemma funded_book_balances: "\<forall>a c. c \<in> currencies \<longrightarrow> 0 \<le> balance funded_book a c"
  by (simp add: balance_def get_account_def cash_def funded_book_eq)

text \<open>
  The minimum fee is charged on sells too, and a sell is not checked against the balance: selling
  a small holding can leave a negative balance.
\<close>

lemma sell_can_overdraw: "balance (run_orders no_quotes funded_book [us_buy, us_sell]) 1 ''USD'' = - (1 / 2)"
proof -
  have "run_orders no_quotes funded_book [us_buy, us_sell] = run_orders no_quotes bought_book [us_sell]"
    using us_buy_run by (simp add: run_orders_def del: apply_command.simps)
  also have "\<dots> = committed bought_book (execute_order no_quotes 1 bought_book (snd us_sell))"
    by (simp add: us_sell_def)
  also have "balance \<dots> 1 ''USD'' = - (1 / 2)"
    unfolding execute_order_def us_sell_preview
    by (simp add: us_sell_def limit_order_def example_texts get_account_def funded_book_eq bought_book_def balance_def
      execute_sell_def credit_cash_def realized_pnl_of_def insert_trade_def cash_def set_cash_def committed_def
      example_money)
  finally show ?thesis .
qed

text \<open>A limit price is not checked: buying at a negative price is accepted and adds cash.\<close>

lemma negative_price_adds_cash:
  "balance (run_orders no_quotes funded_book [(0, limit_order ''AAPL'' ''buy'' 1 (- 10) None)]) 1 ''USD'' = 20"
  by (simp add: execute_order_def preview_order_def limit_order_def example_texts get_account_def funded_book_eq balance_def
      order_fill_price_def priced_order_def order_quantity_def quantize_execution_quantity_def execution_quantity_lot_def
      calculate_fee_def position_currency_def execute_buy_def debit_cash_def bought_position_def stored_position_def
      insert_trade_def cash_def set_cash_def committed_def example_money)

text \<open>
  The side is checked after lower-casing but stored as given, so an order the preview accepts in
  upper case is refused by the check constraint of the trade table.
\<close>

lemma upper_case_side_refused:
  assumes "or_side req \<notin> {''buy'', ''sell''}"
  shows "\<exists>e. execute_order fetch now l req = Inl e"
proof (cases "execute_order fetch now l req")
  case (Inr r)
  with assms show ?thesis
    unfolding execute_order_def insert_trade_def by (auto elim!: bindrE split: option.splits)
qed blast

subsection \<open>Properties\<close>

text \<open>
  C12: The book balances. From any reachable book, after any sequence of orders, accepted or not,
  the trade table has only grown, each balance of each account has changed by exactly the sum of
  the cash flows of the new trades of that account and currency (amount plus fee out for a buy,
  amount minus fee in for a sell), and each holding by exactly the sum of their quantities.
\<close>

theorem book_balances:
  assumes "reachable fetch l" and "final = run_orders fetch l orders"
  shows "\<exists>new. ld_trades final = ld_trades l @ new
    \<and> (\<forall>a. balance final a ''KRW'' = balance l a ''KRW'' + cash_flow new a ''KRW''
         \<and> balance final a ''USD'' = balance l a ''USD'' + cash_flow new a ''USD'')
    \<and> (\<forall>k. held final k = held l k + share_flow new k)"
  using run_orders_flow [OF reachable_ok [OF assms(1)], of fetch orders]
  unfolding assms(2) currencies_def by blast

theorem book_balances_witness:
  "\<exists>new. ld_trades (run_orders no_quotes funded_book [us_buy]) = ld_trades funded_book @ new
    \<and> balance (run_orders no_quotes funded_book [us_buy]) 1 ''USD'' = 11 + cash_flow new 1 ''USD''"
proof -
  have "balance funded_book 1 ''USD'' = 11" by (simp add: balance_def get_account_def funded_book_eq cash_def)
  with book_balances [OF funded_book_reachable refl, of "[us_buy]"] show ?thesis by force
qed

text \<open>
  C13: Balances do not become negative. From a reachable book whose balances are not negative, any
  sequence of orders in which the fee of every executed sell is covered by its amount leaves every
  balance nonnegative; positions always have a positive quantity.
\<close>

theorem orders_never_overdraw:
  assumes "reachable fetch l" and "final = run_orders fetch l orders"
    and "\<forall>a c. c \<in> currencies \<longrightarrow> 0 \<le> balance l a c"
    and "\<forall>t\<in>set (drop (length (ld_trades l)) (ld_trades final)). pt_side t = ''sell'' \<longrightarrow> pt_fee t \<le> pt_total_amount t"
  shows "(\<forall>a. 0 \<le> balance final a ''KRW'' \<and> 0 \<le> balance final a ''USD'')
    \<and> (\<forall>k p. map_of (ld_positions final) k = Some p \<longrightarrow> 0 < pp_quantity p)"
proof -
  note ok = reachable_ok [OF assms(1)]
  have "position_ok p" if "map_of (ld_positions final) k = Some p" for k p
    using ledger_ok_position [OF reachable_ok [OF run_orders_reachable [OF assms(1)]]] that assms(2) by blast
  moreover have "0 \<le> balance final a c" if "c \<in> currencies" for a c
    using run_orders_nonnegative [OF ok assms(3)] assms(2,4) that by blast
  ultimately show ?thesis by (auto simp: currencies_def position_ok_def)
qed

theorem orders_never_overdraw_witness:
  "0 \<le> balance (run_orders no_quotes funded_book [us_buy]) 1 ''USD''"
proof -
  have "\<forall>t\<in>set (drop (length (ld_trades funded_book)) (ld_trades (run_orders no_quotes funded_book [us_buy]))).
      pt_side t = ''sell'' \<longrightarrow> pt_fee t \<le> pt_total_amount t"
    unfolding us_buy_run by (simp add: bought_book_def funded_book_eq)
  from orders_never_overdraw [OF funded_book_reachable refl funded_book_balances this] show ?thesis by blast
qed

text \<open>
  C14: An order is executed at most once per correlation. In every reachable book no two trades of
  an account share a correlation, and an order that repeats the correlation of a recorded trade of
  its account raises and changes nothing.
\<close>

theorem correlation_executed_once:
  assumes "reachable fetch l" and "t \<in> set (ld_trades l)" and "pt_correlation_id t \<noteq> None"
    and "or_account_id req = pt_account_id t" and "or_correlation_id req = pt_correlation_id t"
  shows "(\<exists>e. execute_order fetch now l req = Inl e) \<and> apply_command fetch l (Order now req) = l
    \<and> length (filter (\<lambda>u. (pt_account_id u, pt_correlation_id u) = (pt_account_id t, pt_correlation_id t)) (ld_trades l)) = 1"
proof -
  note ok = reachable_ok [OF assms(1)]
  obtain e where e: "execute_order fetch now l req = Inl e" using replay_refused [OF assms(2-5) ok] by blast
  from distinct_keys_unique [of "\<lambda>t. (pt_account_id t, pt_correlation_id t)" "\<lambda>t. pt_correlation_id t \<noteq> None" "ld_trades l" t]
  have "length (filter (\<lambda>u. (pt_account_id u, pt_correlation_id u) = (pt_account_id t, pt_correlation_id t)) (ld_trades l)) = 1"
    using ok assms(2,3) by (auto simp: ledger_ok_def correlations_def)
  with e show ?thesis by (simp add: committed_def)
qed

theorem correlation_executed_once_witness:
  "\<exists>e. execute_order no_quotes 5 (run_orders no_quotes funded_book [us_buy]) (snd us_buy) = Inl e"
proof -
  let ?l = "run_orders no_quotes funded_book [us_buy]"
  obtain t where "t \<in> set (ld_trades ?l)" "pt_correlation_id t = Some ''A''" "pt_account_id t = 1"
    unfolding us_buy_run by (simp add: bought_book_def)
  with correlation_executed_once [OF run_orders_reachable [OF funded_book_reachable], of t "[us_buy]" "snd us_buy"]
  show ?thesis by (auto simp: us_buy_def limit_order_def)
qed

end
