(* ===== verification/Paper_Portfolio.thy ===== *)
theory Paper_Portfolio
  imports Paper_Book IsoFormat
begin

text \<open>
  Reporting on the PAPER book, the query half of \<open>app/services/paper_trading_service.py\<close>: valued
  positions, totals per currency, daily snapshots and round trips. Binary floating-point copies
  of the figures and the statistics computed from them are left out.
\<close>

subsection \<open>Valued positions\<close>

record valued_position =
  vp_symbol :: string
  vp_instrument_type :: string
  vp_currency :: string
  vp_quantity :: rat
  vp_avg_price :: rat
  vp_total_invested :: rat
  vp_current_price :: "rat option"
  vp_evaluation_amount :: "rat option"
  vp_unrealized_pnl :: "rat option"
  vp_pnl_pct :: "rat option"
  vp_quote_source :: "string option"
  vp_quote_as_of :: "instant option"
  vp_quote_session :: "string option"
  vp_quote_is_stale :: "bool option"
  vp_valuation_error :: "string option"

definition unvalued_position :: "string \<Rightarrow> paper_position \<Rightarrow> valued_position" where
  "unvalued_position symbol p =
     \<lparr>vp_symbol = symbol, vp_instrument_type = pp_instrument_type p,
      vp_currency = position_currency (pp_instrument_type p), vp_quantity = pp_quantity p,
      vp_avg_price = pp_avg_price p, vp_total_invested = pp_total_invested p, vp_current_price = None,
      vp_evaluation_amount = None, vp_unrealized_pnl = None, vp_pnl_pct = None, vp_quote_source = None,
      vp_quote_as_of = None, vp_quote_session = None, vp_quote_is_stale = None, vp_valuation_error = None\<rparr>"

definition value_position :: "quote_source \<Rightarrow> instant \<Rightarrow> string \<Rightarrow> paper_position \<Rightarrow> valued_position result" where
  "value_position fetch observed_at symbol p =
     (let item = unvalued_position symbol p
      in case fetch symbol (pp_instrument_type p) of
           Inl _ \<Rightarrow> Inr (item\<lparr>vp_valuation_error := Some ''QUOTE_UNAVAILABLE''\<rparr>)
         | Inr quote \<Rightarrow>
             let item = item\<lparr>vp_quote_source := Some (pq_source quote), vp_quote_as_of := pq_as_of quote,
                             vp_quote_session := pq_session quote,
                             vp_quote_is_stale := quote_is_stale quote observed_at\<rparr>
             in case finite_value (pq_price quote) of
                  None \<Rightarrow> Inr (item\<lparr>vp_valuation_error := Some ''QUOTE_INVALID''\<rparr>)
                | Some price \<Rightarrow>
                    if price \<le> 0 then Inr (item\<lparr>vp_valuation_error := Some ''QUOTE_INVALID''\<rparr>)
                    else bindr (bindr (dmul price (pp_quantity p)) quantize_money) (\<lambda>eval_amt.
                         let item = item\<lparr>vp_current_price := Some price, vp_evaluation_amount := Some eval_amt\<rparr>
                         in if 0 < pp_total_invested p
                            then bindr (bindr (dsub eval_amt (pp_total_invested p)) quantize_money) (\<lambda>unrealized.
                                 bindr (ddiv eval_amt (pp_total_invested p)) (\<lambda>ratio.
                                 bindr (dsub ratio 1) (\<lambda>gain.
                                 bindr (bindr (dmul gain 100) quantize_pct) (\<lambda>pnl_pct.
                                 Inr (item\<lparr>vp_unrealized_pnl := Some unrealized, vp_pnl_pct := Some pnl_pct\<rparr>)))))
                            else Inr (item\<lparr>vp_valuation_error := Some ''COST_BASIS_UNAVAILABLE''\<rparr>)))"

definition account_positions :: "ledger \<Rightarrow> int \<Rightarrow> string option \<Rightarrow> (string \<times> paper_position) list" where
  "account_positions l account_id market =
     map (\<lambda>((_, symbol), p). (symbol, p))
       (filter (\<lambda>((owner, _), p). owner = account_id
                  \<and> (case market of None \<Rightarrow> True | Some m \<Rightarrow> pp_instrument_type p = m)) (ld_positions l))"

definition get_positions ::
    "quote_source \<Rightarrow> instant \<Rightarrow> ledger \<Rightarrow> int \<Rightarrow> string option \<Rightarrow> valued_position list result" where
  "get_positions fetch observed_at l account_id market =
     mapr (\<lambda>(symbol, p). value_position fetch observed_at symbol p) (account_positions l account_id market)"

definition get_position :: "quote_source \<Rightarrow> instant \<Rightarrow> ledger \<Rightarrow> int \<Rightarrow> string \<Rightarrow> valued_position option result" where
  "get_position fetch observed_at l account_id symbol =
     bindr (resolve_market_type symbol None) (\<lambda>(_, resolved).
     case map_of (ld_positions l) (account_id, resolved) of
       None \<Rightarrow> Inr None
     | Some _ \<Rightarrow>
         bindr (get_positions fetch observed_at l account_id None) (\<lambda>items.
         Inr (find (\<lambda>item. vp_symbol item = resolved) items)))"

definition get_cash_balance :: "ledger \<Rightarrow> int \<Rightarrow> (rat \<times> rat) result" where
  "get_cash_balance l account_id =
     (case get_account l account_id of
        None \<Rightarrow> account_not_found
      | Some account \<Rightarrow> Inr (pa_cash_krw account, pa_cash_usd account))"

subsection \<open>Totals per currency\<close>

record currency_valuation =
  cu_positions_count :: int
  cu_positions_valued :: int
  cu_positions_value :: rat
  cu_total_invested :: rat
  cu_unrealized_pnl :: rat

definition no_valuation :: currency_valuation where
  "no_valuation = \<lparr>cu_positions_count = 0, cu_positions_valued = 0, cu_positions_value = 0,
                   cu_total_invested = 0, cu_unrealized_pnl = 0\<rparr>"

definition valuation_complete :: "currency_valuation \<Rightarrow> bool" where
  "valuation_complete v \<longleftrightarrow> cu_positions_valued v = cu_positions_count v"

text \<open>The currency of a row, with the fallback for an empty one.\<close>

definition row_currency :: "valued_position \<Rightarrow> string" where
  "row_currency row =
     (if vp_currency row \<noteq> [] then vp_currency row else position_currency (vp_instrument_type row))"

definition add_to_bucket :: "currency_valuation \<Rightarrow> valued_position \<Rightarrow> currency_valuation result" where
  "add_to_bucket b row =
     bindr (dadd (cu_total_invested b) (vp_total_invested row)) (\<lambda>invested.
     let b = b\<lparr>cu_positions_count := cu_positions_count b + 1, cu_total_invested := invested\<rparr>
     in case (vp_evaluation_amount row, vp_unrealized_pnl row) of
          (Some evaluation, Some unrealized) \<Rightarrow>
            bindr (dadd (cu_positions_value b) evaluation) (\<lambda>value.
            bindr (dadd (cu_unrealized_pnl b) unrealized) (\<lambda>pnl.
            Inr (b\<lparr>cu_positions_valued := cu_positions_valued b + 1, cu_positions_value := value,
                   cu_unrealized_pnl := pnl\<rparr>)))
        | _ \<Rightarrow> Inr b)"

definition bucket_of :: "(string \<times> currency_valuation) list \<Rightarrow> string \<Rightarrow> currency_valuation" where
  "bucket_of buckets currency = (case map_of buckets currency of None \<Rightarrow> no_valuation | Some b \<Rightarrow> b)"

fun fill_buckets ::
    "(string \<times> currency_valuation) list \<Rightarrow> valued_position list \<Rightarrow> (string \<times> currency_valuation) list result" where
  "fill_buckets buckets [] = Inr buckets"
| "fill_buckets buckets (row # rows) =
     bindr (add_to_bucket (bucket_of buckets (row_currency row)) row) (\<lambda>b.
     fill_buckets (AList.update (row_currency row) b buckets) rows)"

definition evaluate_positions_by_currency :: "valued_position list \<Rightarrow> (string \<times> currency_valuation) list result" where
  "evaluate_positions_by_currency rows = fill_buckets [] rows"

record currency_summary =
  cs_currency :: string
  cs_positions_count :: int
  cs_positions_valued :: int
  cs_valuation_complete :: bool
  cs_total_invested :: rat
  cs_total_evaluated :: "rat option"
  cs_total_pnl :: "rat option"
  cs_total_pnl_pct :: "rat option"

definition summary_metrics :: "string \<Rightarrow> currency_valuation \<Rightarrow> currency_summary result" where
  "summary_metrics currency v =
     (let complete = valuation_complete v
      in bindr (if complete \<and> 0 < cu_total_invested v
                then bindr (ddiv (cu_positions_value v) (cu_total_invested v)) (\<lambda>ratio.
                     bindr (dsub ratio 1) (\<lambda>gain.
                     bindr (bindr (dmul gain 100) quantize_pct) (\<lambda>pct. Inr (Some pct))))
                else Inr None) (\<lambda>pct.
         Inr \<lparr>cs_currency = currency, cs_positions_count = cu_positions_count v,
              cs_positions_valued = cu_positions_valued v, cs_valuation_complete = complete,
              cs_total_invested = cu_total_invested v,
              cs_total_evaluated = (if complete then Some (cu_positions_value v) else None),
              cs_total_pnl = (if complete then Some (cu_unrealized_pnl v) else None), cs_total_pnl_pct = pct\<rparr>))"

definition reported_currencies :: "string list" where
  "reported_currencies = [''KRW'', ''USD'']"

definition unsupported_currency_evidence ::
    "(string \<times> currency_valuation) list \<Rightarrow> (string \<times> int) list \<Rightarrow> (string \<times> int option \<times> int option) list" where
  "unsupported_currency_evidence valuations trade_counts =
     (let held = filter (\<lambda>v. fst v \<notin> set reported_currencies) valuations;
          traded = filter (\<lambda>t. fst t \<notin> set reported_currencies) trade_counts
      in map (\<lambda>(c, v). (c, Some (cu_positions_count v), map_of traded c)) held
         @ map (\<lambda>(c, n). (c, None, Some n)) (filter (\<lambda>t. fst t \<notin> fst ` set held) traded))"

record portfolio_summary =
  sm_account_name :: string
  sm_cash_krw :: rat
  sm_cash_usd :: rat
  sm_positions_count :: int
  sm_currencies :: "(string \<times> currency_summary) list"
  sm_unsupported_currencies :: "(string \<times> int option \<times> int option) list"

definition get_portfolio_summary :: "quote_source \<Rightarrow> instant \<Rightarrow> ledger \<Rightarrow> int \<Rightarrow> portfolio_summary result" where
  "get_portfolio_summary fetch observed_at l account_id =
     (case get_account l account_id of
        None \<Rightarrow> account_not_found
      | Some account \<Rightarrow>
          bindr (get_positions fetch observed_at l account_id None) (\<lambda>positions.
          bindr (evaluate_positions_by_currency positions) (\<lambda>valuations.
          bindr (mapr (\<lambda>c. bindr (summary_metrics c (bucket_of valuations c)) (\<lambda>m. Inr (c, m))) reported_currencies)
            (\<lambda>metrics.
          Inr \<lparr>sm_account_name = pa_name account, sm_cash_krw = pa_cash_krw account, sm_cash_usd = pa_cash_usd account,
               sm_positions_count = int (length positions), sm_currencies = metrics,
               sm_unsupported_currencies = unsupported_currency_evidence valuations []\<rparr>))))"

subsection \<open>Daily snapshots\<close>

record daily_snapshot =
  ds_cash_krw :: rat
  ds_cash_usd :: rat
  ds_equity_krw :: "rat option"
  ds_equity_usd :: "rat option"
  ds_daily_return_krw_pct :: "rat option"
  ds_daily_return_usd_pct :: "rat option"
  ds_valuation_complete_krw :: "bool option"
  ds_valuation_complete_usd :: "bool option"

type_synonym snapshot_table = "((int \<times> date_ordinal) \<times> daily_snapshot) list"

definition by_currency :: "'a option \<Rightarrow> 'a option \<Rightarrow> string \<Rightarrow> 'a option" where
  "by_currency krw usd currency =
     (if currency = ''KRW'' then krw else if currency = ''USD'' then usd else None)"

definition snapshot_equity :: "daily_snapshot \<Rightarrow> string \<Rightarrow> rat option" where
  "snapshot_equity s currency = by_currency (ds_equity_krw s) (ds_equity_usd s) currency"

definition snapshot_is_currency_safe :: "daily_snapshot \<Rightarrow> string \<Rightarrow> bool" where
  "snapshot_is_currency_safe s currency \<longleftrightarrow>
     by_currency (ds_valuation_complete_krw s) (ds_valuation_complete_usd s) currency = Some True
     \<and> snapshot_equity s currency \<noteq> None"

definition currency_daily_return_pct ::
    "string \<Rightarrow> daily_snapshot option \<Rightarrow> rat \<Rightarrow> bool \<Rightarrow> rat option result" where
  "currency_daily_return_pct currency prior equity fully_valued =
     (case prior of
        None \<Rightarrow> Inr None
      | Some p \<Rightarrow>
          if \<not> fully_valued \<or> \<not> snapshot_is_currency_safe p currency then Inr None
          else case snapshot_equity p currency of
                 None \<Rightarrow> Inr None
               | Some prior_equity \<Rightarrow>
                   if prior_equity \<le> 0 then Inr None
                   else bindr (ddiv equity prior_equity) (\<lambda>ratio.
                        bindr (dsub ratio 1) (\<lambda>gain.
                        bindr (bindr (dmul gain 100) quantize_pct) (\<lambda>pct. Inr (Some pct)))))"

text \<open>The date in Korea.\<close>

definition kst_date :: "instant \<Rightarrow> date_ordinal" where
  "kst_date t = utc_date (t + 9 * 3600 * 1000000)"

text \<open>The newest earlier row that has an equity in KRW.\<close>

definition prior_snapshot :: "snapshot_table \<Rightarrow> int \<Rightarrow> date_ordinal \<Rightarrow> daily_snapshot option" where
  "prior_snapshot snapshots account_id today =
     (let rows = filter (\<lambda>((owner, day), s). owner = account_id \<and> day < today \<and> ds_equity_krw s \<noteq> None) snapshots
      in case rev (sort_key (\<lambda>((_, day), _). day) rows) of [] \<Rightarrow> None | (_, s) # _ \<Rightarrow> Some s)"

definition optional_column :: "nat \<Rightarrow> nat \<Rightarrow> rat option \<Rightarrow> rat option result" where
  "optional_column p s v = (case v of None \<Rightarrow> Inr None | Some q \<Rightarrow> bindr (numeric_column p s q) (\<lambda>q. Inr (Some q)))"

definition record_daily_snapshot ::
    "quote_source \<Rightarrow> instant \<Rightarrow> ledger \<Rightarrow> snapshot_table \<Rightarrow> int \<Rightarrow> (snapshot_table \<times> daily_snapshot) result" where
  "record_daily_snapshot fetch now l snapshots account_id =
     (case get_account l account_id of
        None \<Rightarrow> account_not_found
      | Some account \<Rightarrow>
          let today = kst_date now
          in bindr (get_positions fetch now l account_id None) (\<lambda>positions.
             bindr (evaluate_positions_by_currency positions) (\<lambda>valuations.
             let krw = bucket_of valuations ''KRW''; usd = bucket_of valuations ''USD'';
                 prior = prior_snapshot snapshots account_id today
             in bindr (bindr (dadd (pa_cash_krw account) (cu_positions_value krw)) quantize_money) (\<lambda>equity_krw.
                bindr (bindr (dadd (pa_cash_usd account) (cu_positions_value usd)) quantize_money) (\<lambda>equity_usd.
                bindr (currency_daily_return_pct ''KRW'' prior equity_krw (valuation_complete krw)) (\<lambda>return_krw.
                bindr (currency_daily_return_pct ''USD'' prior equity_usd (valuation_complete usd)) (\<lambda>return_usd.
                bindr (numeric_column 20 4 equity_krw) (\<lambda>equity_krw.
                bindr (numeric_column 20 4 equity_usd) (\<lambda>equity_usd.
                bindr (optional_column 10 4 return_krw) (\<lambda>return_krw.
                bindr (optional_column 10 4 return_usd) (\<lambda>return_usd.
                let row = \<lparr>ds_cash_krw = pa_cash_krw account, ds_cash_usd = pa_cash_usd account,
                           ds_equity_krw = Some equity_krw, ds_equity_usd = Some equity_usd,
                           ds_daily_return_krw_pct = return_krw, ds_daily_return_usd_pct = return_usd,
                           ds_valuation_complete_krw = Some (valuation_complete krw),
                           ds_valuation_complete_usd = Some (valuation_complete usd)\<rparr>
                in Inr (AList.update (account_id, today) row snapshots, row))))))))))))"

definition calculate_daily_returns ::
    "snapshot_table \<Rightarrow> int \<Rightarrow> date_ordinal option \<Rightarrow> date_ordinal option
      \<Rightarrow> (string \<times> (string \<times> rat option \<times> rat option \<times> bool) list) list" where
  "calculate_daily_returns snapshots account_id start_date end_date =
     (let rows = filter (\<lambda>((owner, day), _). owner = account_id
            \<and> (case start_date of None \<Rightarrow> True | Some d \<Rightarrow> d \<le> day)
            \<and> (case end_date of None \<Rightarrow> True | Some d \<Rightarrow> day \<le> d)) snapshots
      in map (\<lambda>((_, day), s). (iso_date day,
               map (\<lambda>c. (c, snapshot_equity s c, by_currency (ds_daily_return_krw_pct s) (ds_daily_return_usd_pct s) c,
                        snapshot_is_currency_safe s c)) reported_currencies))
           (sort_key (\<lambda>((_, day), _). day) rows))"

end
