(* ===== verification/Paper_Trips.thy ===== *)
theory Paper_Trips
  imports Paper_Portfolio
begin

text \<open>
  Round trips: \<open>_build_round_trips\<close> and its helpers in \<open>app/services/paper_trading_service.py\<close>,
  which group the trades of a symbol into entries and the exits that realize them.
\<close>

subsection \<open>Rows\<close>

record round_trip =
  rt_symbol :: string
  rt_instrument_type :: string
  rt_currency :: string
  rt_entry_date :: instant
  rt_exit_date :: instant
  rt_holding_days :: int
  rt_quantity :: rat
  rt_cost_basis :: rat
  rt_pnl_amount :: rat
  rt_return_rate_pct :: rat
  rt_entry_reason :: string
  rt_exit_reason :: string

definition round_trip_row ::
    "string \<Rightarrow> string \<Rightarrow> instant \<Rightarrow> instant \<Rightarrow> rat \<Rightarrow> rat \<Rightarrow> rat \<Rightarrow> string \<Rightarrow> string \<Rightarrow> round_trip result" where
  "round_trip_row symbol instrument_type entry_date exit_date quantity cost_basis pnl entry_reason exit_reason =
     (let holding_days = kst_date exit_date - kst_date entry_date
      in bindr (if 0 < cost_basis
                then bindr (ddiv pnl cost_basis) (\<lambda>ratio. bindr (dmul ratio 100) quantize_pct)
                else Inr 0) (\<lambda>return_rate.
         bindr (quantize_money cost_basis) (\<lambda>cost.
         bindr (quantize_money pnl) (\<lambda>pnl_amount.
         Inr \<lparr>rt_symbol = symbol, rt_instrument_type = instrument_type,
              rt_currency = position_currency instrument_type, rt_entry_date = entry_date,
              rt_exit_date = exit_date, rt_holding_days = max holding_days 0, rt_quantity = quantity,
              rt_cost_basis = cost, rt_pnl_amount = pnl_amount, rt_return_rate_pct = return_rate,
              rt_entry_reason = entry_reason, rt_exit_reason = exit_reason\<rparr>))))"

subsection \<open>The loop over the trades of a symbol\<close>

record trip_state =
  ts_position_qty :: rat
  ts_buy_cost :: rat
  ts_buy_quantity :: rat
  ts_buy_fee :: rat
  ts_sold_quantity :: rat
  ts_realized_sum :: rat
  ts_total_pnl :: rat
  ts_entry_date :: "instant option"
  ts_entry_reason :: string
  ts_last_exit_date :: "instant option"
  ts_last_sell_reason :: string

definition fresh_trip :: trip_state where
  "fresh_trip = \<lparr>ts_position_qty = 0, ts_buy_cost = 0, ts_buy_quantity = 0, ts_buy_fee = 0, ts_sold_quantity = 0,
     ts_realized_sum = 0, ts_total_pnl = 0, ts_entry_date = None, ts_entry_reason = [], ts_last_exit_date = None,
     ts_last_sell_reason = []\<rparr>"

definition realized_of :: "ledger_trade \<Rightarrow> rat" where
  "realized_of t = (case pt_realized_pnl t of None \<Rightarrow> 0 | Some q \<Rightarrow> q)"

text \<open>A buy: a position that was flat starts a new trip.\<close>

definition trip_buy :: "trip_state \<Rightarrow> ledger_trade \<Rightarrow> trip_state result" where
  "trip_buy s t =
     (let s = (if ts_position_qty s \<le> 0
               then s\<lparr>ts_entry_date := Some (pt_executed_at t), ts_entry_reason := pt_reason t, ts_buy_cost := 0,
                      ts_buy_quantity := 0, ts_buy_fee := 0, ts_sold_quantity := 0, ts_realized_sum := 0,
                      ts_total_pnl := 0\<rparr>
               else s)
      in bindr (dadd (ts_position_qty s) (pt_quantity t)) (\<lambda>position_qty.
         bindr (dadd (ts_buy_quantity s) (pt_quantity t)) (\<lambda>buy_quantity.
         bindr (dmul (pt_quantity t) (pt_price t)) (\<lambda>amount.
         bindr (dadd amount (pt_fee t)) (\<lambda>cost.
         bindr (dadd (ts_buy_cost s) cost) (\<lambda>buy_cost.
         bindr (dadd (ts_buy_fee s) (pt_fee t)) (\<lambda>buy_fee.
         bindr (dsub (ts_total_pnl s) (pt_fee t)) (\<lambda>total_pnl.
         Inr (s\<lparr>ts_position_qty := position_qty, ts_buy_quantity := buy_quantity, ts_buy_cost := buy_cost,
                ts_buy_fee := buy_fee, ts_total_pnl := total_pnl\<rparr>)))))))))"

definition trip_sell :: "trip_state \<Rightarrow> ledger_trade \<Rightarrow> trip_state result" where
  "trip_sell s t =
     bindr (dsub (ts_position_qty s) (pt_quantity t)) (\<lambda>position_qty.
     bindr (dadd (ts_sold_quantity s) (pt_quantity t)) (\<lambda>sold_quantity.
     bindr (dadd (ts_realized_sum s) (realized_of t)) (\<lambda>realized_sum.
     bindr (dadd (ts_total_pnl s) (realized_of t)) (\<lambda>total_pnl.
     Inr (s\<lparr>ts_position_qty := position_qty, ts_sold_quantity := sold_quantity, ts_realized_sum := realized_sum,
            ts_total_pnl := total_pnl, ts_last_exit_date := Some (pt_executed_at t),
            ts_last_sell_reason := pt_reason t\<rparr>)))))"

text \<open>The row of a trip that went flat, if it has an entry.\<close>

definition closed_row :: "string \<Rightarrow> string \<Rightarrow> trip_state \<Rightarrow> round_trip option result" where
  "closed_row symbol instrument_type s =
     (case (ts_entry_date s, ts_last_exit_date s) of
        (Some entry_date, Some exit_date) \<Rightarrow>
          if ts_position_qty s \<le> 0
          then bindr (round_trip_row symbol instrument_type entry_date exit_date (ts_buy_quantity s) (ts_buy_cost s)
                        (ts_total_pnl s) (ts_entry_reason s) (ts_last_sell_reason s)) (\<lambda>row. Inr (Some row))
          else Inr None
      | _ \<Rightarrow> Inr None)"

text \<open>The row of a trip that is still open after partial sells.\<close>

definition open_row :: "string \<Rightarrow> string \<Rightarrow> trip_state \<Rightarrow> round_trip option result" where
  "open_row symbol instrument_type s =
     (case (ts_entry_date s, ts_last_exit_date s) of
        (Some entry_date, Some exit_date) \<Rightarrow>
          if 0 < ts_position_qty s \<and> 0 < ts_sold_quantity s \<and> 0 < ts_buy_quantity s
          then bindr (ddiv (ts_sold_quantity s) (ts_buy_quantity s)) (\<lambda>share.
               let sold_share = min share 1
               in bindr (dmul (ts_buy_cost s) sold_share) (\<lambda>cost_basis.
                  bindr (dmul (ts_buy_fee s) sold_share) (\<lambda>fee.
                  bindr (dsub (ts_realized_sum s) fee) (\<lambda>pnl.
                  bindr (round_trip_row symbol instrument_type entry_date exit_date (ts_sold_quantity s) cost_basis pnl
                           (ts_entry_reason s) (ts_last_sell_reason s)) (\<lambda>row. Inr (Some row))))))
          else Inr None
      | _ \<Rightarrow> Inr None)"

fun trips_loop :: "string \<Rightarrow> string \<Rightarrow> trip_state \<Rightarrow> ledger_trade list \<Rightarrow> (round_trip list \<times> trip_state) result" where
  "trips_loop symbol instrument_type s [] = Inr ([], s)"
| "trips_loop symbol instrument_type s (t # ts) =
     (if pt_side t = ''buy'' then bindr (trip_buy s t) (\<lambda>s. trips_loop symbol instrument_type s ts)
      else if pt_side t = ''sell'' \<and> 0 < ts_position_qty s
      then bindr (trip_sell s t) (\<lambda>s.
           bindr (closed_row symbol instrument_type s) (\<lambda>row.
           case row of
             None \<Rightarrow> trips_loop symbol instrument_type s ts
           | Some row \<Rightarrow>
               bindr (trips_loop symbol instrument_type fresh_trip ts) (\<lambda>(rows, s). Inr (row # rows, s))))
      else trips_loop symbol instrument_type s ts)"

definition symbol_trips :: "string \<Rightarrow> ledger_trade list \<Rightarrow> round_trip list result" where
  "symbol_trips symbol trades =
     (let own = filter (\<lambda>t. pt_symbol t = symbol) trades;
          instrument_type = pt_instrument_type (hd (sort_key pt_executed_at own))
      in bindr (trips_loop symbol instrument_type fresh_trip (sort_key pt_executed_at own)) (\<lambda>(rows, s).
         bindr (open_row symbol instrument_type s) (\<lambda>row.
         Inr (rows @ (case row of None \<Rightarrow> [] | Some r \<Rightarrow> [r])))))"

subsection \<open>All symbols\<close>

text \<open>Symbols in the order of their first trade.\<close>

definition traded_symbols :: "ledger_trade list \<Rightarrow> string list" where
  "traded_symbols trades = rev (remdups (rev (map pt_symbol trades)))"

text \<open>Sorting by exit date, then by symbol: the order of Python tuples.\<close>

fun string_le :: "string \<Rightarrow> string \<Rightarrow> bool" where
  "string_le [] _ = True"
| "string_le (_ # _) [] = False"
| "string_le (a # s) (b # t) \<longleftrightarrow>
     (of_char a :: nat) < of_char b \<or> ((of_char a :: nat) = of_char b \<and> string_le s t)"

definition trip_le :: "round_trip \<Rightarrow> round_trip \<Rightarrow> bool" where
  "trip_le a b \<longleftrightarrow> rt_exit_date a < rt_exit_date b
     \<or> rt_exit_date a = rt_exit_date b \<and> string_le (rt_symbol a) (rt_symbol b)"

fun insert_trip :: "round_trip \<Rightarrow> round_trip list \<Rightarrow> round_trip list" where
  "insert_trip a [] = [a]"
| "insert_trip a (b # bs) = (if trip_le a b then a # b # bs else b # insert_trip a bs)"

definition sort_trips :: "round_trip list \<Rightarrow> round_trip list" where
  "sort_trips trips = foldr insert_trip trips []"

definition build_round_trips :: "ledger_trade list \<Rightarrow> round_trip list result" where
  "build_round_trips trades =
     bindr (mapr (\<lambda>symbol. symbol_trips symbol trades) (traded_symbols trades)) (\<lambda>trips.
     Inr (sort_trips (concat trips)))"

record trip_totals =
  tt_currency :: string
  tt_trade_count :: int
  tt_win_count :: int
  tt_realized_pnl :: rat
  tt_cost_basis :: rat
  tt_return_rate :: rat

definition currency_totals :: "round_trip list \<Rightarrow> string \<Rightarrow> trip_totals result" where
  "currency_totals trips currency =
     (let own = filter (\<lambda>r. rt_currency r = currency) trips
      in bindr (dsum 0 (map rt_pnl_amount own)) (\<lambda>pnl.
         bindr (dsum 0 (map rt_cost_basis own)) (\<lambda>cost.
         bindr (quantize_money cost) (\<lambda>cost.
         bindr (quantize_money pnl) (\<lambda>pnl.
         bindr (if 0 < cost then bindr (ddiv pnl cost) (\<lambda>ratio. bindr (dmul ratio 100) quantize_pct) else Inr 0) (\<lambda>rate.
         Inr \<lparr>tt_currency = currency, tt_trade_count = int (length own),
              tt_win_count = int (length (filter (\<lambda>r. 0 < rt_pnl_amount r) own)), tt_realized_pnl = pnl,
              tt_cost_basis = cost, tt_return_rate = rate\<rparr>))))))"

definition closed_trade_totals :: "round_trip list \<Rightarrow> trip_totals list result" where
  "closed_trade_totals trips =
     mapr (currency_totals trips)
       (filter (\<lambda>c. c \<in> set (map rt_currency trips)) reported_currencies)"

definition list_closed_trades :: "ledger \<Rightarrow> int \<Rightarrow> nat \<Rightarrow> (round_trip list \<times> trip_totals list) result" where
  "list_closed_trades l account_id limit =
     (let trades = sort_key pt_executed_at (sort_key pt_id (filter (\<lambda>t. pt_account_id t = account_id) (ld_trades l)))
      in bindr (build_round_trips trades) (\<lambda>closed.
         bindr (closed_trade_totals closed) (\<lambda>totals.
         Inr (take limit (rev closed), totals))))"

end
