(* ===== verification/Paper_Trips_Rules.thy ===== *)
theory Paper_Trips_Rules
  imports Paper_Trips
begin

text \<open>
  Round trips account for every realized result: over the trades of a symbol that ends flat, the
  results of its trips add up to the realized results of its sells less the fees of its buys.
\<close>

subsection \<open>Runs of trades without short selling\<close>

text \<open>The holding stays between zero and the limit of its column after every trade.\<close>

fun long_only :: "rat \<Rightarrow> ledger_trade list \<Rightarrow> bool" where
  "long_only q [] \<longleftrightarrow> True"
| "long_only q (t # ts) \<longleftrightarrow> pt_side t \<in> {''buy'', ''sell''} \<and> 0 < pt_quantity t \<and> places 8 (pt_quantity t)
     \<and> 0 \<le> q + trade_shares t \<and> q + trade_shares t < 10 ^ 12 \<and> long_only (q + trade_shares t) ts"

text \<open>What a trade contributes to the result: a buy its fee, a sell its realized result.\<close>

definition trade_result :: "ledger_trade \<Rightarrow> rat" where
  "trade_result t = (if pt_side t = ''buy'' then - pt_fee t else realized_of t)"

definition booked :: "ledger_trade \<Rightarrow> bool" where
  "booked t \<longleftrightarrow> places 4 (pt_fee t) \<and> \<bar>pt_fee t\<bar> < 10 ^ 16 \<and> places 4 (realized_of t) \<and> \<bar>realized_of t\<bar> < 10 ^ 16"

lemma booked_result: "booked t \<Longrightarrow> places 4 (trade_result t) \<and> \<bar>trade_result t\<bar> < 10 ^ 16"
  by (auto simp: booked_def trade_result_def)

text \<open>The state of the loop: the holding, and the result of the trip that is open.\<close>

definition trip_ok :: "trip_state \<Rightarrow> rat \<Rightarrow> rat \<Rightarrow> bool" where
  "trip_ok s q r \<longleftrightarrow> ts_position_qty s = q \<and> places 8 q \<and> 0 \<le> q \<and> q < 10 ^ 12
     \<and> (if q = 0 then r = 0 else ts_total_pnl s = r \<and> ts_entry_date s \<noteq> None)"

lemma small_quantity: "places 8 q \<Longrightarrow> \<bar>q\<bar> < 10 ^ 13 \<Longrightarrow> dec_ctx q = Inr r \<Longrightarrow> r = q"
  using dec_ctx_exact [of q] by simp

lemma small_result:
  assumes "places 4 q" and "\<bar>q\<bar> \<le> 10 ^ 24" and "dec_ctx q = Inr r"
  shows "r = q"
  using dec_ctx_Inr [OF assms(3)] dec_fix_places [OF assms(1)] assms(2) by simp

lemma trip_buy_ok:
  assumes "trip_buy s t = Inr s'" and "trip_ok s q r" and "pt_side t = ''buy''" and "long_only q (t # ts)" and "booked t"
    and "places 4 r" and "\<bar>r\<bar> \<le> 10 ^ 23"
  shows "trip_ok s' (q + trade_shares t) (r + trade_result t)"
proof -
  define s0 where "s0 = (if ts_position_qty s \<le> 0
      then s\<lparr>ts_entry_date := Some (pt_executed_at t), ts_entry_reason := pt_reason t, ts_buy_cost := 0,
             ts_buy_quantity := 0, ts_buy_fee := 0, ts_sold_quantity := 0, ts_realized_sum := 0, ts_total_pnl := 0\<rparr>
      else s)"
  obtain position_qty total_pnl where
      pos: "dec_ctx (ts_position_qty s0 + pt_quantity t) = Inr position_qty"
      and pnl: "dec_ctx (ts_total_pnl s0 - pt_fee t) = Inr total_pnl"
      and s': "ts_position_qty s' = position_qty" "ts_total_pnl s' = total_pnl" "ts_entry_date s' = ts_entry_date s0"
    using assms(1) unfolding trip_buy_def Let_def s0_def [symmetric] dadd_def dsub_def
    by (elim bindrE) (rule that, auto)
  have s0: "ts_position_qty s0 = q" "ts_total_pnl s0 = r" "ts_entry_date s0 \<noteq> None"
    using assms(2) by (auto simp: trip_ok_def s0_def split: if_splits)
  have q: "0 < pt_quantity t" "places 8 (q + pt_quantity t)" "q + pt_quantity t < 10 ^ 12" "0 \<le> q"
    using assms(2,3,4) by (auto simp: trip_ok_def trade_shares_def)
  have "position_qty = q + pt_quantity t"
    using pos s0(1) q by (intro small_quantity) simp_all
  moreover have "total_pnl = r - pt_fee t"
    using pnl s0(2) assms(5,6,7) by (intro small_result) (auto simp: booked_def abs_le_iff)
  ultimately show ?thesis
    using s' s0(3) q assms(3) by (simp add: trip_ok_def trade_shares_def trade_result_def)
qed

lemma trip_sell_ok:
  assumes "trip_sell s t = Inr s'" and "trip_ok s q r" and "pt_side t = ''sell''" and "long_only q (t # ts)" and "booked t"
    and "places 4 r" and "\<bar>r\<bar> \<le> 10 ^ 23"
  shows "ts_position_qty s' = q + trade_shares t" and "ts_total_pnl s' = r + trade_result t"
    and "ts_entry_date s' \<noteq> None" and "ts_last_exit_date s' \<noteq> None"
proof -
  obtain position_qty total_pnl where
      pos: "dec_ctx (ts_position_qty s - pt_quantity t) = Inr position_qty"
      and pnl: "dec_ctx (ts_total_pnl s + realized_of t) = Inr total_pnl"
      and s': "ts_position_qty s' = position_qty" "ts_total_pnl s' = total_pnl" "ts_entry_date s' = ts_entry_date s"
        "ts_last_exit_date s' = Some (pt_executed_at t)"
    using assms(1) unfolding trip_sell_def dadd_def dsub_def by (elim bindrE) (rule that, auto)
  have q: "0 < pt_quantity t" "places 8 (q - pt_quantity t)" "0 \<le> q - pt_quantity t" "q < 10 ^ 12"
    using assms(2,3,4) by (auto simp: trip_ok_def trade_shares_def)
  then have s: "ts_position_qty s = q" "ts_total_pnl s = r" "ts_entry_date s \<noteq> None"
    using assms(2) by (auto simp: trip_ok_def)
  have "position_qty = q - pt_quantity t"
    using pos s(1) q by (intro small_quantity) simp_all
  moreover have "total_pnl = r + realized_of t"
    using pnl s(2) assms(5,6,7) by (intro small_result) (auto simp: booked_def abs_le_iff)
  ultimately show "ts_position_qty s' = q + trade_shares t" and "ts_total_pnl s' = r + trade_result t"
    and "ts_entry_date s' \<noteq> None" and "ts_last_exit_date s' \<noteq> None"
    using s' s(3) assms(3) by (simp_all add: trade_shares_def trade_result_def)
qed

lemma closed_row_pnl:
  assumes "closed_row symbol kind s = Inr row" and "ts_entry_date s \<noteq> None" and "ts_last_exit_date s \<noteq> None"
    and "places 4 (ts_total_pnl s)" and "\<bar>ts_total_pnl s\<bar> \<le> 10 ^ 23"
  shows "if ts_position_qty s \<le> 0 then \<exists>r. row = Some r \<and> rt_pnl_amount r = ts_total_pnl s else row = None"
proof -
  have "quantize_money (ts_total_pnl s) = Inr x \<Longrightarrow> x = ts_total_pnl s" for x
    using round_half_away_places [OF assms(4)] by (auto simp: quantize_money_def quantize_half_up_def Let_def split: if_splits)
  with assms(1-3) show ?thesis
    by (auto simp: closed_row_def round_trip_row_def Let_def elim!: bindrE split: if_splits option.splits)
qed

lemma fresh_trip_ok: "trip_ok fresh_trip 0 0"
  by (simp add: trip_ok_def fresh_trip_def)

text \<open>One sell either closes the trip or leaves it open.\<close>

lemma sell_step:
  assumes "trips_loop symbol kind s (t # ts) = Inr (rows, s')" and "trip_ok s q r" and "pt_side t = ''sell''"
    and "long_only q (t # ts)" and "booked t" and "places 4 r" and "\<bar>r\<bar> + 10 ^ 16 \<le> 10 ^ 23"
  obtains (closed) row rest where "rows = row # rest" "rt_pnl_amount row = r + trade_result t" "q + trade_shares t = 0"
      "trips_loop symbol kind fresh_trip ts = Inr (rest, s')"
    | (still_open) s1 where "trip_ok s1 (q + trade_shares t) (r + trade_result t)" "trips_loop symbol kind s1 ts = Inr (rows, s')"
proof -
  have q: "0 < pt_quantity t" "places 8 (q + trade_shares t)" "0 \<le> q + trade_shares t" "0 < q" "q < 10 ^ 12"
    using assms(2,3,4) by (auto simp: trip_ok_def trade_shares_def)
  then have pos: "ts_position_qty s = q" using assms(2) by (simp add: trip_ok_def)
  obtain s1 row where s1: "trip_sell s t = Inr s1" and row: "closed_row symbol kind s1 = Inr row"
    and rest: "(case row of None \<Rightarrow> trips_loop symbol kind s1 ts
      | Some row \<Rightarrow> bindr (trips_loop symbol kind fresh_trip ts) (\<lambda>(rows, s). Inr (row # rows, s))) = Inr (rows, s')"
    using assms(1,3) pos q by (auto elim!: bindrE)
  have r: "\<bar>r\<bar> \<le> 10 ^ 23" using assms(7) by simp
  note step = trip_sell_ok [OF s1 assms(2,3,4,5,6) r]
  have result: "places 4 (r + trade_result t)" "\<bar>r + trade_result t\<bar> \<le> 10 ^ 23"
    using booked_result [OF assms(5)] assms(6,7) by auto
  note shape = closed_row_pnl [OF row step(3,4), unfolded step(2), OF result]
  show thesis
  proof (cases "q + trade_shares t = 0")
    case True
    with shape step(1) obtain row' where "row = Some row'" "rt_pnl_amount row' = r + trade_result t" by auto
    with rest True show thesis by (auto elim!: bindrE intro: closed)
  next
    case False
    with shape step(1) q(3) have "row = None" by auto
    moreover have "trip_ok s1 (q + trade_shares t) (r + trade_result t)"
      using step False q assms(3) by (simp add: trip_ok_def trade_shares_def)
    ultimately show thesis using rest still_open by simp
  qed
qed

lemma trips_loop_conserve:
  assumes "trips_loop symbol kind s ts = Inr (rows, s')" and "trip_ok s q r" and "long_only q ts"
    and "\<forall>t\<in>set ts. booked t" and "places 4 r" and "\<bar>r\<bar> + of_nat (length ts) * 10 ^ 16 \<le> 10 ^ 23"
  shows "\<exists>r'. trip_ok s' (q + sum_list (map trade_shares ts)) r'
    \<and> sum_list (map rt_pnl_amount rows) + r' = r + sum_list (map trade_result ts)"
  using assms
proof (induction ts arbitrary: s q r rows)
  case Nil
  then show ?case by auto
next
  case (Cons t ts)
  let ?q = "q + trade_shares t" and ?r = "r + trade_result t"
  have t: "booked t" and rest: "long_only ?q ts" "\<forall>t\<in>set ts. booked t" using Cons.prems by auto
  have len: "0 \<le> (of_nat (length ts) * 10 ^ 16 :: rat)" by simp
  have bound: "\<bar>r\<bar> + (1 + of_nat (length ts)) * 10 ^ 16 \<le> 10 ^ 23" using Cons.prems(6) by simp
  then have r: "\<bar>r\<bar> + 10 ^ 16 \<le> 10 ^ 23" "\<bar>r\<bar> \<le> 10 ^ 23" using len by (simp_all add: distrib_right)
  have next_r: "places 4 ?r" "\<bar>?r\<bar> + of_nat (length ts) * 10 ^ 16 \<le> 10 ^ 23"
    "\<bar>0 :: rat\<bar> + of_nat (length ts) * 10 ^ 16 \<le> 10 ^ 23"
    using booked_result [OF t] Cons.prems(5) bound by (auto simp: distrib_right)
  have side: "pt_side t = ''buy'' \<or> pt_side t = ''sell''" using Cons.prems(3) by simp
  show ?case
  proof (cases "pt_side t = ''buy''")
    case True
    then obtain s1 where s1: "trip_buy s t = Inr s1" "trips_loop symbol kind s1 ts = Inr (rows, s')"
      using Cons.prems(1) by (auto elim!: bindrE)
    from Cons.IH [OF s1(2) trip_buy_ok [OF s1(1) Cons.prems(2) True Cons.prems(3) t Cons.prems(5) r(2)] rest next_r(1,2)]
    show ?thesis by (auto simp: algebra_simps)
  next
    case False
    with side have sell: "pt_side t = ''sell''" by simp
    show ?thesis
      using Cons.prems(1,2) sell Cons.prems(3) t Cons.prems(5) r(1)
    proof (cases rule: sell_step)
      case (closed row rest_rows)
      have flat: "q + (trade_shares t + x) = x" for x using closed(3) by (simp add: add.assoc [symmetric])
      have "long_only 0 ts" using rest(1) closed(3) by simp
      from Cons.IH [OF closed(4) fresh_trip_ok this rest(2) _ next_r(3)] closed show ?thesis
        by (auto simp: algebra_simps flat)
    next
      case (still_open s1)
      from Cons.IH [OF still_open(2,1) rest next_r(1,2)] show ?thesis by (auto simp: algebra_simps)
    qed
  qed
qed

subsection \<open>The trades of a book\<close>

definition own_trades :: "int \<times> string \<Rightarrow> ledger_trade list \<Rightarrow> ledger_trade list" where
  "own_trades k ts = filter (\<lambda>t. (pt_account_id t, pt_symbol t) = k) ts"

text \<open>A book whose history is complete: what it holds is what its trades added up to.\<close>

definition full_history :: "ledger \<Rightarrow> bool" where
  "full_history l \<longleftrightarrow> ledger_ok l \<and> (\<forall>t\<in>set (ld_trades l). trade_ok t)
     \<and> (\<forall>k. long_only 0 (own_trades k (ld_trades l)) \<and> held l k = sum_list (map trade_shares (own_trades k (ld_trades l))))"

lemma long_only_snoc:
  "long_only q (ts @ [t]) \<longleftrightarrow> long_only q ts \<and> long_only (q + sum_list (map trade_shares ts)) [t]"
  by (induction ts arbitrary: q) (auto simp: add.assoc)

lemma held_bounds: "ledger_ok l \<Longrightarrow> 0 \<le> held l k \<and> held l k < 10 ^ 12"
  using ledger_ok_position [of l k] by (auto simp: held_def position_ok_def less_imp_le split: option.split)

lemma moved_held: "moved l l' a symbol c flow shares \<Longrightarrow> held l' k = held l k + (if k = (a, symbol) then shares else 0)"
  unfolding moved_def by blast

lemma trade_ok_booked: "trade_ok t \<Longrightarrow> booked t"
  by (auto simp: trade_ok_def booked_def realized_of_def split: option.split)

lemma full_history_order:
  assumes "full_history l"
  shows "full_history (apply_command fetch l (Order now req))"
proof -
  let ?l = "apply_command fetch l (Order now req)"
  have ok: "ledger_ok l" using assms by (simp add: full_history_def)
  from order_effect [OF ok, of fetch now req] consider "?l = l"
    | (traded) t where "ld_trades ?l = ld_trades l @ [t]" "ledger_ok ?l" "trade_ok t"
      "moved l ?l (pt_account_id t) (pt_symbol t) (pt_currency t) (trade_flow t) (trade_shares t)" by blast
  then show ?thesis
  proof cases
    case traded
    have "long_only 0 (own_trades k (ld_trades ?l)) \<and> held ?l k = sum_list (map trade_shares (own_trades k (ld_trades ?l)))" for k
    proof (cases "k = (pt_account_id t, pt_symbol t)")
      case True
      have h: "held ?l k = held l k + trade_shares t" using moved_held [OF traded(4), of k] True by simp
      have old: "long_only 0 (own_trades k (ld_trades l))" "held l k = sum_list (map trade_shares (own_trades k (ld_trades l)))"
        using assms unfolding full_history_def by blast+
      have "own_trades k (ld_trades ?l) = own_trades k (ld_trades l) @ [t]" using True traded(1) by (simp add: own_trades_def)
      with h old held_bounds [OF traded(2), of k] traded(3) show ?thesis
        by (simp add: long_only_snoc trade_ok_def)
    next
      case False
      then have "held ?l k = held l k" "own_trades k (ld_trades ?l) = own_trades k (ld_trades l)"
        using traded(1) moved_held [OF traded(4), of k] by (auto simp: own_trades_def)
      with assms show ?thesis unfolding full_history_def by metis
    qed
    with traded(1-3) assms show ?thesis by (simp add: full_history_def)
  qed (use assms in simp)
qed

lemma full_history_run: "full_history l \<Longrightarrow> full_history (run_orders fetch l orders)"
proof (induction orders arbitrary: l)
  case (Cons x orders)
  then show ?case by (cases x) (simp only: run_orders_simps full_history_order)
qed simp

lemma run_orders_sorted:
  assumes "ledger_ok l" and "sorted (map pt_executed_at (ld_trades l))" and "sorted (map fst orders)"
    and "\<forall>t\<in>set (ld_trades l). \<forall>x\<in>set orders. pt_executed_at t \<le> fst x"
  shows "sorted (map pt_executed_at (ld_trades (run_orders fetch l orders)))"
  using assms
proof (induction orders arbitrary: l)
  case (Cons x orders)
  obtain now req where x: "x = (now, req)" by (cases x)
  let ?l = "apply_command fetch l (Order now req)"
  from order_effect [OF Cons.prems(1), of fetch now req] have step:
    "?l = l \<or> (\<exists>t. ld_trades ?l = ld_trades l @ [t] \<and> ledger_ok ?l \<and> pt_executed_at t = now)" by blast
  then have "ledger_ok ?l" "sorted (map pt_executed_at (ld_trades ?l))"
      "\<forall>t\<in>set (ld_trades ?l). \<forall>x\<in>set orders. pt_executed_at t \<le> fst x"
    using Cons.prems by (elim disjE exE conjE; simp add: x sorted_append del: apply_command.simps; fail)+
  with Cons.IH [of ?l] Cons.prems(3) show ?case unfolding x run_orders_simps by simp
qed simp

subsection \<open>Results by symbol and in total\<close>

lemma symbol_trips_conserve:
  assumes "symbol_trips symbol trades = Inr rows" and "own = filter (\<lambda>t. pt_symbol t = symbol) trades"
    and "sorted (map pt_executed_at own)" and "long_only 0 own" and "\<forall>t\<in>set own. booked t"
    and "sum_list (map trade_shares own) = 0" and "length own \<le> 10 ^ 6"
  shows "sum_list (map rt_pnl_amount rows) = sum_list (map trade_result own)"
proof -
  let ?kind = "pt_instrument_type (hd own)"
  have "sort_key pt_executed_at own = own" using assms(3) by (rule sort_key_id_if_sorted)
  with assms(1,2) obtain rs s row where loop: "trips_loop symbol ?kind fresh_trip own = Inr (rs, s)"
    and row: "open_row symbol ?kind s = Inr row" and rows: "rows = rs @ (case row of None \<Rightarrow> [] | Some r \<Rightarrow> [r])"
    by (auto simp: symbol_trips_def Let_def elim!: bindrE)
  have "of_nat (length own) * 10 ^ 16 \<le> (of_nat (10 ^ 6) * 10 ^ 16 :: rat)"
    using assms(7) by (intro mult_right_mono of_nat_mono) simp_all
  then have "\<bar>0 :: rat\<bar> + of_nat (length own) * 10 ^ 16 \<le> 10 ^ 23" by simp
  from trips_loop_conserve [OF loop fresh_trip_ok assms(4,5) _ this] assms(6)
  have s: "ts_position_qty s = 0" "sum_list (map rt_pnl_amount rs) = sum_list (map trade_result own)"
    by (auto simp: trip_ok_def)
  with row have "row = None" by (auto simp: open_row_def split: option.splits)
  with s(2) rows show ?thesis by simp
qed

lemma sum_by_key:
  assumes "distinct ks" and "key ` set ts \<subseteq> set ks"
  shows "(\<Sum>k\<leftarrow>ks. \<Sum>t\<leftarrow>filter (\<lambda>t. key t = k) ts. f t) = (\<Sum>t\<leftarrow>ts. f t :: rat)"
  using assms(2)
proof (induction ts)
  case (Cons t ts)
  have "(\<Sum>k\<leftarrow>ks. \<Sum>u\<leftarrow>filter (\<lambda>u. key u = k) (t # ts). f u)
      = (\<Sum>k\<leftarrow>ks. if k = key t then f t else 0) + (\<Sum>k\<leftarrow>ks. \<Sum>u\<leftarrow>filter (\<lambda>u. key u = k) ts. f u)"
    by (auto simp: sum_list_addf [symmetric] intro!: arg_cong [where f = sum_list] map_cong)
  moreover have "(\<Sum>k\<leftarrow>ks. if k = key t then f t else 0) = f t"
    using assms(1) Cons.prems by (simp add: sum_list_distinct_conv_sum_set)
  ultimately show ?case using Cons by simp
qed simp

lemma mset_insert_trip: "mset (insert_trip a bs) = add_mset a (mset bs)"
  by (induction bs) auto

lemma mset_sort_trips: "mset (sort_trips trips) = mset trips"
  unfolding sort_trips_def by (induction trips) (simp_all add: mset_insert_trip)

lemma sum_sort_trips: "(\<Sum>r\<leftarrow>sort_trips trips. f r) = (\<Sum>r\<leftarrow>trips. f r :: rat)"
  by (metis mset_map mset_sort_trips sum_mset_sum_list)

lemma mapr_sum:
  assumes "mapr f xs = Inr yss" and "\<And>x ys. x \<in> set xs \<Longrightarrow> f x = Inr ys \<Longrightarrow> (\<Sum>y\<leftarrow>ys. g y) = (h x :: rat)"
  shows "(\<Sum>y\<leftarrow>concat yss. g y) = (\<Sum>x\<leftarrow>xs. h x)"
  using assms by (induction xs arbitrary: yss) (auto elim!: bindrE)

subsection \<open>Example\<close>

definition us_close :: "instant \<times> order_request" where
  "us_close = (1, limit_order ''AAPL'' ''sell'' 1 1 None)"

definition closed_book :: ledger where
  "closed_book = bought_book\<lparr>ld_positions := [],
     ld_trades := ld_trades bought_book @ [\<lparr>pt_id = 4, pt_account_id = 1, pt_symbol = ''AAPL'',
       pt_instrument_type = ''equity_us'', pt_side = ''sell'', pt_order_type = ''limit'', pt_quantity = 1, pt_price = 1,
       pt_total_amount = 1, pt_fee = 1, pt_currency = ''USD'', pt_reason = ''example'', pt_realized_pnl = Some (- 10),
       pt_correlation_id = None, pt_executed_at = 1\<rparr>], ld_next_id := 5\<rparr>"

lemma us_close_preview:
  "preview_order no_quotes bought_book (snd us_close) =
     Inr \<lparr>ov_symbol = ''AAPL'', ov_instrument_type = ''equity_us'', ov_side = ''sell'', ov_order_type = ''limit'',
          ov_quantity = 1, ov_price = 1, ov_gross = 1, ov_fee = 1, ov_total_cost = 0, ov_currency = ''USD''\<rparr>"
  by (simp add: preview_order_def us_close_def limit_order_def example_texts get_account_def bought_book_def
      order_fill_price_def priced_order_def order_quantity_def quantize_execution_quantity_def execution_quantity_lot_def
      calculate_fee_def position_currency_def example_money)

lemma closed_book_run: "run_orders no_quotes funded_book [us_buy, us_close] = closed_book"
proof -
  have "run_orders no_quotes funded_book [us_buy, us_close] = run_orders no_quotes bought_book [us_close]"
    using us_buy_run by (simp add: run_orders_def del: apply_command.simps)
  also have "\<dots> = committed bought_book (execute_order no_quotes 1 bought_book (snd us_close))"
    by (simp add: us_close_def)
  also have "\<dots> = closed_book"
    unfolding execute_order_def us_close_preview
    by (simp add: us_close_def limit_order_def example_texts get_account_def funded_book_eq bought_book_def closed_book_def
      execute_sell_def credit_cash_def realized_pnl_of_def insert_trade_def cash_def set_cash_def committed_def
      close_cycles_def example_money)
  finally show ?thesis .
qed

lemma closed_book_trips:
  "\<exists>trips. build_round_trips (filter (\<lambda>t. pt_account_id t = 1) (ld_trades closed_book)) = Inr trips"
  by (simp add: closed_book_def bought_book_def build_round_trips_def traded_symbols_def symbol_trips_def
      trip_buy_def trip_sell_def closed_row_def open_row_def fresh_trip_def realized_of_def round_trip_row_def
      quantize_pct_def Let_def example_money)

subsection \<open>Properties\<close>

text \<open>
  C15: Round trips account for every realized result. Take a book without history, any sequence of
  orders in time order and an account that holds nothing afterwards. The results of all round
  trips built from its trades then add up to the realized results of its sells minus the fees of
  its buys: grouping trades into trips neither loses nor invents money.
\<close>

theorem round_trips_conserve:
  assumes "reachable fetch l" and "ld_trades l = []" and "ld_positions l = []" and "sorted (map fst orders)"
    and "final = run_orders fetch l orders" and "trades = filter (\<lambda>t. pt_account_id t = a) (ld_trades final)"
    and "length (ld_trades final) \<le> 10 ^ 6" and "\<forall>symbol. held final (a, symbol) = 0"
    and "build_round_trips trades = Inr trips"
  shows "(\<Sum>r\<leftarrow>trips. rt_pnl_amount r) = (\<Sum>t\<leftarrow>trades. if pt_side t = ''buy'' then - pt_fee t else realized_of t)"
proof -
  have "full_history l" using reachable_ok [OF assms(1)] assms(2,3) by (simp add: full_history_def held_def own_trades_def)
  then have history: "full_history final" unfolding assms(5) by (rule full_history_run)
  have sorted: "sorted (map pt_executed_at (ld_trades final))"
    unfolding assms(5) using run_orders_sorted [OF reachable_ok [OF assms(1)] _ assms(4)] assms(2) by simp
  have symbol: "(\<Sum>r\<leftarrow>rows. rt_pnl_amount r) = (\<Sum>t\<leftarrow>filter (\<lambda>t. pt_symbol t = s) trades. trade_result t)"
    if rows: "symbol_trips s trades = Inr rows" for s rows
  proof (rule symbol_trips_conserve [OF rows refl])
    have own: "filter (\<lambda>t. pt_symbol t = s) trades = own_trades (a, s) (ld_trades final)"
      unfolding assms(6) own_trades_def by (simp add: conj_commute)
    have all: "long_only 0 (own_trades (a, s) (ld_trades final))"
        "held final (a, s) = sum_list (map trade_shares (own_trades (a, s) (ld_trades final)))"
        "\<forall>t\<in>set (ld_trades final). trade_ok t"
      using history unfolding full_history_def by blast+
    then show "long_only 0 (filter (\<lambda>t. pt_symbol t = s) trades)"
      and "sum_list (map trade_shares (filter (\<lambda>t. pt_symbol t = s) trades)) = 0"
      using assms(8) unfolding own by simp_all
    show "\<forall>t\<in>set (filter (\<lambda>t. pt_symbol t = s) trades). booked t"
      using all(3) trade_ok_booked unfolding assms(6) by auto
    show "sorted (map pt_executed_at (filter (\<lambda>t. pt_symbol t = s) trades))"
      unfolding assms(6) by (intro sorted_filter sorted)
    have "length (filter (\<lambda>t. pt_symbol t = s) trades) \<le> length (ld_trades final)"
      unfolding assms(6) by (meson le_trans length_filter_le)
    then show "length (filter (\<lambda>t. pt_symbol t = s) trades) \<le> 10 ^ 6" using assms(7) by simp
  qed
  obtain rowss where rowss: "mapr (\<lambda>s. symbol_trips s trades) (traded_symbols trades) = Inr rowss"
    and trips: "trips = sort_trips (concat rowss)"
    using assms(9) by (auto simp: build_round_trips_def elim!: bindrE)
  have "(\<Sum>r\<leftarrow>trips. rt_pnl_amount r) = (\<Sum>r\<leftarrow>concat rowss. rt_pnl_amount r)" unfolding trips by (rule sum_sort_trips)
  also have "\<dots> = (\<Sum>s\<leftarrow>traded_symbols trades. \<Sum>t\<leftarrow>filter (\<lambda>t. pt_symbol t = s) trades. trade_result t)"
    using symbol by (intro mapr_sum [OF rowss]) blast
  also have "\<dots> = (\<Sum>t\<leftarrow>trades. trade_result t)" by (rule sum_by_key) (auto simp: traded_symbols_def)
  finally show ?thesis by (simp add: trade_result_def)
qed

theorem round_trips_conserve_witness:
  "\<exists>trips. build_round_trips (filter (\<lambda>t. pt_account_id t = 1) (ld_trades closed_book)) = Inr trips
    \<and> (\<Sum>r\<leftarrow>trips. rt_pnl_amount r) = - 11"
proof -
  obtain trips where trips: "build_round_trips (filter (\<lambda>t. pt_account_id t = 1) (ld_trades closed_book)) = Inr trips"
    using closed_book_trips by blast
  have "(\<Sum>r\<leftarrow>trips. rt_pnl_amount r)
      = (\<Sum>t\<leftarrow>filter (\<lambda>t. pt_account_id t = 1) (ld_trades closed_book). if pt_side t = ''buy'' then - pt_fee t else realized_of t)"
  proof (rule round_trips_conserve [OF funded_book_reachable _ _ _ closed_book_run [symmetric] refl _ _ trips])
    show "sorted (map fst [us_buy, us_close])" by (simp add: us_buy_def us_close_def)
  qed (simp_all add: funded_book_eq closed_book_def bought_book_def held_def)
  also have "\<dots> = - 11" by (simp add: closed_book_def bought_book_def realized_of_def)
  finally show ?thesis using trips by blast
qed

end
