(* ===== verification/Paper_Portfolio_Rules.thy ===== *)
theory Paper_Portfolio_Rules
  imports Paper_Portfolio
begin

text \<open>
  What the portfolio report promises: totals per currency are sums over exactly the positions of
  that currency, and a currency with a position that could not be valued reports no total.
\<close>

subsection \<open>Buckets are sums\<close>

definition is_valued :: "valued_position \<Rightarrow> bool" where
  "is_valued row \<longleftrightarrow> vp_evaluation_amount row \<noteq> None \<and> vp_unrealized_pnl row \<noteq> None"

definition currency_rows :: "string \<Rightarrow> valued_position list \<Rightarrow> valued_position list" where
  "currency_rows c rows = filter (\<lambda>row. row_currency row = c) rows"

text \<open>The bucket \<open>b'\<close> is the bucket \<open>b\<close> plus the given rows.\<close>

definition accumulated :: "currency_valuation \<Rightarrow> valued_position list \<Rightarrow> currency_valuation \<Rightarrow> bool" where
  "accumulated b rows b' \<longleftrightarrow>
     cu_positions_count b' = cu_positions_count b + int (length rows)
   \<and> cu_positions_valued b' = cu_positions_valued b + int (length (filter is_valued rows))
   \<and> dsum (cu_total_invested b) (map vp_total_invested rows) = Inr (cu_total_invested b')
   \<and> dsum (cu_positions_value b) (map (\<lambda>r. the (vp_evaluation_amount r)) (filter is_valued rows)) = Inr (cu_positions_value b')
   \<and> dsum (cu_unrealized_pnl b) (map (\<lambda>r. the (vp_unrealized_pnl r)) (filter is_valued rows)) = Inr (cu_unrealized_pnl b')"

lemma accumulated_Nil: "accumulated b [] b"
  by (simp add: accumulated_def)

lemma accumulated_Cons:
  assumes "add_to_bucket b row = Inr b1" and "accumulated b1 rows b'"
  shows "accumulated b (row # rows) b'"
  using assms unfolding add_to_bucket_def Let_def
  by (auto simp: accumulated_def is_valued_def elim!: bindrE split: option.splits)

lemma bucket_of_update: "bucket_of (AList.update c b buckets) d = (if d = c then b else bucket_of buckets d)"
  by (simp add: bucket_of_def AList.update_conv')

lemma fill_buckets_sums:
  "fill_buckets buckets rows = Inr out \<Longrightarrow> accumulated (bucket_of buckets c) (currency_rows c rows) (bucket_of out c)"
proof (induction buckets rows rule: fill_buckets.induct)
  case (2 buckets row rows)
  then obtain b where b: "add_to_bucket (bucket_of buckets (row_currency row)) row = Inr b"
    and rest: "fill_buckets (AList.update (row_currency row) b buckets) rows = Inr out"
    by (auto elim: bindrE)
  from "2.IH" [OF b rest] show ?case
    using accumulated_Cons [OF b] by (auto simp: currency_rows_def bucket_of_update)
qed (simp add: currency_rows_def accumulated_Nil)

lemma valued_count: "length (filter P xs) = length xs \<longleftrightarrow> (\<forall>x\<in>set xs. P x)"
  by (induction xs) (auto simp: le_imp_less_Suc length_filter_le less_imp_neq dest: sym)

text \<open>A position is valued when its quote is usable and it has a cost basis.\<close>

lemma value_position_cases:
  assumes "value_position fetch now symbol p = Inr row"
  shows "vp_symbol row = symbol" and "vp_instrument_type row = pp_instrument_type p"
    and "row_currency row = position_currency (pp_instrument_type p)"
    and "is_valued row \<longleftrightarrow> (\<exists>quote price. fetch symbol (pp_instrument_type p) = Inr quote
           \<and> pq_price quote = DFinite price \<and> 0 < price) \<and> 0 < pp_total_invested p"
proof -
  have "vp_symbol row = symbol \<and> vp_instrument_type row = pp_instrument_type p
      \<and> vp_currency row = position_currency (pp_instrument_type p)
      \<and> (is_valued row \<longleftrightarrow> (\<exists>quote price. fetch symbol (pp_instrument_type p) = Inr quote
           \<and> pq_price quote = DFinite price \<and> 0 < price) \<and> 0 < pp_total_invested p)"
  proof (cases "fetch symbol (pp_instrument_type p)")
    case (Inl e)
    with assms show ?thesis by (auto simp: value_position_def unvalued_position_def is_valued_def)
  next
    case (Inr quote)
    with assms show ?thesis
      by (cases "pq_price quote")
        (auto simp: value_position_def unvalued_position_def is_valued_def Let_def elim!: bindrE split: if_splits)
  qed
  then show "vp_symbol row = symbol" and "vp_instrument_type row = pp_instrument_type p"
    and "row_currency row = position_currency (pp_instrument_type p)"
    and "is_valued row \<longleftrightarrow> (\<exists>quote price. fetch symbol (pp_instrument_type p) = Inr quote
           \<and> pq_price quote = DFinite price \<and> 0 < price) \<and> 0 < pp_total_invested p"
    by (auto simp: row_currency_def position_currency_def)
qed

subsection \<open>Example\<close>

definition twenty :: quote_source where
  "twenty = (\<lambda>_ _. Inr \<lparr>pq_price = DFinite 20, pq_source = ''example'', pq_as_of = None, pq_session = None\<rparr>)"

lemma example_positions:
  "get_positions twenty 0 bought_book 1 None = Inr [\<lparr>vp_symbol = ''AAPL'', vp_instrument_type = ''equity_us'',
     vp_currency = ''USD'', vp_quantity = 1, vp_avg_price = 10, vp_total_invested = 10, vp_current_price = Some 20,
     vp_evaluation_amount = Some 20, vp_unrealized_pnl = Some 10, vp_pnl_pct = Some 100,
     vp_quote_source = Some ''example'', vp_quote_as_of = None, vp_quote_session = None, vp_quote_is_stale = None,
     vp_valuation_error = None\<rparr>]"
  by (simp add: get_positions_def account_positions_def bought_book_def value_position_def unvalued_position_def
      twenty_def position_currency_def quote_is_stale_def quantize_pct_def example_money)

lemma example_summary: "\<exists>s. get_portfolio_summary twenty 0 bought_book 1 = Inr s"
  unfolding get_portfolio_summary_def example_positions
  by (simp add: get_account_def bought_book_def evaluate_positions_by_currency_def add_to_bucket_def row_currency_def
      bucket_of_def no_valuation_def reported_currencies_def summary_metrics_def valuation_complete_def quantize_pct_def
      example_money)

subsection \<open>Properties\<close>

text \<open>
  The portfolio report is honest per currency. For KRW and for USD the reported counts and
  invested amount are those of exactly the positions settling in that currency, an evaluated total
  is reported exactly when every one of them was valued, and it is then the sum of their values.
\<close>

theorem portfolio_summary_per_currency:
  assumes "get_portfolio_summary fetch now l account_id = Inr s"
  shows "\<exists>rows. get_positions fetch now l account_id None = Inr rows
    \<and> (\<forall>c\<in>{''KRW'', ''USD''}. \<exists>m. map_of (sm_currencies s) c = Some m
       \<and> cs_positions_count m = int (length (currency_rows c rows))
       \<and> dsum 0 (map vp_total_invested (currency_rows c rows)) = Inr (cs_total_invested m)
       \<and> (if \<forall>row\<in>set (currency_rows c rows). is_valued row
           then \<exists>v. cs_total_evaluated m = Some v
             \<and> dsum 0 (map (\<lambda>row. the (vp_evaluation_amount row)) (currency_rows c rows)) = Inr v
           else cs_total_evaluated m = None \<and> cs_total_pnl m = None \<and> cs_total_pnl_pct m = None))"
proof -
  obtain rows buckets metrics where rows: "get_positions fetch now l account_id None = Inr rows"
    and buckets: "fill_buckets [] rows = Inr buckets"
    and metrics: "mapr (\<lambda>c. bindr (summary_metrics c (bucket_of buckets c)) (\<lambda>m. Inr (c, m))) reported_currencies = Inr metrics"
    and s: "sm_currencies s = metrics"
    using assms
    by (auto simp: get_portfolio_summary_def account_not_found_def evaluate_positions_by_currency_def elim!: bindrE
        split: option.splits)
  have found: "\<exists>m. map_of (sm_currencies s) c = Some m \<and> summary_metrics c (bucket_of buckets c) = Inr m"
    if "c \<in> {''KRW'', ''USD''}" for c
    unfolding s using that metrics by (auto simp: reported_currencies_def elim!: bindrE)
  have "\<exists>m. map_of (sm_currencies s) c = Some m
       \<and> cs_positions_count m = int (length (currency_rows c rows))
       \<and> dsum 0 (map vp_total_invested (currency_rows c rows)) = Inr (cs_total_invested m)
       \<and> (if \<forall>row\<in>set (currency_rows c rows). is_valued row
           then \<exists>v. cs_total_evaluated m = Some v
             \<and> dsum 0 (map (\<lambda>row. the (vp_evaluation_amount row)) (currency_rows c rows)) = Inr v
           else cs_total_evaluated m = None \<and> cs_total_pnl m = None \<and> cs_total_pnl_pct m = None)"
    if c: "c \<in> {''KRW'', ''USD''}" for c
  proof -
    from found [OF c] obtain m where m: "map_of (sm_currencies s) c = Some m"
      "summary_metrics c (bucket_of buckets c) = Inr m" by blast
    let ?own = "currency_rows c rows" and ?b = "bucket_of buckets c"
    have sums: "accumulated no_valuation ?own ?b"
      using fill_buckets_sums [OF buckets, of c] by (simp add: bucket_of_def)
    then have complete: "valuation_complete ?b \<longleftrightarrow> (\<forall>row\<in>set ?own. is_valued row)"
      by (simp add: accumulated_def valuation_complete_def no_valuation_def valued_count)
    have all: "filter is_valued ?own = ?own" if "\<forall>row\<in>set ?own. is_valued row" using that by simp
    show ?thesis
      using m sums complete all
      by (intro exI [of _ m]) (auto simp: summary_metrics_def accumulated_def no_valuation_def Let_def elim!: bindrE split: if_splits)
  qed
  with rows show ?thesis by blast
qed

theorem portfolio_summary_per_currency_witness:
  "\<exists>s rows m. get_portfolio_summary twenty 0 bought_book 1 = Inr s \<and> get_positions twenty 0 bought_book 1 None = Inr rows
    \<and> map_of (sm_currencies s) ''USD'' = Some m \<and> cs_positions_count m = int (length (currency_rows ''USD'' rows))"
proof -
  obtain s where s: "get_portfolio_summary twenty 0 bought_book 1 = Inr s" using example_summary by blast
  from portfolio_summary_per_currency [OF s] s show ?thesis by blast
qed

end
