(* ===== verification/Account_State.thy ===== *)
theory Account_State
  imports High_Watermark_Store Paper_Portfolio
begin

text \<open>
  The account-state gate, \<open>app/extensions/kasset/automation/account_state_gate.py\<close>: the PAPER
  account is valued per currency book, the daily high watermark of the book is loaded, evaluated
  and persisted, and the result is projected to a state that limits or blocks buying. It composes
  the book of \<open>Paper_Ledger\<close> with the observation of \<open>High_Watermark\<close>.

  \<open>str\<close> and the class name of an exception are the arguments \<open>etext\<close> and \<open>ename\<close>; the other
  arguments are those of the composed parts. \<open>links\<close> is the table that links owners to accounts.
\<close>

subsection \<open>Thresholds\<close>

datatype account_state = STATE_NORMAL | STATE_STAGED_REDUCTION | STATE_EXIT_ONLY

fun account_state_value :: "account_state \<Rightarrow> string" where
  "account_state_value STATE_NORMAL = ''NORMAL''"
| "account_state_value STATE_STAGED_REDUCTION = ''STAGED_REDUCTION''"
| "account_state_value STATE_EXIT_ONLY = ''EXIT_ONLY''"

record 'd account_thresholds =
  at_staged_profit_ratio :: 'd
  at_exit_only_profit_ratio :: 'd
  at_staged_peak_drawdown_ratio :: 'd
  at_staged_reduction_multiplier :: 'd
  at_max_valuation_age :: duration

type_synonym acc_thresholds = "rat account_thresholds"

definition account_thresholds_post_init :: "decimal account_thresholds \<Rightarrow> acc_thresholds result" where
  "account_thresholds_post_init t =
     (let nonnegative = (\<lambda>name. require_dec (ValueError (name @ '' must be a nonnegative finite Decimal'')) (\<lambda>q. 0 \<le> q))
      in bindr (nonnegative ''staged_profit_ratio'' (at_staged_profit_ratio t)) (\<lambda>staged.
         bindr (nonnegative ''exit_only_profit_ratio'' (at_exit_only_profit_ratio t)) (\<lambda>exit_only.
         bindr (nonnegative ''staged_peak_drawdown_ratio'' (at_staged_peak_drawdown_ratio t)) (\<lambda>drawdown.
         bindr (require_dec (ValueError ''staged_reduction_multiplier must be a Decimal in (0, 1]'')
                  (\<lambda>q. 0 < q \<and> q \<le> 1) (at_staged_reduction_multiplier t)) (\<lambda>multiplier.
         raise_if (at_max_valuation_age t \<le> 0) (ValueError ''max_valuation_age must be positive'')
        (Inr \<lparr>at_staged_profit_ratio = staged, at_exit_only_profit_ratio = exit_only,
              at_staged_peak_drawdown_ratio = drawdown, at_staged_reduction_multiplier = multiplier,
              at_max_valuation_age = at_max_valuation_age t\<rparr>))))))"

definition rate_ratio :: "decimal \<Rightarrow> string \<Rightarrow> rat result" where
  "rate_ratio value field_name =
     bindr (require_dec (ValueError (field_name @ '' must be a nonnegative finite Decimal'')) (\<lambda>q. 0 \<le> q) value)
       (\<lambda>q. ddiv q 100)"

definition staged_reduction_multiplier :: rat where
  "staged_reduction_multiplier = 3 / 4"

definition default_max_valuation_age :: duration where
  "default_max_valuation_age = 5 * 60 * 1000000"

definition from_risk_rates :: "decimal \<Rightarrow> decimal \<Rightarrow> acc_thresholds result" where
  "from_risk_rates daily_target_rate_pct max_daily_loss_rate_pct =
     bindr (rate_ratio daily_target_rate_pct ''daily_target_rate_pct'') (\<lambda>goal_ratio.
     bindr (rate_ratio max_daily_loss_rate_pct ''max_daily_loss_rate_pct'') (\<lambda>max_loss_ratio.
     bindr (dmul goal_ratio (1 / 2)) (\<lambda>half_goal.
     bindr (dmul max_loss_ratio (1 / 2)) (\<lambda>half_loss.
     account_thresholds_post_init
       \<lparr>at_staged_profit_ratio = DFinite half_goal, at_exit_only_profit_ratio = DFinite goal_ratio,
        at_staged_peak_drawdown_ratio = DFinite half_loss,
        at_staged_reduction_multiplier = DFinite staged_reduction_multiplier,
        at_max_valuation_age = default_max_valuation_age\<rparr>))))"

definition account_thresholds_evidence :: "(rat \<Rightarrow> string) \<Rightarrow> acc_thresholds \<Rightarrow> json" where
  "account_thresholds_evidence dtext t = JObj
     [(''stagedProfitRatio'', JStr (dtext (at_staged_profit_ratio t))),
      (''exitOnlyProfitRatio'', JStr (dtext (at_exit_only_profit_ratio t))),
      (''stagedPeakDrawdownRatio'', JStr (dtext (at_staged_peak_drawdown_ratio t))),
      (''stagedReductionMultiplier'', JStr (dtext (at_staged_reduction_multiplier t)))]"

definition optional_stage :: "string \<Rightarrow> rat \<Rightarrow> rat \<Rightarrow> rat reduction_stage list result" where
  "optional_stage name ratio multiplier =
     (if 0 < ratio
      then bindr (reduction_stage_post_init
                    \<lparr>stage_name = name, stage_trigger_ratio = DFinite ratio, stage_buy_multiplier = DFinite multiplier\<rparr>)
             (\<lambda>stage. Inr [stage])
      else Inr [])"

definition as_shadow_thresholds :: "acc_thresholds \<Rightarrow> thresholds result" where
  "as_shadow_thresholds t =
     bindr (optional_stage ''account-state-profit-reduction'' (at_staged_profit_ratio t)
              (at_staged_reduction_multiplier t)) (\<lambda>profit_stages.
     bindr (optional_stage ''account-state-drawdown-reduction'' (at_staged_peak_drawdown_ratio t)
              (at_staged_reduction_multiplier t)) (\<lambda>drawdown_stages.
     hwm_thresholds_post_init
       \<lparr>th_profit_target_stages = profit_stages, th_peak_drawdown_stages = drawdown_stages,
        th_maximum_loss_ratio = DFinite 1, th_max_valuation_age = at_max_valuation_age t\<rparr>))"

subsection \<open>Evaluations and the gate\<close>

record account_evaluation =
  ae_market :: string
  ae_state :: account_state
  ae_profit_ratio :: "rat option"
  ae_peak_drawdown_ratio :: "rat option"
  ae_multiplier :: rat
  ae_thresholds :: acc_thresholds
  ae_unavailable :: "string option"
  ae_persist_failed :: "string option"

definition account_evaluation_evidence :: "(rat \<Rightarrow> string) \<Rightarrow> account_evaluation \<Rightarrow> json_object" where
  "account_evaluation_evidence dtext e =
     [(''schemaVersion'', JStr ''kasset.account-state.v1''),
      (''state'', JStr (account_state_value (ae_state e))),
      (''profitRatio'', json_optional (\<lambda>q. JStr (dtext q)) (ae_profit_ratio e)),
      (''peakDrawdownRatio'', json_optional (\<lambda>q. JStr (dtext q)) (ae_peak_drawdown_ratio e)),
      (''multiplier'', JStr (dtext (ae_multiplier e))),
      (''thresholds'', account_thresholds_evidence dtext (ae_thresholds e)),
      (''unavailable'', json_optional JStr (ae_unavailable e)),
      (''persistFailed'', json_optional JStr (ae_persist_failed e))]"

definition unavailable_account_state :: "string \<Rightarrow> acc_thresholds \<Rightarrow> string \<Rightarrow> account_evaluation" where
  "unavailable_account_state market th why =
     \<lparr>ae_market = market, ae_state = STATE_NORMAL, ae_profit_ratio = None, ae_peak_drawdown_ratio = None,
      ae_multiplier = 1, ae_thresholds = th, ae_unavailable = Some why, ae_persist_failed = None\<rparr>"

text \<open>\<open>_MARKET_BOOKS\<close>: the book, currency and instrument type of a market label.\<close>

definition market_books :: "(string \<times> string \<times> string \<times> string) list" where
  "market_books =
     [(''KR'', ''KRX'', ''KRW'', ''equity_kr''), (''KRX'', ''KRX'', ''KRW'', ''equity_kr''),
      (''US'', ''US'', ''USD'', ''equity_us'')]"

definition account_normalize_market :: "string \<Rightarrow> string result" where
  "account_normalize_market value =
     (case map_of market_books (strip_upper value) of
        None \<Rightarrow> Inl (ValueError (''unsupported account state market: '' @ value))
      | Some (market, _) \<Rightarrow> Inr market)"

record account_snapshot =
  sn_thresholds :: acc_thresholds
  sn_evaluations :: "account_evaluation list"

definition for_market :: "account_snapshot \<Rightarrow> string \<Rightarrow> account_evaluation result" where
  "for_market s market =
     bindr (account_normalize_market market) (\<lambda>normalized.
     case find (\<lambda>e. ae_market e = normalized) (sn_evaluations s) of
       Some e \<Rightarrow> Inr e
     | None \<Rightarrow> Inr (unavailable_account_state normalized (sn_thresholds s) ''market_not_evaluated''))"

fun state_priority :: "account_state \<Rightarrow> nat" where
  "state_priority STATE_NORMAL = 0"
| "state_priority STATE_STAGED_REDUCTION = 1"
| "state_priority STATE_EXIT_ONLY = 2"

text \<open>Comparison of the key (priority, market); the first maximum wins. Markets are \<open>KRX\<close> or \<open>US\<close>.\<close>

definition evaluation_before :: "account_evaluation \<Rightarrow> account_evaluation \<Rightarrow> bool" where
  "evaluation_before a b \<longleftrightarrow> state_priority (ae_state a) < state_priority (ae_state b)
     \<or> state_priority (ae_state a) = state_priority (ae_state b) \<and> ae_market a = ''KRX'' \<and> ae_market b = ''US''"

fun max_evaluation :: "account_evaluation \<Rightarrow> account_evaluation list \<Rightarrow> account_evaluation" where
  "max_evaluation best [] = best"
| "max_evaluation best (e # es) = max_evaluation (if evaluation_before best e then e else best) es"

definition snapshot_evidence :: "(rat \<Rightarrow> string) \<Rightarrow> account_snapshot \<Rightarrow> json" where
  "snapshot_evidence dtext s =
     (case sn_evaluations s of
        [] \<Rightarrow> JObj (account_evaluation_evidence dtext
                 (unavailable_account_state ''KRX'' (sn_thresholds s) ''market_scope_unavailable'')
               @ [(''representativeMarket'', JNull)])
      | e # es \<Rightarrow>
          let representative = max_evaluation e es
          in JObj (account_evaluation_evidence dtext representative
               @ [(''representativeMarket'', JStr (ae_market representative))]
               @ (if es = [] then []
                  else [(''books'', JObj (map (\<lambda>x. (ae_market x, JObj (account_evaluation_evidence dtext x))) (e # es)))])))"

definition account_state_from_shadow :: "hwm_evaluation \<Rightarrow> acc_thresholds \<Rightarrow> account_evaluation result" where
  "account_state_from_shadow shadow th =
     bindr (account_normalize_market (va_market (he_valuation shadow))) (\<lambda>market.
     case (he_status shadow, he_profit_ratio shadow, he_peak_drawdown_ratio shadow) of
       (EV_VALID, Some profit, Some drawdown) \<Rightarrow>
         let (state, multiplier) =
           (if at_exit_only_profit_ratio th \<le> profit then (STATE_EXIT_ONLY, 0)
            else if at_staged_profit_ratio th \<le> profit \<or> at_staged_peak_drawdown_ratio th \<le> drawdown
                    \<or> he_buy_state shadow = STAGED_REDUCTION
            then (STATE_STAGED_REDUCTION, at_staged_reduction_multiplier th)
            else (STATE_NORMAL, 1))
         in Inr \<lparr>ae_market = market, ae_state = state, ae_profit_ratio = Some profit,
                 ae_peak_drawdown_ratio = Some drawdown, ae_multiplier = multiplier, ae_thresholds = th,
                 ae_unavailable = None, ae_persist_failed = None\<rparr>
     | _ \<Rightarrow>
         Inr (unavailable_account_state market th
                (case he_reasons shadow of
                   [] \<Rightarrow> ''high_watermark_unavailable''
                 | r # _ \<Rightarrow> reason_code_value (fst r))))"

record account_gate_result =
  ag_code :: string
  ag_passed :: bool
  ag_reason :: "string option"
  ag_detail :: string
  ag_evidence :: json

definition none_text :: "('a \<Rightarrow> string) \<Rightarrow> 'a option \<Rightarrow> string" where
  "none_text f v = (case v of None \<Rightarrow> ''None'' | Some x \<Rightarrow> f x)"

definition evaluate_account_state_gate ::
    "(rat \<Rightarrow> string) \<Rightarrow> string \<Rightarrow> account_evaluation option \<Rightarrow> account_gate_result" where
  "evaluate_account_state_gate dtext action evaluation =
     (case evaluation of
        None \<Rightarrow>
          \<lparr>ag_code = ''ACCOUNT_STATE'', ag_passed = True, ag_reason = Some ''unavailable'',
           ag_detail = ''state=NORMAL; unavailable=account_state_not_supplied'',
           ag_evidence = JObj
             [(''schemaVersion'', JStr ''kasset.account-state.v1''), (''state'', JStr ''NORMAL''), (''profitRatio'', JNull),
              (''peakDrawdownRatio'', JNull), (''multiplier'', JStr (dtext 1)), (''thresholds'', JObj []),
              (''unavailable'', JStr ''account_state_not_supplied''), (''persistFailed'', JNull)]\<rparr>
      | Some e \<Rightarrow>
          let (passed, reason) =
            (if py_upper action = ''SELL'' then (True, None)
             else if ae_unavailable e \<noteq> None then (True, Some ''unavailable'')
             else if ae_state e = STATE_EXIT_ONLY then (False, Some ''exit_only'')
             else (True, None))
          in \<lparr>ag_code = ''ACCOUNT_STATE'', ag_passed = passed, ag_reason = reason,
              ag_detail = ''state='' @ account_state_value (ae_state e)
                @ ''; profitRatio='' @ none_text dtext (ae_profit_ratio e)
                @ ''; peakDrawdownRatio='' @ none_text dtext (ae_peak_drawdown_ratio e)
                @ ''; multiplier='' @ dtext (ae_multiplier e)
                @ ''; reason='' @ (case reason of None \<Rightarrow> ''clear'' | Some r \<Rightarrow> r)
                @ ''; unavailable='' @ none_text (\<lambda>x. x) (ae_unavailable e)
                @ ''; persistFailed='' @ none_text (\<lambda>x. x) (ae_persist_failed e),
              ag_evidence = JObj (account_evaluation_evidence dtext e)\<rparr>)"

subsection \<open>Valuation of a book\<close>

fun sum_positions :: "string \<Rightarrow> valued_position list \<Rightarrow> rat \<Rightarrow> rat result" where
  "sum_positions instrument_type [] equity = Inr equity"
| "sum_positions instrument_type (row # rows) equity =
     (if vp_instrument_type row \<noteq> instrument_type then sum_positions instrument_type rows equity
      else case vp_evaluation_amount row of
             None \<Rightarrow> Inl (ValueError (''position_valuation_unavailable:'' @ vp_symbol row))
           | Some amount \<Rightarrow>
               raise_if (vp_quote_is_stale row = Some True) (ValueError (''position_quote_stale:'' @ vp_symbol row))
              (raise_if (amount < 0) (ValueError (''position_valuation_invalid:'' @ vp_symbol row))
              (bindr (dadd equity amount) (sum_positions instrument_type rows))))"

definition book_of :: "string \<Rightarrow> string \<times> string" where
  "book_of market = (case map_of market_books market of Some (_, book) \<Rightarrow> book | None \<Rightarrow> ([], []))"

definition book_valuation ::
    "int \<Rightarrow> rat \<Rightarrow> valued_position list \<Rightarrow> int \<Rightarrow> string \<Rightarrow> py_datetime \<Rightarrow> equity_valuation result" where
  "book_valuation account_id cash_amount positions owner_user_id market now =
     (case book_of market of (currency, instrument_type) \<Rightarrow>
        raise_if (cash_amount < 0) (ValueError (py_lower currency @ ''_cash_unavailable''))
       (bindr (sum_positions instrument_type positions cash_amount) (\<lambda>equity.
        raise_if (equity \<le> 0) (ValueError ''book_equity_unavailable'')
       (raise_if (account_id < 1) (ValueError ''paper_account_unavailable'')
       (Inr \<lparr>va_owner_user_id = owner_user_id, va_account_key = ''PAPER-'' @ py_str_int account_id,
             va_market = market, va_equity = DFinite equity, va_valuation_at = now, va_evaluated_at = now,
             va_valuation_source = ''paper-trading-service'', va_reference_equity = None\<rparr>)))))"

subsection \<open>Evaluation of an owner\<close>

definition unavailable_reason :: "(py_error \<Rightarrow> string) \<Rightarrow> (py_error \<Rightarrow> string) \<Rightarrow> py_error \<Rightarrow> string" where
  "unavailable_reason etext ename e =
     (let text = py_strip (etext e) in if text \<noteq> [] \<and> length text \<le> 128 then text else ename e)"

record gate_context =
  gc_tz :: "string \<Rightarrow> instant \<Rightarrow> duration"
  gc_dtext :: "rat \<Rightarrow> string"
  gc_ktext :: "reason_detail \<Rightarrow> string"
  gc_etext :: "py_error \<Rightarrow> string"
  gc_ename :: "py_error \<Rightarrow> string"

text \<open>The calculation of one market, as far as the first \<open>try\<close> reaches.\<close>

definition observe_book ::
    "gate_context \<Rightarrow> hwm_table \<Rightarrow> acc_thresholds \<Rightarrow> equity_valuation result \<Rightarrow> (hwm_evaluation \<times> account_evaluation) result" where
  "observe_book gc t th valuation =
     bindr valuation (\<lambda>v.
     bindr (market_trading_date (gc_tz gc) (va_market v) (va_valuation_at v)) (\<lambda>day.
     bindr (load_shadow_high_watermark t (va_owner_user_id v) (va_account_key v) (va_market v) day) (\<lambda>previous.
     bindr (as_shadow_thresholds th) (\<lambda>shadow_thresholds.
     bindr (evaluate_shadow_high_watermark (gc_tz gc) (gc_dtext gc) v shadow_thresholds previous) (\<lambda>shadow.
     bindr (account_state_from_shadow shadow th) (\<lambda>evaluation.
     Inr (shadow, evaluation)))))))"

definition evaluate_book ::
    "gate_context \<Rightarrow> hwm_table \<Rightarrow> acc_thresholds \<Rightarrow> string \<Rightarrow> equity_valuation result \<Rightarrow> hwm_table \<times> account_evaluation" where
  "evaluate_book gc t th market valuation =
     (case observe_book gc t th valuation of
        Inl e \<Rightarrow> (t, unavailable_account_state market th (unavailable_reason (gc_etext gc) (gc_ename gc) e))
      | Inr (shadow, evaluation) \<Rightarrow>
          if persistence_required shadow
          then (case persist_shadow_high_watermark (gc_dtext gc) (gc_ktext gc) t shadow of
                  (_, Inl e) \<Rightarrow>
                    (t, evaluation\<lparr>ae_persist_failed := Some (unavailable_reason (gc_etext gc) (gc_ename gc) e)\<rparr>)
                | (t', Inr _) \<Rightarrow> (t', evaluation))
          else (t, evaluation))"

fun evaluate_books ::
    "gate_context \<Rightarrow> hwm_table \<Rightarrow> acc_thresholds \<Rightarrow> (string \<Rightarrow> equity_valuation result) \<Rightarrow> string list
      \<Rightarrow> hwm_table \<times> account_evaluation list" where
  "evaluate_books gc t th valuation [] = (t, [])"
| "evaluate_books gc t th valuation (market # markets) =
     (case evaluate_book gc t th market (valuation market) of
        (t1, e) \<Rightarrow> (case evaluate_books gc t1 th valuation markets of (t2, es) \<Rightarrow> (t2, e # es)))"

text \<open>The account, its positions and its cash, or the exception that makes the state unavailable.\<close>

definition account_source ::
    "quote_source \<Rightarrow> instant \<Rightarrow> ledger \<Rightarrow> (int \<times> int) list \<Rightarrow> int \<Rightarrow> (int \<times> paper_account \<times> valued_position list) result" where
  "account_source fetch observed_at l links owner_user_id =
     (case map_of links owner_user_id of
        None \<Rightarrow> Inl (LookupError ''paper_account_unavailable'')
      | Some account_id \<Rightarrow>
          (case get_account l account_id of
             None \<Rightarrow> Inl (LookupError ''paper_account_unavailable'')
           | Some account \<Rightarrow>
               bindr (get_positions fetch observed_at l account_id None) (\<lambda>positions.
               Inr (account_id, account, positions))))"

definition evaluate_owner ::
    "gate_context \<Rightarrow> quote_source \<Rightarrow> instant \<Rightarrow> ledger \<Rightarrow> (int \<times> int) list \<Rightarrow> hwm_table \<Rightarrow> int \<Rightarrow> string list \<Rightarrow> decimal
      \<Rightarrow> decimal \<Rightarrow> py_datetime \<Rightarrow> hwm_table \<times> account_snapshot result" where
  "evaluate_owner gc fetch observed_at l links t owner_user_id markets daily_target_rate_pct max_daily_loss_rate_pct now =
     (case bindr (from_risk_rates daily_target_rate_pct max_daily_loss_rate_pct) (\<lambda>th.
           bindr (mapr account_normalize_market markets) (\<lambda>ms. Inr (th, ms))) of
        Inl e \<Rightarrow> (t, Inl e)
      | Inr (th, ms) \<Rightarrow>
          let normalized_markets = filter (\<lambda>m. m \<in> set ms) [''KRX'', ''US'']
          in if normalized_markets = [] then (t, Inr \<lparr>sn_thresholds = th, sn_evaluations = []\<rparr>)
             else (case account_source fetch observed_at l links owner_user_id of
                     Inl e \<Rightarrow>
                       (t, Inr \<lparr>sn_thresholds = th, sn_evaluations =
                          map (\<lambda>m. unavailable_account_state m th (unavailable_reason (gc_etext gc) (gc_ename gc) e))
                            normalized_markets\<rparr>)
                   | Inr (account_id, account, positions) \<Rightarrow>
                       let valuation = (\<lambda>market. book_valuation account_id
                             (if market = ''KRX'' then pa_cash_krw account else pa_cash_usd account)
                             positions owner_user_id market now)
                       in (case evaluate_books gc t th valuation normalized_markets of
                             (t', es) \<Rightarrow> (t', Inr \<lparr>sn_thresholds = th, sn_evaluations = es\<rparr>))))"

end
