(* ===== verification/Account_State_Rules.thy ===== *)
theory Account_State_Rules
  imports Account_State High_Watermark_Rules
begin

text \<open>
  What the account-state gate promises: which state a book is in, in terms of the equities seen
  on the trading day, that the day's row is kept up to date, and that anything that cannot be
  calculated leaves buying open and selling is never blocked.
\<close>

subsection \<open>Thresholds from the risk rates\<close>

lemma rate_ratio_Inr:
  assumes "rate_ratio value name = Inr q"
  shows "0 \<le> q" and "\<exists>pct. value = DFinite pct \<and> 0 \<le> pct \<and> q = dec_fix (pct / 100)"
  using assms by (auto simp: rate_ratio_def elim!: bindrE dest!: ddiv_Inr intro: dec.nonneg)

lemma account_thresholds_Inr:
  assumes "account_thresholds_post_init t = Inr th"
  shows "at_staged_profit_ratio t = DFinite (at_staged_profit_ratio th)"
    "at_exit_only_profit_ratio t = DFinite (at_exit_only_profit_ratio th)"
    "at_staged_peak_drawdown_ratio t = DFinite (at_staged_peak_drawdown_ratio th)"
    "at_staged_reduction_multiplier t = DFinite (at_staged_reduction_multiplier th)"
    "0 \<le> at_staged_profit_ratio th" "0 \<le> at_staged_peak_drawdown_ratio th" "0 < at_max_valuation_age th"
  using assms unfolding account_thresholds_post_init_def Let_def
  by (elim bindrE; auto simp: require_dec_Inr)+

lemma from_risk_rates_Inr:
  assumes "from_risk_rates target loss = Inr th"
  shows "0 \<le> at_staged_profit_ratio th" "at_staged_profit_ratio th \<le> at_exit_only_profit_ratio th"
    "0 \<le> at_staged_peak_drawdown_ratio th" "at_staged_reduction_multiplier th = 3 / 4" "0 < at_max_valuation_age th"
proof -
  obtain goal max_loss half_goal half_loss where
      g: "rate_ratio target ''daily_target_rate_pct'' = Inr goal" "dmul goal (1 / 2) = Inr half_goal"
      and init: "account_thresholds_post_init \<lparr>at_staged_profit_ratio = DFinite half_goal, at_exit_only_profit_ratio = DFinite goal,
        at_staged_peak_drawdown_ratio = DFinite half_loss, at_staged_reduction_multiplier = DFinite staged_reduction_multiplier,
        at_max_valuation_age = default_max_valuation_age\<rparr> = Inr th"
    using assms unfolding from_risk_rates_def by (elim bindrE) blast
  note th = account_thresholds_Inr [OF init, simplified]
  obtain pct where "goal = dec_fix (pct / 100)" using rate_ratio_Inr(2) [OF g(1)] by blast
  then have "dec_fix goal = goal" using representable_fix [OF dec_fix_representable] by simp
  then have "half_goal \<le> goal"
    unfolding dmul_Inr [OF g(2)] using rate_ratio_Inr(1) [OF g(1)] by (intro dec.below_kept) simp_all
  with th show "0 \<le> at_staged_profit_ratio th" "at_staged_profit_ratio th \<le> at_exit_only_profit_ratio th"
    "0 \<le> at_staged_peak_drawdown_ratio th" "at_staged_reduction_multiplier th = 3 / 4" "0 < at_max_valuation_age th"
    by (simp_all add: staged_reduction_multiplier_def)
qed

text \<open>The stages the observation is run with: the same ratios, where they are positive.\<close>

lemma as_shadow_thresholds_returns:
  assumes "from_risk_rates target loss = Inr th"
  shows "\<exists>sth. as_shadow_thresholds th = Inr sth \<and> th_max_valuation_age sth = at_max_valuation_age th
    \<and> (\<forall>s\<in>set (th_profit_target_stages sth). stage_trigger_ratio s = at_staged_profit_ratio th)
    \<and> (\<forall>s\<in>set (th_peak_drawdown_stages sth). stage_trigger_ratio s = at_staged_peak_drawdown_ratio th)"
proof -
  note th = from_risk_rates_Inr [OF assms]
  have names: "py_strip ''account-state-profit-reduction'' \<noteq> []" "py_strip ''account-state-drawdown-reduction'' \<noteq> []"
    by code_simp+
  then have stage: "optional_stage name ratio (3 / 4) = Inr (if 0 < ratio
      then [\<lparr>stage_name = name, stage_trigger_ratio = ratio, stage_buy_multiplier = 3 / 4\<rparr>] else [])"
    if "py_strip name \<noteq> []" for name ratio
    using that by (simp add: optional_stage_def reduction_stage_post_init_def)
  show ?thesis
    unfolding as_shadow_thresholds_def th(4) stage [OF names(1)] stage [OF names(2)]
    using th(5) by (simp add: hwm_thresholds_post_init_def validate_stages_def)
qed

subsection \<open>The state of a valid evaluation\<close>

definition state_of_ratios :: "acc_thresholds \<Rightarrow> rat \<Rightarrow> rat \<Rightarrow> account_state" where
  "state_of_ratios th profit drawdown =
     (if at_exit_only_profit_ratio th \<le> profit then STATE_EXIT_ONLY
      else if at_staged_profit_ratio th \<le> profit \<or> at_staged_peak_drawdown_ratio th \<le> drawdown
      then STATE_STAGED_REDUCTION else STATE_NORMAL)"

fun state_multiplier :: "account_state \<Rightarrow> rat" where
  "state_multiplier STATE_NORMAL = 1"
| "state_multiplier STATE_STAGED_REDUCTION = 3 / 4"
| "state_multiplier STATE_EXIT_ONLY = 0"

lemma staged_only_when_triggered:
  assumes "valid_evaluation v sth fp st expected why = Inr e" and "he_buy_state e = STAGED_REDUCTION"
    and "he_profit_ratio e = Some profit" and "he_peak_drawdown_ratio e = Some drawdown"
  shows "(\<exists>s\<in>set (th_profit_target_stages sth). stage_trigger_ratio s \<le> profit)
    \<or> (\<exists>s\<in>set (th_peak_drawdown_stages sth). stage_trigger_ratio s \<le> drawdown)"
proof -
  have "triggered_of PROFIT_TARGET profit (th_profit_target_stages sth)
      @ triggered_of PEAK_DRAWDOWN drawdown (th_peak_drawdown_stages sth) \<noteq> []"
    using assms unfolding valid_evaluation_def Let_def by (elim bindrE) (auto split: if_splits)
  then show ?thesis by (auto simp: triggered_of_def filter_empty_conv)
qed

text \<open>The reduction the observation reports adds nothing to the two ratios.\<close>

lemma account_state_of_valid:
  assumes "from_risk_rates target loss = Inr th" and "as_shadow_thresholds th = Inr sth"
    and "evaluate_shadow_high_watermark tz dtext v sth previous = Inr e" and "he_status e = EV_VALID"
    and "he_profit_ratio e = Some profit" and "he_peak_drawdown_ratio e = Some drawdown"
    and "account_normalize_market (va_market (he_valuation e)) = Inr market"
  shows "account_state_from_shadow e th = Inr \<lparr>ae_market = market, ae_state = state_of_ratios th profit drawdown,
      ae_profit_ratio = Some profit, ae_peak_drawdown_ratio = Some drawdown,
      ae_multiplier = state_multiplier (state_of_ratios th profit drawdown), ae_thresholds = th,
      ae_unavailable = None, ae_persist_failed = None\<rparr>"
proof -
  from as_shadow_thresholds_returns [OF assms(1)] assms(2) have stages:
    "\<forall>s\<in>set (th_profit_target_stages sth). stage_trigger_ratio s = at_staged_profit_ratio th"
    "\<forall>s\<in>set (th_peak_drawdown_stages sth). stage_trigger_ratio s = at_staged_peak_drawdown_ratio th" by auto
  have "at_staged_profit_ratio th \<le> profit \<or> at_staged_peak_drawdown_ratio th \<le> drawdown"
    if "he_buy_state e = STAGED_REDUCTION"
    using evaluate_hwm_cases [OF assms(3)]
  proof (elim disjE exE conjE)
    fix day status code
    assume "status \<noteq> EV_VALID" "e = non_actionable v sth (thresholds_fingerprint dtext sth) previous day status code"
    with assms(4) show ?thesis by (simp add: non_actionable_def)
  next
    fix st expected why
    assume "valid_evaluation v sth (thresholds_fingerprint dtext sth) st expected why = Inr e"
    from staged_only_when_triggered [OF this that assms(5,6)] stages show ?thesis by auto
  qed
  then show ?thesis
    using assms(4-7) from_risk_rates_Inr(4) [OF assms(1)]
    by (auto simp: account_state_from_shadow_def state_of_ratios_def Let_def)
qed

lemma evaluate_hwm_valuation:
  assumes "evaluate_shadow_high_watermark tz dtext v th previous = Inr e"
  shows "he_valuation e = v"
  using evaluate_hwm_cases [OF assms]
  by (auto simp: non_actionable_def valid_evaluation_def Let_def elim!: bindrE split: if_splits)

subsection \<open>The valuation of a book\<close>

definition book_source :: string where
  "book_source = ''paper-trading-service''"

lemma market_labels:
  "py_upper ''KRX'' = ''KRX''" "py_upper ''US'' = ''US''"
  "account_normalize_market ''KRX'' = Inr ''KRX''" "account_normalize_market ''US'' = Inr ''US''"
  "py_strip ''paper-trading-service'' \<noteq> []"
  by code_simp+

lemma account_key_nonempty: "py_strip (''PAPER-'' @ s) \<noteq> []"
  unfolding py_strip_nonempty by (rule bexI [of _ "CHR ''P''"]) (simp_all add: is_space_def)

lemma book_valuation_Inr:
  assumes "book_valuation account_id cash_amount rows owner market now = Inr v"
  obtains q where "0 < q" "v = \<lparr>va_owner_user_id = owner, va_account_key = ''PAPER-'' @ py_str_int account_id,
    va_market = market, va_equity = DFinite q, va_valuation_at = now, va_evaluated_at = now,
    va_valuation_source = book_source, va_reference_equity = None\<rparr>"
  using assms by (auto simp: book_valuation_def book_source_def elim!: bindrE split: prod.splits)

lemma book_checked:
  assumes "book_valuation account_id cash_amount rows owner market (Aware n) = Inr v" and "va_equity v = DFinite q"
    and "0 < owner" and "market \<in> {''KRX'', ''US''}" and "0 < th_max_valuation_age sth"
  shows "check_valuation tz v sth = Inr \<lparr>cv_market = market, cv_at = n, cv_date = utc_date (n + tz market n),
    cv_equity = q, cv_reference = None\<rparr>"
proof -
  from assms(1) obtain q' where "0 < q'" and v: "v = \<lparr>va_owner_user_id = owner,
      va_account_key = ''PAPER-'' @ py_str_int account_id, va_market = market, va_equity = DFinite q', va_valuation_at = Aware n,
      va_evaluated_at = Aware n, va_valuation_source = book_source, va_reference_equity = None\<rparr>"
    by (rule book_valuation_Inr)
  then show ?thesis
    using assms(2-5) account_key_nonempty [of "py_str_int account_id"] market_labels
    by (auto simp: check_valuation_def hwm_markets_def book_source_def Let_def)
qed

text \<open>The state and multiplier of a book follow from the log of the day.\<close>

lemma evaluate_book_log:
  assumes rates: "from_risk_rates target loss = Inr th" and scope: "0 < owner" "market \<in> {''KRX'', ''US''}"
    and v: "book_valuation account_id cash_amount rows owner market (Aware n) = Inr v" "va_equity v = DFinite q" "money q"
    and k: "k = (owner, ''PAPER-'' @ py_str_int account_id, market, utc_date (n + gc_tz gc market n))"
    and log: "tracks t k reference vs" "vs = [] \<longrightarrow> reference = q" "vs = [] \<or> fst (last vs) < n"
  defines "day \<equiv> vs @ [(n, q, book_source)]"
  shows "\<exists>t' e. evaluate_book gc t th market (Inr v) = (t', e) \<and> tracks t' k reference day \<and> (\<forall>k'. k' \<noteq> k \<longrightarrow> t' k' = t k')
    \<and> ae_market e = market \<and> ae_unavailable e = None \<and> ae_persist_failed e = None
    \<and> ae_profit_ratio e = Some (profit_of (day_summary k reference day))
    \<and> ae_state e = state_of_ratios th (profit_of (day_summary k reference day)) (drawdown_of (day_summary k reference day))
    \<and> ae_multiplier e = state_multiplier (ae_state e)"
proof -
  from as_shadow_thresholds_returns [OF rates] from_risk_rates_Inr(5) [OF rates] obtain sth where
    sth: "as_shadow_thresholds th = Inr sth" "0 < th_max_valuation_age sth" by auto
  note checked = book_checked [OF v(1,2) scope sth(2), of "gc_tz gc"]
  obtain q' where v': "v = \<lparr>va_owner_user_id = owner,
      va_account_key = ''PAPER-'' @ py_str_int account_id, va_market = market, va_equity = DFinite q', va_valuation_at = Aware n,
      va_evaluated_at = Aware n, va_valuation_source = book_source, va_reference_equity = None\<rparr>"
    using v(1) by (rule book_valuation_Inr)
  have x: "accept vs (n, q, book_source) = day" "day \<noteq> vs" using log(3) by (auto simp: accept_def day_def)
  from log_step [OF checked, of k t reference vs "gc_dtext gc" "gc_ktext gc"] v(3) k log v' x
  obtain previous e where e: "load_shadow_high_watermark t owner (va_account_key v) market (utc_date (n + gc_tz gc market n)) = Inr previous"
      "evaluate_shadow_high_watermark (gc_tz gc) (gc_dtext gc) v sth previous = Inr e"
      "log_written (gc_dtext gc) (gc_ktext gc) t k reference vs (n, q, book_source) e"
    by (auto simp: valuation_key_def valuation_entry_def)
  then obtain r where r: "persistence_required e" "he_status e = EV_VALID"
      "he_profit_ratio e = Some (profit_of (day_summary k reference day))"
      "he_peak_drawdown_ratio e = Some (drawdown_of (day_summary k reference day))"
      "persist_shadow_high_watermark (gc_dtext gc) (gc_ktext gc) t e = (t(k \<mapsto> r), Inr (day_summary k reference day))"
      "tracks (t(k \<mapsto> r)) k reference day"
    using x by (auto simp: log_written_def)
  have "he_valuation e = v" using evaluate_hwm_valuation [OF e(2)] .
  then have "account_normalize_market (va_market (he_valuation e)) = Inr market" using scope(2) market_labels v' by auto
  note state = account_state_of_valid [OF rates sth(1) e(2) r(2-4) this]
  have "market_trading_date (gc_tz gc) market (Aware n) = Inr (utc_date (n + gc_tz gc market n))"
    using check_valuation_Inr(5) [OF checked] v' by simp
  then have "observe_book gc t th (Inr v) = Inr (e, \<lparr>ae_market = market,
      ae_state = state_of_ratios th (profit_of (day_summary k reference day)) (drawdown_of (day_summary k reference day)),
      ae_profit_ratio = Some (profit_of (day_summary k reference day)),
      ae_peak_drawdown_ratio = Some (drawdown_of (day_summary k reference day)),
      ae_multiplier = state_multiplier (state_of_ratios th (profit_of (day_summary k reference day)) (drawdown_of (day_summary k reference day))),
      ae_thresholds = th, ae_unavailable = None, ae_persist_failed = None\<rparr>)"
    using e(1,2) sth(1) state v' by (simp add: observe_book_def)
  then show ?thesis using r by (simp add: evaluate_book_def)
qed

subsection \<open>Books do not interfere\<close>

text \<open>Tables that agree on the rows of a market.\<close>

definition same_market :: "string \<Rightarrow> hwm_table \<Rightarrow> hwm_table \<Rightarrow> bool" where
  "same_market market t t' \<longleftrightarrow> (\<forall>owner account day. t (owner, account, market, day) = t' (owner, account, market, day))"

lemma same_market_refl: "same_market m t t"
  by (simp add: same_market_def)

lemma same_market_trans: "same_market m t u \<Longrightarrow> same_market m u w \<Longrightarrow> same_market m t w"
  by (simp add: same_market_def)

lemma tracks_same_market: "same_market m t t' \<Longrightarrow> tracks t (a, b, m, d) r vs \<longleftrightarrow> tracks t' (a, b, m, d) r vs"
  by (simp add: tracks_def same_market_def)

lemma persist_one_key:
  assumes "persist_shadow_high_watermark dtext ktext t e = (t', r)"
  shows "t' = t \<or> (\<exists>st row. he_status e = EV_VALID \<and> he_state e = Some st \<and> t' = t(hwm_state_key st \<mapsto> row))"
proof -
  have key: "hwm_row_key (hwm_persistence_values st j) = hwm_state_key st" for st j
    by (simp add: hwm_row_key_def hwm_state_key_def hwm_persistence_values_def)
  have ins: "fst (written t st (insert_hwm t row)) = t \<or> (\<exists>x. fst (written t st (insert_hwm t row)) = t(hwm_row_key row \<mapsto> x))"
      "fst (written t st (update_hwm t row expected)) = t
        \<or> (\<exists>x. fst (written t st (update_hwm t row expected)) = t(hwm_row_key row \<mapsto> x))" for st row expected
    using insert_hwm_cases [of t row] update_hwm_cases [of t row expected]
    by (auto simp: written_table split: sum.split prod.split)
  have "t' = fst (persist_shadow_high_watermark dtext ktext t e)" using assms by simp
  then show ?thesis
    using ins [of _ "hwm_persistence_values _ _"]
    by (auto simp: persist_shadow_high_watermark_def Let_def key split: evidence_status.splits option.splits if_splits)
qed

lemma evaluated_state_market:
  assumes "evaluate_shadow_high_watermark tz dtext v th previous = Inr e" and "he_status e = EV_VALID" and "he_state e = Some st"
  shows "hw_market st = py_upper (va_market v)"
proof (cases "check_valuation tz v th")
  case (Inl refusal)
  with assms show ?thesis
    by (cases refusal) (auto simp: evaluate_shadow_high_watermark_def non_actionable_def check_valuation_def Let_def
        split: if_splits option.splits)
next
  case (Inr cv)
  have state: "valid_evaluation v th fp st' expected why = Inr e \<Longrightarrow> st' = st" for fp st' expected why
    using assms(3) by (auto simp: valid_evaluation_def Let_def elim!: bindrE split: if_splits)
  have init: "hwm_state_post_init s' = Inr s'' \<Longrightarrow> s'' = s'" for s' s'' by (auto simp: hwm_state_post_init_def)
  from assms Inr check_valuation_Inr(4) [OF Inr] show ?thesis
    by (auto simp: evaluate_shadow_high_watermark_def opening_state_def next_state_def non_actionable_def Let_def
        elim!: bindrE dest!: state init split: option.splits if_splits)
qed

lemma evaluate_book_frame:
  assumes "evaluate_book gc t th market valuation = (t', e)" and "\<And>v. valuation = Inr v \<Longrightarrow> va_market v = market"
    and "market \<in> {''KRX'', ''US''}" and "other \<noteq> market"
  shows "same_market other t t'" and "ae_market e = market"
proof -
  have "same_market other t t' \<and> ae_market e = market"
  proof (cases "observe_book gc t th valuation")
    case (Inl err)
    with assms(1) show ?thesis by (auto simp: evaluate_book_def same_market_refl unavailable_account_state_def)
  next
    case (Inr r)
    obtain shadow ev where r: "r = (shadow, ev)" by (cases r)
    from Inr r obtain v sth previous where v: "valuation = Inr v"
        "evaluate_shadow_high_watermark (gc_tz gc) (gc_dtext gc) v sth previous = Inr shadow"
        "account_state_from_shadow shadow th = Inr ev"
      by (auto simp: observe_book_def elim!: bindrE)
    have "va_market v = market" using assms(2) v(1) by blast
    then have market: "py_upper (va_market v) = market" "account_normalize_market (va_market (he_valuation shadow)) = Inr market"
      using assms(3) market_labels evaluate_hwm_valuation [OF v(2)] by auto
    then have "ae_market ev = market"
      using v(3) by (auto simp: account_state_from_shadow_def unavailable_account_state_def Let_def
          split: evidence_status.splits option.splits if_splits)
    moreover have "same_market other t t''" if p: "persist_shadow_high_watermark (gc_dtext gc) (gc_ktext gc) t shadow = (t'', out)" for t'' out
      using persist_one_key [OF p] evaluated_state_market [OF v(2)] market(1) assms(4)
      by (auto simp: same_market_def hwm_state_key_def)
    ultimately show ?thesis
      using assms(1) Inr r
      by (auto simp: evaluate_book_def same_market_refl split: if_splits prod.splits sum.splits)
  qed
  then show "same_market other t t'" and "ae_market e = market" by simp_all
qed

lemma evaluate_books_find:
  assumes "evaluate_books gc t th valuation ms = (t', es)" and "market \<in> set ms" and "distinct ms"
    and "set ms \<subseteq> {''KRX'', ''US''}" and "\<And>m v. valuation m = Inr v \<Longrightarrow> va_market v = m"
  shows "\<exists>t1 t2 e. evaluate_book gc t1 th market (valuation market) = (t2, e) \<and> same_market market t t1
    \<and> same_market market t2 t' \<and> find (\<lambda>e. ae_market e = market) es = Some e"
  using assms(1-4)
proof (induction ms arbitrary: t es)
  case (Cons m ms)
  obtain t1 e rest where e: "evaluate_book gc t th m (valuation m) = (t1, e)"
    and rest: "evaluate_books gc t1 th valuation ms = (t', rest)" and es: "es = e # rest"
    using Cons.prems(1) by (auto split: prod.splits)
  have m: "m \<in> {''KRX'', ''US''}" using Cons.prems(4) by simp
  note frame = evaluate_book_frame [OF e assms(5) m]
  show ?case
  proof (cases "market = m")
    case True
    have "same_market market u t'" if "evaluate_books gc u th valuation xs = (t', ys)" "market \<notin> set xs" "set xs \<subseteq> {''KRX'', ''US''}" for u xs ys
      using that
    proof (induction xs arbitrary: u ys)
      case (Cons x xs)
      obtain u1 y zs where "evaluate_book gc u th x (valuation x) = (u1, y)" "evaluate_books gc u1 th valuation xs = (t', zs)"
        using Cons.prems(1) by (auto split: prod.splits)
      with Cons.IH [of u1 zs] evaluate_book_frame(1) [of gc u th x "valuation x" u1 y market] Cons.prems assms(5) show ?case
        by (auto intro: same_market_trans)
    qed (simp add: same_market_refl)
    with rest Cons.prems(3,4) True have "same_market market t1 t'" by auto
    moreover have "ae_market e = market" using frame(2) [of "[]"] m True by auto
    ultimately show ?thesis using e es True same_market_refl by auto
  next
    case False
    then have "same_market market t t1" "ae_market e \<noteq> market" using frame(1) frame(2) [of market] by auto
    moreover have "market \<in> set ms" "distinct ms" "set ms \<subseteq> {''KRX'', ''US''}" using Cons.prems False by auto
    ultimately show ?thesis
      using Cons.IH [OF rest] es by (auto intro: same_market_trans)
  qed
qed simp

lemma account_normalize_market_Inr: "account_normalize_market m = Inr market \<Longrightarrow> market \<in> {''KRX'', ''US''}"
  by (auto simp: account_normalize_market_def market_books_def split: option.splits if_splits)

lemma normalized_markets:
  assumes "mapr account_normalize_market markets = Inr ms"
  shows "set ms \<subseteq> {''KRX'', ''US''}"
  using assms
proof (induction markets arbitrary: ms)
  case (Cons m markets)
  then show ?case using account_normalize_market_Inr [of m] by (auto elim!: bindrE)
qed simp

subsection \<open>Every evaluation\<close>

text \<open>
  What holds of an evaluation however it came about: an unavailable one is neutral, and an
  available one carries the ratios its state follows from.
\<close>

definition evaluation_ok :: "acc_thresholds \<Rightarrow> account_evaluation \<Rightarrow> bool" where
  "evaluation_ok th e \<longleftrightarrow> ae_thresholds e = th
     \<and> (case ae_unavailable e of
          Some _ \<Rightarrow> ae_state e = STATE_NORMAL \<and> ae_multiplier e = 1
        | None \<Rightarrow> (\<exists>profit. ae_profit_ratio e = Some profit \<and> (ae_state e = STATE_EXIT_ONLY \<longleftrightarrow> at_exit_only_profit_ratio th \<le> profit))
            \<and> (ae_multiplier e = state_multiplier (ae_state e)))"

lemma unavailable_ok: "evaluation_ok th (unavailable_account_state m th why)"
  by (simp add: evaluation_ok_def unavailable_account_state_def)

lemma persist_failed_ok: "evaluation_ok th (e\<lparr>ae_persist_failed := x\<rparr>) = evaluation_ok th e"
  by (cases e) (simp add: evaluation_ok_def split: option.split)

lemma from_shadow_ok:
  assumes "account_state_from_shadow shadow th = Inr e" and "at_staged_reduction_multiplier th = 3 / 4"
  shows "evaluation_ok th e"
  using assms by (auto simp: account_state_from_shadow_def evaluation_ok_def unavailable_account_state_def Let_def
      elim!: bindrE split: evidence_status.splits option.splits if_splits)

lemma evaluate_book_ok:
  assumes "evaluate_book gc t th market valuation = (t', e)" and "at_staged_reduction_multiplier th = 3 / 4"
  shows "evaluation_ok th e"
proof (cases "observe_book gc t th valuation")
  case (Inl err)
  with assms(1) show ?thesis using unavailable_ok by (auto simp: evaluate_book_def)
next
  case (Inr r)
  obtain shadow ev where r: "r = (shadow, ev)" by (cases r)
  from Inr r have "account_state_from_shadow shadow th = Inr ev" by (auto simp: observe_book_def elim!: bindrE)
  from from_shadow_ok [OF this assms(2)] assms(1) Inr r show ?thesis
    by (auto simp: evaluate_book_def persist_failed_ok split: if_splits prod.splits sum.splits)
qed

lemma evaluate_owner_ok:
  assumes "evaluate_owner gc fetch observed_at l links t owner markets target loss now = (t', Inr snap)"
    and "for_market snap market = Inr e"
  shows "\<exists>th. from_risk_rates target loss = Inr th \<and> evaluation_ok th e"
proof -
  obtain th where th: "from_risk_rates target loss = Inr th"
    using assms(1) by (cases "from_risk_rates target loss") (simp_all add: evaluate_owner_def)
  note multiplier = from_risk_rates_Inr(4) [OF th]
  have "sn_thresholds snap = th \<and> (\<forall>x\<in>set (sn_evaluations snap). evaluation_ok th x)"
    using assms(1) th unavailable_ok evaluate_book_ok [OF _ multiplier]
    by (auto simp: evaluate_owner_def Let_def elim!: bindrE split: sum.splits if_splits prod.splits)
  then have "evaluation_ok th e"
    using assms(2) unavailable_ok
    by (auto simp: for_market_def find_Some_iff elim!: bindrE split: option.splits)
  with th show ?thesis by blast
qed

lemma account_gate_passes:
  assumes "evaluation_ok th e"
  shows "ag_passed (evaluate_account_state_gate dtext action (Some e)) \<longleftrightarrow> py_upper action = ''SELL'' \<or> ae_unavailable e \<noteq> None
    \<or> the (ae_profit_ratio e) < at_exit_only_profit_ratio th"
  using assms by (auto simp: evaluate_account_state_gate_def evaluation_ok_def Let_def split: option.splits)

lemma evaluate_owner_books:
  fixes now :: py_datetime
  assumes "from_risk_rates target loss = Inr th" and "mapr account_normalize_market markets = Inr ms"
    and "account_source fetch observed_at l links owner = Inr (account_id, account, rows)" and "market \<in> set ms"
  defines "valuation \<equiv> (\<lambda>market. book_valuation account_id (if market = ''KRX'' then pa_cash_krw account else pa_cash_usd account)
    rows owner market now)"
  shows "\<exists>t' snap t1 t2 e. evaluate_owner gc fetch observed_at l links t owner markets target loss now = (t', Inr snap)
    \<and> for_market snap market = Inr e \<and> evaluate_book gc t1 th market (valuation market) = (t2, e)
    \<and> same_market market t t1 \<and> same_market market t2 t'"
proof -
  define scope where "scope = filter (\<lambda>m. m \<in> set ms) [''KRX'', ''US'']"
  have market: "market \<in> {''KRX'', ''US''}" using normalized_markets [OF assms(2)] assms(4) by blast
  then have scope: "market \<in> set scope" "distinct scope" "set scope \<subseteq> {''KRX'', ''US''}" "scope \<noteq> []"
    using assms(4) by (auto simp: scope_def)
  obtain t' es where books: "evaluate_books gc t th valuation scope = (t', es)" by fastforce
  have "va_market v = m" if "valuation m = Inr v" for m v
    using that unfolding valuation_def by (auto elim!: book_valuation_Inr)
  from evaluate_books_find [OF books scope(1-3) this] obtain t1 t2 e where
    e: "evaluate_book gc t1 th market (valuation market) = (t2, e)" "same_market market t t1"
      "same_market market t2 t'" "find (\<lambda>e. ae_market e = market) es = Some e" by blast
  have "evaluate_owner gc fetch observed_at l links t owner markets target loss now
      = (t', Inr \<lparr>sn_thresholds = th, sn_evaluations = es\<rparr>)"
    using assms(1-3) scope(4) books unfolding scope_def valuation_def by (simp add: evaluate_owner_def Let_def)
  moreover have "for_market \<lparr>sn_thresholds = th, sn_evaluations = es\<rparr> market = Inr e"
    using e(4) market market_labels by (auto simp: for_market_def)
  ultimately show ?thesis using e(1-3) by blast
qed

subsection \<open>Example\<close>

definition demo_context :: gate_context where
  "demo_context = \<lparr>gc_tz = (\<lambda>_ _. 0), gc_dtext = (\<lambda>_. ''0''), gc_ktext = (\<lambda>_. []), gc_etext = (\<lambda>_. ''error''), gc_ename = (\<lambda>_. ''Error'')\<rparr>"

lemma demo_rates:
  "from_risk_rates (DFinite 2) (DFinite 2) = Inr \<lparr>at_staged_profit_ratio = 1 / 100, at_exit_only_profit_ratio = 1 / 50,
     at_staged_peak_drawdown_ratio = 1 / 100, at_staged_reduction_multiplier = 3 / 4,
     at_max_valuation_age = default_max_valuation_age\<rparr>"
  by (simp add: from_risk_rates_def rate_ratio_def account_thresholds_post_init_def staged_reduction_multiplier_def
      default_max_valuation_age_def example_money)

lemma demo_account: "account_source no_quotes 0 funded_book [(7, 1)] 7
    = Inr (1, the (get_account funded_book 1), [])"
  by (simp add: account_source_def get_account_def get_positions_def account_positions_def funded_book_eq)

lemma demo_markets: "mapr account_normalize_market [''KR''] = Inr [''KRX'']"
  by code_simp

lemma demo_million: "money 1000000"
  by code_simp

lemma demo_valuation: "book_valuation 1 (if ''KRX'' = ''KRX'' then pa_cash_krw (the (get_account funded_book 1))
      else pa_cash_usd (the (get_account funded_book 1))) [] 7 ''KRX'' (Aware 0)
    = Inr \<lparr>va_owner_user_id = 7, va_account_key = ''PAPER-'' @ py_str_int 1, va_market = ''KRX'', va_equity = DFinite 1000000,
        va_valuation_at = Aware 0, va_evaluated_at = Aware 0, va_valuation_source = book_source, va_reference_equity = None\<rparr>"
  by (simp add: book_valuation_def book_of_def market_books_def book_source_def get_account_def funded_book_eq)

subsection \<open>The gate follows the day\<close>

text \<open>
  C20: The account-state gate decides by the equities seen on the trading day. Take an owner whose
  linked account can be read, a requested market whose book can be valued, and a table in which
  the day's row summarises the equities \<open>vs\<close> seen so far. The evaluation then adds the new equity
  to that summary, and the state of the market is a function of the day's profit over the
  reference and of the drawdown from the day's peak: exit-only from the target on, reduced from
  half the target or half the maximum loss on, normal otherwise, with buying multiplier 0, 3/4 and
  1. The gate stops exactly the non-selling actions of a day that has reached its target.
\<close>

theorem account_state_follows_day:
  assumes "from_risk_rates target loss = Inr th" and "mapr account_normalize_market markets = Inr ms"
    and "account_source fetch observed_at l links owner = Inr (account_id, account, rows)"
    and "market \<in> set ms" and "0 < owner"
    and "book_valuation account_id (if market = ''KRX'' then pa_cash_krw account else pa_cash_usd account)
      rows owner market (Aware n) = Inr v" and "va_equity v = DFinite q" and "money q"
    and "k = (owner, ''PAPER-'' @ py_str_int account_id, market, utc_date (n + gc_tz gc market n))"
    and "tracks t k reference vs" and "vs = [] \<longrightarrow> reference = q" and "vs = [] \<or> fst (last vs) < n"
  shows "\<exists>t' snap e. evaluate_owner gc fetch observed_at l links t owner markets target loss (Aware n) = (t', Inr snap)
    \<and> for_market snap market = Inr e
    \<and> tracks t' k reference (vs @ [(n, q, book_source)])
    \<and> (let day = day_summary k reference (vs @ [(n, q, book_source)])
       in ae_unavailable e = None \<and> ae_state e = state_of_ratios th (profit_of day) (drawdown_of day)
          \<and> ae_multiplier e = state_multiplier (ae_state e)
          \<and> (ag_passed (evaluate_account_state_gate dtext action (Some e))
               \<longleftrightarrow> py_upper action = ''SELL'' \<or> profit_of day < at_exit_only_profit_ratio th))"
proof -
  have market: "market \<in> {''KRX'', ''US''}" using normalized_markets [OF assms(2)] assms(4) by blast
  from evaluate_owner_books [OF assms(1-4), of gc t "Aware n"] assms(6) obtain t' snap t1 t2 e where
    owner: "evaluate_owner gc fetch observed_at l links t owner markets target loss (Aware n) = (t', Inr snap)"
      "for_market snap market = Inr e" "evaluate_book gc t1 th market (Inr v) = (t2, e)"
      "same_market market t t1" "same_market market t2 t'" by auto
  have "tracks t1 k reference vs" using tracks_same_market [OF owner(4)] assms(9,10) by blast
  from evaluate_book_log [OF assms(1,5) market assms(6-9) this assms(11,12)] owner(3) have
    book: "tracks t2 k reference (vs @ [(n, q, book_source)])" "ae_unavailable e = None"
      "ae_profit_ratio e = Some (profit_of (day_summary k reference (vs @ [(n, q, book_source)])))"
      "ae_state e = state_of_ratios th (profit_of (day_summary k reference (vs @ [(n, q, book_source)])))
        (drawdown_of (day_summary k reference (vs @ [(n, q, book_source)])))"
      "ae_multiplier e = state_multiplier (ae_state e)" by auto
  have "tracks t' k reference (vs @ [(n, q, book_source)])" using tracks_same_market [OF owner(5)] assms(9) book(1) by blast
  moreover have "evaluation_ok th e"
    using evaluate_book_ok [OF owner(3)] from_risk_rates_Inr(4) [OF assms(1)] by blast
  ultimately show ?thesis
    using owner(1,2) book(2-5) account_gate_passes [of th e dtext action] by (auto simp: Let_def)
qed

theorem account_state_follows_day_witness:
  "\<exists>t' snap e. evaluate_owner demo_context no_quotes 0 funded_book [(7, 1)] Map.empty 7 [''KR''] (DFinite 2) (DFinite 2) (Aware 0)
      = (t', Inr snap) \<and> for_market snap ''KRX'' = Inr e
    \<and> tracks t' (7, ''PAPER-'' @ py_str_int 1, ''KRX'', utc_date 0) 1000000 [(0, 1000000, book_source)]"
proof -
  have "tracks Map.empty k 1000000 []" for k using demo_million by (simp add: tracks_def equities_def)
  from account_state_follows_day [OF demo_rates demo_markets demo_account _ _ demo_valuation _ demo_million refl this,
      of demo_context "\<lambda>_. ''0''" "''buy''"]
  show ?thesis by (simp add: demo_context_def Let_def) blast
qed

text \<open>
  C37: What cannot be evaluated does not stop the trader. Whatever the evaluation of an owner
  reports for a market: an unavailable state is neutral (normal, multiplier 1, every action
  passes), selling always passes, the multiplier is 0, 3/4 or 1, and an action that is stopped is
  not a sale and the day's profit has reached the target. When the account cannot be read, every
  market is unavailable and no row is written.
\<close>

theorem account_gate_fails_open:
  assumes "evaluate_owner gc fetch observed_at l links t owner markets target loss now = (t', Inr snap)"
    and "for_market snap market = Inr e"
  shows "(ae_unavailable e \<noteq> None \<longrightarrow> ae_state e = STATE_NORMAL \<and> ae_multiplier e = 1
           \<and> ag_passed (evaluate_account_state_gate dtext action (Some e)))
    \<and> ae_multiplier e \<in> {0, 3 / 4, 1}
    \<and> (\<not> ag_passed (evaluate_account_state_gate dtext action (Some e)) \<longrightarrow>
         py_upper action \<noteq> ''SELL'' \<and> ae_multiplier e = 0
         \<and> (\<exists>th profit. from_risk_rates target loss = Inr th \<and> ae_profit_ratio e = Some profit
              \<and> at_exit_only_profit_ratio th \<le> profit))
    \<and> (\<forall>err. account_source fetch observed_at l links owner = Inl err \<longrightarrow> ae_unavailable e \<noteq> None \<and> t' = t)"
proof -
  obtain th where th: "from_risk_rates target loss = Inr th" "evaluation_ok th e"
    using evaluate_owner_ok [OF assms] by blast
  have "ae_unavailable e \<noteq> None \<and> t' = t" if "account_source fetch observed_at l links owner = Inl err" for err
    using assms th(1) that
    by (auto simp: evaluate_owner_def for_market_def unavailable_account_state_def Let_def elim!: bindrE
        split: sum.splits if_splits option.splits)
  moreover have "ae_multiplier e \<in> {0, 3 / 4, 1}"
    using th(2) by (cases "ae_state e") (auto simp: evaluation_ok_def split: option.splits)
  ultimately show ?thesis
    using th account_gate_passes [OF th(2), of dtext action] by (auto simp: evaluation_ok_def split: option.splits)
qed

theorem account_gate_fails_open_witness:
  "\<exists>t' snap e. evaluate_owner demo_context no_quotes 0 funded_book [] Map.empty 7 [''KR''] (DFinite 2) (DFinite 2) (Aware 0)
      = (t', Inr snap) \<and> for_market snap ''KRX'' = Inr e \<and> ae_multiplier e = 1 \<and> t' = Map.empty
    \<and> ag_passed (evaluate_account_state_gate (\<lambda>_. ''0'') ''buy'' (Some e))"
proof -
  have source: "account_source no_quotes 0 funded_book [] 7 = Inl (LookupError ''paper_account_unavailable'')"
    by (simp add: account_source_def)
  have "\<exists>snap. evaluate_owner demo_context no_quotes 0 funded_book [] Map.empty 7 [''KR''] (DFinite 2) (DFinite 2) (Aware 0)
      = (Map.empty, Inr snap)"
    unfolding evaluate_owner_def demo_rates demo_markets source by simp
  moreover have "\<exists>e. for_market snap ''KRX'' = Inr e" for snap
    using market_labels by (simp add: for_market_def split: option.split)
  ultimately obtain snap e where run: "evaluate_owner demo_context no_quotes 0 funded_book [] Map.empty 7 [''KR''] (DFinite 2) (DFinite 2)
      (Aware 0) = (Map.empty, Inr snap)" "for_market snap ''KRX'' = Inr e" by blast
  from account_gate_fails_open [OF run, of "\<lambda>_. ''0''" "''buy''"] source run show ?thesis by blast
qed

end
