(* ===== verification/Paper_Orders.thy ===== *)
theory Paper_Orders
  imports Paper_Portfolio Sha256
begin

text \<open>
  Resting limit orders on the PAPER book: \<open>app/services/paper_limit_order_service.py\<close> with the fill
  helpers of \<open>app/services/paper_fills.py\<close> and the correlation of
  \<open>app/services/paper_correlation.py\<close>. Placing a buy reserves its cost from the KRW balance;
  cancelling gives the reservation back; a reconciliation fills the orders whose limit the market
  has crossed through \<open>execute_order\<close> of \<open>Paper_Ledger\<close>.

  Candles come from the argument \<open>candles\<close>, the ids the journal and forecast services return from
  \<open>journal\<close> and \<open>forecast\<close>, the clock of an execution from \<open>clock\<close>. A refusal the service returns
  as a message is a value of \<open>refusal\<close>. The provenance columns of a trade row that only this
  service writes are kept beside the trades, by trade id. Journals are not modelled: they are
  written in sessions of their own and nothing here reads them.
\<close>

subsection \<open>Prices\<close>

text \<open>\<open>_TICK_BANDS\<close>: a threshold and its tick.\<close>

definition tick_bands :: "(rat \<times> rat) list" where
  "tick_bands =
     [(2000000, 1000), (1000000, 500), (500000, 100), (100000, 50), (10000, 10), (1000, 5), (100, 1),
      (10, 1 / 10), (1, 1 / 100), (1 / 10, 1 / 1000), (1 / 100, 1 / 10000)]"

definition min_tick :: rat where
  "min_tick = 1 / 100000"

definition tick_unit :: "rat \<Rightarrow> rat" where
  "tick_unit price = (case find (\<lambda>(threshold, _). threshold \<le> price) tick_bands of Some (_, unit) \<Rightarrow> unit | None \<Rightarrow> min_tick)"

definition snap_limit_down :: "rat \<Rightarrow> rat result" where
  "snap_limit_down price =
     (let unit = tick_unit price in bindr (ddiv price unit) (\<lambda>ticks. dmul (of_int \<lfloor>ticks\<rfloor>) unit))"

definition quantize_fill_price :: "rat \<Rightarrow> rat result" where
  "quantize_fill_price price = bindr (snap_limit_down price) quantize_money"

text \<open>Comparison of Decimals; comparing a NaN raises.\<close>

fun dec_le :: "decimal \<Rightarrow> decimal \<Rightarrow> bool result" where
  "dec_le DNaN _ = Inl DecimalException"
| "dec_le _ DNaN = Inl DecimalException"
| "dec_le (DFinite a) (DFinite b) = Inr (a \<le> b)"
| "dec_le (DFinite a) (DInfinity negative) = Inr (\<not> negative)"
| "dec_le (DInfinity negative) (DFinite b) = Inr negative"
| "dec_le (DInfinity n) (DInfinity m) = Inr (n \<or> \<not> m)"

fun limit_crossed :: "string \<Rightarrow> rat \<Rightarrow> (decimal \<times> decimal) list \<Rightarrow> rat option result" where
  "limit_crossed side limit_price [] = Inr None"
| "limit_crossed side limit_price ((low, high) # bars) =
     bindr (if py_lower side = ''buy'' then dec_le low (DFinite limit_price)
            else if py_lower side = ''sell'' then dec_le (DFinite limit_price) high
            else Inr False) (\<lambda>crossed.
     if crossed then Inr (Some limit_price) else limit_crossed side limit_price bars)"

subsection \<open>Correlation\<close>

text \<open>\<open>format(q, "f")\<close> of a decimal with a fixed number of places.\<close>

definition fixed_text :: "nat \<Rightarrow> rat \<Rightarrow> string" where
  "fixed_text s q =
     (let n = \<lfloor>\<bar>q\<bar> * 10 ^ s\<rfloor>
      in (if q < 0 then ''-'' else []) @ py_str_int (n div 10 ^ s) @ ''.'' @ pad_digits s (n mod 10 ^ s))"

definition correlation_material :: "string \<Rightarrow> string \<Rightarrow> rat \<Rightarrow> rat \<Rightarrow> string \<Rightarrow> int \<Rightarrow> string" where
  "correlation_material symbol side limit_price quantity kst_trade_day rung =
     py_upper symbol @ ''|'' @ py_lower side @ ''|'' @ fixed_text 4 limit_price @ ''|'' @ fixed_text 8 quantity
     @ ''|'' @ kst_trade_day @ ''|'' @ py_str_int rung"

definition paper_correlation_id :: "int \<Rightarrow> string \<Rightarrow> string \<Rightarrow> rat \<Rightarrow> rat \<Rightarrow> string \<Rightarrow> int \<Rightarrow> string" where
  "paper_correlation_id account_id symbol side limit_price quantity kst_trade_day rung =
     ''paper:'' @ py_str_int account_id @ '':''
     @ take 16 (sha256_hex (correlation_material symbol side limit_price quantity kst_trade_day rung))"

subsection \<open>The table of pending orders\<close>

record pending_order =
  po_id :: int
  po_account_id :: int
  po_symbol :: string
  po_side :: string
  po_limit_price :: rat
  po_quantity :: rat
  po_reserved_krw :: rat
  po_status :: string
  po_thesis :: "string option"
  po_correlation_id :: "string option"
  po_journal_id :: "int option"
  po_artifact_uuid :: "string option"
  po_forecast_id :: "string option"
  po_fill_price :: "rat option"
  po_paper_trade_id :: "int option"
  po_placed_at :: instant
  po_filled_at :: "instant option"
  po_cancelled_at :: "instant option"

record provenance =
  pv_journal_id :: "int option"
  pv_artifact_uuid :: "string option"
  pv_forecast_id :: "string option"

record limit_book =
  lb_ledger :: ledger
  lb_orders :: "pending_order list"
  lb_provenance :: "(int \<times> provenance) list"
  lb_next_order_id :: int

definition replace_order :: "pending_order \<Rightarrow> pending_order list \<Rightarrow> pending_order list" where
  "replace_order changed orders = map (\<lambda>x. if po_id x = po_id changed then changed else x) orders"

definition list_pending_orders :: "limit_book \<Rightarrow> int \<Rightarrow> string option \<Rightarrow> pending_order list" where
  "list_pending_orders b account_id status =
     sort_key po_placed_at
       (filter (\<lambda>x. po_account_id x = account_id \<and> (case status of None \<Rightarrow> True | Some s \<Rightarrow> po_status x = s)) (lb_orders b))"

definition get_pending_order :: "limit_book \<Rightarrow> int \<Rightarrow> int \<Rightarrow> pending_order option" where
  "get_pending_order b account_id order_id =
     find (\<lambda>x. po_account_id x = account_id \<and> po_id x = order_id) (lb_orders b)"

definition pending_sell_qty :: "limit_book \<Rightarrow> int \<Rightarrow> string \<Rightarrow> rat" where
  "pending_sell_qty b account_id symbol =
     sum_list (map po_quantity (filter (\<lambda>x. po_account_id x = account_id \<and> po_symbol x = symbol
       \<and> po_side x = ''sell'' \<and> po_status x = ''pending'') (lb_orders b)))"

subsection \<open>Placing\<close>

datatype refusal =
    BadSide | AccountNotFound | AccountInactive | BadSymbol | NotCrypto | LimitNotPositive | AmountNotPositive
  | SizeMissing | QuantityNotPositive | BelowMinimum | InsufficientKrw | NoPositionToSell | InsufficientSellable

text \<open>A step that raises, refuses or goes on.\<close>

type_synonym 'a checked = "(refusal + 'a) result"

definition bindc :: "'a checked \<Rightarrow> ('a \<Rightarrow> 'b checked) \<Rightarrow> 'b checked" where
  "bindc m f = bindr m (\<lambda>r. case r of Inl refusal \<Rightarrow> Inr (Inl refusal) | Inr x \<Rightarrow> f x)"

definition liftc :: "'a result \<Rightarrow> 'a checked" where
  "liftc m = bindr m (\<lambda>x. Inr (Inr x))"

definition refuse_if :: "bool \<Rightarrow> refusal \<Rightarrow> 'a checked \<Rightarrow> 'a checked" where
  "refuse_if c refusal m = (if c then Inr (Inl refusal) else m)"

record limit_request =
  lr_account_id :: int
  lr_symbol :: string
  lr_side :: string
  lr_limit_price :: rat
  lr_quantity :: "rat option"
  lr_amount :: "rat option"
  lr_thesis :: "string option"
  lr_target_price :: "rat option"
  lr_probability_given :: bool
  lr_review_date :: "string option"
  lr_artifact_uuid :: "string option"

definition min_crypto_krw :: rat where
  "min_crypto_krw = 5000"

definition limit_quantity :: "limit_request \<Rightarrow> rat \<Rightarrow> rat checked" where
  "limit_quantity req price =
     bindc (case lr_quantity req of
              Some quantity \<Rightarrow> liftc (quantize_crypto_qty quantity)
            | None \<Rightarrow>
                (case lr_amount req of
                   Some amount \<Rightarrow>
                     refuse_if (amount \<le> 0) AmountNotPositive (liftc (bindr (ddiv amount price) quantize_crypto_qty))
                 | None \<Rightarrow> Inr (Inl SizeMissing))) (\<lambda>qty.
     refuse_if (qty \<le> 0) QuantityNotPositive (Inr (Inr qty)))"

definition limit_gross :: "rat \<Rightarrow> rat \<Rightarrow> rat result" where
  "limit_gross qty price = bindr (dmul qty price) quantize_money"

definition limit_reservation :: "rat \<Rightarrow> rat result" where
  "limit_reservation gross =
     bindr (calculate_fee ''crypto'' ''buy'' gross) (\<lambda>fee. bindr (dadd gross fee) quantize_money)"

text \<open>The reservation of a buy: the account after it and the amount reserved.\<close>

definition reserve_krw :: "paper_account \<Rightarrow> rat \<Rightarrow> rat \<Rightarrow> (paper_account \<times> rat) checked" where
  "reserve_krw account qty price =
     bindc (liftc (limit_gross qty price)) (\<lambda>gross.
     bindc (liftc (limit_reservation gross)) (\<lambda>reserved.
     refuse_if (gross < min_crypto_krw) BelowMinimum
    (refuse_if (pa_cash_krw account < reserved) InsufficientKrw
    (bindc (liftc (bindr (dsub (pa_cash_krw account) reserved) quantize_money)) (\<lambda>rest.
     Inr (Inr (account\<lparr>pa_cash_krw := rest\<rparr>, reserved)))))))"

definition check_sellable :: "limit_book \<Rightarrow> int \<Rightarrow> string \<Rightarrow> rat \<Rightarrow> rat \<Rightarrow> unit checked" where
  "check_sellable b account_id symbol qty price =
     bindc (liftc (limit_gross qty price)) (\<lambda>gross.
     refuse_if (gross < min_crypto_krw) BelowMinimum
    (case map_of (ld_positions (lb_ledger b)) (account_id, symbol) of
       None \<Rightarrow> Inr (Inl NoPositionToSell)
     | Some position \<Rightarrow>
         bindc (liftc (dsub (pp_quantity position) (pending_sell_qty b account_id symbol))) (\<lambda>available.
         refuse_if (available < qty) InsufficientSellable (Inr (Inr ())))))"

text \<open>Steps 1 to 5: the account after the reservation, the order's symbol, side, price, quantity and reservation.\<close>

definition check_limit_order ::
    "limit_book \<Rightarrow> limit_request \<Rightarrow> (paper_account \<times> string \<times> string \<times> rat \<times> rat \<times> rat) checked" where
  "check_limit_order b req =
     (let side = py_lower (lr_side req)
      in refuse_if (side \<noteq> ''buy'' \<and> side \<noteq> ''sell'') BadSide
        (case get_account (lb_ledger b) (lr_account_id req) of
           None \<Rightarrow> Inr (Inl AccountNotFound)
         | Some account \<Rightarrow>
             refuse_if (\<not> pa_is_active account) AccountInactive
            (case resolve_market_type (lr_symbol req) None of
               Inl (ValueError _) \<Rightarrow> Inr (Inl BadSymbol)
             | Inl e \<Rightarrow> Inl e
             | Inr (market_type, symbol) \<Rightarrow>
                 refuse_if (market_type \<noteq> ''crypto'') NotCrypto
                (bindc (liftc (quantize_fill_price (lr_limit_price req))) (\<lambda>price.
                 refuse_if (price \<le> 0) LimitNotPositive
                (bindc (limit_quantity req price) (\<lambda>qty.
                 if side = ''buy''
                 then bindc (reserve_krw account qty price) (\<lambda>(account', reserved).
                      Inr (Inr (account', symbol, side, price, qty, reserved)))
                 else bindc (check_sellable b (lr_account_id req) symbol qty price) (\<lambda>_.
                      Inr (Inr (account, symbol, side, price, qty, 0))))))))))"

text \<open>A text that is present and not empty.\<close>

definition given :: "string option \<Rightarrow> bool" where
  "given text = (case text of None \<Rightarrow> False | Some t \<Rightarrow> t \<noteq> [])"

definition place_limit_order ::
    "(pending_order \<Rightarrow> int option) \<Rightarrow> (pending_order \<Rightarrow> string option) \<Rightarrow> instant \<Rightarrow> limit_book \<Rightarrow> limit_request
      \<Rightarrow> (limit_book \<times> (refusal + pending_order)) result" where
  "place_limit_order journal forecast now b req =
     bindr (check_limit_order b req) (\<lambda>checked.
     case checked of
       Inl refusal \<Rightarrow> Inr (b, Inl refusal)
     | Inr (account, symbol, side, price, qty, reserved) \<Rightarrow>
         bindr (numeric_column 20 8 price) (\<lambda>price'.
         bindr (numeric_column 20 8 qty) (\<lambda>qty'.
         bindr (numeric_column 20 4 reserved) (\<lambda>reserved'.
         bindr (numeric_column 20 4 (pa_cash_krw account)) (\<lambda>cash'.
         let draft = \<lparr>po_id = lb_next_order_id b, po_account_id = lr_account_id req, po_symbol = symbol, po_side = side,
               po_limit_price = price', po_quantity = qty', po_reserved_krw = reserved', po_status = ''pending'',
               po_thesis = lr_thesis req,
               po_correlation_id = Some (paper_correlation_id (lr_account_id req) symbol side price qty (iso_date (kst_date now)) 0),
               po_journal_id = None, po_artifact_uuid = lr_artifact_uuid req, po_forecast_id = None, po_fill_price = None,
               po_paper_trade_id = None, po_placed_at = now, po_filled_at = None, po_cancelled_at = None\<rparr>;
             journalled = side = ''buy'' \<and> given (lr_thesis req);
             order = draft\<lparr>po_journal_id := (if journalled then journal draft else None),
               po_forecast_id := (if journalled \<and> lr_probability_given req \<and> lr_target_price req \<noteq> None
                                    \<and> given (lr_review_date req) then forecast draft else None)\<rparr>
         in Inr (b\<lparr>lb_ledger := (lb_ledger b)\<lparr>ld_accounts := AList.update (lr_account_id req) (account\<lparr>pa_cash_krw := cash'\<rparr>)
                     (ld_accounts (lb_ledger b))\<rparr>,
                   lb_orders := lb_orders b @ [order], lb_next_order_id := lb_next_order_id b + 1\<rparr>, Inr order))))))"

subsection \<open>Cancelling\<close>

text \<open>The reservation goes back to the balance.\<close>

definition release_krw :: "ledger \<Rightarrow> int \<Rightarrow> paper_account \<Rightarrow> rat \<Rightarrow> ledger result" where
  "release_krw l account_id account reserved =
     bindr (bindr (dadd (pa_cash_krw account) reserved) quantize_money) (\<lambda>cash.
     bindr (numeric_column 20 4 cash) (\<lambda>cash.
     Inr (l\<lparr>ld_accounts := AList.update account_id (account\<lparr>pa_cash_krw := cash\<rparr>) (ld_accounts l)\<rparr>)))"

datatype cancel_refusal = OrderNotFound | NotPending string

definition cancel_pending_order ::
    "instant \<Rightarrow> limit_book \<Rightarrow> int \<Rightarrow> int \<Rightarrow> (limit_book \<times> (cancel_refusal + pending_order)) result" where
  "cancel_pending_order now b account_id order_id =
     (case get_pending_order b account_id order_id of
        None \<Rightarrow> Inr (b, Inl OrderNotFound)
      | Some order \<Rightarrow>
          if po_status order \<noteq> ''pending'' then Inr (b, Inl (NotPending (po_status order)))
          else bindr (if po_side order = ''buy''
                      then (case get_account (lb_ledger b) account_id of
                              None \<Rightarrow> Inl AssertionError
                            | Some account \<Rightarrow> release_krw (lb_ledger b) account_id account (po_reserved_krw order))
                      else Inr (lb_ledger b)) (\<lambda>l.
               let order = order\<lparr>po_status := ''cancelled'', po_cancelled_at := Some now\<rparr>
               in Inr (b\<lparr>lb_ledger := l, lb_orders := replace_order order (lb_orders b)\<rparr>, Inr order)))"

subsection \<open>Reconciling\<close>

record candle =
  ca_timestamp :: "py_datetime option"
  ca_low :: decimal
  ca_high :: decimal

text \<open>A naive candle time is a reading of the Korean clock.\<close>

fun as_aware_kst :: "py_datetime \<Rightarrow> instant" where
  "as_aware_kst (Aware t) = t"
| "as_aware_kst (Naive t) = t - 9 * 3600 * 1000000"

definition bars_since :: "instant \<Rightarrow> candle list \<Rightarrow> (decimal \<times> decimal) list" where
  "bars_since placed_at cs =
     map (\<lambda>c. (ca_low c, ca_high c))
       (filter (\<lambda>c. case ca_timestamp c of None \<Rightarrow> True | Some t \<Rightarrow> placed_at \<le> as_aware_kst t) cs)"

definition fill_request :: "pending_order \<Rightarrow> rat \<Rightarrow> order_request" where
  "fill_request order fill_price =
     \<lparr>or_account_id = po_account_id order, or_symbol = po_symbol order, or_side = po_side order, or_order_type = ''limit'',
      or_quantity = Some (po_quantity order), or_price = Some fill_price, or_amount = None, or_resolved_market_price = None,
      or_reason = (if given (po_thesis order) then the (po_thesis order) else ''paper resting-limit fill''),
      or_correlation_id = None\<rparr>"

text \<open>The body of the \<open>try\<close>: release, mark as filled and execute, committed as one.\<close>

definition fill_pending :: "quote_source \<Rightarrow> instant \<Rightarrow> instant \<Rightarrow> limit_book \<Rightarrow> pending_order \<Rightarrow> rat \<Rightarrow> limit_book result" where
  "fill_pending fetch executed_at effective_now b order fill_price =
     (case get_account (lb_ledger b) (po_account_id order) of
        None \<Rightarrow> Inl AssertionError
      | Some account \<Rightarrow>
          bindr (if po_side order = ''buy''
                 then release_krw (lb_ledger b) (po_account_id order) account (po_reserved_krw order)
                 else Inr (lb_ledger b)) (\<lambda>l.
          bindr (execute_order fetch executed_at l (fill_request order fill_price)) (\<lambda>(l', _).
          bindr (numeric_column 20 8 fill_price) (\<lambda>stored.
          Inr (b\<lparr>lb_ledger := l', lb_orders := replace_order
                   (order\<lparr>po_status := ''filled'', po_fill_price := Some stored, po_filled_at := Some effective_now\<rparr>)
                   (lb_orders b)\<rparr>)))))"

definition latest_trade :: "ledger \<Rightarrow> int \<Rightarrow> string \<Rightarrow> string \<Rightarrow> ledger_trade option" where
  "latest_trade l account_id symbol side =
     (let own = filter (\<lambda>t. pt_account_id t = account_id \<and> pt_symbol t = symbol \<and> pt_side t = side) (ld_trades l)
      in case rev (sort_key pt_executed_at (sort_key pt_id own)) of [] \<Rightarrow> None | t # _ \<Rightarrow> Some t)"

text \<open>
  Linking the newest matching trade: refused by the unique correlation of an account, in which
  case nothing of the link is kept.
\<close>

definition link_trade :: "limit_book \<Rightarrow> pending_order \<Rightarrow> limit_book" where
  "link_trade b order =
     (let l = lb_ledger b
      in case latest_trade l (po_account_id order) (po_symbol order) (po_side order) of
           None \<Rightarrow> b
         | Some t \<Rightarrow>
             if po_correlation_id order \<noteq> None
                \<and> (\<exists>u\<in>set (ld_trades l). pt_id u \<noteq> pt_id t \<and> pt_account_id u = pt_account_id t
                      \<and> pt_correlation_id u = po_correlation_id order)
             then b
             else b\<lparr>lb_ledger := l\<lparr>ld_trades := map (\<lambda>u. if pt_id u = pt_id t
                        then u\<lparr>pt_correlation_id := po_correlation_id order\<rparr> else u) (ld_trades l)\<rparr>,
                    lb_orders := map (\<lambda>x. if po_id x = po_id order then x\<lparr>po_paper_trade_id := Some (pt_id t)\<rparr> else x) (lb_orders b),
                    lb_provenance := AList.update (pt_id t) \<lparr>pv_journal_id = po_journal_id order,
                        pv_artifact_uuid = po_artifact_uuid order, pv_forecast_id = po_forecast_id order\<rparr> (lb_provenance b)\<rparr>)"

text \<open>One order: the book after it and whether it was filled.\<close>

definition reconcile_order ::
    "quote_source \<Rightarrow> (int \<Rightarrow> string \<Rightarrow> candle list result) \<Rightarrow> (int \<Rightarrow> instant) \<Rightarrow> instant \<Rightarrow> limit_book \<Rightarrow> int
      \<Rightarrow> (limit_book \<times> bool) result" where
  "reconcile_order fetch candles clock effective_now b order_id =
     (case find (\<lambda>x. po_id x = order_id) (lb_orders b) of
        None \<Rightarrow> Inr (b, False)
      | Some order \<Rightarrow>
          if po_status order \<noteq> ''pending'' then Inr (b, False)
          else case candles order_id (po_symbol order) of
                 Inl _ \<Rightarrow> Inr (b, False)
               | Inr cs \<Rightarrow>
                   let bars = bars_since (po_placed_at order) cs
                   in if bars = [] then Inr (b, False)
                      else bindr (limit_crossed (po_side order) (po_limit_price order) bars) (\<lambda>crossed.
                           case crossed of
                             None \<Rightarrow> Inr (b, False)
                           | Some fill_price \<Rightarrow>
                               (case fill_pending fetch (clock order_id) effective_now b order fill_price of
                                  Inl _ \<Rightarrow> Inr (b, False)
                                | Inr b' \<Rightarrow> Inr (link_trade b' order, True))))"

text \<open>Fills are committed one by one: an exception keeps those before it.\<close>

fun reconcile_loop ::
    "quote_source \<Rightarrow> (int \<Rightarrow> string \<Rightarrow> candle list result) \<Rightarrow> (int \<Rightarrow> instant) \<Rightarrow> instant \<Rightarrow> limit_book \<Rightarrow> int list
      \<Rightarrow> limit_book \<times> int result" where
  "reconcile_loop fetch candles clock effective_now b [] = (b, Inr 0)"
| "reconcile_loop fetch candles clock effective_now b (order_id # ids) =
     (case reconcile_order fetch candles clock effective_now b order_id of
        Inl e \<Rightarrow> (b, Inl e)
      | Inr (b', filled) \<Rightarrow>
          (case reconcile_loop fetch candles clock effective_now b' ids of
             (b'', n) \<Rightarrow> (b'', bindr n (\<lambda>n. Inr (if filled then n + 1 else n)))))"

definition reconcile_pending_orders ::
    "quote_source \<Rightarrow> (int \<Rightarrow> string \<Rightarrow> candle list result) \<Rightarrow> (int \<Rightarrow> instant) \<Rightarrow> instant \<Rightarrow> limit_book \<Rightarrow> int
      \<Rightarrow> limit_book \<times> (int \<times> int) result" where
  "reconcile_pending_orders fetch candles clock effective_now b account_id =
     (let ids = map po_id (sort_key po_placed_at (sort_key po_id
                  (filter (\<lambda>x. po_account_id x = account_id \<and> po_status x = ''pending'') (lb_orders b))))
      in case reconcile_loop fetch candles clock effective_now b ids of
           (b', n) \<Rightarrow> (b', bindr n (\<lambda>filled. Inr (int (length ids), filled))))"

end
