(* ===== verification/Paper_Orders_Rules.thy ===== *)
theory Paper_Orders_Rules
  imports Paper_Orders
begin

text \<open>
  What resting limit orders promise: reservations neither create nor lose cash, a filled buy costs
  exactly what it reserved, an order is settled once, pending sells stay covered by the holding,
  and the price is snapped to the tick grid.
\<close>

subsection \<open>Checked steps\<close>

lemma bindc_Inr: "bindc m f = Inr (Inr y) \<longleftrightarrow> (\<exists>x. m = Inr (Inr x) \<and> f x = Inr (Inr y))"
  by (auto simp: bindc_def bindr_eq_Inr split: sum.splits) (metis Inr_inject old.sum.exhaust sum.distinct(1))+

lemma bindcE:
  assumes "bindc m f = Inr (Inr y)"
  obtains x where "m = Inr (Inr x)" and "f x = Inr (Inr y)"
  using assms by (auto simp: bindc_Inr)

lemma liftc_Inr [simp]: "liftc m = Inr (Inr x) \<longleftrightarrow> m = Inr x"
  by (cases m) (auto simp: liftc_def)

lemma refuse_if_Inr [simp]: "refuse_if c r m = Inr (Inr y) \<longleftrightarrow> \<not> c \<and> m = Inr (Inr y)"
  by (simp add: refuse_if_def)

subsection \<open>Symbols\<close>

lemma strip_upper_upper: "strip_upper (py_upper s) = strip_upper s"
  by (simp add: strip_upper_def py_strip_upper)

lemma resolve_crypto_again:
  assumes "resolve_market_type s None = Inr (''crypto'', s')"
  shows "resolve_market_type s' None = Inr (''crypto'', s')"
proof -
  have s': "is_crypto_market s" "s' = py_upper s"
    using assms by (auto simp: resolve_market_type_def shared_normalize_market_def Let_def split: if_splits)
  have "is_crypto_market s'" using s' by (simp add: is_crypto_market_def strip_upper_upper)
  moreover have "py_upper s' = s'" by (simp add: s')
  ultimately show ?thesis by (simp add: resolve_market_type_def shared_normalize_market_def Let_def)
qed

subsection \<open>Well-formed orders\<close>

text \<open>What a row of the table satisfies from the moment it is placed.\<close>

definition order_ok :: "pending_order \<Rightarrow> bool" where
  "order_ok x \<longleftrightarrow> po_side x \<in> {''buy'', ''sell''} \<and> po_status x \<in> {''pending'', ''filled'', ''cancelled''}
     \<and> resolve_market_type (po_symbol x) None = Inr (''crypto'', po_symbol x)
     \<and> 0 < po_limit_price x \<and> places 4 (po_limit_price x)
     \<and> 0 < po_quantity x \<and> places 8 (po_quantity x) \<and> po_quantity x < 10 ^ 12
     \<and> (if po_side x = ''buy''
        then bindr (limit_gross (po_quantity x) (po_limit_price x)) limit_reservation = Inr (po_reserved_krw x)
        else po_reserved_krw x = 0)
     \<and> (po_status x = ''filled'' \<longleftrightarrow> po_fill_price x \<noteq> None) \<and> (po_fill_price x \<noteq> None \<longrightarrow> po_fill_price x = Some (po_limit_price x))"

definition trade_ids_ok :: "ledger \<Rightarrow> bool" where
  "trade_ids_ok l \<longleftrightarrow> distinct (map pt_id (ld_trades l)) \<and> (\<forall>t\<in>set (ld_trades l). pt_id t < ld_next_id l)"

definition limit_book_ok :: "limit_book \<Rightarrow> bool" where
  "limit_book_ok b \<longleftrightarrow> ledger_ok (lb_ledger b) \<and> trade_ids_ok (lb_ledger b)
     \<and> distinct (map po_id (lb_orders b)) \<and> (\<forall>x\<in>set (lb_orders b). order_ok x \<and> po_id x < lb_next_order_id b)"

lemma limit_reservation_places:
  "limit_reservation gross = Inr r \<Longrightarrow> places 4 r"
  by (auto simp: limit_reservation_def elim!: bindrE dest: quantize_money_places)

lemma limit_quantity_Inr:
  assumes "limit_quantity req price = Inr (Inr qty)"
  shows "0 < qty" and "places 8 qty"
proof -
  show "0 < qty" using assms by (auto simp: limit_quantity_def elim!: bindcE)
  have "\<exists>x. quantize_crypto_qty x = Inr qty"
    using assms by (auto simp: limit_quantity_def elim!: bindcE bindrE split: option.splits)
  then show "places 8 qty" by (auto simp: quantize_crypto_qty_def dest: quantize_half_up_Inr(1))
qed

lemma reserve_krw_Inr:
  assumes "reserve_krw account qty price = Inr (Inr (account', reserved))" and "account_ok account"
  shows "bindr (limit_gross qty price) limit_reservation = Inr reserved" and "reserved \<le> pa_cash_krw account"
    and "account' = account\<lparr>pa_cash_krw := pa_cash_krw account - reserved\<rparr>" and "places 4 reserved"
proof -
  obtain gross rest r where g: "limit_gross qty price = Inr gross" "limit_reservation gross = Inr reserved"
      and le: "reserved \<le> pa_cash_krw account"
      and rest: "dec_ctx (pa_cash_krw account - reserved) = Inr r" "quantize_money r = Inr rest"
      and account': "account' = account\<lparr>pa_cash_krw := rest\<rparr>"
    using assms(1) unfolding reserve_krw_def by (auto simp: not_less dsub_def elim!: bindcE bindrE)
  show "bindr (limit_gross qty price) limit_reservation = Inr reserved" using g by simp
  show "reserved \<le> pa_cash_krw account" by (rule le)
  show places: "places 4 reserved" using limit_reservation_places g(2) by blast
  have "rest = pa_cash_krw account - reserved"
    using quantized_sum_exact [OF _ rest(1), of 4 rest] rest(2) places assms(2)
    by (auto simp: quantize_money_def account_ok_def)
  then show "account' = account\<lparr>pa_cash_krw := pa_cash_krw account - reserved\<rparr>" using account' by simp
qed

lemma check_limit_order_Inr:
  assumes "check_limit_order b req = Inr (Inr (account', symbol, side, price, qty, reserved))" and "ledger_ok (lb_ledger b)"
  obtains account where "get_account (lb_ledger b) (lr_account_id req) = Some account"
    and "side = py_lower (lr_side req)" and "side \<in> {''buy'', ''sell''}"
    and "resolve_market_type symbol None = Inr (''crypto'', symbol)"
    and "0 < price" and "places 4 price" and "0 < qty" and "places 8 qty"
    and "if side = ''buy''
         then bindr (limit_gross qty price) limit_reservation = Inr reserved \<and> reserved \<le> pa_cash_krw account \<and> places 4 reserved
         else reserved = 0 \<and> check_sellable b (lr_account_id req) symbol qty price = Inr (Inr ())"
    and "account' = account\<lparr>pa_cash_krw := pa_cash_krw account - reserved\<rparr>"
proof -
  obtain account where account: "get_account (lb_ledger b) (lr_account_id req) = Some account"
    using assms(1) by (auto simp: check_limit_order_def Let_def split: option.splits)
  obtain s where s: "resolve_market_type (lr_symbol req) None = Inr (''crypto'', s)"
    using assms(1) account
    by (auto simp: check_limit_order_def Let_def split: sum.splits py_error.splits prod.splits)
  have ok: "account_ok account" using ledger_ok_account [OF assms(2) account] .
  have p: "places 4 p" if "quantize_fill_price x = Inr p" for x p
    using that by (auto simp: quantize_fill_price_def elim!: bindrE dest: quantize_money_places)
  have rest: "side = py_lower (lr_side req) \<and> side \<in> {''buy'', ''sell''} \<and> symbol = s \<and> 0 < price \<and> places 4 price
      \<and> 0 < qty \<and> places 8 qty
      \<and> (if side = ''buy'' then reserve_krw account qty price = Inr (Inr (account', reserved))
         else account' = account \<and> reserved = 0 \<and> check_sellable b (lr_account_id req) symbol qty price = Inr (Inr ()))"
    using assms(1) account s limit_quantity_Inr
    by (auto simp: check_limit_order_def Let_def not_le elim!: bindcE dest: p split: if_splits)
  show thesis
    using that [OF account] rest resolve_crypto_again [OF s] reserve_krw_Inr [OF _ ok, of qty price account' reserved]
    by (auto split: if_splits)
qed

subsection \<open>Moving KRW in and out of reservations\<close>

definition with_krw :: "ledger \<Rightarrow> int \<Rightarrow> paper_account \<Rightarrow> rat \<Rightarrow> ledger" where
  "with_krw l i account c = l\<lparr>ld_accounts := AList.update i (account\<lparr>pa_cash_krw := c\<rparr>) (ld_accounts l)\<rparr>"

lemma held_with_krw [simp]: "held (with_krw l i account c) = held l"
  by (rule ext) (simp add: held_def with_krw_def)

lemma with_krw_effect:
  assumes "get_account l i = Some account" and "ledger_ok l" and "places 4 c"
  shows "ledger_ok (with_krw l i account c)"
    and "d \<in> currencies \<Longrightarrow> balance (with_krw l i account c) a d = (if a = i \<and> d = ''KRW'' then c else balance l a d)"
    and "held (with_krw l i account c) k = held l k" and "ld_trades (with_krw l i account c) = ld_trades l"
    and "trade_ids_ok (with_krw l i account c) = trade_ids_ok l"
    and "get_account (with_krw l i account c) i = Some (account\<lparr>pa_cash_krw := c\<rparr>)"
proof -
  have "i < ld_next_id l" using assms(1,2) by (auto simp: ledger_ok_def)
  moreover have "account_ok (account\<lparr>pa_cash_krw := c\<rparr>)"
    using ledger_ok_account [OF assms(2,1)] assms(3) by (simp add: account_ok_def)
  ultimately show "ledger_ok (with_krw l i account c)"
    using assms(2) unfolding ledger_ok_def with_krw_def
    by (auto simp: get_account_def correlations_def AList.update_conv')
  show "d \<in> currencies \<Longrightarrow> balance (with_krw l i account c) a d = (if a = i \<and> d = ''KRW'' then c else balance l a d)"
    using assms(1) by (auto simp: balance_def get_account_def with_krw_def AList.update_conv' cash_def currencies_def)
qed (simp_all add: held_def with_krw_def trade_ids_ok_def get_account_def AList.update_conv')

lemma cash_shift_places:
  "ledger_ok l \<Longrightarrow> get_account l i = Some account \<Longrightarrow> places 4 r
    \<Longrightarrow> places 4 (pa_cash_krw account + r) \<and> places 4 (pa_cash_krw account - r)"
  using ledger_ok_account [of l i account] by (auto simp: account_ok_def)

lemma release_krw_Inr:
  assumes "release_krw l i account r = Inr l'" and "get_account l i = Some account" and "ledger_ok l" and "places 4 r"
  shows "l' = with_krw l i account (pa_cash_krw account + r)"
proof -
  have ok: "places 4 (pa_cash_krw account + r)" using cash_shift_places [OF assms(3,2,4)] by simp
  obtain x v where "bindr (dec_ctx (pa_cash_krw account + r)) quantize_money = Inr x" "numeric_column 20 4 x = Inr v"
      "l' = with_krw l i account v"
    using assms(1) unfolding release_krw_def dadd_def with_krw_def by (auto elim!: bindrE simp: bindr_def split: sum.splits)
  with booked_amount_exact [OF _ _ ok] show ?thesis by blast
qed

lemma krw_balance: "get_account l i = Some account \<Longrightarrow> pa_cash_krw account = balance l i ''KRW''"
  by (simp add: balance_def cash_def)

lemma order_ok_reserved: "order_ok x \<Longrightarrow> places 4 (po_reserved_krw x)"
  by (auto simp: order_ok_def elim!: bindrE dest: limit_reservation_places split: if_splits)

subsection \<open>Placing\<close>

lemma place_effect:
  assumes "place_limit_order journal forecast now b req = Inr (b', Inr x)" and "limit_book_ok b"
  shows "limit_book_ok b'" and "lb_orders b' = lb_orders b @ [x]" and "po_status x = ''pending''" and "order_ok x"
    and "\<exists>account. get_account (lb_ledger b) (po_account_id x) = Some account
      \<and> (po_side x = ''buy'' \<longrightarrow> po_reserved_krw x \<le> pa_cash_krw account)
      \<and> lb_ledger b' = with_krw (lb_ledger b) (po_account_id x) account (pa_cash_krw account - po_reserved_krw x)"
    and "po_side x = ''sell'' \<Longrightarrow> check_sellable b (po_account_id x) (po_symbol x) (po_quantity x) (po_limit_price x) = Inr (Inr ())"
    and "po_id x = lb_next_order_id b" and "lb_next_order_id b' = lb_next_order_id b + 1"
proof -
  obtain account' symbol side price qty reserved where
      chk: "check_limit_order b req = Inr (Inr (account', symbol, side, price, qty, reserved))"
    using assms(1) unfolding place_limit_order_def by (elim bindrE) (auto split: sum.splits)
  have l: "ledger_ok (lb_ledger b)" using assms(2) by (simp add: limit_book_ok_def)
  from chk l obtain account where c: "get_account (lb_ledger b) (lr_account_id req) = Some account"
      "side \<in> {''buy'', ''sell''}" "resolve_market_type symbol None = Inr (''crypto'', symbol)"
      "0 < price" "places 4 price" "0 < qty" "places 8 qty"
      "if side = ''buy'' then bindr (limit_gross qty price) limit_reservation = Inr reserved
         \<and> reserved \<le> pa_cash_krw account \<and> places 4 reserved
       else reserved = 0 \<and> check_sellable b (lr_account_id req) symbol qty price = Inr (Inr ())"
      "account' = account\<lparr>pa_cash_krw := pa_cash_krw account - reserved\<rparr>"
    by (rule check_limit_order_Inr)
  have reserved: "places 4 reserved" using c(8) by (auto split: if_splits)
  have rest: "places 4 (pa_cash_krw account - reserved)"
    using cash_shift_places [OF l c(1) reserved] by simp
  obtain price' qty' reserved' cash' where
      cols: "numeric_column 20 8 price = Inr price'" "numeric_column 20 8 qty = Inr qty'"
        "numeric_column 20 4 reserved = Inr reserved'" "numeric_column 20 4 (pa_cash_krw account') = Inr cash'"
    using assms(1) chk by (auto simp: place_limit_order_def elim!: bindrE)
  note exact = numeric_column_Inr(4) [OF cols(1) places_mono [OF c(5)]] numeric_column_Inr(4) [OF cols(2) c(7)]
    numeric_column_Inr(4) [OF cols(3) reserved] numeric_column_Inr(4) [OF cols(4)]
  have vals: "price' = price" "qty' = qty" "reserved' = reserved" "cash' = pa_cash_krw account - reserved" "qty < 10 ^ 12"
    using exact c(9) rest numeric_column_Inr(2) [OF cols(2)] by auto
  have x: "po_account_id x = lr_account_id req" "po_symbol x = symbol" "po_side x = side" "po_limit_price x = price"
      "po_quantity x = qty" "po_reserved_krw x = reserved" "po_status x = ''pending''" "po_fill_price x = None"
      "po_id x = lb_next_order_id b" "lb_orders b' = lb_orders b @ [x]" "lb_next_order_id b' = lb_next_order_id b + 1"
      "lb_ledger b' = with_krw (lb_ledger b) (lr_account_id req) account (pa_cash_krw account - reserved)"
    using assms(1) chk cols vals c(9) by (auto simp: place_limit_order_def with_krw_def Let_def)
  show ok: "order_ok x" using c vals x by (auto simp: order_ok_def split: if_splits)
  show "\<exists>account. get_account (lb_ledger b) (po_account_id x) = Some account
      \<and> (po_side x = ''buy'' \<longrightarrow> po_reserved_krw x \<le> pa_cash_krw account)
      \<and> lb_ledger b' = with_krw (lb_ledger b) (po_account_id x) account (pa_cash_krw account - po_reserved_krw x)"
    using c(1,8) x by auto
  show "limit_book_ok b'"
    using assms(2) ok with_krw_effect(1,5) [OF c(1) l rest] x by (fastforce simp: limit_book_ok_def)
  show "lb_orders b' = lb_orders b @ [x]" "po_status x = ''pending''" "po_id x = lb_next_order_id b"
    "lb_next_order_id b' = lb_next_order_id b + 1" by (rule x)+
  show "po_side x = ''sell'' \<Longrightarrow> check_sellable b (po_account_id x) (po_symbol x) (po_quantity x) (po_limit_price x) = Inr (Inr ())"
    using c(8) x by simp
qed

lemma place_refused: "place_limit_order journal forecast now b req = Inr (b', Inl r) \<Longrightarrow> b' = b"
  unfolding place_limit_order_def by (elim bindrE) (auto simp: Let_def elim!: bindrE split: sum.splits)

subsection \<open>Rows of the table\<close>

lemma replace_order_ids: "map po_id (replace_order y xs) = map po_id xs"
  by (auto simp: replace_order_def)

lemma replace_order_split:
  assumes "x \<in> set xs" and "distinct (map po_id xs)" and "po_id y = po_id x"
  shows "\<exists>us vs. xs = us @ x # vs \<and> replace_order y xs = us @ y # vs"
proof -
  obtain us vs where xs: "xs = us @ x # vs" using split_list [OF assms(1)] by blast
  have "po_id x \<notin> po_id ` set us" "po_id x \<notin> po_id ` set vs" using assms(2) unfolding xs by auto
  then have "\<forall>u\<in>set us \<union> set vs. po_id u \<noteq> po_id x" by (metis UnE imageI)
  then have "map (\<lambda>u. if po_id u = po_id y then y else u) us = us" "map (\<lambda>u. if po_id u = po_id y then y else u) vs = vs"
    using assms(3) by (auto intro: map_idI)
  with xs assms(3) show ?thesis by (auto simp: replace_order_def)
qed

lemma replace_order_set:
  assumes "x \<in> set xs" and "distinct (map po_id xs)" and "po_id y = po_id x"
  shows "set (replace_order y xs) \<subseteq> insert y (set xs - {x})"
  using replace_order_split [OF assms] assms(2) by auto

lemma get_pending_order_Some:
  "get_pending_order b a i = Some x \<Longrightarrow> x \<in> set (lb_orders b) \<and> po_account_id x = a \<and> po_id x = i"
  by (auto simp: get_pending_order_def find_Some_iff)

text \<open>The KRW reserved for an account and the shares promised by its sells.\<close>

definition is_pending :: "pending_order \<Rightarrow> bool" where
  "is_pending x \<longleftrightarrow> po_status x = ''pending''"

definition reserved_of :: "int \<Rightarrow> pending_order \<Rightarrow> rat" where
  "reserved_of a x = (if po_account_id x = a \<and> is_pending x then po_reserved_krw x else 0)"

definition reserved_krw :: "limit_book \<Rightarrow> int \<Rightarrow> rat" where
  "reserved_krw b a = (\<Sum>x\<leftarrow>lb_orders b. reserved_of a x)"

definition promised_of :: "int \<times> string \<Rightarrow> pending_order \<Rightarrow> rat" where
  "promised_of k x = (if (po_account_id x, po_symbol x) = k \<and> po_side x = ''sell'' \<and> is_pending x then po_quantity x else 0)"

definition promised :: "limit_book \<Rightarrow> int \<times> string \<Rightarrow> rat" where
  "promised b k = (\<Sum>x\<leftarrow>lb_orders b. promised_of k x)"

lemma pending_sell_qty_promised: "pending_sell_qty b a s = promised b (a, s)"
proof -
  have "sum_list (map po_quantity (filter (\<lambda>x. po_account_id x = a \<and> po_symbol x = s \<and> po_side x = ''sell'' \<and> po_status x = ''pending'') xs))
      = (\<Sum>x\<leftarrow>xs. promised_of (a, s) x)" for xs
    by (induction xs) (auto simp: promised_of_def is_pending_def)
  then show ?thesis by (simp add: pending_sell_qty_def promised_def)
qed

lemma settled_sums:
  assumes "x \<in> set (lb_orders b)" and "distinct (map po_id (lb_orders b))" and "po_id y = po_id x"
    and "lb_orders b' = replace_order y (lb_orders b)" and "\<not> is_pending y"
  shows "reserved_krw b' a = reserved_krw b a - reserved_of a x" and "promised b' k = promised b k - promised_of k x"
proof -
  obtain us vs where xs: "lb_orders b = us @ x # vs" "lb_orders b' = us @ y # vs"
    using replace_order_split [OF assms(1-3)] assms(4) by auto
  show "reserved_krw b' a = reserved_krw b a - reserved_of a x" and "promised b' k = promised b k - promised_of k x"
    using assms(5) by (simp_all add: reserved_krw_def promised_def xs reserved_of_def promised_of_def)
qed

subsection \<open>Cancelling\<close>

lemma cancel_effect:
  assumes "cancel_pending_order now b a i = Inr (b', Inr y)" and "limit_book_ok b"
  obtains x where "x \<in> set (lb_orders b)" and "is_pending x" and "po_account_id x = a" and "po_id x = i"
    and "y = x\<lparr>po_status := ''cancelled'', po_cancelled_at := Some now\<rparr>"
    and "lb_orders b' = replace_order y (lb_orders b)" and "limit_book_ok b'"
    and "if po_side x = ''buy''
         then \<exists>account. get_account (lb_ledger b) a = Some account
           \<and> lb_ledger b' = with_krw (lb_ledger b) a account (pa_cash_krw account + po_reserved_krw x)
         else lb_ledger b' = lb_ledger b"
proof -
  have l: "ledger_ok (lb_ledger b)" using assms(2) by (simp add: limit_book_ok_def)
  obtain x where x: "get_pending_order b a i = Some x" using assms(1)
    by (auto simp: cancel_pending_order_def split: option.splits)
  note row = get_pending_order_Some [OF x]
  have ok: "order_ok x" using assms(2) row by (simp add: limit_book_ok_def)
  let ?y = "x\<lparr>po_status := ''cancelled'', po_cancelled_at := Some now\<rparr>"
  have pending: "is_pending x" and y: "y = ?y" and orders: "lb_orders b' = replace_order ?y (lb_orders b)"
      and next_id: "lb_next_order_id b' = lb_next_order_id b"
      and ledger: "(if po_side x = ''buy'' then (case get_account (lb_ledger b) a of None \<Rightarrow> Inl AssertionError
          | Some account \<Rightarrow> release_krw (lb_ledger b) a account (po_reserved_krw x)) else Inr (lb_ledger b)) = Inr (lb_ledger b')"
    using assms(1) x by (auto simp: cancel_pending_order_def is_pending_def Let_def elim!: bindrE split: if_splits)
  have moved: "if po_side x = ''buy''
      then \<exists>account. get_account (lb_ledger b) a = Some account
        \<and> lb_ledger b' = with_krw (lb_ledger b) a account (pa_cash_krw account + po_reserved_krw x)
      else lb_ledger b' = lb_ledger b"
    using ledger release_krw_Inr [OF _ _ l order_ok_reserved [OF ok]] by (auto split: if_splits option.splits)
  have ledger': "ledger_ok (lb_ledger b')" "trade_ids_ok (lb_ledger b')"
    using moved with_krw_effect(1,5) [OF _ l] assms(2) cash_shift_places [OF l _ order_ok_reserved [OF ok]]
    by (auto simp: limit_book_ok_def split: if_splits)
  have rows: "order_ok z \<and> po_id z < lb_next_order_id b" if "z \<in> set (lb_orders b')" for z
  proof -
    have "z \<in> insert ?y (set (lb_orders b))"
      using replace_order_set [of x "lb_orders b" ?y] that row assms(2) orders by (auto simp: limit_book_ok_def)
    moreover have "order_ok ?y" using ok pending by (auto simp: order_ok_def is_pending_def)
    ultimately show ?thesis using assms(2) row by (auto simp: limit_book_ok_def)
  qed
  have "limit_book_ok b'"
    using ledger' rows assms(2) orders next_id by (auto simp: limit_book_ok_def replace_order_ids)
  with row pending y orders moved show thesis by (intro that) auto
qed

lemma cancel_refused: "cancel_pending_order now b a i = Inr (b', Inl r) \<Longrightarrow> b' = b"
  by (auto simp: cancel_pending_order_def Let_def elim!: bindrE split: option.splits if_splits)

subsection \<open>Executing a fill\<close>

lemma insert_trade_row:
  assumes "insert_trade l t = Inr l'"
  shows "\<exists>t'. ld_trades l' = ld_trades l @ [t'] \<and> pt_id t' = pt_id t \<and> numeric_column 20 8 (pt_price t) = Inr (pt_price t')"
  using assms unfolding insert_trade_def by (elim bindrE) auto

lemma execute_sides:
  "execute_buy now l i account p = Inr (l', r) \<Longrightarrow> ld_trades l' = ld_trades l \<and> ld_next_id l \<le> ld_next_id l'"
  "execute_sell now l i account p = Inr (l', r) \<Longrightarrow> ld_trades l' = ld_trades l \<and> ld_next_id l \<le> ld_next_id l'"
  by (auto simp: execute_buy_def execute_sell_def Let_def elim!: bindrE split: option.splits if_splits)

text \<open>The trade row of an execution is its preview, under a new id.\<close>

lemma execute_order_trade:
  assumes "execute_order fetch now l req = Inr (l', x)" and "ledger_ok l"
  shows "\<exists>t p. preview_order fetch l req = Inr p \<and> ld_trades l' = ld_trades l @ [t]
    \<and> pt_account_id t = or_account_id req \<and> pt_symbol t = ov_symbol p \<and> pt_side t = or_side req \<and> pt_currency t = ov_currency p
    \<and> trade_flow t = (if or_side req = ''buy'' then - ov_total_cost p else ov_total_cost p)
    \<and> pt_quantity t = ov_quantity p \<and> numeric_column 20 8 (ov_price p) = Inr (pt_price t)
    \<and> (trade_ids_ok l \<longrightarrow> trade_ids_ok l')"
proof -
  let ?i = "or_account_id req" and ?buy = "py_lower (or_side req) = ''buy''"
  obtain p account l1 pnl where p: "preview_order fetch l req = Inr p"
    and l1: "(if ?buy then execute_buy now l ?i account p else execute_sell now l ?i account p) = Inr (l1, pnl)"
    and ins: "insert_trade (l1\<lparr>ld_next_id := ld_next_id l1 + 1\<rparr>)
      \<lparr>pt_id = ld_next_id l1, pt_account_id = ?i, pt_symbol = ov_symbol p,
       pt_instrument_type = ov_instrument_type p, pt_side = or_side req,
       pt_order_type = or_order_type req, pt_quantity = ov_quantity p, pt_price = ov_price p,
       pt_total_amount = ov_gross p, pt_fee = ov_fee p, pt_currency = ov_currency p,
       pt_reason = or_reason req, pt_realized_pnl = pnl,
       pt_correlation_id = or_correlation_id req, pt_executed_at = now\<rparr> = Inr l'" (is "insert_trade ?l2 ?t = _")
    and account: "get_account l ?i = Some account"
    using assms(1) unfolding execute_order_def
    by (elim bindrE) (auto elim!: bindrE split: option.splits prod.splits)
  note preview = preview_order_ok [OF p]
  have side: "ld_trades l1 = ld_trades l" "ld_next_id l \<le> ld_next_id l1"
    using l1 execute_sides [of now l ?i account p l1 pnl] by (auto split: if_splits)
  have "ledger_ok l1"
    using l1 execute_buy_effect(2) [OF _ assms(2) preview(1) account] execute_sell_effect(2) [OF _ assms(2) preview(1) account]
    by (auto split: if_splits)
  then have ok2: "ledger_ok ?l2" by (fastforce simp: ledger_ok_def get_account_def correlations_def)
  from insert_trade_effect [OF ins ok2] preview(1) obtain t where
    t: "l' = ?l2\<lparr>ld_trades := ld_trades ?l2 @ [t]\<rparr>" "trade_flow t = trade_flow ?t" "trade_shares t = trade_shares ?t"
      "pt_account_id t = ?i" "pt_symbol t = ov_symbol p" "pt_currency t = ov_currency p" "pt_side t = or_side req"
      "or_side req \<in> {''buy'', ''sell''}"
    by (auto simp: preview_ok_def)
  moreover have "pt_id t = ld_next_id l1" "numeric_column 20 8 (ov_price p) = Inr (pt_price t)"
    using insert_trade_row [OF ins] arg_cong [OF t(1), of ld_trades] by auto
  moreover have "pt_quantity t = ov_quantity p" using t(3,7) by (auto simp: trade_shares_def split: if_splits)
  moreover have "py_lower (or_side req) = or_side req" using t(8) by (auto simp: py_lower_def lower_char_def)
  moreover have "trade_ids_ok l \<longrightarrow> trade_ids_ok l'"
    using t(1) side \<open>pt_id t = ld_next_id l1\<close> by (auto simp: trade_ids_ok_def)
  ultimately show ?thesis
    using p preview side(1) by (auto simp: trade_flow_def preview_ok_def)
qed

lemma crypto_quantity_exact:
  assumes "places 8 q" and "0 < q" and "q < 10 ^ 12"
  shows "quantize_crypto_qty q = Inr q"
  using quantize_exact [OF assms(1), of ] assms(2,3) by (simp add: quantize_crypto_qty_def)

lemma fill_preview:
  assumes "preview_order fetch l (fill_request x (po_limit_price x)) = Inr p" and "order_ok x"
  shows "ov_symbol p = po_symbol x" and "ov_quantity p = po_quantity x" and "ov_price p = po_limit_price x"
    and "ov_currency p = ''KRW''" and "po_side x = ''buy'' \<Longrightarrow> ov_total_cost p = po_reserved_krw x"
proof -
  have side: "py_lower (po_side x) = po_side x" using assms(2) by (auto simp: order_ok_def py_lower_def lower_char_def)
  have kind: "py_lower ''limit'' = ''limit''" by code_simp
  have q: "order_quantity (fill_request x (po_limit_price x)) (po_limit_price x) ''crypto'' = Inr (po_quantity x)"
    using crypto_quantity_exact [of "po_quantity x"] assms(2)
    by (simp add: order_quantity_def fill_request_def order_ok_def)
  have p: "priced_order (fill_request x (po_limit_price x)) (po_side x) ''limit'' ''crypto'' (po_symbol x) (po_limit_price x) = Inr p"
    using assms side kind
    by (auto simp: preview_order_def fill_request_def order_fill_price_def order_ok_def account_not_found_def Let_def
        split: option.splits)
  show "ov_symbol p = po_symbol x" and "ov_quantity p = po_quantity x" and "ov_price p = po_limit_price x"
    and "ov_currency p = ''KRW''"
    using p q by (auto simp: priced_order_def position_currency_def elim!: bindrE)
  show "po_side x = ''buy'' \<Longrightarrow> ov_total_cost p = po_reserved_krw x"
    using p q assms(2)
    by (auto simp: priced_order_def order_ok_def limit_gross_def limit_reservation_def elim!: bindrE)
qed

text \<open>The order after it was filled.\<close>

definition filled_order :: "instant \<Rightarrow> pending_order \<Rightarrow> pending_order" where
  "filled_order now x = x\<lparr>po_status := ''filled'', po_fill_price := Some (po_limit_price x), po_filled_at := Some now\<rparr>"

lemma fill_effect:
  assumes "fill_pending fetch at_time now b x (po_limit_price x) = Inr b'" and "limit_book_ok b"
    and "x \<in> set (lb_orders b)" and "is_pending x"
  obtains t where "limit_book_ok b'" and "lb_orders b' = replace_order (filled_order now x) (lb_orders b)"
    and "ld_trades (lb_ledger b') = ld_trades (lb_ledger b) @ [t]"
    and "pt_account_id t = po_account_id x" and "pt_symbol t = po_symbol x" and "pt_currency t = ''KRW''"
    and "pt_side t = po_side x" and "pt_quantity t = po_quantity x" and "pt_price t = po_limit_price x"
    and "po_side x = ''buy'' \<Longrightarrow> trade_flow t = - po_reserved_krw x"
    and "\<And>a c. c \<in> currencies \<Longrightarrow> balance (lb_ledger b') a c = balance (lb_ledger b) a c
      + (if a = po_account_id x \<and> c = ''KRW'' then po_reserved_krw x + trade_flow t else 0)"
    and "\<And>k. held (lb_ledger b') k = held (lb_ledger b) k + (if k = (po_account_id x, po_symbol x) then trade_shares t else 0)"
    and "lb_next_order_id b' = lb_next_order_id b" and "lb_provenance b' = lb_provenance b"
    and "po_side x = ''sell'' \<Longrightarrow> po_quantity x \<le> held (lb_ledger b) (po_account_id x, po_symbol x)"
proof -
  let ?l = "lb_ledger b" and ?i = "po_account_id x"
  have l: "ledger_ok ?l" "trade_ids_ok ?l" and ok: "order_ok x" using assms(2,3) by (auto simp: limit_book_ok_def)
  obtain account where account: "get_account ?l ?i = Some account"
    using assms(1) by (auto simp: fill_pending_def split: option.splits)
  obtain l1 l2 e stored where
      rel: "(if po_side x = ''buy'' then release_krw ?l ?i account (po_reserved_krw x) else Inr ?l) = Inr l1"
      and exec: "execute_order fetch at_time l1 (fill_request x (po_limit_price x)) = Inr (l2, e)"
      and col: "numeric_column 20 8 (po_limit_price x) = Inr stored"
      and b': "b' = b\<lparr>lb_ledger := l2, lb_orders := replace_order
        (x\<lparr>po_status := ''filled'', po_fill_price := Some stored, po_filled_at := Some now\<rparr>) (lb_orders b)\<rparr>"
    using assms(1) account by (auto simp: fill_pending_def elim!: bindrE)
  have limit: "places 8 (po_limit_price x)" using ok places_mono [of 4 "po_limit_price x" 8] by (simp add: order_ok_def)
  then have stored: "stored = po_limit_price x" using numeric_column_Inr(4) [OF col] by simp
  have r: "places 4 (po_reserved_krw x)" by (rule order_ok_reserved [OF ok])
  have sell: "po_side x \<noteq> ''buy'' \<Longrightarrow> po_reserved_krw x = 0" using ok by (simp add: order_ok_def)
  note wk = with_krw_effect [OF account l(1) conjunct1 [OF cash_shift_places [OF l(1) account r]]]
  have l1: "ledger_ok l1" "trade_ids_ok l1" "ld_trades l1 = ld_trades ?l" "\<And>k. held l1 k = held ?l k"
      "\<And>a c. c \<in> currencies \<Longrightarrow> balance l1 a c = balance ?l a c + (if a = ?i \<and> c = ''KRW'' then po_reserved_krw x else 0)"
    using rel release_krw_Inr [OF _ account l(1) r] wk l sell krw_balance [OF account] by (auto split: if_splits)
  from execute_order_effect [OF exec l1(1)] obtain t where
    t: "ld_trades l2 = ld_trades l1 @ [t]" "ledger_ok l2"
      "moved l1 l2 (pt_account_id t) (pt_symbol t) (pt_currency t) (trade_flow t) (trade_shares t)"
      "pt_side t = ''sell'' \<longrightarrow> 0 \<le> held l2 (pt_account_id t, pt_symbol t)" by blast
  from execute_order_trade [OF exec l1(1)] t(1) obtain p where
    p: "preview_order fetch l1 (fill_request x (po_limit_price x)) = Inr p" "pt_account_id t = ?i" "pt_symbol t = ov_symbol p"
      "pt_side t = po_side x" "pt_currency t = ov_currency p" "pt_quantity t = ov_quantity p"
      "trade_flow t = (if po_side x = ''buy'' then - ov_total_cost p else ov_total_cost p)"
      "numeric_column 20 8 (ov_price p) = Inr (pt_price t)" "trade_ids_ok l2"
    using l1(2) by (auto simp: fill_request_def)
  note fp = fill_preview [OF p(1) ok]
  have price: "pt_price t = po_limit_price x" using p(8) fp(3) numeric_column_Inr(4) limit by auto
  have bal: "balance l2 a c = balance ?l a c + (if a = ?i \<and> c = ''KRW'' then po_reserved_krw x + trade_flow t else 0)"
    if "c \<in> currencies" for a c
    using t(3) l1(5) [OF that, of a] that p(2,5) fp(4) by (simp add: moved_def)
  have hel: "held l2 k = held ?l k + (if k = (?i, po_symbol x) then trade_shares t else 0)" for k
    using conjunct2 [OF t(3) [unfolded moved_def], THEN spec, of k] l1(4) p(2,3) fp(1) by simp
  have orders: "lb_orders b' = replace_order (filled_order now x) (lb_orders b)"
    by (simp add: b' stored filled_order_def)
  have "order_ok z \<and> po_id z < lb_next_order_id b" if "z \<in> set (lb_orders b')" for z
  proof -
    have "z \<in> insert (filled_order now x) (set (lb_orders b))"
      using replace_order_set [OF assms(3), of "filled_order now x"] that assms(2)
      by (auto simp: orders limit_book_ok_def filled_order_def)
    moreover have "order_ok (filled_order now x)" using ok by (auto simp: order_ok_def filled_order_def)
    ultimately show ?thesis using assms(2,3) by (auto simp: limit_book_ok_def filled_order_def)
  qed
  then have ok': "limit_book_ok b'"
    using t(2) p(9) assms(2) orders by (auto simp: limit_book_ok_def b' replace_order_ids)
  have covered: "po_quantity x \<le> held ?l (?i, po_symbol x)" if "po_side x = ''sell''"
    using t(4) p(2-4,6) fp(1,2) hel [of "(?i, po_symbol x)"] that by (simp add: trade_shares_def)
  show thesis
    by (rule that [of t]) (use ok' orders t(1) l1(3) p(2-7) fp price bal hel covered in \<open>simp_all add: b'\<close>)
qed

subsection \<open>Linking a trade\<close>

text \<open>Rows without what a link writes.\<close>

definition uncorrelated :: "ledger_trade \<Rightarrow> ledger_trade" where
  "uncorrelated t = t\<lparr>pt_correlation_id := None\<rparr>"

definition unlinked :: "pending_order \<Rightarrow> pending_order" where
  "unlinked x = x\<lparr>po_paper_trade_id := None\<rparr>"

lemma uncorrelated_eq:
  assumes "uncorrelated t = uncorrelated u"
  shows "trade_flow t = trade_flow u" "trade_shares t = trade_shares u" "pt_account_id t = pt_account_id u"
    "pt_symbol t = pt_symbol u" "pt_currency t = pt_currency u" "pt_id t = pt_id u"
  using assms by (cases t; cases u; simp add: uncorrelated_def trade_flow_def trade_shares_def)+

lemma relabelled_correlations:
  assumes "distinct (map pt_id ts)" and "distinct (map (\<lambda>t. (pt_account_id t, pt_correlation_id t)) (filter (\<lambda>t. pt_correlation_id t \<noteq> None) ts))"
    and "c \<noteq> None \<longrightarrow> (\<forall>u\<in>set ts. pt_id u \<noteq> pt_id t \<and> pt_account_id u = pt_account_id t \<longrightarrow> pt_correlation_id u \<noteq> c)" and "t \<in> set ts"
  shows "distinct (map (\<lambda>t. (pt_account_id t, pt_correlation_id t)) (filter (\<lambda>t. pt_correlation_id t \<noteq> None)
    (map (\<lambda>u. if pt_id u = pt_id t then u\<lparr>pt_correlation_id := c\<rparr> else u) ts)))" (is "distinct (map ?key (filter ?P (map ?f ts)))")
proof -
  have "inj_on ?key {u \<in> set ts. ?P u}" using assms(2) by (simp add: distinct_map)
  then have old: "u = v" if "u \<in> set ts" "v \<in> set ts" "?P u" "?P v" "?key u = ?key v" for u v using that by (simp add: inj_on_def)
  have ids: "u = v" if "u \<in> set ts" "v \<in> set ts" "pt_id u = pt_id v" for u v
    using assms(1) that by (auto simp: distinct_map inj_on_def)
  have same: "map pt_id (map ?f ts) = map pt_id ts" by simp
  have "distinct (map pt_id (map ?f ts))" unfolding same by (rule assms(1))
  then have "distinct (map ?f ts)" by (rule distinct_map [THEN iffD1, THEN conjunct1])
  moreover have "inj_on ?key {u \<in> set (map ?f ts). ?P u}"
  proof (rule inj_onI)
    fix u v assume u: "u \<in> {u \<in> set (map ?f ts). ?P u}" and v: "v \<in> {u \<in> set (map ?f ts). ?P u}" and key: "?key u = ?key v"
    obtain u0 v0 where uv: "u0 \<in> set ts" "u = ?f u0" "v0 \<in> set ts" "v = ?f v0" using u v by auto
    have clash: False if "w \<in> set ts" "pt_id w \<noteq> pt_id t" "?key w = (pt_account_id t, c)" "c \<noteq> None" for w
      using assms(3) that by auto
    have "u0 = v0"
    proof (cases "pt_id u0 = pt_id t"; cases "pt_id v0 = pt_id t")
      assume "pt_id u0 = pt_id t" "pt_id v0 = pt_id t"
      then show ?thesis using ids uv(1,3) by simp
    next
      assume a: "pt_id u0 = pt_id t" "pt_id v0 \<noteq> pt_id t"
      then have "u0 = t" using ids uv(1) assms(4) by simp
      with a clash [OF uv(3)] key u uv(2,4) show ?thesis by simp
    next
      assume a: "pt_id u0 \<noteq> pt_id t" "pt_id v0 = pt_id t"
      then have "v0 = t" using ids uv(3) assms(4) by simp
      with a clash [OF uv(1)] key v uv(2,4) show ?thesis by simp
    next
      assume "pt_id u0 \<noteq> pt_id t" "pt_id v0 \<noteq> pt_id t"
      then have "u = u0" "v = v0" using uv(2,4) by simp_all
      with old [OF uv(1,3)] key u v show ?thesis by blast
    qed
    then show "u = v" using uv(2,4) by simp
  qed
  ultimately show ?thesis by (simp add: distinct_map)
qed

lemma latest_trade_in: "latest_trade l a s side = Some t \<Longrightarrow> t \<in> set (ld_trades l)"
proof -
  assume latest: "latest_trade l a s side = Some t"
  let ?own = "filter (\<lambda>t. pt_account_id t = a \<and> pt_symbol t = s \<and> pt_side t = side) (ld_trades l)"
  let ?xs = "rev (sort_key pt_executed_at (sort_key pt_id ?own))"
  have "?xs \<noteq> [] \<and> hd ?xs = t" using latest unfolding latest_trade_def Let_def by (cases ?xs) simp_all
  then have "t \<in> set ?xs" using hd_in_set by metis
  then show ?thesis by simp
qed

lemma order_ok_unlinked: "order_ok (x\<lparr>po_paper_trade_id := i\<rparr>) = order_ok x"
  by (simp add: order_ok_def)

lemma link_effect:
  assumes "limit_book_ok b"
  shows "limit_book_ok (link_trade b x)"
    and "map uncorrelated (ld_trades (lb_ledger (link_trade b x))) = map uncorrelated (ld_trades (lb_ledger b))"
    and "balance (lb_ledger (link_trade b x)) a c = balance (lb_ledger b) a c"
    and "held (lb_ledger (link_trade b x)) k = held (lb_ledger b) k"
    and "map unlinked (lb_orders (link_trade b x)) = map unlinked (lb_orders b)"
    and "lb_next_order_id (link_trade b x) = lb_next_order_id b"
proof -
  let ?l = "lb_ledger b"
  have "link_trade b x = b \<or> (\<exists>t orders pv. t \<in> set (ld_trades ?l)
      \<and> (po_correlation_id x \<noteq> None \<longrightarrow> (\<forall>u\<in>set (ld_trades ?l). pt_id u \<noteq> pt_id t \<and> pt_account_id u = pt_account_id t \<longrightarrow> pt_correlation_id u \<noteq> po_correlation_id x))
      \<and> orders = map (\<lambda>y. if po_id y = po_id x then y\<lparr>po_paper_trade_id := Some (pt_id t)\<rparr> else y) (lb_orders b)
      \<and> link_trade b x = b\<lparr>lb_ledger := ?l\<lparr>ld_trades := map (\<lambda>u. if pt_id u = pt_id t
            then u\<lparr>pt_correlation_id := po_correlation_id x\<rparr> else u) (ld_trades ?l)\<rparr>, lb_orders := orders, lb_provenance := pv\<rparr>)"
  proof (cases "latest_trade ?l (po_account_id x) (po_symbol x) (po_side x)")
    case (Some t)
    show ?thesis
    proof (cases "po_correlation_id x \<noteq> None \<and> (\<exists>u\<in>set (ld_trades ?l). pt_id u \<noteq> pt_id t \<and> pt_account_id u = pt_account_id t
        \<and> pt_correlation_id u = po_correlation_id x)")
      case False
      then have "link_trade b x = b\<lparr>lb_ledger := ?l\<lparr>ld_trades := map (\<lambda>u. if pt_id u = pt_id t
            then u\<lparr>pt_correlation_id := po_correlation_id x\<rparr> else u) (ld_trades ?l)\<rparr>,
          lb_orders := map (\<lambda>y. if po_id y = po_id x then y\<lparr>po_paper_trade_id := Some (pt_id t)\<rparr> else y) (lb_orders b),
          lb_provenance := AList.update (pt_id t) \<lparr>pv_journal_id = po_journal_id x,
            pv_artifact_uuid = po_artifact_uuid x, pv_forecast_id = po_forecast_id x\<rparr> (lb_provenance b)\<rparr>"
        unfolding link_trade_def Let_def Some option.case by (rule if_not_P)
      with False latest_trade_in [OF Some] show ?thesis by blast
    qed (simp add: link_trade_def Some)
  qed (simp add: link_trade_def)
  then have "limit_book_ok (link_trade b x)
    \<and> map uncorrelated (ld_trades (lb_ledger (link_trade b x))) = map uncorrelated (ld_trades ?l)
    \<and> balance (lb_ledger (link_trade b x)) a c = balance ?l a c
    \<and> held (lb_ledger (link_trade b x)) k = held ?l k
    \<and> map unlinked (lb_orders (link_trade b x)) = map unlinked (lb_orders b)
    \<and> lb_next_order_id (link_trade b x) = lb_next_order_id b"
  proof (elim disjE exE conjE)
    fix t orders pv
    assume t: "t \<in> set (ld_trades ?l)" "po_correlation_id x \<noteq> None \<longrightarrow> (\<forall>u\<in>set (ld_trades ?l). pt_id u \<noteq> pt_id t \<and> pt_account_id u = pt_account_id t \<longrightarrow> pt_correlation_id u \<noteq> po_correlation_id x)"
      and orders: "orders = map (\<lambda>y. if po_id y = po_id x then y\<lparr>po_paper_trade_id := Some (pt_id t)\<rparr> else y) (lb_orders b)"
      and link: "link_trade b x = b\<lparr>lb_ledger := ?l\<lparr>ld_trades := map (\<lambda>u. if pt_id u = pt_id t
            then u\<lparr>pt_correlation_id := po_correlation_id x\<rparr> else u) (ld_trades ?l)\<rparr>, lb_orders := orders, lb_provenance := pv\<rparr>"
        (is "_ = b\<lparr>lb_ledger := ?l', lb_orders := orders, lb_provenance := pv\<rparr>")
    have ids: "map pt_id (ld_trades ?l') = map pt_id (ld_trades ?l)" "map po_id orders = map po_id (lb_orders b)"
      by (auto simp: orders)
    have new_trades: "ld_trades ?l' = map (\<lambda>u. if pt_id u = pt_id t then u\<lparr>pt_correlation_id := po_correlation_id x\<rparr> else u)
        (ld_trades ?l)" by simp
    have "distinct (correlations ?l')"
    proof -
      have "distinct (map pt_id (ld_trades ?l))" "distinct (correlations ?l)"
        using assms by (simp_all add: limit_book_ok_def ledger_ok_def trade_ids_ok_def)
      from relabelled_correlations [OF this [unfolded correlations_def] t(2,1)] show ?thesis
        unfolding correlations_def new_trades .
    qed
    then have "ledger_ok ?l'" using assms unfolding limit_book_ok_def ledger_ok_def by (simp add: get_account_def)
    moreover have "trade_ids_ok ?l'"
      unfolding trade_ids_ok_def ids(1) using assms by (auto simp: limit_book_ok_def trade_ids_ok_def)
    moreover have "\<forall>y\<in>set orders. order_ok y \<and> po_id y < lb_next_order_id b"
      using assms by (auto simp: limit_book_ok_def orders order_ok_unlinked)
    ultimately have "limit_book_ok (link_trade b x)" using assms ids(2) by (simp add: limit_book_ok_def link)
    moreover have "map uncorrelated (ld_trades ?l') = map uncorrelated (ld_trades ?l)" by (simp add: uncorrelated_def)
    moreover have "map unlinked orders = map unlinked (lb_orders b)" by (simp add: orders unlinked_def)
    ultimately show ?thesis by (simp add: link balance_def get_account_def held_def)
  qed (use assms in simp)
  then show "limit_book_ok (link_trade b x)"
    and "map uncorrelated (ld_trades (lb_ledger (link_trade b x))) = map uncorrelated (ld_trades (lb_ledger b))"
    and "balance (lb_ledger (link_trade b x)) a c = balance (lb_ledger b) a c"
    and "held (lb_ledger (link_trade b x)) k = held (lb_ledger b) k"
    and "map unlinked (lb_orders (link_trade b x)) = map unlinked (lb_orders b)"
    and "lb_next_order_id (link_trade b x) = lb_next_order_id b" by blast+
qed

subsection \<open>Conservation\<close>

text \<open>
  Free and reserved KRW move together by the cash flows of the trades added; everything else as
  in the book without pending orders. Rows are compared without what a link writes.
\<close>

definition conserves :: "limit_book \<Rightarrow> limit_book \<Rightarrow> bool" where
  "conserves b b' \<longleftrightarrow> (\<exists>added.
     map uncorrelated (ld_trades (lb_ledger b')) = map uncorrelated (ld_trades (lb_ledger b) @ added)
     \<and> (\<forall>a. balance (lb_ledger b') a ''KRW'' + reserved_krw b' a = balance (lb_ledger b) a ''KRW'' + reserved_krw b a + cash_flow added a ''KRW''
          \<and> balance (lb_ledger b') a ''USD'' = balance (lb_ledger b) a ''USD'' + cash_flow added a ''USD'')
     \<and> (\<forall>k. held (lb_ledger b') k = held (lb_ledger b) k + share_flow added k))"

lemma flows_append:
  "cash_flow (xs @ ys) a c = cash_flow xs a c + cash_flow ys a c"
  "share_flow (xs @ ys) k = share_flow xs k + share_flow ys k"
  by (simp_all add: cash_flow_def share_flow_def)

lemma flows_nil [simp]: "cash_flow [] a c = 0" "share_flow [] k = 0"
  by (simp_all add: cash_flow_def share_flow_def)

lemma flows_single:
  "cash_flow [t] a c = (if pt_account_id t = a \<and> pt_currency t = c then trade_flow t else 0)"
  "share_flow [t] k = (if (pt_account_id t, pt_symbol t) = k then trade_shares t else 0)"
  by (simp_all add: cash_flow_def share_flow_def)

lemma conserves_refl: "conserves b b"
  unfolding conserves_def by (rule exI [of _ "[]"]) simp

lemma conserves_trans:
  assumes "conserves b b'" and "conserves b' b''"
  shows "conserves b b''"
proof -
  from assms obtain xs ys where
    xs: "map uncorrelated (ld_trades (lb_ledger b')) = map uncorrelated (ld_trades (lb_ledger b) @ xs)"
      "\<And>a. balance (lb_ledger b') a ''KRW'' + reserved_krw b' a = balance (lb_ledger b) a ''KRW'' + reserved_krw b a + cash_flow xs a ''KRW''"
      "\<And>a. balance (lb_ledger b') a ''USD'' = balance (lb_ledger b) a ''USD'' + cash_flow xs a ''USD''"
      "\<And>k. held (lb_ledger b') k = held (lb_ledger b) k + share_flow xs k"
    and ys: "map uncorrelated (ld_trades (lb_ledger b'')) = map uncorrelated (ld_trades (lb_ledger b') @ ys)"
      "\<And>a. balance (lb_ledger b'') a ''KRW'' + reserved_krw b'' a = balance (lb_ledger b') a ''KRW'' + reserved_krw b' a + cash_flow ys a ''KRW''"
      "\<And>a. balance (lb_ledger b'') a ''USD'' = balance (lb_ledger b') a ''USD'' + cash_flow ys a ''USD''"
      "\<And>k. held (lb_ledger b'') k = held (lb_ledger b') k + share_flow ys k"
    unfolding conserves_def by blast
  show ?thesis
    unfolding conserves_def
  proof (intro exI [of _ "xs @ ys"] conjI allI)
    show "map uncorrelated (ld_trades (lb_ledger b'')) = map uncorrelated (ld_trades (lb_ledger b) @ xs @ ys)"
      using xs(1) ys(1) by simp
    fix a k
    show "balance (lb_ledger b'') a ''KRW'' + reserved_krw b'' a = balance (lb_ledger b) a ''KRW'' + reserved_krw b a + cash_flow (xs @ ys) a ''KRW''"
      using xs(2) [of a] ys(2) [of a] by (simp add: flows_append)
    show "balance (lb_ledger b'') a ''USD'' = balance (lb_ledger b) a ''USD'' + cash_flow (xs @ ys) a ''USD''"
      using xs(3) [of a] ys(3) [of a] by (simp add: flows_append)
    show "held (lb_ledger b'') k = held (lb_ledger b) k + share_flow (xs @ ys) k"
      using xs(4) [of k] ys(4) [of k] by (simp add: flows_append)
  qed
qed

lemma krw_shift_conserves:
  assumes "get_account (lb_ledger b) a = Some account" and "ledger_ok (lb_ledger b)" and "places 4 r"
    and "lb_ledger b' = with_krw (lb_ledger b) a account (pa_cash_krw account + r)"
    and "\<And>c. reserved_krw b' c = reserved_krw b c - (if c = a then r else 0)"
  shows "conserves b b'"
proof -
  note wk = with_krw_effect [OF assms(1,2) conjunct1 [OF cash_shift_places [OF assms(2,1,3)]]]
  show ?thesis
    unfolding conserves_def
  proof (intro exI [of _ "[]"] conjI allI)
    fix c k
    show "balance (lb_ledger b') c ''KRW'' + reserved_krw b' c = balance (lb_ledger b) c ''KRW'' + reserved_krw b c + cash_flow [] c ''KRW''"
      using wk(2) [of "''KRW''" c] krw_balance [OF assms(1)] by (simp add: assms(4,5) currencies_def)
    show "balance (lb_ledger b') c ''USD'' = balance (lb_ledger b) c ''USD'' + cash_flow [] c ''USD''"
      using wk(2) [of "''USD''" c] by (simp add: assms(4) currencies_def)
    show "held (lb_ledger b') k = held (lb_ledger b) k + share_flow [] k" by (simp add: assms(4) wk(3))
  qed (simp add: assms(4) wk(4))
qed

lemma place_conserves:
  assumes "place_limit_order journal forecast now b req = Inr (b', r)" and "limit_book_ok b"
  shows "conserves b b'"
proof (cases r)
  case (Inl refusal)
  with assms(1) have "b' = b" using place_refused by blast
  then show ?thesis using conserves_refl by simp
next
  case (Inr x)
  note place = place_effect [OF assms(1) [unfolded Inr] assms(2)]
  have l: "ledger_ok (lb_ledger b)" using assms(2) by (simp add: limit_book_ok_def)
  from place(5) obtain account where account: "get_account (lb_ledger b) (po_account_id x) = Some account"
      "lb_ledger b' = with_krw (lb_ledger b) (po_account_id x) account (pa_cash_krw account - po_reserved_krw x)" by blast
  have "places 4 (- po_reserved_krw x)" using order_ok_reserved [OF place(4)] by blast
  moreover have "reserved_krw b' a = reserved_krw b a - (if a = po_account_id x then - po_reserved_krw x else 0)" for a
    using place(3) by (simp add: reserved_krw_def place(2) reserved_of_def is_pending_def)
  ultimately show ?thesis using krw_shift_conserves [OF account(1) l] account(2) by auto
qed

lemma cancel_conserves:
  assumes "cancel_pending_order now b a i = Inr (b', r)" and "limit_book_ok b"
  shows "conserves b b'"
proof (cases r)
  case (Inl refusal)
  with assms(1) have "b' = b" using cancel_refused by blast
  then show ?thesis using conserves_refl by simp
next
  case (Inr y)
  have l: "ledger_ok (lb_ledger b)" "distinct (map po_id (lb_orders b))" using assms(2) by (simp_all add: limit_book_ok_def)
  from cancel_effect [OF assms(1) [unfolded Inr] assms(2)] obtain x where
    x: "x \<in> set (lb_orders b)" "is_pending x" "po_account_id x = a"
      "y = x\<lparr>po_status := ''cancelled'', po_cancelled_at := Some now\<rparr>"
      "lb_orders b' = replace_order y (lb_orders b)"
      "if po_side x = ''buy''
       then \<exists>account. get_account (lb_ledger b) a = Some account
         \<and> lb_ledger b' = with_krw (lb_ledger b) a account (pa_cash_krw account + po_reserved_krw x)
       else lb_ledger b' = lb_ledger b" by blast
  have ok: "order_ok x" using assms(2) x(1) by (simp add: limit_book_ok_def)
  have sums: "reserved_krw b' c = reserved_krw b c - (if c = a then po_reserved_krw x else 0)" for c
    using settled_sums(1) [OF x(1) l(2) _ x(5), of c] x(2,3,4) by (simp add: is_pending_def reserved_of_def)
  show ?thesis
  proof (cases "po_side x = ''buy''")
    case True
    with x(6) obtain account where account: "get_account (lb_ledger b) a = Some account"
        "lb_ledger b' = with_krw (lb_ledger b) a account (pa_cash_krw account + po_reserved_krw x)" by auto
    from krw_shift_conserves [OF account(1) l(1) order_ok_reserved [OF ok] account(2) sums] show ?thesis .
  next
    case False
    then have "po_reserved_krw x = 0" "lb_ledger b' = lb_ledger b" using ok x(6) by (auto simp: order_ok_def)
    then show ?thesis unfolding conserves_def by (intro exI [of _ "[]"]) (simp add: sums)
  qed
qed

lemma limit_crossed_Inr:
  assumes "limit_crossed side price bars = Inr (Some p)"
  shows "p = price" and "\<exists>(low, high)\<in>set bars. py_lower side = ''buy'' \<and> dec_le low (DFinite price) = Inr True
    \<or> py_lower side = ''sell'' \<and> dec_le (DFinite price) high = Inr True"
  using assms by (induction bars) (auto elim!: bindrE split: if_splits)

text \<open>What a reconciliation does to one order: nothing, or a fill and its link.\<close>

lemma reconcile_order_cases:
  assumes "reconcile_order fetch candles clock now b i = Inr (b', filled)"
  shows "\<not> filled \<and> b' = b
    \<or> filled \<and> (\<exists>x cs b1. x \<in> set (lb_orders b) \<and> po_id x = i \<and> is_pending x \<and> candles i (po_symbol x) = Inr cs
        \<and> limit_crossed (po_side x) (po_limit_price x) (bars_since (po_placed_at x) cs) = Inr (Some (po_limit_price x))
        \<and> fill_pending fetch (clock i) now b x (po_limit_price x) = Inr b1 \<and> b' = link_trade b1 x)"
proof (cases "find (\<lambda>x. po_id x = i) (lb_orders b)")
  case None
  with assms show ?thesis by (simp add: reconcile_order_def)
next
  case (Some x)
  then have row: "x \<in> set (lb_orders b)" "po_id x = i" by (auto simp: find_Some_iff)
  show ?thesis
  proof (cases "po_status x \<noteq> ''pending''")
    case True
    with assms Some show ?thesis by (simp add: reconcile_order_def)
  next
    case pending: False
    show ?thesis
    proof (cases "candles i (po_symbol x)")
      case (Inl e)
      with assms Some pending show ?thesis by (simp add: reconcile_order_def)
    next
      case (Inr cs)
      let ?bars = "bars_since (po_placed_at x) cs"
      have "?bars = [] \<and> \<not> filled \<and> b' = b \<or> (\<exists>crossed. limit_crossed (po_side x) (po_limit_price x) ?bars = Inr crossed
          \<and> (case crossed of None \<Rightarrow> Inr (b, False)
             | Some p \<Rightarrow> (case fill_pending fetch (clock i) now b x p of Inl _ \<Rightarrow> Inr (b, False)
                           | Inr b1 \<Rightarrow> Inr (link_trade b1 x, True))) = (Inr (b', filled) :: (limit_book \<times> bool) result))"
        using assms Some pending Inr unfolding reconcile_order_def Let_def by (auto elim!: bindrE split: if_splits)
      then show ?thesis
      proof (elim disjE exE conjE)
        fix crossed
        assume crossed: "limit_crossed (po_side x) (po_limit_price x) ?bars = Inr crossed"
          "(case crossed of None \<Rightarrow> Inr (b, False)
             | Some p \<Rightarrow> (case fill_pending fetch (clock i) now b x p of Inl _ \<Rightarrow> Inr (b, False)
                           | Inr b1 \<Rightarrow> Inr (link_trade b1 x, True))) = (Inr (b', filled) :: (limit_book \<times> bool) result)"
        show ?thesis
        proof (cases crossed)
          case (Some p)
          have p: "p = po_limit_price x" using limit_crossed_Inr(1) crossed(1) Some by blast
          show ?thesis
          proof (cases "fill_pending fetch (clock i) now b x p")
            case (Inr b1)
            with crossed Some p row pending \<open>candles i (po_symbol x) = Inr cs\<close> show ?thesis
              by (intro disjI2 conjI exI [of _ x] exI [of _ cs] exI [of _ b1]) (simp_all add: is_pending_def)
          qed (use crossed(2) Some in simp)
        qed (use crossed(2) in simp)
      qed simp
    qed
  qed
qed

lemma linked_sums:
  assumes "map unlinked xs = map unlinked ys"
  shows "(\<Sum>x\<leftarrow>xs. reserved_of a x) = (\<Sum>y\<leftarrow>ys. reserved_of a y)" and "(\<Sum>x\<leftarrow>xs. promised_of k x) = (\<Sum>y\<leftarrow>ys. promised_of k y)"
proof -
  have eq: "reserved_of a x = reserved_of a (unlinked x)" "promised_of k x = promised_of k (unlinked x)" for x
    by (simp_all add: reserved_of_def promised_of_def is_pending_def unlinked_def)
  have "map (reserved_of a) zs = map (reserved_of a) (map unlinked zs)" "map (promised_of k) zs = map (promised_of k) (map unlinked zs)"
    for zs using eq by (induction zs) simp_all
  with assms show "(\<Sum>x\<leftarrow>xs. reserved_of a x) = (\<Sum>y\<leftarrow>ys. reserved_of a y)" and "(\<Sum>x\<leftarrow>xs. promised_of k x) = (\<Sum>y\<leftarrow>ys. promised_of k y)"
    by metis+
qed

lemma fill_conserves:
  assumes "fill_pending fetch at_time now b x (po_limit_price x) = Inr b1" and "limit_book_ok b"
    and "x \<in> set (lb_orders b)" and "is_pending x"
  shows "conserves b (link_trade b1 x)" and "limit_book_ok (link_trade b1 x)"
proof -
  from fill_effect [OF assms] obtain t where
    t: "limit_book_ok b1" "lb_orders b1 = replace_order (filled_order now x) (lb_orders b)"
      "ld_trades (lb_ledger b1) = ld_trades (lb_ledger b) @ [t]" "pt_account_id t = po_account_id x"
      "pt_symbol t = po_symbol x" "pt_currency t = ''KRW''"
      "\<And>a c. c \<in> currencies \<Longrightarrow> balance (lb_ledger b1) a c = balance (lb_ledger b) a c
        + (if a = po_account_id x \<and> c = ''KRW'' then po_reserved_krw x + trade_flow t else 0)"
      "\<And>k. held (lb_ledger b1) k = held (lb_ledger b) k + (if k = (po_account_id x, po_symbol x) then trade_shares t else 0)"
    by metis
  note link = link_effect [OF t(1), of x]
  show "limit_book_ok (link_trade b1 x)" by (rule link(1))
  have "distinct (map po_id (lb_orders b))" using assms(2) by (simp add: limit_book_ok_def)
  from settled_sums(1) [OF assms(3) this _ t(2)] have
    "reserved_krw b1 a = reserved_krw b a - (if a = po_account_id x then po_reserved_krw x else 0)" for a
    using assms(4) by (simp add: filled_order_def is_pending_def reserved_of_def)
  then have reserved: "reserved_krw (link_trade b1 x) a = reserved_krw b a - (if a = po_account_id x then po_reserved_krw x else 0)" for a
    using linked_sums(1) [OF link(5)] by (simp add: reserved_krw_def)
  show "conserves b (link_trade b1 x)"
    unfolding conserves_def
  proof (intro exI [of _ "[t]"] conjI allI)
    show "map uncorrelated (ld_trades (lb_ledger (link_trade b1 x))) = map uncorrelated (ld_trades (lb_ledger b) @ [t])"
      using link(2) t(3) by simp
    fix a k
    show "balance (lb_ledger (link_trade b1 x)) a ''KRW'' + reserved_krw (link_trade b1 x) a
        = balance (lb_ledger b) a ''KRW'' + reserved_krw b a + cash_flow [t] a ''KRW''"
      using t(4,6,7) by (simp add: link(3) reserved flows_single currencies_def)
    show "balance (lb_ledger (link_trade b1 x)) a ''USD'' = balance (lb_ledger b) a ''USD'' + cash_flow [t] a ''USD''"
      using t(6,7) by (simp add: link(3) flows_single currencies_def)
    show "held (lb_ledger (link_trade b1 x)) k = held (lb_ledger b) k + share_flow [t] k"
      unfolding link(4) t(8) flows_single using t(4,5) by auto
  qed
qed

end
