(* ===== verification/Paper_Orders_Runs.thy ===== *)
theory Paper_Orders_Runs
  imports Paper_Orders_Rules
begin

text \<open>
  Histories of a book with resting limit orders: what holds after any sequence of placements,
  cancellations, reconciliations and direct orders.
\<close>

subsection \<open>Commands and reachable books\<close>

text \<open>The surroundings: quotes, candles and clock at a moment, and the journal and forecast services.\<close>

record market_env =
  me_fetch :: quote_source
  me_candles :: "instant \<Rightarrow> int \<Rightarrow> string \<Rightarrow> candle list result"
  me_clock :: "instant \<Rightarrow> int \<Rightarrow> instant"
  me_journal :: "pending_order \<Rightarrow> int option"
  me_forecast :: "pending_order \<Rightarrow> string option"

datatype limit_command =
    Place instant limit_request
  | Cancel instant int int
  | Reconcile instant int
  | Admin ledger_command

definition committed_book :: "limit_book \<Rightarrow> (limit_book \<times> 'a) result \<Rightarrow> limit_book" where
  "committed_book b outcome = (case outcome of Inl _ \<Rightarrow> b | Inr (b', _) \<Rightarrow> b')"

text \<open>Deleting an account deletes its orders, by the foreign key of the table.\<close>

fun apply_limit :: "market_env \<Rightarrow> limit_book \<Rightarrow> limit_command \<Rightarrow> limit_book" where
  "apply_limit env b (Place now req) = committed_book b (place_limit_order (me_journal env) (me_forecast env) now b req)"
| "apply_limit env b (Cancel now account_id order_id) = committed_book b (cancel_pending_order now b account_id order_id)"
| "apply_limit env b (Reconcile now account_id) =
     fst (reconcile_pending_orders (me_fetch env) (me_candles env now) (me_clock env now) now b account_id)"
| "apply_limit env b (Admin c) =
     b\<lparr>lb_ledger := apply_command (me_fetch env) (lb_ledger b) c,
       lb_orders := (case c of Delete a \<Rightarrow> filter (\<lambda>x. po_account_id x \<noteq> a) (lb_orders b) | _ \<Rightarrow> lb_orders b)\<rparr>"

definition empty_limit_book :: limit_book where
  "empty_limit_book = \<lparr>lb_ledger = empty_ledger, lb_orders = [], lb_provenance = [], lb_next_order_id = 1\<rparr>"

inductive limit_reachable :: "market_env \<Rightarrow> limit_book \<Rightarrow> bool" for env where
  start: "limit_reachable env empty_limit_book"
| step: "limit_reachable env b \<Longrightarrow> limit_reachable env (apply_limit env b c)"

definition run_limit :: "market_env \<Rightarrow> limit_book \<Rightarrow> limit_command list \<Rightarrow> limit_book" where
  "run_limit env b cs = foldl (apply_limit env) b cs"

text \<open>Commands that trade: everything but creating, resetting and deleting accounts.\<close>

fun is_trading :: "limit_command \<Rightarrow> bool" where
  "is_trading (Admin c) = (case c of Order _ _ \<Rightarrow> True | _ \<Rightarrow> False)"
| "is_trading _ = True"

text \<open>Commands that sell only through resting orders.\<close>

fun sells_by_limit :: "limit_command \<Rightarrow> bool" where
  "sells_by_limit (Admin c) = (case c of Order _ req \<Rightarrow> or_side req = ''buy'' | _ \<Rightarrow> False)"
| "sells_by_limit _ = True"

subsection \<open>A relation kept by every step\<close>

text \<open>
  A reflexive and transitive relation that holds across each placement, cancellation and fill
  holds across whole reconciliations and histories.
\<close>

locale order_relation =
  fixes R :: "limit_book \<Rightarrow> limit_book \<Rightarrow> bool" and ok :: "limit_book \<Rightarrow> bool" and allowed :: "limit_command \<Rightarrow> bool"
    and env :: market_env
  assumes refl: "R b b"
    and trans: "R b b' \<Longrightarrow> R b' b'' \<Longrightarrow> R b b''"
    and place: "ok b \<Longrightarrow> limit_book_ok b \<Longrightarrow> place_limit_order journal forecast now b req = Inr (b', r) \<Longrightarrow> R b b' \<and> ok b'"
    and cancel: "ok b \<Longrightarrow> limit_book_ok b \<Longrightarrow> cancel_pending_order now b a i = Inr (b', q) \<Longrightarrow> R b b' \<and> ok b'"
    and fill: "ok b \<Longrightarrow> limit_book_ok b \<Longrightarrow> x \<in> set (lb_orders b) \<Longrightarrow> is_pending x
      \<Longrightarrow> fill_pending fetch at_time now b x (po_limit_price x) = Inr b' \<Longrightarrow> R b (link_trade b' x) \<and> ok (link_trade b' x)"
    and admin: "ok b \<Longrightarrow> limit_book_ok b \<Longrightarrow> allowed (Admin c) \<Longrightarrow> R b (apply_limit env b (Admin c)) \<and> ok (apply_limit env b (Admin c))"
begin

lemma reconcile_order_kept:
  assumes "reconcile_order fetch candles clock now b i = Inr (b', filled)" and "ok b" and "limit_book_ok b"
  shows "R b b' \<and> ok b' \<and> limit_book_ok b'"
  using reconcile_order_cases [OF assms(1)] fill [OF assms(2,3)] fill_conserves(2) [OF _ assms(3)] assms(2,3) refl by metis

lemma reconcile_loop_kept:
  assumes "reconcile_loop fetch candles clock now b ids = (b', n)" and "ok b" and "limit_book_ok b"
  shows "R b b' \<and> ok b' \<and> limit_book_ok b'"
  using assms
proof (induction ids arbitrary: b n)
  case Nil
  then show ?case using refl by simp
next
  case (Cons i ids)
  show ?case
  proof (cases "reconcile_order fetch candles clock now b i")
    case (Inl e)
    with Cons.prems refl show ?thesis by simp
  next
    case (Inr r)
    obtain b1 filled where r: "r = (b1, filled)" by (cases r)
    obtain m where rest: "reconcile_loop fetch candles clock now b1 ids = (b', m)"
      using Cons.prems(1) Inr r by (auto split: prod.splits)
    from reconcile_order_kept [OF Inr [unfolded r] Cons.prems(2,3)] Cons.IH [OF rest] show ?thesis using trans by blast
  qed
qed

lemma reconcile_kept:
  assumes "ok b" and "limit_book_ok b"
  shows "R b (fst (reconcile_pending_orders fetch candles clock now b a))
    \<and> ok (fst (reconcile_pending_orders fetch candles clock now b a))
    \<and> limit_book_ok (fst (reconcile_pending_orders fetch candles clock now b a))"
  using reconcile_loop_kept [OF _ assms]
  by (auto simp: reconcile_pending_orders_def Let_def split: prod.splits)

end

subsection \<open>The invariant\<close>

lemma admin_ids:
  assumes "trade_ids_ok l" and "ledger_ok l"
  shows "trade_ids_ok (apply_command fetch l c)"
proof (cases c)
  case (Create name krw usd description strategy)
  with assms(1) show ?thesis
    by (fastforce simp: trade_ids_ok_def committed_def create_account_def Let_def elim!: bindrE split: sum.split)
next
  case (Reset now a)
  with assms(1) show ?thesis
    by (auto simp: trade_ids_ok_def committed_def reset_account_def account_not_found_def Let_def split: sum.split option.splits)
next
  case (Delete a)
  with assms(1) show ?thesis
    by (auto simp: trade_ids_ok_def delete_account_def distinct_map intro: inj_on_subset split: option.split)
next
  case (Order now req)
  with assms execute_order_trade [OF _ assms(2), of fetch now req] show ?thesis
    by (auto simp: committed_def split: sum.split)
qed

lemma admin_ok:
  assumes "limit_book_ok b"
  shows "limit_book_ok (apply_limit env b (Admin c))"
proof -
  have "ledger_ok (apply_command (me_fetch env) (lb_ledger b) c)" "trade_ids_ok (apply_command (me_fetch env) (lb_ledger b) c)"
    using assms apply_command_ok admin_ids by (auto simp: limit_book_ok_def simp del: apply_command.simps)
  moreover have "distinct (map po_id (filter P (lb_orders b)))" for P
    using assms by (auto simp: limit_book_ok_def distinct_map intro: inj_on_subset)
  ultimately show ?thesis
    using assms by (auto simp: limit_book_ok_def simp del: apply_command.simps split: ledger_command.split)
qed

lemma place_ok: "place_limit_order journal forecast now b req = Inr (b', r) \<Longrightarrow> limit_book_ok b \<Longrightarrow> limit_book_ok b'"
  using place_effect(1) [of journal forecast now b req b'] place_refused [of journal forecast now b req b']
  by (cases r) auto

lemma cancel_ok:
  assumes "cancel_pending_order now b a i = Inr (b', q)" and "limit_book_ok b"
  shows "limit_book_ok b'"
proof (cases q)
  case (Inl refusal)
  with assms cancel_refused show ?thesis by blast
next
  case (Inr y)
  from cancel_effect [OF assms(1) [unfolded Inr] assms(2)] show ?thesis by blast
qed

interpretation orders_ok: order_relation "\<lambda>_ _. True" limit_book_ok "\<lambda>_. True" env
  by unfold_locales (auto intro: place_ok cancel_ok fill_conserves(2) admin_ok simp del: apply_limit.simps)

lemma apply_limit_ok: "limit_book_ok b \<Longrightarrow> limit_book_ok (apply_limit env b c)"
  using place_ok cancel_ok admin_ok orders_ok.reconcile_kept
  by (cases c) (auto simp: committed_book_def simp del: apply_limit.simps(4) split: sum.split)

lemma limit_reachable_ok: "limit_reachable env b \<Longrightarrow> limit_book_ok b"
proof (induction rule: limit_reachable.induct)
  case start
  show ?case using empty_ledger_ok by (simp add: empty_limit_book_def limit_book_ok_def trade_ids_ok_def empty_ledger_def)
qed (rule apply_limit_ok)

context order_relation
begin

lemma command_kept:
  assumes "ok b" and "limit_book_ok b" and "case c of Admin _ \<Rightarrow> allowed c | _ \<Rightarrow> True"
  shows "R b (apply_limit env b c) \<and> ok (apply_limit env b c)"
proof (cases c)
  case (Place now req)
  then show ?thesis using place [OF assms(1,2)] assms(1) refl by (auto simp: committed_book_def split: sum.split)
next
  case (Cancel now a i)
  then show ?thesis using cancel [OF assms(1,2)] assms(1) refl by (auto simp: committed_book_def split: sum.split)
next
  case (Reconcile now a)
  then show ?thesis using reconcile_kept [OF assms(1,2)] by simp
next
  case (Admin x)
  then show ?thesis using admin [OF assms(1,2)] assms(3) by (simp del: apply_limit.simps)
qed

lemma run_kept:
  assumes "ok b" and "limit_book_ok b" and "\<forall>c\<in>set cs. case c of Admin _ \<Rightarrow> allowed c | _ \<Rightarrow> True"
  shows "R b (run_limit env b cs) \<and> ok (run_limit env b cs)"
  using assms
proof (induction cs arbitrary: b)
  case Nil
  then show ?case using refl by (simp add: run_limit_def)
next
  case (Cons c cs)
  note one = command_kept [OF Cons.prems(1,2), of c]
  have "limit_book_ok (apply_limit env b c)" by (rule apply_limit_ok [OF Cons.prems(2)])
  with Cons.IH [of "apply_limit env b c"] one Cons.prems(3) trans show ?case by (simp add: run_limit_def) blast
qed

end

subsection \<open>Cash over a history\<close>

lemma order_conserves:
  assumes "limit_book_ok b" and "is_trading (Admin c)"
  shows "conserves b (apply_limit env b (Admin c))"
proof -
  from assms(2) obtain now req where c: "c = Order now req" by (cases c) auto
  let ?l = "lb_ledger b" and ?l' = "apply_command (me_fetch env) (lb_ledger b) (Order now req)"
  have b': "apply_limit env b (Admin c) = b\<lparr>lb_ledger := ?l'\<rparr>" by (simp add: c)
  have same: "reserved_krw (b\<lparr>lb_ledger := ?l'\<rparr>) a = reserved_krw b a" for a by (simp add: reserved_krw_def)
  have "ledger_ok ?l" using assms(1) by (simp add: limit_book_ok_def)
  from order_effect [OF this, of "me_fetch env" now req] consider "?l' = ?l"
    | (traded) t where "ld_trades ?l' = ld_trades ?l @ [t]"
      "moved ?l ?l' (pt_account_id t) (pt_symbol t) (pt_currency t) (trade_flow t) (trade_shares t)" by blast
  then show ?thesis
  proof cases
    case 1
    have "b\<lparr>lb_ledger := lb_ledger b\<rparr> = b" by simp
    with 1 show ?thesis unfolding b' using conserves_refl by metis
  next
    case traded
    show ?thesis
      unfolding b' conserves_def
    proof (intro exI [of _ "[t]"] conjI allI)
      fix a k
      show "balance (lb_ledger (b\<lparr>lb_ledger := ?l'\<rparr>)) a ''KRW'' + reserved_krw (b\<lparr>lb_ledger := ?l'\<rparr>) a
          = balance ?l a ''KRW'' + reserved_krw b a + cash_flow [t] a ''KRW''"
        using traded(2) unfolding same flows_single by (auto simp: moved_def currencies_def simp del: apply_command.simps)
      show "balance (lb_ledger (b\<lparr>lb_ledger := ?l'\<rparr>)) a ''USD'' = balance ?l a ''USD'' + cash_flow [t] a ''USD''"
        using traded(2) unfolding flows_single by (auto simp: moved_def currencies_def simp del: apply_command.simps)
      show "held (lb_ledger (b\<lparr>lb_ledger := ?l'\<rparr>)) k = held ?l k + share_flow [t] k"
        using conjunct2 [OF traded(2) [unfolded moved_def], THEN spec, of k] unfolding flows_single
        by (auto simp del: apply_command.simps)
    qed (simp add: traded(1) del: apply_command.simps)
  qed
qed

interpretation cash_kept: order_relation conserves "\<lambda>_. True" is_trading env
  by unfold_locales
    (auto intro: conserves_refl conserves_trans place_conserves cancel_conserves fill_conserves(1) order_conserves
      simp del: apply_limit.simps is_trading.simps)

subsection \<open>Orders over a history\<close>

text \<open>
  How a row may change: a settled one only gets its trade linked; a pending one may be filled at
  its limit price or cancelled.
\<close>

definition cancelled_order :: "instant \<Rightarrow> pending_order \<Rightarrow> pending_order" where
  "cancelled_order now x = x\<lparr>po_status := ''cancelled'', po_cancelled_at := Some now\<rparr>"

definition evolves :: "pending_order \<Rightarrow> pending_order \<Rightarrow> bool" where
  "evolves x y \<longleftrightarrow> unlinked y = unlinked x
     \<or> is_pending x \<and> (\<exists>now. unlinked y = unlinked (filled_order now x) \<or> unlinked y = unlinked (cancelled_order now x))"

definition order_history :: "limit_book \<Rightarrow> limit_book \<Rightarrow> bool" where
  "order_history b b' \<longleftrightarrow> (\<forall>x\<in>set (lb_orders b). \<exists>y\<in>set (lb_orders b'). evolves x y)"

lemma unlinked_commutes:
  "unlinked (filled_order now x) = filled_order now (unlinked x)"
  "unlinked (cancelled_order now x) = cancelled_order now (unlinked x)"
  "is_pending (unlinked x) = is_pending x" "\<not> is_pending (filled_order now x)" "\<not> is_pending (cancelled_order now x)"
  by (simp_all add: unlinked_def filled_order_def cancelled_order_def is_pending_def)

lemma unlinked_eq:
  assumes "unlinked y = unlinked x"
  shows "po_id y = po_id x" and "po_status y = po_status x" and "po_fill_price y = po_fill_price x"
proof -
  have "po_id (unlinked z) = po_id z" "po_status (unlinked z) = po_status z" "po_fill_price (unlinked z) = po_fill_price z" for z
    by (simp_all add: unlinked_def)
  with assms show "po_id y = po_id x" and "po_status y = po_status x" and "po_fill_price y = po_fill_price x" by metis+
qed

lemma evolves_refl: "evolves x x"
  by (simp add: evolves_def)

lemma evolves_trans:
  assumes "evolves x y" and "evolves y z"
  shows "evolves x z"
proof (cases "is_pending y")
  case False
  with assms show ?thesis by (simp add: evolves_def)
next
  case True
  then have pending: "is_pending (unlinked y)" by (simp add: unlinked_commutes)
  have eq: "unlinked y = unlinked x"
    using assms(1) unfolding evolves_def
  proof (elim disjE exE conjE)
    fix now assume "unlinked y = unlinked (filled_order now x)"
    with pending show ?thesis by (simp add: unlinked_commutes)
  next
    fix now assume "unlinked y = unlinked (cancelled_order now x)"
    with pending show ?thesis by (simp add: unlinked_commutes)
  qed
  have "is_pending x" using pending unfolding eq by (simp add: unlinked_commutes)
  with assms(2) eq show ?thesis unfolding evolves_def unlinked_commutes(1,2) by auto
qed

lemma order_history_refl: "order_history b b"
  using evolves_refl by (auto simp: order_history_def)

lemma order_history_trans: "order_history b b' \<Longrightarrow> order_history b' b'' \<Longrightarrow> order_history b b''"
  using evolves_trans by (meson order_history_def)

lemma replaced_history:
  assumes "lb_orders b' = replace_order y (lb_orders b)" and "x \<in> set (lb_orders b)" and "evolves x y" and "po_id y = po_id x"
    and "distinct (map po_id (lb_orders b))"
  shows "order_history b b'"
proof -
  obtain us vs where "lb_orders b = us @ x # vs" "lb_orders b' = us @ y # vs"
    using replace_order_split [OF assms(2,5,4)] assms(1) by auto
  with assms(3) evolves_refl show ?thesis by (auto simp: order_history_def)
qed

lemma place_history:
  assumes "place_limit_order journal forecast now b req = Inr (b', r)" and "limit_book_ok b"
  shows "order_history b b'"
proof (cases r)
  case (Inl refusal)
  with assms(1) have "b' = b" using place_refused by blast
  then show ?thesis using order_history_refl by simp
next
  case (Inr x)
  from place_effect(2) [OF assms(1) [unfolded Inr] assms(2)] evolves_refl show ?thesis by (auto simp: order_history_def)
qed

lemma cancel_history:
  assumes "cancel_pending_order now b a i = Inr (b', q)" and "limit_book_ok b"
  shows "order_history b b'"
proof (cases q)
  case (Inl refusal)
  with assms(1) have "b' = b" using cancel_refused by blast
  then show ?thesis using order_history_refl by simp
next
  case (Inr y)
  from cancel_effect [OF assms(1) [unfolded Inr] assms(2)] obtain x where
    x: "x \<in> set (lb_orders b)" "is_pending x" "y = cancelled_order now x" "lb_orders b' = replace_order y (lb_orders b)"
    unfolding cancelled_order_def by blast
  show ?thesis
  proof (rule replaced_history [OF x(4,1)])
    show "evolves x y" using x(2,3) by (auto simp: evolves_def)
    show "po_id y = po_id x" by (simp add: x(3) cancelled_order_def)
    show "distinct (map po_id (lb_orders b))" using assms(2) by (simp add: limit_book_ok_def)
  qed
qed

lemma link_history: "limit_book_ok b \<Longrightarrow> order_history b (link_trade b x)"
proof -
  assume "limit_book_ok b"
  note same = link_effect(5) [OF this, of x]
  show ?thesis
    unfolding order_history_def
  proof
    fix y assume "y \<in> set (lb_orders b)"
    then have "unlinked y \<in> set (map unlinked (lb_orders (link_trade b x)))" unfolding same by simp
    then show "\<exists>z\<in>set (lb_orders (link_trade b x)). evolves y z" by (auto simp: evolves_def)
  qed
qed

lemma fill_history:
  assumes "fill_pending fetch at_time now b x (po_limit_price x) = Inr b'" and "limit_book_ok b"
    and "x \<in> set (lb_orders b)" and "is_pending x"
  shows "order_history b (link_trade b' x)"
proof (rule order_history_trans [OF _ link_history])
  show "limit_book_ok b'" using fill_effect [OF assms] by blast
  have "lb_orders b' = replace_order (filled_order now x) (lb_orders b)" using fill_effect [OF assms] by blast
  then show "order_history b b'"
    by (rule replaced_history [OF _ assms(3)]) (use assms(2,4) in \<open>auto simp: evolves_def filled_order_def limit_book_ok_def\<close>)
qed

lemma admin_history: "is_trading (Admin c) \<Longrightarrow> order_history b (apply_limit env b (Admin c))"
  using order_history_refl [of b] by (cases c) (simp_all add: order_history_def)

interpretation history_kept: order_relation order_history "\<lambda>_. True" is_trading env
  by unfold_locales
    (auto intro: order_history_refl order_history_trans place_history cancel_history fill_history admin_history
      simp del: apply_limit.simps is_trading.simps)

subsection \<open>Sells stay covered\<close>

definition covered :: "limit_book \<Rightarrow> bool" where
  "covered b \<longleftrightarrow> (\<forall>k. promised b k \<le> held (lb_ledger b) k)"

lemma covered_le: "covered b \<Longrightarrow> promised b k \<le> held (lb_ledger b) k"
  unfolding covered_def by blast

lemma promised_bounds:
  assumes "limit_book_ok b"
  shows "0 \<le> promised b k" and "places 8 (promised b k)"
proof -
  have "\<forall>x\<in>set (lb_orders b). 0 \<le> promised_of k x \<and> places 8 (promised_of k x)"
    using assms by (auto simp: limit_book_ok_def order_ok_def promised_of_def)
  then have "0 \<le> (\<Sum>x\<leftarrow>xs. promised_of k x) \<and> places 8 (\<Sum>x\<leftarrow>xs. promised_of k x)" if "set xs \<subseteq> set (lb_orders b)" for xs
    using that by (induction xs) auto
  then show "0 \<le> promised b k" and "places 8 (promised b k)" by (simp_all add: promised_def)
qed

lemma check_sellable_covers:
  assumes "check_sellable b a s qty price = Inr (Inr ())" and "limit_book_ok b" and "covered b"
  shows "promised b (a, s) + qty \<le> held (lb_ledger b) (a, s)"
proof -
  obtain position where pos: "map_of (ld_positions (lb_ledger b)) (a, s) = Some position"
    using assms(1) by (auto simp: check_sellable_def elim!: bindcE split: option.splits)
  let ?rest = "pp_quantity position - promised b (a, s)"
  have ok: "position_ok position" using assms(2) ledger_ok_position [OF _ pos] by (simp add: limit_book_ok_def)
  have held: "held (lb_ledger b) (a, s) = pp_quantity position" by (simp add: held_def pos)
  have "promised b (a, s) \<le> pp_quantity position" using covered_le [OF assms(3), of "(a, s)"] held by simp
  with ok promised_bounds [OF assms(2), of "(a, s)"] have "places 8 ?rest" "\<bar>?rest\<bar> \<le> 10 ^ 15"
    by (auto simp: position_ok_def)
  then have "dsub (pp_quantity position) (pending_sell_qty b a s) = Inr ?rest"
    by (simp add: dsub_def pending_sell_qty_promised dec_ctx_exact)
  with assms(1) pos have "qty \<le> ?rest" by (auto simp: check_sellable_def elim!: bindcE)
  then show ?thesis using held by simp
qed

lemma place_covered:
  assumes "place_limit_order journal forecast now b req = Inr (b', r)" and "limit_book_ok b" and "covered b"
  shows "covered b'"
proof (cases r)
  case (Inl refusal)
  with assms(1) have "b' = b" using place_refused by blast
  with assms(3) show ?thesis by simp
next
  case (Inr x)
  note place = place_effect [OF assms(1) [unfolded Inr] assms(2)]
  have l: "ledger_ok (lb_ledger b)" using assms(2) by (simp add: limit_book_ok_def)
  from place(5) obtain account where account: "get_account (lb_ledger b) (po_account_id x) = Some account"
      "lb_ledger b' = with_krw (lb_ledger b) (po_account_id x) account (pa_cash_krw account - po_reserved_krw x)" by blast
  have held: "held (lb_ledger b') = held (lb_ledger b)" by (simp add: account(2))
  have sum: "promised b' k = promised b k + promised_of k x" for k by (simp add: promised_def place(2))
  show ?thesis
    unfolding covered_def held sum
  proof
    fix k
    show "promised b k + promised_of k x \<le> held (lb_ledger b) k"
    proof (cases "(po_account_id x, po_symbol x) = k \<and> po_side x = ''sell''")
      case True
      then show ?thesis
        using check_sellable_covers [OF place(6) assms(2,3)] place(3) by (auto simp: promised_of_def is_pending_def)
    next
      case False
      then have "promised_of k x = 0" by (auto simp: promised_of_def)
      then show ?thesis using covered_le [OF assms(3)] by simp
    qed
  qed
qed

lemma settled_covered:
  assumes "covered b" and "limit_book_ok b" and "x \<in> set (lb_orders b)" and "is_pending x" and "po_id y = po_id x" and "\<not> is_pending y"
    and "lb_orders b' = replace_order y (lb_orders b)"
    and "\<And>k. held (lb_ledger b') k = held (lb_ledger b) k
      \<or> held (lb_ledger b) k \<le> held (lb_ledger b') k + promised_of k x"
  shows "covered b'"
  unfolding covered_def
proof
  fix k
  have "distinct (map po_id (lb_orders b))" using assms(2) by (simp add: limit_book_ok_def)
  note sum = settled_sums(2) [OF assms(3) this assms(5,7,6), of k]
  have "0 \<le> promised_of k x" using assms(2,3) by (auto simp: promised_of_def limit_book_ok_def order_ok_def)
  then show "promised b' k \<le> held (lb_ledger b') k"
    using assms(8) [of k] covered_le [OF assms(1), of k] sum by linarith
qed

lemma cancel_covered:
  assumes "cancel_pending_order now b a i = Inr (b', q)" and "limit_book_ok b" and "covered b"
  shows "covered b'"
proof (cases q)
  case (Inl refusal)
  with assms(1) have "b' = b" using cancel_refused by blast
  with assms(3) show ?thesis by simp
next
  case (Inr y)
  have l: "ledger_ok (lb_ledger b)" using assms(2) by (simp add: limit_book_ok_def)
  from cancel_effect [OF assms(1) [unfolded Inr] assms(2)] obtain x where
    x: "x \<in> set (lb_orders b)" "is_pending x" "y = cancelled_order now x" "lb_orders b' = replace_order y (lb_orders b)"
      "if po_side x = ''buy''
       then \<exists>account. get_account (lb_ledger b) a = Some account
         \<and> lb_ledger b' = with_krw (lb_ledger b) a account (pa_cash_krw account + po_reserved_krw x)
       else lb_ledger b' = lb_ledger b" unfolding cancelled_order_def by blast
  have held: "held (lb_ledger b') = held (lb_ledger b)" using x(5) by (auto split: if_splits)
  show ?thesis
    by (rule settled_covered [OF assms(3,2) x(1,2) _ _ x(4)])
      (simp_all add: x(3) unlinked_commutes held, simp add: cancelled_order_def)
qed

lemma fill_covered:
  assumes "fill_pending fetch at_time now b x (po_limit_price x) = Inr b1" and "limit_book_ok b"
    and "x \<in> set (lb_orders b)" and "is_pending x" and "covered b"
  shows "covered (link_trade b1 x)"
proof -
  from fill_effect [OF assms(1-4)] obtain t where
    t: "limit_book_ok b1" "lb_orders b1 = replace_order (filled_order now x) (lb_orders b)"
      "pt_side t = po_side x" "pt_quantity t = po_quantity x"
      "\<And>k. held (lb_ledger b1) k = held (lb_ledger b) k + (if k = (po_account_id x, po_symbol x) then trade_shares t else 0)"
    by metis
  have ok: "order_ok x" using assms(2,3) by (simp add: limit_book_ok_def)
  have "covered b1"
  proof (rule settled_covered [OF assms(5,2,3,4) _ _ t(2)])
    fix k
    show "held (lb_ledger b1) k = held (lb_ledger b) k \<or> held (lb_ledger b) k \<le> held (lb_ledger b1) k + promised_of k x"
      using t(3,4) ok assms(4) unfolding t(5) by (auto simp: trade_shares_def promised_of_def order_ok_def)
  qed (simp_all add: filled_order_def is_pending_def)
  note link = link_effect [OF t(1), of x]
  show ?thesis
    using \<open>covered b1\<close> linked_sums(2) [OF link(5)] unfolding covered_def promised_def link(4) by simp
qed

lemma buy_covered:
  assumes "covered b" and "limit_book_ok b" and "sells_by_limit (Admin c)"
  shows "covered (apply_limit env b (Admin c))"
proof -
  from assms(3) obtain now req where c: "c = Order now req" "or_side req = ''buy''" by (cases c) auto
  let ?l = "lb_ledger b"
  have ok: "ledger_ok ?l" using assms(2) by (simp add: limit_book_ok_def)
  have up: "held ?l k \<le> held (apply_command (me_fetch env) ?l (Order now req)) k" for k
  proof (cases "execute_order (me_fetch env) now ?l req")
    case (Inr r)
    obtain l' e where r: "r = (l', e)" by (cases r)
    from execute_order_effect [OF Inr [unfolded r] ok] obtain t where
      t: "ld_trades l' = ld_trades ?l @ [t]" "trade_ok t"
        "moved ?l l' (pt_account_id t) (pt_symbol t) (pt_currency t) (trade_flow t) (trade_shares t)" by blast
    have "pt_side t = ''buy''" using execute_order_trade [OF Inr [unfolded r] ok] t(1) c(2) by auto
    then show ?thesis
      using conjunct2 [OF t(3) [unfolded moved_def], THEN spec, of k] t(2) Inr r
      by (auto simp: committed_def trade_shares_def trade_ok_def)
  qed (simp add: committed_def)
  have "promised (apply_limit env b (Admin c)) k = promised b k" for k by (simp add: c(1) promised_def)
  moreover have "lb_ledger (apply_limit env b (Admin c)) = apply_command (me_fetch env) ?l (Order now req)" by (simp add: c(1))
  ultimately show ?thesis using assms(1) up order_trans unfolding covered_def by (metis (no_types, lifting))
qed

interpretation cover_kept: order_relation "\<lambda>_ _. True" covered sells_by_limit env
  by unfold_locales
    (auto intro: place_covered cancel_covered fill_covered buy_covered simp del: apply_limit.simps sells_by_limit.simps)

subsection \<open>Ticks\<close>

lemma tick_unit_cases:
  assumes "1 / 100 \<le> price"
  shows "tick_unit price \<le> price" and "0 < tick_unit price" and "1000 / tick_unit price \<in> \<int>" and "places 4 (tick_unit price)"
    and "1 / 10000 \<le> tick_unit price"
proof -
  have "\<exists>threshold. (threshold, tick_unit price) \<in> set tick_bands \<and> threshold \<le> price"
  proof (cases "find (\<lambda>(threshold, _). threshold \<le> price) tick_bands")
    case None
    moreover have "(1 / 100, 1 / 10000) \<in> set tick_bands" by (simp add: tick_bands_def)
    ultimately have "\<not> (1 / 100 \<le> price)" unfolding find_None_iff by blast
    with assms show ?thesis by blast
  next
    case (Some p)
    from iffD1 [OF find_Some_iff Some] obtain i where
      i: "i < length tick_bands" "case tick_bands ! i of (threshold, _) \<Rightarrow> threshold \<le> price" "p = tick_bands ! i" by (elim exE conjE)
    then have "p \<in> set tick_bands" "fst p \<le> price" using nth_mem [OF i(1)] by (simp, simp add: case_prod_beta)
    moreover have "tick_unit price = snd p" using Some by (simp add: tick_unit_def case_prod_beta)
    ultimately show ?thesis by (metis prod.collapse)
  qed
  then obtain threshold where "(threshold, tick_unit price) \<in> set tick_bands" "threshold \<le> price" by blast
  moreover have "\<forall>(threshold, u)\<in>set tick_bands. u \<le> threshold \<and> 0 < u \<and> 1000 / u \<in> \<int> \<and> places 4 u \<and> 1 / 10000 \<le> u"
    by (simp add: tick_bands_def places_def)
  ultimately have "tick_unit price \<le> price \<and> 0 < tick_unit price \<and> 1000 / tick_unit price \<in> \<int> \<and> places 4 (tick_unit price)
      \<and> 1 / 10000 \<le> tick_unit price"
    by fastforce
  then show "tick_unit price \<le> price" and "0 < tick_unit price" and "1000 / tick_unit price \<in> \<int>" and "places 4 (tick_unit price)"
    and "1 / 10000 \<le> tick_unit price"
    by simp_all
qed

lemma tick_count_exact:
  assumes "places 8 price" and "1 / 100 \<le> price" and "price < 10 ^ 12"
  shows "ddiv price (tick_unit price) = Inr (price / tick_unit price)"
proof -
  let ?u = "tick_unit price" and ?q = "price / tick_unit price"
  note u = tick_unit_cases [OF assms(2)]
  have "?q * 10 ^ 11 = (price * 10 ^ 8) * (1000 / ?u)" using u(2) by simp
  then have "places 11 ?q" unfolding places_def using Ints_mult [OF assms(1) [unfolded places_def] u(3)] by (simp add: mult.commute)
  moreover have "?q \<le> 10 ^ 12 / (1 / 10000)" using u(2,5) assms(2,3) by (intro frac_le) simp_all
  then have q: "0 \<le> ?q" "?q \<le> 10 ^ 16" using u(2) assms(2) by simp_all
  then have "\<bar>?q\<bar> * 10 ^ 11 \<le> 10 ^ 16 * 10 ^ 11" by (intro mult_right_mono) simp_all
  ultimately have "dec_fix ?q = ?q" by (intro dec_fix_places [of 11]) simp_all
  moreover have "mag_le 16 ?q" using q by (simp add: mag_le_def)
  then have "dec_ctx ?q = Inr (dec_fix ?q)" by (rule mag_ctx) (simp add: emax_def)
  ultimately show ?thesis using u(2) by (simp add: ddiv_def)
qed

text \<open>Below a hundredth the rounding to four places undoes the snap.\<close>

lemma small_price_rounded_up: "quantize_fill_price (999 / 100000) = Inr (1 / 100)"
proof -
  have floor: "\<lfloor>999 :: rat\<rfloor> = 999" by (metis floor_of_int of_int_numeral)
  have "round_half_away (999 / 10 :: rat) = 100" by (simp add: round_half_away_def floor_eq_iff)
  then show ?thesis
    by (simp add: quantize_fill_price_def snap_limit_down_def tick_unit_def tick_bands_def min_tick_def floor example_money
        quantize_half_up_def)
qed

subsection \<open>Limits of the code\<close>

text \<open>
  Resetting an account restores its cash but keeps its pending orders: cancelling one afterwards
  adds its reservation to the restored capital.
\<close>

lemma reset_keeps_reservations:
  assumes "limit_book_ok b" and "x \<in> set (lb_orders b)" and "is_pending x" and "po_side x = ''buy''"
    and "get_account (lb_ledger b) (po_account_id x) = Some account"
    and "reset_account now (lb_ledger b) (po_account_id x) = Inr (l', restored)"
    and "cancel_pending_order now (b\<lparr>lb_ledger := l'\<rparr>) (po_account_id x) (po_id x) = Inr (b', Inr y)"
  shows "balance (lb_ledger b') (po_account_id x) ''KRW'' = pa_initial_capital account + po_reserved_krw x"
proof -
  let ?i = "po_account_id x" and ?b = "b\<lparr>lb_ledger := l'\<rparr>"
  have l: "ledger_ok (lb_ledger b)" using assms(1) by (simp add: limit_book_ok_def)
  have acc: "get_account l' ?i = Some (account\<lparr>pa_cash_krw := pa_initial_capital account, pa_cash_usd := pa_initial_capital_usd account\<rparr>)"
      and "ld_trades l' = ld_trades (lb_ledger b)" "ld_next_id l' = ld_next_id (lb_ledger b)"
    using assms(5,6) by (auto simp: reset_account_def Let_def get_account_def AList.update_conv')
  then have ok: "limit_book_ok ?b"
    using assms(1) reset_account_ok [OF assms(6) l] by (auto simp: limit_book_ok_def trade_ids_ok_def)
  from cancel_effect [OF assms(7) ok] obtain z where
    z: "z \<in> set (lb_orders ?b)" "po_id z = po_id x"
      "if po_side z = ''buy'' then \<exists>account. get_account (lb_ledger ?b) ?i = Some account
         \<and> lb_ledger b' = with_krw (lb_ledger ?b) ?i account (pa_cash_krw account + po_reserved_krw z) else lb_ledger b' = lb_ledger ?b"
    by blast
  have "z = x" using assms(1,2) z(1,2) by (auto simp: limit_book_ok_def distinct_map inj_on_def)
  with z(3) assms(4) acc have "get_account (lb_ledger b') ?i = Some (account\<lparr>pa_cash_krw := pa_initial_capital account + po_reserved_krw x,
      pa_cash_usd := pa_initial_capital_usd account\<rparr>)"
    by (auto simp: with_krw_def get_account_def AList.update_conv')
  then show ?thesis by (simp add: balance_def cash_def)
qed

text \<open>
  The correlation of an order has no part that tells two identical orders of a day apart, and
  the trade table holds a correlation once per account: the second of two such orders is filled,
  but its trade is not linked.
\<close>

lemma check_limit_fields:
  assumes "check_limit_order b req = Inr (Inr (account, symbol, side, price, qty, reserved))"
  shows "resolve_market_type (lr_symbol req) None = Inr (''crypto'', symbol) \<and> side = py_lower (lr_side req)
    \<and> quantize_fill_price (lr_limit_price req) = Inr price \<and> limit_quantity req price = Inr (Inr qty)"
proof -
  obtain a where a: "get_account (lb_ledger b) (lr_account_id req) = Some a"
    using assms by (auto simp: check_limit_order_def Let_def split: option.splits)
  obtain s where "resolve_market_type (lr_symbol req) None = Inr (''crypto'', s)"
    using assms a by (auto simp: check_limit_order_def Let_def split: sum.splits py_error.splits prod.splits)
  with assms a show ?thesis by (auto simp: check_limit_order_def Let_def elim!: bindcE split: if_splits)
qed

lemma place_correlation:
  assumes "place_limit_order journal forecast now b req = Inr (b', Inr x)"
  shows "\<exists>symbol price qty. resolve_market_type (lr_symbol req) None = Inr (''crypto'', symbol)
    \<and> quantize_fill_price (lr_limit_price req) = Inr price \<and> limit_quantity req price = Inr (Inr qty)
    \<and> po_correlation_id x = Some (paper_correlation_id (lr_account_id req) symbol (py_lower (lr_side req)) price qty (iso_date (kst_date now)) 0)"
proof -
  obtain account symbol side price qty reserved where
      chk: "check_limit_order b req = Inr (Inr (account, symbol, side, price, qty, reserved))"
    using assms unfolding place_limit_order_def by (elim bindrE) (auto split: sum.splits)
  have "po_correlation_id x = Some (paper_correlation_id (lr_account_id req) symbol side price qty (iso_date (kst_date now)) 0)"
    using assms chk by (auto simp: place_limit_order_def Let_def elim!: bindrE)
  with check_limit_fields [OF chk] show ?thesis by auto
qed

lemma same_day_same_correlation:
  assumes "place_limit_order journal forecast now b req = Inr (b1, Inr x)" and "place_limit_order journal forecast now' b' req = Inr (b2, Inr y)"
    and "kst_date now = kst_date now'"
  shows "po_correlation_id x = po_correlation_id y"
  using place_correlation [OF assms(1)] place_correlation [OF assms(2)] assms(3) by auto

lemma second_link_refused:
  assumes "latest_trade (lb_ledger b) (po_account_id x) (po_symbol x) (po_side x) = Some t"
    and "u \<in> set (ld_trades (lb_ledger b))" and "pt_id u \<noteq> pt_id t" and "pt_account_id u = pt_account_id t"
    and "pt_correlation_id u = po_correlation_id x" and "po_correlation_id x \<noteq> None"
  shows "link_trade b x = b"
  using assms by (auto simp: link_trade_def Let_def)

subsection \<open>Example\<close>

text \<open>An account of a million KRW, a buy of one coin at 10000 and a market that falls to 9000.\<close>

definition falling :: market_env where
  "falling = \<lparr>me_fetch = no_quotes,
     me_candles = (\<lambda>_ _ _. Inr [\<lparr>ca_timestamp = Some (Aware (- 60)), ca_low = DFinite 8000, ca_high = DFinite 8500\<rparr>,
       \<lparr>ca_timestamp = Some (Naive (3 + 9 * 3600 * 1000000)), ca_low = DFinite 9000, ca_high = DFinite 11000\<rparr>]),
     me_clock = (\<lambda>now _. now), me_journal = (\<lambda>_. None), me_forecast = (\<lambda>_. None)\<rparr>"

definition coin_buy :: limit_request where
  "coin_buy = \<lparr>lr_account_id = 1, lr_symbol = ''KRW-BTC'', lr_side = ''buy'', lr_limit_price = 10000, lr_quantity = Some 1,
     lr_amount = None, lr_thesis = None, lr_target_price = None, lr_probability_given = False, lr_review_date = None,
     lr_artifact_uuid = None\<rparr>"

definition funded_limit_book :: limit_book where
  "funded_limit_book = apply_limit falling empty_limit_book (Admin (Create ''main'' 1000000 11 None None))"

definition resting_book :: limit_book where
  "resting_book = apply_limit falling funded_limit_book (Place 0 coin_buy)"

definition coin_order :: pending_order where
  "coin_order = \<lparr>po_id = 1, po_account_id = 1, po_symbol = ''KRW-BTC'', po_side = ''buy'', po_limit_price = 10000, po_quantity = 1,
     po_reserved_krw = 10005, po_status = ''pending'', po_thesis = None,
     po_correlation_id = Some (paper_correlation_id 1 ''KRW-BTC'' ''buy'' 10000 1 (iso_date (kst_date 0)) 0), po_journal_id = None,
     po_artifact_uuid = None, po_forecast_id = None, po_fill_price = None, po_paper_trade_id = None, po_placed_at = 0,
     po_filled_at = None, po_cancelled_at = None\<rparr>"

lemma funded_limit_book_eq:
  "funded_limit_book = \<lparr>lb_ledger = funded_book, lb_orders = [], lb_provenance = [], lb_next_order_id = 1\<rparr>"
  unfolding funded_limit_book_def funded_book_def by (simp add: empty_limit_book_def falling_def)

lemma coin_texts: "resolve_market_type ''KRW-BTC'' None = Inr (''crypto'', ''KRW-BTC'')" "py_lower ''buy'' = ''buy''" "py_lower ''limit'' = ''limit''"
  by code_simp+

lemma coin_placed:
  "place_limit_order (\<lambda>_. None) (\<lambda>_. None) 0 funded_limit_book coin_buy
    = Inr (\<lparr>lb_ledger = with_krw funded_book 1 (the (get_account funded_book 1)) 989995, lb_orders = [coin_order],
        lb_provenance = [], lb_next_order_id = 2\<rparr>, Inr coin_order)"
proof -
  have floor: "\<lfloor>1000 :: rat\<rfloor> = 1000" by (metis floor_of_int of_int_numeral)
  have chk: "check_limit_order funded_limit_book coin_buy = Inr (Inr ((the (get_account funded_book 1))\<lparr>pa_cash_krw := 989995\<rparr>,
      ''KRW-BTC'', ''buy'', 10000, 1, 10005))"
    by (simp add: check_limit_order_def funded_limit_book_eq coin_buy_def coin_texts get_account_def funded_book_eq
        quantize_fill_price_def snap_limit_down_def tick_unit_def tick_bands_def floor limit_quantity_def quantize_crypto_qty_def
        reserve_krw_def limit_gross_def limit_reservation_def calculate_fee_def min_crypto_krw_def bindc_def liftc_def
        refuse_if_def example_money)
  show ?thesis
    unfolding place_limit_order_def chk
    by (simp add: coin_buy_def coin_order_def funded_limit_book_eq with_krw_def get_account_def funded_book_eq given_def Let_def example_money)
qed

lemma resting_book_eq:
  "resting_book = \<lparr>lb_ledger = with_krw funded_book 1 (the (get_account funded_book 1)) 989995, lb_orders = [coin_order],
    lb_provenance = [], lb_next_order_id = 2\<rparr>"
  using coin_placed by (simp add: resting_book_def falling_def committed_book_def)

lemma example_books_reachable: "limit_reachable falling funded_limit_book" "limit_reachable falling resting_book"
  unfolding resting_book_def funded_limit_book_def by (intro limit_reachable.intros)+

lemma coin_filled: "\<exists>b'. reconcile_order no_quotes (me_candles falling 5) (me_clock falling 5) 5 resting_book 1 = Inr (b', True)"
proof -
  have "\<exists>r. execute_order no_quotes 5 (with_krw funded_book 1 (the (get_account funded_book 1)) 1000000) (fill_request coin_order 10000) = Inr r"
    by (simp add: execute_order_def preview_order_def fill_request_def coin_order_def coin_texts with_krw_def get_account_def
        funded_book_eq order_fill_price_def priced_order_def order_quantity_def quantize_crypto_qty_def calculate_fee_def
        position_currency_def execute_buy_def debit_cash_def bought_position_def stored_position_def insert_trade_def cash_def
        set_cash_def Let_def example_money)
  then obtain l e where exec: "execute_order no_quotes 5 (with_krw funded_book 1 (the (get_account funded_book 1)) 1000000)
      (fill_request coin_order 10000) = Inr (l, e)" by (metis surj_pair)
  have "release_krw (lb_ledger resting_book) 1 (the (get_account (lb_ledger resting_book) 1)) 10005
      = Inr (with_krw funded_book 1 (the (get_account funded_book 1)) 1000000)"
    by (simp add: release_krw_def resting_book_eq with_krw_def get_account_def funded_book_eq example_money)
  moreover have "get_account (lb_ledger resting_book) 1 \<noteq> None"
    by (simp add: resting_book_eq with_krw_def get_account_def AList.update_conv')
  ultimately have "\<exists>b1. fill_pending no_quotes 5 5 resting_book coin_order 10000 = Inr b1"
    using exec by (auto simp: fill_pending_def coin_order_def example_money)
  then show ?thesis
    by (auto simp: reconcile_order_def falling_def resting_book_eq bars_since_def Let_def coin_order_def coin_texts)
qed

subsection \<open>Properties\<close>

text \<open>
  C16: Resting orders neither create nor lose money. From any reachable book, over any sequence of
  placements, cancellations, reconciliations and direct orders, accepted or not, the free and the
  reserved KRW of every account together change by exactly the cash flows of the trades added,
  the USD balance likewise, and every holding by exactly their quantities.
\<close>

theorem limit_orders_conserve_cash:
  assumes "limit_reachable env b" and "final = run_limit env b commands" and "\<forall>c\<in>set commands. is_trading c"
  shows "\<exists>added. map uncorrelated (ld_trades (lb_ledger final)) = map uncorrelated (ld_trades (lb_ledger b) @ added)
    \<and> (\<forall>a. balance (lb_ledger final) a ''KRW'' + reserved_krw final a
             = balance (lb_ledger b) a ''KRW'' + reserved_krw b a + cash_flow added a ''KRW''
         \<and> balance (lb_ledger final) a ''USD'' = balance (lb_ledger b) a ''USD'' + cash_flow added a ''USD'')
    \<and> (\<forall>k. held (lb_ledger final) k = held (lb_ledger b) k + share_flow added k)"
proof -
  have "\<forall>c\<in>set commands. case c of Admin _ \<Rightarrow> is_trading c | _ \<Rightarrow> True"
    using assms(3) by (auto split: limit_command.split)
  with cash_kept.run_kept [OF _ limit_reachable_ok [OF assms(1)], of commands env] show ?thesis
    unfolding assms(2) conserves_def by blast
qed

theorem limit_orders_conserve_cash_witness:
  "\<exists>added. balance (lb_ledger (run_limit falling funded_limit_book [Place 0 coin_buy, Reconcile 5 1])) 1 ''KRW''
      + reserved_krw (run_limit falling funded_limit_book [Place 0 coin_buy, Reconcile 5 1]) 1
    = 1000000 + cash_flow added 1 ''KRW''"
proof -
  have "balance (lb_ledger funded_limit_book) 1 ''KRW'' + reserved_krw funded_limit_book 1 = 1000000"
    by (simp add: funded_limit_book_eq balance_def get_account_def funded_book_eq cash_def reserved_krw_def)
  moreover have "\<forall>c\<in>set [Place 0 coin_buy, Reconcile 5 1]. is_trading c" by simp
  ultimately show ?thesis
    using limit_orders_conserve_cash [OF example_books_reachable(1) refl, of "[Place 0 coin_buy, Reconcile 5 1]"] by metis
qed

text \<open>
  What may fill an order, said of the candle itself. A dated candle is not older than the placement,
  where a time without a zone is a reading of the Korean clock, nine hours ahead of UTC; a candle
  without a time is never excluded. A buy is reached by a low at or below the limit, a sell by a high
  at or above it; an infinite low or high counts on its own side and a NaN does not.
\<close>

definition not_before :: "instant \<Rightarrow> candle \<Rightarrow> bool" where
  "not_before placed c \<longleftrightarrow>
     (\<forall>t. ca_timestamp c = Some (Aware t) \<longrightarrow> placed \<le> t)
     \<and> (\<forall>t. ca_timestamp c = Some (Naive t) \<longrightarrow> placed + 9 * 3600 * 1000000 \<le> t)"

definition reaches :: "string \<Rightarrow> rat \<Rightarrow> candle \<Rightarrow> bool" where
  "reaches side limit c \<longleftrightarrow>
     (if side = ''buy'' then ca_low c = DInfinity True \<or> (\<exists>low. ca_low c = DFinite low \<and> low \<le> limit)
      else ca_high c = DInfinity False \<or> (\<exists>high. ca_high c = DFinite high \<and> limit \<le> high))"

lemma dec_le_reaches:
  "dec_le low (DFinite limit) = Inr True \<longleftrightarrow> low = DInfinity True \<or> (\<exists>q. low = DFinite q \<and> q \<le> limit)"
  "dec_le (DFinite limit) high = Inr True \<longleftrightarrow> high = DInfinity False \<or> (\<exists>q. high = DFinite q \<and> limit \<le> q)"
  by (cases low; auto) (cases high; auto)

lemma crossing_candle:
  assumes "limit_crossed side limit (bars_since placed cs) = Inr (Some p)"
    and "side \<in> {''buy'', ''sell''}" and "py_lower side = side"
  shows "\<exists>c\<in>set cs. not_before placed c \<and> reaches side limit c"
proof -
  from limit_crossed_Inr(2) [OF assms(1)] assms(2,3) obtain bar where bar: "bar \<in> set (bars_since placed cs)"
      "if side = ''buy'' then dec_le (fst bar) (DFinite limit) = Inr True else dec_le (DFinite limit) (snd bar) = Inr True"
    by fastforce
  then obtain c where c: "c \<in> set cs" "bar = (ca_low c, ca_high c)"
      "case ca_timestamp c of None \<Rightarrow> True | Some t \<Rightarrow> placed \<le> as_aware_kst t"
    by (auto simp: bars_since_def)
  have "not_before placed c" using c(3) by (auto simp: not_before_def)
  moreover have "reaches side limit c" using bar(2) c(2) by (simp add: reaches_def dec_le_reaches split: if_splits)
  ultimately show ?thesis using c(1) by blast
qed

text \<open>
  C18: A resting order is filled at its limit, because the market reached it after the placement.
  When a reconciliation fills an order of a reachable book, the order was pending and one of the
  candles of its symbol reaches the limit price and, if it is dated, is not older than the placement;
  so candles from before the placement never fill an order. One trade is added with the order's
  account, symbol, side and quantity at the limit price, and the order is marked filled. A filled buy
  costs exactly its reservation, so the free balance does not change.
\<close>

theorem limit_fill_at_limit:
  assumes "limit_reachable env b" and "reconcile_order (me_fetch env) candles clock now b i = Inr (b', True)"
  shows "\<exists>x cs t. x \<in> set (lb_orders b) \<and> po_id x = i \<and> po_status x = ''pending'' \<and> candles i (po_symbol x) = Inr cs
    \<and> (\<exists>c\<in>set cs. not_before (po_placed_at x) c \<and> reaches (po_side x) (po_limit_price x) c)
    \<and> map uncorrelated (ld_trades (lb_ledger b')) = map uncorrelated (ld_trades (lb_ledger b) @ [t])
    \<and> pt_account_id t = po_account_id x \<and> pt_symbol t = po_symbol x \<and> pt_side t = po_side x
    \<and> pt_quantity t = po_quantity x \<and> pt_price t = po_limit_price x
    \<and> (if po_side x = ''buy'' then trade_flow t = - po_reserved_krw x
         \<and> balance (lb_ledger b') (po_account_id x) ''KRW'' = balance (lb_ledger b) (po_account_id x) ''KRW''
       else po_side x = ''sell'')
    \<and> (\<exists>y\<in>set (lb_orders b'). po_id y = i \<and> po_status y = ''filled'' \<and> po_fill_price y = Some (po_limit_price x))"
proof -
  note ok = limit_reachable_ok [OF assms(1)]
  from reconcile_order_cases [OF assms(2)] obtain x cs b1 where
    x: "x \<in> set (lb_orders b)" "po_id x = i" "is_pending x" "candles i (po_symbol x) = Inr cs"
      "limit_crossed (po_side x) (po_limit_price x) (bars_since (po_placed_at x) cs) = Inr (Some (po_limit_price x))"
      "fill_pending (me_fetch env) (clock i) now b x (po_limit_price x) = Inr b1" "b' = link_trade b1 x" by blast
  have side: "po_side x \<in> {''buy'', ''sell''}" "py_lower (po_side x) = po_side x"
    using ok x(1) by (auto simp: limit_book_ok_def order_ok_def py_lower_def lower_char_def)
  note candle = crossing_candle [OF x(5) side]
  from fill_effect [OF x(6) ok x(1,3)] obtain t where
    t: "limit_book_ok b1" "lb_orders b1 = replace_order (filled_order now x) (lb_orders b)"
      "ld_trades (lb_ledger b1) = ld_trades (lb_ledger b) @ [t]" "pt_account_id t = po_account_id x" "pt_symbol t = po_symbol x"
      "pt_side t = po_side x" "pt_quantity t = po_quantity x" "pt_price t = po_limit_price x"
      "po_side x = ''buy'' \<Longrightarrow> trade_flow t = - po_reserved_krw x"
      "\<And>a c. c \<in> currencies \<Longrightarrow> balance (lb_ledger b1) a c = balance (lb_ledger b) a c
        + (if a = po_account_id x \<and> c = ''KRW'' then po_reserved_krw x + trade_flow t else 0)" by metis
  note link = link_effect [OF t(1), of x]
  have "filled_order now x \<in> set (lb_orders b1)" using x(1) by (force simp: t(2) replace_order_def filled_order_def)
  then have "unlinked (filled_order now x) \<in> set (map unlinked (lb_orders b'))" unfolding x(7) link(5) by simp
  then obtain y where y: "y \<in> set (lb_orders b')" "unlinked y = unlinked (filled_order now x)" by auto
  have "\<exists>y\<in>set (lb_orders b'). po_id y = i \<and> po_status y = ''filled'' \<and> po_fill_price y = Some (po_limit_price x)"
    by (rule bexI [OF _ y(1)]) (simp add: unlinked_eq [OF y(2)] filled_order_def x(2))
  moreover have "balance (lb_ledger b') (po_account_id x) ''KRW'' = balance (lb_ledger b) (po_account_id x) ''KRW''" if "po_side x = ''buy''"
    using t(9) [OF that] t(10) [of "''KRW''"] by (simp add: x(7) link(3) currencies_def)
  moreover have "map uncorrelated (ld_trades (lb_ledger b')) = map uncorrelated (ld_trades (lb_ledger b) @ [t])"
    using link(2) t(3) by (simp add: x(7))
  ultimately show ?thesis
    using x(1-4) candle t(4-9) side(1) is_pending_def
    by (intro exI [of _ x] exI [of _ cs] exI [of _ t] conjI) (assumption | simp split: if_splits | blast)+
qed

theorem limit_fill_at_limit_witness:
  "\<exists>b' x c. reconcile_order no_quotes (me_candles falling 5) (me_clock falling 5) 5 resting_book 1 = Inr (b', True)
    \<and> x \<in> set (lb_orders resting_book) \<and> po_id x = 1 \<and> po_status x = ''pending''
    \<and> not_before (po_placed_at x) c \<and> ca_low c = DFinite 9000"
proof -
  obtain b' where run: "reconcile_order no_quotes (me_candles falling 5) (me_clock falling 5) 5 resting_book 1 = Inr (b', True)"
    using coin_filled by blast
  have "no_quotes = me_fetch falling" by (simp add: falling_def)
  from limit_fill_at_limit [OF example_books_reachable(2) run [unfolded this]] obtain x cs c where
    x: "x \<in> set (lb_orders resting_book)" "po_id x = 1" "po_status x = ''pending''" "me_candles falling 5 1 (po_symbol x) = Inr cs"
    and c: "c \<in> set cs" "not_before (po_placed_at x) c" by blast
  moreover have "po_placed_at x = 0" using x(1) by (simp add: resting_book_eq coin_order_def)
  with x(4) c have "ca_low c = DFinite 9000" by (auto simp: falling_def not_before_def)
  ultimately show ?thesis using run by blast
qed

text \<open>A candle from before the placement alone leaves the order pending, although it crosses the limit.\<close>

lemma early_candle_ignored:
  "reconcile_order no_quotes (\<lambda>_ _. Inr [\<lparr>ca_timestamp = Some (Aware (- 60)), ca_low = DFinite 8000, ca_high = DFinite 8500\<rparr>])
     clock 5 resting_book 1 = Inr (resting_book, False)"
  by (simp add: reconcile_order_def resting_book_eq bars_since_def coin_order_def)

text \<open>
  C17: An order is settled once. Over any sequence of placements, cancellations, reconciliations
  and direct orders from a reachable book, every order stays in the table with its terms
  unchanged. An order that was filled or cancelled stays as it was, apart from the link to its
  trade; a pending one is still pending, filled at its limit price, or cancelled.
\<close>

theorem limit_orders_settle_once:
  assumes "limit_reachable env b" and "final = run_limit env b commands" and "\<forall>c\<in>set commands. is_trading c"
    and "x \<in> set (lb_orders b)"
  shows "\<exists>y\<in>set (lb_orders final). unlinked y = unlinked x
    \<or> po_status x = ''pending'' \<and> (\<exists>now. unlinked y = unlinked (filled_order now x) \<or> unlinked y = unlinked (cancelled_order now x))"
proof -
  have "\<forall>c\<in>set commands. case c of Admin _ \<Rightarrow> is_trading c | _ \<Rightarrow> True"
    using assms(3) by (auto split: limit_command.split)
  with history_kept.run_kept [OF _ limit_reachable_ok [OF assms(1)], of commands env] assms(4) show ?thesis
    unfolding assms(2) order_history_def evolves_def is_pending_def by blast
qed

theorem limit_orders_settle_once_witness:
  "\<exists>y\<in>set (lb_orders (run_limit falling resting_book [Reconcile 5 1, Cancel 6 1 1])). unlinked y = unlinked coin_order
    \<or> po_status coin_order = ''pending''
      \<and> (\<exists>now. unlinked y = unlinked (filled_order now coin_order) \<or> unlinked y = unlinked (cancelled_order now coin_order))"
  by (rule limit_orders_settle_once [OF example_books_reachable(2) refl]) (simp_all add: resting_book_eq)

text \<open>
  C19: Resting sells stay covered. From a reachable book in which the pending sells of every symbol
  are covered by the holding, any sequence of placements, cancellations, reconciliations and
  direct buys leaves them covered: the service never promises shares it does not have.
\<close>

theorem pending_sells_stay_covered:
  assumes "limit_reachable env b" and "final = run_limit env b commands" and "\<forall>c\<in>set commands. sells_by_limit c"
    and "\<forall>a s. pending_sell_qty b a s \<le> held (lb_ledger b) (a, s)"
  shows "\<forall>a s. pending_sell_qty final a s \<le> held (lb_ledger final) (a, s)"
proof -
  have "\<forall>c\<in>set commands. case c of Admin _ \<Rightarrow> sells_by_limit c | _ \<Rightarrow> True"
    using assms(3) by (auto split: limit_command.split)
  moreover have "covered b" using assms(4) by (simp add: covered_def pending_sell_qty_promised)
  ultimately have "covered final"
    unfolding assms(2) using cover_kept.run_kept [OF _ limit_reachable_ok [OF assms(1)], of commands env] by blast
  then show ?thesis by (simp add: covered_def pending_sell_qty_promised)
qed

theorem pending_sells_stay_covered_witness:
  "pending_sell_qty (run_limit falling resting_book [Reconcile 5 1]) 1 ''KRW-BTC''
    \<le> held (lb_ledger (run_limit falling resting_book [Reconcile 5 1])) (1, ''KRW-BTC'')"
proof -
  have "\<forall>a s. pending_sell_qty resting_book a s \<le> held (lb_ledger resting_book) (a, s)"
    by (simp add: resting_book_eq pending_sell_qty_def coin_order_def held_def funded_book_eq)
  from pending_sells_stay_covered [OF example_books_reachable(2) refl _ this, of "[Reconcile 5 1]"] show ?thesis by simp
qed

text \<open>
  C39: The limit price is snapped down to the tick grid. A price of at least 0.01 with at most
  eight decimals that fits its column becomes the largest multiple of its band's tick that is not
  above it, which is positive; the calculation always returns.
\<close>

theorem limit_price_on_tick:
  assumes "places 8 price" and "1 / 100 \<le> price" and "price < 10 ^ 12"
  shows "\<exists>p n. quantize_fill_price price = Inr p \<and> p = of_int n * tick_unit price \<and> 0 < p \<and> p \<le> price \<and> price < p + tick_unit price"
proof -
  let ?u = "tick_unit price" and ?n = "\<lfloor>price / tick_unit price\<rfloor>"
  note u = tick_unit_cases [OF assms(2)]
  let ?p = "of_int ?n * ?u"
  have n: "of_int ?n \<le> price / ?u" "price / ?u < of_int ?n + 1" using floor_correct [of "price / ?u"] by simp_all
  have le: "?p \<le> price" using n(1) unfolding pos_le_divide_eq [OF u(2)] .
  have less: "price < ?p + ?u" using n(2) unfolding pos_divide_less_eq [OF u(2)] by (simp add: distrib_right)
  have "1 \<le> price / ?u" using u(1,2) by simp
  then have "1 \<le> ?n" by simp
  then have pos: "0 < ?p" using u(2) by simp
  have places: "places 4 ?p"
    unfolding places_def using Ints_mult [OF Ints_of_int, of "?u * 10 ^ 4" ?n] u(4) by (simp add: places_def mult.assoc)
  have "dmul (of_int ?n) ?u = Inr ?p"
    unfolding dmul_def using le pos assms(3) by (intro dec_ctx_exact places_mono [OF places]) simp_all
  moreover have "quantize_money ?p = Inr ?p"
    unfolding quantize_money_def using le pos assms(3) by (intro quantize_exact places) simp_all
  ultimately have "quantize_fill_price price = Inr ?p"
    by (simp add: quantize_fill_price_def snap_limit_down_def Let_def tick_count_exact [OF assms])
  with pos le less show ?thesis by blast
qed

theorem limit_price_on_tick_witness:
  "\<exists>p n. quantize_fill_price 12345 = Inr p \<and> p = of_int n * tick_unit 12345 \<and> 0 < p \<and> p \<le> 12345 \<and> 12345 < p + tick_unit 12345"
  by (rule limit_price_on_tick) (simp_all add: places_def)

end
