(* ===== verification/Trading_Limits.thy ===== *)
theory Trading_Limits
  imports Chase_Guard
begin

text \<open>
  The owner's trading limits: the first half of \<open>app/extensions/kasset/automation/policy.py\<close>, from the
  settlement books and the risk presets to the constructor \<open>AITradingLimits\<close>, what it stores and how a
  stored setting, current or legacy, is read back.

  Values whose type the code tests at run time (the risk level, the daily counts, the switch) are
  JSON values; amounts and rates are Decimals as annotated. \<open>dstr\<close> stands for \<open>str\<close> of a Decimal,
  which depends on the digits a value was written with.
\<close>

subsection \<open>Settlement books\<close>

definition settlement_book :: "string option \<Rightarrow> string option \<Rightarrow> (string \<times> string) result" where
  "settlement_book market currency =
     raise_if ((market = None) = (currency = None)) (ValueError ''exactly one of market or currency is required'')
    (if market = Some ''KRX'' \<or> currency = Some ''KRW'' then Inr (''KRW'', ''equity_kr'')
     else if market = Some ''US'' \<or> currency = Some ''USD'' then Inr (''USD'', ''equity_us'')
     else Inl (ValueError ''market/currency does not map to a settlement book''))"

subsection \<open>Risk presets\<close>

record risk_preset =
  rp_daily_target_rate_pct :: rat
  rp_max_daily_loss_rate_pct :: rat
  rp_risk_per_trade_rate :: rat
  rp_max_symbol_allocation :: rat
  rp_max_concurrent_holdings :: "int option"
  rp_max_buys_per_day :: "int option"
  rp_max_sells_per_day :: "int option"
  rp_same_symbol_reentry_limit :: "int option"

definition risk_presets :: "(int \<times> risk_preset) list" where
  "risk_presets =
     [(1, \<lparr>rp_daily_target_rate_pct = 3 / 10, rp_max_daily_loss_rate_pct = 5 / 10, rp_risk_per_trade_rate = 25 / 10000,
           rp_max_symbol_allocation = 10 / 100, rp_max_concurrent_holdings = Some 3, rp_max_buys_per_day = Some 1,
           rp_max_sells_per_day = Some 1, rp_same_symbol_reentry_limit = Some 1\<rparr>),
      (2, \<lparr>rp_daily_target_rate_pct = 5 / 10, rp_max_daily_loss_rate_pct = 1, rp_risk_per_trade_rate = 5 / 1000,
           rp_max_symbol_allocation = 15 / 100, rp_max_concurrent_holdings = Some 4, rp_max_buys_per_day = Some 2,
           rp_max_sells_per_day = Some 1, rp_same_symbol_reentry_limit = Some 1\<rparr>),
      (3, \<lparr>rp_daily_target_rate_pct = 8 / 10, rp_max_daily_loss_rate_pct = 15 / 10, rp_risk_per_trade_rate = 75 / 10000,
           rp_max_symbol_allocation = 20 / 100, rp_max_concurrent_holdings = None, rp_max_buys_per_day = None,
           rp_max_sells_per_day = None, rp_same_symbol_reentry_limit = None\<rparr>),
      (4, \<lparr>rp_daily_target_rate_pct = 12 / 10, rp_max_daily_loss_rate_pct = 25 / 10, rp_risk_per_trade_rate = 1 / 100,
           rp_max_symbol_allocation = 25 / 100, rp_max_concurrent_holdings = None, rp_max_buys_per_day = None,
           rp_max_sells_per_day = None, rp_same_symbol_reentry_limit = None\<rparr>),
      (5, \<lparr>rp_daily_target_rate_pct = 2, rp_max_daily_loss_rate_pct = 4, rp_risk_per_trade_rate = 15 / 1000,
           rp_max_symbol_allocation = 30 / 100, rp_max_concurrent_holdings = None, rp_max_buys_per_day = None,
           rp_max_sells_per_day = None, rp_same_symbol_reentry_limit = None\<rparr>)]"

definition preset_of :: "int \<Rightarrow> risk_preset" where
  "preset_of level = the (map_of risk_presets level)"

text \<open>The limits of the levels before they were lifted, used to place a legacy setting.\<close>

definition legacy_preset_limits :: "(int \<times> (string \<times> int) list) list" where
  "legacy_preset_limits =
     [(1, [(''max_buys_per_day'', 1), (''max_orders_per_day'', 2)]),
      (2, [(''max_buys_per_day'', 2), (''max_orders_per_day'', 3)]),
      (3, [(''max_buys_per_day'', 3), (''max_orders_per_day'', 5), (''same_symbol_reentry_limit'', 1),
           (''max_concurrent_holdings'', 5)]),
      (4, [(''max_buys_per_day'', 5), (''max_orders_per_day'', 8), (''same_symbol_reentry_limit'', 1),
           (''max_concurrent_holdings'', 5)]),
      (5, [(''max_buys_per_day'', 8), (''max_orders_per_day'', 12), (''same_symbol_reentry_limit'', 2),
           (''max_concurrent_holdings'', 6)])]"

definition default_risk_level :: int where
  "default_risk_level = 2"

definition same_issuer_daily_buy_limit :: int where
  "same_issuer_daily_buy_limit = 1"

definition min_ai_confidence :: rat where
  "min_ai_confidence = 1 / 2"

definition default_operating_budget_krw :: rat where
  "default_operating_budget_krw = 10000000"

definition default_operating_budget_usd :: rat where
  "default_operating_budget_usd = 10000"

datatype operating_mode = APPROVAL | AUTO_PAPER

fun operating_mode_value :: "operating_mode \<Rightarrow> string" where
  "operating_mode_value APPROVAL = ''APPROVAL''"
| "operating_mode_value AUTO_PAPER = ''AUTO_PAPER''"

subsection \<open>Checked values\<close>

text \<open>\<open>Decimal(str(value))\<close> of a JSON value; text that is no numeral is an invalid operation.\<close>

definition decimal_from :: "json \<Rightarrow> decimal result" where
  "decimal_from value =
     (case (case value of JInt i \<Rightarrow> parse_decimal (py_str_int i) | JStr s \<Rightarrow> parse_decimal s | _ \<Rightarrow> None) of
        None \<Rightarrow> Inl DecimalException | Some d \<Rightarrow> Inr d)"

definition decimal_or_zero :: "decimal \<Rightarrow> rat" where
  "decimal_or_zero d = (case finite_value d of None \<Rightarrow> 0 | Some q \<Rightarrow> q)"

definition positive_decimal_of :: "decimal \<Rightarrow> string \<Rightarrow> rat result" where
  "positive_decimal_of value name =
     (let q = decimal_or_zero value in raise_if (q \<le> 0) (ValueError (name @ '' must be positive'')) (Inr q))"

text \<open>The same check on a stored value, where \<open>None\<close> counts as zero.\<close>

definition positive_decimal_from :: "json \<Rightarrow> string \<Rightarrow> rat result" where
  "positive_decimal_from value name =
     bindr (if value = JNull then Inr (DFinite 0) else decimal_from value) (\<lambda>d. positive_decimal_of d name)"

definition check_risk_level :: "json \<Rightarrow> string \<Rightarrow> int result" where
  "check_risk_level value name =
     (case value of
        JInt i \<Rightarrow> if i \<in> set (map fst risk_presets) then Inr i else Inl (ValueError (name @ '' must be between 1 and 5''))
      | _ \<Rightarrow> Inl (ValueError (name @ '' must be an integer'')))"

text \<open>\<open>_percentage\<close>; the bounds carry the text of the message, and no maximum stands for infinity.\<close>

definition percentage :: "decimal \<Rightarrow> string \<Rightarrow> rat \<Rightarrow> rat option \<Rightarrow> string \<Rightarrow> rat result" where
  "percentage value name minimum maximum bounds =
     (case finite_value value of
        None \<Rightarrow> Inl (ValueError (name @ '' must be finite''))
      | Some q \<Rightarrow>
          raise_if (q < minimum \<or> (case maximum of None \<Rightarrow> False | Some m \<Rightarrow> m < q))
            (ValueError (name @ '' must be between '' @ bounds)) (Inr q))"

definition nonnegative_int :: "json \<Rightarrow> string \<Rightarrow> int result" where
  "nonnegative_int value name =
     (case value of
        JInt i \<Rightarrow> raise_if (i < 0) (ValueError (name @ '' must not be negative'')) (Inr i)
      | _ \<Rightarrow> Inl (ValueError (name @ '' must be an integer'')))"

definition optional_daily_limit :: "json \<Rightarrow> string \<Rightarrow> int \<Rightarrow> int \<Rightarrow> int result" where
  "optional_daily_limit value name maximum default_limit =
     (case value of
        JNull \<Rightarrow>
          raise_if (maximum < default_limit)
            (ValueError (''default '' @ name @ '' exceeds hard maximum '' @ py_str_int maximum)) (Inr default_limit)
      | JInt i \<Rightarrow>
          raise_if (i < 1 \<or> maximum < i) (ValueError (name @ '' must be between 1 and '' @ py_str_int maximum)) (Inr i)
      | _ \<Rightarrow> Inl (ValueError (name @ '' must be an integer'')))"

definition strict_bool :: "json \<Rightarrow> string \<Rightarrow> bool result" where
  "strict_bool value name = (case value of JBool b \<Rightarrow> Inr b | _ \<Rightarrow> Inl (ValueError (name @ '' must be a boolean'')))"

definition below_limit :: "int \<Rightarrow> int option \<Rightarrow> bool" where
  "below_limit used limit = (case limit of None \<Rightarrow> True | Some n \<Rightarrow> used < n)"

subsection \<open>The limits\<close>

record ai_trading_limits =
  tl_risk_level :: int
  tl_operating_budget_krw :: rat
  tl_operating_budget_usd :: rat
  tl_daily_target_rate_pct :: rat
  tl_max_daily_loss_rate_pct :: rat
  tl_risk_per_trade_rate :: rat
  tl_custom_max_buys_per_day :: "int option"
  tl_custom_max_sells_per_day :: "int option"
  tl_max_buys_per_day :: "int option"
  tl_max_sells_per_day :: "int option"
  tl_max_orders_per_day :: "int option"
  tl_max_custom_buys_per_day :: "int option"
  tl_max_custom_sells_per_day :: "int option"
  tl_max_custom_orders_per_day :: "int option"
  tl_max_symbol_allocation :: rat
  tl_max_concurrent_holdings :: "int option"
  tl_same_symbol_reentry_limit :: "int option"
  tl_kill_switch :: bool
  tl_currency :: string

record limits_args =
  la_risk_level :: json
  la_operating_budget_krw :: decimal
  la_operating_budget_usd :: decimal
  la_daily_target_rate_pct :: "decimal option"
  la_max_daily_loss_rate_pct :: "decimal option"
  la_custom_max_buys_per_day :: json
  la_custom_max_sells_per_day :: json
  la_kill_switch :: json
  la_currency :: string

definition default_limits_args :: limits_args where
  "default_limits_args =
     \<lparr>la_risk_level = JInt default_risk_level, la_operating_budget_krw = DFinite default_operating_budget_krw,
      la_operating_budget_usd = DFinite default_operating_budget_usd, la_daily_target_rate_pct = None,
      la_max_daily_loss_rate_pct = None, la_custom_max_buys_per_day = JNull, la_custom_max_sells_per_day = JNull,
      la_kill_switch = JBool False, la_currency = ''KRW''\<rparr>"

definition rate_or_preset :: "decimal option \<Rightarrow> rat \<Rightarrow> string \<Rightarrow> rat \<Rightarrow> string \<Rightarrow> rat result" where
  "rate_or_preset value preset name maximum bounds =
     (case value of None \<Rightarrow> Inr preset | Some d \<Rightarrow> percentage d name 0 (Some maximum) bounds)"

text \<open>The daily counts of the constructor: the stored custom counts, the effective counts and the hard maxima.\<close>

record daily_counts =
  dc_custom_buys :: "int option"
  dc_custom_sells :: "int option"
  dc_buys :: "int option"
  dc_sells :: "int option"
  dc_orders :: "int option"
  dc_max_buys :: "int option"
  dc_max_sells :: "int option"
  dc_max_orders :: "int option"

definition json_count :: "json \<Rightarrow> int option" where
  "json_count value = (case value of JInt i \<Rightarrow> Some i | _ \<Rightarrow> None)"

definition daily_counts_of :: "risk_preset \<Rightarrow> json \<Rightarrow> json \<Rightarrow> daily_counts result" where
  "daily_counts_of preset custom_buys custom_sells =
     (case (rp_max_buys_per_day preset, rp_max_sells_per_day preset) of
        (Some preset_buys, Some preset_sells) \<Rightarrow>
          (case (rp_same_symbol_reentry_limit preset, rp_max_concurrent_holdings preset) of
             (Some reentry, Some holdings) \<Rightarrow>
               let max_buys = holdings * max 2 (reentry * 2); max_sells = holdings * (reentry + 3)
               in bindr (optional_daily_limit custom_buys ''custom_max_buys_per_day'' max_buys preset_buys) (\<lambda>buys.
                  bindr (optional_daily_limit custom_sells ''custom_max_sells_per_day'' max_sells preset_sells) (\<lambda>sells.
                  Inr \<lparr>dc_custom_buys = json_count custom_buys, dc_custom_sells = json_count custom_sells,
                       dc_buys = Some buys, dc_sells = Some sells, dc_orders = Some (buys + sells),
                       dc_max_buys = Some max_buys, dc_max_sells = Some max_sells,
                       dc_max_orders = Some (max_buys + max_sells)\<rparr>))
           | _ \<Rightarrow> Inl (ValueError ''bounded daily limits require re-entry and holdings limits''))
      | _ \<Rightarrow> Inr \<lparr>dc_custom_buys = None, dc_custom_sells = None, dc_buys = None, dc_sells = None, dc_orders = None,
                 dc_max_buys = None, dc_max_sells = None, dc_max_orders = None\<rparr>)"

definition new_limits :: "limits_args \<Rightarrow> ai_trading_limits result" where
  "new_limits a =
     bindr (check_risk_level (la_risk_level a) ''risk_level'') (\<lambda>level.
     let preset = preset_of level; currency = py_upper (la_currency a)
     in bindr (settlement_book None (Some currency)) (\<lambda>_.
        bindr (positive_decimal_of (la_operating_budget_krw a) ''operating_budget_krw'') (\<lambda>krw.
        bindr (positive_decimal_of (la_operating_budget_usd a) ''operating_budget_usd'') (\<lambda>usd.
        bindr (rate_or_preset (la_daily_target_rate_pct a) (rp_daily_target_rate_pct preset)
                 ''daily_target_rate_pct'' 10 ''0 and 10'') (\<lambda>target.
        bindr (rate_or_preset (la_max_daily_loss_rate_pct a) (rp_max_daily_loss_rate_pct preset)
                 ''max_daily_loss_rate_pct'' 20 ''0 and 20'') (\<lambda>loss.
        bindr (daily_counts_of preset (la_custom_max_buys_per_day a) (la_custom_max_sells_per_day a)) (\<lambda>counts.
        bindr (strict_bool (la_kill_switch a) ''kill_switch'') (\<lambda>kill_switch.
        Inr \<lparr>tl_risk_level = level, tl_operating_budget_krw = krw, tl_operating_budget_usd = usd,
             tl_daily_target_rate_pct = target, tl_max_daily_loss_rate_pct = loss,
             tl_risk_per_trade_rate = rp_risk_per_trade_rate preset,
             tl_custom_max_buys_per_day = dc_custom_buys counts, tl_custom_max_sells_per_day = dc_custom_sells counts,
             tl_max_buys_per_day = dc_buys counts, tl_max_sells_per_day = dc_sells counts,
             tl_max_orders_per_day = dc_orders counts, tl_max_custom_buys_per_day = dc_max_buys counts,
             tl_max_custom_sells_per_day = dc_max_sells counts, tl_max_custom_orders_per_day = dc_max_orders counts,
             tl_max_symbol_allocation = rp_max_symbol_allocation preset,
             tl_max_concurrent_holdings = rp_max_concurrent_holdings preset,
             tl_same_symbol_reentry_limit = rp_same_symbol_reentry_limit preset,
             tl_kill_switch = kill_switch, tl_currency = currency\<rparr>))))))))"

definition operating_budget_for :: "ai_trading_limits \<Rightarrow> string \<Rightarrow> rat result" where
  "operating_budget_for limits currency =
     bindr (settlement_book None (Some currency)) (\<lambda>(book, _).
     Inr (if book = ''KRW'' then tl_operating_budget_krw limits else tl_operating_budget_usd limits))"

definition daily_target_amount_for :: "ai_trading_limits \<Rightarrow> string \<Rightarrow> rat result" where
  "daily_target_amount_for limits currency =
     bindr (operating_budget_for limits currency) (\<lambda>budget.
     bindr (dmul budget (tl_daily_target_rate_pct limits)) (\<lambda>x. ddiv x 100))"

definition max_daily_loss_amount_for :: "ai_trading_limits \<Rightarrow> string \<Rightarrow> rat result" where
  "max_daily_loss_amount_for limits currency =
     bindr (operating_budget_for limits currency) (\<lambda>budget.
     bindr (dmul budget (tl_max_daily_loss_rate_pct limits)) (\<lambda>x. ddiv x 100))"

definition max_symbol_allocation_pct :: "ai_trading_limits \<Rightarrow> rat result" where
  "max_symbol_allocation_pct limits = dmul (tl_max_symbol_allocation limits) 100"

subsection \<open>Storing\<close>

definition to_storage :: "(rat \<Rightarrow> string) \<Rightarrow> ai_trading_limits \<Rightarrow> json_object" where
  "to_storage dstr limits =
     [(''risk_level'', JInt (tl_risk_level limits)),
      (''operating_budget_krw'', JStr (dstr (tl_operating_budget_krw limits))),
      (''operating_budget_usd'', JStr (dstr (tl_operating_budget_usd limits))),
      (''daily_target_rate_pct'', JStr (dstr (tl_daily_target_rate_pct limits))),
      (''max_daily_loss_rate_pct'', JStr (dstr (tl_max_daily_loss_rate_pct limits))),
      (''kill_switch'', JBool (tl_kill_switch limits)),
      (''currency'', JStr (tl_currency limits))]
     @ (case tl_custom_max_buys_per_day limits of None \<Rightarrow> [] | Some n \<Rightarrow> [(''custom_max_buys_per_day'', JInt n)])
     @ (case tl_custom_max_sells_per_day limits of None \<Rightarrow> [] | Some n \<Rightarrow> [(''custom_max_sells_per_day'', JInt n)])"

definition setting_payload :: "(rat \<Rightarrow> string) \<Rightarrow> operating_mode \<Rightarrow> ai_trading_limits \<Rightarrow> json" where
  "setting_payload dstr mode limits =
     JObj [(''mode'', JStr (operating_mode_value mode)), (''settings'', JObj (to_storage dstr limits))]"

subsection \<open>Reading a stored setting\<close>

definition stored_percentage :: "json_object \<Rightarrow> string \<Rightarrow> string \<Rightarrow> rat \<Rightarrow> rat \<Rightarrow> rat \<Rightarrow> string \<Rightarrow> rat result" where
  "stored_percentage raw canonical_key legacy_amount_key budget default_rate maximum bounds =
     (case map_of raw canonical_key of
        Some v \<Rightarrow> bindr (decimal_from v) (\<lambda>d. percentage d canonical_key 0 (Some maximum) bounds)
      | None \<Rightarrow>
          (case map_of raw legacy_amount_key of
             None \<Rightarrow> Inr default_rate
           | Some v \<Rightarrow>
               bindr (bindr (decimal_from v) (\<lambda>d. percentage d legacy_amount_key 0 None ''0 and Infinity'')) (\<lambda>amount.
               bindr (dmul amount 100) (\<lambda>x. bindr (ddiv x budget) (\<lambda>rate. Inr (min maximum rate))))))"

text \<open>What a legacy setting gives to compare the levels by: a value, its name and its scale.\<close>

definition count_components :: "json_object \<Rightarrow> string list \<Rightarrow> (rat \<times> string \<times> rat) list result" where
  "count_components raw keys =
     bindr (mapr (\<lambda>key. case map_of raw key of
                          None \<Rightarrow> Inr []
                        | Some v \<Rightarrow> bindr (nonnegative_int v key) (\<lambda>i. Inr [(of_int i, key, 1)])) keys)
       (\<lambda>xss. Inr (concat xss))"

definition amount_component ::
    "json_object \<Rightarrow> rat \<Rightarrow> string \<Rightarrow> string \<Rightarrow> rat \<Rightarrow> (rat \<times> string \<times> rat) list result" where
  "amount_component raw budget key field_name scale =
     (case map_of raw key of
        None \<Rightarrow> Inr []
      | Some v \<Rightarrow>
          bindr (bindr (decimal_from v) (\<lambda>d. percentage d key 0 None ''0 and Infinity'')) (\<lambda>amount.
          bindr (dmul amount 100) (\<lambda>x. bindr (ddiv x budget) (\<lambda>rate. Inr [(rate, field_name, scale)]))))"

definition legacy_components :: "json_object \<Rightarrow> rat \<Rightarrow> (rat \<times> string \<times> rat) list result" where
  "legacy_components raw budget =
     bindr (case map_of raw ''max_symbol_allocation'' of
              None \<Rightarrow> Inr []
            | Some v \<Rightarrow>
                bindr (bindr (decimal_from v) (\<lambda>d. percentage d ''max_symbol_allocation'' (1 / 10000000) (Some 1) ''1E-7 and 1''))
                  (\<lambda>allocation. Inr [(allocation, ''max_symbol_allocation'', 5 / 100)])) (\<lambda>allocation.
     bindr (count_components raw [''max_concurrent_holdings'', ''max_buys_per_day'', ''max_orders_per_day'',
              ''same_symbol_reentry_limit'']) (\<lambda>counts.
     if allocation @ counts \<noteq> [] then Inr (allocation @ counts)
     else bindr (amount_component raw budget ''conservative_daily_goal'' ''daily_target_rate_pct'' (1 / 10)) (\<lambda>target.
          bindr (amount_component raw budget ''daily_max_loss'' ''max_daily_loss_rate_pct'' (5 / 10)) (\<lambda>loss.
          Inr (target @ loss)))))"

definition preset_field :: "risk_preset \<Rightarrow> string \<Rightarrow> rat option" where
  "preset_field preset name =
     (if name = ''max_symbol_allocation'' then Some (rp_max_symbol_allocation preset)
      else if name = ''max_concurrent_holdings'' then map_option of_int (rp_max_concurrent_holdings preset)
      else if name = ''max_buys_per_day'' then map_option of_int (rp_max_buys_per_day preset)
      else if name = ''same_symbol_reentry_limit'' then map_option of_int (rp_same_symbol_reentry_limit preset)
      else if name = ''daily_target_rate_pct'' then Some (rp_daily_target_rate_pct preset)
      else if name = ''max_daily_loss_rate_pct'' then Some (rp_max_daily_loss_rate_pct preset)
      else None)"

definition expected_value :: "int \<Rightarrow> string \<Rightarrow> rat result" where
  "expected_value level name =
     (case map_of (the (map_of legacy_preset_limits level)) name of
        Some i \<Rightarrow> Inr (of_int i)
      | None \<Rightarrow> (case preset_field (preset_of level) name of Some q \<Rightarrow> Inr q | None \<Rightarrow> Inl DecimalException))"

fun level_score :: "int \<Rightarrow> rat \<Rightarrow> (rat \<times> string \<times> rat) list \<Rightarrow> rat result" where
  "level_score level score [] = Inr score"
| "level_score level score ((actual, name, scale) # components) =
     bindr (expected_value level name) (\<lambda>expected.
     bindr (dsub actual expected) (\<lambda>difference.
     bindr (dabs difference) (\<lambda>distance.
     bindr (ddiv distance scale) (\<lambda>term.
     bindr (dadd score term) (\<lambda>score'. level_score level score' components)))))"

text \<open>\<open>min\<close> by score and level, over levels in ascending order.\<close>

fun least_level :: "(rat \<times> int) \<Rightarrow> (rat \<times> int) list \<Rightarrow> int" where
  "least_level best [] = snd best"
| "least_level best (x # xs) = least_level (if fst x < fst best then x else best) xs"

definition nearest_risk_level :: "json_object \<Rightarrow> rat \<Rightarrow> int result" where
  "nearest_risk_level raw budget =
     bindr (legacy_components raw budget) (\<lambda>components.
     if components = [] then Inr default_risk_level
     else bindr (mapr (\<lambda>level. bindr (level_score level 0 components) (\<lambda>s. Inr (s, level))) (map fst risk_presets)) (\<lambda>scores.
          Inr (least_level (hd scores) (tl scores))))"

text \<open>The text of a scalar; that of a list or an object is neither a mode nor a currency.\<close>

fun scalar_text :: "json \<Rightarrow> string option" where
  "scalar_text (JStr s) = Some s"
| "scalar_text JNull = Some ''None''"
| "scalar_text (JBool b) = Some (if b then ''True'' else ''False'')"
| "scalar_text (JInt i) = Some (py_str_int i)"
| "scalar_text _ = None"

definition operating_mode_of :: "json option \<Rightarrow> operating_mode result" where
  "operating_mode_of value =
     (case map_option scalar_text value of
        None \<Rightarrow> Inr APPROVAL
      | Some text \<Rightarrow>
          if text = Some ''APPROVAL'' then Inr APPROVAL
          else if text = Some ''AUTO_PAPER'' then Inr AUTO_PAPER
          else Inl (ValueError ''not a valid OperatingMode''))"

definition stored_currency :: "json_object \<Rightarrow> string result" where
  "stored_currency raw =
     (case map_option scalar_text (map_of raw ''currency'') of
        None \<Rightarrow> Inr ''KRW''
      | Some None \<Rightarrow> Inl (ValueError ''market/currency does not map to a settlement book'')
      | Some (Some text) \<Rightarrow>
          bindr (settlement_book None (Some (py_upper text))) (\<lambda>_. Inr (py_upper text)))"

definition stored_budgets :: "json_object \<Rightarrow> string \<Rightarrow> (rat \<times> rat) result" where
  "stored_budgets raw currency =
     (if map_of raw ''operating_budget_krw'' \<noteq> None \<or> map_of raw ''operating_budget_usd'' \<noteq> None
      then bindr (case map_of raw ''operating_budget_krw'' of
                    None \<Rightarrow> Inr default_operating_budget_krw
                  | Some v \<Rightarrow> positive_decimal_from v ''operating_budget_krw'') (\<lambda>krw.
           bindr (case map_of raw ''operating_budget_usd'' of
                    None \<Rightarrow> Inr default_operating_budget_usd
                  | Some v \<Rightarrow> positive_decimal_from v ''operating_budget_usd'') (\<lambda>usd.
           Inr (krw, usd)))
      else bindr (case map_of raw ''operating_budget'' of
                    None \<Rightarrow> Inr (if currency = ''KRW'' then default_operating_budget_krw else default_operating_budget_usd)
                  | Some v \<Rightarrow> positive_decimal_from v ''operating_budget'') (\<lambda>budget.
           Inr (if currency = ''KRW'' then budget else default_operating_budget_krw,
                if currency = ''USD'' then budget else default_operating_budget_usd)))"

definition decode_limits :: "json_object \<Rightarrow> ai_trading_limits result" where
  "decode_limits raw =
     bindr (stored_currency raw) (\<lambda>currency.
     bindr (stored_budgets raw currency) (\<lambda>(krw, usd).
     let display_budget = if currency = ''KRW'' then krw else usd
     in bindr (case map_of raw ''risk_level'' of
                 Some v \<Rightarrow> check_risk_level v ''risk_level''
               | None \<Rightarrow> nearest_risk_level raw display_budget) (\<lambda>level.
        let preset = preset_of level
        in bindr (stored_percentage raw ''daily_target_rate_pct'' ''conservative_daily_goal'' display_budget
                    (rp_daily_target_rate_pct preset) 10 ''0 and 10'') (\<lambda>target.
           bindr (stored_percentage raw ''max_daily_loss_rate_pct'' ''daily_max_loss'' display_budget
                    (rp_max_daily_loss_rate_pct preset) 20 ''0 and 20'') (\<lambda>loss.
           bindr (strict_bool (case map_of raw ''kill_switch'' of None \<Rightarrow> JBool False | Some v \<Rightarrow> v) ''kill_switch'') (\<lambda>kill_switch.
           new_limits \<lparr>la_risk_level = JInt level, la_operating_budget_krw = DFinite krw, la_operating_budget_usd = DFinite usd,
             la_daily_target_rate_pct = Some (DFinite target), la_max_daily_loss_rate_pct = Some (DFinite loss),
             la_custom_max_buys_per_day = obj_get ''custom_max_buys_per_day'' raw,
             la_custom_max_sells_per_day = obj_get ''custom_max_sells_per_day'' raw,
             la_kill_switch = JBool kill_switch, la_currency = currency\<rparr>))))))"

definition decode_setting :: "json option \<Rightarrow> (operating_mode \<times> ai_trading_limits) result" where
  "decode_setting value =
     (case value of
        None \<Rightarrow> bindr (new_limits default_limits_args) (\<lambda>limits. Inr (APPROVAL, limits))
      | Some JNull \<Rightarrow> bindr (new_limits default_limits_args) (\<lambda>limits. Inr (APPROVAL, limits))
      | Some (JObj obj) \<Rightarrow>
          bindr (operating_mode_of (map_of obj ''mode'')) (\<lambda>mode.
          case (case map_of obj ''settings'' of None \<Rightarrow> JObj [] | Some v \<Rightarrow> v) of
            JObj raw \<Rightarrow> bindr (decode_limits raw) (\<lambda>limits. Inr (mode, limits))
          | _ \<Rightarrow> Inl (ValueError ''stored AI trading limits must be an object''))
      | Some _ \<Rightarrow> Inl (ValueError ''stored AI trading setting must be an object''))"

subsection \<open>Issuer groups\<close>

definition issuer_group_key :: "string \<Rightarrow> string \<Rightarrow> string" where
  "issuer_group_key market symbol = (if market = ''KRX'' \<and> length symbol = 6 then take 5 symbol else symbol)"

definition issuer_symbol_filter :: "string \<Rightarrow> string \<Rightarrow> string \<Rightarrow> bool" where
  "issuer_symbol_filter market symbol column =
     (let key = issuer_group_key market symbol
      in if key = symbol then column = symbol else length column = 6 \<and> take 5 column = key)"

end
