(* ===== verification/Policy_Store.thy ===== *)
theory Policy_Store
  imports Trading_Limits Loss_Streak_Gate Account_State
begin

text \<open>
  The tables behind the owner policy and what \<open>app/extensions/kasset/automation/policy.py\<close> reads from
  them: the usage of a day, the listing of executions and the start of a trading day; with the runtime
  switches of \<open>app/extensions/kasset/api/runtime_state.py\<close>.

  One record holds all tables, so that the loss-streak gate, the PAPER book and the policy see the
  same rows: \<open>loss_view\<close> is what the gate queries. The time-zone database is an argument: the offset of
  an instant and the offset of a wall-clock reading. \<open>clock\<close> is the database's \<open>now()\<close>. The retry after
  a lost insert race is concurrency between sessions and not modelled.
\<close>

subsection \<open>Tables\<close>

record android_order =
  ao_id :: string
  ao_owner_user_id :: int
  ao_client_order_id :: string
  ao_paper_account_id :: int
  ao_market :: string
  ao_symbol :: string
  ao_name :: "string option"
  ao_currency :: string
  ao_side :: string
  ao_quantity :: rat
  ao_limit_price :: "rat option"
  ao_status :: string
  ao_average_fill_price :: "rat option"
  ao_paper_trade_id :: "int option"
  ao_reject_reason :: "string option"
  ao_created_at :: instant

record runtime_row =
  rt_kill_switch_enabled :: bool
  rt_promotion_bypass_enabled :: bool
  rt_trading_mode :: string
  rt_max_order_ratio :: rat
  rt_max_symbol_ratio :: rat
  rt_updated_at :: instant

record global_row =
  gl_kill_switch_enabled :: bool
  gl_updated_at :: instant

record setting_row =
  st_value :: json
  st_updated_at :: instant

record recommendation_row = ai_recommendation +
  rec_paper_order_id :: "string option"

record execution_event =
  ev_id :: int
  ev_owner_user_id :: int
  ev_paper_order_id :: "string option"
  ev_origin :: string
  ev_status :: string
  ev_replayed :: bool
  ev_observed_at :: instant

record policy_db =
  pd_links :: "(int \<times> int) list"
  pd_orders :: "android_order list"
  pd_ledger :: ledger
  pd_locks :: lock_table
  pd_recommendations :: "recommendation_row list"
  pd_events :: "execution_event list"
  pd_symbols :: "(string \<times> string \<times> string) list"
  pd_settings :: "(int \<times> setting_row) list"
  pd_states :: "(int \<times> runtime_row) list"
  pd_global :: "global_row option"

text \<open>What the loss-streak gate selects from the same tables.\<close>

definition order_view :: "android_order \<Rightarrow> paper_order" where
  "order_view x =
     \<lparr>po_id = ao_id x, po_owner_user_id = ao_owner_user_id x, po_client_order_id = ao_client_order_id x,
      po_paper_account_id = ao_paper_account_id x, po_market = ao_market x, po_side = ao_side x,
      po_paper_trade_id = ao_paper_trade_id x\<rparr>"

definition trade_view :: "ledger_trade \<Rightarrow> paper_trade" where
  "trade_view t =
     paper_trade.make (ledger_trade.pt_id t) (ledger_trade.pt_symbol t)
       (map_option DFinite (ledger_trade.pt_realized_pnl t)) (Some (ledger_trade.pt_reason t)) (ledger_trade.pt_executed_at t)"

definition loss_view :: "policy_db \<Rightarrow> paper_db" where
  "loss_view db =
     \<lparr>db_accounts = pd_links db, db_orders = map order_view (pd_orders db),
      db_trades = map trade_view (ld_trades (pd_ledger db)),
      db_recommendations = map ai_recommendation.truncate (pd_recommendations db)\<rparr>"

text \<open>\<open>select(AndroidPaperAccount.paper_account_id) ... order_by ... limit(1)\<close>.\<close>

definition owner_account :: "policy_db \<Rightarrow> int \<Rightarrow> int option" where
  "owner_account db owner_user_id =
     (case sort (map snd (filter (\<lambda>(owner, _). owner = owner_user_id) (pd_links db))) of
        [] \<Rightarrow> None | account_id # _ \<Rightarrow> Some account_id)"

subsection \<open>Runtime switches\<close>

definition default_runtime_row :: "instant \<Rightarrow> runtime_row" where
  "default_runtime_row clock =
     \<lparr>rt_kill_switch_enabled = False, rt_promotion_bypass_enabled = False, rt_trading_mode = ''PAPER'',
      rt_max_order_ratio = 1000 / 10000, rt_max_symbol_ratio = 2500 / 10000, rt_updated_at = clock\<rparr>"

definition get_state :: "instant \<Rightarrow> policy_db \<Rightarrow> int \<Rightarrow> policy_db \<times> runtime_row" where
  "get_state clock db owner_user_id =
     (case map_of (pd_states db) owner_user_id of
        Some state \<Rightarrow> (db, state)
      | None \<Rightarrow>
          let state = default_runtime_row clock
          in (db\<lparr>pd_states := AList.update owner_user_id state (pd_states db)\<rparr>, state))"

definition get_global :: "instant \<Rightarrow> policy_db \<Rightarrow> policy_db \<times> global_row" where
  "get_global clock db =
     (case pd_global db of
        Some state \<Rightarrow> (db, state)
      | None \<Rightarrow>
          let state = \<lparr>gl_kill_switch_enabled = False, gl_updated_at = clock\<rparr>
          in (db\<lparr>pd_global := Some state\<rparr>, state))"

text \<open>A commit writes a row, and its time of update, only when a column has changed.\<close>

definition save_state :: "instant \<Rightarrow> policy_db \<Rightarrow> int \<Rightarrow> runtime_row \<Rightarrow> runtime_row \<Rightarrow> policy_db \<times> runtime_row" where
  "save_state clock db owner_user_id old new =
     (let state = (if new = old then old else new\<lparr>rt_updated_at := clock\<rparr>)
      in (db\<lparr>pd_states := AList.update owner_user_id state (pd_states db)\<rparr>, state))"

definition set_global_kill_switch :: "instant \<Rightarrow> policy_db \<Rightarrow> bool \<Rightarrow> policy_db \<times> global_row" where
  "set_global_kill_switch clock db enabled =
     (case get_global clock db of (db', old) \<Rightarrow>
        let state = (if gl_kill_switch_enabled old = enabled then old
                     else old\<lparr>gl_kill_switch_enabled := enabled, gl_updated_at := clock\<rparr>)
        in (db'\<lparr>pd_global := Some state\<rparr>, state))"

definition set_user_kill_switch :: "instant \<Rightarrow> policy_db \<Rightarrow> int \<Rightarrow> bool \<Rightarrow> policy_db \<times> runtime_row" where
  "set_user_kill_switch clock db owner_user_id enabled =
     (case get_state clock db owner_user_id of (db', old) \<Rightarrow>
        save_state clock db' owner_user_id old (old\<lparr>rt_kill_switch_enabled := enabled\<rparr>))"

datatype mobile_error = TradingDisabled | KillSwitchEngaged | LiveTradingDisabled

definition set_trading_mode :: "instant \<Rightarrow> policy_db \<Rightarrow> int \<Rightarrow> string \<Rightarrow> policy_db \<times> (mobile_error + runtime_row)" where
  "set_trading_mode clock db owner_user_id mode =
     (if strip_upper mode \<noteq> ''PAPER'' then (db, Inl LiveTradingDisabled)
      else case get_state clock db owner_user_id of (db', old) \<Rightarrow>
             (case save_state clock db' owner_user_id old (old\<lparr>rt_trading_mode := ''PAPER''\<rparr>) of
                (db'', state) \<Rightarrow> (db'', Inr state)))"

definition update_policy ::
    "instant \<Rightarrow> policy_db \<Rightarrow> int \<Rightarrow> rat option \<Rightarrow> rat option \<Rightarrow> policy_db \<times> runtime_row result" where
  "update_policy clock db owner_user_id max_order_ratio max_symbol_ratio =
     (case get_state clock db owner_user_id of (db', old) \<Rightarrow>
        (case bindr (case max_order_ratio of None \<Rightarrow> Inr (rt_max_order_ratio old) | Some q \<Rightarrow> numeric_column 8 4 q) (\<lambda>order.
              bindr (case max_symbol_ratio of None \<Rightarrow> Inr (rt_max_symbol_ratio old) | Some q \<Rightarrow> numeric_column 8 4 q) (\<lambda>symbol.
              Inr (old\<lparr>rt_max_order_ratio := order, rt_max_symbol_ratio := symbol\<rparr>))) of
           Inl e \<Rightarrow> (db', Inl e)
         | Inr new \<Rightarrow> (case save_state clock db' owner_user_id old new of (db'', state) \<Rightarrow> (db'', Inr state))))"

definition assert_order_allowed ::
    "bool \<Rightarrow> instant \<Rightarrow> policy_db \<Rightarrow> int \<Rightarrow> policy_db \<times> (mobile_error + runtime_row)" where
  "assert_order_allowed trading_enabled clock db owner_user_id =
     (if \<not> trading_enabled then (db, Inl TradingDisabled)
      else case get_global clock db of (db', global) \<Rightarrow>
             (case get_state clock db' owner_user_id of (db'', state) \<Rightarrow>
                if gl_kill_switch_enabled global \<or> rt_kill_switch_enabled state
                then (db'', Inl KillSwitchEngaged) else (db'', Inr state)))"

subsection \<open>Trading days\<close>

record tz_database =
  tz_offset :: "string \<Rightarrow> instant \<Rightarrow> duration"
  tz_wall_offset :: "string \<Rightarrow> int \<Rightarrow> duration"

definition policy_aware_utc :: "py_datetime \<Rightarrow> instant result" where
  "policy_aware_utc value = bindr (require_aware ''timestamp must include a timezone'' value) (\<lambda>t. Inr (t - t mod 1000000))"

definition trading_day_start :: "tz_database \<Rightarrow> py_datetime \<Rightarrow> string \<Rightarrow> instant result" where
  "trading_day_start tz value currency =
     bindr (policy_aware_utc value) (\<lambda>current.
     bindr (settlement_book None (Some currency)) (\<lambda>(book, _).
     let zone = (if book = ''KRW'' then ''Asia/Seoul'' else ''America/New_York'');
         local = current + tz_offset tz zone current;
         midnight = local - local mod (24 * 3600 * 1000000)
     in Inr (midnight - tz_wall_offset tz zone midnight)))"

subsection \<open>Usage\<close>

record ai_trading_usage =
  us_realized_pnl_today :: rat
  us_realized_loss_today :: rat
  us_buys_today :: int
  us_sells_today :: int
  us_orders_today :: int
  us_concurrent_holdings :: int
  us_budget_used :: rat

definition no_usage :: ai_trading_usage where
  "no_usage = \<lparr>us_realized_pnl_today = 0, us_realized_loss_today = 0, us_buys_today = 0, us_sells_today = 0,
     us_orders_today = 0, us_concurrent_holdings = 0, us_budget_used = 0\<rparr>"

definition orders_since :: "policy_db \<Rightarrow> int \<Rightarrow> string \<Rightarrow> instant \<Rightarrow> android_order list" where
  "orders_since db owner_user_id book start =
     filter (\<lambda>x. ao_owner_user_id x = owner_user_id \<and> ao_currency x = book \<and> start \<le> ao_created_at x) (pd_orders db)"

definition open_positions :: "policy_db \<Rightarrow> int \<Rightarrow> string \<Rightarrow> (string \<times> paper_position) list" where
  "open_positions db account_id instrument_type =
     map (\<lambda>((_, symbol), p). (symbol, p))
       (filter (\<lambda>((account, _), p). account = account_id \<and> pp_instrument_type p = instrument_type \<and> 0 < pp_quantity p)
          (ld_positions (pd_ledger db)))"

definition realized_since :: "policy_db \<Rightarrow> int \<Rightarrow> string \<Rightarrow> instant \<Rightarrow> rat" where
  "realized_since db account_id book start =
     sum_list (List.map_filter ledger_trade.pt_realized_pnl
       (filter (\<lambda>t. pt_account_id t = account_id \<and> pt_currency t = book \<and> start \<le> ledger_trade.pt_executed_at t)
          (ld_trades (pd_ledger db))))"

definition usage :: "tz_database \<Rightarrow> policy_db \<Rightarrow> int \<Rightarrow> py_datetime \<Rightarrow> string \<Rightarrow> ai_trading_usage result" where
  "usage tz db owner_user_id now currency =
     bindr (settlement_book None (Some currency)) (\<lambda>(book, instrument_type).
     case owner_account db owner_user_id of
       None \<Rightarrow> Inr no_usage
     | Some account_id \<Rightarrow>
         bindr (trading_day_start tz now book) (\<lambda>start.
         let orders = orders_since db owner_user_id book start;
             positions = open_positions db account_id instrument_type;
             realized_pnl = realized_since db account_id book start
         in bindr (dec_ctx (- realized_pnl)) (\<lambda>loss.
            Inr \<lparr>us_realized_pnl_today = realized_pnl, us_realized_loss_today = max 0 loss,
                 us_buys_today = int (length (filter (\<lambda>x. ao_side x = ''BUY'') orders)),
                 us_sells_today = int (length (filter (\<lambda>x. ao_side x = ''SELL'') orders)),
                 us_orders_today = int (length orders), us_concurrent_holdings = int (length positions),
                 us_budget_used = sum_list (map (\<lambda>(_, p). pp_total_invested p) positions)\<rparr>)))"

subsection \<open>Executions\<close>

record execution_view =
  xv_id :: string
  xv_recommendation_id :: "string option"
  xv_execution_origin :: "string option"
  xv_market :: string
  xv_symbol :: string
  xv_name :: "string option"
  xv_side :: string
  xv_quantity :: rat
  xv_price :: "rat option"
  xv_currency :: string
  xv_status :: string
  xv_at :: instant
  xv_reject_reason :: "string option"

definition stripped_name :: "string option \<Rightarrow> string" where
  "stripped_name name = (case name of None \<Rightarrow> [] | Some n \<Rightarrow> py_strip n)"

definition nameless :: "android_order \<Rightarrow> bool" where
  "nameless x \<longleftrightarrow> stripped_name (ao_name x) = [] \<or> stripped_name (ao_name x) = py_strip (ao_symbol x)"

definition load_symbol_names :: "policy_db \<Rightarrow> android_order list \<Rightarrow> (string \<times> string) \<Rightarrow> string option" where
  "load_symbol_names db orders =
     (let keys = remdups (map (\<lambda>x. (ao_market x, ao_symbol x)) (filter nameless orders));
          rows = filter (\<lambda>(market, symbol, name). (market, symbol) \<in> set keys) (pd_symbols db)
      in map_of (rev (map (\<lambda>(market, symbol, name). ((market, symbol), py_strip name))
           (filter (\<lambda>(market, symbol, name). py_strip name \<noteq> [] \<and> py_strip name \<noteq> symbol) rows))))"

definition execution_origins :: "string list" where
  "execution_origins = [''AUTO_PAPER'', ''APPROVAL'']"

text \<open>The first event of an order decides; an order whose first event has an unknown origin has none.\<close>

fun origins_loop ::
    "string set \<Rightarrow> (string \<rightharpoonup> string) \<Rightarrow> (string option \<times> string) list \<Rightarrow> string set \<times> (string \<rightharpoonup> string)" where
  "origins_loop ids origins [] = (ids, origins)"
| "origins_loop ids origins ((None, _) # rows) = origins_loop ids origins rows"
| "origins_loop ids origins ((Some order_id, origin) # rows) =
     (if order_id \<in> ids then origins_loop ids origins rows
      else origins_loop (insert order_id ids)
             (if origin \<in> set execution_origins then origins(order_id \<mapsto> origin) else origins) rows)"

definition executions :: "policy_db \<Rightarrow> int \<Rightarrow> int \<Rightarrow> execution_view list" where
  "executions db owner_user_id limit =
     (if limit \<le> 0 then []
      else let orders = take (nat limit) (sort_key (\<lambda>x. - ao_created_at x)
                          (filter (\<lambda>x. ao_owner_user_id x = owner_user_id) (pd_orders db)));
               order_ids = set (map ao_id orders);
               recommendation_by_order = map_of (rev (List.map_filter (\<lambda>r.
                   if rec_owner_user_id r = owner_user_id
                   then (case rec_paper_order_id r of
                           Some i \<Rightarrow> if i \<in> order_ids then Some (i, rec_id r) else None | None \<Rightarrow> None)
                   else None) (pd_recommendations db)));
               events = map (\<lambda>e. (ev_paper_order_id e, ev_origin e))
                   (sort_key ev_observed_at (sort_key ev_id (filter (\<lambda>e. ev_owner_user_id e = owner_user_id
                      \<and> (case ev_paper_order_id e of None \<Rightarrow> False | Some i \<Rightarrow> i \<in> order_ids)
                      \<and> ev_status e = ''SUBMITTED'' \<and> \<not> ev_replayed e) (pd_events db))));
               (ledger_order_ids, origins) = origins_loop {} Map.empty events;
               symbol_names = load_symbol_names db orders
           in map (\<lambda>x.
                \<lparr>xv_id = ao_id x, xv_recommendation_id = recommendation_by_order (ao_id x),
                 xv_execution_origin =
                   (if ao_id x \<in> ledger_order_ids then origins (ao_id x)
                    else if recommendation_by_order (ao_id x) \<noteq> None then None else Some ''DIRECT''),
                 xv_market = ao_market x, xv_symbol = ao_symbol x,
                 xv_name = (if nameless x then symbol_names (ao_market x, ao_symbol x)
                            else Some (stripped_name (ao_name x))),
                 xv_side = ao_side x, xv_quantity = ao_quantity x,
                 xv_price = (case ao_average_fill_price x of Some p \<Rightarrow> Some p | None \<Rightarrow> ao_limit_price x),
                 xv_currency = ao_currency x, xv_status = ao_status x,
                 xv_at = ao_created_at x - ao_created_at x mod 1000000,
                 xv_reject_reason = ao_reject_reason x\<rparr>) orders)"

end
