(* ===== verification/Hard_Risk.thy ===== *)
theory Hard_Risk
  imports Policy_Store Sizing_Evidence
begin

text \<open>
  The service half of \<open>app/extensions/kasset/automation/policy.py\<close>: the owner's snapshot, changing the
  setting, the portfolio plan around the sizer and the deterministic hard risk that every order has
  to pass. It composes the limits, the tables, the sizer, the account-state gate and the loss-streak
  gate.

  An operation returns the tables after it, since reading a switch inserts its row and the
  loss-streak gate records locks. The text of a check is a value of \<open>risk_detail\<close> that carries what the
  text interpolates. Quantities and prices are Decimals that may be infinite or NaN, as the code
  multiplies them before it tests their shape.
\<close>

subsection \<open>Snapshots\<close>

record policy_env =
  pe_tz :: tz_database
  pe_cal :: xcal
  pe_dstr :: "rat \<Rightarrow> string"
  pe_clock :: instant

record ai_trading_snapshot =
  ss_mode :: operating_mode
  ss_limits :: ai_trading_limits
  ss_usage :: ai_trading_usage
  ss_usage_by_currency :: "(string \<times> ai_trading_usage) list"
  ss_kill_switch :: bool
  ss_updated_at :: instant
  ss_executions :: "execution_view list"
  ss_promotion_bypass :: bool

definition get_snapshot ::
    "policy_env \<Rightarrow> policy_db \<Rightarrow> int \<Rightarrow> py_datetime \<Rightarrow> int \<Rightarrow> policy_db \<times> ai_trading_snapshot result" where
  "get_snapshot env db owner_user_id now execution_limit =
     (let row = map_of (pd_settings db) owner_user_id
      in case bindr (policy_aware_utc now) (\<lambda>current.
              bindr (decode_setting (map_option st_value row)) (\<lambda>(mode, limits). Inr (current, mode, limits))) of
           Inl e \<Rightarrow> (db, Inl e)
         | Inr (current, mode, limits) \<Rightarrow>
             (case get_state (pe_clock env) db owner_user_id of (db1, state) \<Rightarrow>
             (case get_global (pe_clock env) db1 of (db2, global) \<Rightarrow>
               (db2,
                bindr (usage (pe_tz env) db2 owner_user_id (Aware current) ''KRW'') (\<lambda>krw.
                bindr (usage (pe_tz env) db2 owner_user_id (Aware current) ''USD'') (\<lambda>usd.
                let updated_at = (case row of Some r \<Rightarrow> st_updated_at r | None \<Rightarrow> rt_updated_at state);
                    kill_switch = (tl_kill_switch limits \<or> rt_kill_switch_enabled state \<or> gl_kill_switch_enabled global)
                in Inr \<lparr>ss_mode = mode, ss_limits = limits,
                        ss_usage = (if tl_currency limits = ''KRW'' then krw else usd),
                        ss_usage_by_currency = [(''KRW'', krw), (''USD'', usd)], ss_kill_switch = kill_switch,
                        ss_updated_at = updated_at - updated_at mod 1000000,
                        ss_executions = executions db2 owner_user_id (max 0 (min execution_limit 100)),
                        ss_promotion_bypass = (rt_promotion_bypass_enabled state \<and> \<not> kill_switch
                          \<and> strip_upper (rt_trading_mode state) = ''PAPER'')\<rparr>))))))"

text \<open>\<open>dataclasses.replace\<close> runs the constructor again on the fields it takes.\<close>

definition limits_args_of :: "ai_trading_limits \<Rightarrow> limits_args" where
  "limits_args_of limits =
     \<lparr>la_risk_level = JInt (tl_risk_level limits), la_operating_budget_krw = DFinite (tl_operating_budget_krw limits),
      la_operating_budget_usd = DFinite (tl_operating_budget_usd limits),
      la_daily_target_rate_pct = Some (DFinite (tl_daily_target_rate_pct limits)),
      la_max_daily_loss_rate_pct = Some (DFinite (tl_max_daily_loss_rate_pct limits)),
      la_custom_max_buys_per_day = json_optional JInt (tl_custom_max_buys_per_day limits),
      la_custom_max_sells_per_day = json_optional JInt (tl_custom_max_sells_per_day limits),
      la_kill_switch = JBool (tl_kill_switch limits), la_currency = tl_currency limits\<rparr>"

text \<open>The budget of the other currency is kept as it is stored.\<close>

definition merge_budgets :: "ai_trading_limits \<Rightarrow> ai_trading_limits \<Rightarrow> ai_trading_limits result" where
  "merge_budgets limits stored =
     new_limits (if tl_currency limits = ''KRW''
                 then (limits_args_of limits)\<lparr>la_operating_budget_usd := DFinite (tl_operating_budget_usd stored)\<rparr>
                 else (limits_args_of limits)\<lparr>la_operating_budget_krw := DFinite (tl_operating_budget_krw stored)\<rparr>)"

definition put_snapshot ::
    "policy_env \<Rightarrow> policy_db \<Rightarrow> int \<Rightarrow> operating_mode \<Rightarrow> ai_trading_limits \<Rightarrow> py_datetime
      \<Rightarrow> policy_db \<times> ai_trading_snapshot result" where
  "put_snapshot env db owner_user_id mode limits now =
     (case policy_aware_utc now of
        Inl e \<Rightarrow> (db, Inl e)
      | Inr current \<Rightarrow>
          (case get_state (pe_clock env) db owner_user_id of (db1, state) \<Rightarrow>
             let row = map_of (pd_settings db1) owner_user_id
             in (case bindr (case row of
                               Some r \<Rightarrow> bindr (decode_setting (Some (st_value r))) (\<lambda>(_, stored). Inr stored)
                             | None \<Rightarrow> new_limits default_limits_args) (merge_budgets limits) of
                   Inl e \<Rightarrow> (db1, Inl e)
                 | Inr limits \<Rightarrow>
                     let payload = setting_payload (pe_dstr env) mode limits;
                         row' = (case row of
                                   Some r \<Rightarrow> if st_value r = payload then r
                                             else \<lparr>st_value = payload, st_updated_at = pe_clock env\<rparr>
                                 | None \<Rightarrow> \<lparr>st_value = payload, st_updated_at = pe_clock env\<rparr>);
                         db2 = db1\<lparr>pd_settings := AList.update owner_user_id row' (pd_settings db1)\<rparr>
                     in (case save_state (pe_clock env) db2 owner_user_id state
                                (state\<lparr>rt_trading_mode := ''PAPER'', rt_kill_switch_enabled := tl_kill_switch limits\<rparr>) of
                           (db3, _) \<Rightarrow> get_snapshot env db3 owner_user_id (Aware current) 20))))"

definition set_promotion_bypass ::
    "policy_env \<Rightarrow> policy_db \<Rightarrow> int \<Rightarrow> bool \<Rightarrow> py_datetime \<Rightarrow> policy_db \<times> ai_trading_snapshot result" where
  "set_promotion_bypass env db owner_user_id enabled now =
     (case policy_aware_utc now of
        Inl e \<Rightarrow> (db, Inl e)
      | Inr current \<Rightarrow>
          (case get_state (pe_clock env) db owner_user_id of (db1, state) \<Rightarrow>
             (case save_state (pe_clock env) db1 owner_user_id state (state\<lparr>rt_promotion_bypass_enabled := enabled\<rparr>) of
                (db2, _) \<Rightarrow> get_snapshot env db2 owner_user_id (Aware current) 20)))"

subsection \<open>Portfolio plan\<close>

definition position_of :: "policy_db \<Rightarrow> int option \<Rightarrow> string \<Rightarrow> string \<Rightarrow> paper_position option" where
  "position_of db account_id instrument_type symbol =
     (case account_id of
        None \<Rightarrow> None
      | Some i \<Rightarrow> map_of (open_positions db i instrument_type) symbol)"

record plan_request =
  pl_action :: string
  pl_market :: string
  pl_symbol :: string
  pl_reference_price :: decimal
  pl_strategy_stop :: "decimal option"
  pl_strategy_atr :: "decimal option"
  pl_price_as_of :: "py_datetime option"
  pl_evaluated_at :: "py_datetime option"
  pl_regime :: regime_arg
  pl_average_volume :: "decimal option"
  pl_average_turnover :: "decimal option"
  pl_strategy_quantity :: "decimal option"
  pl_account_state_multiplier :: decimal

record portfolio_plan =
  pp_target_weight :: rat
  pp_target_quantity :: rat
  pp_cash_after :: rat
  pp_note :: string
  pp_position_sizing :: sizing_result

definition plan_evidence :: "(rat \<Rightarrow> string) \<Rightarrow> (rat \<Rightarrow> int) \<Rightarrow> portfolio_plan \<Rightarrow> json" where
  "plan_evidence dstr ex plan = JObj
     [(''targetWeight'', JStr (dstr (pp_target_weight plan))), (''targetQuantity'', JStr (dstr (pp_target_quantity plan))),
      (''cashAfter'', JStr (dstr (pp_cash_after plan))), (''note'', JStr (pp_note plan)),
      (''positionSizing'', as_evidence ex (pp_position_sizing plan))]"

fun comma_separated :: "string list \<Rightarrow> string" where
  "comma_separated [] = []"
| "comma_separated [x] = x"
| "comma_separated (x # y # xs) = x @ '','' @ comma_separated (y # xs)"

definition plan_sizing_input ::
    "plan_request \<Rightarrow> ai_trading_limits \<Rightarrow> ai_trading_usage \<Rightarrow> rat \<Rightarrow> paper_position option \<Rightarrow> raw_sizing_input" where
  "plan_sizing_input r limits u operating_budget position =
     \<lparr>si_action = py_upper (pl_action r), si_market = pl_market r, si_entry_price = pl_reference_price r,
      si_price_as_of = pl_price_as_of r, si_evaluated_at = pl_evaluated_at r,
      si_operating_budget = DFinite operating_budget, si_budget_used = DFinite (us_budget_used u),
      si_max_symbol_allocation = DFinite (tl_max_symbol_allocation limits),
      si_current_symbol_invested = DFinite (case position of None \<Rightarrow> 0 | Some p \<Rightarrow> pp_total_invested p),
      si_current_holding_quantity = DFinite (case position of None \<Rightarrow> 0 | Some p \<Rightarrow> pp_quantity p),
      si_risk_per_trade_rate = DFinite (tl_risk_per_trade_rate limits), si_regime = pl_regime r,
      si_strategy_stop = pl_strategy_stop r, si_strategy_atr = pl_strategy_atr r,
      si_strategy_quantity = pl_strategy_quantity r, si_average_volume = pl_average_volume r,
      si_average_turnover = pl_average_turnover r, si_account_state_multiplier = pl_account_state_multiplier r\<rparr>"

text \<open>
  The cash left after the plan; with a price that is infinite or NaN the product or the comparison
  raises.
\<close>

definition plan_cash_after :: "string \<Rightarrow> rat \<Rightarrow> rat \<Rightarrow> rat \<Rightarrow> decimal \<Rightarrow> rat result" where
  "plan_cash_after action operating_budget budget_used quantity reference_price =
     (case finite_value reference_price of
        None \<Rightarrow> Inl DecimalException
      | Some price \<Rightarrow>
          bindr (dsub operating_budget budget_used) (\<lambda>left_over.
          bindr (dmul quantity price) (\<lambda>notional.
          if action = ''SELL''
          then bindr (dadd (max 0 left_over) notional) (\<lambda>x. Inr (min operating_budget x))
          else bindr (dsub left_over notional) (\<lambda>x. Inr (max 0 x)))))"

definition make_portfolio_plan ::
    "xcal \<Rightarrow> policy_db \<Rightarrow> int \<Rightarrow> plan_request \<Rightarrow> ai_trading_limits \<Rightarrow> ai_trading_usage \<Rightarrow> sizing_config
      \<Rightarrow> portfolio_plan result" where
  "make_portfolio_plan cal db owner_user_id r limits u config =
     bindr (settlement_book (Some (pl_market r)) None) (\<lambda>(book, instrument_type).
     bindr (operating_budget_for limits book) (\<lambda>operating_budget.
     let position = position_of db (owner_account db owner_user_id) instrument_type (pl_symbol r)
     in bindr (sizing_input_post_init (plan_sizing_input r limits u operating_budget position)) (\<lambda>request.
        bindr (calculate_position_size cal config request) (\<lambda>sizing.
        bindr (plan_cash_after (py_upper (pl_action r)) operating_budget (us_budget_used u) (sr_quantity sizing)
                 (pl_reference_price r)) (\<lambda>cash_after.
        Inr \<lparr>pp_target_weight = tl_max_symbol_allocation limits, pp_target_quantity = sr_quantity sizing,
             pp_cash_after = cash_after,
             pp_note = (if actionable sizing
               then ''Deterministic ATR risk sizing; limitingCaps=''
                      @ comma_separated (map cap_code_value (sr_limiting_caps sizing)) @ ''.''
               else ''Deterministic position sizing returned zero; reasons=''
                      @ comma_separated (map (zero_code_value \<circ> rn_code) (sr_zero_reasons sizing)) @ ''.''),
             pp_position_sizing = sizing\<rparr>)))))"

subsection \<open>Hard risk\<close>

datatype risk_detail =
    DailyLossDetail rat rat
  | AccountStateDetail string
  | LossStreakDetail gate_detail bool
  | BudgetDetail rat decimal rat rat rat
  | PositionDetail string string "string option" rat int "int option" "string list"
  | OrderCountDetail ai_trading_usage ai_trading_limits int
  | IssuerHeldDetail string string int
  | IssuerBuysDetail string string int
  | AiShadowDetail decimal "string option"
  | DailyGoalDetail rat rat

record hard_risk_check =
  hc_rule :: string
  hc_passed :: bool
  hc_detail :: risk_detail

datatype blocked_reason = KillSwitchOn | CheckFailed risk_detail

record hard_risk_result =
  hr_passed :: bool
  hr_checks :: "hard_risk_check list"
  hr_blocked_reason :: "blocked_reason option"
  hr_account_state :: json
  hr_loss_streak :: gate_evidence
  hr_max_buy_notional :: "rat option"

record risk_request =
  rq_action :: string
  rq_market :: string
  rq_symbol :: string
  rq_quantity :: decimal
  rq_reference_price :: decimal
  rq_ai_confidence :: decimal
  rq_ai_review_status :: "string option"
  rq_base_risk_reasons :: "string list"
  rq_account_state :: "account_evaluation option"

text \<open>A product of Decimals; zero times infinity is an invalid operation.\<close>

fun decimal_mul :: "decimal \<Rightarrow> decimal \<Rightarrow> decimal result" where
  "decimal_mul DNaN _ = Inr DNaN"
| "decimal_mul _ DNaN = Inr DNaN"
| "decimal_mul (DFinite a) (DFinite b) = bindr (dmul a b) (\<lambda>x. Inr (DFinite x))"
| "decimal_mul (DInfinity n) (DInfinity m) = Inr (DInfinity (n \<noteq> m))"
| "decimal_mul (DInfinity n) (DFinite b) = (if b = 0 then Inl DecimalException else Inr (DInfinity (n \<noteq> (b < 0))))"
| "decimal_mul (DFinite a) (DInfinity m) = (if a = 0 then Inl DecimalException else Inr (DInfinity ((a < 0) \<noteq> m)))"

definition positive_finite :: "decimal \<Rightarrow> bool" where
  "positive_finite d \<longleftrightarrow> (case finite_value d of None \<Rightarrow> False | Some q \<Rightarrow> 0 < q)"

definition valid_shape :: "risk_request \<Rightarrow> string option \<Rightarrow> bool" where
  "valid_shape r currency \<longleftrightarrow>
     rq_action r \<in> {''BUY'', ''SELL''} \<and> currency \<noteq> None \<and> positive_finite (rq_quantity r)
     \<and> positive_finite (rq_reference_price r)"

text \<open>The budget check of a BUY of valid shape, in the order of the conjunction.\<close>

definition budget_allows :: "rat \<Rightarrow> rat \<Rightarrow> rat \<Rightarrow> rat \<Rightarrow> rat \<Rightarrow> bool result" where
  "budget_allows operating_budget budget_used allocation current_invested notional =
     bindr (dadd budget_used notional) (\<lambda>used.
     if \<not> used \<le> operating_budget then Inr False
     else bindr (dadd current_invested notional) (\<lambda>invested.
          bindr (dmul operating_budget allocation) (\<lambda>ceiling. Inr (invested \<le> ceiling))))"

definition max_buy_notional_of :: "rat \<Rightarrow> rat \<Rightarrow> rat \<Rightarrow> rat \<Rightarrow> rat result" where
  "max_buy_notional_of operating_budget budget_used allocation current_invested =
     bindr (dsub operating_budget budget_used) (\<lambda>remaining.
     bindr (dmul operating_budget allocation) (\<lambda>ceiling.
     bindr (dsub ceiling current_invested) (\<lambda>symbol_left.
     Inr (max 0 (min remaining symbol_left)))))"

definition same_symbol_buys :: "policy_db \<Rightarrow> int \<Rightarrow> string \<Rightarrow> string \<Rightarrow> instant \<Rightarrow> int" where
  "same_symbol_buys db owner_user_id currency symbol start =
     int (length (filter (\<lambda>x. ao_symbol x = symbol \<and> ao_side x = ''BUY'') (orders_since db owner_user_id currency start)))"

definition same_issuer_held :: "policy_db \<Rightarrow> int option \<Rightarrow> string \<Rightarrow> string \<Rightarrow> string \<Rightarrow> int" where
  "same_issuer_held db account_id instrument_type market symbol =
     (case account_id of
        None \<Rightarrow> 0
      | Some i \<Rightarrow> int (length (filter (\<lambda>(s, _). issuer_symbol_filter market symbol s) (open_positions db i instrument_type))))"

definition same_issuer_buys :: "policy_db \<Rightarrow> int \<Rightarrow> string \<Rightarrow> string \<Rightarrow> string \<Rightarrow> instant \<Rightarrow> int" where
  "same_issuer_buys db owner_user_id currency market symbol start =
     int (length (filter (\<lambda>x. issuer_symbol_filter market symbol (ao_symbol x) \<and> ao_side x = ''BUY'')
       (orders_since db owner_user_id currency start)))"

text \<open>What the checks need of the book of the market; without a book everything is empty.\<close>

record book_facts =
  bf_currency :: "string option"
  bf_usage :: ai_trading_usage
  bf_operating_budget :: rat
  bf_position :: "paper_position option"
  bf_same_symbol_buys :: int
  bf_issuer_held :: int
  bf_issuer_buys :: int
  bf_daily_loss_limit :: rat
  bf_daily_target_amount :: rat

definition book_facts_of ::
    "policy_env \<Rightarrow> policy_db \<Rightarrow> int \<Rightarrow> risk_request \<Rightarrow> py_datetime \<Rightarrow> ai_trading_snapshot \<Rightarrow> book_facts result" where
  "book_facts_of env db owner_user_id r now snapshot =
     (let limits = ss_limits snapshot; account_id = owner_account db owner_user_id
      in case settlement_book (Some (rq_market r)) None of
           Inl _ \<Rightarrow>
             Inr \<lparr>bf_currency = None, bf_usage = no_usage, bf_operating_budget = 0, bf_position = None,
                  bf_same_symbol_buys = 0, bf_issuer_held = 0, bf_issuer_buys = 0, bf_daily_loss_limit = 0,
                  bf_daily_target_amount = 0\<rparr>
         | Inr (currency, instrument_type) \<Rightarrow>
             bindr (operating_budget_for limits currency) (\<lambda>operating_budget.
             bindr (trading_day_start (pe_tz env) now currency) (\<lambda>start.
             bindr (max_daily_loss_amount_for limits currency) (\<lambda>loss_limit.
             bindr (daily_target_amount_for limits currency) (\<lambda>target.
             Inr \<lparr>bf_currency = Some currency,
                  bf_usage = (case map_of (ss_usage_by_currency snapshot) currency of None \<Rightarrow> no_usage | Some u \<Rightarrow> u),
                  bf_operating_budget = operating_budget,
                  bf_position = position_of db account_id instrument_type (rq_symbol r),
                  bf_same_symbol_buys = same_symbol_buys db owner_user_id currency (rq_symbol r) start,
                  bf_issuer_held = (if rq_action r = ''BUY''
                    then same_issuer_held db account_id instrument_type (rq_market r) (rq_symbol r) else 0),
                  bf_issuer_buys = (if rq_action r = ''BUY''
                    then same_issuer_buys db owner_user_id currency (rq_market r) (rq_symbol r) start else 0),
                  bf_daily_loss_limit = loss_limit, bf_daily_target_amount = target\<rparr>)))))"

definition current_invested :: "book_facts \<Rightarrow> rat" where
  "current_invested f = (case bf_position f of None \<Rightarrow> 0 | Some p \<Rightarrow> pp_total_invested p)"

definition current_quantity :: "book_facts \<Rightarrow> rat" where
  "current_quantity f = (case bf_position f of None \<Rightarrow> 0 | Some p \<Rightarrow> pp_quantity p)"

definition budget_passed :: "risk_request \<Rightarrow> book_facts \<Rightarrow> ai_trading_limits \<Rightarrow> decimal \<Rightarrow> bool result" where
  "budget_passed r f limits notional =
     (if rq_action r \<noteq> ''BUY'' then Inr True
      else if \<not> valid_shape r (bf_currency f) then Inr False
      else case notional of
             DFinite n \<Rightarrow> budget_allows (bf_operating_budget f) (us_budget_used (bf_usage f)) (tl_max_symbol_allocation limits)
                           (current_invested f) n
           | _ \<Rightarrow> Inr False)"

definition max_buy_notional :: "risk_request \<Rightarrow> book_facts \<Rightarrow> ai_trading_limits \<Rightarrow> rat option result" where
  "max_buy_notional r f limits =
     (if rq_action r = ''BUY'' \<and> bf_currency f \<noteq> None
      then bindr (max_buy_notional_of (bf_operating_budget f) (us_budget_used (bf_usage f)) (tl_max_symbol_allocation limits)
                    (current_invested f)) (\<lambda>x. Inr (Some x))
      else Inr None)"

definition position_passed :: "risk_request \<Rightarrow> book_facts \<Rightarrow> ai_trading_limits \<Rightarrow> bool" where
  "position_passed r f limits \<longleftrightarrow>
     valid_shape r (bf_currency f) \<and> rq_base_risk_reasons r = []
     \<and> (rq_action r = ''BUY''
          \<and> (bf_position f \<noteq> None \<or> below_limit (us_concurrent_holdings (bf_usage f)) (tl_max_concurrent_holdings limits))
        \<or> rq_action r = ''SELL'' \<and> (case finite_value (rq_quantity r) of None \<Rightarrow> False | Some q \<Rightarrow> q \<le> current_quantity f))"

definition order_count_passed :: "risk_request \<Rightarrow> book_facts \<Rightarrow> ai_trading_limits \<Rightarrow> bool" where
  "order_count_passed r f limits \<longleftrightarrow>
     (let u = bf_usage f
      in valid_shape r (bf_currency f) \<and> below_limit (us_orders_today u) (tl_max_orders_per_day limits)
         \<and> (rq_action r = ''BUY'' \<and> below_limit (us_buys_today u) (tl_max_buys_per_day limits)
              \<and> below_limit (bf_same_symbol_buys f) (tl_same_symbol_reentry_limit limits)
            \<or> rq_action r = ''SELL'' \<and> below_limit (us_sells_today u) (tl_max_sells_per_day limits)))"

definition risk_checks ::
    "risk_request \<Rightarrow> book_facts \<Rightarrow> ai_trading_limits \<Rightarrow> decimal \<Rightarrow> bool \<Rightarrow> account_gate_result \<Rightarrow> loss_streak_gate_result
      \<Rightarrow> hard_risk_check list" where
  "risk_checks r f limits notional budget_ok gate streak =
     (let u = bf_usage f; key = issuer_group_key (rq_market r) (rq_symbol r); buy = rq_action r = ''BUY''
      in [\<lparr>hc_rule = ''DAILY_MAX_LOSS'', hc_passed = True,
           hc_detail = DailyLossDetail (us_realized_loss_today u) (bf_daily_loss_limit f)\<rparr>,
          \<lparr>hc_rule = ag_code gate, hc_passed = ag_passed gate, hc_detail = AccountStateDetail (ag_detail gate)\<rparr>,
          \<lparr>hc_rule = gr_code streak, hc_passed = True, hc_detail = LossStreakDetail (gr_detail streak) (gr_buy_locked streak)\<rparr>,
          \<lparr>hc_rule = ''BUDGET'', hc_passed = budget_ok,
           hc_detail = BudgetDetail (us_budget_used u) notional (bf_operating_budget f) (current_invested f)
             (tl_max_symbol_allocation limits)\<rparr>,
          \<lparr>hc_rule = ''POSITION'', hc_passed = position_passed r f limits,
           hc_detail = PositionDetail (rq_action r) (rq_market r) (bf_currency f) (current_quantity f)
             (us_concurrent_holdings u) (tl_max_concurrent_holdings limits) (rq_base_risk_reasons r)\<rparr>,
          \<lparr>hc_rule = ''ORDER_COUNT'', hc_passed = order_count_passed r f limits,
           hc_detail = OrderCountDetail u limits (bf_same_symbol_buys f)\<rparr>,
          \<lparr>hc_rule = ''SAME_ISSUER_HELD'', hc_passed = (\<not> buy \<or> bf_issuer_held f = 0),
           hc_detail = IssuerHeldDetail (rq_action r) key (bf_issuer_held f)\<rparr>,
          \<lparr>hc_rule = ''SAME_ISSUER_DAILY_BUY_LIMIT'', hc_passed = (\<not> buy \<or> bf_issuer_buys f < same_issuer_daily_buy_limit),
           hc_detail = IssuerBuysDetail (rq_action r) key (bf_issuer_buys f)\<rparr>,
          \<lparr>hc_rule = ''AI_SHADOW'', hc_passed = True, hc_detail = AiShadowDetail (rq_ai_confidence r) (rq_ai_review_status r)\<rparr>,
          \<lparr>hc_rule = ''DAILY_GOAL'', hc_passed = True,
           hc_detail = DailyGoalDetail (us_realized_pnl_today u) (bf_daily_target_amount f)\<rparr>])"

definition risk_result ::
    "bool \<Rightarrow> hard_risk_check list \<Rightarrow> json \<Rightarrow> gate_evidence \<Rightarrow> rat option \<Rightarrow> hard_risk_result" where
  "risk_result kill_blocked checks account_state streak max_notional =
     (let first_failed = find (\<lambda>c. \<not> hc_passed c) checks
      in \<lparr>hr_passed = (\<not> kill_blocked \<and> first_failed = None), hr_checks = checks,
          hr_blocked_reason = (if kill_blocked then Some KillSwitchOn
            else map_option (\<lambda>c. CheckFailed (hc_detail c)) first_failed),
          hr_account_state = account_state, hr_loss_streak = streak, hr_max_buy_notional = max_notional\<rparr>)"

definition evaluate_with_snapshot ::
    "policy_env \<Rightarrow> policy_db \<Rightarrow> int \<Rightarrow> risk_request \<Rightarrow> py_datetime \<Rightarrow> ai_trading_snapshot
      \<Rightarrow> policy_db \<times> hard_risk_result result" where
  "evaluate_with_snapshot env db owner_user_id r now snapshot =
     (let limits = ss_limits snapshot
      in case bindr (decimal_mul (rq_quantity r) (rq_reference_price r)) (\<lambda>notional.
              bindr (book_facts_of env db owner_user_id r now snapshot) (\<lambda>f.
              bindr (budget_passed r f limits notional) (\<lambda>budget_ok.
              bindr (max_buy_notional r f limits) (\<lambda>max_notional. Inr (notional, f, budget_ok, max_notional))))) of
           Inl e \<Rightarrow> (db, Inl e)
         | Inr (notional, f, budget_ok, max_notional) \<Rightarrow>
             (case gate_evaluate (pe_cal env) (loss_view db) (pd_locks db) owner_user_id (rq_market r) (rq_symbol r)
                     (rq_action r) now default_loss_streak_config of
                (lock_rows, streak) \<Rightarrow>
                  let gate = evaluate_account_state_gate (pe_dstr env) (rq_action r) (rq_account_state r)
                  in (db\<lparr>pd_locks := lock_rows\<rparr>,
                      Inr (risk_result (ss_kill_switch snapshot) (risk_checks r f limits notional budget_ok gate streak)
                             (ag_evidence gate) (gr_evidence streak) max_notional))))"

definition evaluate_hard_risk ::
    "policy_env \<Rightarrow> policy_db \<Rightarrow> int \<Rightarrow> risk_request \<Rightarrow> py_datetime \<Rightarrow> ai_trading_snapshot option
      \<Rightarrow> policy_db \<times> hard_risk_result result" where
  "evaluate_hard_risk env db owner_user_id r now snapshot =
     (case snapshot of
        Some s \<Rightarrow> evaluate_with_snapshot env db owner_user_id r now s
      | None \<Rightarrow>
          (case get_snapshot env db owner_user_id now 0 of
             (db', Inl e) \<Rightarrow> (db', Inl e)
           | (db', Inr s) \<Rightarrow> evaluate_with_snapshot env db' owner_user_id r now s))"

end
