(* ===== verification/Trading_Limits_Rules.thy ===== *)
theory Trading_Limits_Rules
  imports Hard_Risk
begin

text \<open>
  What the limits guarantee: \<open>limits_ok\<close> states without the constructor what a limits value is, every
  value the constructor or the decoder returns satisfies it, and a value that satisfies it is
  rebuilt by the constructor and by a round trip through the stored setting.
\<close>

subsection \<open>Presets\<close>

lemma preset_levels: "fst ` set risk_presets = {1, 2, 3, 4, 5}"
  by (auto simp: risk_presets_def)

lemma bounded_presets:
  assumes "level = 1 \<or> level = 2"
  obtains b s e h where "rp_max_buys_per_day (preset_of level) = Some b" "rp_max_sells_per_day (preset_of level) = Some s"
    "rp_same_symbol_reentry_limit (preset_of level) = Some e" "rp_max_concurrent_holdings (preset_of level) = Some h"
    "1 \<le> b" "b \<le> h * max 2 (e * 2)" "1 \<le> s" "s \<le> h * (e + 3)"
  using assms that by (auto simp: preset_of_def risk_presets_def)

lemma unbounded_presets:
  assumes "level = 3 \<or> level = 4 \<or> level = 5"
  shows "rp_max_buys_per_day (preset_of level) = None" "rp_max_sells_per_day (preset_of level) = None"
    "rp_same_symbol_reentry_limit (preset_of level) = None" "rp_max_concurrent_holdings (preset_of level) = None"
  using assms by (auto simp: preset_of_def risk_presets_def)

lemma preset_rates:
  assumes "level \<in> {1, 2, 3, 4, 5}"
  shows "0 \<le> rp_daily_target_rate_pct (preset_of level)" "rp_daily_target_rate_pct (preset_of level) \<le> 10"
    "0 \<le> rp_max_daily_loss_rate_pct (preset_of level)" "rp_max_daily_loss_rate_pct (preset_of level) \<le> 20"
    "0 < rp_max_symbol_allocation (preset_of level)" "rp_max_symbol_allocation (preset_of level) \<le> 3 / 10"
    "0 < rp_risk_per_trade_rate (preset_of level)" "rp_risk_per_trade_rate (preset_of level) \<le> 15 / 1000"
  using assms by (auto simp: preset_of_def risk_presets_def)

subsection \<open>Well-formed limits\<close>

text \<open>An optional count within its hard maximum, and the count in force.\<close>

definition count_ok :: "int option \<Rightarrow> int option \<Rightarrow> int option \<Rightarrow> int option \<Rightarrow> bool" where
  "count_ok custom effective hard default_count \<longleftrightarrow>
     (case (hard, default_count) of
        (Some m, Some d) \<Rightarrow> (\<forall>n. custom = Some n \<longrightarrow> 1 \<le> n \<and> n \<le> m) \<and> effective = Some (case custom of None \<Rightarrow> d | Some n \<Rightarrow> n)
      | _ \<Rightarrow> custom = None \<and> effective = None)"

definition bounded_level :: "ai_trading_limits \<Rightarrow> bool" where
  "bounded_level l \<longleftrightarrow> tl_risk_level l \<le> 2"

definition limits_ok :: "ai_trading_limits \<Rightarrow> bool" where
  "limits_ok l \<longleftrightarrow>
     tl_risk_level l \<in> {1, 2, 3, 4, 5} \<and> 0 < tl_operating_budget_krw l \<and> 0 < tl_operating_budget_usd l
     \<and> 0 \<le> tl_daily_target_rate_pct l \<and> tl_daily_target_rate_pct l \<le> 10
     \<and> 0 \<le> tl_max_daily_loss_rate_pct l \<and> tl_max_daily_loss_rate_pct l \<le> 20
     \<and> tl_currency l \<in> {''KRW'', ''USD''}
     \<and> (let p = preset_of (tl_risk_level l);
            holdings = the (rp_max_concurrent_holdings p); reentry = the (rp_same_symbol_reentry_limit p)
        in tl_risk_per_trade_rate l = rp_risk_per_trade_rate p \<and> tl_max_symbol_allocation l = rp_max_symbol_allocation p
           \<and> tl_max_concurrent_holdings l = rp_max_concurrent_holdings p
           \<and> tl_same_symbol_reentry_limit l = rp_same_symbol_reentry_limit p
           \<and> tl_max_custom_buys_per_day l = (if bounded_level l then Some (holdings * max 2 (reentry * 2)) else None)
           \<and> tl_max_custom_sells_per_day l = (if bounded_level l then Some (holdings * (reentry + 3)) else None)
           \<and> tl_max_custom_orders_per_day l
               = (if bounded_level l then Some (holdings * max 2 (reentry * 2) + holdings * (reentry + 3)) else None)
           \<and> count_ok (tl_custom_max_buys_per_day l) (tl_max_buys_per_day l) (tl_max_custom_buys_per_day l)
               (rp_max_buys_per_day p)
           \<and> count_ok (tl_custom_max_sells_per_day l) (tl_max_sells_per_day l) (tl_max_custom_sells_per_day l)
               (rp_max_sells_per_day p)
           \<and> tl_max_orders_per_day l
               = (if bounded_level l then Some (the (tl_max_buys_per_day l) + the (tl_max_sells_per_day l)) else None))"

subsection \<open>The checks\<close>

lemma check_risk_level_Inr: "check_risk_level v name = Inr i \<longleftrightarrow> v = JInt i \<and> i \<in> {1, 2, 3, 4, 5}"
  by (cases v) (auto simp: check_risk_level_def preset_levels)

lemma positive_decimal_of_Inr: "positive_decimal_of d name = Inr q \<longleftrightarrow> d = DFinite q \<and> 0 < q"
  by (cases d) (auto simp: positive_decimal_of_def decimal_or_zero_def Let_def)

lemma percentage_Inr:
  "percentage d name lo (Some hi) bounds = Inr q \<longleftrightarrow> d = DFinite q \<and> lo \<le> q \<and> q \<le> hi"
  by (cases d) (auto simp: percentage_def)

lemma percentage_unbounded: "percentage d name lo None bounds = Inr q \<longleftrightarrow> d = DFinite q \<and> lo \<le> q"
  by (cases d) (auto simp: percentage_def)

lemma strict_bool_Inr: "strict_bool v name = Inr b \<longleftrightarrow> v = JBool b"
  by (cases v) (auto simp: strict_bool_def)

lemma optional_daily_limit_Inr:
  "optional_daily_limit v name m d = Inr n
    \<longleftrightarrow> v = JNull \<and> d \<le> m \<and> n = d \<or> v = JInt n \<and> 1 \<le> n \<and> n \<le> m"
  by (cases v) (auto simp: optional_daily_limit_def)

lemma settlement_currency:
  "settlement_book None (Some c) = Inr x \<longleftrightarrow> c = ''KRW'' \<and> x = (''KRW'', ''equity_kr'') \<or> c = ''USD'' \<and> x = (''USD'', ''equity_us'')"
  by (auto simp: settlement_book_def)

lemma settlement_market:
  "settlement_book (Some m) None = Inr x \<longleftrightarrow> m = ''KRX'' \<and> x = (''KRW'', ''equity_kr'') \<or> m = ''US'' \<and> x = (''USD'', ''equity_us'')"
  by (auto simp: settlement_book_def)

lemma rate_or_preset_range:
  "rate_or_preset v p name hi bounds = Inr q \<Longrightarrow> 0 \<le> p \<Longrightarrow> p \<le> hi \<Longrightarrow> 0 \<le> q \<and> q \<le> hi"
  by (cases v) (auto simp: rate_or_preset_def percentage_Inr)

lemmas check_rules = check_risk_level_Inr positive_decimal_of_Inr percentage_Inr strict_bool_Inr settlement_currency

subsection \<open>Counts\<close>

lemma daily_counts_bounded:
  assumes "level = 1 \<or> level = 2" and "daily_counts_of (preset_of level) vb vs = Inr c"
  shows "let p = preset_of level; h = the (rp_max_concurrent_holdings p); e = the (rp_same_symbol_reentry_limit p)
    in dc_max_buys c = Some (h * max 2 (e * 2)) \<and> dc_max_sells c = Some (h * (e + 3))
      \<and> dc_max_orders c = Some (h * max 2 (e * 2) + h * (e + 3))
      \<and> count_ok (dc_custom_buys c) (dc_buys c) (dc_max_buys c) (rp_max_buys_per_day p)
      \<and> count_ok (dc_custom_sells c) (dc_sells c) (dc_max_sells c) (rp_max_sells_per_day p)
      \<and> dc_orders c = Some (the (dc_buys c) + the (dc_sells c))"
proof -
  obtain b s e h where p: "rp_max_buys_per_day (preset_of level) = Some b" "rp_max_sells_per_day (preset_of level) = Some s"
    "rp_same_symbol_reentry_limit (preset_of level) = Some e" "rp_max_concurrent_holdings (preset_of level) = Some h"
    by (rule bounded_presets [OF assms(1)])
  show ?thesis using assms(2)
    by (auto simp: daily_counts_of_def p Let_def json_count_def count_ok_def bindr_eq_Inr optional_daily_limit_Inr)
qed

lemma daily_counts_unbounded:
  assumes "level = 3 \<or> level = 4 \<or> level = 5"
  shows "daily_counts_of (preset_of level) vb vs
    = Inr \<lparr>dc_custom_buys = None, dc_custom_sells = None, dc_buys = None, dc_sells = None, dc_orders = None,
           dc_max_buys = None, dc_max_sells = None, dc_max_orders = None\<rparr>"
  by (simp add: daily_counts_of_def unbounded_presets [OF assms])

lemma new_limitsE:
  assumes "new_limits a = Inr l"
  obtains level krw usd target loss counts kill_switch where "la_risk_level a = JInt level" "level \<in> {1, 2, 3, 4, 5}"
    and "py_upper (la_currency a) \<in> {''KRW'', ''USD''}"
    and "la_operating_budget_krw a = DFinite krw" "0 < krw" "la_operating_budget_usd a = DFinite usd" "0 < usd"
    and "0 \<le> target" "target \<le> 10" "0 \<le> loss" "loss \<le> 20"
    and "daily_counts_of (preset_of level) (la_custom_max_buys_per_day a) (la_custom_max_sells_per_day a) = Inr counts"
    and "l = \<lparr>tl_risk_level = level, tl_operating_budget_krw = krw, tl_operating_budget_usd = usd,
             tl_daily_target_rate_pct = target, tl_max_daily_loss_rate_pct = loss,
             tl_risk_per_trade_rate = rp_risk_per_trade_rate (preset_of level),
             tl_custom_max_buys_per_day = dc_custom_buys counts, tl_custom_max_sells_per_day = dc_custom_sells counts,
             tl_max_buys_per_day = dc_buys counts, tl_max_sells_per_day = dc_sells counts,
             tl_max_orders_per_day = dc_orders counts, tl_max_custom_buys_per_day = dc_max_buys counts,
             tl_max_custom_sells_per_day = dc_max_sells counts, tl_max_custom_orders_per_day = dc_max_orders counts,
             tl_max_symbol_allocation = rp_max_symbol_allocation (preset_of level),
             tl_max_concurrent_holdings = rp_max_concurrent_holdings (preset_of level),
             tl_same_symbol_reentry_limit = rp_same_symbol_reentry_limit (preset_of level),
             tl_kill_switch = kill_switch, tl_currency = py_upper (la_currency a)\<rparr>"
proof -
  from assms obtain level b krw usd target loss counts kill_switch
    where s: "check_risk_level (la_risk_level a) ''risk_level'' = Inr level"
      "settlement_book None (Some (py_upper (la_currency a))) = Inr b"
      "positive_decimal_of (la_operating_budget_krw a) ''operating_budget_krw'' = Inr krw"
      "positive_decimal_of (la_operating_budget_usd a) ''operating_budget_usd'' = Inr usd"
      "rate_or_preset (la_daily_target_rate_pct a) (rp_daily_target_rate_pct (preset_of level))
         ''daily_target_rate_pct'' 10 ''0 and 10'' = Inr target"
      "rate_or_preset (la_max_daily_loss_rate_pct a) (rp_max_daily_loss_rate_pct (preset_of level))
         ''max_daily_loss_rate_pct'' 20 ''0 and 20'' = Inr loss"
      "daily_counts_of (preset_of level) (la_custom_max_buys_per_day a) (la_custom_max_sells_per_day a) = Inr counts"
      "strict_bool (la_kill_switch a) ''kill_switch'' = Inr kill_switch"
      "Inr \<lparr>tl_risk_level = level, tl_operating_budget_krw = krw, tl_operating_budget_usd = usd,
             tl_daily_target_rate_pct = target, tl_max_daily_loss_rate_pct = loss,
             tl_risk_per_trade_rate = rp_risk_per_trade_rate (preset_of level),
             tl_custom_max_buys_per_day = dc_custom_buys counts, tl_custom_max_sells_per_day = dc_custom_sells counts,
             tl_max_buys_per_day = dc_buys counts, tl_max_sells_per_day = dc_sells counts,
             tl_max_orders_per_day = dc_orders counts, tl_max_custom_buys_per_day = dc_max_buys counts,
             tl_max_custom_sells_per_day = dc_max_sells counts, tl_max_custom_orders_per_day = dc_max_orders counts,
             tl_max_symbol_allocation = rp_max_symbol_allocation (preset_of level),
             tl_max_concurrent_holdings = rp_max_concurrent_holdings (preset_of level),
             tl_same_symbol_reentry_limit = rp_same_symbol_reentry_limit (preset_of level),
             tl_kill_switch = kill_switch, tl_currency = py_upper (la_currency a)\<rparr> = (Inr l :: ai_trading_limits result)"
    unfolding new_limits_def Let_def by (elim bindrE) (rule that; assumption)
  have level: "la_risk_level a = JInt level" "level \<in> {1, 2, 3, 4, 5}" using s(1) by (simp_all add: check_risk_level_Inr)
  show thesis
    using rate_or_preset_range [OF s(5) preset_rates(1,2) [OF level(2)]]
      rate_or_preset_range [OF s(6) preset_rates(3,4) [OF level(2)]] s(2-4)
    by (intro that [OF level _ _ _ _ _ _ _ _ _ s(7) sum.inject(2) [THEN iffD1, OF s(9), symmetric]])
       (auto simp: positive_decimal_of_Inr settlement_currency)
qed

lemma new_limits_ok:
  assumes "new_limits a = Inr l"
  shows "limits_ok l"
  using assms
proof (rule new_limitsE)
  fix level krw usd target loss counts kill_switch
  assume r: "level \<in> {1, 2, 3, 4, 5}" "py_upper (la_currency a) \<in> {''KRW'', ''USD''}" "0 < krw" "0 < usd" "0 \<le> target"
      "target \<le> 10" "0 \<le> loss" "loss \<le> 20"
    and c: "daily_counts_of (preset_of level) (la_custom_max_buys_per_day a) (la_custom_max_sells_per_day a) = Inr counts"
    and l: "l = \<lparr>tl_risk_level = level, tl_operating_budget_krw = krw, tl_operating_budget_usd = usd,
             tl_daily_target_rate_pct = target, tl_max_daily_loss_rate_pct = loss,
             tl_risk_per_trade_rate = rp_risk_per_trade_rate (preset_of level),
             tl_custom_max_buys_per_day = dc_custom_buys counts, tl_custom_max_sells_per_day = dc_custom_sells counts,
             tl_max_buys_per_day = dc_buys counts, tl_max_sells_per_day = dc_sells counts,
             tl_max_orders_per_day = dc_orders counts, tl_max_custom_buys_per_day = dc_max_buys counts,
             tl_max_custom_sells_per_day = dc_max_sells counts, tl_max_custom_orders_per_day = dc_max_orders counts,
             tl_max_symbol_allocation = rp_max_symbol_allocation (preset_of level),
             tl_max_concurrent_holdings = rp_max_concurrent_holdings (preset_of level),
             tl_same_symbol_reentry_limit = rp_same_symbol_reentry_limit (preset_of level),
             tl_kill_switch = kill_switch, tl_currency = py_upper (la_currency a)\<rparr>"
  show "limits_ok l"
  proof (cases "level \<le> 2")
    case True
    with r(1) have "level = 1 \<or> level = 2" by auto
    from daily_counts_bounded [OF this c] r True show ?thesis
      by (auto simp: limits_ok_def bounded_level_def l Let_def)
  next
    case False
    with r(1) have "level = 3 \<or> level = 4 \<or> level = 5" by auto
    with c daily_counts_unbounded [OF this] unbounded_presets [OF this] r False show ?thesis
      by (auto simp: limits_ok_def bounded_level_def l Let_def count_ok_def)
  qed
qed

subsection \<open>Rebuilding\<close>

definition counts_of :: "ai_trading_limits \<Rightarrow> daily_counts" where
  "counts_of l =
     \<lparr>dc_custom_buys = tl_custom_max_buys_per_day l, dc_custom_sells = tl_custom_max_sells_per_day l,
      dc_buys = tl_max_buys_per_day l, dc_sells = tl_max_sells_per_day l, dc_orders = tl_max_orders_per_day l,
      dc_max_buys = tl_max_custom_buys_per_day l, dc_max_sells = tl_max_custom_sells_per_day l,
      dc_max_orders = tl_max_custom_orders_per_day l\<rparr>"

lemma json_count_optional [simp]: "json_count (json_optional JInt v) = v"
  by (cases v) (simp_all add: json_count_def)

lemma optional_limit_rebuilt:
  assumes "count_ok custom (Some n) (Some m) (Some d)" and "d \<le> m"
  shows "optional_daily_limit (json_optional JInt custom) name m d = Inr n"
  using assms by (cases custom) (auto simp: count_ok_def optional_daily_limit_def)

lemma count_ok_effective:
  assumes "count_ok custom effective (Some m) (Some d)"
  obtains n where "effective = Some n" "count_ok custom (Some n) (Some m) (Some d)"
  using assms by (auto simp: count_ok_def)

lemma counts_rebuilt:
  assumes "limits_ok l"
  shows "daily_counts_of (preset_of (tl_risk_level l)) (json_optional JInt (tl_custom_max_buys_per_day l))
      (json_optional JInt (tl_custom_max_sells_per_day l)) = Inr (counts_of l)"
proof (cases "bounded_level l")
  case True
  with assms have "tl_risk_level l = 1 \<or> tl_risk_level l = 2" by (auto simp: limits_ok_def bounded_level_def)
  then obtain b s e h where p: "rp_max_buys_per_day (preset_of (tl_risk_level l)) = Some b"
    "rp_max_sells_per_day (preset_of (tl_risk_level l)) = Some s"
    "rp_same_symbol_reentry_limit (preset_of (tl_risk_level l)) = Some e"
    "rp_max_concurrent_holdings (preset_of (tl_risk_level l)) = Some h" "b \<le> h * max 2 (e * 2)" "s \<le> h * (e + 3)"
    by (rule bounded_presets)
  from assms True have c: "tl_max_custom_buys_per_day l = Some (h * max 2 (e * 2))"
      "tl_max_custom_sells_per_day l = Some (h * (e + 3))"
      "tl_max_custom_orders_per_day l = Some (h * max 2 (e * 2) + h * (e + 3))"
      "count_ok (tl_custom_max_buys_per_day l) (tl_max_buys_per_day l) (Some (h * max 2 (e * 2))) (Some b)"
      "count_ok (tl_custom_max_sells_per_day l) (tl_max_sells_per_day l) (Some (h * (e + 3))) (Some s)"
      "tl_max_orders_per_day l = Some (the (tl_max_buys_per_day l) + the (tl_max_sells_per_day l))"
    by (auto simp: limits_ok_def Let_def p)
  obtain m where m: "tl_max_buys_per_day l = Some m"
      "count_ok (tl_custom_max_buys_per_day l) (Some m) (Some (h * max 2 (e * 2))) (Some b)"
    by (rule count_ok_effective [OF c(4)])
  obtain n where n: "tl_max_sells_per_day l = Some n"
      "count_ok (tl_custom_max_sells_per_day l) (Some n) (Some (h * (e + 3))) (Some s)"
    by (rule count_ok_effective [OF c(5)])
  show ?thesis
    by (simp add: daily_counts_of_def p(1-4) m(1) n(1) counts_of_def c(1-3,6) Let_def
        optional_limit_rebuilt [OF m(2) p(5)] optional_limit_rebuilt [OF n(2) p(6)])
next
  case False
  with assms have "tl_risk_level l = 3 \<or> tl_risk_level l = 4 \<or> tl_risk_level l = 5"
    by (auto simp: limits_ok_def bounded_level_def)
  from daily_counts_unbounded [OF this] unbounded_presets [OF this] assms False show ?thesis
    by (auto simp: limits_ok_def Let_def counts_of_def count_ok_def)
qed

lemma currency_upper: "c \<in> {''KRW'', ''USD''} \<Longrightarrow> py_upper c = c"
  by (elim insertE) (simp_all, code_simp+)

lemma new_limits_rebuilds:
  assumes "limits_ok l"
  shows "new_limits (limits_args_of l) = Inr l"
proof -
  from assms have r: "tl_risk_level l \<in> {1, 2, 3, 4, 5}" "tl_currency l \<in> {''KRW'', ''USD''}"
      "0 < tl_operating_budget_krw l" "0 < tl_operating_budget_usd l"
      "0 \<le> tl_daily_target_rate_pct l" "tl_daily_target_rate_pct l \<le> 10"
      "0 \<le> tl_max_daily_loss_rate_pct l" "tl_max_daily_loss_rate_pct l \<le> 20"
      "tl_risk_per_trade_rate l = rp_risk_per_trade_rate (preset_of (tl_risk_level l))"
      "tl_max_symbol_allocation l = rp_max_symbol_allocation (preset_of (tl_risk_level l))"
      "tl_max_concurrent_holdings l = rp_max_concurrent_holdings (preset_of (tl_risk_level l))"
      "tl_same_symbol_reentry_limit l = rp_same_symbol_reentry_limit (preset_of (tl_risk_level l))"
    by (simp_all add: limits_ok_def Let_def)
  obtain b where "settlement_book None (Some (tl_currency l)) = Inr b" using r(2) by (auto simp: settlement_currency)
  then show ?thesis
    using r(2-8) iffD2 [OF check_risk_level_Inr conjI [OF refl r(1)]]
    by (simp add: new_limits_def limits_args_of_def Let_def currency_upper [OF r(2)] counts_rebuilt [OF assms]
        iffD2 [OF positive_decimal_of_Inr] rate_or_preset_def iffD2 [OF percentage_Inr] iffD2 [OF strict_bool_Inr]
        counts_of_def r(9-12) [symmetric])
qed

subsection \<open>The stored setting\<close>

text \<open>\<open>Decimal(str(q)) == q\<close>, as the module documents.\<close>

definition reads_back :: "(rat \<Rightarrow> string) \<Rightarrow> rat \<Rightarrow> bool" where
  "reads_back dstr q \<longleftrightarrow> parse_decimal (dstr q) = Some (DFinite q)"

definition readable :: "(rat \<Rightarrow> string) \<Rightarrow> ai_trading_limits \<Rightarrow> bool" where
  "readable dstr l \<longleftrightarrow> reads_back dstr (tl_operating_budget_krw l) \<and> reads_back dstr (tl_operating_budget_usd l)
     \<and> reads_back dstr (tl_daily_target_rate_pct l) \<and> reads_back dstr (tl_max_daily_loss_rate_pct l)"

lemma storage_lookups:
  "map_of (to_storage dstr l) ''risk_level'' = Some (JInt (tl_risk_level l))"
  "map_of (to_storage dstr l) ''operating_budget_krw'' = Some (JStr (dstr (tl_operating_budget_krw l)))"
  "map_of (to_storage dstr l) ''operating_budget_usd'' = Some (JStr (dstr (tl_operating_budget_usd l)))"
  "map_of (to_storage dstr l) ''daily_target_rate_pct'' = Some (JStr (dstr (tl_daily_target_rate_pct l)))"
  "map_of (to_storage dstr l) ''max_daily_loss_rate_pct'' = Some (JStr (dstr (tl_max_daily_loss_rate_pct l)))"
  "map_of (to_storage dstr l) ''kill_switch'' = Some (JBool (tl_kill_switch l))"
  "map_of (to_storage dstr l) ''currency'' = Some (JStr (tl_currency l))"
  "obj_get ''custom_max_buys_per_day'' (to_storage dstr l) = json_optional JInt (tl_custom_max_buys_per_day l)"
  "obj_get ''custom_max_sells_per_day'' (to_storage dstr l) = json_optional JInt (tl_custom_max_sells_per_day l)"
  by (simp_all add: to_storage_def obj_get_def split: option.split)

lemma decimal_from_back: "reads_back dstr q \<Longrightarrow> decimal_from (JStr (dstr q)) = Inr (DFinite q)"
  by (simp add: decimal_from_def reads_back_def)

lemma stored_limits_read_back:
  assumes "limits_ok l" and "readable dstr l"
  shows "decode_limits (to_storage dstr l) = Inr l"
proof -
  from assms(1) have r: "tl_risk_level l \<in> {1, 2, 3, 4, 5}" "tl_currency l \<in> {''KRW'', ''USD''}"
      "0 < tl_operating_budget_krw l" "0 < tl_operating_budget_usd l"
      "0 \<le> tl_daily_target_rate_pct l" "tl_daily_target_rate_pct l \<le> 10"
      "0 \<le> tl_max_daily_loss_rate_pct l" "tl_max_daily_loss_rate_pct l \<le> 20"
    by (simp_all add: limits_ok_def)
  obtain b where "settlement_book None (Some (tl_currency l)) = Inr b" using r(2) by (auto simp: settlement_currency)
  then have "stored_currency (to_storage dstr l) = Inr (tl_currency l)"
    by (simp add: stored_currency_def storage_lookups currency_upper [OF r(2)])
  moreover have "stored_budgets (to_storage dstr l) (tl_currency l) = Inr (tl_operating_budget_krw l, tl_operating_budget_usd l)"
    using assms(2) r(3,4) by (simp add: stored_budgets_def storage_lookups positive_decimal_from_def decimal_from_back readable_def
        iffD2 [OF positive_decimal_of_Inr])
  moreover have "new_limits \<lparr>la_risk_level = JInt (tl_risk_level l), la_operating_budget_krw = DFinite (tl_operating_budget_krw l),
      la_operating_budget_usd = DFinite (tl_operating_budget_usd l),
      la_daily_target_rate_pct = Some (DFinite (tl_daily_target_rate_pct l)),
      la_max_daily_loss_rate_pct = Some (DFinite (tl_max_daily_loss_rate_pct l)),
      la_custom_max_buys_per_day = json_optional JInt (tl_custom_max_buys_per_day l),
      la_custom_max_sells_per_day = json_optional JInt (tl_custom_max_sells_per_day l),
      la_kill_switch = JBool (tl_kill_switch l), la_currency = tl_currency l\<rparr> = Inr l"
    using new_limits_rebuilds [OF assms(1)] by (simp add: limits_args_of_def)
  moreover have "check_risk_level (JInt (tl_risk_level l)) ''risk_level'' = Inr (tl_risk_level l)"
    using r(1) by (simp only: check_risk_level_Inr)
  ultimately show ?thesis
    using assms(2) r(5-8)
    by (simp add: decode_limits_def storage_lookups stored_percentage_def decimal_from_back readable_def
        iffD2 [OF percentage_Inr] iffD2 [OF strict_bool_Inr] Let_def)
qed

lemma payload_read_back:
  assumes "limits_ok l" and "readable dstr l"
  shows "decode_setting (Some (setting_payload dstr mode l)) = Inr (mode, l)"
  using stored_limits_read_back [OF assms]
  by (cases mode) (simp_all add: decode_setting_def setting_payload_def operating_mode_of_def)

lemma decoded_limits_ok: "decode_limits raw = Inr l \<Longrightarrow> limits_ok l"
  by (auto simp only: decode_limits_def bindr_eq_Inr Let_def split_paired_Ex prod.case intro: new_limits_ok)

lemma settings_object:
  "(case w of JObj raw \<Rightarrow> bindr (decode_limits raw) (\<lambda>l. Inr (mode, l)) | _ \<Rightarrow> Inl e) = Inr (m, l)
    \<longleftrightarrow> (\<exists>raw. w = JObj raw \<and> decode_limits raw = Inr l \<and> m = mode)"
  by (cases w) (auto simp: bindr_eq_Inr)

lemma decoded_ok:
  assumes "decode_setting v = Inr (mode, l)"
  shows "limits_ok l"
  using assms
  by (auto simp: decode_setting_def bindr_eq_Inr settings_object intro: decoded_limits_ok new_limits_ok
      split: option.split_asm json.split_asm)

text \<open>
  C32: What a limits value is, whoever builds it: the values of the constructor are exactly those of
  \<open>limits_ok\<close>, rebuilding one from its own fields changes nothing, and every setting that can be read,
  current or legacy, gives one.
\<close>

theorem limits_well_formed:
  "(limits_ok l \<longleftrightarrow> new_limits (limits_args_of l) = Inr l)
    \<and> (\<forall>a k. new_limits a = Inr k \<longrightarrow> limits_ok k) \<and> (\<forall>v mode k. decode_setting v = Inr (mode, k) \<longrightarrow> limits_ok k)"
  using new_limits_rebuilds new_limits_ok decoded_ok by blast

text \<open>
  A stored setting is read back as it was: for limits the constructor accepts, whose amounts
  are read back from their text, decoding the stored payload gives the mode and the limits.
\<close>

theorem setting_round_trip:
  assumes "new_limits a = Inr l" and "readable dstr l"
  shows "decode_setting (Some (setting_payload dstr mode l)) = Inr (mode, l)"
  by (rule payload_read_back [OF new_limits_ok [OF assms(1)] assms(2)])

end
