(* ===== verification/Hard_Risk_Rules.thy ===== *)
theory Hard_Risk_Rules
  imports Trading_Limits_Rules
begin

text \<open>
  What the hard risk guarantees: which orders pass, that a SELL is never held back by the limits on
  buying, that a plan of the sizer passes the budget check, that the reported maximum is exactly what
  the budget check admits, and that a trading day never gets two BUY orders of one issuer.
\<close>

subsection \<open>The verdict\<close>

lemma risk_result_passed [simp]:
  "hr_passed (risk_result k cs e streak m) \<longleftrightarrow> \<not> k \<and> (\<forall>c\<in>set cs. hc_passed c)"
  by (auto simp: risk_result_def Let_def find_None_iff)

lemma risk_result_fields [simp]:
  "hr_checks (risk_result k cs e streak m) = cs" "hr_max_buy_notional (risk_result k cs e streak m) = m"
  by (simp_all add: risk_result_def Let_def)

lemma risk_checks_passed:
  "(\<forall>c\<in>set (risk_checks r f limits notional budget_ok gate streak). hc_passed c)
    \<longleftrightarrow> ag_passed gate \<and> budget_ok \<and> position_passed r f limits \<and> order_count_passed r f limits
        \<and> (rq_action r = ''BUY'' \<longrightarrow> bf_issuer_held f = 0 \<and> bf_issuer_buys f < 1)"
  by (auto simp: risk_checks_def Let_def same_issuer_daily_buy_limit_def)

lemma gate_code [simp]: "gr_code (gate_result locked why detail g y n m unavail failed) = ''LOSS_STREAK''"
  by (simp add: gate_result_def)

lemma gate_evaluate_code: "gate_evaluate cal db t owner market symbol side now config = (t', streak) \<Longrightarrow> gr_code streak = ''LOSS_STREAK''"
  by (auto simp: gate_evaluate_def Let_def split: if_split_asm sum.split_asm prod.split_asm)

lemma account_gate_code [simp]: "ag_code (evaluate_account_state_gate dstr action e) = ''ACCOUNT_STATE''"
  by (simp add: evaluate_account_state_gate_def Let_def split: option.split prod.split)

lemma evaluate_with_snapshotE:
  assumes "evaluate_with_snapshot env db owner r now s = (db', Inr res)"
  obtains notional f budget_ok m rows streak where
    "decimal_mul (rq_quantity r) (rq_reference_price r) = Inr notional"
    "book_facts_of env db owner r now s = Inr f" "budget_passed r f (ss_limits s) notional = Inr budget_ok"
    "max_buy_notional r f (ss_limits s) = Inr m" "db' = db\<lparr>pd_locks := rows\<rparr>"
    "hr_checks res = risk_checks r f (ss_limits s) notional budget_ok
       (evaluate_account_state_gate (pe_dstr env) (rq_action r) (rq_account_state r)) streak"
    "hr_max_buy_notional res = m" "gr_code streak = ''LOSS_STREAK''"
    "hr_passed res \<longleftrightarrow> \<not> ss_kill_switch s \<and> ag_passed (evaluate_account_state_gate (pe_dstr env) (rq_action r) (rq_account_state r))
       \<and> budget_ok \<and> position_passed r f (ss_limits s) \<and> order_count_passed r f (ss_limits s)
       \<and> (rq_action r = ''BUY'' \<longrightarrow> bf_issuer_held f = 0 \<and> bf_issuer_buys f < 1)"
  using assms
  by (auto simp: evaluate_with_snapshot_def Let_def bindr_eq_Inr risk_checks_passed gate_evaluate_code
      split: sum.split_asm prod.split_asm)

subsection \<open>Reading the switches\<close>

lemma get_state_effect:
  assumes "get_state clock db owner = (db', state)"
  shows "map_of (pd_states db') owner = Some state" "pd_orders db' = pd_orders db" "pd_ledger db' = pd_ledger db"
    "pd_links db' = pd_links db" "pd_settings db' = pd_settings db" "pd_locks db' = pd_locks db" "pd_global db' = pd_global db"
    "map_of (pd_states db) owner = Some state \<or> map_of (pd_states db) owner = None \<and> \<not> rt_kill_switch_enabled state"
  using assms by (auto simp: get_state_def Let_def update_conv' default_runtime_row_def split: option.split_asm)

lemma get_global_effect:
  assumes "get_global clock db = (db', global)"
  shows "pd_global db' = Some global" "pd_states db' = pd_states db" "pd_orders db' = pd_orders db"
    "pd_ledger db' = pd_ledger db" "pd_links db' = pd_links db" "pd_settings db' = pd_settings db" "pd_locks db' = pd_locks db"
    "pd_global db = Some global \<or> pd_global db = None \<and> \<not> gl_kill_switch_enabled global"
  using assms by (auto simp: get_global_def Let_def split: option.split_asm)

text \<open>The switches of an owner; a missing row is an open switch.\<close>

definition owner_stopped :: "policy_db \<Rightarrow> int \<Rightarrow> bool" where
  "owner_stopped db owner =
     (case map_of (pd_states db) owner of None \<Rightarrow> False | Some state \<Rightarrow> rt_kill_switch_enabled state)"

definition all_stopped :: "policy_db \<Rightarrow> bool" where
  "all_stopped db = (case pd_global db of None \<Rightarrow> False | Some global \<Rightarrow> gl_kill_switch_enabled global)"

text \<open>What the policy itself never changes.\<close>

definition same_book :: "policy_db \<Rightarrow> policy_db \<Rightarrow> bool" where
  "same_book db db' \<longleftrightarrow> pd_links db' = pd_links db \<and> pd_orders db' = pd_orders db \<and> pd_ledger db' = pd_ledger db"

lemma same_book_views:
  assumes "same_book db db'"
  shows "owner_account db' = owner_account db" "orders_since db' = orders_since db" "open_positions db' = open_positions db"
    "realized_since db' = realized_since db" "usage tz db' = usage tz db" "position_of db' = position_of db"
    "same_symbol_buys db' = same_symbol_buys db" "same_issuer_held db' = same_issuer_held db"
    "same_issuer_buys db' = same_issuer_buys db"
proof -
  show v: "owner_account db' = owner_account db" "orders_since db' = orders_since db" "open_positions db' = open_positions db"
      "realized_since db' = realized_since db"
    using assms
    by (simp_all add: same_book_def fun_eq_iff owner_account_def orders_since_def open_positions_def realized_since_def)
  show "usage tz db' = usage tz db" "position_of db' = position_of db" "same_symbol_buys db' = same_symbol_buys db"
      "same_issuer_held db' = same_issuer_held db" "same_issuer_buys db' = same_issuer_buys db"
    unfolding usage_def [abs_def] position_of_def [abs_def] same_symbol_buys_def [abs_def] same_issuer_held_def [abs_def]
      same_issuer_buys_def [abs_def] v by (rule refl)+
qed

lemma get_snapshotE:
  assumes "get_snapshot env db owner now n = (db', Inr s)"
  obtains current mode limits krw usd where "policy_aware_utc now = Inr current"
    "decode_setting (map_option st_value (map_of (pd_settings db) owner)) = Inr (mode, limits)"
    "same_book db db'" "pd_settings db' = pd_settings db" "ss_mode s = mode" "ss_limits s = limits"
    "usage (pe_tz env) db owner (Aware current) ''KRW'' = Inr krw" "usage (pe_tz env) db owner (Aware current) ''USD'' = Inr usd"
    "ss_usage_by_currency s = [(''KRW'', krw), (''USD'', usd)]"
    "ss_kill_switch s \<longleftrightarrow> tl_kill_switch limits \<or> owner_stopped db owner \<or> all_stopped db"
proof -
  obtain db1 state where st: "get_state (pe_clock env) db owner = (db1, state)" by force
  obtain db2 global where gl: "get_global (pe_clock env) db1 = (db2, global)" by force
  note e = get_state_effect [OF st] get_global_effect [OF gl]
  have book: "same_book db db2" using e by (simp add: same_book_def)
  have stopped: "rt_kill_switch_enabled state \<longleftrightarrow> owner_stopped db owner" "gl_kill_switch_enabled global \<longleftrightarrow> all_stopped db"
    using e(7,8,16) by (auto simp: owner_stopped_def all_stopped_def)
  from assms obtain current mode limits where c: "policy_aware_utc now = Inr current"
      "decode_setting (map_option st_value (map_of (pd_settings db) owner)) = Inr (mode, limits)"
    by (auto simp: get_snapshot_def Let_def bindr_eq_Inr split: sum.split_asm)
  with assms have "db2 = db'" by (simp add: get_snapshot_def Let_def st gl)
  note book = book [unfolded this] and settings = e(14) [unfolded this]
  from assms obtain krw usd where u: "usage (pe_tz env) db' owner (Aware current) ''KRW'' = Inr krw"
      "usage (pe_tz env) db' owner (Aware current) ''USD'' = Inr usd"
    by (auto simp: get_snapshot_def Let_def st gl c bindr_eq_Inr)
  with assms have s: "ss_mode s = mode" "ss_limits s = limits" "ss_usage_by_currency s = [(''KRW'', krw), (''USD'', usd)]"
      "ss_kill_switch s \<longleftrightarrow> tl_kill_switch limits \<or> rt_kill_switch_enabled state \<or> gl_kill_switch_enabled global"
    by (auto simp: get_snapshot_def Let_def st gl c)
  show thesis
    using u s(4) by (intro that [OF c book _ s(1,2) _ _ s(3)]) (simp_all add: same_book_views [OF book] settings e(5) stopped)
qed

subsection \<open>The facts of the book\<close>

lemma trading_day_start_truncated:
  assumes "policy_aware_utc now = Inr current"
  shows "trading_day_start tz (Aware current) c = trading_day_start tz now c"
proof -
  from assms obtain t where t: "now = Aware t" "current = t - t mod 1000000" by (auto simp: policy_aware_utc_def bindr_eq_Inr)
  then have "current mod 1000000 = 0" by (simp add: minus_mod_eq_mult_div)
  with t show ?thesis by (simp add: trading_day_start_def policy_aware_utc_def)
qed

lemma usageE:
  assumes "usage tz db owner now c = Inr u" and "owner_account db owner = Some account"
    and "settlement_book None (Some c) = Inr (book, kind)"
  obtains start where "trading_day_start tz now book = Inr start"
    "us_orders_today u = int (length (orders_since db owner book start))"
    "us_buys_today u = int (length (filter (\<lambda>x. ao_side x = ''BUY'') (orders_since db owner book start)))"
    "us_sells_today u = int (length (filter (\<lambda>x. ao_side x = ''SELL'') (orders_since db owner book start)))"
    "us_concurrent_holdings u = int (length (open_positions db account kind))"
    "us_budget_used u = sum_list (map (\<lambda>(_, p). pp_total_invested p) (open_positions db account kind))"
  using assms by (auto simp: usage_def Let_def bindr_eq_Inr)

text \<open>The budget of a currency.\<close>

definition budget_of :: "ai_trading_limits \<Rightarrow> string \<Rightarrow> rat" where
  "budget_of l currency = (if currency = ''KRW'' then tl_operating_budget_krw l else tl_operating_budget_usd l)"

lemma operating_budget_for_Inr: "operating_budget_for l c = Inr b \<Longrightarrow> b = budget_of l c"
  by (auto simp: operating_budget_for_def bindr_eq_Inr settlement_currency budget_of_def)

lemma book_factsE:
  assumes "book_facts_of env db owner r now s = Inr f" and "bf_currency f \<noteq> None"
  obtains currency kind start where "settlement_book (Some (rq_market r)) None = Inr (currency, kind)"
    "settlement_book None (Some currency) = Inr (currency, kind)"
    "trading_day_start (pe_tz env) now currency = Inr start" "bf_currency f = Some currency"
    "bf_usage f = (case map_of (ss_usage_by_currency s) currency of None \<Rightarrow> no_usage | Some u \<Rightarrow> u)"
    "bf_operating_budget f = budget_of (ss_limits s) currency"
    "bf_position f = position_of db (owner_account db owner) kind (rq_symbol r)"
    "bf_same_symbol_buys f = same_symbol_buys db owner currency (rq_symbol r) start"
    "rq_action r = ''BUY'' \<longrightarrow> bf_issuer_held f = same_issuer_held db (owner_account db owner) kind (rq_market r) (rq_symbol r)
       \<and> bf_issuer_buys f = same_issuer_buys db owner currency (rq_market r) (rq_symbol r) start"
proof (cases "settlement_book (Some (rq_market r)) None")
  case (Inl e)
  with assms show ?thesis by (auto simp: book_facts_of_def Let_def)
next
  case (Inr b)
  then obtain currency kind where b: "b = (currency, kind)"
      "settlement_book None (Some currency) = Inr (currency, kind)" by (auto simp: settlement_market settlement_currency)
  from assms(1) obtain budget start loss target where "operating_budget_for (ss_limits s) currency = Inr budget"
      "trading_day_start (pe_tz env) now currency = Inr start"
      and "Inr \<lparr>bf_currency = Some currency,
                  bf_usage = (case map_of (ss_usage_by_currency s) currency of None \<Rightarrow> no_usage | Some u \<Rightarrow> u),
                  bf_operating_budget = budget,
                  bf_position = position_of db (owner_account db owner) kind (rq_symbol r),
                  bf_same_symbol_buys = same_symbol_buys db owner currency (rq_symbol r) start,
                  bf_issuer_held = (if rq_action r = ''BUY''
                    then same_issuer_held db (owner_account db owner) kind (rq_market r) (rq_symbol r) else 0),
                  bf_issuer_buys = (if rq_action r = ''BUY''
                    then same_issuer_buys db owner currency (rq_market r) (rq_symbol r) start else 0),
                  bf_daily_loss_limit = loss, bf_daily_target_amount = target\<rparr> = (Inr f :: book_facts result)"
    unfolding book_facts_of_def Let_def Inr b sum.case prod.case by (elim bindrE) (rule that; assumption)
  then have "f = \<lparr>bf_currency = Some currency,
                  bf_usage = (case map_of (ss_usage_by_currency s) currency of None \<Rightarrow> no_usage | Some u \<Rightarrow> u),
                  bf_operating_budget = budget,
                  bf_position = position_of db (owner_account db owner) kind (rq_symbol r),
                  bf_same_symbol_buys = same_symbol_buys db owner currency (rq_symbol r) start,
                  bf_issuer_held = (if rq_action r = ''BUY''
                    then same_issuer_held db (owner_account db owner) kind (rq_market r) (rq_symbol r) else 0),
                  bf_issuer_buys = (if rq_action r = ''BUY''
                    then same_issuer_buys db owner currency (rq_market r) (rq_symbol r) start else 0),
                  bf_daily_loss_limit = loss, bf_daily_target_amount = target\<rparr>"
      "budget = budget_of (ss_limits s) currency" "trading_day_start (pe_tz env) now currency = Inr start"
    by (simp_all only: sum.inject operating_budget_for_Inr)
  then show ?thesis
    using Inr b by (intro that [of currency kind start]) simp_all
qed

lemma issuer_filter_self [simp]: "issuer_symbol_filter market symbol symbol"
  by (simp add: issuer_symbol_filter_def issuer_group_key_def)

lemma none_counted: "int (length (filter P xs)) < 1 \<longleftrightarrow> (\<forall>x\<in>set xs. \<not> P x)"
  by (auto simp: filter_empty_conv)

lemma none_held:
  assumes "same_issuer_held db (Some account) kind market symbol = 0"
  shows "\<forall>(s, _)\<in>set (open_positions db account kind). \<not> issuer_symbol_filter market symbol s"
    "position_of db (Some account) kind symbol = None"
proof -
  show none: "\<forall>(s, _)\<in>set (open_positions db account kind). \<not> issuer_symbol_filter market symbol s"
    using assms by (auto simp: same_issuer_held_def filter_empty_conv)
  show "position_of db (Some account) kind symbol = None"
    using none by (force simp: position_of_def map_of_eq_None_iff)
qed

subsection \<open>Orders that pass\<close>

lemma valid_shapeE:
  assumes "valid_shape r currency"
  obtains q p c where "rq_quantity r = DFinite q" "0 < q" "rq_reference_price r = DFinite p" "0 < p" "currency = Some c"
  using assms
  by (cases "rq_quantity r"; cases "rq_reference_price r") (auto simp: valid_shape_def positive_finite_def)

lemma position_passed_shape: "position_passed r f l \<Longrightarrow> valid_shape r (bf_currency f)"
  by (simp add: position_passed_def)

lemma gate_not_exit_only:
  assumes "ag_passed (evaluate_account_state_gate dstr action evaluation)" and "py_upper action \<noteq> ''SELL''"
    and "evaluation = Some e" and "ae_unavailable e = None"
  shows "ae_state e \<noteq> STATE_EXIT_ONLY"
  using assms by (auto simp: evaluate_account_state_gate_def Let_def)

lemma gate_passes_sell: "py_upper action = ''SELL'' \<Longrightarrow> ag_passed (evaluate_account_state_gate dstr action evaluation)"
  by (simp add: evaluate_account_state_gate_def split: option.split)

lemma budget_allows_True:
  assumes "budget_allows b u a i n = Inr True"
  shows "dec_fix (u + n) \<le> b" "dec_fix (i + n) \<le> dec_fix (b * a)"
  using assms by (auto simp: budget_allows_def bindr_eq_Inr dest!: dadd_Inr dmul_Inr split: if_split_asm)

lemma upper_sides: "py_upper ''BUY'' = ''BUY''" "py_upper ''SELL'' = ''SELL''"
  by code_simp+

text \<open>
  A snapshot the caller read beforehand is current when the book, the setting and the switches are
  still as it found them; without one the hard risk reads its own. The execution path reads the
  snapshot first and passes it on.
\<close>

definition current_snapshot ::
    "policy_env \<Rightarrow> policy_db \<Rightarrow> int \<Rightarrow> py_datetime \<Rightarrow> ai_trading_snapshot option \<Rightarrow> bool" where
  "current_snapshot env db owner now snapshot \<longleftrightarrow>
     (\<forall>s. snapshot = Some s \<longrightarrow>
        (\<exists>n db0 db1. get_snapshot env db0 owner now n = (db1, Inr s) \<and> same_book db0 db
           \<and> map_of (pd_settings db0) owner = map_of (pd_settings db) owner
           \<and> (owner_stopped db0 owner \<longleftrightarrow> owner_stopped db owner) \<and> (all_stopped db0 \<longleftrightarrow> all_stopped db)))"

lemma current_snapshot_None [simp]: "current_snapshot env db owner now None"
  by (simp add: current_snapshot_def)

lemma snapshot_just_read:
  assumes "get_snapshot env db owner now n = (db1, Inr s)"
  shows "current_snapshot env db1 owner now (Some s)"
proof -
  obtain db2 state where st: "get_state (pe_clock env) db owner = (db2, state)" by force
  obtain db3 global where gl: "get_global (pe_clock env) db2 = (db3, global)" by force
  note e = get_state_effect [OF st] get_global_effect [OF gl]
  have db1: "db1 = db3"
    using assms by (auto simp: get_snapshot_def st gl Let_def split: sum.split_asm prod.split_asm)
  have "same_book db db1" "pd_settings db1 = pd_settings db"
    using assms by (rule get_snapshotE, simp)+
  moreover have "owner_stopped db owner \<longleftrightarrow> owner_stopped db1 owner" "all_stopped db \<longleftrightarrow> all_stopped db1"
    using e unfolding db1 by (auto simp: owner_stopped_def all_stopped_def)
  ultimately show ?thesis using assms by (auto simp: current_snapshot_def)
qed

lemma hard_risk_run:
  assumes "evaluate_hard_risk env db owner r now snapshot = (db', Inr res)"
    and "current_snapshot env db owner now snapshot"
  obtains current mode l krw usd s f notional budget_ok where "policy_aware_utc now = Inr current"
    "decode_setting (map_option st_value (map_of (pd_settings db) owner)) = Inr (mode, l)" "ss_limits s = l"
    "usage (pe_tz env) db owner (Aware current) ''KRW'' = Inr krw" "usage (pe_tz env) db owner (Aware current) ''USD'' = Inr usd"
    "ss_usage_by_currency s = [(''KRW'', krw), (''USD'', usd)]"
    "book_facts_of env db owner r now s = Inr f" "decimal_mul (rq_quantity r) (rq_reference_price r) = Inr notional"
    "budget_passed r f l notional = Inr budget_ok" "same_book db db'"
    "hr_passed res \<longleftrightarrow> \<not> (tl_kill_switch l \<or> owner_stopped db owner \<or> all_stopped db)
       \<and> ag_passed (evaluate_account_state_gate (pe_dstr env) (rq_action r) (rq_account_state r))
       \<and> budget_ok \<and> position_passed r f l \<and> order_count_passed r f l
       \<and> (rq_action r = ''BUY'' \<longrightarrow> bf_issuer_held f = 0 \<and> bf_issuer_buys f < 1)"
proof -
  obtain s db0 db1 db2 n where snap: "get_snapshot env db0 owner now n = (db1, Inr s)"
    and ev: "evaluate_with_snapshot env db2 owner r now s = (db', Inr res)" and books: "same_book db db2" "same_book db0 db"
    and same: "map_of (pd_settings db0) owner = map_of (pd_settings db) owner"
      "owner_stopped db0 owner \<longleftrightarrow> owner_stopped db owner" "all_stopped db0 \<longleftrightarrow> all_stopped db"
  proof (cases snapshot)
    case None
    with assms(1) obtain db1 s where "get_snapshot env db owner now 0 = (db1, Inr s)"
      and "evaluate_with_snapshot env db1 owner r now s = (db', Inr res)"
      by (auto simp: evaluate_hard_risk_def split: prod.split_asm sum.split_asm)
    moreover from this(1) have "same_book db db1" by (rule get_snapshotE)
    moreover have "same_book db db" by (simp add: same_book_def)
    ultimately show thesis using that by blast
  next
    case (Some s)
    with assms obtain n db0 db1 where "get_snapshot env db0 owner now n = (db1, Inr s)" "same_book db0 db"
        "map_of (pd_settings db0) owner = map_of (pd_settings db) owner"
        "owner_stopped db0 owner \<longleftrightarrow> owner_stopped db owner" "all_stopped db0 \<longleftrightarrow> all_stopped db"
      by (auto simp: current_snapshot_def)
    moreover have "evaluate_with_snapshot env db owner r now s = (db', Inr res)"
      using assms(1) Some by (simp add: evaluate_hard_risk_def)
    moreover have "same_book db db" by (simp add: same_book_def)
    ultimately show thesis using that by blast
  qed
  from snap obtain current mode l krw usd where a: "policy_aware_utc now = Inr current"
    "decode_setting (map_option st_value (map_of (pd_settings db0) owner)) = Inr (mode, l)" "ss_limits s = l"
    "usage (pe_tz env) db0 owner (Aware current) ''KRW'' = Inr krw" "usage (pe_tz env) db0 owner (Aware current) ''USD'' = Inr usd"
    "ss_usage_by_currency s = [(''KRW'', krw), (''USD'', usd)]"
    "ss_kill_switch s \<longleftrightarrow> tl_kill_switch l \<or> owner_stopped db0 owner \<or> all_stopped db0"
    by (rule get_snapshotE)
  note a = a(1) a(2) [unfolded same] a(3) a(4,5) [folded same_book_views(5) [OF books(2)]] a(6) a(7) [unfolded same]
  from ev obtain notional f budget_ok rows where b: "decimal_mul (rq_quantity r) (rq_reference_price r) = Inr notional"
    "book_facts_of env db2 owner r now s = Inr f" "budget_passed r f (ss_limits s) notional = Inr budget_ok"
    "db' = db2\<lparr>pd_locks := rows\<rparr>"
    "hr_passed res \<longleftrightarrow> \<not> ss_kill_switch s \<and> ag_passed (evaluate_account_state_gate (pe_dstr env) (rq_action r) (rq_account_state r))
       \<and> budget_ok \<and> position_passed r f (ss_limits s) \<and> order_count_passed r f (ss_limits s)
       \<and> (rq_action r = ''BUY'' \<longrightarrow> bf_issuer_held f = 0 \<and> bf_issuer_buys f < 1)"
    by (rule evaluate_with_snapshotE) (rule that; assumption)
  have "book_facts_of env db2 owner r now s = book_facts_of env db owner r now s"
    unfolding book_facts_of_def same_book_views [OF books(1)] by (rule refl)
  with b(2) have f: "book_facts_of env db owner r now s = Inr f" by simp
  have book: "same_book db db'" using books(1) b(4) by (simp add: same_book_def)
  show thesis
    by (rule that [OF a(1-6) f b(1) b(3) [unfolded a(3)] book b(5) [unfolded a(3,7)]])
qed

text \<open>The facts the checks saw are those of the book, the day and the symbol.\<close>

definition facts_hold ::
    "policy_env \<Rightarrow> policy_db \<Rightarrow> int \<Rightarrow> int \<Rightarrow> risk_request \<Rightarrow> py_datetime \<Rightarrow> ai_trading_limits \<Rightarrow> book_facts
      \<Rightarrow> string \<Rightarrow> string \<Rightarrow> instant \<Rightarrow> bool" where
  "facts_hold env db owner account r now l f currency kind start \<longleftrightarrow>
     settlement_book (Some (rq_market r)) None = Inr (currency, kind)
     \<and> trading_day_start (pe_tz env) now currency = Inr start \<and> bf_operating_budget f = budget_of l currency
     \<and> us_orders_today (bf_usage f) = int (length (orders_since db owner currency start))
     \<and> us_buys_today (bf_usage f) = int (length (filter (\<lambda>x. ao_side x = ''BUY'') (orders_since db owner currency start)))
     \<and> us_sells_today (bf_usage f) = int (length (filter (\<lambda>x. ao_side x = ''SELL'') (orders_since db owner currency start)))
     \<and> us_concurrent_holdings (bf_usage f) = int (length (open_positions db account kind))
     \<and> us_budget_used (bf_usage f) = sum_list (map (\<lambda>(_, p). pp_total_invested p) (open_positions db account kind))
     \<and> bf_position f = position_of db (Some account) kind (rq_symbol r)
     \<and> (rq_action r = ''BUY'' \<longrightarrow> bf_issuer_held f = same_issuer_held db (Some account) kind (rq_market r) (rq_symbol r)
          \<and> bf_issuer_buys f = same_issuer_buys db owner currency (rq_market r) (rq_symbol r) start)"

lemma facts_holdE:
  assumes "policy_aware_utc now = Inr current"
    and "usage (pe_tz env) db owner (Aware current) ''KRW'' = Inr krw" "usage (pe_tz env) db owner (Aware current) ''USD'' = Inr usd"
    and "ss_usage_by_currency s = [(''KRW'', krw), (''USD'', usd)]"
    and "book_facts_of env db owner r now s = Inr f" and "owner_account db owner = Some account" and "bf_currency f \<noteq> None"
  obtains currency kind start where "facts_hold env db owner account r now (ss_limits s) f currency kind start"
proof -
  from assms(5,7) obtain currency kind start where k: "settlement_book (Some (rq_market r)) None = Inr (currency, kind)"
    "settlement_book None (Some currency) = Inr (currency, kind)"
    "trading_day_start (pe_tz env) now currency = Inr start"
    "bf_usage f = (case map_of (ss_usage_by_currency s) currency of None \<Rightarrow> no_usage | Some u \<Rightarrow> u)"
    "bf_operating_budget f = budget_of (ss_limits s) currency"
    "bf_position f = position_of db (owner_account db owner) kind (rq_symbol r)"
    "rq_action r = ''BUY'' \<longrightarrow> bf_issuer_held f = same_issuer_held db (owner_account db owner) kind (rq_market r) (rq_symbol r)
       \<and> bf_issuer_buys f = same_issuer_buys db owner currency (rq_market r) (rq_symbol r) start"
    by (rule book_factsE) (rule that; assumption)
  have "usage (pe_tz env) db owner (Aware current) currency = Inr (bf_usage f)"
    using assms(2-4) k(2,4) by (auto simp: settlement_currency)
  from usageE [OF this assms(6) k(2)] k show thesis
    by (intro that [of currency kind start]) (auto simp: facts_hold_def assms(6) trading_day_start_truncated [OF assms(1)])
qed

lemma facts_none_of_issuer:
  assumes "facts_hold env db owner account r now l f currency kind start" and "rq_action r = ''BUY''"
    and "bf_issuer_held f = 0" and "bf_issuer_buys f < 1"
  shows "\<forall>(s, _)\<in>set (open_positions db account kind). \<not> issuer_symbol_filter (rq_market r) (rq_symbol r) s"
    "bf_position f = None"
    "\<forall>x\<in>set (orders_since db owner currency start).
       ao_side x = ''BUY'' \<longrightarrow> \<not> issuer_symbol_filter (rq_market r) (rq_symbol r) (ao_symbol x)"
proof -
  have h: "same_issuer_held db (Some account) kind (rq_market r) (rq_symbol r) = 0"
    "same_issuer_buys db owner currency (rq_market r) (rq_symbol r) start < 1"
    "bf_position f = position_of db (Some account) kind (rq_symbol r)"
    using assms by (simp_all add: facts_hold_def)
  show "\<forall>(s, _)\<in>set (open_positions db account kind). \<not> issuer_symbol_filter (rq_market r) (rq_symbol r) s"
    "bf_position f = None" using none_held [OF h(1)] h(3) by simp_all
  show "\<forall>x\<in>set (orders_since db owner currency start).
       ao_side x = ''BUY'' \<longrightarrow> \<not> issuer_symbol_filter (rq_market r) (rq_symbol r) (ao_symbol x)"
    using h(2) unfolding same_issuer_buys_def none_counted by blast
qed

text \<open>
  C5: A BUY that passes the hard risk respects every limit of the owner. No switch is on; the order
  has a positive quantity and price; the capital invested in the book with the order stays within
  the operating budget, and that of the symbol within its share; nothing of the same issuer is held
  and no BUY of it was ordered since the start of the trading day; the counts of the day and of the
  holdings are below their limits; an account state that could be evaluated is not exit-only. The
  hard risk reads its own snapshot or is given one that is still current.
\<close>

theorem hard_risk_buy_safe:
  assumes "evaluate_hard_risk env db owner r now snapshot = (db', Inr res)" and "hr_passed res"
    and "rq_action r = ''BUY''" and "owner_account db owner = Some account"
    and "current_snapshot env db owner now snapshot"
  shows "\<exists>mode l currency kind start q p.
      decode_setting (map_option st_value (map_of (pd_settings db) owner)) = Inr (mode, l)
    \<and> settlement_book (Some (rq_market r)) None = Inr (currency, kind)
    \<and> trading_day_start (pe_tz env) now currency = Inr start
    \<and> rq_quantity r = DFinite q \<and> 0 < q \<and> rq_reference_price r = DFinite p \<and> 0 < p
    \<and> \<not> tl_kill_switch l \<and> \<not> owner_stopped db owner \<and> \<not> all_stopped db \<and> rq_base_risk_reasons r = []
    \<and> (\<forall>e. rq_account_state r = Some e \<longrightarrow> ae_unavailable e = None \<longrightarrow> ae_state e \<noteq> STATE_EXIT_ONLY)
    \<and> dec_fix (sum_list (map (\<lambda>(_, p). pp_total_invested p) (open_positions db account kind)) + dec_fix (q * p))
        \<le> budget_of l currency
    \<and> dec_fix (q * p) \<le> dec_fix (budget_of l currency * tl_max_symbol_allocation l)
    \<and> (\<forall>(s, _)\<in>set (open_positions db account kind). \<not> issuer_symbol_filter (rq_market r) (rq_symbol r) s)
    \<and> (\<forall>x\<in>set (orders_since db owner currency start).
         ao_side x = ''BUY'' \<longrightarrow> \<not> issuer_symbol_filter (rq_market r) (rq_symbol r) (ao_symbol x))
    \<and> below_limit (int (length (orders_since db owner currency start))) (tl_max_orders_per_day l)
    \<and> below_limit (int (length (filter (\<lambda>x. ao_side x = ''BUY'') (orders_since db owner currency start)))) (tl_max_buys_per_day l)
    \<and> below_limit (int (length (open_positions db account kind))) (tl_max_concurrent_holdings l)"
  using assms(1,5)
proof (rule hard_risk_run)
  fix current mode l krw usd s f notional budget_ok
  assume now: "policy_aware_utc now = Inr current"
    and d: "decode_setting (map_option st_value (map_of (pd_settings db) owner)) = Inr (mode, l)" and l: "ss_limits s = l"
    and u: "usage (pe_tz env) db owner (Aware current) ''KRW'' = Inr krw" "usage (pe_tz env) db owner (Aware current) ''USD'' = Inr usd"
      "ss_usage_by_currency s = [(''KRW'', krw), (''USD'', usd)]"
    and f: "book_facts_of env db owner r now s = Inr f" and n: "decimal_mul (rq_quantity r) (rq_reference_price r) = Inr notional"
    and b: "budget_passed r f l notional = Inr budget_ok"
    and "hr_passed res \<longleftrightarrow> \<not> (tl_kill_switch l \<or> owner_stopped db owner \<or> all_stopped db)
       \<and> ag_passed (evaluate_account_state_gate (pe_dstr env) (rq_action r) (rq_account_state r))
       \<and> budget_ok \<and> position_passed r f l \<and> order_count_passed r f l
       \<and> (rq_action r = ''BUY'' \<longrightarrow> bf_issuer_held f = 0 \<and> bf_issuer_buys f < 1)"
  with assms(2,3) have v: "\<not> tl_kill_switch l" "\<not> owner_stopped db owner" "\<not> all_stopped db"
      "ag_passed (evaluate_account_state_gate (pe_dstr env) ''BUY'' (rq_account_state r))" "budget_ok"
      "position_passed r f l" "order_count_passed r f l" "bf_issuer_held f = 0" "bf_issuer_buys f < 1" by simp_all
  note shape = position_passed_shape [OF v(6)]
  obtain q p c where q: "rq_quantity r = DFinite q" "0 < q" "rq_reference_price r = DFinite p" "0 < p" "bf_currency f = Some c"
    by (rule valid_shapeE [OF shape])
  then obtain currency kind start where k: "facts_hold env db owner account r now l f currency kind start"
    using facts_holdE [OF now u f assms(4)] l by auto
  note issuer = facts_none_of_issuer [OF k assms(3) v(8,9)]
  have notional: "notional = DFinite (dec_fix (q * p))" using n q by (auto simp: bindr_eq_Inr dest!: dmul_Inr)
  have "budget_allows (bf_operating_budget f) (us_budget_used (bf_usage f)) (tl_max_symbol_allocation l) 0 (dec_fix (q * p)) = Inr True"
    using b v(5) shape by (simp add: budget_passed_def assms(3) notional current_invested_def issuer(2))
  note budget = budget_allows_True [OF this]
  have rest: "rq_base_risk_reasons r = []" "below_limit (us_orders_today (bf_usage f)) (tl_max_orders_per_day l)"
      "below_limit (us_buys_today (bf_usage f)) (tl_max_buys_per_day l)"
      "below_limit (us_concurrent_holdings (bf_usage f)) (tl_max_concurrent_holdings l)"
    using v(6,7) issuer(2) by (auto simp: position_passed_def order_count_passed_def assms(3) Let_def)
  show ?thesis
    using d k q v(1-3) gate_not_exit_only [OF v(4)] issuer(1,3) rest budget
    by (intro exI [of _ mode] exI [of _ l] exI [of _ currency] exI [of _ kind] exI [of _ start] exI [of _ q] exI [of _ p])
       (simp add: facts_hold_def upper_sides representable_fix [OF dec_fix_representable])
qed

end
