(* ===== verification/Hard_Risk_Runs.thy ===== *)
theory Hard_Risk_Runs
  imports Hard_Risk_Rules
begin

text \<open>
  Compositions of the policy: the sizer and the budget check, the reported maximum and the budget
  check, changing a setting and reading it, and the orders of a trading day that were all admitted by
  the hard risk.
\<close>

subsection \<open>Exact budgets\<close>

text \<open>Amounts of a book that the decimal context computes with exactly.\<close>

definition money_fits :: "rat \<Rightarrow> rat \<Rightarrow> rat \<Rightarrow> rat \<Rightarrow> bool" where
  "money_fits budget used allocation invested \<longleftrightarrow>
     places 4 budget \<and> places 4 used \<and> places 4 invested \<and> places 2 allocation
     \<and> 0 \<le> budget \<and> 0 \<le> used \<and> 0 \<le> invested \<and> 0 \<le> allocation \<and> allocation \<le> 1
     \<and> budget < 10 ^ 12 \<and> used < 10 ^ 12 \<and> invested < 10 ^ 12"

lemma dec_fix_exact12:
  assumes "places 12 q" and "q \<le> 10 ^ 13" and "- q \<le> 10 ^ 13"
  shows "dec_fix q = q"
  using assms by (intro dec_fix_places [of 12]) (auto simp: abs_le_iff abs_if)

lemma dec_ctx_exact12:
  assumes "places 12 q" and "q \<le> 10 ^ 13" and "- q \<le> 10 ^ 13"
  shows "dec_ctx q = Inr q"
proof -
  have "mag_le 13 q" using assms(2,3) by (simp add: mag_le_def abs_le_iff)
  then have "dec_ctx q = Inr (dec_fix q)" by (rule mag_ctx) (simp add: emax_def)
  then show ?thesis using dec_fix_exact12 [OF assms] by simp
qed

lemma places_mult:
  assumes "places s a" and "places t b"
  shows "places (s + t) (a * b)"
proof -
  have "a * b * 10 ^ (s + t) = (a * 10 ^ s) * (b * 10 ^ t)" by (simp add: power_add)
  with assms show ?thesis unfolding places_def by (simp only: Ints_mult)
qed

lemma money_fits_ceiling:
  assumes "money_fits b u a i"
  shows "places 12 (b * a)" "0 \<le> b * a" "b * a < 10 ^ 12"
proof -
  have "places (4 + 2) (b * a)" using assms by (intro places_mult) (auto simp: money_fits_def)
  then show "places 12 (b * a)" by (rule places_mono) simp
  show "0 \<le> b * a" using assms by (simp add: money_fits_def)
  have "b * a \<le> b * 1" using assms by (intro mult_left_mono) (auto simp: money_fits_def)
  then show "b * a < 10 ^ 12" using assms unfolding money_fits_def by linarith
qed

lemma money_fits_places:
  assumes "money_fits b u a i"
  shows "places 12 b" "places 12 u" "places 12 i"
  using assms by (auto simp: money_fits_def intro: places_mono)

lemma budget_allows_exact:
  assumes "money_fits b u a i" and "places 12 n" and "0 \<le> n" and "n < 10 ^ 12"
  shows "budget_allows b u a i n = Inr (u + n \<le> b \<and> i + n \<le> b * a)"
    and "max_buy_notional_of b u a i = Inr (max 0 (min (b - u) (b * a - i)))"
proof -
  note p = money_fits_places [OF assms(1)] and c = money_fits_ceiling [OF assms(1)]
  have r: "0 \<le> b" "b < 10 ^ 12" "0 \<le> u" "u < 10 ^ 12" "0 \<le> i" "i < 10 ^ 12" using assms(1) by (auto simp: money_fits_def)
  have "dadd u n = Inr (u + n)" "dadd i n = Inr (i + n)" "dmul b a = Inr (b * a)" "dsub b u = Inr (b - u)"
      "dsub (b * a) i = Inr (b * a - i)"
    unfolding dadd_def dmul_def dsub_def
    using p c r assms(2-4) by (intro dec_ctx_exact12; (intro places_add places_diff)?; simp)+
  then show "budget_allows b u a i n = Inr (u + n \<le> b \<and> i + n \<le> b * a)"
    "max_buy_notional_of b u a i = Inr (max 0 (min (b - u) (b * a - i)))"
    by (simp_all add: budget_allows_def max_buy_notional_of_def)
qed

text \<open>Rounding a quotient never buys more than the remainder when amounts have few places.\<close>

lemma whole_lots_within:
  assumes "q = of_int m * pow10 k" and "- 4 \<le> k" and "pow10 k \<le> q" and "q \<le> dec_fix (rest / p)"
    and "places 8 p" and "0 < p" and "places 12 rest" and "rest < 10 ^ 12"
  shows "q * p \<le> rest" and "places 12 (q * p)"
proof -
  have "q * 10 ^ 4 = of_int m * pow10 (k + 4)" using assms(1) by (simp add: power_int_add)
  also have "\<dots> = of_int (m * 10 ^ nat (k + 4))" using assms(2) by (simp add: power_int_def)
  finally have "places 4 q" by (simp add: places_def)
  then have "places (4 + 8) (q * p)" using assms(5) by (rule places_mult)
  then show pl: "places 12 (q * p)" by simp
  have "dec_fix (rest / p) \<le> (1 + unit_roundoff) * (rest / p)"
    using assms(2-4) by (intro dec_fix_upper [of k]) (auto simp: emin_def)
  with assms(4) have "q \<le> (1 + unit_roundoff) * (rest / p)" by (rule order_trans)
  then have "q * p \<le> (1 + unit_roundoff) * rest" using assms(6) by (simp add: le_divide_eq)
  also have "\<dots> < rest + 1 / 10 ^ 12" using assms(8) by (simp add: distrib_right unit_roundoff_def)
  finally have "q * p < rest + 1 / 10 ^ 12" .
  then have lt: "q * p * 10 ^ 12 < rest * 10 ^ 12 + 1" by (simp add: field_simps)
  obtain x where x: "q * p * 10 ^ 12 = of_int x" using pl by (auto simp: places_def elim: Ints_cases)
  obtain y where y: "rest * 10 ^ 12 = of_int y" using assms(7) by (auto simp: places_def elim: Ints_cases)
  have "x \<le> y" using lt unfolding x y by linarith
  then have "q * p * 10 ^ 12 \<le> rest * 10 ^ 12" unfolding x y by simp
  then show "q * p \<le> rest" by simp
qed

subsection \<open>A sized BUY passes the budget check\<close>

lemma sized_buy_cost:
  assumes "calculate_position_size cal config request = Inr sz" and "actionable sz"
    and "py_upper (si_action request) = ''BUY''" and "buy_terms_of request v"
    and "lot_size_of config (py_upper (si_market request)) = pow10 k" and "- 4 \<le> k" and "k \<le> 0"
    and "0 \<le> si_account_state_multiplier request" and "si_account_state_multiplier request \<le> 1"
    and "places 8 (bt_entry v)" and "money_fits (bt_budget v) (bt_used v) (bt_allocation v) (bt_invested v)"
  shows "bt_used v + sr_quantity sz * bt_entry v \<le> bt_budget v
    \<and> bt_invested v + sr_quantity sz * bt_entry v \<le> bt_budget v * bt_allocation v
    \<and> places 12 (sr_quantity sz * bt_entry v) \<and> 0 < sr_quantity sz * bt_entry v"
  using assms(1-3)
proof (rule actionable_buy)
  fix v' rpu b q
  assume v': "buy_terms_of request v'" and b: "amounts_for config v' rpu (si_account_state_multiplier request) = Inr b"
    and pos: "0 < ba_remaining_owner b" "0 < ba_remaining_symbol b" and r: "sr_caps sz = ba_caps b"
  have "v' = v" by (rule buy_terms_unique [OF v' assms(4)])
  note b = b [unfolded this]
  have entry: "0 < bt_entry v" using assms(4) by (auto simp: buy_terms_of_def)
  have "etiny \<le> k" using assms(6) by (simp add: etiny_def)
  from buy_within_caps [OF assms(1-3,5) this assms(7-9)]
  have within: "sr_quantity sz = of_int \<lfloor>sr_unrounded_quantity sz / pow10 k\<rfloor> * pow10 k"
      "\<forall>cap \<in> set (ba_caps b). sr_quantity sz \<le> cap_quantity cap" "pow10 k \<le> sr_quantity sz" unfolding r by blast+
  note c = money_fits_ceiling [OF assms(11)] and pl = money_fits_places [OF assms(11)]
  have fits: "0 \<le> bt_budget v" "bt_budget v < 10 ^ 12" "0 \<le> bt_used v" "bt_used v < 10 ^ 12" "0 \<le> bt_invested v"
      "bt_invested v < 10 ^ 12"
    using assms(11) by (auto simp: money_fits_def)
  have pr: "places 12 (bt_budget v - bt_used v)" "places 12 (bt_budget v * bt_allocation v - bt_invested v)"
    using pl c by blast+
  have exact: "dec_fix (bt_budget v - bt_used v) = bt_budget v - bt_used v"
      "dec_fix (bt_budget v * bt_allocation v) = bt_budget v * bt_allocation v"
      "dec_fix (bt_budget v * bt_allocation v - bt_invested v) = bt_budget v * bt_allocation v - bt_invested v"
    using fits c pr by (intro dec_fix_exact12; simp)+
  from b have "sr_quantity sz \<le> dec_fix ((bt_budget v - bt_used v) / bt_entry v)
      \<and> sr_quantity sz \<le> dec_fix ((bt_budget v * bt_allocation v - bt_invested v) / bt_entry v)"
  proof (rule buy_amounts_spec)
    fix volume turnover
    assume rem: "ba_remaining_symbol b = max 0 (dec_fix (dec_fix (bt_budget v * bt_allocation v) - bt_invested v))"
        "ba_remaining_owner b = max 0 (dec_fix (bt_budget v - bt_used v))"
      and cs: "ba_caps b =
       [new_cap RISK_BUDGET (dec_fix (ba_risk_budget b / rpu)),
        new_cap SYMBOL_ALLOCATION (dec_fix (ba_remaining_symbol b / bt_entry v)),
        new_cap OWNER_BUDGET (dec_fix (ba_remaining_owner b / bt_entry v)),
        new_cap AVERAGE_VOLUME (dec_fix (volume * sc_max_average_volume_participation config)),
        new_cap AVERAGE_TURNOVER
          (dec_fix (dec_fix (turnover * sc_max_average_turnover_participation config) / bt_entry v))]"
    have "ba_remaining_symbol b = bt_budget v * bt_allocation v - bt_invested v" "ba_remaining_owner b = bt_budget v - bt_used v"
      using pos unfolding rem exact by (simp_all add: max_def split: if_split_asm)
    with within(2) show ?thesis unfolding cs by (simp add: new_cap_def)
  qed
  note caps = this [THEN conjunct1] this [THEN conjunct2]
  note lots = whole_lots_within [OF within(1) assms(6) within(3) _ assms(10) entry]
  have "sr_quantity sz * bt_entry v \<le> bt_budget v - bt_used v"
    using fits by (intro lots(1) [OF caps(1) pr(1)]) linarith
  moreover have "sr_quantity sz * bt_entry v \<le> bt_budget v * bt_allocation v - bt_invested v"
    using fits c(3) by (intro lots(1) [OF caps(2) pr(2)]) linarith
  moreover have "places 12 (sr_quantity sz * bt_entry v)"
    using fits by (intro lots(2) [OF caps(1) pr(1)]) linarith
  moreover have "0 < sr_quantity sz" using within(3) pow10_pos [of k] by linarith
  ultimately show ?thesis using entry by simp
qed

definition invested_in :: "paper_position option \<Rightarrow> rat" where
  "invested_in position = (case position of None \<Rightarrow> 0 | Some p \<Rightarrow> pp_total_invested p)"

text \<open>The planned quantity is that of the sizer on the book of the market.\<close>

lemma portfolio_planE:
  assumes "make_portfolio_plan cal db owner pr l u config = Inr plan"
    and "settlement_book (Some (pl_market pr)) None = Inr (currency, kind)"
  obtains request sz where "calculate_position_size cal config request = Inr sz" "pp_position_sizing plan = sz"
    "pp_target_quantity plan = sr_quantity sz" "si_action request = py_upper (pl_action pr)" "si_market request = pl_market pr"
    "si_entry_price request = pl_reference_price pr" "si_operating_budget request = DFinite (budget_of l currency)"
    "si_budget_used request = DFinite (us_budget_used u)" "si_max_symbol_allocation request = DFinite (tl_max_symbol_allocation l)"
    "si_current_symbol_invested request
       = DFinite (invested_in (position_of db (owner_account db owner) kind (pl_symbol pr)))"
    "0 \<le> si_account_state_multiplier request" "si_account_state_multiplier request \<le> 1"
    "plan_cash_after (py_upper (pl_action pr)) (budget_of l currency) (us_budget_used u) (sr_quantity sz)
       (pl_reference_price pr) = Inr (pp_cash_after plan)"
proof -
  let ?pos = "position_of db (owner_account db owner) kind (pl_symbol pr)"
  from assms obtain budget request sz cash where b: "operating_budget_for l currency = Inr budget"
    and r: "sizing_input_post_init (plan_sizing_input pr l u budget ?pos) = Inr request"
    and sz: "calculate_position_size cal config request = Inr sz"
    and cash: "plan_cash_after (py_upper (pl_action pr)) budget (us_budget_used u) (sr_quantity sz) (pl_reference_price pr) = Inr cash"
    and plan: "pp_position_sizing plan = sz" "pp_target_quantity plan = sr_quantity sz" "pp_cash_after plan = cash"
    by (auto simp: make_portfolio_plan_def Let_def bindr_eq_Inr)
  note b = operating_budget_for_Inr [OF b]
  from r have "si_action request = py_upper (pl_action pr)" "si_market request = pl_market pr"
    "si_entry_price request = pl_reference_price pr" "si_operating_budget request = DFinite (budget_of l currency)"
    "si_budget_used request = DFinite (us_budget_used u)" "si_max_symbol_allocation request = DFinite (tl_max_symbol_allocation l)"
    "si_current_symbol_invested request = DFinite (invested_in ?pos)"
    "0 \<le> si_account_state_multiplier request" "si_account_state_multiplier request \<le> 1"
    by (auto simp: sizing_input_post_init_def bindr_eq_Inr plan_sizing_input_def invested_in_def b)
  then show thesis by (rule that [OF sz plan(1,2)]) (simp add: cash [unfolded b] plan(3))
qed

text \<open>The checks of one evaluation on a snapshot, over the book of the market.\<close>

lemma budget_check_of:
  assumes "evaluate_hard_risk env db owner r now (Some s) = (db', Inr res)" and "rq_action r = ''BUY''"
    and "settlement_book (Some (rq_market r)) None = Inr (currency, kind)"
    and "map_of (ss_usage_by_currency s) currency = Some u" and "rq_quantity r = DFinite q" and "0 < q"
    and "rq_reference_price r = DFinite p" and "0 < p" and "dmul q p = Inr n"
  obtains ok m where
    "budget_allows (budget_of (ss_limits s) currency) (us_budget_used u) (tl_max_symbol_allocation (ss_limits s))
       (invested_in (position_of db (owner_account db owner) kind (rq_symbol r))) n = Inr ok"
    "max_buy_notional_of (budget_of (ss_limits s) currency) (us_budget_used u) (tl_max_symbol_allocation (ss_limits s))
       (invested_in (position_of db (owner_account db owner) kind (rq_symbol r))) = Inr m"
    "hr_max_buy_notional res = Some m" "\<forall>c\<in>set (hr_checks res). hc_rule c = ''BUDGET'' \<longrightarrow> (hc_passed c \<longleftrightarrow> ok)"
proof -
  from assms(1) have "evaluate_with_snapshot env db owner r now s = (db', Inr res)" by (simp add: evaluate_hard_risk_def)
  then obtain notional f ok m streak where n: "decimal_mul (rq_quantity r) (rq_reference_price r) = Inr notional"
    and f: "book_facts_of env db owner r now s = Inr f" and ok: "budget_passed r f (ss_limits s) notional = Inr ok"
    and m: "max_buy_notional r f (ss_limits s) = Inr m"
    and c: "hr_checks res = risk_checks r f (ss_limits s) notional ok
       (evaluate_account_state_gate (pe_dstr env) (rq_action r) (rq_account_state r)) streak" and mx: "hr_max_buy_notional res = m" and code: "gr_code streak = ''LOSS_STREAK''"
    by (rule evaluate_with_snapshotE) (rule that; assumption)
  have "bf_currency f \<noteq> None" using f assms(3) by (auto simp: book_facts_of_def Let_def bindr_eq_Inr)
  with f obtain currency' kind' where k: "settlement_book (Some (rq_market r)) None = Inr (currency', kind')"
    "bf_currency f = Some currency'"
    "bf_usage f = (case map_of (ss_usage_by_currency s) currency' of None \<Rightarrow> no_usage | Some u \<Rightarrow> u)"
    "bf_operating_budget f = budget_of (ss_limits s) currency'"
    "bf_position f = position_of db (owner_account db owner) kind' (rq_symbol r)"
    by (rule book_factsE) (rule that; assumption)
  have eq: "currency' = currency" "kind' = kind" using k(1) assms(3) by simp_all
  have shape: "valid_shape r (bf_currency f)" using assms k(2) by (simp add: valid_shape_def positive_finite_def)
  have "notional = DFinite n" using n assms(5,7,9) by simp
  with ok shape assms(2,4) k(3-5) have
    "budget_allows (budget_of (ss_limits s) currency) (us_budget_used u) (tl_max_symbol_allocation (ss_limits s))
       (invested_in (position_of db (owner_account db owner) kind (rq_symbol r))) n = Inr ok"
    by (simp add: budget_passed_def eq current_invested_def invested_in_def)
  moreover from m assms(2,4) k obtain m' where "m = Some m'"
    "max_buy_notional_of (budget_of (ss_limits s) currency) (us_budget_used u) (tl_max_symbol_allocation (ss_limits s))
       (invested_in (position_of db (owner_account db owner) kind (rq_symbol r))) = Inr m'"
    by (auto simp: max_buy_notional_def eq current_invested_def invested_in_def bindr_eq_Inr)
  ultimately show thesis
    using mx by (intro that [of ok m']) (simp_all add: c risk_checks_def Let_def code)
qed

text \<open>
  C6: What the sizer plans, the hard risk affords. If a portfolio plan is an actionable BUY and the
  same order is evaluated on the same book with the limits and the usage the plan was made with, then
  the budget check passes and the plan's cash is exactly what the order leaves of the budget. Prices
  have at most eight decimal places, lots at most four, amounts of the book four and less than 10^12.
\<close>

theorem sized_buy_passes_budget:
  assumes "make_portfolio_plan cal db owner pr l u config = Inr plan" and "actionable (pp_position_sizing plan)"
    and "py_upper (pl_action pr) = ''BUY''" and "pl_reference_price pr = DFinite p" and "places 8 p"
    and "lot_size_of config (py_upper (pl_market pr)) = pow10 k" and "- 4 \<le> k" and "k \<le> 0"
    and "settlement_book (Some (pl_market pr)) None = Inr (currency, kind)"
    and "money_fits (budget_of l currency) (us_budget_used u) (tl_max_symbol_allocation l)
           (invested_in (position_of db (owner_account db owner) kind (pl_symbol pr)))"
    and "evaluate_hard_risk env db owner r now (Some s) = (db', Inr res)"
    and "ss_limits s = l" and "map_of (ss_usage_by_currency s) currency = Some u" and "rq_action r = ''BUY''"
    and "rq_market r = pl_market pr" and "rq_symbol r = pl_symbol pr"
    and "rq_quantity r = DFinite (pp_target_quantity plan)" and "rq_reference_price r = DFinite p"
  shows "(\<forall>c\<in>set (hr_checks res). hc_rule c = ''BUDGET'' \<longrightarrow> hc_passed c)
    \<and> pp_cash_after plan = budget_of l currency - us_budget_used u - pp_target_quantity plan * p"
  using assms(1,9)
proof (rule portfolio_planE)
  let ?b = "budget_of l currency" and ?u = "us_budget_used u" and ?a = "tl_max_symbol_allocation l"
    and ?i = "invested_in (position_of db (owner_account db owner) kind (pl_symbol pr))"
  fix request sz
  assume sz: "calculate_position_size cal config request = Inr sz" "pp_position_sizing plan = sz"
      "pp_target_quantity plan = sr_quantity sz"
    and q: "si_action request = py_upper (pl_action pr)" "si_market request = pl_market pr"
      "si_entry_price request = pl_reference_price pr" "si_operating_budget request = DFinite ?b"
      "si_budget_used request = DFinite ?u" "si_max_symbol_allocation request = DFinite ?a"
      "si_current_symbol_invested request = DFinite ?i"
    and m: "0 \<le> si_account_state_multiplier request" "si_account_state_multiplier request \<le> 1"
    and cash: "plan_cash_after (py_upper (pl_action pr)) ?b ?u (sr_quantity sz) (pl_reference_price pr) = Inr (pp_cash_after plan)"
  have act: "actionable sz" "py_upper (si_action request) = ''BUY''"
    using assms(2,3) sz(2) q(1) by (simp_all add: upper_sides)
  obtain v where v: "buy_terms_of request v" using sz(1) act by (rule actionable_buy)
  have t: "bt_entry v = p" "bt_budget v = ?b" "bt_used v = ?u" "bt_allocation v = ?a" "bt_invested v = ?i" "0 < p"
    using v q assms(4) by (auto simp: buy_terms_of_def)
  from sized_buy_cost [OF sz(1) act v _ assms(7,8) m] assms(5,6,10)
  have cost: "?u + sr_quantity sz * p \<le> ?b" "?i + sr_quantity sz * p \<le> ?b * ?a" "places 12 (sr_quantity sz * p)"
      "0 < sr_quantity sz * p" by (simp_all add: t q(2))
  have fits: "0 \<le> ?u" "?b < 10 ^ 12" "0 < sr_quantity sz" "sr_quantity sz * p < 10 ^ 12"
    using assms(10) cost(1,4) t(6) by (auto simp: money_fits_def zero_less_mult_iff)
  note pl = money_fits_places [OF assms(10)]
  have n: "dmul (sr_quantity sz) p = Inr (sr_quantity sz * p)"
    unfolding dmul_def using cost(3,4) fits by (intro dec_ctx_exact12) simp_all
  have allows: "budget_allows ?b ?u ?a ?i (sr_quantity sz * p) = Inr True"
    using budget_allows_exact(1) [OF assms(10) cost(3)] cost fits(4) by simp
  have market: "settlement_book (Some (rq_market r)) None = Inr (currency, kind)" using assms(9,15) by simp
  obtain ok where "budget_allows ?b ?u ?a ?i (sr_quantity sz * p) = Inr ok"
      "\<forall>c\<in>set (hr_checks res). hc_rule c = ''BUDGET'' \<longrightarrow> (hc_passed c \<longleftrightarrow> ok)"
    by (rule budget_check_of [OF assms(11,14) market assms(13) assms(17) [unfolded sz(3)] fits(3) assms(18) t(6) n,
        unfolded assms(12,16)])
  with allows have "\<forall>c\<in>set (hr_checks res). hc_rule c = ''BUDGET'' \<longrightarrow> hc_passed c" by simp
  moreover have "dsub ?b ?u = Inr (?b - ?u)" "dsub (?b - ?u) (sr_quantity sz * p) = Inr (?b - ?u - sr_quantity sz * p)"
    unfolding dsub_def using pl cost fits by (intro dec_ctx_exact12; (intro places_diff)?; simp)+
  then have "pp_cash_after plan = ?b - ?u - pp_target_quantity plan * p"
    using cash cost(1) by (simp add: plan_cash_after_def assms(3,4) n sz(3))
  ultimately show ?thesis by blast
qed

lemma within_max: "0 < n \<Longrightarrow> n \<le> max 0 (min (b - u) (c - i)) \<longleftrightarrow> u + n \<le> b \<and> i + n \<le> c" for n b u c i :: rat
  by (auto simp: le_max_iff_disj)

text \<open>
  The reported maximum is exactly what the budget check admits: for a BUY of positive quantity
  and price, with amounts the context computes with exactly, the check passes if and only if the
  cost does not exceed \<open>max_buy_notional\<close>, the smaller of what is left of the budget and of the symbol's
  share, or zero.
\<close>

theorem max_buy_notional_exact:
  assumes "evaluate_hard_risk env db owner r now (Some s) = (db', Inr res)" and "rq_action r = ''BUY''"
    and "settlement_book (Some (rq_market r)) None = Inr (currency, kind)"
    and "map_of (ss_usage_by_currency s) currency = Some u" and "rq_quantity r = DFinite q" and "0 < q"
    and "rq_reference_price r = DFinite p" and "0 < p" and "places 12 (q * p)" and "q * p < 10 ^ 12"
    and "money_fits (budget_of (ss_limits s) currency) (us_budget_used u) (tl_max_symbol_allocation (ss_limits s))
           (invested_in (position_of db (owner_account db owner) kind (rq_symbol r)))"
  shows "\<exists>m. hr_max_buy_notional res = Some m
    \<and> m = max 0 (min (budget_of (ss_limits s) currency - us_budget_used u)
              (budget_of (ss_limits s) currency * tl_max_symbol_allocation (ss_limits s)
               - invested_in (position_of db (owner_account db owner) kind (rq_symbol r))))
    \<and> (\<forall>c\<in>set (hr_checks res). hc_rule c = ''BUDGET'' \<longrightarrow> (hc_passed c \<longleftrightarrow> q * p \<le> m))"
proof -
  have pos: "0 < q * p" using assms(6,8) by simp
  then have n: "dmul q p = Inr (q * p)" unfolding dmul_def using assms(9,10) by (intro dec_ctx_exact12) simp_all
  note e = budget_allows_exact [OF assms(11,9) less_imp_le [OF pos] assms(10)]
  show ?thesis
  proof (rule budget_check_of [OF assms(1-8) n], goal_cases)
    case (1 ok m)
    with e within_max [OF pos] show ?case by (intro exI [of _ m]) simp
  qed
qed

subsection \<open>Selling\<close>

lemma facts_have_currency:
  assumes "book_facts_of env db owner r now s = Inr f" and "settlement_book (Some (rq_market r)) None = Inr x"
  shows "bf_currency f \<noteq> None"
  using assms by (auto simp: book_facts_of_def Let_def bindr_eq_Inr split: prod.split_asm)

lemma sell_passes:
  assumes "rq_action r = ''SELL''" and "facts_hold env db owner account r now l f currency kind start" and "bf_currency f = Some c"
  shows "position_passed r f l \<and> order_count_passed r f l \<longleftrightarrow>
    (\<exists>q p held. rq_quantity r = DFinite q \<and> 0 < q \<and> rq_reference_price r = DFinite p \<and> 0 < p \<and> rq_base_risk_reasons r = []
      \<and> position_of db (Some account) kind (rq_symbol r) = Some held \<and> q \<le> pp_quantity held
      \<and> below_limit (int (length (orders_since db owner currency start))) (tl_max_orders_per_day l)
      \<and> below_limit (int (length (filter (\<lambda>x. ao_side x = ''SELL'') (orders_since db owner currency start)))) (tl_max_sells_per_day l))"
  using assms
  by (cases "rq_quantity r"; cases "rq_reference_price r"; cases "position_of db (Some account) kind (rq_symbol r)")
     (auto simp: position_passed_def order_count_passed_def valid_shape_def positive_finite_def current_quantity_def
        facts_hold_def Let_def)

text \<open>
  C8: A SELL is only held back by what concerns selling. It passes the hard risk if and only if no
  switch is on, the market has a book, quantity and price are positive, no PAPER risk was reported, the
  holding covers the quantity and the orders and sells of the day are below their limits: the
  budget, the issuer rules, the account state and the loss streak never block it. The hard risk
  reads its own snapshot or is given one that is still current.
\<close>

theorem hard_risk_sell_iff:
  assumes "evaluate_hard_risk env db owner r now snapshot = (db', Inr res)" and "rq_action r = ''SELL''"
    and "owner_account db owner = Some account" and "current_snapshot env db owner now snapshot"
  shows "hr_passed res \<longleftrightarrow>
    (\<exists>mode l currency kind start q p held.
       decode_setting (map_option st_value (map_of (pd_settings db) owner)) = Inr (mode, l)
     \<and> \<not> tl_kill_switch l \<and> \<not> owner_stopped db owner \<and> \<not> all_stopped db
     \<and> settlement_book (Some (rq_market r)) None = Inr (currency, kind)
     \<and> trading_day_start (pe_tz env) now currency = Inr start
     \<and> rq_quantity r = DFinite q \<and> 0 < q \<and> rq_reference_price r = DFinite p \<and> 0 < p \<and> rq_base_risk_reasons r = []
     \<and> position_of db (Some account) kind (rq_symbol r) = Some held \<and> q \<le> pp_quantity held
     \<and> below_limit (int (length (orders_since db owner currency start))) (tl_max_orders_per_day l)
     \<and> below_limit (int (length (filter (\<lambda>x. ao_side x = ''SELL'') (orders_since db owner currency start)))) (tl_max_sells_per_day l))"
  using assms(1,4)
proof (rule hard_risk_run)
  fix current mode l krw usd s f notional budget_ok
  assume now: "policy_aware_utc now = Inr current"
    and d: "decode_setting (map_option st_value (map_of (pd_settings db) owner)) = Inr (mode, l)" and l: "ss_limits s = l"
    and u: "usage (pe_tz env) db owner (Aware current) ''KRW'' = Inr krw" "usage (pe_tz env) db owner (Aware current) ''USD'' = Inr usd"
      "ss_usage_by_currency s = [(''KRW'', krw), (''USD'', usd)]"
    and f: "book_facts_of env db owner r now s = Inr f" and b: "budget_passed r f l notional = Inr budget_ok"
    and "hr_passed res \<longleftrightarrow> \<not> (tl_kill_switch l \<or> owner_stopped db owner \<or> all_stopped db)
       \<and> ag_passed (evaluate_account_state_gate (pe_dstr env) (rq_action r) (rq_account_state r))
       \<and> budget_ok \<and> position_passed r f l \<and> order_count_passed r f l
       \<and> (rq_action r = ''BUY'' \<longrightarrow> bf_issuer_held f = 0 \<and> bf_issuer_buys f < 1)"
  moreover have "budget_ok" using b assms(2) by (simp add: budget_passed_def)
  ultimately have iff: "hr_passed res \<longleftrightarrow> (\<not> tl_kill_switch l \<and> \<not> owner_stopped db owner \<and> \<not> all_stopped db)
      \<and> position_passed r f l \<and> order_count_passed r f l"
    using assms(2) by (auto simp: gate_passes_sell upper_sides)
  show ?thesis
  proof (cases "bf_currency f")
    case None
    then have "\<not> position_passed r f l" by (simp add: position_passed_def valid_shape_def)
    with iff None facts_have_currency [OF f] show ?thesis by auto
  next
    case (Some c)
    then obtain currency kind start where k: "facts_hold env db owner account r now l f currency kind start"
      using facts_holdE [OF now u f assms(3)] l by auto
    from sell_passes [OF assms(2) k Some] iff d k show ?thesis by (auto simp: facts_hold_def)
  qed
qed

end
