(* ===== verification/Policy_Runs.thy ===== *)
theory Policy_Runs
  imports Hard_Risk_Runs
begin

text \<open>
  Runs of the policy: changing a setting and reading it back, the orders of a trading day that were
  all admitted by the hard risk, and the examples that instantiate the theorems of the policy.
\<close>

subsection \<open>Changing a setting\<close>

definition stored_limits :: "policy_db \<Rightarrow> int \<Rightarrow> ai_trading_limits result" where
  "stored_limits db owner =
     (case map_of (pd_settings db) owner of
        Some r \<Rightarrow> bindr (decode_setting (Some (st_value r))) (\<lambda>(_, stored). Inr stored)
      | None \<Rightarrow> new_limits default_limits_args)"

text \<open>The new limits with the stored budget of the other currency.\<close>

definition with_stored_budget :: "ai_trading_limits \<Rightarrow> ai_trading_limits \<Rightarrow> ai_trading_limits" where
  "with_stored_budget l stored =
     (if tl_currency l = ''KRW'' then l\<lparr>tl_operating_budget_usd := tl_operating_budget_usd stored\<rparr>
      else l\<lparr>tl_operating_budget_krw := tl_operating_budget_krw stored\<rparr>)"

lemma stored_limits_ok: "stored_limits db owner = Inr stored \<Longrightarrow> limits_ok stored"
  by (auto simp: stored_limits_def bindr_eq_Inr split: option.split_asm intro: new_limits_ok decoded_ok)

lemma limits_ok_other_budget:
  "0 < x \<Longrightarrow> 0 < tl_operating_budget_usd l \<Longrightarrow> limits_ok (l\<lparr>tl_operating_budget_usd := x\<rparr>) \<longleftrightarrow> limits_ok l"
  "0 < x \<Longrightarrow> 0 < tl_operating_budget_krw l \<Longrightarrow> limits_ok (l\<lparr>tl_operating_budget_krw := x\<rparr>) \<longleftrightarrow> limits_ok l"
  by (simp_all add: limits_ok_def bounded_level_def)

lemma merged_ok:
  assumes "limits_ok l" and "limits_ok stored"
  shows "limits_ok (with_stored_budget l stored)"
proof -
  have "0 < tl_operating_budget_usd l" "0 < tl_operating_budget_krw l" "0 < tl_operating_budget_usd stored"
    "0 < tl_operating_budget_krw stored" using assms by (simp_all add: limits_ok_def)
  with assms(1) show ?thesis by (simp add: with_stored_budget_def limits_ok_other_budget)
qed

lemma merge_budgets_eq:
  assumes "limits_ok l" and "limits_ok stored"
  shows "merge_budgets l stored = Inr (with_stored_budget l stored)"
proof -
  have "merge_budgets l stored = new_limits (limits_args_of (with_stored_budget l stored))"
    by (simp add: merge_budgets_def with_stored_budget_def limits_args_of_def)
  with new_limits_rebuilds [OF merged_ok [OF assms]] show ?thesis by simp
qed

lemma save_state_effect:
  assumes "save_state clock db owner old new = (db', state)"
  shows "map_of (pd_states db') o' = (if o' = owner then Some state else map_of (pd_states db) o')"
    "rt_kill_switch_enabled state = rt_kill_switch_enabled new" "same_book db db'" "pd_settings db' = pd_settings db"
    "pd_global db' = pd_global db"
  using assms by (auto simp: save_state_def Let_def update_conv' same_book_def split: if_split_asm)

lemma same_book_trans: "same_book a b \<Longrightarrow> same_book b c \<Longrightarrow> same_book a c"
  by (simp add: same_book_def)

lemma get_state_others:
  assumes "get_state clock db owner = (db', state)" and "o' \<noteq> owner"
  shows "map_of (pd_states db') o' = map_of (pd_states db) o'"
  using assms by (auto simp: get_state_def Let_def update_conv' split: option.split_asm)

text \<open>What is stored before the closing snapshot is read.\<close>

lemma put_snapshot_stores:
  assumes "policy_aware_utc now = Inr current" and "limits_ok l" and "stored_limits db owner = Inr stored"
  obtains db3 where "put_snapshot env db owner mode l now = get_snapshot env db3 owner (Aware current) 20" "same_book db db3"
    "map_option st_value (map_of (pd_settings db3) owner)
       = Some (setting_payload (pe_dstr env) mode (with_stored_budget l stored))"
    "owner_stopped db3 owner \<longleftrightarrow> tl_kill_switch l" "all_stopped db3 = all_stopped db"
    "\<forall>o'. o' \<noteq> owner \<longrightarrow> map_of (pd_settings db3) o' = map_of (pd_settings db) o'"
proof -
  obtain db1 state where st: "get_state (pe_clock env) db owner = (db1, state)" by force
  note e = get_state_effect [OF st]
  have book1: "same_book db db1" using e by (simp add: same_book_def)
  let ?l = "with_stored_budget l stored" and ?row = "map_of (pd_settings db) owner"
  have m: "bindr (case ?row of Some r \<Rightarrow> bindr (decode_setting (Some (st_value r))) (\<lambda>(_, stored). Inr stored)
      | None \<Rightarrow> new_limits default_limits_args) (merge_budgets l) = Inr ?l"
    using merge_budgets_eq [OF assms(2) stored_limits_ok [OF assms(3)]] assms(3) by (simp add: stored_limits_def)
  let ?p = "setting_payload (pe_dstr env) mode ?l"
  let ?row' = "case ?row of Some r \<Rightarrow> if st_value r = ?p then r else \<lparr>st_value = ?p, st_updated_at = pe_clock env\<rparr>
      | None \<Rightarrow> \<lparr>st_value = ?p, st_updated_at = pe_clock env\<rparr>"
  let ?db2 = "db1\<lparr>pd_settings := AList.update owner ?row' (pd_settings db1)\<rparr>"
  obtain db3 state' where sv: "save_state (pe_clock env) ?db2 owner state
      (state\<lparr>rt_trading_mode := ''PAPER'', rt_kill_switch_enabled := tl_kill_switch ?l\<rparr>) = (db3, state')" by force
  note f = save_state_effect [OF sv]
  have row: "st_value ?row' = ?p" by (simp split: option.split)
  have kill: "tl_kill_switch ?l = tl_kill_switch l" by (simp add: with_stored_budget_def)
  have run: "put_snapshot env db owner mode l now = get_snapshot env db3 owner (Aware current) 20"
    using sv unfolding put_snapshot_def assms(1) st sum.case prod.case Let_def e(5) m by simp
  show thesis
  proof (rule that [OF run])
    show "same_book db db3" using book1 f(3) by (simp add: same_book_def)
    show "map_option st_value (map_of (pd_settings db3) owner) = Some ?p" using row by (simp add: f(4) update_conv')
    show "owner_stopped db3 owner \<longleftrightarrow> tl_kill_switch l" by (simp add: owner_stopped_def f(1,2) kill)
    show "all_stopped db3 = all_stopped db" by (simp add: all_stopped_def f(5) e(7))
    show "\<forall>o'. o' \<noteq> owner \<longrightarrow> map_of (pd_settings db3) o' = map_of (pd_settings db) o'" by (simp add: f(4) update_conv' e(5))
  qed
qed

text \<open>
  C31: A changed setting is what is read afterwards. Putting accepted limits whose amounts are read
  back from their text stores the mode and the limits, keeping the budget of the other currency as it
  was stored; the snapshot returned shows them, its kill switch is the new one or the global one,
  and neither the book nor the setting of another owner changes.
\<close>

theorem put_setting_read_back:
  assumes "put_snapshot env db owner mode l now = (db', Inr s)" and "new_limits a = Inr l"
    and "stored_limits db owner = Inr stored" and "readable (pe_dstr env) (with_stored_budget l stored)"
  shows "ss_mode s = mode \<and> ss_limits s = with_stored_budget l stored
    \<and> (ss_kill_switch s \<longleftrightarrow> tl_kill_switch l \<or> all_stopped db) \<and> same_book db db'
    \<and> decode_setting (map_option st_value (map_of (pd_settings db') owner)) = Inr (mode, with_stored_budget l stored)
    \<and> (\<forall>o'. o' \<noteq> owner \<longrightarrow> map_of (pd_settings db') o' = map_of (pd_settings db) o')"
proof -
  note ok = new_limits_ok [OF assms(2)]
  from assms(1) obtain current where now: "policy_aware_utc now = Inr current"
    by (auto simp: put_snapshot_def split: sum.split_asm)
  obtain db3 where put: "put_snapshot env db owner mode l now = get_snapshot env db3 owner (Aware current) 20" and p: "same_book db db3"
    "map_option st_value (map_of (pd_settings db3) owner) = Some (setting_payload (pe_dstr env) mode (with_stored_budget l stored))"
    "owner_stopped db3 owner \<longleftrightarrow> tl_kill_switch l" "all_stopped db3 = all_stopped db"
    "\<forall>o'. o' \<noteq> owner \<longrightarrow> map_of (pd_settings db3) o' = map_of (pd_settings db) o'"
    by (rule put_snapshot_stores [OF now ok assms(3)])
  have run: "get_snapshot env db3 owner (Aware current) 20 = (db', Inr s)" using assms(1) put by simp
  have "decode_setting (Some (setting_payload (pe_dstr env) mode (with_stored_budget l stored)))
      = Inr (mode, with_stored_budget l stored)"
    by (rule payload_read_back [OF merged_ok [OF ok stored_limits_ok [OF assms(3)]] assms(4)])
  with p(2) have d: "decode_setting (map_option st_value (map_of (pd_settings db3) owner)) = Inr (mode, with_stored_budget l stored)"
    by (simp only:)
  from run show ?thesis
  proof (rule get_snapshotE, goal_cases)
    case (1 current' mode' limits krw usd)
    moreover have "tl_kill_switch (with_stored_budget l stored) = tl_kill_switch l" by (simp add: with_stored_budget_def)
    ultimately show ?case using d p same_book_trans by auto
  qed
qed

subsection \<open>The orders of a day\<close>

text \<open>The order row of a request on the book of a currency.\<close>

definition order_of :: "risk_request \<Rightarrow> int \<Rightarrow> string \<Rightarrow> android_order \<Rightarrow> bool" where
  "order_of r owner currency x \<longleftrightarrow>
     ao_owner_user_id x = owner \<and> ao_market x = rq_market r \<and> ao_symbol x = rq_symbol r \<and> ao_side x = rq_action r
     \<and> ao_currency x = currency \<and> (\<exists>kind. settlement_book (Some (rq_market r)) None = Inr (currency, kind))"

text \<open>
  Tables on which every order of the owner since the start of the day was admitted by the hard risk
  when it was written: the day opens without orders, an admitted order is appended, and anything
  else may happen that leaves these orders alone.
\<close>

inductive admitted_day :: "tz_database \<Rightarrow> int \<Rightarrow> string \<Rightarrow> instant \<Rightarrow> policy_db \<Rightarrow> bool" for tz owner currency start where
  day_opens: "orders_since db owner currency start = [] \<Longrightarrow> admitted_day tz owner currency start db"
| order_admitted: "admitted_day tz owner currency start db \<Longrightarrow> pe_tz env = tz
    \<Longrightarrow> evaluate_hard_risk env db owner r now snapshot = (db', Inr res) \<Longrightarrow> hr_passed res
    \<Longrightarrow> current_snapshot env db owner now snapshot
    \<Longrightarrow> trading_day_start tz now currency = Inr start \<Longrightarrow> order_of r owner currency x
    \<Longrightarrow> admitted_day tz owner currency start (db'\<lparr>pd_orders := pd_orders db' @ [x]\<rparr>)"
| orders_kept: "admitted_day tz owner currency start db
    \<Longrightarrow> orders_since db' owner currency start = orders_since db owner currency start
    \<Longrightarrow> admitted_day tz owner currency start db'"

inductive_cases admitted_dayE: "admitted_day tz owner currency start db"

definition buys_since :: "policy_db \<Rightarrow> int \<Rightarrow> string \<Rightarrow> instant \<Rightarrow> android_order list" where
  "buys_since db owner currency start = filter (\<lambda>x. ao_side x = ''BUY'') (orders_since db owner currency start)"

lemma buys_append:
  "buys_since (db\<lparr>pd_orders := pd_orders db @ [x]\<rparr>) owner currency start
    = buys_since db owner currency start
      @ (if ao_owner_user_id x = owner \<and> ao_currency x = currency \<and> start \<le> ao_created_at x \<and> ao_side x = ''BUY'' then [x] else [])"
  by (simp add: buys_since_def orders_since_def)

lemma admitted_buy_is_first:
  assumes "evaluate_hard_risk env db owner r now snapshot = (db', Inr res)" and "hr_passed res"
    and "current_snapshot env db owner now snapshot" and "rq_action r = ''BUY''"
    and "trading_day_start (pe_tz env) now currency = Inr start" and "settlement_book (Some (rq_market r)) None = Inr (currency, kind)"
  shows "\<forall>x\<in>set (buys_since db owner currency start). \<not> issuer_symbol_filter (rq_market r) (rq_symbol r) (ao_symbol x)"
  using assms(1,3)
proof (rule hard_risk_run)
  fix current mode l krw usd s f notional budget_ok
  assume f: "book_facts_of env db owner r now s = Inr f"
    and "hr_passed res \<longleftrightarrow> \<not> (tl_kill_switch l \<or> owner_stopped db owner \<or> all_stopped db)
       \<and> ag_passed (evaluate_account_state_gate (pe_dstr env) (rq_action r) (rq_account_state r))
       \<and> budget_ok \<and> position_passed r f l \<and> order_count_passed r f l
       \<and> (rq_action r = ''BUY'' \<longrightarrow> bf_issuer_held f = 0 \<and> bf_issuer_buys f < 1)"
  with assms(2,4) have n: "bf_issuer_buys f < 1" by simp
  from f facts_have_currency [OF f assms(6)] obtain currency' kind' start'
    where "settlement_book (Some (rq_market r)) None = Inr (currency', kind')"
      "trading_day_start (pe_tz env) now currency' = Inr start'"
      "rq_action r = ''BUY'' \<longrightarrow> bf_issuer_held f = same_issuer_held db (owner_account db owner) kind' (rq_market r) (rq_symbol r)
       \<and> bf_issuer_buys f = same_issuer_buys db owner currency' (rq_market r) (rq_symbol r) start'"
    by (rule book_factsE) (rule that; assumption)
  with assms(4-6) n have "same_issuer_buys db owner currency (rq_market r) (rq_symbol r) start < 1" by simp
  then show ?thesis unfolding same_issuer_buys_def none_counted buys_since_def by auto
qed

lemma same_book_buys: "same_book db db' \<Longrightarrow> buys_since db' = buys_since db"
  by (simp add: buys_since_def fun_eq_iff same_book_views)

definition one_per_issuer :: "string \<Rightarrow> android_order list \<Rightarrow> bool" where
  "one_per_issuer currency xs \<longleftrightarrow>
     (\<forall>x\<in>set xs. \<exists>kind. settlement_book (Some (ao_market x)) None = Inr (currency, kind))
     \<and> sorted_wrt (\<lambda>x y. \<not> issuer_symbol_filter (ao_market y) (ao_symbol y) (ao_symbol x)) xs"

lemma admitted_day_one_per_issuer:
  "admitted_day tz owner currency start db \<Longrightarrow> one_per_issuer currency (buys_since db owner currency start)"
proof (induction rule: admitted_day.induct)
  case (day_opens db)
  then show ?case by (simp add: buys_since_def one_per_issuer_def)
next
  case (order_admitted db env r now snapshot db' res x)
  obtain kind where k: "settlement_book (Some (rq_market r)) None = Inr (currency, kind)"
    using order_admitted.hyps(7) by (auto simp: order_of_def)
  have "same_book db db'" using order_admitted.hyps(3,5) by (rule hard_risk_run)
  note buys = same_book_buys [OF this]
  have "\<forall>y\<in>set (buys_since db owner currency start). \<not> issuer_symbol_filter (ao_market x) (ao_symbol x) (ao_symbol y)"
    if "ao_side x = ''BUY''"
    using admitted_buy_is_first [OF order_admitted.hyps(3,4,5) _ _ k] order_admitted.hyps(2,6,7) that by (simp add: order_of_def)
  with order_admitted.IH order_admitted.hyps(7) k show ?case
    by (auto simp: buys_append buys one_per_issuer_def sorted_wrt_append order_of_def)
next
  case (orders_kept db db')
  then show ?case by (simp add: buys_since_def)
qed

lemma distinct_map_pairwise: "sorted_wrt (\<lambda>x y. f x \<noteq> f y) xs \<Longrightarrow> distinct (map f xs)"
  by (induction xs) auto

lemma book_market_unique:
  "settlement_book (Some m) None = Inr (c, k) \<Longrightarrow> settlement_book (Some m') None = Inr (c, k') \<Longrightarrow> m = m'"
  by (auto simp: settlement_market)

lemma issuer_filter_iff_key:
  assumes "market = ''KRX'' \<longrightarrow> length s = 6 \<and> length t = 6"
  shows "issuer_symbol_filter market s t \<longleftrightarrow> issuer_group_key market s = issuer_group_key market t"
proof -
  have "take 5 s \<noteq> s" if "length s = 6"
  proof
    assume "take 5 s = s"
    then have "length (take 5 s) = length s" by simp
    with that show False by simp
  qed
  with assms show ?thesis by (auto simp: issuer_symbol_filter_def issuer_group_key_def)
qed

text \<open>
  C7: A trading day never has two BUY orders of one issuer. When every order of an owner since the
  start of the day was admitted by the hard risk on the tables it was written to, the issuer keys of
  the day's BUY orders are pairwise distinct, whatever else happens between them. Each admission
  reads its own snapshot or is given one that is still current. KRX codes have six characters.
\<close>

theorem one_buy_per_issuer_and_day:
  assumes "admitted_day tz owner currency start db"
    and "\<forall>x\<in>set (buys_since db owner currency start). ao_market x = ''KRX'' \<longrightarrow> length (ao_symbol x) = 6"
  shows "distinct (map (\<lambda>x. issuer_group_key (ao_market x) (ao_symbol x)) (buys_since db owner currency start))"
proof -
  let ?xs = "buys_since db owner currency start"
  note one = admitted_day_one_per_issuer [OF assms(1), unfolded one_per_issuer_def]
  have "ao_market x = ao_market y" if "x \<in> set ?xs" "y \<in> set ?xs" for x y
    using one that book_market_unique by blast
  then have "issuer_group_key (ao_market x) (ao_symbol x) \<noteq> issuer_group_key (ao_market y) (ao_symbol y)"
    if "x \<in> set ?xs" "y \<in> set ?xs" "\<not> issuer_symbol_filter (ao_market y) (ao_symbol y) (ao_symbol x)" for x y
    using that assms(2) issuer_filter_iff_key by metis
  then have "sorted_wrt (\<lambda>x y. issuer_group_key (ao_market x) (ao_symbol x) \<noteq> issuer_group_key (ao_market y) (ao_symbol y)) ?xs"
    using one by (intro sorted_wrt_mono_rel [of ?xs, OF _ one [THEN conjunct2]]) blast
  then show ?thesis by (rule distinct_map_pairwise)
qed

subsection \<open>Stopping\<close>

lemma passed_needs_switches:
  assumes "evaluate_hard_risk env db owner r now snapshot = (db', Inr res)" and "hr_passed res"
    and "current_snapshot env db owner now snapshot"
  shows "\<not> owner_stopped db owner" "\<not> all_stopped db"
  using assms by (auto elim!: hard_risk_run)

lemma allowed_needs_switches:
  assumes "assert_order_allowed enabled clock db owner = (db', Inr state)"
  shows "\<not> owner_stopped db owner" "\<not> all_stopped db" and "enabled"
proof -
  obtain db1 global where gl: "get_global clock db = (db1, global)" by force
  obtain db2 state' where st: "get_state clock db1 owner = (db2, state')" by force
  note e = get_global_effect [OF gl] get_state_effect [OF st]
  have off: "\<not> gl_kill_switch_enabled global" "\<not> rt_kill_switch_enabled state'" and "enabled"
    using assms by (auto simp: assert_order_allowed_def gl st split: if_split_asm)
  from \<open>enabled\<close> show enabled .
  from e(8) off show "\<not> all_stopped db" by (auto simp: all_stopped_def)
  from e(2,16) off show "\<not> owner_stopped db owner" by (auto simp: owner_stopped_def)
qed

lemma switched_on:
  "set_user_kill_switch clock db owner True = (db', state) \<Longrightarrow> owner_stopped db' owner"
  "set_global_kill_switch clock db True = (db', global) \<Longrightarrow> all_stopped db'"
  by (auto simp: set_user_kill_switch_def owner_stopped_def save_state_effect split: prod.split_asm)
     (auto simp: set_global_kill_switch_def all_stopped_def Let_def split: prod.split_asm if_split_asm)

text \<open>
  C30: A kill switch stops every order. After the owner's or the global switch was turned on, no
  order of that owner is allowed by the runtime check, and none passes the hard risk, whatever its
  side, for as long as the switches are as they were left and the hard risk is not given a snapshot
  that is no longer current.
\<close>

theorem kill_switch_stops_orders:
  assumes "set_user_kill_switch clock db owner True = (db', state) \<or> set_global_kill_switch clock db True = (db', global)"
    and "pd_states db1 = pd_states db'" and "pd_global db1 = pd_global db'"
  shows "(\<forall>enabled clock' db2 x. assert_order_allowed enabled clock' db1 owner \<noteq> (db2, Inr x))
    \<and> (\<forall>env r now snapshot db2 res. current_snapshot env db1 owner now snapshot
         \<longrightarrow> evaluate_hard_risk env db1 owner r now snapshot = (db2, Inr res) \<longrightarrow> \<not> hr_passed res)"
proof -
  have "owner_stopped db1 owner \<or> all_stopped db1"
    using assms(1) switched_on assms(2,3) by (auto simp: owner_stopped_def all_stopped_def)
  then show ?thesis by (auto dest: passed_needs_switches allowed_needs_switches)
qed

subsection \<open>Where an execution came from\<close>

text \<open>The loop over the events keeps, for every order, the origin of its first event if that is known.\<close>

definition first_events :: "(string option \<times> string) list \<Rightarrow> string \<rightharpoonup> string" where
  "first_events rows = map_of (List.map_filter (\<lambda>(i, origin). map_option (\<lambda>i. (i, origin)) i) rows)"

lemma first_events_simps [simp]:
  "first_events [] = Map.empty" "first_events ((None, origin) # rows) = first_events rows"
  "first_events ((Some i, origin) # rows) = (first_events rows)(i \<mapsto> origin)"
  by (simp_all add: first_events_def map_filter_simps)

lemma origins_loop_first_event:
  "origins_loop ids origins rows = (ids \<union> dom (first_events rows),
     \<lambda>i. if i \<in> ids then origins i
         else case first_events rows i of
                None \<Rightarrow> origins i | Some origin \<Rightarrow> if origin \<in> set execution_origins then Some origin else origins i)"
  by (induction ids origins rows rule: origins_loop.induct) (auto simp: fun_eq_iff split: option.split if_split_asm)

end
