(* ===== verification/Policy_Examples.thy ===== *)
theory Policy_Examples
  imports Policy_Runs
begin

text \<open>
  Instances of the theorems on the owner policy: an owner with default limits, a holding of thirty
  shares, a clock nine hours ahead of UTC, a BUY of another issuer, a SELL of the holding and the
  sized BUY of the sizer's own example.
\<close>

subsection \<open>Limits\<close>

definition default_limits :: ai_trading_limits where
  "default_limits =
     \<lparr>tl_risk_level = 2, tl_operating_budget_krw = 10000000, tl_operating_budget_usd = 10000, tl_daily_target_rate_pct = 1 / 2,
      tl_max_daily_loss_rate_pct = 1, tl_risk_per_trade_rate = 5 / 1000, tl_custom_max_buys_per_day = None,
      tl_custom_max_sells_per_day = None, tl_max_buys_per_day = Some 2, tl_max_sells_per_day = Some 1,
      tl_max_orders_per_day = Some 3, tl_max_custom_buys_per_day = Some 8, tl_max_custom_sells_per_day = Some 16,
      tl_max_custom_orders_per_day = Some 24, tl_max_symbol_allocation = 15 / 100, tl_max_concurrent_holdings = Some 4,
      tl_same_symbol_reentry_limit = Some 1, tl_kill_switch = False, tl_currency = ''KRW''\<rparr>"

lemma default_limits_built: "new_limits default_limits_args = Inr default_limits"
  by (simp add: new_limits_def default_limits_args_def default_risk_level_def check_risk_level_def preset_levels preset_of_def
      risk_presets_def currency_upper settlement_book_def positive_decimal_of_def decimal_or_zero_def
      default_operating_budget_krw_def default_operating_budget_usd_def rate_or_preset_def daily_counts_of_def
      optional_daily_limit_def json_count_def strict_bool_def default_limits_def Let_def)

lemma default_setting: "decode_setting None = Inr (APPROVAL, default_limits)"
  by (simp add: decode_setting_def default_limits_built)

text \<open>Texts with one digit after the point.\<close>

definition tenths :: "rat \<Rightarrow> string" where
  "tenths = decimal_text (\<lambda>_. - 1)"

lemma tenths_read_back:
  assumes "q * 10 = of_int n"
  shows "reads_back tenths q"
proof -
  have "q / pow10 (- 1) = of_int n" using assms by (simp add: power_int_minus)
  then have "tenths q = plain_text n (- 1)" by (simp add: tenths_def decimal_text_def)
  moreover have "of_int n * pow10 (- 1) = q" using assms [symmetric] by (simp add: power_int_minus)
  ultimately have "parse_decimal (py_strip (tenths q)) = Some (DFinite q)" using parse_plain_text [of n "- 1"] by simp
  then show ?thesis by (simp add: reads_back_def parse_decimal_def)
qed

lemma default_limits_readable: "readable tenths default_limits"
  unfolding readable_def default_limits_def
  by (simp add: tenths_read_back [of 10000000 100000000] tenths_read_back [of 10000 100000] tenths_read_back [of "1 / 2" 5]
      tenths_read_back [of 1 10])

theorem limits_well_formed_witness:
  "limits_ok default_limits \<and> new_limits (limits_args_of default_limits) = Inr default_limits"
  using limits_well_formed [of default_limits] default_limits_built by blast

theorem setting_round_trip_witness:
  "decode_setting (Some (setting_payload tenths AUTO_PAPER default_limits)) = Inr (AUTO_PAPER, default_limits)"
  by (rule setting_round_trip [OF default_limits_built default_limits_readable])

subsection \<open>Tables\<close>

definition korean_clock :: tz_database where
  "korean_clock = \<lparr>tz_offset = (\<lambda>_ _. 9 * 3600 * 1000000), tz_wall_offset = (\<lambda>_ _. 9 * 3600 * 1000000)\<rparr>"

definition example_env :: policy_env where
  "example_env = \<lparr>pe_tz = korean_clock, pe_cal = daily_calendar, pe_dstr = tenths, pe_clock = 0\<rparr>"

definition example_holding :: paper_position where
  "example_holding = \<lparr>pp_id = 1, pp_instrument_type = ''equity_kr'', pp_quantity = 30, pp_avg_price = 0, pp_total_invested = 0\<rparr>"

definition example_db :: policy_db where
  "example_db =
     \<lparr>pd_links = [(1, 1)], pd_orders = [],
      pd_ledger = \<lparr>ld_accounts = [], ld_positions = [((1, ''005930''), example_holding)], ld_trades = [], ld_managed = [],
        ld_next_id = 2\<rparr>,
      pd_locks = Map.empty, pd_recommendations = [], pd_events = [], pd_symbols = [], pd_settings = [], pd_states = [],
      pd_global = None\<rparr>"

lemma day_start: "trading_day_start korean_clock (Aware 0) ''KRW'' = Inr (- 32400000000)"
    "trading_day_start korean_clock (Aware 0) ''USD'' = Inr (- 32400000000)"
  by (simp_all add: trading_day_start_def policy_aware_utc_def settlement_book_def korean_clock_def Let_def)

lemma example_account: "owner_account example_db 1 = Some 1"
  by (simp add: owner_account_def example_db_def)

lemma example_open_positions:
  "open_positions example_db 1 ''equity_kr'' = [(''005930'', example_holding)]" "open_positions example_db 1 ''equity_us'' = []"
  by (simp_all add: open_positions_def example_db_def example_holding_def)

lemma dec_ctx_zero: "dec_ctx 0 = Inr 0"
  by (rule dec_ctx_exact) simp_all

lemma example_usage:
  "usage korean_clock example_db 1 (Aware 0) ''KRW'' = Inr (no_usage\<lparr>us_concurrent_holdings := 1\<rparr>)"
  "usage korean_clock example_db 1 (Aware 0) ''USD'' = Inr no_usage"
  by (simp_all add: usage_def settlement_book_def example_account day_start Let_def example_open_positions dec_ctx_zero
      orders_since_def realized_since_def no_usage_def example_holding_def) (simp_all add: example_db_def dec_ctx_zero)

subsection \<open>Runs\<close>

lemma evaluate_returns:
  assumes "decimal_mul (rq_quantity r) (rq_reference_price r) = Inr notional" and "book_facts_of env db owner r now s = Inr f"
    and "budget_passed r f (ss_limits s) notional = Inr ok" and "max_buy_notional r f (ss_limits s) = Inr m"
  shows "\<exists>db' res. evaluate_with_snapshot env db owner r now s = (db', Inr res)
    \<and> (hr_passed res \<longleftrightarrow> \<not> ss_kill_switch s \<and> ag_passed (evaluate_account_state_gate (pe_dstr env) (rq_action r) (rq_account_state r))
         \<and> ok \<and> position_passed r f (ss_limits s) \<and> order_count_passed r f (ss_limits s)
         \<and> (rq_action r = ''BUY'' \<longrightarrow> bf_issuer_held f = 0 \<and> bf_issuer_buys f < 1))"
  using assms by (simp add: evaluate_with_snapshot_def Let_def risk_checks_passed split: prod.split)

lemma snapshot_returns:
  assumes "policy_aware_utc now = Inr current"
    and "decode_setting (map_option st_value (map_of (pd_settings db) owner)) = Inr (mode, l)"
    and "usage (pe_tz env) db owner (Aware current) ''KRW'' = Inr krw" and "usage (pe_tz env) db owner (Aware current) ''USD'' = Inr usd"
  shows "\<exists>db' s. get_snapshot env db owner now n = (db', Inr s)"
proof -
  obtain db1 state where st: "get_state (pe_clock env) db owner = (db1, state)" by force
  obtain db2 global where gl: "get_global (pe_clock env) db1 = (db2, global)" by force
  have "same_book db db2" using get_state_effect [OF st] get_global_effect [OF gl] by (simp add: same_book_def)
  with assms show ?thesis by (simp add: get_snapshot_def st gl same_book_views Let_def)
qed

lemma example_snapshot:
  "\<exists>db1 s. get_snapshot example_env example_db 1 (Aware 0) n = (db1, Inr s) \<and> same_book example_db db1 \<and> ss_limits s = default_limits
    \<and> \<not> ss_kill_switch s \<and> ss_usage_by_currency s = [(''KRW'', no_usage\<lparr>us_concurrent_holdings := 1\<rparr>), (''USD'', no_usage)]"
proof -
  have off: "\<not> owner_stopped example_db 1" "\<not> all_stopped example_db" by (simp_all add: owner_stopped_def all_stopped_def example_db_def)
  have now: "policy_aware_utc (Aware 0) = Inr 0" by (simp add: policy_aware_utc_def)
  have tz: "pe_tz example_env = korean_clock" by (simp add: example_env_def)
  have d: "decode_setting (map_option st_value (map_of (pd_settings example_db) 1)) = Inr (APPROVAL, default_limits)"
    by (simp add: example_db_def default_setting)
  obtain db1 s where run: "get_snapshot example_env example_db 1 (Aware 0) n = (db1, Inr s)"
    using snapshot_returns [OF now d, of example_env, unfolded tz, OF example_usage] by blast
  then show ?thesis
  proof (rule get_snapshotE, goal_cases)
    case 1
    with run d now off example_usage show ?case by (auto simp: example_env_def default_limits_def)
  qed
qed

definition example_request :: "string \<Rightarrow> string \<Rightarrow> rat \<Rightarrow> rat \<Rightarrow> risk_request" where
  "example_request action symbol q p =
     \<lparr>rq_action = action, rq_market = ''KRX'', rq_symbol = symbol, rq_quantity = DFinite q, rq_reference_price = DFinite p,
      rq_ai_confidence = DFinite 1, rq_ai_review_status = None, rq_base_risk_reasons = [], rq_account_state = None\<rparr>"

lemma example_position:
  "position_of example_db (Some 1) ''equity_kr'' ''005930'' = Some example_holding"
  "position_of example_db (Some 1) ''equity_kr'' ''000660'' = None"
  by (simp_all add: position_of_def example_open_positions)

lemma example_orders: "orders_since example_db owner currency start = []"
  by (simp add: orders_since_def example_db_def)

text \<open>The facts of a request on the example, for a snapshot that agrees with it.\<close>

definition example_facts :: "string \<Rightarrow> string \<Rightarrow> book_facts" where
  "example_facts action symbol =
     \<lparr>bf_currency = Some ''KRW'', bf_usage = no_usage\<lparr>us_concurrent_holdings := 1\<rparr>, bf_operating_budget = 10000000,
      bf_position = position_of example_db (Some 1) ''equity_kr'' symbol, bf_same_symbol_buys = 0,
      bf_issuer_held = (if action = ''BUY'' then same_issuer_held example_db (Some 1) ''equity_kr'' ''KRX'' symbol else 0),
      bf_issuer_buys = 0, bf_daily_loss_limit = 100000, bf_daily_target_amount = 50000\<rparr>"

lemma exact12: "q * 1000000000000 \<in> \<int> \<Longrightarrow> \<bar>q\<bar> \<le> 10000000000000 \<Longrightarrow> dec_ctx q = Inr q"
  by (rule dec_ctx_exact12) (auto simp: places_def abs_le_iff)

lemma example_book_facts:
  assumes "same_book example_db db" and "ss_limits s = default_limits"
    and "ss_usage_by_currency s = [(''KRW'', no_usage\<lparr>us_concurrent_holdings := 1\<rparr>), (''USD'', no_usage)]"
  shows "book_facts_of example_env db 1 (example_request action symbol q p) (Aware 0) s = Inr (example_facts action symbol)"
  using assms(2,3)
  by (simp add: book_facts_of_def example_request_def settlement_book_def operating_budget_for_def default_limits_def
      max_daily_loss_amount_for_def daily_target_amount_for_def dmul_def ddiv_def exact12 example_env_def day_start
      same_book_views [OF assms(1)] example_account example_facts_def same_symbol_buys_def same_issuer_buys_def example_orders
      Let_def)

lemma example_evaluates_on:
  assumes "dmul q p = Inr (q * p)" and "0 < q" and "0 < p" and "q * p \<le> 1000000" and "places 4 (q * p)"
    and "action = ''BUY'' \<and> symbol = ''000660'' \<or> action = ''SELL'' \<and> symbol = ''005930'' \<and> q \<le> 30"
    and s: "same_book example_db db" "ss_limits s = default_limits" "\<not> ss_kill_switch s"
      "ss_usage_by_currency s = [(''KRW'', no_usage\<lparr>us_concurrent_holdings := 1\<rparr>), (''USD'', no_usage)]"
  shows "\<exists>db' res. evaluate_with_snapshot example_env db 1 (example_request action symbol q p) (Aware 0) s = (db', Inr res)
    \<and> hr_passed res"
proof -
  let ?r = "example_request action symbol q p" and ?f = "example_facts action symbol"
  have n: "places 12 (q * p)" using assms(5) by (rule places_mono) simp
  have m: "money_fits 10000000 0 (15 / 100) 0" by (simp add: money_fits_def places_def)
  have pos: "0 < q * p" using assms(2,3) by simp
  have shape: "valid_shape ?r (Some ''KRW'')" using assms(2,3,6)
    by (auto simp: valid_shape_def example_request_def positive_finite_def)
  have inv: "current_invested ?f = 0" using assms(6)
    by (auto simp: current_invested_def example_facts_def example_position example_holding_def)
  have mul: "decimal_mul (rq_quantity ?r) (rq_reference_price ?r) = Inr (DFinite (q * p))"
    using assms(1) by (simp add: example_request_def)
  have b: "budget_passed ?r ?f (ss_limits s) (DFinite (q * p)) = Inr True"
    using budget_allows_exact(1) [OF m n] pos assms(4) shape inv
    by (simp add: budget_passed_def example_facts_def s(2) default_limits_def no_usage_def)
  have x: "\<exists>v. max_buy_notional ?r ?f (ss_limits s) = Inr v"
    using budget_allows_exact(2) [OF m n] pos assms(4) inv
    by (simp add: max_buy_notional_def example_facts_def s(2) default_limits_def no_usage_def)
  have "ag_passed (evaluate_account_state_gate (pe_dstr example_env) (rq_action ?r) (rq_account_state ?r))"
    by (simp add: evaluate_account_state_gate_def example_request_def)
  moreover have "position_passed ?r ?f default_limits" "order_count_passed ?r ?f default_limits"
    using shape assms(6)
    by (auto simp: position_passed_def order_count_passed_def example_facts_def example_request_def example_position
        current_quantity_def example_holding_def default_limits_def no_usage_def below_limit_def)
  moreover have "rq_action ?r = ''BUY'' \<longrightarrow> bf_issuer_held ?f = 0 \<and> bf_issuer_buys ?f < 1"
    using assms(6) by (auto simp: example_facts_def same_issuer_held_def example_open_positions example_request_def
        issuer_symbol_filter_def issuer_group_key_def)
  ultimately show ?thesis
    using evaluate_returns [OF mul example_book_facts [OF s(1,2,4)] b] x s(2,3) by auto
qed

lemma example_evaluates:
  assumes "dmul q p = Inr (q * p)" and "0 < q" and "0 < p" and "q * p \<le> 1000000" and "places 4 (q * p)"
    and "action = ''BUY'' \<and> symbol = ''000660'' \<or> action = ''SELL'' \<and> symbol = ''005930'' \<and> q \<le> 30"
  shows "\<exists>db' res. evaluate_hard_risk example_env example_db 1 (example_request action symbol q p) (Aware 0) None = (db', Inr res)
    \<and> hr_passed res"
proof -
  obtain db1 s where "get_snapshot example_env example_db 1 (Aware 0) 0 = (db1, Inr s)" "same_book example_db db1"
      "ss_limits s = default_limits" "\<not> ss_kill_switch s"
      "ss_usage_by_currency s = [(''KRW'', no_usage\<lparr>us_concurrent_holdings := 1\<rparr>), (''USD'', no_usage)]"
    using example_snapshot by blast
  with example_evaluates_on [OF assms] show ?thesis by (simp add: evaluate_hard_risk_def)
qed

lemma example_runs:
  "\<exists>db' res. evaluate_hard_risk example_env example_db 1 (example_request ''BUY'' ''000660'' 1 100000) (Aware 0) None = (db', Inr res)
    \<and> hr_passed res"
  "\<exists>db' res. evaluate_hard_risk example_env example_db 1 (example_request ''SELL'' ''005930'' 10 70000) (Aware 0) None = (db', Inr res)
    \<and> hr_passed res"
  by (rule example_evaluates; simp add: dmul_def exact12 places_def)+

theorem hard_risk_buy_safe_witness:
  "\<exists>db' res mode l. evaluate_hard_risk example_env example_db 1 (example_request ''BUY'' ''000660'' 1 100000) (Aware 0) None = (db', Inr res)
    \<and> decode_setting (map_option st_value (map_of (pd_settings example_db) 1)) = Inr (mode, l) \<and> \<not> tl_kill_switch l"
proof -
  obtain db' res where r: "evaluate_hard_risk example_env example_db 1 (example_request ''BUY'' ''000660'' 1 100000) (Aware 0) None
      = (db', Inr res)" "hr_passed res" using example_runs(1) by blast
  have "rq_action (example_request ''BUY'' ''000660'' 1 100000) = ''BUY''" by (simp add: example_request_def)
  from hard_risk_buy_safe [OF r this example_account current_snapshot_None] r(1) show ?thesis by blast
qed

theorem hard_risk_sell_iff_witness:
  "\<exists>db' res currency kind held.
     evaluate_hard_risk example_env example_db 1 (example_request ''SELL'' ''005930'' 10 70000) (Aware 0) None = (db', Inr res)
    \<and> settlement_book (Some ''KRX'') None = Inr (currency, kind)
    \<and> position_of example_db (Some 1) kind ''005930'' = Some held \<and> 10 \<le> pp_quantity held"
proof -
  obtain db' res where r: "evaluate_hard_risk example_env example_db 1 (example_request ''SELL'' ''005930'' 10 70000) (Aware 0) None
      = (db', Inr res)" "hr_passed res" using example_runs(2) by blast
  have "rq_action (example_request ''SELL'' ''005930'' 10 70000) = ''SELL''" by (simp add: example_request_def)
  from hard_risk_sell_iff [OF r(1) this example_account current_snapshot_None, THEN iffD1, OF r(2)] r(1) show ?thesis
    by (auto simp: example_request_def)
qed

theorem one_buy_per_issuer_and_day_witness:
  "\<exists>db. admitted_day korean_clock 1 ''KRW'' (- 32400000000) db \<and> length (buys_since db 1 ''KRW'' (- 32400000000)) = 1
    \<and> distinct (map (\<lambda>x. issuer_group_key (ao_market x) (ao_symbol x)) (buys_since db 1 ''KRW'' (- 32400000000)))"
proof -
  let ?r = "example_request ''BUY'' ''000660'' 1 100000"
  let ?x = "\<lparr>ao_id = ''a'', ao_owner_user_id = 1, ao_client_order_id = ''c'', ao_paper_account_id = 1, ao_market = ''KRX'',
     ao_symbol = ''000660'', ao_name = None, ao_currency = ''KRW'', ao_side = ''BUY'', ao_quantity = 1, ao_limit_price = None,
     ao_status = ''FILLED'', ao_average_fill_price = Some 100000, ao_paper_trade_id = None, ao_reject_reason = None,
     ao_created_at = 0\<rparr>"
  obtain db' res where r: "evaluate_hard_risk example_env example_db 1 ?r (Aware 0) None = (db', Inr res)" "hr_passed res"
    using example_runs(1) by blast
  let ?db = "db'\<lparr>pd_orders := pd_orders db' @ [?x]\<rparr>"
  have opens: "admitted_day korean_clock 1 ''KRW'' (- 32400000000) example_db"
    by (rule day_opens) (simp add: example_orders)
  have day: "admitted_day korean_clock 1 ''KRW'' (- 32400000000) ?db"
    by (rule order_admitted [OF opens _ r current_snapshot_None day_start(1)])
       (simp_all add: example_env_def order_of_def example_request_def settlement_book_def)
  have "same_book example_db db'" using r(1) current_snapshot_None by (rule hard_risk_run)
  then have "buys_since db' 1 ''KRW'' (- 32400000000) = []"
    by (simp only: same_book_buys) (simp add: buys_since_def example_orders)
  then have "buys_since ?db 1 ''KRW'' (- 32400000000) = [?x]" by (simp add: buys_append)
  with one_buy_per_issuer_and_day [OF day] day show ?thesis by (intro exI [of _ ?db]) simp
qed

theorem put_setting_read_back_witness:
  "\<exists>db' s. put_snapshot example_env example_db 1 AUTO_PAPER default_limits (Aware 0) = (db', Inr s)
    \<and> ss_mode s = AUTO_PAPER \<and> ss_limits s = default_limits"
proof -
  have st: "stored_limits example_db 1 = Inr default_limits"
    by (simp add: stored_limits_def example_db_def default_limits_built)
  have same: "with_stored_budget default_limits default_limits = default_limits"
    by (simp add: with_stored_budget_def)
  note ok = new_limits_ok [OF default_limits_built]
  have now: "policy_aware_utc (Aware 0) = Inr 0" by (simp add: policy_aware_utc_def)
  obtain db3 where put: "put_snapshot example_env example_db 1 AUTO_PAPER default_limits (Aware 0)
      = get_snapshot example_env db3 1 (Aware 0) 20" and p: "same_book example_db db3"
      "map_option st_value (map_of (pd_settings db3) 1) = Some (setting_payload (pe_dstr example_env) AUTO_PAPER default_limits)"
    using put_snapshot_stores [OF now ok st, of example_env AUTO_PAPER] same by metis
  have "decode_setting (map_option st_value (map_of (pd_settings db3) 1)) = Inr (AUTO_PAPER, default_limits)"
    unfolding p(2) using payload_read_back [OF ok default_limits_readable] by (simp add: example_env_def)
  then have "\<exists>db' s. put_snapshot example_env example_db 1 AUTO_PAPER default_limits (Aware 0) = (db', Inr s)"
    unfolding put using now p(1) example_usage
    by (intro snapshot_returns) (simp_all add: same_book_views example_env_def)
  then obtain db' s where run: "put_snapshot example_env example_db 1 AUTO_PAPER default_limits (Aware 0) = (db', Inr s)" by blast
  have "readable (pe_dstr example_env) (with_stored_budget default_limits default_limits)"
    by (simp add: same example_env_def default_limits_readable)
  from put_setting_read_back [OF run default_limits_built st this] run same show ?thesis by auto
qed

theorem max_buy_notional_exact_witness:
  "\<exists>s db' res. evaluate_hard_risk example_env example_db 1 (example_request ''BUY'' ''000660'' 1 100000) (Aware 0) (Some s) = (db', Inr res)
    \<and> hr_max_buy_notional res = Some 1500000"
proof -
  let ?r = "example_request ''BUY'' ''000660'' 1 100000"
  obtain s :: ai_trading_snapshot where s: "ss_limits s = default_limits" "\<not> ss_kill_switch s"
      "ss_usage_by_currency s = [(''KRW'', no_usage\<lparr>us_concurrent_holdings := 1\<rparr>), (''USD'', no_usage)]"
    using example_snapshot [of 0] by blast
  have "same_book example_db example_db" by (simp add: same_book_def)
  then obtain db' res where run: "evaluate_hard_risk example_env example_db 1 ?r (Aware 0) (Some s) = (db', Inr res)"
    using example_evaluates_on [of 1 100000 "''BUY''" "''000660''" example_db s] s
    by (auto simp: evaluate_hard_risk_def dmul_def exact12 places_def)
  have "settlement_book (Some (rq_market ?r)) None = Inr (''KRW'', ''equity_kr'')" by (simp add: example_request_def settlement_book_def)
  note max_buy_notional_exact [OF run _ this, of "no_usage\<lparr>us_concurrent_holdings := 1\<rparr>" 1 100000]
  then have "hr_max_buy_notional res = Some 1500000"
    by (simp add: example_request_def s money_fits_def places_def example_account example_position invested_in_def
        budget_of_def default_limits_def no_usage_def)
  with run show ?thesis by blast
qed

text \<open>The sizer's own example as a plan: seventy shares at 70000 of a budget of seven million.\<close>

definition demo_limits :: ai_trading_limits where
  "demo_limits = default_limits\<lparr>tl_operating_budget_krw := 7000000, tl_max_symbol_allocation := 1, tl_risk_per_trade_rate := 1 / 100\<rparr>"

definition demo_plan_request :: plan_request where
  "demo_plan_request =
     \<lparr>pl_action = ''BUY'', pl_market = ''KRX'', pl_symbol = ''005930'', pl_reference_price = DFinite 70000,
      pl_strategy_stop = Some (DFinite 69000), pl_strategy_atr = Some (DFinite 1000),
      pl_price_as_of = Some (Aware demo_price_time), pl_evaluated_at = Some (Aware demo_moment), pl_regime = RegimeMember BULL,
      pl_average_volume = Some (DFinite 1000000), pl_average_turnover = Some (DFinite 70000000000),
      pl_strategy_quantity = None, pl_account_state_multiplier = DFinite 1\<rparr>"

lemma demo_plan:
  "\<exists>plan. make_portfolio_plan daily_calendar example_db 1 demo_plan_request demo_limits no_usage default_sizing_config = Inr plan
    \<and> actionable (pp_position_sizing plan) \<and> pp_target_quantity plan = 70"
proof -
  obtain r where r: "calculate_position_size daily_calendar default_sizing_config demo_request = Inr r"
      "actionable r" "sr_quantity r = 70"
    using demo_buy [OF demo_buy_amounts(1) demo_round(1)] unfolding demo_same by auto
  have "sizing_input_post_init (plan_sizing_input demo_plan_request demo_limits no_usage 7000000 (Some example_holding)) = Inr demo_request"
    by (simp add: sizing_input_post_init_def plan_sizing_input_def demo_plan_request_def demo_limits_def default_limits_def
        no_usage_def example_holding_def demo_request_def demo_upper)
  moreover have "settlement_book (Some ''KRX'') None = Inr (''KRW'', ''equity_kr'')" by (simp add: settlement_book_def)
  moreover have "operating_budget_for demo_limits ''KRW'' = Inr 7000000"
    by (simp add: operating_budget_for_def settlement_book_def demo_limits_def)
  moreover have "\<exists>c. plan_cash_after ''BUY'' 7000000 (us_budget_used no_usage) 70 (DFinite 70000) = Inr c"
    by (simp add: plan_cash_after_def no_usage_def dsub_def dmul_def exact12)
  ultimately show ?thesis
    using r example_position(1)
    by (auto simp: make_portfolio_plan_def demo_plan_request_def example_account demo_upper Let_def)
qed

definition demo_snapshot :: ai_trading_snapshot where
  "demo_snapshot = \<lparr>ss_mode = APPROVAL, ss_limits = demo_limits, ss_usage = no_usage, ss_usage_by_currency = [(''KRW'', no_usage)],
     ss_kill_switch = False, ss_updated_at = 0, ss_executions = [], ss_promotion_bypass = False\<rparr>"

lemma demo_policy_evaluates:
  "\<exists>db' res. evaluate_hard_risk example_env example_db 1 (example_request ''BUY'' ''005930'' 70 70000) (Aware 0) (Some demo_snapshot)
    = (db', Inr res)"
proof -
  let ?r = "example_request ''BUY'' ''005930'' 70 70000"
  have mul: "decimal_mul (rq_quantity ?r) (rq_reference_price ?r) = Inr (DFinite 4900000)"
    by (simp add: example_request_def dmul_def exact12)
  obtain f where f: "book_facts_of example_env example_db 1 ?r (Aware 0) demo_snapshot = Inr f" "bf_currency f = Some ''KRW''"
      "bf_operating_budget f = 7000000" "bf_usage f = no_usage" "bf_position f = Some example_holding"
    by (simp add: book_facts_of_def example_request_def settlement_book_def operating_budget_for_def demo_snapshot_def
        demo_limits_def default_limits_def max_daily_loss_amount_for_def daily_target_amount_for_def dmul_def ddiv_def exact12
        example_env_def day_start example_account example_position Let_def)
  have m: "money_fits 7000000 0 1 0" by (simp add: money_fits_def places_def)
  have e: "budget_allows 7000000 0 1 0 4900000 = Inr True" "\<exists>x. max_buy_notional_of 7000000 0 1 0 = Inr x"
    using budget_allows_exact [OF m, of 4900000] by (simp_all add: places_def)
  have "\<exists>x. budget_passed ?r f demo_limits (DFinite 4900000) = Inr x" "\<exists>x. max_buy_notional ?r f demo_limits = Inr x"
    using e by (auto simp: budget_passed_def max_buy_notional_def current_invested_def f example_holding_def no_usage_def
        demo_limits_def example_request_def valid_shape_def positive_finite_def)
  moreover have l: "ss_limits demo_snapshot = demo_limits" by (simp add: demo_snapshot_def)
  ultimately show ?thesis using evaluate_returns [OF mul f(1), unfolded l] unfolding evaluate_hard_risk_def option.case by blast
qed

theorem sized_buy_passes_budget_witness:
  "\<exists>plan db' res. make_portfolio_plan daily_calendar example_db 1 demo_plan_request demo_limits no_usage default_sizing_config = Inr plan
    \<and> evaluate_hard_risk example_env example_db 1 (example_request ''BUY'' ''005930'' 70 70000) (Aware 0) (Some demo_snapshot)
        = (db', Inr res) \<and> pp_cash_after plan = 2100000"
proof -
  let ?r = "example_request ''BUY'' ''005930'' 70 70000"
  obtain plan where plan: "make_portfolio_plan daily_calendar example_db 1 demo_plan_request demo_limits no_usage default_sizing_config = Inr plan"
      "actionable (pp_position_sizing plan)" "pp_target_quantity plan = 70" using demo_plan by blast
  obtain db' res where run: "evaluate_hard_risk example_env example_db 1 ?r (Aware 0) (Some demo_snapshot) = (db', Inr res)"
    using demo_policy_evaluates by blast
  have a: "py_upper (pl_action demo_plan_request) = ''BUY''" "pl_reference_price demo_plan_request = DFinite 70000"
      "places 8 (70000 :: rat)" "lot_size_of default_sizing_config (py_upper (pl_market demo_plan_request)) = pow10 0"
      "settlement_book (Some (pl_market demo_plan_request)) None = Inr (''KRW'', ''equity_kr'')"
    by (simp_all add: demo_plan_request_def demo_upper demo_lot places_def settlement_book_def)
  have fits: "money_fits (budget_of demo_limits ''KRW'') (us_budget_used no_usage) (tl_max_symbol_allocation demo_limits)
      (invested_in (position_of example_db (owner_account example_db 1) ''equity_kr'' (pl_symbol demo_plan_request)))"
    by (simp add: money_fits_def budget_of_def demo_limits_def no_usage_def invested_in_def example_account example_position
        demo_plan_request_def example_holding_def places_def)
  have "pp_cash_after plan = budget_of demo_limits ''KRW'' - us_budget_used no_usage - pp_target_quantity plan * 70000"
    by (rule sized_buy_passes_budget [OF plan(1,2) a(1-4) _ _ a(5) fits run, THEN conjunct2])
       (simp_all add: demo_snapshot_def example_request_def demo_plan_request_def plan(3))
  with plan run show ?thesis by (auto simp: budget_of_def demo_limits_def no_usage_def)
qed

theorem kill_switch_stops_orders_witness:
  "\<exists>db' state. set_user_kill_switch 0 example_db 1 True = (db', state)
    \<and> (\<forall>db2 x. assert_order_allowed True 0 db' 1 \<noteq> (db2, Inr x))"
proof -
  obtain db' state where run: "set_user_kill_switch 0 example_db 1 True = (db', state)" by force
  with kill_switch_stops_orders [OF disjI1, OF run refl refl] show ?thesis by blast
qed

end
