(* ===== verification/Intraday_Triggers.thy ===== *)
theory Intraday_Triggers
  imports Market_Session Json_Text
begin

text \<open>
  The intraday entry triggers, \<open>app/extensions/kasset/automation/intraday_triggers.py\<close>: opening
  range breakout, session VWAP, relative volume, same-time relative volume, relative strength
  against the index, and the policy that turns their results into one decision. The calculators
  receive bars with finite numbers, which the loader of \<open>intraday_data.py\<close> establishes
  (theory \<open>Intraday_Data\<close>), so a bar carries rationals; a zero is a positive zero.
\<close>

subsection \<open>Names and numbers\<close>

datatype action = BUY | SELL | HOLD

fun action_value :: "action \<Rightarrow> string" where
  "action_value BUY = ''BUY''"
| "action_value SELL = ''SELL''"
| "action_value HOLD = ''HOLD''"

definition OPENING_RANGE_BREAKOUT :: string where
  "OPENING_RANGE_BREAKOUT = ''opening_range_breakout''"

definition SESSION_VWAP_RECLAIM :: string where
  "SESSION_VWAP_RECLAIM = ''session_vwap_reclaim''"

definition RELATIVE_VOLUME_5M :: string where
  "RELATIVE_VOLUME_5M = ''relative_volume_5m''"

definition RELATIVE_VOLUME_20M :: string where
  "RELATIVE_VOLUME_20M = ''relative_volume_20m''"

definition INTRADAY_RELATIVE_STRENGTH :: string where
  "INTRADAY_RELATIVE_STRENGTH = ''intraday_relative_strength''"

definition INDEX_INTRADAY_UNAVAILABLE :: string where
  "INDEX_INTRADAY_UNAVAILABLE = ''index_intraday_unavailable''"

definition trigger_aware_utc :: "py_datetime \<Rightarrow> string \<Rightarrow> instant result" where
  "trigger_aware_utc value field_name = require_aware (field_name @ '' must be timezone-aware'') value"

text \<open>
  \<open>_decimal_text\<close>: six decimals, half even. \<open>quantize\<close> keeps the sign of its argument, so a
  negative value that rounds to zero prints a minus sign.
\<close>

definition quantum_text :: "rat \<Rightarrow> string result" where
  "quantum_text q =
     bindr (quantize_half_even (- 6) q) (\<lambda>_.
       let n = \<bar>round_half_even (q / pow10 (- 6))\<bar>
       in Inr ((if q < 0 then ''-'' else []) @ nat_digits (nat (n div 10 ^ 6)) @ ''.''
               @ pad_digits 6 (n mod 10 ^ 6)))"

definition optional_quantum_text :: "rat option \<Rightarrow> json result" where
  "optional_quantum_text v =
     (case v of None \<Rightarrow> Inr JNull | Some q \<Rightarrow> bindr (quantum_text q) (\<lambda>s. Inr (JStr s)))"

text \<open>\<open>isoformat().replace("+00:00", "Z")\<close>: the UTC offset is the last six characters.\<close>

definition z_text :: "instant \<Rightarrow> string" where
  "z_text t = take (length (iso_utc t) - 6) (iso_utc t) @ ''Z''"

text \<open>\<open>",".join(xs)\<close>, \<open>dict.fromkeys(xs)\<close> and \<open>s.endswith(suffix)\<close>.\<close>

fun comma_join :: "string list \<Rightarrow> string" where
  "comma_join [] = []"
| "comma_join [x] = x"
| "comma_join (x # y # ys) = x @ '','' @ comma_join (y # ys)"

definition first_seen :: "'a list \<Rightarrow> 'a list" where
  "first_seen xs = rev (remdups (rev xs))"

definition py_endswith :: "string \<Rightarrow> string \<Rightarrow> bool" where
  "py_endswith s suffix \<longleftrightarrow> length suffix \<le> length s \<and> drop (length s - length suffix) s = suffix"

subsection \<open>Results, configuration and policy\<close>

datatype trigger_status = Active | Inactive | Blocked | Unavailable

fun trigger_status_value :: "trigger_status \<Rightarrow> string" where
  "trigger_status_value Active = ''active''"
| "trigger_status_value Inactive = ''inactive''"
| "trigger_status_value Blocked = ''blocked''"
| "trigger_status_value Unavailable = ''unavailable''"

datatype trigger_decision_status = Triggered | NotTriggered | DecisionBlocked | DecisionUnavailable

fun decision_status_value :: "trigger_decision_status \<Rightarrow> string" where
  "decision_status_value Triggered = ''triggered''"
| "decision_status_value NotTriggered = ''not_triggered''"
| "decision_status_value DecisionBlocked = ''blocked''"
| "decision_status_value DecisionUnavailable = ''unavailable''"

record trigger_result =
  tr_code :: string
  tr_status :: trigger_status
  tr_value :: "string option"
  tr_threshold :: "string option"
  tr_source :: "string option"
  tr_as_of :: "instant option"
  tr_detail :: string
  tr_unavailable_reason :: "string option"
  tr_blocked_reason :: "string option"

definition tr_active :: "trigger_result \<Rightarrow> bool" where
  "tr_active r \<longleftrightarrow> tr_status r = Active"

definition tr_available :: "trigger_result \<Rightarrow> bool" where
  "tr_available r \<longleftrightarrow> tr_status r \<noteq> Unavailable"

definition trigger_evidence :: "trigger_result \<Rightarrow> json" where
  "trigger_evidence r = JObj
     [(''code'', JStr (tr_code r)), (''status'', JStr (trigger_status_value (tr_status r))),
      (''value'', json_optional JStr (tr_value r)),
      (''threshold'', json_optional JStr (tr_threshold r)),
      (''source'', json_optional JStr (tr_source r)),
      (''asOf'', json_optional (JStr \<circ> z_text) (tr_as_of r)), (''detail'', JStr (tr_detail r)),
      (''unavailableReason'', json_optional JStr (tr_unavailable_reason r)),
      (''blockedReason'', json_optional JStr (tr_blocked_reason r))]"

definition unavailable_result :: "string \<Rightarrow> string \<Rightarrow> string \<Rightarrow> string option \<Rightarrow> trigger_result" where
  "unavailable_result code reason detail source =
     \<lparr>tr_code = code, tr_status = Unavailable, tr_value = None, tr_threshold = None,
      tr_source = source, tr_as_of = None, tr_detail = detail,
      tr_unavailable_reason = Some reason, tr_blocked_reason = None\<rparr>"

record intraday_trigger_config =
  tc_pivot_buffer_ratio :: rat
  tc_max_extension_ratio :: rat
  tc_gap_up_atr_multiple :: rat
  tc_gap_up_min_ratio :: rat
  tc_decision_ttl :: duration

definition make_trigger_config :: "intraday_trigger_config \<Rightarrow> intraday_trigger_config result" where
  "make_trigger_config c =
     raise_if (tc_pivot_buffer_ratio c < 0) (ValueError ''pivot_buffer_ratio must not be negative'') (
     raise_if (tc_max_extension_ratio c < 0) (ValueError ''max_extension_ratio must not be negative'') (
     raise_if (tc_gap_up_atr_multiple c < 0) (ValueError ''gap_up_atr_multiple must not be negative'') (
     raise_if (tc_gap_up_min_ratio c < 0) (ValueError ''gap_up_min_ratio must not be negative'') (
     raise_if (tc_max_extension_ratio c < tc_pivot_buffer_ratio c)
       (ValueError ''max_extension_ratio must be at least pivot_buffer_ratio'') (
     raise_if (tc_decision_ttl c \<le> 0) (ValueError ''decision_ttl must be positive'') (Inr c))))))"

definition DEFAULT_INTRADAY_TRIGGER_CONFIG :: intraday_trigger_config where
  "DEFAULT_INTRADAY_TRIGGER_CONFIG =
     \<lparr>tc_pivot_buffer_ratio = 2 / 1000, tc_max_extension_ratio = 2 / 100,
      tc_gap_up_atr_multiple = 1, tc_gap_up_min_ratio = 3 / 100,
      tc_decision_ttl = 30 * 60 * 1000000\<rparr>"

record intraday_trigger_policy =
  tp_directional :: "string list"
  tp_volume :: "string list"
  tp_directional_confirmation :: "string list"

definition make_trigger_policy :: "intraday_trigger_policy \<Rightarrow> intraday_trigger_policy result" where
  "make_trigger_policy p =
     raise_if (tp_directional p = []) (ValueError ''directional triggers must not be empty'') (
     raise_if (tp_volume p = []) (ValueError ''volume triggers must not be empty'') (
     raise_if (\<not> distinct (tp_directional p @ tp_volume p @ tp_directional_confirmation p))
       (ValueError ''a trigger cannot appear in two policy groups'') (Inr p)))"

definition DEFAULT_INTRADAY_TRIGGER_POLICY :: intraday_trigger_policy where
  "DEFAULT_INTRADAY_TRIGGER_POLICY =
     \<lparr>tp_directional = [OPENING_RANGE_BREAKOUT, SESSION_VWAP_RECLAIM],
      tp_volume = [RELATIVE_VOLUME_5M, RELATIVE_VOLUME_20M],
      tp_directional_confirmation = [INTRADAY_RELATIVE_STRENGTH]\<rparr>"

definition policy_evidence :: "intraday_trigger_policy \<Rightarrow> json" where
  "policy_evidence p = JObj
     [(''schemaVersion'', JStr ''kasset.intraday-triggers.v1''),
      (''directionalAnyOf'', JList (map JStr (tp_directional p))),
      (''volumeAnyOf'', JList (map JStr (tp_volume p))),
      (''directionalConfirmationIfAvailable'', JList (map JStr (tp_directional_confirmation p))),
      (''rule'', JStr (''(any directional trigger) AND (any completed-bar relative volume ''
         @ ''trigger) AND (every available confirmation trigger agrees)''))]"

subsection \<open>Bars\<close>

text \<open>\<open>_ordered\<close>: every bar must be aware; the sort by instant is stable.\<close>

definition ordered_bars :: "rat price_bar list \<Rightarrow> rat price_bar list result" where
  "ordered_bars bars =
     bindr (mapr (\<lambda>bar. trigger_aware_utc (bar_timestamp bar) ''bar.timestamp'') bars) (\<lambda>_.
     Inr (sort_key bar_instant bars))"

definition largest :: "rat list \<Rightarrow> rat" where
  "largest xs = Max (set xs)"

definition smallest :: "rat list \<Rightarrow> rat" where
  "smallest xs = Min (set xs)"

text \<open>
  The pivot and the extension above a basis price for the close of the latest bar, and whether
  the close lies beyond the extension; a SELL has no extension.
\<close>

definition chase_band ::
    "action \<Rightarrow> intraday_trigger_config \<Rightarrow> rat \<Rightarrow> rat \<Rightarrow> (rat \<times> rat option \<times> bool) result" where
  "chase_band direction config basis close =
     (if direction = BUY then
        bindr (dadd 1 (tc_pivot_buffer_ratio config)) (\<lambda>pivot_factor.
        bindr (dmul basis pivot_factor) (\<lambda>pivot_threshold.
        bindr (dadd 1 (tc_max_extension_ratio config)) (\<lambda>extension_factor.
        bindr (dmul basis extension_factor) (\<lambda>extension_threshold.
        Inr (pivot_threshold, Some extension_threshold, extension_threshold < close)))))
      else Inr (basis, None, False))"

definition extension_text :: "rat option \<Rightarrow> string result" where
  "extension_text extension =
     (case extension of None \<Rightarrow> Inr []
      | Some e \<Rightarrow> bindr (quantum_text e) (\<lambda>s. Inr ('' extension='' @ s)))"

definition beyond_pivot :: "action \<Rightarrow> rat \<Rightarrow> rat \<Rightarrow> bool" where
  "beyond_pivot direction close pivot =
     (if direction = BUY then pivot \<le> close else close \<le> pivot)"

definition banded_status :: "bool \<Rightarrow> bool \<Rightarrow> trigger_status" where
  "banded_status too_extended active =
     (if too_extended then Blocked else if active then Active else Inactive)"

definition too_extended_reason :: "bool \<Rightarrow> string option" where
  "too_extended_reason too_extended = (if too_extended then Some ''too_extended'' else None)"

subsection \<open>Opening range breakout\<close>

definition opening_range_breakout ::
    "rat price_bar list \<Rightarrow> action \<Rightarrow> py_datetime \<Rightarrow> duration \<Rightarrow> duration \<Rightarrow> string
      \<Rightarrow> intraday_trigger_config \<Rightarrow> trigger_result result" where
  "opening_range_breakout bars direction session_open opening_range bar_interval source config =
     bindr (ordered_bars bars) (\<lambda>ordered.
     if ordered = [] then
       Inr (unavailable_result OPENING_RANGE_BREAKOUT ''no_completed_session_bars''
              ''the regular session produced no completed bars yet'' (Some source))
     else bindr (trigger_aware_utc session_open ''session_open'') (\<lambda>opens.
     let boundary = opens + opening_range;
         opening = filter (\<lambda>bar. bar_instant bar + bar_interval \<le> boundary) ordered;
         after = filter (\<lambda>bar. boundary < bar_instant bar + bar_interval) ordered
     in if opening = [] then
          Inr (unavailable_result OPENING_RANGE_BREAKOUT ''opening_range_incomplete''
                 (''no completed bar closed inside the opening range ending at '' @ z_text boundary)
                 (Some source))
        else if after = [] then
          Inr (unavailable_result OPENING_RANGE_BREAKOUT ''no_completed_bar_after_opening_range''
                 ''the opening range has not been followed by a completed bar'' (Some source))
        else let range_high = largest (map bar_high opening);
                 range_low = smallest (map bar_low opening);
                 latest = last after;
                 basis = (if direction = BUY then range_high else range_low)
          in bindr (chase_band direction config basis (bar_close latest))
               (\<lambda>(pivot_threshold, extension_threshold, too_extended).
             bindr (quantum_text (bar_close latest)) (\<lambda>value_text.
             bindr (quantum_text pivot_threshold) (\<lambda>threshold_text.
             bindr (quantum_text range_high) (\<lambda>high_text.
             bindr (quantum_text range_low) (\<lambda>low_text.
             bindr (extension_text extension_threshold) (\<lambda>extension.
             Inr \<lparr>tr_code = OPENING_RANGE_BREAKOUT,
                  tr_status = banded_status too_extended
                    (beyond_pivot direction (bar_close latest) pivot_threshold),
                  tr_value = Some value_text, tr_threshold = Some threshold_text,
                  tr_source = Some source, tr_as_of = Some (bar_instant latest + bar_interval),
                  tr_detail = ''opening range high='' @ high_text @ '' low='' @ low_text @ extension
                    @ '' over '' @ nat_digits (length opening) @ '' completed bars'',
                  tr_unavailable_reason = None,
                  tr_blocked_reason = too_extended_reason too_extended\<rparr>)))))))) "

subsection \<open>Session VWAP\<close>

text \<open>
  The loop of \<open>session_vwap\<close> over the ordered bars: the running weighted sum and volume, and the
  last element of the output so far.
\<close>

fun vwap_curve :: "rat \<Rightarrow> rat \<Rightarrow> rat option \<Rightarrow> rat price_bar list \<Rightarrow> rat list result" where
  "vwap_curve weighted volume previous [] = Inr []"
| "vwap_curve weighted volume previous (bar # bars) =
     bindr (dadd (bar_high bar) (bar_low bar)) (\<lambda>hl.
     bindr (dadd hl (bar_close bar)) (\<lambda>hlc.
     bindr (ddiv hlc 3) (\<lambda>typical.
     bindr (dmul typical (bar_volume bar)) (\<lambda>amount.
     bindr (dadd weighted amount) (\<lambda>weighted.
     bindr (dadd volume (bar_volume bar)) (\<lambda>volume.
     bindr (if 0 < volume then ddiv weighted volume
            else Inr (case previous of None \<Rightarrow> typical | Some v \<Rightarrow> v)) (\<lambda>vwap.
     bindr (vwap_curve weighted volume (Some vwap) bars) (\<lambda>rest.
     Inr (vwap # rest)))))))))"

definition session_vwap :: "rat price_bar list \<Rightarrow> rat list result" where
  "session_vwap bars = bindr (ordered_bars bars) (vwap_curve 0 0 None)"

definition vwap_pattern :: "bool \<Rightarrow> bool \<Rightarrow> string" where
  "vwap_pattern reclaimed extreme =
     (if reclaimed then ''reclaim'' else if extreme then ''breakout'' else ''none'')"

definition session_vwap_reclaim ::
    "rat price_bar list \<Rightarrow> action \<Rightarrow> duration \<Rightarrow> string \<Rightarrow> intraday_trigger_config
      \<Rightarrow> trigger_result result" where
  "session_vwap_reclaim bars direction bar_interval source config =
     bindr (ordered_bars bars) (\<lambda>ordered.
     if length ordered < 2 then
       Inr (unavailable_result SESSION_VWAP_RECLAIM ''insufficient_completed_session_bars''
              ''session VWAP needs at least two completed bars'' (Some source))
     else bindr (session_vwap ordered) (\<lambda>curve.
     let latest = last ordered; previous = ordered ! (length ordered - 2);
         latest_vwap = last curve; previous_vwap = curve ! (length curve - 2);
         closes = map bar_close ordered;
         reclaimed = (if direction = BUY then bar_close previous \<le> previous_vwap
                      else previous_vwap \<le> bar_close previous);
         extreme = (if direction = BUY then largest closes \<le> bar_close latest
                    else bar_close latest \<le> smallest closes);
         pattern = vwap_pattern reclaimed extreme
     in bindr (chase_band direction config latest_vwap (bar_close latest))
          (\<lambda>(pivot_threshold, extension_threshold, too_extended).
        bindr (quantum_text (bar_close latest)) (\<lambda>value_text.
        bindr (quantum_text pivot_threshold) (\<lambda>threshold_text.
        bindr (quantum_text (bar_close previous)) (\<lambda>close_text.
        bindr (quantum_text previous_vwap) (\<lambda>vwap_text.
        bindr (extension_text extension_threshold) (\<lambda>extension.
        Inr \<lparr>tr_code = SESSION_VWAP_RECLAIM,
             tr_status = banded_status too_extended
               (beyond_pivot direction (bar_close latest) pivot_threshold \<and> pattern \<noteq> ''none''),
             tr_value = Some value_text, tr_threshold = Some threshold_text,
             tr_source = Some source, tr_as_of = Some (bar_instant latest + bar_interval),
             tr_detail = ''pattern='' @ pattern @ '' previousClose='' @ close_text
               @ '' previousVwap='' @ vwap_text @ extension
               @ '' over '' @ nat_digits (length ordered) @ '' completed bars'',
             tr_unavailable_reason = None,
             tr_blocked_reason = too_extended_reason too_extended\<rparr>))))))))"

subsection \<open>Relative volume\<close>

text \<open>The fields every volume trigger reports beside its status and its texts.\<close>

definition ratio_status :: "rat \<Rightarrow> rat \<Rightarrow> trigger_status" where
  "ratio_status ratio threshold = (if threshold \<le> ratio then Active else Inactive)"

definition mean_volume :: "rat price_bar list \<Rightarrow> rat result" where
  "mean_volume bars =
     bindr (dsum 0 (map bar_volume bars)) (\<lambda>total. ddiv total (of_nat (length bars)))"

definition relative_volume ::
    "rat price_bar list \<Rightarrow> string \<Rightarrow> int \<Rightarrow> int \<Rightarrow> rat \<Rightarrow> duration \<Rightarrow> string
      \<Rightarrow> trigger_result result" where
  "relative_volume bars code window_bars baseline_bars threshold bar_interval source =
     raise_if (window_bars < 1 \<or> baseline_bars < 1)
       (ValueError ''relative volume windows must be positive'') (
     bindr (ordered_bars bars) (\<lambda>ordered.
     let required = window_bars + baseline_bars;
         n = length ordered
     in if int n < required then
          Inr (unavailable_result code ''insufficient_completed_session_bars''
                 (py_str_int required @ '' completed bars are required and '' @ nat_digits n
                  @ '' are available'') (Some source))
        else let window = drop (n - nat window_bars) ordered;
                 baseline = take (nat baseline_bars) (drop (n - nat required) ordered)
          in bindr (mean_volume baseline) (\<lambda>baseline_mean.
             if baseline_mean \<le> 0 then
               Inr (unavailable_result code ''zero_baseline_volume''
                      ''the baseline window traded no volume, so no ratio exists'' (Some source))
             else
               bindr (mean_volume window) (\<lambda>window_mean.
               bindr (ddiv window_mean baseline_mean) (\<lambda>ratio.
               bindr (quantum_text ratio) (\<lambda>ratio_text.
               bindr (quantum_text threshold) (\<lambda>threshold_text.
               bindr (quantum_text window_mean) (\<lambda>window_text.
               bindr (quantum_text baseline_mean) (\<lambda>baseline_text.
               Inr \<lparr>tr_code = code, tr_status = ratio_status ratio threshold,
                    tr_value = Some ratio_text, tr_threshold = Some threshold_text,
                    tr_source = Some source,
                    tr_as_of = Some (bar_instant (last ordered) + bar_interval),
                    tr_detail = ''window='' @ py_str_int window_bars @ '' bars mean='' @ window_text
                      @ '' baseline='' @ py_str_int baseline_bars @ '' bars mean='' @ baseline_text,
                    tr_unavailable_reason = None, tr_blocked_reason = None\<rparr>)))))))))"

subsection \<open>Same-time relative volume\<close>

record same_time_volume_baseline =
  sb_session_date :: date_ordinal
  sb_volume :: rat

text \<open>
  The checking loop of \<open>same_time_baseline_median\<close>. The second message also prints the volume.
\<close>

fun baseline_volumes :: "date_ordinal list \<Rightarrow> same_time_volume_baseline list \<Rightarrow> rat list result" where
  "baseline_volumes seen_dates [] = Inr []"
| "baseline_volumes seen_dates (sample # samples) =
     raise_if (sb_session_date sample \<in> set seen_dates)
       (ValueError (''duplicate same-time baseline session_date: '' @ iso_date (sb_session_date sample))) (
     raise_if (sb_volume sample < 0)
       (ValueError (''same-time baseline volume must not be negative: ''
                    @ iso_date (sb_session_date sample))) (
     bindr (baseline_volumes (sb_session_date sample # seen_dates) samples) (\<lambda>volumes.
     Inr (sb_volume sample # volumes))))"

definition same_time_baseline_median :: "same_time_volume_baseline list \<Rightarrow> rat option result" where
  "same_time_baseline_median baseline =
     bindr (baseline_volumes [] baseline) (\<lambda>volumes.
     if volumes = [] then Inr None
     else let ordered = sort volumes; midpoint = length ordered div 2
       in if odd (length ordered) then Inr (Some (ordered ! midpoint))
          else bindr (dadd (ordered ! (midpoint - 1)) (ordered ! midpoint)) (\<lambda>total.
               bindr (ddiv total 2) (\<lambda>m. Inr (Some m))))"

definition same_time_relative_volume ::
    "rat price_bar list \<Rightarrow> same_time_volume_baseline list \<Rightarrow> string \<Rightarrow> int \<Rightarrow> int \<Rightarrow> rat \<Rightarrow> duration
      \<Rightarrow> string \<Rightarrow> trigger_result result" where
  "same_time_relative_volume bars baseline code window_bars minimum_days threshold bar_interval source =
     raise_if (window_bars < 1 \<or> minimum_days < 1)
       (ValueError ''same-time relative volume windows must be positive'') (
     bindr (ordered_bars bars) (\<lambda>ordered.
     let n = length ordered; sample_days = length baseline
     in if int n < window_bars then
          Inr (unavailable_result code ''insufficient_completed_session_bars''
                 (py_str_int window_bars @ '' completed bars are required and '' @ nat_digits n
                  @ '' are available'') (Some source))
        else bindr (same_time_baseline_median baseline) (\<lambda>median.
          case median of
            None \<Rightarrow> Inr (unavailable_result code ''insufficient_baseline_days''
                      (py_str_int minimum_days @ '' baseline days are required and ''
                       @ nat_digits sample_days @ '' are available'') (Some source))
          | Some baseline_median \<Rightarrow>
              if int sample_days < minimum_days then
                Inr (unavailable_result code ''insufficient_baseline_days''
                       (py_str_int minimum_days @ '' baseline days are required and ''
                        @ nat_digits sample_days @ '' are available'') (Some source))
              else if baseline_median \<le> 0 then
                Inr (unavailable_result code ''zero_baseline_volume''
                       ''the same-time baseline median is zero, so no ratio exists'' (Some source))
              else
                bindr (dsum 0 (map bar_volume (drop (n - nat window_bars) ordered))) (\<lambda>today_volume.
                bindr (ddiv today_volume baseline_median) (\<lambda>ratio.
                bindr (quantum_text ratio) (\<lambda>ratio_text.
                bindr (quantum_text threshold) (\<lambda>threshold_text.
                bindr (quantum_text today_volume) (\<lambda>today_text.
                bindr (quantum_text baseline_median) (\<lambda>median_text.
                Inr \<lparr>tr_code = code, tr_status = ratio_status ratio threshold,
                     tr_value = Some ratio_text, tr_threshold = Some threshold_text,
                     tr_source = Some source,
                     tr_as_of = Some (bar_instant (last ordered) + bar_interval),
                     tr_detail = ''window='' @ py_str_int window_bars @ '' bars todayVolume=''
                       @ today_text @ '' baselineMedian='' @ median_text
                       @ '' sampleDays='' @ nat_digits sample_days,
                     tr_unavailable_reason = None, tr_blocked_reason = None\<rparr>)))))))))"

subsection \<open>Relative strength against the index\<close>

text \<open>A dictionary comprehension keeps the last bar of a timestamp.\<close>

definition overlapping_window ::
    "rat price_bar list \<Rightarrow> rat price_bar list \<Rightarrow> (rat price_bar list \<times> rat price_bar list) option" where
  "overlapping_window bars index_bars =
     (let index_by_timestamp = map_of (rev (map (\<lambda>bar. (bar_instant bar, bar)) index_bars));
          shared = List.map_filter
            (\<lambda>bar. map_option (\<lambda>index_bar. (bar, index_bar)) (index_by_timestamp (bar_instant bar))) bars
      in if length shared < 2 then None else Some (map fst shared, map snd shared))"

definition window_return :: "rat price_bar list \<Rightarrow> rat option result" where
  "window_return bars =
     (let reference = bar_open (hd bars)
      in if reference \<le> 0 then Inr None
         else bindr (ddiv (bar_close (last bars)) reference) (\<lambda>growth.
              bindr (dsub growth 1) (\<lambda>r. Inr (Some r))))"

definition intraday_relative_strength ::
    "rat price_bar list \<Rightarrow> rat price_bar list option \<Rightarrow> action \<Rightarrow> rat \<Rightarrow> duration \<Rightarrow> string
      \<Rightarrow> string option \<Rightarrow> string option \<Rightarrow> trigger_result result" where
  "intraday_relative_strength bars index_bars direction threshold bar_interval source index_source
       unavailable_reason =
     (if index_bars = None \<or> index_bars = Some [] then
        Inr (unavailable_result INTRADAY_RELATIVE_STRENGTH
               (if unavailable_reason = None \<or> unavailable_reason = Some []
                then INDEX_INTRADAY_UNAVAILABLE else the unavailable_reason)
               (''no completed regular-session index bars were returned by the ''
                @ ''shared market-data path'') index_source)
      else
        bindr (ordered_bars bars) (\<lambda>ordered.
        bindr (ordered_bars (the index_bars)) (\<lambda>ordered_index.
        if ordered = [] then
          Inr (unavailable_result INTRADAY_RELATIVE_STRENGTH ''no_completed_session_bars''
                 ''the candidate has no completed session bars'' (Some source))
        else case overlapping_window ordered ordered_index of
          None \<Rightarrow> Inr (unavailable_result INTRADAY_RELATIVE_STRENGTH ''index_window_mismatch''
                    (''candidate and index completed bars do not share a common ''
                     @ ''session window'') index_source)
        | Some (symbol_window, index_window) \<Rightarrow>
            bindr (window_return symbol_window) (\<lambda>symbol_return.
            bindr (window_return index_window) (\<lambda>index_return.
            case (symbol_return, index_return) of
              (Some symbol_return, Some index_return) \<Rightarrow>
                bindr (dsub symbol_return index_return) (\<lambda>excess.
                bindr (if direction = BUY then Inr threshold else dec_ctx (- threshold)) (\<lambda>required.
                let active = (if direction = BUY then required \<le> excess else excess \<le> required) in
                bindr (quantum_text excess) (\<lambda>excess_text.
                bindr (quantum_text required) (\<lambda>required_text.
                bindr (quantum_text symbol_return) (\<lambda>symbol_text.
                bindr (quantum_text index_return) (\<lambda>index_text.
                Inr \<lparr>tr_code = INTRADAY_RELATIVE_STRENGTH,
                     tr_status = (if active then Active else Inactive),
                     tr_value = Some excess_text, tr_threshold = Some required_text,
                     tr_source = index_source,
                     tr_as_of = Some (bar_instant (last symbol_window) + bar_interval),
                     tr_detail = ''symbolReturn='' @ symbol_text @ '' indexReturn='' @ index_text
                       @ '' over '' @ nat_digits (length symbol_window) @ '' shared completed bars'',
                     tr_unavailable_reason = None, tr_blocked_reason = None\<rparr>))))))
            | _ \<Rightarrow> Inr (unavailable_result INTRADAY_RELATIVE_STRENGTH ''non_positive_reference_price''
                     ''a window open price was not positive, so no return exists'' index_source))))))"

subsection \<open>The decision\<close>

record no_chase_evidence =
  nc_pivot_buffer_ratio :: rat
  nc_max_extension_ratio :: rat
  nc_session_open_price :: "rat option"
  nc_previous_close :: "rat option"
  nc_atr_14 :: "rat option"
  nc_gap_up_blocked :: bool
  nc_gap_up_unavailable :: "string option"

text \<open>Why the opening gap of a BUY cannot be measured.\<close>

definition gap_missing :: "rat option \<Rightarrow> rat option \<Rightarrow> rat option \<Rightarrow> string list" where
  "gap_missing session_open_price previous_close atr_14 =
     (if session_open_price = None then [''session_open_unavailable''] else [])
     @ (if case previous_close of None \<Rightarrow> True | Some p \<Rightarrow> p \<le> 0
        then [''previous_close_unavailable''] else [])
     @ (if atr_14 = None then [''atr14_unavailable''] else [])"

definition gap_up :: "intraday_trigger_config \<Rightarrow> rat \<Rightarrow> rat \<Rightarrow> rat \<Rightarrow> bool result" where
  "gap_up config session_open_price previous_close atr_14 =
     bindr (dsub session_open_price previous_close) (\<lambda>gap.
     bindr (dmul (tc_gap_up_atr_multiple config) atr_14) (\<lambda>by_atr.
     bindr (dmul (tc_gap_up_min_ratio config) previous_close) (\<lambda>by_ratio.
     Inr (max by_atr by_ratio \<le> gap))))"

definition evaluate_no_chase ::
    "action \<Rightarrow> intraday_trigger_config \<Rightarrow> rat option \<Rightarrow> rat option \<Rightarrow> rat option
      \<Rightarrow> no_chase_evidence result" where
  "evaluate_no_chase direction config session_open_price previous_close atr_14 =
     (let missing = gap_missing session_open_price previous_close atr_14 in
      bindr (if direction \<noteq> BUY then Inr (False, None)
             else if missing \<noteq> [] then Inr (False, Some (comma_join missing))
             else bindr (gap_up config (the session_open_price) (the previous_close) (the atr_14))
                    (\<lambda>blocked. Inr (blocked, None))) (\<lambda>(blocked, unavailable).
      Inr \<lparr>nc_pivot_buffer_ratio = tc_pivot_buffer_ratio config,
           nc_max_extension_ratio = tc_max_extension_ratio config,
           nc_session_open_price = session_open_price, nc_previous_close = previous_close,
           nc_atr_14 = atr_14, nc_gap_up_blocked = blocked, nc_gap_up_unavailable = unavailable\<rparr>))"

record intraday_trigger_decision =
  id_symbol :: string
  id_market :: string
  id_direction :: action
  id_status :: trigger_decision_status
  id_triggers :: "trigger_result list"
  id_policy :: intraday_trigger_policy
  id_evaluated_at :: instant
  id_valid_until :: instant
  id_data_as_of :: "instant option"
  id_blocked_reason :: "string option"
  id_no_chase :: no_chase_evidence

definition by_code :: "trigger_result list \<Rightarrow> string \<Rightarrow> trigger_result option" where
  "by_code triggers = map_of (rev (map (\<lambda>item. (tr_code item, item)) triggers))"

definition opt_available :: "trigger_result option \<Rightarrow> bool" where
  "opt_available item = (case item of None \<Rightarrow> False | Some r \<Rightarrow> tr_available r)"

definition opt_active :: "trigger_result option \<Rightarrow> bool" where
  "opt_active item = (case item of None \<Rightarrow> False | Some r \<Rightarrow> tr_active r)"

text \<open>One any-of group of the policy: the failure it contributes.\<close>

definition group_failure :: "trigger_result option list \<Rightarrow> string \<Rightarrow> string \<Rightarrow> string list" where
  "group_failure items unavailable inactive =
     (if \<forall>item \<in> set items. \<not> opt_available item then [unavailable]
      else if \<not> (\<exists>item \<in> set items. opt_active item) then [inactive] else [])"

definition policy_failures :: "intraday_trigger_policy \<Rightarrow> trigger_result list \<Rightarrow> string list" where
  "policy_failures policy triggers =
     group_failure (map (by_code triggers) (tp_directional policy))
       ''directional_triggers_unavailable'' ''no_directional_trigger''
     @ group_failure (map (by_code triggers) (tp_volume policy))
       ''relative_volume_unavailable'' ''relative_volume_not_confirmed''
     @ map (\<lambda>code. code @ ''_disagrees'')
         (filter (\<lambda>code. opt_available (by_code triggers code) \<and> \<not> opt_active (by_code triggers code))
           (tp_directional_confirmation policy))"

definition no_chase_blocks :: "trigger_result list \<Rightarrow> no_chase_evidence \<Rightarrow> string list" where
  "no_chase_blocks triggers no_chase =
     List.map_filter (\<lambda>item. if tr_status item = Blocked then tr_blocked_reason item else None) triggers
     @ (if nc_gap_up_blocked no_chase then [''gap_up_no_chase''] else [])"

definition decision_verdict ::
    "string option \<Rightarrow> action \<Rightarrow> no_chase_evidence \<Rightarrow> intraday_trigger_policy \<Rightarrow> trigger_result list
      \<Rightarrow> trigger_decision_status \<times> string option" where
  "decision_verdict blocked_reason direction no_chase policy triggers =
     (if blocked_reason \<noteq> None then (DecisionUnavailable, blocked_reason)
      else if direction = HOLD then (DecisionUnavailable, Some ''no_directional_setup'')
      else let blocks = no_chase_blocks triggers no_chase in
        if blocks \<noteq> [] then (DecisionBlocked, Some (comma_join (first_seen blocks)))
        else let failures = policy_failures policy triggers in
          if failures = [] then (Triggered, None)
          else (if \<exists>item \<in> set failures. py_endswith item ''_unavailable''
                then DecisionUnavailable else NotTriggered, Some (comma_join failures)))"

definition latest_as_of :: "trigger_result list \<Rightarrow> instant option" where
  "latest_as_of triggers =
     (case List.map_filter tr_as_of triggers of [] \<Rightarrow> None | t # ts \<Rightarrow> Some (fold max ts t))"

definition decide_intraday_triggers ::
    "trigger_result list \<Rightarrow> string \<Rightarrow> string \<Rightarrow> action \<Rightarrow> py_datetime \<Rightarrow> intraday_trigger_policy
      \<Rightarrow> intraday_trigger_config \<Rightarrow> rat option \<Rightarrow> rat option \<Rightarrow> rat option \<Rightarrow> string option
      \<Rightarrow> intraday_trigger_decision result" where
  "decide_intraday_triggers triggers symbol market direction evaluated_at policy config
       session_open_price previous_close atr_14 blocked_reason =
     bindr (trigger_aware_utc evaluated_at ''evaluated_at'') (\<lambda>moment.
     bindr (evaluate_no_chase direction config session_open_price previous_close atr_14) (\<lambda>no_chase.
     let verdict = decision_verdict blocked_reason direction no_chase policy triggers in
     Inr \<lparr>id_symbol = symbol, id_market = market, id_direction = direction,
          id_status = fst verdict, id_triggers = triggers, id_policy = policy,
          id_evaluated_at = moment, id_valid_until = moment + tc_decision_ttl config,
          id_data_as_of = latest_as_of triggers, id_blocked_reason = snd verdict,
          id_no_chase = no_chase\<rparr>))"

definition is_expired :: "intraday_trigger_decision \<Rightarrow> py_datetime \<Rightarrow> bool result" where
  "is_expired d now = bindr (trigger_aware_utc now ''now'') (\<lambda>t. Inr (id_valid_until d \<le> t))"

definition expire :: "intraday_trigger_decision \<Rightarrow> py_datetime \<Rightarrow> intraday_trigger_decision result" where
  "expire d now =
     (if id_status d \<noteq> Triggered then Inr d
      else bindr (is_expired d now) (\<lambda>expired.
        Inr (if expired then d\<lparr>id_status := NotTriggered, id_blocked_reason := Some ''expired''\<rparr> else d)))"

subsection \<open>Evidence of a decision\<close>

definition no_chase_json :: "no_chase_evidence \<Rightarrow> json result" where
  "no_chase_json e =
     bindr (quantum_text (nc_pivot_buffer_ratio e)) (\<lambda>pivot.
     bindr (quantum_text (nc_max_extension_ratio e)) (\<lambda>extension.
     bindr (optional_quantum_text (nc_session_open_price e)) (\<lambda>open_text.
     bindr (optional_quantum_text (nc_previous_close e)) (\<lambda>close_text.
     bindr (optional_quantum_text (nc_atr_14 e)) (\<lambda>atr_text.
     Inr (JObj
       [(''schemaVersion'', JStr ''kasset.no-chase.v1''),
        (''pivotBuffer'', JStr pivot), (''maxExtension'', JStr extension),
        (''gapUp'', JObj
          [(''open'', open_text), (''prevClose'', close_text), (''atr14'', atr_text),
           (''blocked'', JBool (nc_gap_up_blocked e)),
           (''unavailable'', json_optional JStr (nc_gap_up_unavailable e))])]))))))"

definition decision_evidence :: "intraday_trigger_decision \<Rightarrow> json result" where
  "decision_evidence d =
     bindr (no_chase_json (id_no_chase d)) (\<lambda>no_chase.
     Inr (JObj
       [(''title'', JStr ''Completed intraday entry triggers''),
        (''source'', JStr ''kasset_intraday_triggers''),
        (''kind'', JStr ''intraday_triggers''),
        (''schemaVersion'', JStr ''kasset.intraday-triggers.v1''),
        (''symbol'', JStr (id_symbol d)), (''market'', JStr (id_market d)),
        (''direction'', JStr (action_value (id_direction d))),
        (''status'', JStr (decision_status_value (id_status d))),
        (''evaluatedAt'', JStr (z_text (id_evaluated_at d))),
        (''validUntil'', JStr (z_text (id_valid_until d))),
        (''dataAsOf'', json_optional (JStr \<circ> z_text) (id_data_as_of d)),
        (''blockedReason'', json_optional JStr (id_blocked_reason d)),
        (''policy'', policy_evidence (id_policy d)),
        (''triggers'', JList (map trigger_evidence (id_triggers d))),
        (''noChase'', no_chase)]))"

definition compact_reason :: "intraday_trigger_decision \<Rightarrow> string" where
  "compact_reason d =
     take 128 (decision_status_value (id_status d) @ ''['' @
       comma_join (map (\<lambda>item. tr_code item @ ''='' @ trigger_status_value (tr_status item))
                     (id_triggers d)) @ '']'')"

end
