(* ===== verification/Intraday_Data.thy ===== *)
theory Intraday_Data
  imports Intraday_Triggers
begin

text \<open>
  The loader of completed session bars, \<open>app/extensions/kasset/automation/intraday_data.py\<close>, and
  the step of \<open>vertical_slice.py\<close> that feeds the loaded bars into the triggers.

  The market-data service \<open>get_ohlcv\<close> is the argument \<open>ohlcv\<close>: it raises (\<open>Inl\<close>, the name of
  the exception type) or returns candles. The time zone database is the argument \<open>zone_utc\<close>, which
  gives the instant of a local reading in a named zone. The conversion of a provider number by
  \<open>Decimal(str(value))\<close> is made at the candle: \<open>None\<close> is a value whose conversion raises.
\<close>

subsection \<open>Candles and results\<close>

record ohlcv_candle =
  cd_source :: string
  cd_timestamp :: "py_datetime option"
  cd_open :: "decimal option"
  cd_high :: "decimal option"
  cd_low :: "decimal option"
  cd_close :: "decimal option"
  cd_volume :: "decimal option"

type_synonym ohlcv_service = "string \<Rightarrow> string \<Rightarrow> string \<Rightarrow> int \<Rightarrow> string + ohlcv_candle list"
type_synonym zone_database = "string \<Rightarrow> int \<Rightarrow> instant"

record completed_intraday_bars =
  cb_symbol :: string
  cb_market :: string
  cb_period :: string
  cb_bar_interval :: duration
  cb_session :: regular_session
  cb_bars :: "rat price_bar list"
  cb_source :: string
  cb_data_as_of :: instant

record intraday_bars_unavailable =
  ub_symbol :: string
  ub_market :: string
  ub_period :: string
  ub_blocked_reason :: string
  ub_detail :: string
  ub_session :: "regular_session option"
  ub_bars :: "rat price_bar list"
  ub_source :: "string option"
  ub_data_as_of :: "instant option"

datatype intraday_bars_result =
    CompletedIntradayBars completed_intraday_bars
  | IntradayBarsUnavailable intraday_bars_unavailable

definition ohlcv_market :: "string \<Rightarrow> string option" where
  "ohlcv_market market =
     (if market = ''KRX'' then Some ''equity_kr'' else if market = ''US'' then Some ''equity_us'' else None)"

definition naive_timezone :: "string \<Rightarrow> string option" where
  "naive_timezone market =
     (if market = ''KRX'' then Some ''Asia/Seoul''
      else if market = ''US'' then Some ''America/New_York'' else None)"

definition INTRADAY_BAR_PERIOD :: string where "INTRADAY_BAR_PERIOD = ''5m''"
definition INTRADAY_BAR_INTERVAL :: duration where "INTRADAY_BAR_INTERVAL = 5 * 60 * 1000000"
definition INTRADAY_MAX_BAR_AGE :: duration where "INTRADAY_MAX_BAR_AGE = 12 * 60 * 1000000"
definition INTRADAY_BAR_COUNT :: int where "INTRADAY_BAR_COUNT = 84"

subsection \<open>One candle\<close>

text \<open>\<open>_normalized_timestamp\<close>; \<open>None\<close> as a timestamp is a value that is not a datetime.\<close>

definition normalized_timestamp ::
    "zone_database \<Rightarrow> string \<Rightarrow> py_datetime option \<Rightarrow> instant option" where
  "normalized_timestamp zone_utc market value =
     (case value of
        None \<Rightarrow> None
      | Some (Aware t) \<Rightarrow> Some t
      | Some (Naive local) \<Rightarrow> map_option (\<lambda>zone. zone_utc zone local) (naive_timezone market))"

definition valid_ohlcv :: "rat \<Rightarrow> rat \<Rightarrow> rat \<Rightarrow> rat \<Rightarrow> rat \<Rightarrow> bool" where
  "valid_ohlcv open_price high low close volume \<longleftrightarrow>
     0 < open_price \<and> 0 < high \<and> 0 < low \<and> 0 < close \<and> 0 \<le> volume
     \<and> max open_price close \<le> high \<and> low \<le> min open_price close"

text \<open>\<open>_price_bar\<close>: a bar only when all five numbers convert, are finite and are consistent.\<close>

definition price_bar_of :: "ohlcv_candle \<Rightarrow> instant \<Rightarrow> rat price_bar option" where
  "price_bar_of c timestamp =
     (case (cd_open c, cd_high c, cd_low c, cd_close c, cd_volume c) of
        (Some (DFinite open_price), Some (DFinite high), Some (DFinite low), Some (DFinite close),
         Some (DFinite volume)) \<Rightarrow>
          if valid_ohlcv open_price high low close volume
          then Some \<lparr>bar_timestamp = Aware timestamp, bar_open = open_price, bar_high = high,
                     bar_low = low, bar_close = close, bar_volume = volume\<rparr>
          else None
      | _ \<Rightarrow> None)"

subsection \<open>The candle loop\<close>

datatype candle_fault = TimestampUnusable | BarInvalid

fun completed_session_bars ::
    "zone_database \<Rightarrow> string \<Rightarrow> regular_session \<Rightarrow> duration \<Rightarrow> instant \<Rightarrow> ohlcv_candle list
      \<Rightarrow> candle_fault + rat price_bar list" where
  "completed_session_bars zone_utc market session bar_interval moment [] = Inr []"
| "completed_session_bars zone_utc market session bar_interval moment (c # cs) =
     (case normalized_timestamp zone_utc market (cd_timestamp c) of
        None \<Rightarrow> Inl TimestampUnusable
      | Some timestamp \<Rightarrow>
          let closes_at = timestamp + bar_interval;
              rest = completed_session_bars zone_utc market session bar_interval moment cs
          in if timestamp < rs_opens_at session \<or> rs_closes_at session < closes_at then rest
             else if moment < closes_at then rest
             else case price_bar_of c timestamp of
               None \<Rightarrow> Inl BarInvalid
             | Some bar \<Rightarrow> (case rest of Inl fault \<Rightarrow> Inl fault | Inr bars \<Rightarrow> Inr (bar # bars)))"

text \<open>\<open>",".join(sorted(sources)) if sources else "unknown"\<close>\<close>

definition candle_sources :: "ohlcv_candle list \<Rightarrow> string" where
  "candle_sources candles =
     (let sources = sort (remdups (filter (\<lambda>s. s \<noteq> []) (map cd_source candles)))
      in if sources \<noteq> [] then comma_join sources else ''unknown'')"

text \<open>\<open>str(timedelta)\<close>\<close>

definition py_str_duration :: "duration \<Rightarrow> string" where
  "py_str_duration d =
     (let days = d div day_us; us = d mod day_us; sec = us div 1000000; frac = us mod 1000000
      in (if days = 0 then []
          else py_str_int days @ '' day'' @ (if \<bar>days\<bar> = 1 then [] else ''s'') @ '', '')
         @ py_str_int (sec div 3600) @ '':'' @ pad_digits 2 (sec div 60 mod 60) @ '':''
         @ pad_digits 2 (sec mod 60) @ (if frac = 0 then [] else ''.'' @ pad_digits 6 frac))"

subsection \<open>The loaders\<close>

text \<open>The unavailable result of a symbol; the optional fields keep their defaults.\<close>

definition bars_unavailable ::
    "string \<Rightarrow> string \<Rightarrow> string \<Rightarrow> string \<Rightarrow> string \<Rightarrow> regular_session option \<Rightarrow> string option
      \<Rightarrow> intraday_bars_unavailable" where
  "bars_unavailable symbol market period blocked_reason detail session source =
     \<lparr>ub_symbol = symbol, ub_market = market, ub_period = period,
      ub_blocked_reason = blocked_reason, ub_detail = detail, ub_session = session,
      ub_bars = [], ub_source = source, ub_data_as_of = None\<rparr>"

text \<open>What the loader makes of the candles of a resolved session.\<close>

definition bars_of_candles ::
    "zone_database \<Rightarrow> string \<Rightarrow> string \<Rightarrow> string \<Rightarrow> duration \<Rightarrow> duration \<Rightarrow> regular_session \<Rightarrow> instant
      \<Rightarrow> ohlcv_candle list \<Rightarrow> intraday_bars_result" where
  "bars_of_candles zone_utc symbol market period bar_interval maximum_bar_age session moment candles =
     (let source = candle_sources candles;
          fail = (\<lambda>reason detail. IntradayBarsUnavailable
                    (bars_unavailable symbol market period reason detail (Some session) (Some source)))
      in case completed_session_bars zone_utc market session bar_interval moment candles of
           Inl TimestampUnusable \<Rightarrow>
             fail ''intraday_timestamp_unusable'' ''an intraday candle timestamp had no provable instant''
         | Inl BarInvalid \<Rightarrow>
             fail ''intraday_bar_invalid'' ''an intraday candle had non-finite or inconsistent OHLCV''
         | Inr found \<Rightarrow>
             let bars = sort_key bar_instant found
             in if bars = [] then
                  fail ''no_completed_session_bars''
                    (''the regular session has produced no completed bucket for this '' @ ''symbol yet'')
                else let data_as_of = bar_instant (last bars) + bar_interval
                  in if maximum_bar_age < moment - data_as_of then
                       IntradayBarsUnavailable
                         (bars_unavailable symbol market period ''intraday_bars_stale''
                           (''the newest completed bar closed at '' @ z_text data_as_of
                            @ '', older than '' @ py_str_duration maximum_bar_age)
                           (Some session) (Some source)
                          \<lparr>ub_bars := bars, ub_data_as_of := Some data_as_of\<rparr>)
                     else CompletedIntradayBars
                       \<lparr>cb_symbol = symbol, cb_market = market, cb_period = period,
                        cb_bar_interval = bar_interval, cb_session = session, cb_bars = bars,
                        cb_source = source, cb_data_as_of = data_as_of\<rparr>)"

definition load_completed_session_bars ::
    "xcal \<Rightarrow> zone_database \<Rightarrow> ohlcv_service \<Rightarrow> string \<Rightarrow> string \<Rightarrow> py_datetime \<Rightarrow> string \<Rightarrow> duration
      \<Rightarrow> int \<Rightarrow> duration \<Rightarrow> regular_session option \<Rightarrow> intraday_bars_result result" where
  "load_completed_session_bars cal zone_utc ohlcv symbol market as_of period bar_interval bar_count
       maximum_bar_age session =
     bindr (trigger_aware_utc as_of ''as_of'') (\<lambda>moment.
     bindr (case session of Some s \<Rightarrow> Inr (Some s)
            | None \<Rightarrow> current_regular_session cal market (Aware moment)) (\<lambda>resolved.
     case resolved of
       None \<Rightarrow> Inr (IntradayBarsUnavailable
         (bars_unavailable symbol market period ''regular_session_closed''
           (''the shared session calendar does not place as_of inside a '' @ ''regular session'')
           None None))
     | Some resolved_session \<Rightarrow>
         (case ohlcv_market market of
            None \<Rightarrow> Inr (IntradayBarsUnavailable
              (bars_unavailable symbol market period ''unsupported_market''
                (market @ '' has no shared intraday OHLCV route'') (Some resolved_session) None))
          | Some route \<Rightarrow>
              (case ohlcv symbol route period bar_count of
                 Inl exc \<Rightarrow> Inr (IntradayBarsUnavailable
                   (bars_unavailable symbol market period ''intraday_provider_unavailable''
                     (''shared get_ohlcv raised '' @ exc) (Some resolved_session) None))
               | Inr candles \<Rightarrow>
                   if candles = [] then Inr (IntradayBarsUnavailable
                     (bars_unavailable symbol market period ''intraday_bars_empty''
                       ''the shared market-data path returned no intraday candles''
                       (Some resolved_session) None))
                   else Inr (bars_of_candles zone_utc symbol market period bar_interval
                          maximum_bar_age resolved_session moment candles)))))"

definition index_missing_reasons :: "string list" where
  "index_missing_reasons =
     [''intraday_bars_empty'', ''intraday_provider_unavailable'', ''no_completed_session_bars'']"

definition load_index_session_bars ::
    "xcal \<Rightarrow> zone_database \<Rightarrow> ohlcv_service \<Rightarrow> string \<Rightarrow> string \<Rightarrow> py_datetime \<Rightarrow> regular_session option
      \<Rightarrow> string \<Rightarrow> duration \<Rightarrow> int \<Rightarrow> duration \<Rightarrow> intraday_bars_result result" where
  "load_index_session_bars cal zone_utc ohlcv index_symbol market as_of session period bar_interval
       bar_count maximum_bar_age =
     bindr (load_completed_session_bars cal zone_utc ohlcv index_symbol market as_of period
              bar_interval bar_count maximum_bar_age session) (\<lambda>loaded.
     case loaded of
       CompletedIntradayBars _ \<Rightarrow> Inr loaded
     | IntradayBarsUnavailable u \<Rightarrow>
         if ub_blocked_reason u \<in> set index_missing_reasons
         then Inr (IntradayBarsUnavailable
           (bars_unavailable index_symbol market period INDEX_INTRADAY_UNAVAILABLE
             (ub_blocked_reason u @ '': '' @ ub_detail u @ ''. Index intraday bars ''
              @ ''are not synthesized from daily data.'') (ub_session u) (ub_source u)))
         else Inr loaded)"

subsection \<open>From bars to a decision\<close>

definition OPENING_RANGE :: duration where "OPENING_RANGE = 15 * 60 * 1000000"

definition RELATIVE_VOLUME_THRESHOLD :: rat where "RELATIVE_VOLUME_THRESHOLD = 15 / 10"

definition RELATIVE_VOLUME_WINDOWS :: "(string \<times> int \<times> int) list" where
  "RELATIVE_VOLUME_WINDOWS = [(RELATIVE_VOLUME_5M, 1, 12), (RELATIVE_VOLUME_20M, 4, 12)]"

definition INTRADAY_RELATIVE_STRENGTH_THRESHOLD :: rat where
  "INTRADAY_RELATIVE_STRENGTH_THRESHOLD = 0"

fun index_bars_of :: "intraday_bars_result option \<Rightarrow> rat price_bar list option" where
  "index_bars_of (Some (CompletedIntradayBars c)) = Some (cb_bars c)"
| "index_bars_of _ = None"

fun index_source_of :: "intraday_bars_result option \<Rightarrow> string option" where
  "index_source_of (Some (CompletedIntradayBars c)) = Some (cb_source c)"
| "index_source_of (Some (IntradayBarsUnavailable u)) = Some (ub_symbol u)"
| "index_source_of None = None"

fun index_reason_of :: "intraday_bars_result option \<Rightarrow> string option" where
  "index_reason_of (Some (IntradayBarsUnavailable u)) = Some (ub_blocked_reason u)"
| "index_reason_of _ = None"

text \<open>The five trigger results of one candidate, in the order of the list in the code.\<close>

definition candidate_triggers ::
    "action \<Rightarrow> completed_intraday_bars \<Rightarrow> intraday_bars_result option \<Rightarrow> trigger_result list result" where
  "candidate_triggers direction c index_bars =
     bindr (opening_range_breakout (cb_bars c) direction (Aware (rs_opens_at (cb_session c)))
              OPENING_RANGE (cb_bar_interval c) (cb_source c) DEFAULT_INTRADAY_TRIGGER_CONFIG) (\<lambda>orb.
     bindr (session_vwap_reclaim (cb_bars c) direction (cb_bar_interval c) (cb_source c)
              DEFAULT_INTRADAY_TRIGGER_CONFIG) (\<lambda>vwap.
     bindr (mapr (\<lambda>(code, window_bars, baseline_bars).
              relative_volume (cb_bars c) code window_bars baseline_bars RELATIVE_VOLUME_THRESHOLD
                (cb_bar_interval c) (cb_source c)) RELATIVE_VOLUME_WINDOWS) (\<lambda>volumes.
     bindr (intraday_relative_strength (cb_bars c) (index_bars_of index_bars) direction
              INTRADAY_RELATIVE_STRENGTH_THRESHOLD (cb_bar_interval c) (cb_source c)
              (index_source_of index_bars) (index_reason_of index_bars)) (\<lambda>strength.
     Inr ([orb, vwap] @ volumes @ [strength])))))"

definition session_open_price :: "completed_intraday_bars \<Rightarrow> rat option" where
  "session_open_price c =
     (if bar_timestamp (hd (cb_bars c)) = Aware (rs_opens_at (cb_session c))
      then Some (bar_open (hd (cb_bars c))) else None)"

text \<open>
  \<open>_decide_triggers\<close> for a candidate: its direction, symbol and market, the clock, the policy, and
  the previous close and ATR the daily data gave.
\<close>

definition decide_triggers ::
    "action \<Rightarrow> string \<Rightarrow> string \<Rightarrow> py_datetime \<Rightarrow> intraday_trigger_policy \<Rightarrow> intraday_bars_result option
      \<Rightarrow> intraday_bars_result option \<Rightarrow> rat option \<Rightarrow> rat option \<Rightarrow> intraday_trigger_decision result" where
  "decide_triggers direction symbol market now policy intraday index_bars previous_close atr_14 =
     (case intraday of
        Some (CompletedIntradayBars c) \<Rightarrow>
          bindr (candidate_triggers direction c index_bars) (\<lambda>triggers.
          decide_intraday_triggers triggers symbol market direction now policy
            DEFAULT_INTRADAY_TRIGGER_CONFIG (session_open_price c) previous_close atr_14 None)
      | Some (IntradayBarsUnavailable u) \<Rightarrow>
          decide_intraday_triggers [] symbol market direction now policy
            DEFAULT_INTRADAY_TRIGGER_CONFIG None None None (Some (ub_blocked_reason u))
      | None \<Rightarrow>
          decide_intraday_triggers [] symbol market direction now policy
            DEFAULT_INTRADAY_TRIGGER_CONFIG None None None (Some ''intraday_bars_not_loaded''))"

end
