(* ===== verification/Intraday_Rules.thy ===== *)
theory Intraday_Rules
  imports Intraday_Data Regime
begin

text \<open>
  Properties of the intraday triggers and of the loader that feeds them: when a decision is
  triggered, blocked or unavailable; which candles become bars; and what a triggered BUY on loaded
  bars guarantees about the price it would chase, the volume behind it and the opening gap.
\<close>

subsection \<open>The policy\<close>

lemma endswith_simps [simp]:
  "py_endswith ''directional_triggers_unavailable'' ''_unavailable''"
  "py_endswith ''relative_volume_unavailable'' ''_unavailable''"
  "\<not> py_endswith ''no_directional_trigger'' ''_unavailable''"
  "\<not> py_endswith ''relative_volume_not_confirmed'' ''_unavailable''"
  by (simp_all add: py_endswith_def)

lemma endswith_append:
  assumes "py_endswith (s @ t) suffix" and "length suffix \<le> length t + k" and "k \<le> length suffix"
  shows "drop k suffix = drop (length t + k - length suffix) t"
proof -
  from assms(1) have "suffix = drop (length s + length t - length suffix) (s @ t)"
    and l: "length suffix \<le> length s + length t" by (simp_all add: py_endswith_def)
  then have "drop k suffix = drop (k + (length s + length t - length suffix)) (s @ t)"
    by (metis drop_drop)
  moreover have "length s \<le> k + (length s + length t - length suffix)" using assms(2) l by linarith
  ultimately have "drop k suffix = drop (k + (length s + length t - length suffix) - length s) t"
    by simp
  moreover have "k + (length s + length t - length suffix) - length s = length t + k - length suffix"
    using assms(2) l by linarith
  ultimately show ?thesis by simp
qed

lemma disagrees_not_unavailable: "\<not> py_endswith (code @ ''_disagrees'') ''_unavailable''"
  using endswith_append [of code "''_disagrees''" "''_unavailable''" 2] by auto

lemma group_failure_Nil:
  "group_failure items u i = [] \<longleftrightarrow> (\<exists>item \<in> set items. opt_active item)"
proof -
  have "opt_available item" if "opt_active item" for item
    using that by (cases item) (auto simp: opt_active_def opt_available_def tr_active_def tr_available_def)
  then show ?thesis by (auto simp: group_failure_def)
qed

text \<open>What the policy asks for, read off the results by their codes.\<close>

definition any_active :: "trigger_result list \<Rightarrow> string list \<Rightarrow> bool" where
  "any_active triggers codes \<longleftrightarrow>
     (\<exists>code \<in> set codes. \<exists>r. by_code triggers code = Some r \<and> tr_status r = Active)"

definition none_available :: "trigger_result list \<Rightarrow> string list \<Rightarrow> bool" where
  "none_available triggers codes \<longleftrightarrow>
     (\<forall>code \<in> set codes. \<forall>r. by_code triggers code = Some r \<longrightarrow> tr_status r = Unavailable)"

definition confirmations_agree :: "trigger_result list \<Rightarrow> string list \<Rightarrow> bool" where
  "confirmations_agree triggers codes \<longleftrightarrow>
     (\<forall>code \<in> set codes. \<forall>r. by_code triggers code = Some r
        \<longrightarrow> tr_status r = Unavailable \<or> tr_status r = Active)"

definition chase_blocked :: "trigger_result list \<Rightarrow> bool \<Rightarrow> bool" where
  "chase_blocked triggers gap \<longleftrightarrow>
     gap \<or> (\<exists>r \<in> set triggers. tr_status r = Blocked \<and> tr_blocked_reason r \<noteq> None)"

lemma opt_active_any: "(\<exists>item \<in> set (map (by_code ts) codes). opt_active item) \<longleftrightarrow> any_active ts codes"
  by (auto simp: any_active_def opt_active_def tr_active_def split: option.splits)

lemma opt_available_none:
  "(\<forall>item \<in> set (map (by_code ts) codes). \<not> opt_available item) \<longleftrightarrow> none_available ts codes"
  by (auto simp: none_available_def opt_available_def tr_available_def split: option.splits)

lemma confirmations_Nil:
  "filter (\<lambda>code. opt_available (by_code ts code) \<and> \<not> opt_active (by_code ts code)) codes = []
     \<longleftrightarrow> confirmations_agree ts codes"
  by (auto simp: confirmations_agree_def filter_empty_conv opt_available_def opt_active_def
      tr_available_def tr_active_def split: option.splits)

lemma no_chase_blocks_Nil:
  "no_chase_blocks ts e \<noteq> [] \<longleftrightarrow> chase_blocked ts (nc_gap_up_blocked e)"
  by (force simp: no_chase_blocks_def chase_blocked_def map_filter_def filter_empty_conv)

lemma policy_failures_Nil:
  "policy_failures p ts = [] \<longleftrightarrow> any_active ts (tp_directional p) \<and> any_active ts (tp_volume p)
     \<and> confirmations_agree ts (tp_directional_confirmation p)"
  unfolding policy_failures_def append_is_Nil_conv group_failure_Nil opt_active_any map_is_Nil_conv
    confirmations_Nil ..

lemma group_failure_unavailable:
  assumes "py_endswith u ''_unavailable''" and "\<not> py_endswith i ''_unavailable''"
  shows "(\<exists>f \<in> set (group_failure (map (by_code ts) codes) u i). py_endswith f ''_unavailable'')
     \<longleftrightarrow> none_available ts codes"
  using assms unfolding group_failure_def opt_available_none by auto

lemma policy_failures_unavailable:
  "(\<exists>f \<in> set (policy_failures p ts). py_endswith f ''_unavailable'')
     \<longleftrightarrow> none_available ts (tp_directional p) \<or> none_available ts (tp_volume p)"
  unfolding policy_failures_def set_append bex_Un
  by (simp add: group_failure_unavailable disagrees_not_unavailable)

lemma any_active_available: "any_active ts codes \<Longrightarrow> \<not> none_available ts codes"
  by (force simp: any_active_def none_available_def)

lemma decision_verdict_status:
  fixes e :: no_chase_evidence and reason :: "string option" and direction :: action
    and p :: intraday_trigger_policy and ts :: "trigger_result list"
  defines "s \<equiv> fst (decision_verdict reason direction e p ts)"
    and "blocked \<equiv> chase_blocked ts (nc_gap_up_blocked e)"
  shows "s = Triggered \<longleftrightarrow> reason = None \<and> direction \<noteq> HOLD \<and> \<not> blocked
           \<and> any_active ts (tp_directional p) \<and> any_active ts (tp_volume p)
           \<and> confirmations_agree ts (tp_directional_confirmation p)"
    and "s = DecisionBlocked \<longleftrightarrow> reason = None \<and> direction \<noteq> HOLD \<and> blocked"
    and "s = DecisionUnavailable \<longleftrightarrow> reason \<noteq> None \<or> direction = HOLD
           \<or> \<not> blocked \<and> (none_available ts (tp_directional p) \<or> none_available ts (tp_volume p))"
  unfolding s_def blocked_def decision_verdict_def Let_def no_chase_blocks_Nil policy_failures_Nil
    policy_failures_unavailable
  using any_active_available [of ts] by auto

text \<open>
  C11: The decision. It is unavailable when the bars were, when there is no direction, or when
  nothing blocks a chase and one of the two any-of groups has no available trigger; blocked when a
  trigger or the opening gap forbids the chase; triggered exactly when nothing blocks it, each
  any-of group has an active trigger and no available confirmation disagrees; and it is valid for
  the configured time from its evaluation.
\<close>

theorem trigger_decision_exact:
  assumes "decide_intraday_triggers triggers symbol market direction evaluated_at policy config
      open_price previous_close atr_14 blocked_reason = Inr d"
  shows "(id_status d = Triggered \<longleftrightarrow>
            blocked_reason = None \<and> direction \<noteq> HOLD
            \<and> \<not> chase_blocked triggers (nc_gap_up_blocked (id_no_chase d))
            \<and> any_active triggers (tp_directional policy) \<and> any_active triggers (tp_volume policy)
            \<and> confirmations_agree triggers (tp_directional_confirmation policy))
         \<and> (id_status d = DecisionBlocked \<longleftrightarrow>
            blocked_reason = None \<and> direction \<noteq> HOLD
            \<and> chase_blocked triggers (nc_gap_up_blocked (id_no_chase d)))
         \<and> (id_status d = DecisionUnavailable \<longleftrightarrow>
            blocked_reason \<noteq> None \<or> direction = HOLD
            \<or> \<not> chase_blocked triggers (nc_gap_up_blocked (id_no_chase d))
              \<and> (none_available triggers (tp_directional policy)
                 \<or> none_available triggers (tp_volume policy)))
         \<and> Aware (id_evaluated_at d) = evaluated_at
         \<and> id_valid_until d = id_evaluated_at d + tc_decision_ttl config"
proof -
  have "id_status d = fst (decision_verdict blocked_reason direction (id_no_chase d) policy triggers)"
    and t: "Aware (id_evaluated_at d) = evaluated_at" "id_valid_until d = id_evaluated_at d + tc_decision_ttl config"
    using assms by (auto simp: decide_intraday_triggers_def bindr_eq_Inr Let_def trigger_aware_utc_def)
  then show ?thesis by (simp only: decision_verdict_status t)
qed

text \<open>A decision is consumed as triggered exactly before the end of its validity.\<close>

lemma expire_triggered:
  assumes "expire d (Aware t) = Inr d'"
  shows "id_status d' = Triggered \<longleftrightarrow> id_status d = Triggered \<and> t < id_valid_until d"
proof (cases "id_status d = Triggered \<and> id_valid_until d \<le> t")
  case True
  then have "d' = d\<lparr>id_status := NotTriggered, id_blocked_reason := Some ''expired''\<rparr>"
    using assms by (simp add: expire_def is_expired_def trigger_aware_utc_def)
  with True show ?thesis by simp
next
  case False
  then have "d' = d"
    using assms by (cases "id_status d = Triggered") (simp_all add: expire_def is_expired_def trigger_aware_utc_def)
  with False show ?thesis by auto
qed

lemma expire_at_evaluation:
  assumes "decide_intraday_triggers triggers symbol market direction evaluated_at policy config
      open_price previous_close atr_14 blocked_reason = Inr d"
    and "0 < tc_decision_ttl config"
  shows "expire d evaluated_at = Inr d"
proof -
  have t: "evaluated_at = Aware (id_evaluated_at d)" "id_evaluated_at d < id_valid_until d"
    using assms by (auto simp: decide_intraday_triggers_def bindr_eq_Inr Let_def trigger_aware_utc_def)
  then have "is_expired d evaluated_at = Inr False" by (simp add: is_expired_def trigger_aware_utc_def)
  then show ?thesis by (simp add: expire_def)
qed

subsection \<open>The loaded bars\<close>

text \<open>
  What the candle loop keeps: the bucket of the candle lies inside the session and has closed by
  the moment of the evaluation.
\<close>

definition bucket_in :: "regular_session \<Rightarrow> duration \<Rightarrow> instant \<Rightarrow> instant \<Rightarrow> bool" where
  "bucket_in session bar_interval moment t \<longleftrightarrow>
     rs_opens_at session \<le> t \<and> t + bar_interval \<le> rs_closes_at session \<and> t + bar_interval \<le> moment"

definition candle_start :: "zone_database \<Rightarrow> string \<Rightarrow> ohlcv_candle \<Rightarrow> instant option" where
  "candle_start zone_utc market c = normalized_timestamp zone_utc market (cd_timestamp c)"

definition completed_candle ::
    "zone_database \<Rightarrow> string \<Rightarrow> regular_session \<Rightarrow> duration \<Rightarrow> instant \<Rightarrow> ohlcv_candle \<Rightarrow> bool" where
  "completed_candle zone_utc market session bar_interval moment c =
     (case candle_start zone_utc market c of None \<Rightarrow> False | Some t \<Rightarrow> bucket_in session bar_interval moment t)"

definition candle_bar :: "zone_database \<Rightarrow> string \<Rightarrow> ohlcv_candle \<Rightarrow> rat price_bar option" where
  "candle_bar zone_utc market c = Option.bind (candle_start zone_utc market c) (price_bar_of c)"

definition sound_bar :: "rat price_bar \<Rightarrow> bool" where
  "sound_bar b \<longleftrightarrow> is_aware (bar_timestamp b)
     \<and> valid_ohlcv (bar_open b) (bar_high b) (bar_low b) (bar_close b) (bar_volume b)"

lemma sort_key_Nil_iff [simp]: "sort_key f xs = [] \<longleftrightarrow> xs = []"
  by (metis length_0_conv length_sort)

lemma last_sorted_Max: "sorted ts \<Longrightarrow> ts \<noteq> [] \<Longrightarrow> last ts = Max (set ts)"
  by (induction ts) (auto simp: max_def)

lemma last_sort_key:
  "xs \<noteq> [] \<Longrightarrow> bar_instant (last (sort_key bar_instant xs)) = Max (bar_instant ` set xs)"
  using last_sorted_Max [of "map bar_instant (sort_key bar_instant xs)"] by (simp add: last_map)

lemma map_Some_inject: "map Some xs = map Some ys \<longleftrightarrow> xs = ys"
  by (simp add: inj_map_eq_map)

lemma completed_session_bars_step:
  assumes "candle_start zone_utc market c = Some t"
  shows "completed_session_bars zone_utc market session bar_interval moment (c # cs) =
    (let rest = completed_session_bars zone_utc market session bar_interval moment cs
     in if completed_candle zone_utc market session bar_interval moment c
        then case candle_bar zone_utc market c of None \<Rightarrow> Inl BarInvalid
          | Some bar \<Rightarrow> (case rest of Inl fault \<Rightarrow> Inl fault | Inr bars \<Rightarrow> Inr (bar # bars))
        else rest)"
  using assms by (auto simp: candle_start_def completed_candle_def candle_bar_def bucket_in_def Let_def)

lemma completed_session_bars_Inr:
  "completed_session_bars zone_utc market session bar_interval moment cs = Inr bars \<longleftrightarrow>
     (\<forall>c \<in> set cs. candle_start zone_utc market c \<noteq> None)
     \<and> map Some bars = map (candle_bar zone_utc market)
          (filter (completed_candle zone_utc market session bar_interval moment) cs)"
proof (induction cs arbitrary: bars)
  case (Cons c cs)
  show ?case
  proof (cases "candle_start zone_utc market c")
    case (Some t)
    show ?thesis
      unfolding completed_session_bars_step [OF Some] Let_def
      using Some Cons.IH
      by (cases bars) (auto split: option.splits sum.splits, metis map_Some_inject)
  qed (simp add: candle_start_def)
qed auto

lemma price_bar_of_sound:
  "price_bar_of c t = Some b \<Longrightarrow> sound_bar b \<and> bar_timestamp b = Aware t \<and> bar_instant b = t"
  by (auto simp: price_bar_of_def sound_bar_def bar_instant_def split: option.splits decimal.splits if_splits)

lemma completed_bars_sound:
  assumes "completed_session_bars zone_utc market session bar_interval moment cs = Inr bars"
    and "b \<in> set bars"
  shows "sound_bar b" and "bucket_in session bar_interval moment (bar_instant b)"
proof -
  have "Some b \<in> set (map (candle_bar zone_utc market)
      (filter (completed_candle zone_utc market session bar_interval moment) cs))"
    using assms completed_session_bars_Inr [of zone_utc market session bar_interval moment cs bars]
    by (metis image_eqI set_map)
  then obtain c t where "candle_start zone_utc market c = Some t" "price_bar_of c t = Some b"
      "bucket_in session bar_interval moment t"
    by (auto simp: candle_bar_def completed_candle_def bind_eq_Some_conv eq_commute [of "Some b"]
        split: option.splits)
  then show "sound_bar b" "bucket_in session bar_interval moment (bar_instant b)"
    by (auto dest: price_bar_of_sound)
qed

text \<open>The session a call works with.\<close>

definition resolved_session ::
    "xcal \<Rightarrow> string \<Rightarrow> instant \<Rightarrow> regular_session option \<Rightarrow> regular_session option result" where
  "resolved_session cal market moment session =
     (case session of Some s \<Rightarrow> Inr (Some s) | None \<Rightarrow> current_regular_session cal market (Aware moment))"

lemma bars_of_candles_completed:
  "bars_of_candles zone_utc symbol market period bar_interval age session moment candles
       = CompletedIntradayBars c \<longleftrightarrow>
     (\<exists>found. completed_session_bars zone_utc market session bar_interval moment candles = Inr found
        \<and> found \<noteq> [] \<and> moment - (bar_instant (last (sort_key bar_instant found)) + bar_interval) \<le> age
        \<and> c = \<lparr>cb_symbol = symbol, cb_market = market, cb_period = period,
               cb_bar_interval = bar_interval, cb_session = session,
               cb_bars = sort_key bar_instant found, cb_source = candle_sources candles,
               cb_data_as_of = bar_instant (last (sort_key bar_instant found)) + bar_interval\<rparr>)"
  by (auto simp: bars_of_candles_def Let_def not_less split: sum.splits candle_fault.splits)

lemma load_completed:
  "load_completed_session_bars cal zone_utc ohlcv symbol market as_of period bar_interval n age session
       = Inr (CompletedIntradayBars c) \<longleftrightarrow>
     (\<exists>moment s route candles. as_of = Aware moment \<and> resolved_session cal market moment session = Inr (Some s)
        \<and> ohlcv_market market = Some route \<and> ohlcv symbol route period n = Inr candles \<and> candles \<noteq> []
        \<and> bars_of_candles zone_utc symbol market period bar_interval age s moment candles
            = CompletedIntradayBars c)"
proof (cases as_of)
  case (Aware moment)
  show ?thesis
    unfolding load_completed_session_bars_def resolved_session_def [symmetric] Aware trigger_aware_utc_def
    by (cases "resolved_session cal market moment session"; cases "ohlcv_market market")
      (auto simp: bindr_eq_Inr split: option.splits sum.splits)
qed (simp add: load_completed_session_bars_def trigger_aware_utc_def bindr_eq_Inr)

text \<open>
  C10: The loader returns bars exactly when the session is known, the route exists, the provider
  answered, every candle has an instant, every candle of a bucket that lies inside the session and
  has closed is sound, there is such a candle, and the newest one closed at most the maximum age
  ago. The bars are then exactly those candles, each once, in the order of their instants; candles
  outside the session and open buckets leave no trace in them.
\<close>

theorem loaded_bars_exact:
  "load_completed_session_bars cal zone_utc ohlcv symbol market as_of period bar_interval n age session
       = Inr (CompletedIntradayBars c) \<longleftrightarrow>
     (\<exists>moment s route candles found.
        as_of = Aware moment \<and> resolved_session cal market moment session = Inr (Some s)
        \<and> ohlcv_market market = Some route \<and> ohlcv symbol route period n = Inr candles
        \<and> (\<forall>k \<in> set candles. candle_start zone_utc market k \<noteq> None)
        \<and> map (candle_bar zone_utc market)
            (filter (completed_candle zone_utc market s bar_interval moment) candles) = map Some found
        \<and> found \<noteq> [] \<and> moment - Max (bar_instant ` set found) \<le> age + bar_interval
        \<and> c = \<lparr>cb_symbol = symbol, cb_market = market, cb_period = period,
               cb_bar_interval = bar_interval, cb_session = s,
               cb_bars = sort_key bar_instant found, cb_source = candle_sources candles,
               cb_data_as_of = Max (bar_instant ` set found) + bar_interval\<rparr>)"
  unfolding load_completed bars_of_candles_completed completed_session_bars_Inr
  by (intro iffI; elim exE conjE; intro exI conjI)
    (auto simp: last_sort_key eq_commute [of "map Some _"] diff_le_eq algebra_simps)

subsection \<open>What an active trigger says\<close>

definition past_pivot :: "rat \<Rightarrow> rat \<Rightarrow> bool" where
  "past_pivot basis close \<longleftrightarrow> dec_fix (basis * (1002 / 1000)) \<le> close"

definition chase_room :: "rat \<Rightarrow> rat \<Rightarrow> bool" where
  "chase_room basis close \<longleftrightarrow> close \<le> dec_fix (basis * (102 / 100))"

lemma default_factors:
  "dec_fix (1 + 2 / 1000) = 1002 / 1000" "dec_fix (1 + 2 / 100) = 102 / 100"
proof -
  have "representable (1002 / 1000)" "representable (102 / 100)"
    unfolding representable_def etiny_def
    by (rule exI [of _ 1002], rule exI [of _ "- 3"], simp add: power_int_minus field_simps)
      (rule exI [of _ 102], rule exI [of _ "- 2"], simp add: power_int_minus field_simps)
  then show "dec_fix (1 + 2 / 1000) = 1002 / 1000" "dec_fix (1 + 2 / 100) = 102 / 100"
    using representable_fix by simp_all
qed

lemma chase_band_rounded:
  assumes "chase_band BUY config basis close = Inr (pivot, extension, too_extended)"
  shows "pivot = dec_fix (basis * dec_fix (1 + tc_pivot_buffer_ratio config))"
    and "too_extended \<longleftrightarrow> dec_fix (basis * dec_fix (1 + tc_max_extension_ratio config)) < close"
  using assms by (auto simp: chase_band_def bindr_eq_Inr dest!: dadd_Inr dmul_Inr)

lemma default_ratios:
  "tc_pivot_buffer_ratio DEFAULT_INTRADAY_TRIGGER_CONFIG = 2 / 1000"
  "tc_max_extension_ratio DEFAULT_INTRADAY_TRIGGER_CONFIG = 2 / 100"
  by (simp_all add: DEFAULT_INTRADAY_TRIGGER_CONFIG_def)

lemmas chase_band_buy =
  chase_band_rounded [of DEFAULT_INTRADAY_TRIGGER_CONFIG, unfolded default_ratios default_factors
    not_le [symmetric] chase_room_def [symmetric]]

lemma banded_buy:
  assumes "chase_band BUY DEFAULT_INTRADAY_TRIGGER_CONFIG basis close = Inr (pivot, extension, too_extended)"
  shows "banded_status too_extended (beyond_pivot BUY close pivot \<and> extra) = Active
      \<Longrightarrow> past_pivot basis close \<and> chase_room basis close \<and> extra"
    and "banded_status too_extended active = Blocked \<longleftrightarrow> \<not> chase_room basis close"
    and "banded_status too_extended active \<noteq> Unavailable"
    and "too_extended_reason too_extended \<noteq> None \<longleftrightarrow> \<not> chase_room basis close"
  using chase_band_buy [OF assms]
  by (auto simp: banded_status_def beyond_pivot_def past_pivot_def too_extended_reason_def split: if_splits)

text \<open>Bars as the loader hands them over.\<close>

definition loaded_order :: "rat price_bar list \<Rightarrow> bool" where
  "loaded_order bars \<longleftrightarrow> sorted (map bar_instant bars) \<and> (\<forall>b \<in> set bars. is_aware (bar_timestamp b))"

lemma ordered_bars_loaded:
  assumes "loaded_order bars"
  shows "ordered_bars bars = Inr bars"
proof -
  have "mapr (\<lambda>b. trigger_aware_utc (bar_timestamp b) ''bar.timestamp'') bars = Inr (map bar_instant bars)"
    using assms by (intro mapr_total)
      (auto simp: loaded_order_def trigger_aware_utc_def bar_instant_def elim!: is_aware.elims)
  moreover have "sort_key bar_instant bars = bars"
    using assms by (simp add: loaded_order_def sort_key_id_if_sorted)
  ultimately show ?thesis by (simp add: ordered_bars_def)
qed

definition opening_bars :: "rat price_bar list \<Rightarrow> instant \<Rightarrow> duration \<Rightarrow> rat price_bar list" where
  "opening_bars bars boundary bar_interval = filter (\<lambda>b. bar_instant b + bar_interval \<le> boundary) bars"

lemma last_after:
  assumes "loaded_order bars" and "filter (\<lambda>b. x < bar_instant b + i) bars \<noteq> []"
  shows "last (filter (\<lambda>b. x < bar_instant b + i) bars) = last bars"
proof -
  obtain b where b: "b \<in> set bars" "x < bar_instant b + i" using assms(2) by (auto simp: filter_empty_conv)
  have "bar_instant b \<le> bar_instant (last bars)"
    using assms(1) b(1) last_sorted_Max [of "map bar_instant bars"]
    by (cases "bars = []") (auto simp: loaded_order_def last_map)
  with b have "x < bar_instant (last bars) + i" by linarith
  then show ?thesis using b(1) by (cases bars rule: rev_cases) auto
qed

text \<open>
  A result that measures the close against a band above a basis: it is blocked, with a reason,
  exactly when the close is beyond the band, and active only at or above the pivot.
\<close>

definition measures :: "trigger_result \<Rightarrow> rat \<Rightarrow> rat \<Rightarrow> bool" where
  "measures r basis close \<longleftrightarrow>
     tr_status r \<noteq> Unavailable
     \<and> (tr_status r = Active \<longrightarrow> past_pivot basis close)
     \<and> (tr_status r = Blocked \<longleftrightarrow> \<not> chase_room basis close)
     \<and> (tr_status r = Blocked \<longrightarrow> tr_blocked_reason r \<noteq> None)"

lemma measures_banded:
  assumes "chase_band BUY DEFAULT_INTRADAY_TRIGGER_CONFIG basis close = Inr (pivot, extension, too_extended)"
    and "tr_status r = banded_status too_extended (beyond_pivot BUY close pivot \<and> extra)"
    and "tr_blocked_reason r = too_extended_reason too_extended"
  shows "measures r basis close"
  using banded_buy [OF assms(1)] unfolding measures_def assms(2,3) by blast

lemma breakout_buy:
  assumes "loaded_order bars"
    and r: "opening_range_breakout bars BUY (Aware opens) width bar_interval source
      DEFAULT_INTRADAY_TRIGGER_CONFIG = Inr r"
  defines "opening \<equiv> opening_bars bars (opens + width) bar_interval"
  shows "tr_code r = OPENING_RANGE_BREAKOUT"
    and "opening = [] \<or> opening = bars \<Longrightarrow> tr_status r = Unavailable"
    and "opening \<noteq> [] \<Longrightarrow> opening \<noteq> bars
      \<Longrightarrow> measures r (largest (map bar_high opening)) (bar_close (last bars))"
proof -
  let ?after = "filter (\<lambda>b. opens + width < bar_instant b + bar_interval) bars"
  have after: "?after = [] \<longleftrightarrow> opening = bars"
    by (auto simp: opening_def opening_bars_def filter_empty_conv filter_id_conv not_less)
  note eq = r [unfolded opening_range_breakout_def ordered_bars_loaded [OF assms(1)] bindr_Inr
      trigger_aware_utc_def require_aware_Aware Let_def opening_bars_def [symmetric] opening_def [symmetric]]
  show "tr_code r = OPENING_RANGE_BREAKOUT"
    using eq by (auto simp: bindr_eq_Inr unavailable_result_def split: if_splits)
  show "tr_status r = Unavailable" if "opening = [] \<or> opening = bars"
    using eq that after
    by (cases "bars = []"; cases "opening = []") (auto simp: unavailable_result_def)
  show "measures r (largest (map bar_high opening)) (bar_close (last bars))"
    if o: "opening \<noteq> []" "opening \<noteq> bars"
  proof -
    have ne: "?after \<noteq> []" "bars \<noteq> []" using o after by (auto simp: opening_def opening_bars_def)
    from eq o ne last_after [OF assms(1) ne(1)]
    obtain pivot extension too_extended where
      band: "chase_band BUY DEFAULT_INTRADAY_TRIGGER_CONFIG (largest (map bar_high opening))
        (bar_close (last bars)) = Inr (pivot, extension, too_extended)"
      and "tr_status r = banded_status too_extended (beyond_pivot BUY (bar_close (last bars)) pivot \<and> True)"
      and "tr_blocked_reason r = too_extended_reason too_extended"
      by (auto simp: bindr_eq_Inr)
    then show ?thesis by (rule measures_banded)
  qed
qed

lemma vwap_curve_length: "vwap_curve w v p bars = Inr curve \<Longrightarrow> length curve = length bars"
  by (induction bars arbitrary: w v p curve) (auto simp: bindr_eq_Inr)

lemma vwap_buy:
  assumes "loaded_order bars"
    and r: "session_vwap_reclaim bars BUY bar_interval source DEFAULT_INTRADAY_TRIGGER_CONFIG = Inr r"
  shows "tr_code r = SESSION_VWAP_RECLAIM"
    and "length bars < 2 \<Longrightarrow> tr_status r = Unavailable"
    and "2 \<le> length bars
      \<Longrightarrow> \<exists>curve. session_vwap bars = Inr curve \<and> measures r (last curve) (bar_close (last bars))"
proof -
  note eq = r [unfolded session_vwap_reclaim_def ordered_bars_loaded [OF assms(1)] bindr_Inr Let_def]
  show "tr_code r = SESSION_VWAP_RECLAIM"
    using eq by (auto simp: bindr_eq_Inr unavailable_result_def split: if_splits)
  show "tr_status r = Unavailable" if "length bars < 2"
    using eq that by (auto simp: unavailable_result_def)
  show "\<exists>curve. session_vwap bars = Inr curve \<and> measures r (last curve) (bar_close (last bars))"
    if "2 \<le> length bars"
  proof -
    from eq that obtain curve pivot extension too_extended extra where
      curve: "session_vwap bars = Inr curve"
      and band: "chase_band BUY DEFAULT_INTRADAY_TRIGGER_CONFIG (last curve)
        (bar_close (last bars)) = Inr (pivot, extension, too_extended)"
      and "tr_status r = banded_status too_extended (beyond_pivot BUY (bar_close (last bars)) pivot \<and> extra)"
      and "tr_blocked_reason r = too_extended_reason too_extended"
      by (auto simp: bindr_eq_Inr)
    then have "measures r (last curve) (bar_close (last bars))" by (intro measures_banded)
    with curve show ?thesis by blast
  qed
qed

text \<open>The mean volume of the last \<open>w\<close> bars is at least the threshold times that of the \<open>b\<close> before.\<close>

definition volume_backed :: "rat price_bar list \<Rightarrow> nat \<Rightarrow> nat \<Rightarrow> rat \<Rightarrow> bool" where
  "volume_backed bars w b threshold \<longleftrightarrow>
     w + b \<le> length bars
     \<and> (\<exists>window_mean baseline_mean ratio.
          mean_volume (drop (length bars - w) bars) = Inr window_mean
          \<and> mean_volume (take b (drop (length bars - (w + b)) bars)) = Inr baseline_mean
          \<and> 0 < baseline_mean \<and> ddiv window_mean baseline_mean = Inr ratio \<and> threshold \<le> ratio)"

lemma relative_volume_active:
  assumes "loaded_order bars"
    and r: "relative_volume bars code (int w) (int b) threshold bar_interval source = Inr r"
  shows "tr_code r = code" and "tr_status r = Active \<longleftrightarrow> volume_backed bars w b threshold"
    and "tr_status r \<noteq> Blocked"
proof -
  have n: "nat (int w + int b) = w + b" "int (length bars) < int w + int b \<longleftrightarrow> length bars < w + b" by linarith+
  note eq = r [unfolded relative_volume_def ordered_bars_loaded [OF assms(1)] bindr_Inr Let_def n nat_int]
  show "tr_code r = code" "tr_status r \<noteq> Blocked" "tr_status r = Active \<longleftrightarrow> volume_backed bars w b threshold"
    using eq by (auto simp: bindr_eq_Inr unavailable_result_def ratio_status_def volume_backed_def
        not_less split: if_splits)
qed

text \<open>Every value a computation can return satisfies a predicate.\<close>

definition yields :: "('a \<Rightarrow> bool) \<Rightarrow> 'a result \<Rightarrow> bool" where
  "yields P m \<longleftrightarrow> (\<forall>x. m = Inr x \<longrightarrow> P x)"

lemma yields_Inr: "P x \<Longrightarrow> yields P (Inr x)"
  and yields_bindr: "(\<And>y. yields P (f y)) \<Longrightarrow> yields P (bindr u f)"
  and yields_if: "(c \<Longrightarrow> yields P m) \<Longrightarrow> (\<not> c \<Longrightarrow> yields P n) \<Longrightarrow> yields P (if c then m else n)"
  and yields_option: "(o' = None \<Longrightarrow> yields P m) \<Longrightarrow> (\<And>y. o' = Some y \<Longrightarrow> yields P (g y))
    \<Longrightarrow> yields P (case o' of None \<Rightarrow> m | Some y \<Rightarrow> g y)"
  and yields_prod: "(\<And>a b. p = (a, b) \<Longrightarrow> yields P (h a b)) \<Longrightarrow> yields P (case p of (a, b) \<Rightarrow> h a b)"
  by (auto simp: yields_def bindr_eq_Inr split: option.splits prod.splits)

lemmas yields_intros = yields_Inr yields_bindr yields_if yields_option yields_prod

lemma relative_strength_buy:
  assumes r: "intraday_relative_strength bars index_bars BUY threshold bar_interval source index_source reason = Inr r"
  shows "tr_code r = INTRADAY_RELATIVE_STRENGTH" and "tr_status r \<noteq> Blocked"
    and "tr_status r = Unavailable \<or> tr_status r = Active \<Longrightarrow> loaded_order bars \<Longrightarrow> bars \<noteq> []
      \<Longrightarrow> index_bars = Some ibars \<Longrightarrow> loaded_order ibars
      \<Longrightarrow> overlapping_window bars ibars = Some (window, index_window)
      \<Longrightarrow> window_return window = Inr (Some a) \<Longrightarrow> window_return index_window = Inr (Some b)
      \<Longrightarrow> threshold \<le> dec_fix (a - b)"
proof -
  have "yields (\<lambda>r. tr_code r = INTRADAY_RELATIVE_STRENGTH \<and> tr_status r \<noteq> Blocked)
      (intraday_relative_strength bars index_bars BUY threshold bar_interval source index_source reason)"
    unfolding intraday_relative_strength_def Let_def by (intro yields_intros) (simp_all add: unavailable_result_def)
  with r show "tr_code r = INTRADAY_RELATIVE_STRENGTH" "tr_status r \<noteq> Blocked" by (simp_all add: yields_def)
next
  assume a: "tr_status r = Unavailable \<or> tr_status r = Active" "loaded_order bars" "bars \<noteq> []"
    "index_bars = Some ibars" "loaded_order ibars"
    "overlapping_window bars ibars = Some (window, index_window)"
    "window_return window = Inr (Some a)" "window_return index_window = Inr (Some b)"
  have "ibars \<noteq> []"
    using a(6) by (auto simp: overlapping_window_def map_filter_def Let_def split: if_splits)
  with a r show "threshold \<le> dec_fix (a - b)"
    by (auto simp: intraday_relative_strength_def ordered_bars_loaded bindr_eq_Inr split: if_splits dest!: dsub_Inr)
qed

subsection \<open>A triggered BUY\<close>

text \<open>Every bar lies in the session, has closed and is sound; the newest one is not too old.\<close>

definition fresh_bars :: "completed_intraday_bars \<Rightarrow> instant \<Rightarrow> duration \<Rightarrow> bool" where
  "fresh_bars c moment age \<longleftrightarrow>
     cb_bars c \<noteq> [] \<and> loaded_order (cb_bars c)
     \<and> (\<forall>b \<in> set (cb_bars c). sound_bar b \<and> bucket_in (cb_session c) (cb_bar_interval c) moment (bar_instant b))
     \<and> moment - (bar_instant (last (cb_bars c)) + cb_bar_interval c) \<le> age"

definition opening_of :: "completed_intraday_bars \<Rightarrow> rat price_bar list" where
  "opening_of c = opening_bars (cb_bars c) (rs_opens_at (cb_session c) + OPENING_RANGE) (cb_bar_interval c)"

text \<open>The prices a BUY is measured against: the high of the opening range and the session VWAP.\<close>

definition chase_basis :: "completed_intraday_bars \<Rightarrow> rat \<Rightarrow> bool" where
  "chase_basis c basis \<longleftrightarrow>
     opening_of c \<noteq> [] \<and> opening_of c \<noteq> cb_bars c \<and> basis = largest (map bar_high (opening_of c))
     \<or> 2 \<le> length (cb_bars c) \<and> (\<exists>curve. session_vwap (cb_bars c) = Inr curve \<and> basis = last curve)"

definition gap_within :: "completed_intraday_bars \<Rightarrow> rat option \<Rightarrow> rat option \<Rightarrow> bool" where
  "gap_within c previous_close atr_14 \<longleftrightarrow>
     (\<forall>p q a. session_open_price c = Some p \<longrightarrow> previous_close = Some q \<longrightarrow> 0 < q \<longrightarrow> atr_14 = Some a
        \<longrightarrow> dec_fix (p - q) < max (dec_fix a) (dec_fix (3 / 100 * q)))"

definition index_agrees :: "completed_intraday_bars \<Rightarrow> intraday_bars_result option \<Rightarrow> bool" where
  "index_agrees c index_bars \<longleftrightarrow>
     (\<forall>ibars window index_window a b. index_bars_of index_bars = Some ibars \<longrightarrow> loaded_order ibars
        \<longrightarrow> overlapping_window (cb_bars c) ibars = Some (window, index_window)
        \<longrightarrow> window_return window = Inr (Some a) \<longrightarrow> window_return index_window = Inr (Some b)
        \<longrightarrow> 0 \<le> dec_fix (a - b))"

lemma loaded_bars_fresh:
  assumes "load_completed_session_bars cal zone_utc ohlcv symbol market as_of period bar_interval n age session
       = Inr (CompletedIntradayBars c)"
  shows "\<exists>moment. as_of = Aware moment \<and> fresh_bars c moment age"
proof -
  from assms obtain moment s candles found where m: "as_of = Aware moment"
    and found: "completed_session_bars zone_utc market s bar_interval moment candles = Inr found" "found \<noteq> []"
      "moment - (bar_instant (last (sort_key bar_instant found)) + bar_interval) \<le> age"
    and c: "cb_bars c = sort_key bar_instant found" "cb_session c = s" "cb_bar_interval c = bar_interval"
    unfolding load_completed bars_of_candles_completed by auto
  have "fresh_bars c moment age"
    using found completed_bars_sound [OF found(1)]
    by (auto simp: fresh_bars_def c loaded_order_def sound_bar_def)
  with m show ?thesis by blast
qed

lemma candidate_trigger_list:
  assumes "candidate_triggers direction c index_bars = Inr ts"
  obtains orb vwap v5 v20 strength where "ts = [orb, vwap, v5, v20, strength]"
    and "opening_range_breakout (cb_bars c) direction (Aware (rs_opens_at (cb_session c)))
      OPENING_RANGE (cb_bar_interval c) (cb_source c) DEFAULT_INTRADAY_TRIGGER_CONFIG = Inr orb"
    and "session_vwap_reclaim (cb_bars c) direction (cb_bar_interval c) (cb_source c)
      DEFAULT_INTRADAY_TRIGGER_CONFIG = Inr vwap"
    and "relative_volume (cb_bars c) RELATIVE_VOLUME_5M (int 1) (int 12) RELATIVE_VOLUME_THRESHOLD
      (cb_bar_interval c) (cb_source c) = Inr v5"
    and "relative_volume (cb_bars c) RELATIVE_VOLUME_20M (int 4) (int 12) RELATIVE_VOLUME_THRESHOLD
      (cb_bar_interval c) (cb_source c) = Inr v20"
    and "intraday_relative_strength (cb_bars c) (index_bars_of index_bars) direction
      INTRADAY_RELATIVE_STRENGTH_THRESHOLD (cb_bar_interval c) (cb_source c)
      (index_source_of index_bars) (index_reason_of index_bars) = Inr strength"
  using assms by (auto simp: candidate_triggers_def bindr_eq_Inr RELATIVE_VOLUME_WINDOWS_def)

lemmas trigger_codes = OPENING_RANGE_BREAKOUT_def SESSION_VWAP_RECLAIM_def RELATIVE_VOLUME_5M_def
  RELATIVE_VOLUME_20M_def INTRADAY_RELATIVE_STRENGTH_def

lemma five_by_code:
  assumes "tr_code orb = OPENING_RANGE_BREAKOUT" "tr_code vwap = SESSION_VWAP_RECLAIM"
    "tr_code v5 = RELATIVE_VOLUME_5M" "tr_code v20 = RELATIVE_VOLUME_20M"
    "tr_code strength = INTRADAY_RELATIVE_STRENGTH"
  shows "by_code [orb, vwap, v5, v20, strength] OPENING_RANGE_BREAKOUT = Some orb"
    "by_code [orb, vwap, v5, v20, strength] SESSION_VWAP_RECLAIM = Some vwap"
    "by_code [orb, vwap, v5, v20, strength] RELATIVE_VOLUME_5M = Some v5"
    "by_code [orb, vwap, v5, v20, strength] RELATIVE_VOLUME_20M = Some v20"
    "by_code [orb, vwap, v5, v20, strength] INTRADAY_RELATIVE_STRENGTH = Some strength"
  unfolding by_code_def by (simp_all add: assms) (simp_all add: trigger_codes)

lemma gap_not_blocked:
  assumes "evaluate_no_chase BUY DEFAULT_INTRADAY_TRIGGER_CONFIG (session_open_price c) previous_close atr_14 = Inr e"
    and "\<not> nc_gap_up_blocked e"
  shows "gap_within c previous_close atr_14"
proof -
  have "dec_fix (p - q) < max (dec_fix (1 * a)) (dec_fix (3 / 100 * q))"
    if "session_open_price c = Some p" "previous_close = Some q" "0 < q" "atr_14 = Some a" for p q a
    using assms that
    by (auto simp: evaluate_no_chase_def gap_missing_def gap_up_def bindr_eq_Inr Let_def
        DEFAULT_INTRADAY_TRIGGER_CONFIG_def not_le dest!: dsub_Inr dmul_Inr)
  then show ?thesis by (simp add: gap_within_def)
qed

lemma measures_room:
  "measures r basis close \<Longrightarrow> tr_status r \<noteq> Blocked \<or> tr_blocked_reason r = None \<Longrightarrow> chase_room basis close"
  by (auto simp: measures_def)

text \<open>The two directional triggers of a BUY, when neither blocks and one of them is active.\<close>

lemma directional_prices:
  assumes bars: "loaded_order (cb_bars c)"
    and orb: "opening_range_breakout (cb_bars c) BUY (Aware (rs_opens_at (cb_session c)))
      OPENING_RANGE (cb_bar_interval c) (cb_source c) DEFAULT_INTRADAY_TRIGGER_CONFIG = Inr orb"
    and vwap: "session_vwap_reclaim (cb_bars c) BUY (cb_bar_interval c) (cb_source c)
      DEFAULT_INTRADAY_TRIGGER_CONFIG = Inr vwap"
    and free: "\<forall>r \<in> {orb, vwap}. tr_status r \<noteq> Blocked \<or> tr_blocked_reason r = None"
    and active: "\<exists>r \<in> {orb, vwap}. tr_status r = Active"
  defines "close \<equiv> bar_close (last (cb_bars c))"
  shows "\<exists>basis. chase_basis c basis \<and> past_pivot basis close"
    and "chase_basis c basis \<Longrightarrow> chase_room basis close"
proof -
  note o = breakout_buy [OF bars orb, folded opening_of_def close_def]
  note v = vwap_buy [OF bars vwap, folded close_def]
  consider "tr_status orb = Active" | "tr_status vwap = Active" using active by auto
  then show "\<exists>basis. chase_basis c basis \<and> past_pivot basis close"
  proof cases
    case 1
    with o(2) have ne: "opening_of c \<noteq> []" "opening_of c \<noteq> cb_bars c" by auto
    with o(3) [OF ne] 1 show ?thesis by (auto simp: chase_basis_def measures_def)
  next
    case 2
    with v(2) have "2 \<le> length (cb_bars c)" by (cases "length (cb_bars c) < 2") auto
    with v(3) [OF this] 2 show ?thesis by (auto simp: chase_basis_def measures_def)
  qed
  show "chase_room basis close" if "chase_basis c basis"
    using that o(3) v(3) free by (auto simp: chase_basis_def intro: measures_room)
qed

text \<open>
  C9: A BUY that triggers on loaded bars: the bars lie in the session, are closed, sound and
  recent; the latest close is at or above the pivot of the opening range or of the VWAP and, for
  each of the two that exists, not beyond its extension; the recent volume is at least one and a
  half times the volume before it over one or four bars; the opening gap, when it can be measured,
  is below the larger of one ATR and three percent; and the symbol is not weaker than its index.
\<close>

theorem triggered_buy_safe:
  assumes load: "load_completed_session_bars cal zone_utc ohlcv symbol market now period bar_interval n age
        session = Inr (CompletedIntradayBars c)"
    and decide: "decide_triggers BUY symbol market now DEFAULT_INTRADAY_TRIGGER_POLICY
        (Some (CompletedIntradayBars c)) index_bars previous_close atr_14 = Inr d"
    and triggered: "id_status d = Triggered"
  shows "(\<exists>moment. now = Aware moment \<and> fresh_bars c moment age)
     \<and> (\<exists>basis. chase_basis c basis \<and> past_pivot basis (bar_close (last (cb_bars c))))
     \<and> (\<forall>basis. chase_basis c basis \<longrightarrow> chase_room basis (bar_close (last (cb_bars c))))
     \<and> (volume_backed (cb_bars c) 1 12 (3 / 2) \<or> volume_backed (cb_bars c) 4 12 (3 / 2))
     \<and> gap_within c previous_close atr_14 \<and> index_agrees c index_bars"
proof -
  let ?close = "bar_close (last (cb_bars c))"
  obtain moment where now: "now = Aware moment" "fresh_bars c moment age"
    using loaded_bars_fresh [OF load] by blast
  then have bars: "loaded_order (cb_bars c)" "cb_bars c \<noteq> []" by (auto simp: fresh_bars_def)
  from decide obtain ts e where ts: "candidate_triggers BUY c index_bars = Inr ts"
    and e: "evaluate_no_chase BUY DEFAULT_INTRADAY_TRIGGER_CONFIG (session_open_price c) previous_close atr_14 = Inr e"
    and "id_status d = fst (decision_verdict None BUY e DEFAULT_INTRADAY_TRIGGER_POLICY ts)"
    by (auto simp: decide_triggers_def decide_intraday_triggers_def bindr_eq_Inr Let_def)
  with triggered have free: "\<not> chase_blocked ts (nc_gap_up_blocked e)"
    and dir: "any_active ts [OPENING_RANGE_BREAKOUT, SESSION_VWAP_RECLAIM]"
    and vol: "any_active ts [RELATIVE_VOLUME_5M, RELATIVE_VOLUME_20M]"
    and conf: "confirmations_agree ts [INTRADAY_RELATIVE_STRENGTH]"
    by (simp_all add: decision_verdict_status DEFAULT_INTRADAY_TRIGGER_POLICY_def)
  from candidate_trigger_list [OF ts] obtain orb vwap v5 v20 strength where
    five: "ts = [orb, vwap, v5, v20, strength]"
    and r: "opening_range_breakout (cb_bars c) BUY (Aware (rs_opens_at (cb_session c)))
      OPENING_RANGE (cb_bar_interval c) (cb_source c) DEFAULT_INTRADAY_TRIGGER_CONFIG = Inr orb"
      "session_vwap_reclaim (cb_bars c) BUY (cb_bar_interval c) (cb_source c)
        DEFAULT_INTRADAY_TRIGGER_CONFIG = Inr vwap"
      "relative_volume (cb_bars c) RELATIVE_VOLUME_5M (int 1) (int 12) RELATIVE_VOLUME_THRESHOLD
        (cb_bar_interval c) (cb_source c) = Inr v5"
      "relative_volume (cb_bars c) RELATIVE_VOLUME_20M (int 4) (int 12) RELATIVE_VOLUME_THRESHOLD
        (cb_bar_interval c) (cb_source c) = Inr v20"
      "intraday_relative_strength (cb_bars c) (index_bars_of index_bars) BUY
        INTRADAY_RELATIVE_STRENGTH_THRESHOLD (cb_bar_interval c) (cb_source c)
        (index_source_of index_bars) (index_reason_of index_bars) = Inr strength" .
  note v5 = relative_volume_active [OF bars(1) r(3)] and v20 = relative_volume_active [OF bars(1) r(4)]
  note strength = relative_strength_buy [OF r(5)]
  note codes = five_by_code [OF breakout_buy(1) [OF bars(1) r(1)] vwap_buy(1) [OF bars(1) r(2)]
      v5(1) v20(1) strength(1), folded five]
  have "\<forall>r \<in> {orb, vwap}. tr_status r \<noteq> Blocked \<or> tr_blocked_reason r = None"
    using free by (auto simp: chase_blocked_def five)
  moreover have "\<exists>r \<in> {orb, vwap}. tr_status r = Active" using dir by (auto simp: any_active_def codes)
  moreover note directional_prices [OF bars(1) r(1,2)]
  moreover have "volume_backed (cb_bars c) 1 12 (3 / 2) \<or> volume_backed (cb_bars c) 4 12 (3 / 2)"
    using vol v5(2) v20(2) by (auto simp: any_active_def codes RELATIVE_VOLUME_THRESHOLD_def)
  moreover have "gap_within c previous_close atr_14"
    using gap_not_blocked [OF e] free by (auto simp: chase_blocked_def)
  moreover have "index_agrees c index_bars"
    using conf strength(3) bars
    by (auto simp: index_agrees_def confirmations_agree_def codes INTRADAY_RELATIVE_STRENGTH_THRESHOLD_def)
  ultimately show ?thesis using now by blast
qed

end
