(* ===== verification/Intraday_Examples.thy ===== *)
theory Intraday_Examples
  imports Intraday_Rules Sizing_Safety
begin

text \<open>
  A session of the intraday triggers: twelve quiet five-minute candles at 100, then one that closes
  at 101 on three times the volume, then a bucket that is still open. The instances of the
  properties of the loader, of the policy and of a triggered BUY are evaluated on it.
\<close>

subsection \<open>The session\<close>

definition demo_session :: regular_session where
  "demo_session = \<lparr>rs_market = KR, rs_session_date = 1, rs_opens_at = 0, rs_closes_at = 23400000000\<rparr>"

definition demo_candle :: "instant \<Rightarrow> rat \<Rightarrow> rat \<Rightarrow> rat \<Rightarrow> ohlcv_candle" where
  "demo_candle i high close volume =
     \<lparr>cd_source = ''toss'', cd_timestamp = Some (Aware (300000000 * i)),
      cd_open = Some (DFinite 100), cd_high = Some (DFinite high), cd_low = Some (DFinite 100),
      cd_close = Some (DFinite close), cd_volume = Some (DFinite volume)\<rparr>"

definition session_candles :: "ohlcv_candle list" where
  "session_candles =
     map (\<lambda>i. demo_candle i 100 100 10) [0, 1, 2, 3, 4, 5, 6, 7, 8, 9, 10, 11]
     @ [demo_candle 12 102 101 30, demo_candle 13 500 500 9999]"

definition session_bar :: "instant \<Rightarrow> rat \<Rightarrow> rat \<Rightarrow> rat \<Rightarrow> rat price_bar" where
  "session_bar i high close volume =
     \<lparr>bar_timestamp = Aware (300000000 * i), bar_open = 100, bar_high = high, bar_low = 100,
      bar_close = close, bar_volume = volume\<rparr>"

definition session_bars :: "rat price_bar list" where
  "session_bars =
     map (\<lambda>i. session_bar i 100 100 10) [0, 1, 2, 3, 4, 5, 6, 7, 8, 9, 10, 11]
     @ [session_bar 12 102 101 30]"

definition demo_now :: instant where "demo_now = 3960000000"

definition demo_loaded :: completed_intraday_bars where
  "demo_loaded =
     \<lparr>cb_symbol = ''005930'', cb_market = ''KRX'', cb_period = INTRADAY_BAR_PERIOD,
      cb_bar_interval = INTRADAY_BAR_INTERVAL, cb_session = demo_session, cb_bars = session_bars,
      cb_source = ''toss'', cb_data_as_of = 3900000000\<rparr>"

definition demo_load :: "intraday_bars_result result" where
  "demo_load = load_completed_session_bars daily_calendar (\<lambda>zone t. t) (\<lambda>_ _ _ _. Inr session_candles)
     ''005930'' ''KRX'' (Aware demo_now) INTRADAY_BAR_PERIOD INTRADAY_BAR_INTERVAL INTRADAY_BAR_COUNT
     INTRADAY_MAX_BAR_AGE (Some demo_session)"

subsection \<open>Loading\<close>

lemma demo_scan:
  "completed_session_bars zone ''KRX'' demo_session INTRADAY_BAR_INTERVAL demo_now session_candles = Inr session_bars"
  by (simp add: session_candles_def session_bars_def session_bar_def demo_candle_def demo_session_def
      demo_now_def INTRADAY_BAR_INTERVAL_def normalized_timestamp_def price_bar_of_def valid_ohlcv_def)

lemma session_bars_loaded: "loaded_order session_bars"
  by (simp add: loaded_order_def session_bars_def session_bar_def bar_instant_def)

lemma session_bars_sorted: "sort_key bar_instant session_bars = session_bars"
  using session_bars_loaded by (simp add: loaded_order_def sort_key_id_if_sorted)

lemma demo_source: "candle_sources session_candles = ''toss''"
  by (simp add: candle_sources_def session_candles_def demo_candle_def)

lemma demo_load_eq: "demo_load = Inr (CompletedIntradayBars demo_loaded)"
proof -
  have "bar_instant (last session_bars) = 3600000000" "session_bars \<noteq> []"
    by (simp_all add: session_bars_def session_bar_def bar_instant_def)
  then have "bars_of_candles (\<lambda>zone t. t) ''005930'' ''KRX'' INTRADAY_BAR_PERIOD INTRADAY_BAR_INTERVAL
      INTRADAY_MAX_BAR_AGE demo_session demo_now session_candles = CompletedIntradayBars demo_loaded"
    unfolding bars_of_candles_completed demo_scan session_bars_sorted demo_source
    by (simp add: session_bars_sorted demo_loaded_def demo_now_def INTRADAY_BAR_INTERVAL_def INTRADAY_MAX_BAR_AGE_def)
  moreover have "session_candles \<noteq> []" by (simp add: session_candles_def)
  ultimately show ?thesis
    unfolding demo_load_def load_completed by (auto simp: resolved_session_def ohlcv_market_def)
qed

theorem loaded_bars_exact_witness:
  "\<exists>found. map (candle_bar (\<lambda>zone t. t) ''KRX'')
       (filter (completed_candle (\<lambda>zone t. t) ''KRX'' demo_session INTRADAY_BAR_INTERVAL demo_now) session_candles)
       = map Some found \<and> cb_bars demo_loaded = sort_key bar_instant found \<and> length found = 13"
proof -
  from loaded_bars_exact [THEN iffD1, OF demo_load_eq [unfolded demo_load_def]] obtain s found where
    s: "resolved_session daily_calendar ''KRX'' demo_now (Some demo_session) = Inr (Some s)"
    and found: "map (candle_bar (\<lambda>zone t. t) ''KRX'')
       (filter (completed_candle (\<lambda>zone t. t) ''KRX'' s INTRADAY_BAR_INTERVAL demo_now) session_candles)
       = map Some found"
    and "demo_loaded =
      \<lparr>cb_symbol = ''005930'', cb_market = ''KRX'', cb_period = INTRADAY_BAR_PERIOD,
       cb_bar_interval = INTRADAY_BAR_INTERVAL, cb_session = s, cb_bars = sort_key bar_instant found,
       cb_source = candle_sources session_candles,
       cb_data_as_of = Max (bar_instant ` set found) + INTRADAY_BAR_INTERVAL\<rparr>" by auto
  from arg_cong [OF this(3), of cb_bars] have bars: "cb_bars demo_loaded = sort_key bar_instant found" by simp
  then have "length found = length (cb_bars demo_loaded)" by simp
  moreover have "length (cb_bars demo_loaded) = 13" by (simp add: demo_loaded_def session_bars_def)
  ultimately show ?thesis using s found bars by (auto simp: resolved_session_def)
qed

subsection \<open>The triggers\<close>

lemma exact_places:
  assumes "q * 10 ^ 6 = of_int n" and "\<bar>n\<bar> \<le> 10 ^ 20"
  shows "dec_ctx q = Inr q"
proof -
  have q: "q = of_int n * pow10 (- 6)" using assms(1) by (simp add: power_int_minus field_simps)
  have n: "\<bar>n\<bar> \<le> 10 ^ 28" using assms(2) by (rule order_trans) simp
  have "representable q"
    unfolding representable_def
    by (rule exI [of _ n], rule exI [of _ "- 6"], intro conjI, rule q, rule n) (simp add: etiny_def)
  then have kept: "dec_fix q = q" by (rule representable_fix)
  have "\<bar>q * 10 ^ 6\<bar> \<le> of_int (10 ^ 20)" unfolding assms(1) of_int_abs [symmetric] of_int_le_iff by (rule assms(2))
  then have "\<bar>q\<bar> \<le> of_int (10 ^ 20)" by (simp add: abs_mult)
  from bounded_ctx(1) [OF this] kept show ?thesis by simp
qed

lemma demo_fractions:
  "dec_ctx (501 / 5) = Inr (501 / 5)" "dec_ctx (501 / 500) = Inr (501 / 500)"
  "dec_ctx (51 / 50) = Inr (51 / 50)" "dec_ctx (251001 / 2500) = Inr (251001 / 2500)"
  "dec_ctx (25551 / 250) = Inr (25551 / 250)" "dec_ctx 0 = Inr 0"
  using exact_places [of "501 / 5" 100200000] exact_places [of "501 / 500" 1002000]
    exact_places [of "51 / 50" 1020000] exact_places [of "251001 / 2500" 100400400]
    exact_places [of "25551 / 250" 102204000] exact_places [of 0 0] by simp_all

text \<open>The printed text of a number of ordinary size, whose digits the decision does not read.\<close>

definition text_of :: "rat \<Rightarrow> string" where
  "text_of q = projr (quantum_text q)"

lemma quantum_text_returns:
  assumes "\<bar>q\<bar> \<le> 10 ^ 20"
  shows "quantum_text q = Inr (text_of q)"
proof -
  have "\<exists>r. quantize_half_even (- 6) q = Inr r" using assms by (intro quantize_within) simp
  then obtain s where "quantum_text q = Inr s" by (auto simp: quantum_text_def Let_def)
  then show ?thesis by (simp add: text_of_def)
qed

lemmas demo_arith = exact_arithmetic demo_fractions quantum_text_returns

lemma demo_vwap: "session_vwap session_bars = Inr (replicate 12 100 @ [501 / 5])"
  unfolding session_vwap_def ordered_bars_loaded [OF session_bars_loaded]
  by (simp add: session_bars_def session_bar_def demo_arith eval_nat_numeral)

lemma session_bars_shape:
  "length session_bars = 13" "session_bars \<noteq> []" "last session_bars = session_bar 12 102 101 30"
  "session_bars ! 11 = session_bar 11 100 100 10"
  "map bar_close session_bars = replicate 12 100 @ [101]"
  by (simp_all add: session_bars_def session_bar_def eval_nat_numeral)

lemma demo_opening:
  "filter (\<lambda>bar. bar_instant bar + INTRADAY_BAR_INTERVAL \<le> OPENING_RANGE) session_bars
     = [session_bar 0 100 100 10, session_bar 1 100 100 10, session_bar 2 100 100 10]"
  "last (filter (\<lambda>bar. OPENING_RANGE < bar_instant bar + INTRADAY_BAR_INTERVAL) session_bars)
     = session_bar 12 102 101 30"
  "filter (\<lambda>bar. OPENING_RANGE < bar_instant bar + INTRADAY_BAR_INTERVAL) session_bars \<noteq> []"
  by (simp_all add: session_bars_def session_bar_def bar_instant_def INTRADAY_BAR_INTERVAL_def OPENING_RANGE_def)

lemma demo_band:
  "chase_band BUY DEFAULT_INTRADAY_TRIGGER_CONFIG 100 101 = Inr (501 / 5, Some 102, False)"
  "chase_band BUY DEFAULT_INTRADAY_TRIGGER_CONFIG (501 / 5) 101 = Inr (251001 / 2500, Some (25551 / 250), False)"
  by (simp_all add: chase_band_def DEFAULT_INTRADAY_TRIGGER_CONFIG_def demo_arith)

lemma demo_orb:
  "\<exists>r. opening_range_breakout session_bars BUY (Aware 0) OPENING_RANGE INTRADAY_BAR_INTERVAL ''toss''
     DEFAULT_INTRADAY_TRIGGER_CONFIG = Inr r
     \<and> tr_code r = OPENING_RANGE_BREAKOUT \<and> tr_status r = Active \<and> tr_blocked_reason r = None"
  unfolding opening_range_breakout_def ordered_bars_loaded [OF session_bars_loaded] bindr_Inr Let_def
    trigger_aware_utc_def require_aware_Aware add_0 demo_opening
  by (simp add: session_bars_shape demo_opening session_bar_def largest_def smallest_def demo_band demo_arith
      extension_text_def banded_status_def beyond_pivot_def too_extended_reason_def)

lemma demo_reclaim:
  "\<exists>r. session_vwap_reclaim session_bars BUY INTRADAY_BAR_INTERVAL ''toss'' DEFAULT_INTRADAY_TRIGGER_CONFIG = Inr r
     \<and> tr_code r = SESSION_VWAP_RECLAIM \<and> tr_status r = Active \<and> tr_blocked_reason r = None"
  unfolding session_vwap_reclaim_def ordered_bars_loaded [OF session_bars_loaded] bindr_Inr Let_def demo_vwap
  by (simp add: session_bars_shape nth_append session_bar_def largest_def demo_band demo_arith
      extension_text_def banded_status_def beyond_pivot_def too_extended_reason_def vwap_pattern_def)

lemma demo_volume:
  "\<exists>r. relative_volume session_bars RELATIVE_VOLUME_5M 1 12 RELATIVE_VOLUME_THRESHOLD INTRADAY_BAR_INTERVAL ''toss'' = Inr r
     \<and> tr_code r = RELATIVE_VOLUME_5M \<and> tr_status r = Active \<and> tr_blocked_reason r = None"
  "\<exists>r. relative_volume session_bars RELATIVE_VOLUME_20M 4 12 RELATIVE_VOLUME_THRESHOLD INTRADAY_BAR_INTERVAL ''toss'' = Inr r
     \<and> tr_code r = RELATIVE_VOLUME_20M \<and> tr_status r = Unavailable \<and> tr_blocked_reason r = None"
  unfolding relative_volume_def ordered_bars_loaded [OF session_bars_loaded] bindr_Inr Let_def
  by (simp_all add: session_bars_shape unavailable_result_def)
    (simp add: session_bars_def session_bar_def mean_volume_def demo_arith ratio_status_def RELATIVE_VOLUME_THRESHOLD_def)

lemma demo_strength:
  "\<exists>r. intraday_relative_strength session_bars None BUY threshold i source None None = Inr r
     \<and> tr_code r = INTRADAY_RELATIVE_STRENGTH \<and> tr_status r = Unavailable \<and> tr_blocked_reason r = None"
  by (simp add: intraday_relative_strength_def unavailable_result_def)

lemma demo_no_chase:
  "\<exists>e. evaluate_no_chase BUY DEFAULT_INTRADAY_TRIGGER_CONFIG (Some 100) (Some 100) (Some 2) = Inr e
     \<and> \<not> nc_gap_up_blocked e"
  by (simp add: evaluate_no_chase_def gap_missing_def gap_up_def DEFAULT_INTRADAY_TRIGGER_CONFIG_def demo_arith)

lemma demo_open_price: "session_open_price demo_loaded = Some 100"
  by (simp add: session_open_price_def demo_loaded_def session_bars_def session_bar_def demo_session_def)

subsection \<open>The decision\<close>

definition demo_decision :: "intraday_trigger_decision result" where
  "demo_decision = decide_triggers BUY ''005930'' ''KRX'' (Aware demo_now) DEFAULT_INTRADAY_TRIGGER_POLICY
     (Some (CompletedIntradayBars demo_loaded)) None (Some 100) (Some 2)"

lemma demo_triggers:
  obtains ts where "candidate_triggers BUY demo_loaded None = Inr ts"
    "any_active ts [OPENING_RANGE_BREAKOUT, SESSION_VWAP_RECLAIM]"
    "any_active ts [RELATIVE_VOLUME_5M, RELATIVE_VOLUME_20M]"
    "confirmations_agree ts [INTRADAY_RELATIVE_STRENGTH]" "\<not> chase_blocked ts False"
proof -
  obtain orb vwap v5 v20 strength where
    orb: "opening_range_breakout session_bars BUY (Aware 0) OPENING_RANGE INTRADAY_BAR_INTERVAL ''toss''
      DEFAULT_INTRADAY_TRIGGER_CONFIG = Inr orb"
      "tr_code orb = OPENING_RANGE_BREAKOUT" "tr_status orb = Active" "tr_blocked_reason orb = None"
    and vwap: "session_vwap_reclaim session_bars BUY INTRADAY_BAR_INTERVAL ''toss''
      DEFAULT_INTRADAY_TRIGGER_CONFIG = Inr vwap"
      "tr_code vwap = SESSION_VWAP_RECLAIM" "tr_status vwap = Active" "tr_blocked_reason vwap = None"
    and v5: "relative_volume session_bars RELATIVE_VOLUME_5M 1 12 RELATIVE_VOLUME_THRESHOLD
      INTRADAY_BAR_INTERVAL ''toss'' = Inr v5"
      "tr_code v5 = RELATIVE_VOLUME_5M" "tr_status v5 = Active" "tr_blocked_reason v5 = None"
    and v20: "relative_volume session_bars RELATIVE_VOLUME_20M 4 12 RELATIVE_VOLUME_THRESHOLD
      INTRADAY_BAR_INTERVAL ''toss'' = Inr v20"
      "tr_code v20 = RELATIVE_VOLUME_20M" "tr_status v20 = Unavailable" "tr_blocked_reason v20 = None"
    and strength: "intraday_relative_strength session_bars None BUY INTRADAY_RELATIVE_STRENGTH_THRESHOLD
      INTRADAY_BAR_INTERVAL ''toss'' None None = Inr strength"
      "tr_code strength = INTRADAY_RELATIVE_STRENGTH" "tr_status strength = Unavailable"
      "tr_blocked_reason strength = None"
    using demo_orb demo_reclaim demo_volume demo_strength by metis
  have "candidate_triggers BUY demo_loaded None = Inr [orb, vwap, v5, v20, strength]"
    using orb(1) vwap(1) v5(1) v20(1) strength(1)
    by (simp add: candidate_triggers_def demo_loaded_def demo_session_def RELATIVE_VOLUME_WINDOWS_def)
  moreover note codes = five_by_code [OF orb(2) vwap(2) v5(2) v20(2) strength(2)]
  ultimately show thesis
    using orb vwap v5 v20 strength
    by (intro that) (auto simp: any_active_def confirmations_agree_def chase_blocked_def codes)
qed

lemma demo_decision_triggered: "\<exists>d. demo_decision = Inr d \<and> id_status d = Triggered"
proof -
  obtain ts where t: "candidate_triggers BUY demo_loaded None = Inr ts"
      "any_active ts [OPENING_RANGE_BREAKOUT, SESSION_VWAP_RECLAIM]"
      "any_active ts [RELATIVE_VOLUME_5M, RELATIVE_VOLUME_20M]"
      "confirmations_agree ts [INTRADAY_RELATIVE_STRENGTH]" "\<not> chase_blocked ts False"
    by (rule demo_triggers)
  obtain e where e: "evaluate_no_chase BUY DEFAULT_INTRADAY_TRIGGER_CONFIG (Some 100) (Some 100) (Some 2) = Inr e"
      "\<not> nc_gap_up_blocked e"
    using demo_no_chase by blast
  have "fst (decision_verdict None BUY e DEFAULT_INTRADAY_TRIGGER_POLICY ts) = Triggered"
    using t(2-5) e(2) by (simp add: decision_verdict_status DEFAULT_INTRADAY_TRIGGER_POLICY_def)
  then show ?thesis
    using t(1) e(1)
    by (simp add: demo_decision_def decide_triggers_def decide_intraday_triggers_def demo_open_price
        trigger_aware_utc_def Let_def)
qed

theorem triggered_buy_safe_witness:
  "\<exists>d. demo_decision = Inr d \<and> id_status d = Triggered
     \<and> fresh_bars demo_loaded demo_now INTRADAY_MAX_BAR_AGE
     \<and> (\<exists>basis. chase_basis demo_loaded basis \<and> past_pivot basis 101)
     \<and> (volume_backed session_bars 1 12 (3 / 2) \<or> volume_backed session_bars 4 12 (3 / 2))"
proof -
  obtain d where d: "demo_decision = Inr d" "id_status d = Triggered" using demo_decision_triggered by blast
  have "bar_close (last (cb_bars demo_loaded)) = 101" "cb_bars demo_loaded = session_bars"
    by (simp_all add: demo_loaded_def session_bars_shape session_bar_def)
  with triggered_buy_safe [OF demo_load_eq [unfolded demo_load_def] d(1) [unfolded demo_decision_def] d(2)] d
  show ?thesis by auto
qed

theorem trigger_decision_exact_witness:
  "\<exists>ts d e. decide_intraday_triggers ts ''005930'' ''KRX'' BUY (Aware demo_now) DEFAULT_INTRADAY_TRIGGER_POLICY
       DEFAULT_INTRADAY_TRIGGER_CONFIG (Some 100) (Some 100) (Some 2) None = Inr d
     \<and> id_status d = Triggered \<and> any_active ts [RELATIVE_VOLUME_5M, RELATIVE_VOLUME_20M]
     \<and> id_valid_until d = demo_now + 1800000000
     \<and> decide_intraday_triggers [] ''005930'' ''KRX'' BUY (Aware demo_now) DEFAULT_INTRADAY_TRIGGER_POLICY
       DEFAULT_INTRADAY_TRIGGER_CONFIG None None None (Some ''regular_session_closed'') = Inr e
     \<and> id_status e = DecisionUnavailable"
proof -
  obtain d ts where ts: "decide_intraday_triggers ts ''005930'' ''KRX'' BUY (Aware demo_now)
      DEFAULT_INTRADAY_TRIGGER_POLICY DEFAULT_INTRADAY_TRIGGER_CONFIG (Some 100) (Some 100) (Some 2) None = Inr d"
      "id_status d = Triggered"
    using demo_decision_triggered by (auto simp: demo_decision_def decide_triggers_def bindr_eq_Inr demo_open_price)
  have "any_active ts [RELATIVE_VOLUME_5M, RELATIVE_VOLUME_20M]" "id_valid_until d = demo_now + 1800000000"
    using trigger_decision_exact [OF ts(1)] ts(2)
    by (auto simp: DEFAULT_INTRADAY_TRIGGER_POLICY_def DEFAULT_INTRADAY_TRIGGER_CONFIG_def)
  moreover obtain e where e: "decide_intraday_triggers [] ''005930'' ''KRX'' BUY (Aware demo_now)
      DEFAULT_INTRADAY_TRIGGER_POLICY DEFAULT_INTRADAY_TRIGGER_CONFIG None None None
      (Some ''regular_session_closed'') = Inr e"
    by (simp add: decide_intraday_triggers_def trigger_aware_utc_def evaluate_no_chase_def gap_missing_def Let_def)
  moreover have "id_status e = DecisionUnavailable" using trigger_decision_exact [OF e] by auto
  ultimately show ?thesis using ts by blast
qed

end
