(* ===== verification/Spec2Isabelle.thy ===== *)
theory Spec2Isabelle
  imports Position_Intraday Sizing_Evidence Loss_Gate_Rules High_Watermark_Rules
    Paper_Trips_Rules Paper_Portfolio_Rules Account_State_Rules Paper_Orders_Runs Policy_Examples
    Intraday_Examples
begin

text \<open>
  Verification of the risk core and the PAPER account book of KAsset-Trader-Core.

  The program is a trading platform; this development covers the deterministic modules under
  \<open>app/extensions/kasset/automation\<close> that decide how much to buy, when to sell and whether an
  order may go out, the service that keeps the PAPER accounts (\<open>app/services\<close>), and the shared
  calendar, money helpers and tables they rely on.

  \<^bold>\<open>How the parts interact.\<close> A BUY proposal is sized from the account, the regime and the daily
  bars (\<^verbatim>\<open>position_sizing.py\<close>), once the intraday triggers (\<^verbatim>\<open>intraday_triggers.py\<close>) let it through on
  the completed bars of the session that \<^verbatim>\<open>intraday_data.py\<close> loads; the evidence of the size travels as JSON to the order path, where
  the chase guard (\<^verbatim>\<open>chase_guard.py\<close>) reads it back and re-checks the risk at the executable
  price. A filled position is handed to the position manager (\<^verbatim>\<open>position_manager.py\<close>), which
  moves its exit levels and emits exit signals. Closed sells feed the loss-streak gate
  (\<^verbatim>\<open>loss_streak_gate.py\<close> over \<^verbatim>\<open>shadow_loss_streak.py\<close>), which records BUY locks in a table. The
  equity of the account feeds the daily high watermark (\<^verbatim>\<open>shadow_high_watermark.py\<close>), which records the
  peak of the day and derives a reduction of buying. Orders are executed on the PAPER book
  (\<^verbatim>\<open>paper_trading_service.py\<close>), which moves cash, positions and trades and reports on them; resting
  limit orders (\<^verbatim>\<open>paper_limit_order_service.py\<close>) reserve cash of that book and are executed on it when
  the market reaches their limit; the
  account-state gate (\<^verbatim>\<open>account_state_gate.py\<close>) values that book per currency, feeds the high
  watermark with it and limits or stops buying for the rest of the day. The owner policy
  (\<^verbatim>\<open>policy.py\<close>) holds it together: it keeps the owner's limits, plans an order with the sizer over
  the book, and lets an order through only when the limits, the account state and the kill switches
  (\<^verbatim>\<open>runtime_state.py\<close>) allow it.
  All of them read session boundaries from \<^verbatim>\<open>market_session.py\<close>.

  \<^bold>\<open>Theories.\<close>
  \<^item> \<^verbatim>\<open>Prelude\<close>: exceptions as values of a sum type, datetimes, \<^verbatim>\<open>str.strip\<close>/\<^verbatim>\<open>upper\<close>, stable sorting.
  \<^item> \<^verbatim>\<open>PyDecimal\<close>: \<^verbatim>\<open>decimal.Decimal\<close> in the default context (28 digits, half even, exponent limits,
    traps). The locale \<^verbatim>\<open>monotone_rounding\<close> holds what rounding never breaks and is interpreted for
    the context rounding and for truncation.
  \<^item> \<^verbatim>\<open>IsoFormat\<close>, \<^verbatim>\<open>Json_Text\<close>, \<^verbatim>\<open>Sha256\<close>: ISO texts of UTC instants, canonical JSON text (shown to
    be a prefix code, so the text determines the value) and the digest.
  \<^item> \<^verbatim>\<open>Position_Manager\<close>: \<^verbatim>\<open>position_manager.py\<close>, every dataclass check and every operation.
    \<^verbatim>\<open>Position_Timeline\<close> refines its version list to a timeline of exit levels; \<^verbatim>\<open>Position_Ladder\<close>,
    \<^verbatim>\<open>Position_Runs\<close> and \<^verbatim>\<open>Position_Intraday\<close> show what single evaluations, runs of them and the
    intraday scan guarantee: stops never loosen, a breach exits everything, one partial sell.
  \<^item> \<^verbatim>\<open>Session_Calendar\<close>, \<^verbatim>\<open>Market_Session\<close>: \<^verbatim>\<open>session_calendar.py\<close> and \<^verbatim>\<open>market_session.py\<close>; the package
    \<^verbatim>\<open>exchange_calendars\<close> is the argument \<^verbatim>\<open>cal\<close>, its documented behaviour is \<^verbatim>\<open>calendar_ok\<close>. The bounded
    searches are shown equal to statements about all sessions of the calendar.
  \<^item> \<^verbatim>\<open>Regime\<close>: \<^verbatim>\<open>regime.py\<close>, its classification and that it ignores the order of symbols.
  \<^item> \<^verbatim>\<open>Position_Sizing\<close>: \<^verbatim>\<open>position_sizing.py\<close>; \<^verbatim>\<open>Sizing_Safety\<close>: limits, failing closed, exact sells,
    monotonicity and totality of a size.
  \<^item> \<^verbatim>\<open>Chase_Guard\<close>: \<^verbatim>\<open>chase_guard.py\<close>; \<^verbatim>\<open>Sizing_Evidence\<close>: the evidence between sizer and guard.
  \<^item> \<^verbatim>\<open>Loss_Streak\<close>: the evaluation half of \<^verbatim>\<open>shadow_loss_streak.py\<close>; \<^verbatim>\<open>Loss_Streak_Rules\<close>: the lock is a
    statement about the trailing run of stop losses.
  \<^item> \<^verbatim>\<open>Versioned_Store\<close>: the contract of a table whose rows are only replaced by newer ones, a locale.
    \<^verbatim>\<open>Loss_Streak_Store\<close>: the persistence half of \<^verbatim>\<open>shadow_loss_streak.py\<close> with the check constraints of
    its table from \<^verbatim>\<open>models.py\<close>; it interprets the locale.
  \<^item> \<^verbatim>\<open>Loss_Streak_Gate\<close>: \<^verbatim>\<open>loss_streak_gate.py\<close>; \<^verbatim>\<open>Loss_Gate_Rules\<close>: when it locks, that it always reaches a
    verdict, and what it stores.
  \<^item> \<^verbatim>\<open>High_Watermark\<close>: the evaluation half of \<^verbatim>\<open>shadow_high_watermark.py\<close>; \<^verbatim>\<open>High_Watermark_Store\<close>: its
    persistence with optimistic versions over the second table, again an interpretation of the
    locale; \<^verbatim>\<open>High_Watermark_Rules\<close>: the decision, and that the stored row of a day is the summary of
    the valuations accepted that day.
  \<^item> \<^verbatim>\<open>Money\<close>: \<^verbatim>\<open>money.py\<close> and the Numeric columns, with the lemmas that bookkeeping at four and
    eight places is exact; \<^verbatim>\<open>Market_Type\<close>: symbol detection and market resolution of \<^verbatim>\<open>shared.py\<close>.
  \<^item> \<^verbatim>\<open>Paper_Ledger\<close>: accounts, fees, previews and execution of \<^verbatim>\<open>paper_trading_service.py\<close> over the
    tables of \<^verbatim>\<open>paper_trading.py\<close>; \<^verbatim>\<open>Paper_Ledger_Rules\<close>: the effect of one order; \<^verbatim>\<open>Paper_Book\<close>: reachable
    books as an inductive predicate, that balances and holdings are the sums of the trades, that
    nothing is overdrawn and no correlation is executed twice.
  \<^item> \<^verbatim>\<open>Paper_Portfolio\<close>, \<^verbatim>\<open>Paper_Trips\<close>: valued positions, summaries, daily snapshots and round trips of
    the same service; \<^verbatim>\<open>Paper_Portfolio_Rules\<close>, \<^verbatim>\<open>Paper_Trips_Rules\<close>: the reports add up to the book.
  \<^item> \<^verbatim>\<open>Paper_Orders\<close>: \<^verbatim>\<open>paper_limit_order_service.py\<close>, \<^verbatim>\<open>paper_fills.py\<close> and \<^verbatim>\<open>paper_correlation.py\<close>; candles, the
    clock and the ids given by the journal and forecast services are arguments. \<^verbatim>\<open>Paper_Orders_Rules\<close>:
    the effect of placing, cancelling, filling and linking; \<^verbatim>\<open>Paper_Orders_Runs\<close>: reachable books with
    resting orders and the locale \<^verbatim>\<open>order_relation\<close>, which lifts what every command respects to runs
    (cash and reservations are conserved, orders settle once, no candle from before the placement
    fills an order, pending sells stay covered).
  \<^item> \<^verbatim>\<open>Account_State\<close>: \<^verbatim>\<open>account_state_gate.py\<close>; \<^verbatim>\<open>Account_State_Rules\<close>: the gate is a function of the
    equities of the day, its books do not interfere, and what cannot be evaluated stops nothing.
  \<^item> \<^verbatim>\<open>Trading_Limits\<close>: presets, limits, storage and legacy settings of \<^verbatim>\<open>policy.py\<close>; \<^verbatim>\<open>Policy_Store\<close>: one record
    of all tables, the runtime switches, trading days, usage and executions; \<^verbatim>\<open>Hard_Risk\<close>: snapshots, the
    portfolio plan and the hard risk, which calls the sizer and both gates on these tables.
    \<^verbatim>\<open>Trading_Limits_Rules\<close>: what a limits value is, and reading it back; \<^verbatim>\<open>Hard_Risk_Rules\<close>: what an order
    that passes satisfies, whether the hard risk reads the snapshot or is given one that is still current; \<^verbatim>\<open>Hard_Risk_Runs\<close>: sells, the exact maximum, and that what the sizer plans the
    hard risk affords; \<^verbatim>\<open>Policy_Runs\<close>: changed settings, kill switches and the orders of a day as an
    inductive predicate; \<^verbatim>\<open>Policy_Examples\<close>: the instances.

  \<^item> \<^verbatim>\<open>Intraday_Triggers\<close>: \<^verbatim>\<open>intraday_triggers.py\<close>, every trigger, the policy and the decision;
    \<^verbatim>\<open>Intraday_Data\<close>: the loaders of \<^verbatim>\<open>intraday_data.py\<close> and \<^verbatim>\<open>_decide_triggers\<close> of \<^verbatim>\<open>vertical_slice.py\<close>, with
    the market-data service and the time-zone database as arguments; \<^verbatim>\<open>Intraday_Rules\<close>: which candles
    become bars, when a decision is triggered, and what a triggered BUY on loaded bars guarantees;
    \<^verbatim>\<open>Intraday_Examples\<close>: one session, evaluated.

  \<^bold>\<open>Representation.\<close> Decimals are rationals rounded by the context at every operation, or infinite
  or NaN where the code admits them; integers are unbounded as in Python; datetimes are UTC
  microseconds tagged aware or naive; a raised exception is the left value of a sum. Loops are
  structural recursions or folds, so every operation is a total function and no fuel is used. A
  table is a map from its primary key to rows; a statement has the meaning PostgreSQL documents,
  and a violated check constraint is an exception.

  \<^bold>\<open>Bounds.\<close> Theorems that an arithmetic operation returns ask for magnitudes far inside the
  exponent range of the decimal context; all other theorems hold for every value the code
  accepts. Sessions are searched twelve days around a moment, as in the code. Theorems on exact
  bookkeeping ask for amounts that fit the Numeric columns, which the columns themselves enforce;
  the ones on the policy's budget ask for prices of eight and amounts of four places below
  10^12; the one on round trips also bounds the history to a million trades, so that sums stay exact.

  \<^bold>\<open>Not modelled.\<close> Signalling NaNs, datetimes beyond year 9999, characters outside ASCII and JSON
  floating point; Korean message texts, which are datatypes that name the message; logging;
  foreign keys, column widths and bookkeeping timestamps of the tables; concurrency below the
  level of one statement; binary floating-point copies of figures and the statistics computed
  from them (Sharpe ratio, drawdown curves); the parsing of provider quotes, so the price provider
  is an argument, as are the clock, the time-zone database, the trade journals, exception texts and class names. Strategies, model calls, promotion statistics, HTTP and broker clients,
  screeners, research code and scripts are outside this development: they are input and output
  around the modelled decisions or not part of the running system.
\<close>

end
